(* ===== verification/Repo_Prelude.thy ===== *)
theory Repo_Prelude
  imports Main "HOL-Library.AList"
begin

text \<open>
  Shared vocabulary of the development.

  Go strings are byte strings, modelled by HOL's \<open>string\<close>. A Go \<open>time.Time\<close> in UTC is its
  number of nanoseconds since the epoch and a \<open>time.Duration\<close> a number of nanoseconds, both
  \<open>int\<close>. A Go map is an association list with pairwise distinct keys (\<open>gm_ok\<close>); the order of
  the list is one iteration order of Go's unordered \<open>range\<close>, so a theorem that holds for every
  list holds for every iteration order. A pointer that may be nil is an \<open>option\<close>; a struct
  behind a pointer that the code mutates in place is updated with \<open>gm_adjust\<close> under its key.
  \<open>map[string]any\<close> and \<open>[]any\<close> values are \<open>json\<close>.
\<close>

section \<open>Types\<close>

type_synonym gotime = int
type_synonym duration = int
type_synonym ('k, 'v) gomap = "('k \<times> 'v) list"

datatype json =
    JNull
  | JBool bool
  | JNum int
  | JStr string
  | JArr "json list"
  | JObj "(string \<times> json) list"

type_synonym jobject = "(string \<times> json) list"

abbreviation second :: duration where
  "second \<equiv> 1000000000"

section \<open>Go maps\<close>

named_theorems gomap_simps

definition gm_get :: "('k, 'v) gomap \<Rightarrow> 'k \<Rightarrow> 'v option" where
  "gm_get m k = map_of m k"

definition gm_put :: "'k \<Rightarrow> 'v \<Rightarrow> ('k, 'v) gomap \<Rightarrow> ('k, 'v) gomap" where
  "gm_put k v m = AList.update k v m"

definition gm_del :: "'k \<Rightarrow> ('k, 'v) gomap \<Rightarrow> ('k, 'v) gomap" where
  "gm_del k m = filter (\<lambda>p. fst p \<noteq> k) m"

definition gm_dels :: "'k list \<Rightarrow> ('k, 'v) gomap \<Rightarrow> ('k, 'v) gomap" where
  "gm_dels ks m = fold gm_del ks m"

definition gm_has :: "('k, 'v) gomap \<Rightarrow> 'k \<Rightarrow> bool" where
  "gm_has m k = (gm_get m k \<noteq> None)"

definition gm_adjust :: "'k \<Rightarrow> ('v \<Rightarrow> 'v) \<Rightarrow> ('k, 'v) gomap \<Rightarrow> ('k, 'v) gomap" where
  "gm_adjust k f m = (case gm_get m k of None \<Rightarrow> m | Some v \<Rightarrow> gm_put k (f v) m)"

definition gm_ok :: "('k, 'v) gomap \<Rightarrow> bool" where
  "gm_ok m = distinct (map fst m)"

lemma gm_get_Nil [simp, gomap_simps]: "gm_get [] k = None"
  by (simp add: gm_get_def)

lemma gm_get_Cons [gomap_simps]: "gm_get (p # m) k = (if fst p = k then Some (snd p) else gm_get m k)"
  by (cases p) (simp add: gm_get_def)

lemma gm_get_put [simp, gomap_simps]: "gm_get (gm_put k v m) k' = (if k' = k then Some v else gm_get m k')"
  by (simp add: gm_get_def gm_put_def update_conv')

lemma gm_get_filter_ne: "gm_get (filter (\<lambda>p. fst p \<noteq> k) m) k' = (if k' = k then None else gm_get m k')"
  by (induction m) (auto simp: gm_get_def)

lemma gm_get_del [simp, gomap_simps]: "gm_get (gm_del k m) k' = (if k' = k then None else gm_get m k')"
  by (simp add: gm_del_def gm_get_filter_ne)

lemma gm_get_dels [simp, gomap_simps]:
  "gm_get (gm_dels ks m) k' = (if k' \<in> set ks then None else gm_get m k')"
  by (induction ks arbitrary: m) (auto simp: gm_dels_def)

lemma gm_get_adjust [simp, gomap_simps]:
  "gm_get (gm_adjust k f m) k' = (if k' = k then map_option f (gm_get m k) else gm_get m k')"
  by (auto simp: gm_adjust_def split: option.splits)

lemma gm_ok_Nil [simp]: "gm_ok []"
  by (simp add: gm_ok_def)

lemma gm_ok_put [simp, intro]: "gm_ok m \<Longrightarrow> gm_ok (gm_put k v m)"
  by (simp add: gm_ok_def gm_put_def distinct_update)

lemma gm_ok_del [simp, intro]: "gm_ok m \<Longrightarrow> gm_ok (gm_del k m)"
  by (simp add: gm_ok_def gm_del_def distinct_map_filter)

lemma gm_ok_dels [simp, intro]: "gm_ok m \<Longrightarrow> gm_ok (gm_dels ks m)"
  by (induction ks arbitrary: m) (auto simp: gm_dels_def)

lemma gm_ok_adjust [simp, intro]: "gm_ok m \<Longrightarrow> gm_ok (gm_adjust k f m)"
  by (auto simp: gm_adjust_def split: option.splits)

lemma gm_has_iff: "gm_has m k \<longleftrightarrow> (\<exists>v. gm_get m k = Some v)"
  by (auto simp: gm_has_def)

lemma gm_get_mem: "gm_get m k = Some v \<Longrightarrow> (k, v) \<in> set m"
  by (simp add: gm_get_def map_of_SomeD)

lemma gm_mem_iff: "gm_ok m \<Longrightarrow> (k, v) \<in> set m \<longleftrightarrow> gm_get m k = Some v"
  by (simp add: gm_ok_def gm_get_def)

lemma gm_get_None_iff: "gm_get m k = None \<longleftrightarrow> k \<notin> fst ` set m"
  by (simp add: gm_get_def map_of_eq_None_iff)

text \<open>A loop \<open>for k, v := range m\<close> that collects the entries satisfying a test.\<close>

definition gm_select :: "('k \<Rightarrow> 'v \<Rightarrow> bool) \<Rightarrow> ('k, 'v) gomap \<Rightarrow> ('k \<times> 'v) list" where
  "gm_select P m = filter (\<lambda>(k, v). P k v) m"

lemma set_gm_select: "gm_ok m \<Longrightarrow> (k, v) \<in> set (gm_select P m) \<longleftrightarrow> gm_get m k = Some v \<and> P k v"
  by (auto simp: gm_select_def gm_mem_iff)

lemma set_keys_gm_select:
  "gm_ok m \<Longrightarrow> set (map fst (gm_select P m)) = {k. \<exists>v. gm_get m k = Some v \<and> P k v}"
  by (force simp: gm_select_def gm_mem_iff)

lemma distinct_keys_gm_select: "gm_ok m \<Longrightarrow> distinct (map fst (gm_select P m))"
  by (simp add: gm_select_def gm_ok_def distinct_map_filter)

text \<open>A loop that rewrites every value in place.\<close>

definition gm_map :: "('k \<Rightarrow> 'v \<Rightarrow> 'v) \<Rightarrow> ('k, 'v) gomap \<Rightarrow> ('k, 'v) gomap" where
  "gm_map f m = map (\<lambda>(k, v). (k, f k v)) m"

lemma gm_get_map [simp, gomap_simps]: "gm_get (gm_map f m) k = map_option (f k) (gm_get m k)"
  by (induction m) (auto simp: gm_map_def gm_get_def)

lemma gm_keys_map [simp]: "map fst (gm_map f m) = map fst m"
  by (induction m) (auto simp: gm_map_def)

lemma gm_ok_map [simp, intro]: "gm_ok m \<Longrightarrow> gm_ok (gm_map f m)"
  by (simp add: gm_ok_def)

section \<open>The map interface the components rely on\<close>

text \<open>
  Components state what they need of a keyed store through this interface; the in-memory maps
  and the SQLite tables of the model are its instances.
\<close>

locale keyed_store =
  fixes get :: "'m \<Rightarrow> 'k \<Rightarrow> 'v option"
    and put :: "'k \<Rightarrow> 'v \<Rightarrow> 'm \<Rightarrow> 'm"
    and del :: "'k \<Rightarrow> 'm \<Rightarrow> 'm"
  assumes get_put: "get (put k v m) k' = (if k' = k then Some v else get m k')"
    and get_del: "get (del k m) k' = (if k' = k then None else get m k')"
begin

lemma del_put: "get (del k (put k v m)) k' = get (del k m) k'"
  by (simp add: get_put get_del)

lemma put_commute: "k \<noteq> l \<Longrightarrow> get (put k v (put l w m)) x = get (put l w (put k v m)) x"
  by (simp add: get_put)

lemma fold_del: "get (fold del ks m) k' = (if k' \<in> set ks then None else get m k')"
  by (induction ks arbitrary: m) (auto simp: get_del)

lemma fold_put:
  "distinct (map fst kvs) \<Longrightarrow>
   get (fold (\<lambda>(k, v). put k v) kvs m) k' =
     (case map_of kvs k' of None \<Rightarrow> get m k' | Some v \<Rightarrow> Some v)"
proof (induction kvs arbitrary: m)
  case Nil
  then show ?case by simp
next
  case (Cons kv kvs)
  then show ?case
    by (cases kv) (auto simp: get_put split: option.splits dest: map_of_SomeD intro: rev_image_eqI)
qed

end

interpretation gomap: keyed_store gm_get gm_put gm_del
  by unfold_locales simp_all

section \<open>Generic lemmas\<close>

lemma length_filter_less_if_dropped:
  "x \<in> set xs \<Longrightarrow> \<not> P x \<Longrightarrow> length (filter P xs) < length xs"
  by (induction xs) (auto simp: le_imp_less_Suc)

lemma div_succ_le_iff:
  assumes "0 < (n::int)"
  shows "a div n + 1 \<le> k \<longleftrightarrow> a < k * n"
proof -
  have a: "a = (a div n) * n + a mod n" "0 \<le> a mod n" "a mod n < n" using assms by simp_all
  show ?thesis
  proof
    assume "a div n + 1 \<le> k"
    then have "(a div n + 1) * n \<le> k * n" using assms by (intro mult_right_mono) simp_all
    then have "(a div n) * n + n \<le> k * n" by (simp only: distrib_right mult_1)
    with a show "a < k * n" by linarith
  next
    assume "a < k * n"
    with a have "(a div n) * n < k * n" by linarith
    then have "a div n < k" using assms by simp
    then show "a div n + 1 \<le> k" by simp
  qed
qed

end
