(* ===== verification/Proto.thy ===== *)
theory Proto
  imports Repo_Prelude
begin

text \<open>
  The wire contract and identity types of \<open>daemon-go/proto/proto.go\<close>: the typed enums, the peer
  record and the durable session mapping. \<open>PeerID\<close> and \<open>DisplayName\<close> are distinct Go string
  types; here both are \<open>string\<close> and the field names keep them apart. The empty string is a value
  of \<open>AgentType\<close> and \<open>TurnState\<close> in Go, so the enums that the code compares with it keep
  the string form where that matters (\<open>TurnUnknown\<close>).
\<close>

section \<open>Enums\<close>

datatype CircleBoundary = CircleBoundarySession | CircleBoundaryWindow | CircleBoundaryOther string

datatype PeerStatus = StatusOnline | StatusBusy | StatusOffline

datatype PeerRole = RoleAgent | RoleService | RoleOrchestrator | RoleHuman

datatype TurnState = TurnUnknown | TurnIdle | TurnWorking | TurnAwaitingInput | TurnPendingFirstTurn

definition BypassesCircles :: "PeerRole \<Rightarrow> bool" where
  "BypassesCircles r \<longleftrightarrow> r = RoleService \<or> r = RoleOrchestrator \<or> r = RoleHuman"

lemma BypassesCircles_iff: "BypassesCircles r \<longleftrightarrow> r \<noteq> RoleAgent"
  by (cases r) (auto simp: BypassesCircles_def)

section \<open>Circles implied by tmux\<close>

text \<open>\<open>strings.TrimPrefix(s, "@")\<close> and the test \<open>strings.Trim(id, "0123456789") != ""\<close>.\<close>

fun TrimPrefixAt :: "string \<Rightarrow> string" where
  "TrimPrefixAt [] = []"
| "TrimPrefixAt (c # cs) = (if c = CHR ''@'' then cs else c # cs)"

definition is_digit :: "char \<Rightarrow> bool" where
  "is_digit c \<longleftrightarrow> c \<in> set ''0123456789''"

definition TrimCutset :: "(char \<Rightarrow> bool) \<Rightarrow> string \<Rightarrow> string" where
  "TrimCutset P s = rev (dropWhile P (rev (dropWhile P s)))"

fun TmuxCircle :: "CircleBoundary \<Rightarrow> string \<Rightarrow> string \<Rightarrow> string" where
  "TmuxCircle CircleBoundarySession sessionName windowID = sessionName"
| "TmuxCircle CircleBoundaryWindow sessionName windowID =
     (let i = TrimPrefixAt windowID
      in if i = [] \<or> TrimCutset is_digit i \<noteq> [] then [] else ''window-'' @ i)"
| "TmuxCircle (CircleBoundaryOther b) sessionName windowID = []"

lemma TrimCutset_Nil_iff: "TrimCutset P s = [] \<longleftrightarrow> (\<forall>c \<in> set s. P c)"
proof -
  have "TrimCutset P s = [] \<longleftrightarrow> (\<forall>c \<in> set (dropWhile P s). P c)"
    by (simp add: TrimCutset_def dropWhile_eq_Nil_conv)
  also have "\<dots> \<longleftrightarrow> (\<forall>c \<in> set s. P c)"
    by (induction s) auto
  finally show ?thesis .
qed

text \<open>A window circle exists exactly for an id of one or more digits, with or without the \<open>@\<close>.\<close>

lemma TmuxCircle_window_nonempty:
  "TmuxCircle CircleBoundaryWindow sn w \<noteq> [] \<longleftrightarrow>
     TrimPrefixAt w \<noteq> [] \<and> (\<forall>c \<in> set (TrimPrefixAt w). is_digit c)"
  by (auto simp: Let_def TrimCutset_Nil_iff)

section \<open>Peers and mappings\<close>

record peer =
  PeerID :: string
  DisplayName :: string
  Path :: string
  Machine :: string
  TmuxSession :: "string option"
  PaneID :: "string option"
  Backend :: string
  Model :: "string option"
  Circle :: string
  Role :: PeerRole
  Status :: PeerStatus
  TurnState :: TurnState
  LastSeen :: "gotime option"
  Metadata :: jobject
  Description :: string
  AgentPID :: "int option"

record mapping =
  mSessionID :: string
  mDisplayName :: string
  mCircle :: string
  mBackend :: string
  mPath :: "string option"
  mRole :: PeerRole
  mUpdatedAt :: gotime
  mDescription :: string
  mModel :: "string option"
  mAgentPID :: "int option"

definition AgentOpenCode :: string where
  "AgentOpenCode = ''opencode''"

definition PaneUnsafeStrikeLimit :: nat where
  "PaneUnsafeStrikeLimit = 3"

end
