(* ===== verification/Ask_Tracker.thy ===== *)
theory Ask_Tracker
  imports Proto "HOL-Library.Monad_Syntax"
begin

text \<open>
  The ask tracker of \<open>daemon-go/service/ask_tracker.go\<close>: the in-memory table of ask threads, the
  stash of undelivered replies, the quiesce barrier and the blocking answer waiters.

  Every Go method holds \<open>t.mu\<close>, so each is one function on the tracker state; the two blocking
  waits release it and are split into the part before the \<open>select\<close> and one function per arm of
  it. A waiter channel is a heap cell (\<open>tr_chans\<close>) named by an address and holding its buffer; it
  has capacity one, so a send into a full buffer blocks. Blocking with the mutex held (or a nil
  dereference in a loop body) is \<open>None\<close>, which is why the operations that signal a waiter return
  an \<open>option\<close>; \<open>ask_tracker_never_blocks\<close> shows it never happens. \<open>time.Now()\<close> and the random
  token of \<open>hex8\<close> are arguments.
\<close>

section \<open>Data\<close>

datatype ask_error =
    ErrAskNotFound
  | ErrAlreadyAnswered
  | ErrQuiesced
  | ErrQuiesceHasOpen
  | ErrOptionRequired
  | ErrUnknownOption string
  | ErrInvalidDefault ask_error
  | ErrInvalidDirection string

record asker_identity =
  aiDisplayName :: string
  aiCircle :: string
  aiBackend :: string
  aiPath :: string
  aiMachine :: string

record answer =
  Outcome :: string
  OptionID :: "string option"
  AnswerText :: "string option"
  Message :: "string option"

record ask =
  CorrelationID :: string
  FromPeerID :: string
  FromPeerName :: string
  ToPeerID :: string
  ToPeerName :: string
  Text :: string
  FromRepowireSessionID :: "string option"
  ToRepowireSessionID :: "string option"
  ReplyTo :: "string option"
  ParentID :: "string option"
  CreatedAt :: gotime
  Closed :: bool
  CloseReason :: string
  PendingReply :: "string option"
  PendingReplyAt :: "gotime option"
  AskerIdentity :: "asker_identity option"
  ReplyText :: "string option"
  RepliedAt :: "gotime option"
  ReplyDelivery :: string
  ReplyAttachments :: "jobject list"
  Question :: "jobject option"
  AskAnswer :: "answer option"

record tracker =
  tr_asks :: "(string, ask) gomap"
  tr_ttl :: duration
  tr_lastEviction :: "gotime option"
  tr_quiescing :: "(string, unit) gomap"
  tr_answerWaiters :: "(string, nat) gomap"
  tr_chans :: "(nat, answer list) gomap"
  tr_next :: nat

definition evictionInterval :: duration where
  "evictionInterval = 300 * second"

definition defaultAskTTL :: duration where
  "defaultAskTTL = 24 * 3600 * second"

definition NewAskTracker :: "duration \<Rightarrow> tracker" where
  "NewAskTracker ttl =
     \<lparr>tr_asks = [], tr_ttl = (if ttl \<le> 0 then defaultAskTTL else ttl), tr_lastEviction = None,
      tr_quiescing = [], tr_answerWaiters = [], tr_chans = [], tr_next = 0\<rparr>"

record register_params =
  rpFromPeerID :: string
  rpFromPeerName :: string
  rpToPeerID :: string
  rpToPeerName :: string
  rpText :: string
  rpReplyTo :: "string option"
  rpCorrelationID :: string
  rpFromRepowireSessionID :: "string option"
  rpToRepowireSessionID :: "string option"
  rpParentID :: "string option"
  rpQuestion :: "jobject option"
  rpReplyDelivery :: string

section \<open>Channels\<close>

definition chan_send :: "nat \<Rightarrow> answer \<Rightarrow> tracker \<Rightarrow> tracker option" where
  "chan_send w v t = (case gm_get (tr_chans t) w of
       Some [] \<Rightarrow> Some (t\<lparr>tr_chans := gm_put w [v] (tr_chans t)\<rparr>)
     | _ \<Rightarrow> None)"

definition chan_recv :: "nat \<Rightarrow> tracker \<Rightarrow> (answer \<times> tracker) option" where
  "chan_recv w t = (case gm_get (tr_chans t) w of
       Some (v # vs) \<Rightarrow> Some (v, t\<lparr>tr_chans := gm_put w vs (tr_chans t)\<rparr>)
     | _ \<Rightarrow> None)"

section \<open>Operations\<close>

definition new_ask :: "gotime \<Rightarrow> string \<Rightarrow> register_params \<Rightarrow> ask" where
  "new_ask now cid p =
     \<lparr>CorrelationID = cid, FromPeerID = rpFromPeerID p, FromPeerName = rpFromPeerName p,
      ToPeerID = rpToPeerID p, ToPeerName = rpToPeerName p, Text = rpText p,
      FromRepowireSessionID = rpFromRepowireSessionID p,
      ToRepowireSessionID = rpToRepowireSessionID p, ReplyTo = rpReplyTo p,
      ParentID = rpParentID p, CreatedAt = now, Closed = False, CloseReason = [],
      PendingReply = None, PendingReplyAt = None, AskerIdentity = None, ReplyText = None,
      RepliedAt = None,
      ReplyDelivery = (if rpReplyDelivery p = [] then ''push'' else rpReplyDelivery p),
      ReplyAttachments = [], Question = rpQuestion p, AskAnswer = None\<rparr>"

definition Register :: "gotime \<Rightarrow> string \<Rightarrow> register_params \<Rightarrow> tracker \<Rightarrow> (ask_error + string) \<times> tracker" where
  "Register now hex8 p t =
     (if gm_has (tr_quiescing t) (rpToPeerID p) then (Inl ErrQuiesced, t)
      else if gm_has (tr_quiescing t) (rpFromPeerID p) then (Inl ErrQuiesced, t)
      else let cid = (if rpCorrelationID p = [] then ''ask-'' @ hex8 else rpCorrelationID p) in
        if gm_has (tr_asks t) cid then (Inr cid, t)
        else (Inr cid, t\<lparr>tr_asks := gm_put cid (new_ask now cid p) (tr_asks t)\<rparr>))"

definition Get :: "string \<Rightarrow> tracker \<Rightarrow> ask option" where
  "Get cid t = gm_get (tr_asks t) cid"

definition ListByParent :: "string \<Rightarrow> tracker \<Rightarrow> ask list" where
  "ListByParent parentID t = map snd (gm_select (\<lambda>cid a. ParentID a = Some parentID) (tr_asks t))"

text \<open>Deleting a waiter and sending its value, the common tail of \<open>cancelWaiter\<close> and \<open>Answer\<close>.\<close>

definition resolveWaiter :: "string \<Rightarrow> answer \<Rightarrow> tracker \<Rightarrow> tracker option" where
  "resolveWaiter cid v t = (case gm_get (tr_answerWaiters t) cid of
       None \<Rightarrow> Some t
     | Some w \<Rightarrow> chan_send w v (t\<lparr>tr_answerWaiters := gm_del cid (tr_answerWaiters t)\<rparr>))"

definition outcome_answer :: "string \<Rightarrow> string option \<Rightarrow> answer" where
  "outcome_answer oc msg = \<lparr>Outcome = oc, OptionID = None, AnswerText = None, Message = msg\<rparr>"

definition cancelWaiter :: "string \<Rightarrow> string option \<Rightarrow> tracker \<Rightarrow> tracker option" where
  "cancelWaiter cid message t = resolveWaiter cid (outcome_answer ''cancelled'' message) t"

definition Close :: "string \<Rightarrow> string \<Rightarrow> tracker \<Rightarrow> (ask option \<times> tracker) option" where
  "Close cid reason t = (case gm_get (tr_asks t) cid of
       None \<Rightarrow> Some (None, t)
     | Some a \<Rightarrow>
         if Closed a then Some (None, t)
         else do {
           let a' = a\<lparr>Closed := True, CloseReason := reason\<rparr>;
           t' \<leftarrow> cancelWaiter cid (Some reason) (t\<lparr>tr_asks := gm_put cid a' (tr_asks t)\<rparr>);
           Some (Some a', t')
         })"

definition questionHasOption :: "jobject \<Rightarrow> string \<Rightarrow> bool" where
  "questionHasOption question i = (case gm_get question ''options'' of
       Some (JArr opts) \<Rightarrow>
         list_ex (\<lambda>opt. case opt of JObj m \<Rightarrow> gm_get m ''id'' = Some (JStr i) | _ \<Rightarrow> False) opts
     | _ \<Rightarrow> False)"

definition validateAnswer :: "jobject option \<Rightarrow> answer \<Rightarrow> ask_error option" where
  "validateAnswer question ans =
     (if Outcome ans \<in> {''timed_out'', ''cancelled'', ''acknowledged'', ''denied''} then None
      else case question of
        None \<Rightarrow> None
      | Some q \<Rightarrow>
          if gm_get q ''kind'' \<noteq> Some (JStr ''choice'') then None
          else case OptionID ans of
            None \<Rightarrow> Some ErrOptionRequired
          | Some i \<Rightarrow> if questionHasOption q i then None else Some (ErrUnknownOption i))"

definition record_answer :: "gotime \<Rightarrow> answer \<Rightarrow> ask \<Rightarrow> ask" where
  "record_answer now ans a =
     (let a1 = a\<lparr>AskAnswer := Some ans\<rparr>;
          a2 = (if AnswerText ans \<noteq> None \<and> ReplyText a1 = None
                then a1\<lparr>ReplyText := AnswerText ans, RepliedAt := Some now\<rparr> else a1)
      in a2\<lparr>Closed := True, CloseReason := ''answered''\<rparr>)"

definition Answer :: "gotime \<Rightarrow> string \<Rightarrow> answer \<Rightarrow> tracker \<Rightarrow> ((ask_error + ask) \<times> tracker) option" where
  "Answer now cid ans t = (case gm_get (tr_asks t) cid of
       None \<Rightarrow> Some (Inl ErrAskNotFound, t)
     | Some a \<Rightarrow>
         if Closed a \<or> AskAnswer a \<noteq> None then Some (Inl ErrAlreadyAnswered, t)
         else case validateAnswer (Question a) ans of
           Some err \<Rightarrow> Some (Inl err, t)
         | None \<Rightarrow> do {
             let a' = record_answer now ans a;
             t' \<leftarrow> resolveWaiter cid ans (t\<lparr>tr_asks := gm_put cid a' (tr_asks t)\<rparr>);
             Some (Inr a', t')
           })"

definition CaptureReply :: "gotime \<Rightarrow> string \<Rightarrow> string \<Rightarrow> jobject list \<Rightarrow> tracker \<Rightarrow> tracker" where
  "CaptureReply now cid replyText attachments t = (case gm_get (tr_asks t) cid of
       None \<Rightarrow> t
     | Some a \<Rightarrow>
         if ReplyText a \<noteq> None then t
         else let a1 = a\<lparr>ReplyText := Some replyText\<rparr>;
                  a2 = (if attachments \<noteq> [] then a1\<lparr>ReplyAttachments := attachments\<rparr> else a1)
              in t\<lparr>tr_asks := gm_put cid (a2\<lparr>RepliedAt := Some now\<rparr>) (tr_asks t)\<rparr>)"

definition waiterFor :: "string \<Rightarrow> tracker \<Rightarrow> nat \<times> tracker" where
  "waiterFor cid t = (case gm_get (tr_answerWaiters t) cid of
       Some w \<Rightarrow> (w, t)
     | None \<Rightarrow> (tr_next t,
         t\<lparr>tr_answerWaiters := gm_put cid (tr_next t) (tr_answerWaiters t),
           tr_chans := gm_put (tr_next t) [] (tr_chans t), tr_next := Suc (tr_next t)\<rparr>))"

subsection \<open>Blocking waits\<close>

datatype wait_begin = WaitError ask_error | WaitDone answer | WaitOn nat answer

definition WaitForAnswer_begin :: "string \<Rightarrow> answer option \<Rightarrow> tracker \<Rightarrow> wait_begin \<times> tracker" where
  "WaitForAnswer_begin cid defaultAnswer t =
     (let resolvedDefault = (case defaultAnswer of None \<Rightarrow> outcome_answer ''timed_out'' None | Some d \<Rightarrow> d)
      in case gm_get (tr_asks t) cid of
           None \<Rightarrow> (WaitError ErrAskNotFound, t)
         | Some a \<Rightarrow> (case AskAnswer a of
             Some ans \<Rightarrow> (WaitDone ans, t)
           | None \<Rightarrow>
               if Closed a then (WaitDone (outcome_answer ''cancelled'' (Some (CloseReason a))), t)
               else case validateAnswer (Question a) resolvedDefault of
                 Some err \<Rightarrow> (WaitError (ErrInvalidDefault err), t)
               | None \<Rightarrow> let (w, t') = waiterFor cid t in (WaitOn w resolvedDefault, t')))"

text \<open>The timer arm; the receive arm is \<open>chan_recv\<close> and the context arm changes nothing.\<close>

definition WaitForAnswer_timeout :: "gotime \<Rightarrow> string \<Rightarrow> answer \<Rightarrow> tracker \<Rightarrow> (answer \<times> tracker) option" where
  "WaitForAnswer_timeout now cid resolvedDefault t = do {
     (r, t') \<leftarrow> Answer now cid resolvedDefault t;
     Some (case r of
       Inr _ \<Rightarrow> (resolvedDefault, t')
     | Inl _ \<Rightarrow> (case Get cid t' of
         Some existing \<Rightarrow> (case AskAnswer existing of
           Some ans \<Rightarrow> (ans, t')
         | None \<Rightarrow> (resolvedDefault, t'))
       | None \<Rightarrow> (resolvedDefault, t')))
   }"

datatype resolution_begin = ResError ask_error | ResDone ask | ResWait nat

definition WaitForResolution_begin :: "string \<Rightarrow> bool \<Rightarrow> tracker \<Rightarrow> resolution_begin \<times> tracker" where
  "WaitForResolution_begin cid pull t = (case gm_get (tr_asks t) cid of
       None \<Rightarrow> (ResError ErrAskNotFound, t)
     | Some a \<Rightarrow>
         if Closed a then (ResDone a, t)
         else let t1 = (if pull then t\<lparr>tr_asks := gm_put cid (a\<lparr>ReplyDelivery := ''pull''\<rparr>) (tr_asks t)\<rparr> else t);
                  (w, t2) = waiterFor cid t1
              in (ResWait w, t2))"

definition WaitForResolution_recv :: "string \<Rightarrow> nat \<Rightarrow> tracker \<Rightarrow> (ask option \<times> tracker) option" where
  "WaitForResolution_recv cid w t = do {
     (_, t') \<leftarrow> chan_recv w t;
     Some (Get cid t', t')
   }"

subsection \<open>The pending-reply stash\<close>

definition SetPendingReply ::
  "gotime \<Rightarrow> string \<Rightarrow> string \<Rightarrow> asker_identity option \<Rightarrow> bool \<Rightarrow> tracker \<Rightarrow> bool \<times> tracker" where
  "SetPendingReply now cid framedReply ident allowAnsweredQuestion t = (case gm_get (tr_asks t) cid of
       None \<Rightarrow> (False, t)
     | Some a \<Rightarrow>
         if Closed a \<and> \<not> (allowAnsweredQuestion \<and> Question a \<noteq> None \<and> AskAnswer a \<noteq> None \<and>
                          CloseReason a = ''answered'')
         then (False, t)
         else (True, t\<lparr>tr_asks := gm_put cid
                 (a\<lparr>PendingReply := Some framedReply, AskerIdentity := ident,
                    PendingReplyAt := Some now\<rparr>) (tr_asks t)\<rparr>))"

definition MarkPendingReplyDelivered ::
  "string \<Rightarrow> string option \<Rightarrow> string \<Rightarrow> tracker \<Rightarrow> (bool \<times> tracker) option" where
  "MarkPendingReplyDelivered cid newFrom reason t = (case gm_get (tr_asks t) cid of
       None \<Rightarrow> Some (False, t)
     | Some a \<Rightarrow>
         if PendingReply a = None then Some (False, t)
         else let a1 = (case newFrom of None \<Rightarrow> a | Some f \<Rightarrow> a\<lparr>FromPeerID := f\<rparr>)
              in if \<not> Closed a1
                 then do {
                   let a2 = a1\<lparr>Closed := True, CloseReason := reason, PendingReply := None\<rparr>;
                   t' \<leftarrow> cancelWaiter cid (Some reason) (t\<lparr>tr_asks := gm_put cid a2 (tr_asks t)\<rparr>);
                   Some (True, t')
                 }
                 else Some (True, t\<lparr>tr_asks := gm_put cid (a1\<lparr>PendingReply := None\<rparr>) (tr_asks t)\<rparr>))"

definition RebindAndClose :: "string \<Rightarrow> string \<Rightarrow> string \<Rightarrow> tracker \<Rightarrow> (bool \<times> tracker) option" where
  "RebindAndClose cid newFrom reason t = (case gm_get (tr_asks t) cid of
       None \<Rightarrow> Some (False, t)
     | Some a \<Rightarrow>
         if Closed a then Some (False, t)
         else do {
           let a' = a\<lparr>FromPeerID := newFrom, Closed := True, CloseReason := reason, PendingReply := None\<rparr>;
           t' \<leftarrow> cancelWaiter cid (Some reason) (t\<lparr>tr_asks := gm_put cid a' (tr_asks t)\<rparr>);
           Some (True, t')
         })"

definition ClearPendingReply :: "string \<Rightarrow> tracker \<Rightarrow> tracker" where
  "ClearPendingReply cid t = (case gm_get (tr_asks t) cid of
       None \<Rightarrow> t
     | Some a \<Rightarrow> t\<lparr>tr_asks := gm_put cid (a\<lparr>PendingReply := None\<rparr>) (tr_asks t)\<rparr>)"

definition TakePendingRepliesForAsker :: "string \<Rightarrow> tracker \<Rightarrow> ask list" where
  "TakePendingRepliesForAsker i t =
     map snd (gm_select (\<lambda>cid a. FromPeerID a = i \<and> PendingReply a \<noteq> None) (tr_asks t))"

definition TakeOrphanPendingRepliesMatching ::
  "asker_identity \<Rightarrow> (string, unit) gomap \<Rightarrow> tracker \<Rightarrow> ask list" where
  "TakeOrphanPendingRepliesMatching i live t =
     map snd (gm_select (\<lambda>cid a.
       PendingReply a \<noteq> None \<and>
       (case AskerIdentity a of
          None \<Rightarrow> False
        | Some ident \<Rightarrow>
            aiDisplayName ident = aiDisplayName i \<and> aiCircle ident = aiCircle i \<and>
            aiBackend ident = aiBackend i \<and> aiPath ident = aiPath i \<and> aiMachine ident = aiMachine i) \<and>
       \<not> gm_has live (FromPeerID a)) (tr_asks t))"

definition involves :: "string \<Rightarrow> ask \<Rightarrow> bool" where
  "involves i a \<longleftrightarrow> ToPeerID a = i \<or> FromPeerID a = i"

definition SnapshotPendingRepliesForPeer :: "string \<Rightarrow> tracker \<Rightarrow> ask list" where
  "SnapshotPendingRepliesForPeer i t =
     map snd (gm_select (\<lambda>cid a. PendingReply a \<noteq> None \<and> involves i a) (tr_asks t))"

definition SnapshotExpiredPendingReplies :: "gotime \<Rightarrow> tracker \<Rightarrow> ask list" where
  "SnapshotExpiredPendingReplies now t =
     map snd (gm_select (\<lambda>cid a. CreatedAt a < now - tr_ttl t \<and> PendingReply a \<noteq> None) (tr_asks t))"

subsection \<open>Eviction, reminders and the quiesce barrier\<close>

fun drop_asks :: "string list \<Rightarrow> tracker \<Rightarrow> tracker option" where
  "drop_asks [] t = Some t"
| "drop_asks (cid # cids) t = (case gm_get (tr_asks t) cid of
       None \<Rightarrow> None
     | Some a \<Rightarrow> do {
         let a' = (if Closed a then a else a\<lparr>Closed := True, CloseReason := ''evicted''\<rparr>);
         t' \<leftarrow> cancelWaiter cid None (t\<lparr>tr_asks := gm_put cid a' (tr_asks t)\<rparr>);
         drop_asks cids (t'\<lparr>tr_asks := gm_del cid (tr_asks t')\<rparr>)
       })"

definition ForgetPeer :: "string \<Rightarrow> tracker \<Rightarrow> (nat \<times> tracker) option" where
  "ForgetPeer i t = do {
     let doomed = map fst (gm_select (\<lambda>cid a. involves i a) (tr_asks t));
     t' \<leftarrow> drop_asks doomed t;
     Some (length doomed, t')
   }"

definition EvictExpired :: "gotime \<Rightarrow> bool \<Rightarrow> tracker \<Rightarrow> (nat \<times> tracker) option" where
  "EvictExpired now includeStashed t = do {
     let expired = map fst (gm_select (\<lambda>cid a.
           CreatedAt a < now - tr_ttl t \<and> (includeStashed \<or> PendingReply a = None)) (tr_asks t));
     t' \<leftarrow> drop_asks expired t;
     Some (length expired, t')
   }"

definition maybeEvictExpired :: "gotime \<Rightarrow> gotime \<Rightarrow> tracker \<Rightarrow> tracker option" where
  "maybeEvictExpired now now' t =
     (case tr_lastEviction t of
        Some l \<Rightarrow> if now - l < evictionInterval then Some t
                  else map_option snd (EvictExpired now' False (t\<lparr>tr_lastEviction := Some now\<rparr>))
      | None \<Rightarrow> map_option snd (EvictExpired now' False (t\<lparr>tr_lastEviction := Some now\<rparr>)))"

fun direction_matches :: "string \<Rightarrow> string \<Rightarrow> ask \<Rightarrow> bool" where
  "direction_matches direction i a =
     (if direction = ''inbound'' then ToPeerID a = i
      else if direction = ''outbound'' then FromPeerID a = i
      else ToPeerID a = i \<or> FromPeerID a = i)"

text \<open>
  \<open>sort.Slice\<close> orders equal creation times arbitrarily; the stable sort used here is one of
  those orders.
\<close>

definition PendingForPeer ::
  "gotime \<Rightarrow> gotime \<Rightarrow> string \<Rightarrow> int \<Rightarrow> string \<Rightarrow> tracker \<Rightarrow> ((ask_error + ask list) \<times> tracker) option" where
  "PendingForPeer now now' i maxResults direction t =
     (if direction \<notin> {''inbound'', ''outbound'', ''both''} then Some (Inl (ErrInvalidDirection direction), t)
      else do {
        t' \<leftarrow> maybeEvictExpired now now' t;
        let candidates = sort_key (\<lambda>a. - CreatedAt a)
              (map snd (gm_select (\<lambda>cid a. direction_matches direction i a \<and> \<not> Closed a) (tr_asks t')));
        Some (Inr (if 0 \<le> maxResults \<and> maxResults < int (length candidates)
                   then take (nat maxResults) candidates else candidates), t')
      })"

definition BeginQuiesce :: "string \<Rightarrow> tracker \<Rightarrow> ask_error option \<times> tracker" where
  "BeginQuiesce i t =
     (if gm_has (tr_quiescing t) i then (Some ErrQuiesced, t)
      else if gm_select (\<lambda>cid a. \<not> Closed a \<and> involves i a) (tr_asks t) \<noteq> []
      then (Some ErrQuiesceHasOpen, t)
      else (None, t\<lparr>tr_quiescing := gm_put i () (tr_quiescing t)\<rparr>))"

definition EndQuiesce :: "string \<Rightarrow> tracker \<Rightarrow> tracker" where
  "EndQuiesce i t = t\<lparr>tr_quiescing := gm_del i (tr_quiescing t)\<rparr>"

definition OpenCount :: "tracker \<Rightarrow> nat" where
  "OpenCount t = length (gm_select (\<lambda>cid a. \<not> Closed a) (tr_asks t))"

definition TotalCount :: "tracker \<Rightarrow> nat" where
  "TotalCount t = length (tr_asks t)"

end
