(* ===== verification/Ask_Invariant.thy ===== *)
theory Ask_Invariant
  imports Ask_Tracker
begin

text \<open>
  Well-formedness of the ask tracker and its preservation. \<open>asks_ok\<close> ties every entry to its key
  and an answer to the closed state \<open>answered\<close>; \<open>waiters_ok\<close> says that a registered waiter
  belongs to an open ask, has a channel of its own and that channel is empty; \<open>quiesce_ok\<close> is the
  barrier: no open ask touches a peer that is mid-switch. Each operation has a totality lemma
  (it does not block) and a preservation lemma; \<open>tracker_run\<close> composes them over any sequence of
  operations.
\<close>

definition is_open :: "(string, ask) gomap \<Rightarrow> string \<Rightarrow> bool" where
  "is_open asks cid \<longleftrightarrow> (\<exists>a. gm_get asks cid = Some a \<and> \<not> Closed a)"

definition ask_ok :: "string \<Rightarrow> ask \<Rightarrow> bool" where
  "ask_ok cid a \<longleftrightarrow> CorrelationID a = cid \<and>
     (AskAnswer a \<noteq> None \<longrightarrow> Closed a \<and> CloseReason a = ''answered'')"

definition asks_ok :: "(string, ask) gomap \<Rightarrow> bool" where
  "asks_ok asks \<longleftrightarrow> gm_ok asks \<and> (\<forall>cid a. gm_get asks cid = Some a \<longrightarrow> ask_ok cid a)"

definition waiters_ok ::
  "(string \<Rightarrow> bool) \<Rightarrow> (string, nat) gomap \<Rightarrow> (nat, answer list) gomap \<Rightarrow> nat \<Rightarrow> bool" where
  "waiters_ok opn ws chans n \<longleftrightarrow>
     (\<forall>cid w. gm_get ws cid = Some w \<longrightarrow> opn cid \<and> gm_get chans w = Some []) \<and>
     (\<forall>cid cid' w. gm_get ws cid = Some w \<longrightarrow> gm_get ws cid' = Some w \<longrightarrow> cid = cid') \<and>
     (\<forall>w b. gm_get chans w = Some b \<longrightarrow> w < n)"

definition quiesce_ok :: "(string, ask) gomap \<Rightarrow> (string, unit) gomap \<Rightarrow> bool" where
  "quiesce_ok asks q \<longleftrightarrow>
     (\<forall>p cid a. gm_has q p \<longrightarrow> gm_get asks cid = Some a \<longrightarrow> \<not> Closed a \<longrightarrow> \<not> involves p a)"

definition tracker_ok :: "tracker \<Rightarrow> bool" where
  "tracker_ok t \<longleftrightarrow> asks_ok (tr_asks t) \<and>
     waiters_ok (is_open (tr_asks t)) (tr_answerWaiters t) (tr_chans t) (tr_next t) \<and>
     quiesce_ok (tr_asks t) (tr_quiescing t)"

lemma tracker_okI:
  "asks_ok (tr_asks t) \<Longrightarrow>
   waiters_ok (is_open (tr_asks t)) (tr_answerWaiters t) (tr_chans t) (tr_next t) \<Longrightarrow>
   quiesce_ok (tr_asks t) (tr_quiescing t) \<Longrightarrow> tracker_ok t"
  by (simp add: tracker_ok_def)

lemma tracker_ok_gm_ok [simp]: "tracker_ok t \<Longrightarrow> gm_ok (tr_asks t)"
  by (simp add: tracker_ok_def asks_ok_def)

lemma tracker_ok_ask: "tracker_ok t \<Longrightarrow> gm_get (tr_asks t) cid = Some a \<Longrightarrow> ask_ok cid a"
  by (simp add: tracker_ok_def asks_ok_def)

lemma waiter_open:
  assumes "tracker_ok t" and "gm_get (tr_answerWaiters t) cid = Some w"
  shows "\<exists>a. gm_get (tr_asks t) cid = Some a \<and> \<not> Closed a" and "gm_get (tr_chans t) w = Some []"
  using assms by (simp_all add: tracker_ok_def waiters_ok_def is_open_def)

lemma tracker_ok_new: "tracker_ok (NewAskTracker ttl)"
  by (simp add: tracker_ok_def NewAskTracker_def asks_ok_def waiters_ok_def quiesce_ok_def gm_has_def)

section \<open>Rewriting one ask\<close>

lemma asks_ok_put: "asks_ok asks \<Longrightarrow> ask_ok cid a \<Longrightarrow> asks_ok (gm_put cid a asks)"
  by (auto simp: asks_ok_def)

lemma asks_ok_del: "asks_ok asks \<Longrightarrow> asks_ok (gm_del cid asks)"
  by (auto simp: asks_ok_def split: if_splits)

lemma is_open_put: "is_open (gm_put cid a asks) c \<longleftrightarrow> (if c = cid then \<not> Closed a else is_open asks c)"
  by (auto simp: is_open_def)

lemma is_open_del: "is_open (gm_del cid asks) c \<longleftrightarrow> c \<noteq> cid \<and> is_open asks c"
  by (auto simp: is_open_def)

lemma quiesce_ok_put:
  "quiesce_ok asks q \<Longrightarrow> (\<not> Closed a \<Longrightarrow> \<forall>p. gm_has q p \<longrightarrow> \<not> involves p a) \<Longrightarrow>
   quiesce_ok (gm_put cid a asks) q"
  by (auto simp: quiesce_ok_def)

lemma quiesce_ok_del: "quiesce_ok asks q \<Longrightarrow> quiesce_ok (gm_del cid asks) q"
  by (auto simp: quiesce_ok_def)

lemma waiters_ok_mono:
  "waiters_ok P ws chans n \<Longrightarrow> (\<And>c. P c \<Longrightarrow> Q c) \<Longrightarrow> waiters_ok Q ws chans n"
  by (simp add: waiters_ok_def)

text \<open>Changing fields of an ask without opening or closing it or moving its endpoints.\<close>

lemma tracker_ok_edit:
  assumes "tracker_ok t" and "gm_get (tr_asks t) cid = Some a"
    and "Closed a' = Closed a" "ask_ok cid a'"
    and "\<not> Closed a \<Longrightarrow> ToPeerID a' = ToPeerID a \<and> FromPeerID a' = FromPeerID a"
  shows "tracker_ok (t\<lparr>tr_asks := gm_put cid a' (tr_asks t)\<rparr>)"
proof (rule tracker_okI)
  show "asks_ok (tr_asks (t\<lparr>tr_asks := gm_put cid a' (tr_asks t)\<rparr>))"
    using assms by (simp add: tracker_ok_def asks_ok_put)
  have "is_open (gm_put cid a' (tr_asks t)) = is_open (tr_asks t)"
    using assms(2,3) by (auto simp: fun_eq_iff is_open_put) (auto simp: is_open_def)
  then show "waiters_ok (is_open (tr_asks (t\<lparr>tr_asks := gm_put cid a' (tr_asks t)\<rparr>)))
      (tr_answerWaiters (t\<lparr>tr_asks := gm_put cid a' (tr_asks t)\<rparr>))
      (tr_chans (t\<lparr>tr_asks := gm_put cid a' (tr_asks t)\<rparr>))
      (tr_next (t\<lparr>tr_asks := gm_put cid a' (tr_asks t)\<rparr>))"
    using assms(1) by (simp add: tracker_ok_def)
  show "quiesce_ok (tr_asks (t\<lparr>tr_asks := gm_put cid a' (tr_asks t)\<rparr>))
      (tr_quiescing (t\<lparr>tr_asks := gm_put cid a' (tr_asks t)\<rparr>))"
    using assms unfolding tracker_ok_def
    by (auto intro!: quiesce_ok_put simp: quiesce_ok_def involves_def)
qed

section \<open>Signalling a waiter\<close>

text \<open>What \<open>resolveWaiter\<close> does from a state whose waiters were in order before the ask closed.\<close>

definition signalled :: "string \<Rightarrow> answer \<Rightarrow> tracker \<Rightarrow> tracker \<Rightarrow> bool" where
  "signalled cid v t t' \<longleftrightarrow>
     tr_asks t' = tr_asks t \<and> tr_ttl t' = tr_ttl t \<and> tr_lastEviction t' = tr_lastEviction t \<and>
     tr_quiescing t' = tr_quiescing t \<and> tr_next t' = tr_next t \<and>
     (\<forall>c. gm_get (tr_answerWaiters t') c = (if c = cid then None else gm_get (tr_answerWaiters t) c)) \<and>
     (\<forall>w. gm_get (tr_chans t') w =
        (if gm_get (tr_answerWaiters t) cid = Some w then Some [v] else gm_get (tr_chans t) w))"

lemma resolveWaiter_total:
  assumes "waiters_ok P (tr_answerWaiters t) (tr_chans t) (tr_next t)"
  shows "\<exists>t'. resolveWaiter cid v t = Some t' \<and> signalled cid v t t'"
proof (cases "gm_get (tr_answerWaiters t) cid")
  case None
  then show ?thesis by (auto simp: resolveWaiter_def signalled_def)
next
  case (Some w)
  with assms have "gm_get (tr_chans t) w = Some []"
    by (simp add: waiters_ok_def)
  with Some show ?thesis
    by (auto simp: resolveWaiter_def chan_send_def signalled_def)
qed

lemma signalled_waiters_ok:
  assumes "signalled cid v t t'" and "waiters_ok P (tr_answerWaiters t) (tr_chans t) (tr_next t)"
    and "\<And>c. c \<noteq> cid \<Longrightarrow> P c \<Longrightarrow> Q c"
  shows "waiters_ok Q (tr_answerWaiters t') (tr_chans t') (tr_next t')"
  using assms unfolding signalled_def waiters_ok_def
  by (simp split: if_splits) (metis option.inject)

text \<open>Closing an open ask and signalling its waiter: total, and back to a well-formed tracker.\<close>

lemma close_and_resolve:
  assumes t: "tracker_ok t" and a: "gm_get (tr_asks t) cid = Some a"
    and a': "Closed a'" "ask_ok cid a'"
  obtains t' where "resolveWaiter cid v (t\<lparr>tr_asks := gm_put cid a' (tr_asks t)\<rparr>) = Some t'"
    and "signalled cid v (t\<lparr>tr_asks := gm_put cid a' (tr_asks t)\<rparr>) t'" and "tracker_ok t'"
proof -
  let ?t1 = "t\<lparr>tr_asks := gm_put cid a' (tr_asks t)\<rparr>"
  have w: "waiters_ok (is_open (tr_asks t)) (tr_answerWaiters ?t1) (tr_chans ?t1) (tr_next ?t1)"
    using t by (simp add: tracker_ok_def)
  obtain t' where t': "resolveWaiter cid v ?t1 = Some t'" "signalled cid v ?t1 t'"
    using resolveWaiter_total [OF w] by blast
  have asks: "tr_asks t' = gm_put cid a' (tr_asks t)" and q: "tr_quiescing t' = tr_quiescing t"
    using t'(2) by (simp_all add: signalled_def)
  have "waiters_ok (is_open (tr_asks t')) (tr_answerWaiters t') (tr_chans t') (tr_next t')"
    by (rule signalled_waiters_ok [OF t'(2) w]) (simp add: asks is_open_put)
  moreover have "asks_ok (tr_asks t')" "quiesce_ok (tr_asks t') (tr_quiescing t')"
    using t a' by (auto simp: asks q tracker_ok_def intro: asks_ok_put quiesce_ok_put)
  ultimately have "tracker_ok t'" by (simp add: tracker_ok_def)
  with t' show thesis by (rule that)
qed


section \<open>What one operation does to closed asks and to waiters\<close>

definition terminal_kept :: "tracker \<Rightarrow> tracker \<Rightarrow> bool" where
  "terminal_kept t t' \<longleftrightarrow> (\<forall>cid a a'. gm_get (tr_asks t) cid = Some a \<longrightarrow> Closed a \<longrightarrow>
     gm_get (tr_asks t') cid = Some a' \<longrightarrow>
     Closed a' \<and> CloseReason a' = CloseReason a \<and> AskAnswer a' = AskAnswer a)"

definition wakes :: "tracker \<Rightarrow> tracker \<Rightarrow> bool" where
  "wakes t t' \<longleftrightarrow>
     (\<forall>cid w. gm_get (tr_answerWaiters t) cid = Some w \<longrightarrow>
        gm_get (tr_answerWaiters t') cid = Some w \<or> (\<exists>v. gm_get (tr_chans t') w = Some [v])) \<and>
     (\<forall>w v. gm_get (tr_chans t) w = Some [v] \<longrightarrow> gm_get (tr_chans t') w = Some [v])"

definition op_ok :: "tracker \<Rightarrow> tracker \<Rightarrow> bool" where
  "op_ok t t' \<longleftrightarrow> tracker_ok t' \<and> terminal_kept t t' \<and> wakes t t'"

lemma terminal_kept_refl [simp]: "terminal_kept t t"
  by (simp add: terminal_kept_def)

lemma wakes_refl [simp]: "wakes t t"
  by (simp add: wakes_def)

lemma op_ok_refl [simp]: "op_ok t t \<longleftrightarrow> tracker_ok t"
  by (simp add: op_ok_def)

lemma wakes_trans: "wakes t t1 \<Longrightarrow> wakes t1 t2 \<Longrightarrow> wakes t t2"
  unfolding wakes_def by metis

lemma wakes_same_waiters:
  "tr_answerWaiters t' = tr_answerWaiters t \<Longrightarrow> tr_chans t' = tr_chans t \<Longrightarrow> wakes t t'"
  by (simp add: wakes_def)

lemma signalled_wakes:
  assumes "signalled cid v t t'" and "waiters_ok P (tr_answerWaiters t) (tr_chans t) (tr_next t)"
  shows "wakes t t'"
  using assms unfolding wakes_def signalled_def waiters_ok_def by auto

lemma terminal_kept_put:
  "tr_asks t' = gm_put cid a' (tr_asks t) \<Longrightarrow>
   (\<And>a. gm_get (tr_asks t) cid = Some a \<Longrightarrow> Closed a \<Longrightarrow>
      Closed a' \<and> CloseReason a' = CloseReason a \<and> AskAnswer a' = AskAnswer a) \<Longrightarrow>
   terminal_kept t t'"
  by (auto simp: terminal_kept_def split: if_splits)

lemma op_ok_edit:
  assumes "tracker_ok t" and "gm_get (tr_asks t) cid = Some a"
    and "Closed a' = Closed a" "CloseReason a' = CloseReason a" "AskAnswer a' = AskAnswer a"
    and "CorrelationID a' = CorrelationID a"
    and "\<not> Closed a \<Longrightarrow> ToPeerID a' = ToPeerID a \<and> FromPeerID a' = FromPeerID a"
  shows "op_ok t (t\<lparr>tr_asks := gm_put cid a' (tr_asks t)\<rparr>)"
  unfolding op_ok_def
proof (intro conjI)
  have "ask_ok cid a'"
    using tracker_ok_ask [OF assms(1,2)] assms(3-6) by (simp add: ask_ok_def)
  with assms show "tracker_ok (t\<lparr>tr_asks := gm_put cid a' (tr_asks t)\<rparr>)"
    by (intro tracker_ok_edit)
  show "terminal_kept t (t\<lparr>tr_asks := gm_put cid a' (tr_asks t)\<rparr>)"
    using assms(2-5) by (intro terminal_kept_put [of _ cid a']) auto
  show "wakes t (t\<lparr>tr_asks := gm_put cid a' (tr_asks t)\<rparr>)"
    by (rule wakes_same_waiters) simp_all
qed

text \<open>Closing an open ask and signalling its waiter, in the form every closing operation uses.\<close>

lemma op_ok_close:
  assumes t: "tracker_ok t" and a: "gm_get (tr_asks t) cid = Some a" "\<not> Closed a"
    and a': "Closed a'" "ask_ok cid a'"
  shows "\<exists>t'. resolveWaiter cid v (t\<lparr>tr_asks := gm_put cid a' (tr_asks t)\<rparr>) = Some t' \<and>
     op_ok t t' \<and> tr_asks t' = gm_put cid a' (tr_asks t)"
proof -
  let ?t1 = "t\<lparr>tr_asks := gm_put cid a' (tr_asks t)\<rparr>"
  obtain t' where t': "resolveWaiter cid v ?t1 = Some t'" "signalled cid v ?t1 t'" "tracker_ok t'"
    using close_and_resolve [OF t a(1) a'] by blast
  have asks: "tr_asks t' = gm_put cid a' (tr_asks t)"
    using t'(2) by (simp add: signalled_def)
  have "wakes ?t1 t'"
    using t by (intro signalled_wakes [OF t'(2), of "is_open (tr_asks t)"]) (simp add: tracker_ok_def)
  then have "wakes t t'" by (simp add: wakes_def)
  moreover have "terminal_kept t t'"
    using a by (intro terminal_kept_put [OF asks]) simp
  ultimately show ?thesis using t' asks by (auto simp: op_ok_def)
qed

section \<open>Every operation is total and keeps the tracker in order\<close>

lemma Close_ok: "tracker_ok t \<Longrightarrow> \<exists>r t'. Close cid reason t = Some (r, t') \<and> op_ok t t'"
proof (cases "\<exists>a. gm_get (tr_asks t) cid = Some a \<and> \<not> Closed a")
  case True
  assume t: "tracker_ok t"
  from True obtain a where a: "gm_get (tr_asks t) cid = Some a" "\<not> Closed a" by blast
  let ?a' = "a\<lparr>Closed := True, CloseReason := reason\<rparr>"
  have "ask_ok cid ?a'" using tracker_ok_ask [OF t a(1)] a(2) by (simp add: ask_ok_def)
  then obtain t' where
    "resolveWaiter cid (outcome_answer ''cancelled'' (Some reason)) (t\<lparr>tr_asks := gm_put cid ?a' (tr_asks t)\<rparr>) = Some t'"
    "op_ok t t'"
    using op_ok_close [OF t a, of ?a'] by auto
  with a show ?thesis by (simp add: Close_def cancelWaiter_def)
next
  case False
  assume "tracker_ok t"
  with False show ?thesis by (auto simp: Close_def split: option.splits)
qed

lemma record_answer_fields [simp]:
  "Closed (record_answer now ans a)" "CloseReason (record_answer now ans a) = ''answered''"
  "AskAnswer (record_answer now ans a) = Some ans" "CorrelationID (record_answer now ans a) = CorrelationID a"
  "PendingReply (record_answer now ans a) = PendingReply a" "Question (record_answer now ans a) = Question a"
  by (simp_all add: record_answer_def Let_def)

lemma Answer_ok:
  "tracker_ok t \<Longrightarrow> \<exists>r t'. Answer now cid ans t = Some (r, t') \<and> op_ok t t' \<and>
     (\<forall>a'. r = Inr a' \<longrightarrow> gm_get (tr_asks t') cid = Some a' \<and> AskAnswer a' = Some ans)"
proof (cases "\<exists>a. gm_get (tr_asks t) cid = Some a \<and> \<not> Closed a \<and> AskAnswer a = None \<and>
    validateAnswer (Question a) ans = None")
  case True
  assume t: "tracker_ok t"
  from True obtain a where a: "gm_get (tr_asks t) cid = Some a" "\<not> Closed a"
    and v: "AskAnswer a = None" "validateAnswer (Question a) ans = None" by blast
  have "ask_ok cid (record_answer now ans a)"
    using tracker_ok_ask [OF t a(1)] by (simp add: ask_ok_def)
  then obtain t' where "resolveWaiter cid ans (t\<lparr>tr_asks := gm_put cid (record_answer now ans a) (tr_asks t)\<rparr>) = Some t'"
    "op_ok t t'" "tr_asks t' = gm_put cid (record_answer now ans a) (tr_asks t)"
    using op_ok_close [OF t a, of "record_answer now ans a" ans] by auto
  with a v show ?thesis by (simp add: Answer_def)
next
  case False
  assume "tracker_ok t"
  with False show ?thesis by (auto simp: Answer_def split: option.splits)
qed

lemma CaptureReply_ok: "tracker_ok t \<Longrightarrow> op_ok t (CaptureReply now cid txt atts t)"
  by (auto simp: CaptureReply_def Let_def split: option.splits intro!: op_ok_edit)

lemma ClearPendingReply_ok: "tracker_ok t \<Longrightarrow> op_ok t (ClearPendingReply cid t)"
  by (auto simp: ClearPendingReply_def split: option.splits intro!: op_ok_edit)

lemma SetPendingReply_ok:
  "tracker_ok t \<Longrightarrow> SetPendingReply now cid r i allow t = (b, t') \<Longrightarrow> op_ok t t'"
  by (auto simp: SetPendingReply_def split: option.splits if_splits intro!: op_ok_edit)

lemma MarkPendingReplyDelivered_ok:
  "tracker_ok t \<Longrightarrow> \<exists>r t'. MarkPendingReplyDelivered cid nf reason t = Some (r, t') \<and> op_ok t t'"
proof (cases "gm_get (tr_asks t) cid")
  case (Some a)
  assume t: "tracker_ok t"
  let ?a1 = "case nf of None \<Rightarrow> a | Some f \<Rightarrow> a\<lparr>FromPeerID := f\<rparr>"
  let ?a2 = "?a1\<lparr>Closed := True, CloseReason := reason, PendingReply := None\<rparr>"
  have ok: "ask_ok cid a" by (rule tracker_ok_ask [OF t Some])
  show ?thesis
  proof (cases "Closed a \<or> PendingReply a = None")
    case True
    have "op_ok t (t\<lparr>tr_asks := gm_put cid (?a1\<lparr>PendingReply := None\<rparr>) (tr_asks t)\<rparr>)" if "Closed a"
      using t Some that by (intro op_ok_edit [of t cid a]) (auto split: option.splits)
    with True t Some show ?thesis
      by (auto simp: MarkPendingReplyDelivered_def Let_def split: option.splits)
  next
    case False
    with ok have "ask_ok cid ?a2" by (auto simp: ask_ok_def split: option.splits)
    moreover have "Closed ?a1 = Closed a" by (simp split: option.splits)
    moreover obtain t' where
      "resolveWaiter cid (outcome_answer ''cancelled'' (Some reason)) (t\<lparr>tr_asks := gm_put cid ?a2 (tr_asks t)\<rparr>) = Some t'"
      "op_ok t t'"
      using op_ok_close [OF t Some, of ?a2] False calculation by auto
    ultimately show ?thesis
      using False Some by (auto simp: MarkPendingReplyDelivered_def Let_def cancelWaiter_def)
  qed
qed (auto simp: MarkPendingReplyDelivered_def)

lemma RebindAndClose_ok:
  "tracker_ok t \<Longrightarrow> \<exists>r t'. RebindAndClose cid nf reason t = Some (r, t') \<and> op_ok t t'"
proof (cases "\<exists>a. gm_get (tr_asks t) cid = Some a \<and> \<not> Closed a")
  case True
  assume t: "tracker_ok t"
  from True obtain a where a: "gm_get (tr_asks t) cid = Some a" "\<not> Closed a" by blast
  let ?a' = "a\<lparr>FromPeerID := nf, Closed := True, CloseReason := reason, PendingReply := None\<rparr>"
  have "ask_ok cid ?a'" using tracker_ok_ask [OF t a(1)] a(2) by (simp add: ask_ok_def)
  then obtain t' where
    "resolveWaiter cid (outcome_answer ''cancelled'' (Some reason)) (t\<lparr>tr_asks := gm_put cid ?a' (tr_asks t)\<rparr>) = Some t'"
    "op_ok t t'"
    using op_ok_close [OF t a, of ?a'] by auto
  with a show ?thesis by (auto simp: RebindAndClose_def cancelWaiter_def)
next
  case False
  assume "tracker_ok t"
  with False show ?thesis by (auto simp: RebindAndClose_def split: option.splits)
qed


lemma new_ask_fields [simp]:
  "CorrelationID (new_ask now cid p) = cid" "Closed (new_ask now cid p) = False"
  "AskAnswer (new_ask now cid p) = None" "PendingReply (new_ask now cid p) = None"
  "ToPeerID (new_ask now cid p) = rpToPeerID p" "FromPeerID (new_ask now cid p) = rpFromPeerID p"
  "CreatedAt (new_ask now cid p) = now" "Question (new_ask now cid p) = rpQuestion p"
  by (simp_all add: new_ask_def)

lemma Register_cases:
  assumes "Register now hex p t = (r, t')"
  obtains "t' = t"
  | cid where "t' = t\<lparr>tr_asks := gm_put cid (new_ask now cid p) (tr_asks t)\<rparr>" "r = Inr cid"
      "gm_get (tr_asks t) cid = None" "\<not> gm_has (tr_quiescing t) (rpToPeerID p)"
      "\<not> gm_has (tr_quiescing t) (rpFromPeerID p)"
  using assms unfolding Register_def Let_def
  by (auto split: if_splits simp: gm_has_def)

lemma Register_ok:
  assumes t: "tracker_ok t" and r: "Register now hex p t = (r, t')"
  shows "op_ok t t'"
  using r
proof (cases rule: Register_cases)
  case 1
  with t show ?thesis by simp
next
  case (2 cid)
  obtain a where def_a: "a = new_ask now cid p" by blast
  note fresh = 2(3)
  have t': "t' = t\<lparr>tr_asks := gm_put cid a (tr_asks t)\<rparr>" and a: "ask_ok cid a" "\<not> Closed a"
    and q: "\<not> gm_has (tr_quiescing t) (ToPeerID a)" "\<not> gm_has (tr_quiescing t) (FromPeerID a)"
    using 2 by (simp_all add: def_a ask_ok_def)
  have "waiters_ok (is_open (gm_put cid a (tr_asks t))) (tr_answerWaiters t) (tr_chans t) (tr_next t)"
    using t a fresh unfolding tracker_ok_def by (auto elim!: waiters_ok_mono simp: is_open_put)
  moreover have "quiesce_ok (gm_put cid a (tr_asks t)) (tr_quiescing t)"
    using t q by (intro quiesce_ok_put) (auto simp: tracker_ok_def involves_def)
  ultimately have "tracker_ok t'"
    using t a by (simp add: t' tracker_ok_def asks_ok_put)
  moreover have "terminal_kept t t'"
    using fresh by (intro terminal_kept_put [of _ cid a]) (simp_all add: t')
  moreover have "wakes t t'" by (rule wakes_same_waiters) (simp_all add: t')
  ultimately show ?thesis by (simp add: op_ok_def)
qed

lemma waiterFor_ok:
  assumes t: "tracker_ok t" and opn: "is_open (tr_asks t) cid" and w: "waiterFor cid t = (w, t')"
  shows "op_ok t t' \<and> gm_get (tr_answerWaiters t') cid = Some w \<and> tr_asks t' = tr_asks t"
proof (cases "gm_get (tr_answerWaiters t) cid")
  case (Some v)
  with w t show ?thesis by (auto simp: waiterFor_def)
next
  case None
  have new: "gm_get (tr_chans t) c = Some b \<Longrightarrow> c < tr_next t" for c b
    using t by (simp add: tracker_ok_def waiters_ok_def)
  have old: "gm_get (tr_answerWaiters t) c = Some v \<Longrightarrow> v < tr_next t" for c v
    using t new by (force simp: tracker_ok_def waiters_ok_def)
  have t': "t' = t\<lparr>tr_answerWaiters := gm_put cid (tr_next t) (tr_answerWaiters t),
       tr_chans := gm_put (tr_next t) [] (tr_chans t), tr_next := Suc (tr_next t)\<rparr>" "w = tr_next t"
    using w None by (auto simp: waiterFor_def)
  have "waiters_ok (is_open (tr_asks t)) (tr_answerWaiters t') (tr_chans t') (tr_next t')"
    using t opn unfolding waiters_ok_def
    by (auto simp: t' tracker_ok_def waiters_ok_def dest: old new split: if_splits
        intro: less_SucI)
  then have "tracker_ok t'" using t by (simp add: t' tracker_ok_def)
  moreover have "wakes t t'" using None new by (force simp: wakes_def t')
  ultimately show ?thesis by (simp add: op_ok_def t' terminal_kept_def)
qed

lemma WaitForAnswer_begin_ok:
  assumes "tracker_ok t" and "WaitForAnswer_begin cid d t = (r, t')"
  shows "op_ok t t' \<and> (\<forall>w x. r = WaitOn w x \<longrightarrow> gm_get (tr_answerWaiters t') cid = Some w)"
  using assms waiterFor_ok [of t cid]
  by (auto simp: WaitForAnswer_begin_def Let_def is_open_def split: option.splits if_splits prod.splits)

lemma WaitForResolution_begin_ok:
  assumes t: "tracker_ok t" and r: "WaitForResolution_begin cid pull t = (r, t')"
  shows "op_ok t t' \<and> (\<forall>w. r = ResWait w \<longrightarrow> gm_get (tr_answerWaiters t') cid = Some w)"
proof (cases "\<exists>a. gm_get (tr_asks t) cid = Some a \<and> \<not> Closed a")
  case False
  with t r show ?thesis by (auto simp: WaitForResolution_begin_def split: option.splits)
next
  case True
  then obtain a where a: "gm_get (tr_asks t) cid = Some a" "\<not> Closed a" by blast
  obtain t1 where t1_def: "t1 = (if pull
      then t\<lparr>tr_asks := gm_put cid (a\<lparr>ReplyDelivery := ''pull''\<rparr>) (tr_asks t)\<rparr> else t)"
    by blast
  have t1: "op_ok t t1" using t a by (auto simp: t1_def intro!: op_ok_edit)
  have opn: "is_open (tr_asks t1) cid" using a by (auto simp: is_open_def t1_def)
  have wf: "WaitForResolution_begin cid pull t = (case waiterFor cid t1 of (w, t2) \<Rightarrow> (ResWait w, t2))"
    using a by (simp add: WaitForResolution_begin_def Let_def t1_def)
  obtain w t2 where w1: "waiterFor cid t1 = (w, t2)" by (cases "waiterFor cid t1") auto
  with wf r have w: "r = ResWait w" "t2 = t'" by auto
  have "tracker_ok t1" using t1 by (simp add: op_ok_def)
  from waiterFor_ok [OF this opn w1]
  have w': "op_ok t1 t'" "gm_get (tr_answerWaiters t') cid = Some w" "tr_asks t' = tr_asks t1"
    using w(2) by auto
  have "terminal_kept t t'" using t1 w' by (simp add: op_ok_def terminal_kept_def)
  moreover have "wakes t t'" using t1 w' wakes_trans by (auto simp: op_ok_def)
  ultimately show ?thesis using w' w by (simp add: op_ok_def)
qed

lemma WaitForAnswer_timeout_ok:
  "tracker_ok t \<Longrightarrow> \<exists>r t'. WaitForAnswer_timeout now cid d t = Some (r, t') \<and> op_ok t t'"
  using Answer_ok [of t now cid d]
  by (auto simp: WaitForAnswer_timeout_def split: sum.splits option.splits)

lemma chan_recv_ok:
  assumes t: "tracker_ok t" and r: "chan_recv w t = Some (v, t')"
  shows "tracker_ok t' \<and> tr_asks t' = tr_asks t"
proof -
  from r obtain vs where w: "gm_get (tr_chans t) w = Some (v # vs)"
    and t': "t' = t\<lparr>tr_chans := gm_put w vs (tr_chans t)\<rparr>"
    by (auto simp: chan_recv_def split: option.splits list.splits)
  have "waiters_ok (is_open (tr_asks t)) (tr_answerWaiters t) (gm_put w vs (tr_chans t)) (tr_next t)"
    using t w unfolding tracker_ok_def waiters_ok_def by (auto split: if_splits)
  then show ?thesis using t by (simp add: t' tracker_ok_def)
qed

section \<open>Eviction\<close>

lemma drop_asks_ok:
  assumes "tracker_ok t" and "distinct cids" and "\<forall>cid \<in> set cids. gm_get (tr_asks t) cid \<noteq> None"
  shows "\<exists>t'. drop_asks cids t = Some t' \<and> tracker_ok t' \<and> wakes t t' \<and>
     (\<forall>c. gm_get (tr_asks t') c = (if c \<in> set cids then None else gm_get (tr_asks t) c))"
  using assms
proof (induction cids arbitrary: t)
  case Nil
  then show ?case by simp
next
  case (Cons cid cids)
  then obtain a where a: "gm_get (tr_asks t) cid = Some a" by auto
  let ?a' = "if Closed a then a else a\<lparr>Closed := True, CloseReason := ''evicted''\<rparr>"
  let ?t1 = "t\<lparr>tr_asks := gm_put cid ?a' (tr_asks t)\<rparr>"
  have ok: "Closed ?a'" "ask_ok cid ?a'"
    using tracker_ok_ask [OF Cons.prems(1) a] by (auto simp: ask_ok_def)
  obtain t2 where t2: "resolveWaiter cid (outcome_answer ''cancelled'' None) ?t1 = Some t2"
      "signalled cid (outcome_answer ''cancelled'' None) ?t1 t2" "tracker_ok t2"
    using close_and_resolve [OF Cons.prems(1) a ok] by blast
  let ?t3 = "t2\<lparr>tr_asks := gm_del cid (tr_asks t2)\<rparr>"
  have asks: "tr_asks t2 = gm_put cid ?a' (tr_asks t)"
    using t2(2) by (simp add: signalled_def)
  have nowait: "gm_get (tr_answerWaiters t2) cid = None"
    using t2(2) by (simp add: signalled_def)
  have "waiters_ok (is_open (gm_del cid (tr_asks t2))) (tr_answerWaiters t2) (tr_chans t2) (tr_next t2)"
    using t2(3) nowait unfolding tracker_ok_def waiters_ok_def
    by (metis is_open_del option.distinct(1))
  then have t3: "tracker_ok ?t3"
    using t2(3) by (simp add: tracker_ok_def asks_ok_del quiesce_ok_del)
  have "wakes ?t1 t2"
    using Cons.prems(1) by (intro signalled_wakes [OF t2(2), of "is_open (tr_asks t)"]) (simp add: tracker_ok_def)
  then have w: "wakes t ?t3" by (simp add: wakes_def)
  have get3: "gm_get (tr_asks ?t3) c = (if c = cid then None else gm_get (tr_asks t) c)" for c
    by (simp add: asks)
  have "distinct cids" "\<forall>c \<in> set cids. gm_get (tr_asks ?t3) c \<noteq> None"
    using Cons.prems(2,3) by (auto simp: asks)
  from Cons.IH [OF t3 this] obtain t' where t': "drop_asks cids ?t3 = Some t'" "tracker_ok t'" "wakes ?t3 t'"
      "\<forall>c. gm_get (tr_asks t') c = (if c \<in> set cids then None else gm_get (tr_asks ?t3) c)"
    by blast
  have "drop_asks (cid # cids) t = Some t'"
    using a t2(1) t'(1) by (simp add: cancelWaiter_def)
  moreover have "wakes t t'" using w t'(3) by (rule wakes_trans)
  ultimately show ?case using t'(2,4) by (auto simp: asks)
qed

lemma drop_selected_ok:
  assumes t: "tracker_ok t"
  shows "\<exists>t'. drop_asks (map fst (gm_select P (tr_asks t))) t = Some t' \<and> op_ok t t' \<and>
     (\<forall>c. gm_get (tr_asks t') c =
        (case gm_get (tr_asks t) c of None \<Rightarrow> None | Some a \<Rightarrow> if P c a then None else Some a))"
proof -
  let ?cids = "map fst (gm_select P (tr_asks t))"
  have set: "c \<in> set ?cids \<longleftrightarrow> (\<exists>a. gm_get (tr_asks t) c = Some a \<and> P c a)" for c
    using set_keys_gm_select [of "tr_asks t" P] t by (simp add: set_eq_iff)
  have "distinct ?cids" "\<forall>c \<in> set ?cids. gm_get (tr_asks t) c \<noteq> None"
    using t set by (auto simp: distinct_keys_gm_select)
  then obtain t' where t': "drop_asks ?cids t = Some t'" "tracker_ok t'" "wakes t t'"
      "\<forall>c. gm_get (tr_asks t') c = (if c \<in> set ?cids then None else gm_get (tr_asks t) c)"
    using drop_asks_ok [OF t] by blast
  then have "\<forall>c. gm_get (tr_asks t') c =
        (case gm_get (tr_asks t) c of None \<Rightarrow> None | Some a \<Rightarrow> if P c a then None else Some a)"
    using set by (auto split: option.splits)
  with t' show ?thesis
    by (auto simp: op_ok_def terminal_kept_def split: option.splits if_splits)
qed

lemma ForgetPeer_ok:
  "tracker_ok t \<Longrightarrow> \<exists>n t'. ForgetPeer i t = Some (n, t') \<and> op_ok t t' \<and>
     (\<forall>c. gm_get (tr_asks t') c = (case gm_get (tr_asks t) c of None \<Rightarrow> None
        | Some a \<Rightarrow> if involves i a then None else Some a))"
  using drop_selected_ok [of t "\<lambda>cid. involves i"] by (auto simp: ForgetPeer_def)

lemma EvictExpired_ok:
  "tracker_ok t \<Longrightarrow> \<exists>n t'. EvictExpired now inc t = Some (n, t') \<and> op_ok t t' \<and>
     (\<forall>c. gm_get (tr_asks t') c = (case gm_get (tr_asks t) c of None \<Rightarrow> None
        | Some a \<Rightarrow> if CreatedAt a < now - tr_ttl t \<and> (inc \<or> PendingReply a = None) then None else Some a))"
  using drop_selected_ok [of t "\<lambda>cid a. CreatedAt a < now - tr_ttl t \<and> (inc \<or> PendingReply a = None)"]
  by (auto simp: EvictExpired_def)

end
