(* ===== verification/Ask_Safety.thy ===== *)
theory Ask_Safety
  imports Ask_Invariant
begin

text \<open>
  The ask tracker as a state machine: \<open>tracker_step\<close> runs one operation, \<open>tracker_reach\<close> holds of
  every state reachable from an empty tracker by any interleaving of operations (each holds the
  mutex, so an interleaving is a sequence). The properties of the component are stated over
  reachable states.
\<close>

datatype tracker_op =
    OpRegister gotime string register_params
  | OpClose string string
  | OpAnswer gotime string answer
  | OpCaptureReply gotime string string "jobject list"
  | OpWaitForAnswer string "answer option"
  | OpWaitForAnswerTimeout gotime string answer
  | OpWaitForResolution string bool
  | OpReceive nat
  | OpSetPendingReply gotime string string "asker_identity option" bool
  | OpMarkPendingReplyDelivered string "string option" string
  | OpRebindAndClose string string string
  | OpClearPendingReply string
  | OpPendingForPeer gotime gotime string int string
  | OpForgetPeer string
  | OpEvictExpired gotime bool
  | OpBeginQuiesce string
  | OpEndQuiesce string

fun tracker_step :: "tracker_op \<Rightarrow> tracker \<Rightarrow> tracker option" where
  "tracker_step (OpRegister now hex p) t = Some (snd (Register now hex p t))"
| "tracker_step (OpClose cid reason) t = map_option snd (Close cid reason t)"
| "tracker_step (OpAnswer now cid ans) t = map_option snd (Answer now cid ans t)"
| "tracker_step (OpCaptureReply now cid txt atts) t = Some (CaptureReply now cid txt atts t)"
| "tracker_step (OpWaitForAnswer cid d) t = Some (snd (WaitForAnswer_begin cid d t))"
| "tracker_step (OpWaitForAnswerTimeout now cid d) t = map_option snd (WaitForAnswer_timeout now cid d t)"
| "tracker_step (OpWaitForResolution cid pull) t = Some (snd (WaitForResolution_begin cid pull t))"
| "tracker_step (OpReceive w) t = map_option snd (chan_recv w t)"
| "tracker_step (OpSetPendingReply now cid r i allow) t = Some (snd (SetPendingReply now cid r i allow t))"
| "tracker_step (OpMarkPendingReplyDelivered cid nf reason) t =
     map_option snd (MarkPendingReplyDelivered cid nf reason t)"
| "tracker_step (OpRebindAndClose cid nf reason) t = map_option snd (RebindAndClose cid nf reason t)"
| "tracker_step (OpClearPendingReply cid) t = Some (ClearPendingReply cid t)"
| "tracker_step (OpPendingForPeer now now' i n dir) t = map_option snd (PendingForPeer now now' i n dir t)"
| "tracker_step (OpForgetPeer i) t = map_option snd (ForgetPeer i t)"
| "tracker_step (OpEvictExpired now inc) t = map_option snd (EvictExpired now inc t)"
| "tracker_step (OpBeginQuiesce i) t = Some (snd (BeginQuiesce i t))"
| "tracker_step (OpEndQuiesce i) t = Some (EndQuiesce i t)"

inductive tracker_reach :: "tracker \<Rightarrow> bool" where
  reach_new: "tracker_reach (NewAskTracker ttl)"
| reach_step: "tracker_reach t \<Longrightarrow> tracker_step oper t = Some t' \<Longrightarrow> tracker_reach t'"

fun is_receive :: "tracker_op \<Rightarrow> bool" where
  "is_receive (OpReceive w) = True"
| "is_receive _ = False"

section \<open>Reminders and the barrier\<close>

lemma tracker_ok_lastEviction: "tracker_ok (t\<lparr>tr_lastEviction := l\<rparr>) = tracker_ok t"
  by (simp add: tracker_ok_def)

lemma maybeEvictExpired_ok:
  assumes t: "tracker_ok t"
  shows "\<exists>t'. maybeEvictExpired now now' t = Some t' \<and> op_ok t t' \<and>
     (\<forall>c a. gm_get (tr_asks t) c = Some a \<longrightarrow>
        gm_get (tr_asks t') c = Some a \<or> gm_get (tr_asks t') c = None \<and> PendingReply a = None) \<and>
     (\<forall>c a. gm_get (tr_asks t') c = Some a \<longrightarrow> gm_get (tr_asks t) c = Some a)"
proof -
  let ?t1 = "t\<lparr>tr_lastEviction := Some now\<rparr>"
  have "tracker_ok ?t1" using t by (simp add: tracker_ok_lastEviction)
  from EvictExpired_ok [OF this, of now' False] obtain n t' where
    t': "EvictExpired now' False ?t1 = Some (n, t')" "op_ok ?t1 t'" and
    g0: "\<forall>c. gm_get (tr_asks t') c = (case gm_get (tr_asks ?t1) c of None \<Rightarrow> None
        | Some a \<Rightarrow> if CreatedAt a < now' - tr_ttl ?t1 \<and> (False \<or> PendingReply a = None)
             then None else Some a)"
    by blast
  have g: "gm_get (tr_asks t') c = (case gm_get (tr_asks t) c of None \<Rightarrow> None
        | Some a \<Rightarrow> if CreatedAt a < now' - tr_ttl t \<and> PendingReply a = None then None else Some a)" for c
    using g0 by (simp split: option.split)
  have ok: "op_ok t t'" using t'(2) by (simp add: op_ok_def terminal_kept_def wakes_def)
  show ?thesis
  proof (cases "maybeEvictExpired now now' t = Some t")
    case True
    with t show ?thesis by simp
  next
    case False
    with t'(1) have "maybeEvictExpired now now' t = Some t'"
      by (auto simp: maybeEvictExpired_def split: option.splits if_splits)
    with ok g show ?thesis by (auto split: option.splits if_splits)
  qed
qed

lemma PendingForPeer_ok:
  assumes t: "tracker_ok t"
  shows "\<exists>r t'. PendingForPeer now now' i n dir t = Some (r, t') \<and> op_ok t t'"
proof (cases "dir \<in> {''inbound'', ''outbound'', ''both''}")
  case True
  from maybeEvictExpired_ok [OF t, of now now'] obtain t' where
    "maybeEvictExpired now now' t = Some t'" "op_ok t t'" by blast
  with True show ?thesis by (simp add: PendingForPeer_def Let_def del: direction_matches.simps)
next
  case False
  with t show ?thesis by (simp add: PendingForPeer_def)
qed

lemma BeginQuiesce_ok:
  assumes t: "tracker_ok t" and b: "BeginQuiesce i t = (e, t')"
  shows "op_ok t t' \<and> (e = None \<longrightarrow> gm_has (tr_quiescing t') i)"
proof (cases "e = None")
  case False
  with t b show ?thesis by (auto simp: BeginQuiesce_def split: if_splits)
next
  case True
  with b have t': "t' = t\<lparr>tr_quiescing := gm_put i () (tr_quiescing t)\<rparr>"
    and none: "gm_select (\<lambda>cid a. \<not> Closed a \<and> involves i a) (tr_asks t) = []"
    by (auto simp: BeginQuiesce_def split: if_splits)
  have "\<not> involves i a" if "gm_get (tr_asks t) c = Some a" "\<not> Closed a" for c a
    using set_gm_select [of "tr_asks t" c a "\<lambda>cid a. \<not> Closed a \<and> involves i a"] that t none by simp
  then have "tracker_ok t'"
    using t by (auto simp: t' tracker_ok_def quiesce_ok_def gm_has_def split: if_splits)
  then show ?thesis
    by (auto simp: t' op_ok_def terminal_kept_def gm_has_def intro: wakes_same_waiters)
qed

lemma EndQuiesce_ok: "tracker_ok t \<Longrightarrow> op_ok t (EndQuiesce i t)"
  by (auto simp: op_ok_def EndQuiesce_def tracker_ok_def quiesce_ok_def gm_has_def terminal_kept_def
      intro: wakes_same_waiters split: if_splits)

section \<open>One step\<close>

lemmas op_total = Close_ok Answer_ok WaitForAnswer_timeout_ok MarkPendingReplyDelivered_ok
  RebindAndClose_ok PendingForPeer_ok ForgetPeer_ok EvictExpired_ok

lemmas op_pure = CaptureReply_ok ClearPendingReply_ok EndQuiesce_ok

lemma tracker_step_ok:
  assumes t: "tracker_ok t" and nr: "\<not> is_receive oper"
  shows "\<exists>t'. tracker_step oper t = Some t' \<and> op_ok t t'"
proof (cases oper)
  case (OpRegister now hex p)
  with t Register_ok [of t now hex p] show ?thesis by (metis prod.collapse tracker_step.simps(1))
next
  case (OpWaitForAnswer cid d)
  with t WaitForAnswer_begin_ok [of t cid d] show ?thesis by (metis prod.collapse tracker_step.simps(5))
next
  case (OpWaitForResolution cid pull)
  with t WaitForResolution_begin_ok [of t cid pull] show ?thesis by (metis prod.collapse tracker_step.simps(7))
next
  case (OpSetPendingReply now cid r i allow)
  with t SetPendingReply_ok [of t now cid r i allow] show ?thesis by (metis prod.collapse tracker_step.simps(9))
next
  case (OpBeginQuiesce i)
  with t BeginQuiesce_ok [of t i] show ?thesis by (metis prod.collapse tracker_step.simps(16))
next
  case (OpReceive w)
  with nr show ?thesis by simp
next
  case (OpAnswer now cid ans)
  with Answer_ok [OF t, of now cid ans] show ?thesis by auto
next
  case (OpPendingForPeer now now' i n dir)
  with PendingForPeer_ok [OF t, of now now' i n dir] show ?thesis by auto
next
  case (OpForgetPeer i)
  with ForgetPeer_ok [OF t, of i] show ?thesis by auto
next
  case (OpEvictExpired now inc)
  with EvictExpired_ok [OF t, of now inc] show ?thesis by auto
next
  case (OpClose cid reason)
  with Close_ok [OF t, of cid reason] show ?thesis by auto
next
  case (OpWaitForAnswerTimeout now cid d)
  with WaitForAnswer_timeout_ok [OF t, of now cid d] show ?thesis by auto
next
  case (OpMarkPendingReplyDelivered cid nf reason)
  with MarkPendingReplyDelivered_ok [OF t, of cid nf reason] show ?thesis by auto
next
  case (OpRebindAndClose cid nf reason)
  with RebindAndClose_ok [OF t, of cid nf reason] show ?thesis by auto
qed (auto intro: op_pure t)

lemma tracker_step_preserves: "tracker_ok t \<Longrightarrow> tracker_step oper t = Some t' \<Longrightarrow> tracker_ok t'"
proof (cases "is_receive oper")
  case True
  assume "tracker_ok t" "tracker_step oper t = Some t'"
  with True show ?thesis by (cases oper) (auto dest: chan_recv_ok)
next
  case False
  assume "tracker_ok t" "tracker_step oper t = Some t'"
  with False show ?thesis using tracker_step_ok [of t oper] by (auto simp: op_ok_def)
qed

lemma tracker_reach_ok: "tracker_reach t \<Longrightarrow> tracker_ok t"
  by (induction rule: tracker_reach.induct) (auto simp: tracker_ok_new intro: tracker_step_preserves)

lemma step_keeps_terminal:
  "tracker_ok t \<Longrightarrow> tracker_step oper t = Some t' \<Longrightarrow> terminal_kept t t'"
proof (cases "is_receive oper")
  case True
  assume t: "tracker_ok t" and s: "tracker_step oper t = Some t'"
  from True s obtain w v where "chan_recv w t = Some (v, t')"
    by (cases oper) auto
  with t have "tr_asks t' = tr_asks t" by (auto dest: chan_recv_ok)
  then show ?thesis by (simp add: terminal_kept_def)
next
  case False
  assume "tracker_ok t" "tracker_step oper t = Some t'"
  with False show ?thesis using tracker_step_ok [of t oper] by (auto simp: op_ok_def)
qed


section \<open>Runs\<close>

fun tracker_run :: "tracker_op list \<Rightarrow> tracker \<Rightarrow> tracker option" where
  "tracker_run [] t = Some t"
| "tracker_run (oper # ops) t = (case tracker_step oper t of None \<Rightarrow> None | Some t' \<Rightarrow> tracker_run ops t')"

lemma tracker_run_reach: "tracker_reach t \<Longrightarrow> tracker_run ops t = Some t' \<Longrightarrow> tracker_reach t'"
  by (induction ops arbitrary: t) (auto split: option.splits intro: reach_step)

text \<open>No operation but \<open>EndQuiesce\<close> lowers the barrier of a peer.\<close>

lemma resolveWaiter_quiescing:
  "resolveWaiter cid v t = Some t' \<Longrightarrow> tr_quiescing t' = tr_quiescing t"
  by (auto simp: resolveWaiter_def chan_send_def split: option.splits list.splits)

lemma drop_asks_quiescing: "drop_asks cids t = Some t' \<Longrightarrow> tr_quiescing t' = tr_quiescing t"
  by (induction cids arbitrary: t)
    (auto simp: cancelWaiter_def Let_def bind_eq_Some_conv dest!: resolveWaiter_quiescing split: option.splits)

lemma EvictExpired_quiescing:
  "EvictExpired now inc t = Some (n, t') \<Longrightarrow> tr_quiescing t' = tr_quiescing t"
  by (auto simp: EvictExpired_def bind_eq_Some_conv dest: drop_asks_quiescing)

lemma maybeEvictExpired_quiescing:
  "maybeEvictExpired now now' t = Some t' \<Longrightarrow> tr_quiescing t' = tr_quiescing t"
  by (auto simp: maybeEvictExpired_def dest!: EvictExpired_quiescing split: option.splits if_splits)

lemma Answer_quiescing: "Answer now cid ans t = Some (r, t') \<Longrightarrow> tr_quiescing t' = tr_quiescing t"
  by (auto simp: Answer_def Let_def bind_eq_Some_conv dest!: resolveWaiter_quiescing split: option.splits if_splits)

lemma WaitForAnswer_timeout_quiescing:
  assumes "WaitForAnswer_timeout now cid d t = Some (r, t')"
  shows "tr_quiescing t' = tr_quiescing t"
proof -
  from assms obtain x t0 where x: "Answer now cid d t = Some (x, t0)"
    by (auto simp: WaitForAnswer_timeout_def bind_eq_Some_conv)
  with assms have "t' = t0"
    by (cases x) (auto simp: WaitForAnswer_timeout_def split: option.splits)
  with Answer_quiescing [OF x] show ?thesis by simp
qed

lemma waiterFor_quiescing [simp]: "tr_quiescing (snd (waiterFor cid t)) = tr_quiescing t"
  by (simp add: waiterFor_def split: option.split)

lemma tracker_step_barrier:
  assumes "tracker_step oper t = Some t'" and "gm_has (tr_quiescing t) p" and "oper \<noteq> OpEndQuiesce p"
  shows "gm_has (tr_quiescing t') p"
proof (cases "tr_quiescing t' = tr_quiescing t")
  case True
  with assms(2) show ?thesis by simp
next
  case False
  then show ?thesis
  proof (cases oper)
    case (OpBeginQuiesce i)
    with assms show ?thesis by (auto simp: BeginQuiesce_def gm_has_def)
  next
    case (OpEndQuiesce i)
    with assms show ?thesis by (auto simp: EndQuiesce_def gm_has_def)
  next
    case (OpRegister now hex pr)
    with assms False show ?thesis by (auto simp: Register_def Let_def split: if_splits)
  next
    case (OpWaitForAnswer cid d)
    with assms(1) have "tr_quiescing t' = tr_quiescing t"
      using waiterFor_quiescing [of cid t]
      by (auto simp: WaitForAnswer_begin_def Let_def split_beta split: option.splits if_splits)
    with False show ?thesis by simp
  next
    case (OpWaitForResolution cid pull)
    with assms(1) have "tr_quiescing t' = tr_quiescing t"
      using waiterFor_quiescing
      by (auto simp: WaitForResolution_begin_def Let_def split_beta split: option.splits if_splits)
    with False show ?thesis by simp
  next
    case (OpWaitForAnswerTimeout now cid d)
    with assms(1) have "tr_quiescing t' = tr_quiescing t"
      by (auto dest: WaitForAnswer_timeout_quiescing)
    with False show ?thesis by simp
  next
    case (OpSetPendingReply now cid r i allow)
    with assms False show ?thesis by (auto simp: SetPendingReply_def split: option.splits if_splits)
  qed (use assms(1) False in \<open>auto simp: Close_def CaptureReply_def
      chan_recv_def MarkPendingReplyDelivered_def RebindAndClose_def ClearPendingReply_def
      PendingForPeer_def ForgetPeer_def cancelWaiter_def Let_def bind_eq_Some_conv
      dest!: resolveWaiter_quiescing drop_asks_quiescing EvictExpired_quiescing
        maybeEvictExpired_quiescing Answer_quiescing
      split: option.splits if_splits list.splits\<close>)
qed

lemma tracker_run_barrier:
  "tracker_run ops t = Some t' \<Longrightarrow> gm_has (tr_quiescing t) p \<Longrightarrow> OpEndQuiesce p \<notin> set ops \<Longrightarrow>
   gm_has (tr_quiescing t') p"
proof (induction ops arbitrary: t)
  case Nil
  then show ?case by simp
next
  case (Cons oper ops)
  then show ?case
    using tracker_step_barrier [of oper t _ p] by (auto split: option.splits)
qed


section \<open>A concrete run\<close>

definition demo_params :: register_params where
  "demo_params = \<lparr>rpFromPeerID = ''p1'', rpFromPeerName = ''a'', rpToPeerID = ''p2'', rpToPeerName = ''b'',
     rpText = ''q'', rpReplyTo = None, rpCorrelationID = ''c1'', rpFromRepowireSessionID = None,
     rpToRepowireSessionID = None, rpParentID = None,
     rpQuestion = Some [(''kind'', JStr ''choice''), (''options'', JArr [JObj [(''id'', JStr ''yes'')]])],
     rpReplyDelivery = []\<rparr>"

definition demo_yes :: answer where
  "demo_yes = \<lparr>Outcome = ''answered'', OptionID = Some ''yes'', AnswerText = None, Message = None\<rparr>"

lemmas demo_eval = demo_params_def demo_yes_def NewAskTracker_def defaultAskTTL_def Register_def new_ask_def
  WaitForResolution_begin_def WaitForResolution_recv_def waiterFor_def Close_def cancelWaiter_def
  resolveWaiter_def chan_send_def chan_recv_def outcome_answer_def Answer_def validateAnswer_def
  questionHasOption_def record_answer_def BeginQuiesce_def gm_select_def involves_def Get_def
  SetPendingReply_def PendingForPeer_def maybeEvictExpired_def EvictExpired_def gm_has_def
  gm_put_def gm_get_def gm_del_def Let_def is_open_def

definition demo_ops :: "tracker_op list" where
  "demo_ops = [OpRegister 5 ''00'' demo_params, OpWaitForResolution ''c1'' True]"

lemma demo_run:
  obtains t where "tracker_run demo_ops (NewAskTracker 0) = Some t" "tracker_reach t"
    "gm_get (tr_asks t) ''c1'' = Some ((new_ask 5 ''c1'' demo_params)\<lparr>ReplyDelivery := ''pull''\<rparr>)"
    "gm_get (tr_answerWaiters t) ''c1'' = Some 0"
proof -
  obtain t where t: "tracker_run demo_ops (NewAskTracker 0) = Some t"
    and f: "gm_get (tr_asks t) ''c1'' = Some ((new_ask 5 ''c1'' demo_params)\<lparr>ReplyDelivery := ''pull''\<rparr>)"
    "gm_get (tr_answerWaiters t) ''c1'' = Some 0"
    by (simp add: demo_ops_def demo_eval)
  with tracker_run_reach [OF reach_new t] show thesis by (intro that)
qed

section \<open>Properties\<close>

text \<open>
  C4: no operation of the ask tracker ever blocks while it holds the mutex. In every reachable
  state, every operation (registering, closing, answering, waiting, evicting, ...) completes: the
  send to a waiter's channel always finds the buffer empty and no loop meets a missing entry.
\<close>

theorem ask_tracker_never_blocks:
  assumes "tracker_reach t" and "\<not> is_receive oper"
  shows "\<exists>t'. tracker_step oper t = Some t'"
  using tracker_step_ok [OF tracker_reach_ok [OF assms(1)] assms(2)] by blast

theorem ask_tracker_never_blocks_witness:
  "\<exists>t t'. tracker_run demo_ops (NewAskTracker 0) = Some t \<and>
     tracker_step (OpClose ''c1'' ''ack'') t = Some t'"
  by (rule demo_run) (use ask_tracker_never_blocks [of _ "OpClose ''c1'' ''ack''"] in auto)

text \<open>
  C20: the first terminal state of an ask wins. Once an ask is closed, no later operation reopens
  it or changes its close reason or its recorded answer, as long as the entry exists.
\<close>

theorem first_terminal_state_wins:
  assumes "tracker_reach t" and "tracker_step oper t = Some t'"
    and "gm_get (tr_asks t) cid = Some a" and "Closed a" and "gm_get (tr_asks t') cid = Some a'"
  shows "Closed a' \<and> CloseReason a' = CloseReason a \<and> AskAnswer a' = AskAnswer a"
  using step_keeps_terminal [OF tracker_reach_ok [OF assms(1)] assms(2)] assms(3-5)
  unfolding terminal_kept_def by blast

theorem first_terminal_state_wins_witness:
  "\<exists>t t' a'. tracker_step (OpAnswer 9 ''c1'' demo_yes) t = Some t' \<and>
     gm_get (tr_asks t') ''c1'' = Some a' \<and> CloseReason a' = ''ack'' \<and> AskAnswer a' = None"
proof -
  obtain t a where t: "tracker_run [OpRegister 5 ''00'' demo_params, OpClose ''c1'' ''ack''] (NewAskTracker 0) = Some t"
    and a: "gm_get (tr_asks t) ''c1'' = Some a" "Closed a" "CloseReason a = ''ack''" "AskAnswer a = None"
    by (simp add: demo_eval)
  have r: "tracker_reach t" by (rule tracker_run_reach [OF reach_new t])
  from a have s: "tracker_step (OpAnswer 9 ''c1'' demo_yes) t = Some t" by (simp add: Answer_def)
  from first_terminal_state_wins [OF r s a(1,2) a(1)] a s show ?thesis by blast
qed

text \<open>
  C21: the quiesce barrier holds for the whole switch. After a successful \<open>BeginQuiesce\<close> of a peer,
  through any sequence of operations that does not end that peer's quiesce, no open ask has the
  peer as its sender or its recipient (not through \<open>Register\<close>, and not through the rebinding of an
  asker either).
\<close>

theorem quiesce_barrier_holds:
  assumes "tracker_reach t" and "BeginQuiesce p t = (None, t1)"
    and "tracker_run ops t1 = Some t2" and "OpEndQuiesce p \<notin> set ops"
    and "gm_get (tr_asks t2) cid = Some a" and "\<not> Closed a"
  shows "FromPeerID a \<noteq> p \<and> ToPeerID a \<noteq> p"
proof -
  have "tracker_step (OpBeginQuiesce p) t = Some t1" using assms(2) by simp
  then have "tracker_reach t1" by (rule reach_step [OF assms(1)])
  from tracker_reach_ok [OF tracker_run_reach [OF this assms(3)]] have "tracker_ok t2" .
  moreover have "gm_has (tr_quiescing t1) p"
    using BeginQuiesce_ok [OF tracker_reach_ok [OF assms(1)] assms(2)] by simp
  then have "gm_has (tr_quiescing t2) p" by (rule tracker_run_barrier [OF assms(3) _ assms(4)])
  ultimately show ?thesis
    using assms(5,6) by (auto simp: tracker_ok_def quiesce_ok_def involves_def)
qed

theorem quiesce_barrier_holds_witness:
  "\<exists>t1 t2 a. BeginQuiesce ''p9'' (NewAskTracker 0) = (None, t1) \<and>
     tracker_run [OpRegister 5 ''00'' demo_params] t1 = Some t2 \<and>
     gm_get (tr_asks t2) ''c1'' = Some a \<and> FromPeerID a \<noteq> ''p9'' \<and> ToPeerID a \<noteq> ''p9''"
proof -
  obtain t1 t2 a where t1: "BeginQuiesce ''p9'' (NewAskTracker 0) = (None, t1)"
    and t2: "tracker_run [OpRegister 5 ''00'' demo_params] t1 = Some t2"
    and a: "gm_get (tr_asks t2) ''c1'' = Some a" "\<not> Closed a"
    by (simp add: demo_eval)
  have "OpEndQuiesce ''p9'' \<notin> set [OpRegister 5 ''00'' demo_params]" by simp
  from quiesce_barrier_holds [OF reach_new t1 t2 this a] t1 t2 a show ?thesis by blast
qed

text \<open>
  A blocked waiter is never forgotten. If an ask with a registered waiter leaves the open state
  in any operation (answered, closed, rebound, evicted or forgotten), the waiter's channel holds a
  value after that operation.
\<close>

theorem waiter_gets_a_value:
  assumes "tracker_reach t" and "tracker_step oper t = Some t'" and "\<not> is_receive oper"
    and "gm_get (tr_answerWaiters t) cid = Some w" and "\<not> is_open (tr_asks t') cid"
  shows "\<exists>v. gm_get (tr_chans t') w = Some [v]"
proof -
  from tracker_step_ok [OF tracker_reach_ok [OF assms(1)] assms(3)] assms(2)
  have ok: "tracker_ok t'" "wakes t t'" by (auto simp: op_ok_def)
  then have "gm_get (tr_answerWaiters t') cid \<noteq> Some w"
    using assms(5) by (auto simp: tracker_ok_def waiters_ok_def)
  with ok(2) assms(4) show ?thesis unfolding wakes_def by blast
qed

theorem waiter_gets_a_value_witness:
  "\<exists>t t' v. tracker_run demo_ops (NewAskTracker 0) = Some t \<and>
     tracker_step (OpForgetPeer ''p2'') t = Some t' \<and> gm_get (tr_chans t') 0 = Some [v]"
proof (rule demo_run)
  fix t assume t: "tracker_run demo_ops (NewAskTracker 0) = Some t" "tracker_reach t"
    "gm_get (tr_asks t) ''c1'' = Some ((new_ask 5 ''c1'' demo_params)\<lparr>ReplyDelivery := ''pull''\<rparr>)"
    "gm_get (tr_answerWaiters t) ''c1'' = Some 0"
  obtain n t' where f: "ForgetPeer ''p2'' t = Some (n, t')"
    "\<forall>c. gm_get (tr_asks t') c = (case gm_get (tr_asks t) c of None \<Rightarrow> None
        | Some a \<Rightarrow> if involves ''p2'' a then None else Some a)"
    using ForgetPeer_ok [OF tracker_reach_ok [OF t(2)], of "''p2''"] by blast
  then have "\<not> is_open (tr_asks t') ''c1''"
    using t(3) by (simp add: is_open_def involves_def demo_params_def new_ask_def)
  moreover have s: "tracker_step (OpForgetPeer ''p2'') t = Some t'" using f(1) by simp
  ultimately show ?thesis
    using waiter_gets_a_value [OF t(2) s _ t(4)] t(1) by auto
qed

end
