(* ===== verification/Ask_Replies.thy ===== *)
theory Ask_Replies
  imports Ask_Safety
begin

text \<open>
  What the ask tracker promises to its callers: reminders (\<open>PendingForPeer\<close>) list exactly the open
  asks of a peer, a stashed reply is only dropped by the sweep that reports the loss, an accepted
  answer is one of the question's options, and what two waiters on one ask share.
\<close>

lemma maybeEvict_keeps:
  assumes "tracker_ok t" and "maybeEvictExpired now now' t = Some t'"
  shows "gm_get (tr_asks t) c = Some a \<Longrightarrow> PendingReply a \<noteq> None \<Longrightarrow> gm_get (tr_asks t') c = Some a"
    and "gm_get (tr_asks t') c = Some a \<Longrightarrow> gm_get (tr_asks t) c = Some a"
    and "tracker_ok t'"
  using maybeEvictExpired_ok [OF assms(1), of now now'] assms(2) by (fastforce simp: op_ok_def)+

lemma PendingForPeer_tracker:
  assumes "PendingForPeer now now' i n dir t = Some (r, t')"
  shows "t' = t \<or> maybeEvictExpired now now' t = Some t'"
  using assms by (auto simp: PendingForPeer_def Let_def bind_eq_Some_conv split: if_splits)

text \<open>
  The Stop-hook reminder path never drops a stashed reply. \<open>PendingForPeer\<close> may evict expired
  asks, but an ask that carries an undelivered reply is still there afterwards, unchanged, however
  old it is: only the registry's sweep, which reports the loss, removes it.
\<close>

theorem reminders_keep_stashed_replies:
  assumes "tracker_reach t" and "PendingForPeer now now' i n dir t = Some (r, t')"
    and "gm_get (tr_asks t) cid = Some a" and "PendingReply a \<noteq> None"
  shows "gm_get (tr_asks t') cid = Some a"
  using PendingForPeer_tracker [OF assms(2)] assms(3,4)
    maybeEvict_keeps(1) [OF tracker_reach_ok [OF assms(1)]] by auto

theorem reminders_keep_stashed_replies_witness:
  "\<exists>t r t' a. tracker_run [OpRegister 5 ''00'' demo_params, OpSetPendingReply 6 ''c1'' ''r'' None False]
       (NewAskTracker 1) = Some t \<and>
     PendingForPeer 1000 1000 ''p2'' 10 ''inbound'' t = Some (r, t') \<and>
     gm_get (tr_asks t') ''c1'' = Some a \<and> PendingReply a = Some ''r''"
proof -
  obtain t a where t: "tracker_run [OpRegister 5 ''00'' demo_params, OpSetPendingReply 6 ''c1'' ''r'' None False]
       (NewAskTracker 1) = Some t"
    and a: "gm_get (tr_asks t) ''c1'' = Some a" "PendingReply a = Some ''r''"
    by (simp add: demo_eval)
  have r: "tracker_reach t" by (rule tracker_run_reach [OF reach_new t])
  from PendingForPeer_ok [OF tracker_reach_ok [OF r]] obtain x t' where
    p: "PendingForPeer 1000 1000 ''p2'' 10 ''inbound'' t = Some (x, t')" by blast
  from reminders_keep_stashed_replies [OF r p a(1)] a t p show ?thesis by auto
qed

text \<open>
  The reminder list of a peer is right. \<open>PendingForPeer\<close> returns only asks that are open and
  whose chosen endpoint is the peer, newest first; without a cap it returns every such ask; with a
  cap it returns at most that many.
\<close>

theorem pending_for_peer_correct:
  assumes "tracker_reach t" and "PendingForPeer now now' i n dir t = Some (Inr l, t')"
  shows "(\<forall>a \<in> set l. \<exists>cid. gm_get (tr_asks t) cid = Some a \<and> \<not> Closed a \<and> direction_matches dir i a) \<and>
     sorted_wrt (\<lambda>a b. CreatedAt b \<le> CreatedAt a) l \<and>
     (n < 0 \<longrightarrow> (\<forall>cid a. gm_get (tr_asks t') cid = Some a \<longrightarrow> \<not> Closed a \<longrightarrow>
         direction_matches dir i a \<longrightarrow> a \<in> set l)) \<and>
     (0 \<le> n \<longrightarrow> int (length l) \<le> n)"
proof (intro conjI impI allI)
  from assms(2) obtain c where e: "maybeEvictExpired now now' t = Some t'"
    and c: "c = sort_key (\<lambda>a. - CreatedAt a)
              (map snd (gm_select (\<lambda>cid a. direction_matches dir i a \<and> \<not> Closed a) (tr_asks t')))"
    and l: "l = (if 0 \<le> n \<and> n < int (length c) then take (nat n) c else c)"
    by (auto simp: PendingForPeer_def Let_def bind_eq_Some_conv simp del: direction_matches.simps split: if_splits)
  have ok: "tracker_ok t" by (rule tracker_reach_ok [OF assms(1)])
  note ok' = maybeEvict_keeps(3) [OF ok e]
  have mem: "a \<in> set c \<longleftrightarrow> (\<exists>cid. gm_get (tr_asks t') cid = Some a \<and> direction_matches dir i a \<and> \<not> Closed a)" for a
    using ok' unfolding c
    by (auto simp: set_gm_select image_iff simp del: direction_matches.simps)
      (metis set_gm_select snd_conv tracker_ok_gm_ok)+
  have sub: "set l \<subseteq> set c" using set_take_subset [of "nat n" c] by (auto simp: l)
  show "\<forall>a \<in> set l. \<exists>cid. gm_get (tr_asks t) cid = Some a \<and> \<not> Closed a \<and> direction_matches dir i a"
    using sub mem maybeEvict_keeps(2) [OF ok e] by (meson subsetD)
  have "sorted (map (\<lambda>a. - CreatedAt a) c)" by (simp add: c)
  then have "sorted_wrt (\<lambda>a b. CreatedAt b \<le> CreatedAt a) c" by (simp add: sorted_wrt_map)
  then show "sorted_wrt (\<lambda>a b. CreatedAt b \<le> CreatedAt a) l" by (simp add: l sorted_wrt_take)
  show "a \<in> set l" if "n < 0" "gm_get (tr_asks t') cid = Some a" "\<not> Closed a" "direction_matches dir i a" for cid a
    using that mem by (auto simp: l)
  show "int (length l) \<le> n" if "0 \<le> n" using that by (auto simp: l)
qed

theorem pending_for_peer_correct_witness:
  "\<exists>t l t'. tracker_run [OpRegister 5 ''00'' demo_params] (NewAskTracker 0) = Some t \<and>
     PendingForPeer 9 9 ''p2'' (-1) ''inbound'' t = Some (Inr l, t') \<and>
     sorted_wrt (\<lambda>a b. CreatedAt b \<le> CreatedAt a) l"
proof -
  obtain t where t: "tracker_run [OpRegister 5 ''00'' demo_params] (NewAskTracker 0) = Some t"
    by (simp add: demo_eval)
  have r: "tracker_reach t" by (rule tracker_run_reach [OF reach_new t])
  from maybeEvictExpired_ok [OF tracker_reach_ok [OF r], of 9 9] obtain t' where
    "maybeEvictExpired 9 9 t = Some t'" by blast
  then obtain l where p: "PendingForPeer 9 9 ''p2'' (-1) ''inbound'' t = Some (Inr l, t')"
    by (simp add: PendingForPeer_def)
  from pending_for_peer_correct [OF r p] t p show ?thesis by blast
qed

text \<open>
  An accepted answer is valid. When \<open>Answer\<close> accepts an answer with outcome \<open>answered\<close> to a
  choice question, the answer names an option and that option is one of the question's; the ask
  is then closed as \<open>answered\<close> with exactly that answer recorded.
\<close>

theorem accepted_answer_is_an_option:
  assumes "tracker_reach t" and "Answer now cid ans t = Some (Inr a', t')"
    and "Outcome ans = ''answered''" and "Question a' = Some q"
    and "gm_get q ''kind'' = Some (JStr ''choice'')"
  shows "(\<exists>i. OptionID ans = Some i \<and> questionHasOption q i) \<and>
     gm_get (tr_asks t') cid = Some a' \<and> Closed a' \<and> CloseReason a' = ''answered'' \<and> AskAnswer a' = Some ans"
proof -
  from Answer_ok [OF tracker_reach_ok [OF assms(1)], of now cid ans] assms(2)
  have *: "gm_get (tr_asks t') cid = Some a' \<and> Closed a' \<and> CloseReason a' = ''answered'' \<and> AskAnswer a' = Some ans"
    by (auto simp: op_ok_def dest!: tracker_ok_ask simp: ask_ok_def)
  from assms(2) obtain a where "a' = record_answer now ans a" "validateAnswer (Question a) ans = None"
    by (auto simp: Answer_def bind_eq_Some_conv Let_def split: option.splits if_splits)
  with assms(3-5) have "\<exists>i. OptionID ans = Some i \<and> questionHasOption q i"
    by (auto simp: validateAnswer_def split: option.splits if_splits)
  with * show ?thesis by blast
qed

theorem accepted_answer_is_an_option_witness:
  "\<exists>t a' t' q. tracker_run [OpRegister 5 ''00'' demo_params] (NewAskTracker 0) = Some t \<and>
     Answer 9 ''c1'' demo_yes t = Some (Inr a', t') \<and> Question a' = Some q \<and> questionHasOption q ''yes''"
proof -
  obtain t a' t' q where t: "tracker_run [OpRegister 5 ''00'' demo_params] (NewAskTracker 0) = Some t"
    and p: "Answer 9 ''c1'' demo_yes t = Some (Inr a', t')" and q: "Question a' = Some q"
    and k: "gm_get q ''kind'' = Some (JStr ''choice'')"
    by (simp add: demo_eval)
  have r: "tracker_reach t" by (rule tracker_run_reach [OF reach_new t])
  have o: "Outcome demo_yes = ''answered''" "OptionID demo_yes = Some ''yes''" by (simp_all add: demo_yes_def)
  from accepted_answer_is_an_option [OF r p o(1) q k] o(2) have "questionHasOption q ''yes''" by simp
  with t p q show ?thesis by blast
qed

text \<open>
  Two concurrent waiters on one open ask share one channel with one value, so only one of them
  is woken. After two \<open>WaitForResolution\<close> calls on the same ask and a close, the first receive
  succeeds and the second finds the channel empty and keeps blocking, although the ask is closed.
\<close>

theorem second_waiter_starves:
  assumes "tracker_reach t" and "is_open (tr_asks t) cid"
    and "WaitForResolution_begin cid pull1 t = (r1, t1)"
    and "WaitForResolution_begin cid pull2 t1 = (r2, t2)"
    and "Close cid reason t2 = Some (x, t3)"
  shows "\<exists>w a t4. r1 = ResWait w \<and> r2 = ResWait w \<and>
     WaitForResolution_recv cid w t3 = Some (a, t4) \<and> WaitForResolution_recv cid w t4 = None"
proof -
  have ok: "tracker_ok t" by (rule tracker_reach_ok [OF assms(1)])
  obtain a where a: "gm_get (tr_asks t) cid = Some a" "\<not> Closed a"
    using assms(2) by (auto simp: is_open_def)
  then obtain w where w1: "r1 = ResWait w"
    using assms(3) by (auto simp: WaitForResolution_begin_def Let_def split_beta split: if_splits)
  from WaitForResolution_begin_ok [OF ok assms(3)] w1
  have ok1: "tracker_ok t1" and reg1: "gm_get (tr_answerWaiters t1) cid = Some w"
    by (auto simp: op_ok_def)
  then obtain b where b: "gm_get (tr_asks t1) cid = Some b" "\<not> Closed b"
    using waiter_open by blast
  have r2: "r2 = ResWait w" and reg2: "gm_get (tr_answerWaiters t2) cid = Some w"
    using assms(4) b reg1
    by (auto simp: WaitForResolution_begin_def waiterFor_def Let_def split: if_splits)
  have ok2: "tracker_ok t2" using WaitForResolution_begin_ok [OF ok1 assms(4)] by (simp add: op_ok_def)
  then obtain c where c: "gm_get (tr_asks t2) cid = Some c" "\<not> Closed c"
    and empty: "gm_get (tr_chans t2) w = Some []"
    using reg2 waiter_open by blast
  have "gm_get (tr_chans t3) w = Some [outcome_answer ''cancelled'' (Some reason)]"
    using assms(5) c reg2 empty
    by (auto simp: Close_def cancelWaiter_def resolveWaiter_def chan_send_def Let_def bind_eq_Some_conv)
  then have "\<exists>a t4. WaitForResolution_recv cid w t3 = Some (a, t4) \<and> WaitForResolution_recv cid w t4 = None"
    by (simp add: WaitForResolution_recv_def chan_recv_def)
  with w1 r2 show ?thesis by blast
qed

theorem second_waiter_starves_witness:
  "\<exists>t t1 t2 x t3 a t4. tracker_run [OpRegister 5 ''00'' demo_params] (NewAskTracker 0) = Some t \<and>
     WaitForResolution_begin ''c1'' False t = (ResWait 0, t1) \<and>
     WaitForResolution_begin ''c1'' False t1 = (ResWait 0, t2) \<and>
     Close ''c1'' ''ack'' t2 = Some (x, t3) \<and>
     WaitForResolution_recv ''c1'' 0 t3 = Some (a, t4) \<and> WaitForResolution_recv ''c1'' 0 t4 = None"
proof -
  obtain t t1 t2 x t3 where t: "tracker_run [OpRegister 5 ''00'' demo_params] (NewAskTracker 0) = Some t"
    and o: "is_open (tr_asks t) ''c1''"
    and s: "WaitForResolution_begin ''c1'' False t = (ResWait 0, t1)"
      "WaitForResolution_begin ''c1'' False t1 = (ResWait 0, t2)" "Close ''c1'' ''ack'' t2 = Some (x, t3)"
    by (simp add: demo_eval)
  from second_waiter_starves [OF tracker_run_reach [OF reach_new t] o s] t s show ?thesis by blast
qed

end
