(* ===== verification/Go_Strings.thy ===== *)
theory Go_Strings
  imports Proto
begin

text \<open>
  The functions of Go's \<open>strings\<close> and \<open>strconv\<close> packages that the modelled code calls, on byte
  strings. \<open>is_space\<close> is the ASCII part of \<open>unicode.IsSpace\<close>: the model is exact for strings
  without the two non-ASCII space characters U+0085 and U+00A0. \<open>Atoi\<close> parses a signed 64-bit
  decimal integer; \<open>wrap64\<close> is Go's \<open>int\<close> arithmetic.
\<close>

definition is_space :: "char \<Rightarrow> bool" where
  "is_space c \<longleftrightarrow> of_char c \<in> {9, 10, 11, 12, 13, 32 :: nat}"

fun Fields_acc :: "string \<Rightarrow> string \<Rightarrow> string list" where
  "Fields_acc acc [] = (if acc = [] then [] else [rev acc])"
| "Fields_acc acc (c # cs) =
     (if is_space c then (if acc = [] then Fields_acc [] cs else rev acc # Fields_acc [] cs)
      else Fields_acc (c # acc) cs)"

definition Fields :: "string \<Rightarrow> string list" where
  "Fields s = Fields_acc [] s"

fun JoinSpace :: "string list \<Rightarrow> string" where
  "JoinSpace [] = []"
| "JoinSpace [s] = s"
| "JoinSpace (s # ss) = s @ '' '' @ JoinSpace ss"

definition TrimSpace :: "string \<Rightarrow> string" where
  "TrimSpace s = TrimCutset is_space s"

definition to_lower :: "char \<Rightarrow> char" where
  "to_lower c = (if 65 \<le> (of_char c :: nat) \<and> (of_char c :: nat) \<le> 90 then char_of ((of_char c :: nat) + 32) else c)"

definition ToLower :: "string \<Rightarrow> string" where
  "ToLower s = map to_lower s"

fun Split :: "char \<Rightarrow> string \<Rightarrow> string list" where
  "Split sep [] = [[]]"
| "Split sep (c # cs) =
     (if c = sep then [] # Split sep cs
      else (case Split sep cs of [] \<Rightarrow> [[c]] | p # ps \<Rightarrow> (c # p) # ps))"

text \<open>The string cut at the first separator: what is before it and, if there is one, what is after.\<close>

fun Cut :: "char \<Rightarrow> string \<Rightarrow> string \<times> string option" where
  "Cut sep [] = ([], None)"
| "Cut sep (c # cs) = (if c = sep then ([], Some cs) else (c # fst (Cut sep cs), snd (Cut sep cs)))"

definition max_int64 :: int where
  "max_int64 = 9223372036854775807"

definition wrap64 :: "int \<Rightarrow> int" where
  "wrap64 x = (x + 9223372036854775808) mod 18446744073709551616 - 9223372036854775808"

definition digit_value :: "char \<Rightarrow> int" where
  "digit_value c = int (of_char c) - 48"

fun digits_value :: "int \<Rightarrow> string \<Rightarrow> int" where
  "digits_value acc [] = acc"
| "digits_value acc (c # cs) = digits_value (10 * acc + digit_value c) cs"

definition parse_digits :: "string \<Rightarrow> int option" where
  "parse_digits s = (if s \<noteq> [] \<and> list_all is_digit s then Some (digits_value 0 s) else None)"

definition Atoi :: "string \<Rightarrow> int option" where
  "Atoi s =
     (let v = (case s of
          [] \<Rightarrow> None
        | c # cs \<Rightarrow> if c = CHR ''-'' then map_option uminus (parse_digits cs)
                   else if c = CHR ''+'' then parse_digits cs else parse_digits s)
      in case v of None \<Rightarrow> None
         | Some n \<Rightarrow> if - max_int64 - 1 \<le> n \<and> n \<le> max_int64 then Some n else None)"

lemma wrap64_id: "- max_int64 - 1 \<le> x \<Longrightarrow> x \<le> max_int64 \<Longrightarrow> wrap64 x = x"
  by (simp add: wrap64_def max_int64_def)

lemma Atoi_range: "Atoi s = Some n \<Longrightarrow> - max_int64 - 1 \<le> n \<and> n \<le> max_int64"
  by (auto simp: Atoi_def Let_def split: option.splits if_splits)

lemma Atoi_concrete:
  "Atoi ''15'' = Some 15" "Atoi ''+7'' = Some 7" "Atoi ''-3'' = Some (-3)"
  "Atoi ''9223372036854775807'' = Some max_int64" "Atoi ''9223372036854775808'' = None" "Atoi '''' = None"
  by (simp_all add: Atoi_def parse_digits_def is_digit_def digit_value_def max_int64_def)

section \<open>Fields and Join\<close>

lemma Fields_acc_no_space:
  "f \<noteq> [] \<Longrightarrow> \<forall>c \<in> set f. \<not> is_space c \<Longrightarrow>
   Fields_acc acc (f @ CHR '' '' # s) = (rev acc @ f) # Fields_acc [] s"
proof (induction f arbitrary: acc)
  case Nil
  then show ?case by simp
next
  case (Cons c f)
  then show ?case
    by (cases f) (auto simp: is_space_def)
qed

lemma Fields_acc_last:
  "\<forall>c \<in> set f. \<not> is_space c \<Longrightarrow> Fields_acc acc f = (if rev acc @ f = [] then [] else [rev acc @ f])"
  by (induction f arbitrary: acc) auto

definition is_field :: "string \<Rightarrow> bool" where
  "is_field f \<longleftrightarrow> f \<noteq> [] \<and> (\<forall>c \<in> set f. \<not> is_space c)"

lemma Fields_JoinSpace: "\<forall>f \<in> set fs. is_field f \<Longrightarrow> Fields (JoinSpace fs) = fs"
proof (induction fs rule: JoinSpace.induct)
  case (3 s t ts)
  have "\<forall>f \<in> set (t # ts). is_field f" using "3.prems" by simp
  then have "Fields (JoinSpace (t # ts)) = t # ts" by (rule "3.IH")
  with "3.prems" show ?case by (simp add: Fields_def Fields_acc_no_space is_field_def)
qed (simp_all add: Fields_def Fields_acc_last is_field_def)

lemma Fields_acc_fields:
  "\<forall>c \<in> set acc. \<not> is_space c \<Longrightarrow> \<forall>f \<in> set (Fields_acc acc s). is_field f"
proof (induction s arbitrary: acc)
  case Nil
  then show ?case by (simp add: is_field_def)
next
  case (Cons c s)
  from Cons.prems Cons.IH [of "[]"] Cons.IH [of "c # acc"] show ?case
    by (simp add: is_field_def)
qed

lemma Fields_fields: "\<forall>f \<in> set (Fields s). is_field f"
  using Fields_acc_fields [of "[]" s] unfolding Fields_def by simp

lemma Fields_idem: "Fields (JoinSpace (Fields s)) = Fields s"
  by (rule Fields_JoinSpace) (rule Fields_fields)

lemma JoinSpace_ends:
  "fs \<noteq> [] \<Longrightarrow> \<forall>f \<in> set fs. is_field f \<Longrightarrow>
   JoinSpace fs \<noteq> [] \<and> \<not> is_space (hd (JoinSpace fs)) \<and> \<not> is_space (last (JoinSpace fs))"
proof (induction fs rule: JoinSpace.induct)
  case (3 s t ts)
  have "\<forall>f \<in> set (t # ts). is_field f" using "3.prems" by simp
  with "3.IH" have "JoinSpace (t # ts) \<noteq> []" "\<not> is_space (last (JoinSpace (t # ts)))" by blast+
  with "3.prems" show ?case by (simp add: hd_append is_field_def)
qed (simp_all add: is_field_def)

lemma TrimSpace_ends:
  assumes "s = [] \<or> \<not> is_space (hd s) \<and> \<not> is_space (last s)"
  shows "TrimSpace s = s"
proof (cases "s = []")
  case False
  with assms have "dropWhile is_space s = s" "dropWhile is_space (rev s) = rev s"
    by (simp_all add: dropWhile_eq_self_iff hd_rev)
  then show ?thesis by (simp add: TrimSpace_def TrimCutset_def)
qed (simp add: TrimSpace_def TrimCutset_def)

lemma TrimSpace_Join_Fields: "TrimSpace (JoinSpace (Fields s)) = JoinSpace (Fields s)"
  by (cases "Fields s = []") (auto simp: TrimSpace_ends Fields_fields JoinSpace_ends)

section \<open>Order\<close>

text \<open>Strings compare byte by byte, in Go and in a SQLite column with the default collation.\<close>

fun string_less :: "string \<Rightarrow> string \<Rightarrow> bool" where
  "string_less s [] = False"
| "string_less [] (d # ds) = True"
| "string_less (c # cs) (d # ds) =
     ((of_char c :: nat) < of_char d \<or> (c = d \<and> string_less cs ds))"

lemma string_less_Nil [simp]: "\<not> string_less s []"
  by (cases s) auto

lemma string_less_irrefl [simp]: "\<not> string_less s s"
  by (induction s) auto

lemma string_less_trans: "string_less s t \<Longrightarrow> string_less t u \<Longrightarrow> string_less s u"
proof (induction s t arbitrary: u rule: string_less.induct)
  case (2 d ds)
  then show ?case by (cases u) auto
next
  case (3 c cs d ds)
  then show ?case by (cases u) auto
qed auto

lemma string_less_total: "s \<noteq> t \<Longrightarrow> string_less s t \<or> string_less t s"
proof (induction s t rule: string_less.induct)
  case (1 s)
  then show ?case by (cases s) auto
next
  case (3 c cs d ds)
  then show ?case using of_char_eq_iff [of c d, where 'a = nat] by (cases "c = d") (auto simp: not_less_iff_gr_or_eq)
qed auto

lemma string_less_append:
  "length a = length b \<Longrightarrow> string_less (a @ s) (b @ t) \<longleftrightarrow> string_less a b \<or> (a = b \<and> string_less s t)"
  by (induction a b rule: list_induct2) auto

end
