(* ===== verification/Cron.thy ===== *)
theory Cron
  imports Go_Strings "HOL-Library.Monad_Syntax"
begin

text \<open>
  The five-field cron parser and next-fire search of \<open>daemon-go/service/cron.go\<close>. A field parses to
  the list of values its loop enters into the Go map (membership is what the code tests). The loop
  \<open>for v := start; v <= end; v += step\<close> runs on 64-bit integers, with the wrap-around written out
  (\<open>wrap64\<close>), and takes fuel; \<open>cron_values_returns\<close> shows that 200 steps are enough for every input
  that reaches it. A time is a number of nanoseconds, a candidate a number of minutes; the civil
  month and day of a day number follow the proleptic Gregorian calendar of Go's \<open>time\<close> package.
\<close>

datatype cron_error =
    ErrFieldCount
  | ErrEmptyField string
  | ErrStepInteger string
  | ErrStepMin string
  | ErrValueInteger string
  | ErrRangeOrder string
  | ErrValueBounds string int int
  | ErrNoMatchWithinYear
  | ErrLoopFuel

section \<open>Parsing\<close>

definition cronAliases :: "(string \<times> string) list" where
  "cronAliases =
     [(''@hourly'', ''0 * * * *''), (''@daily'', ''0 0 * * *''), (''@midnight'', ''0 0 * * *''),
      (''@weekly'', ''0 0 * * 0''), (''@monthly'', ''0 0 1 * *'')]"

definition NormalizeCron :: "string \<Rightarrow> string" where
  "NormalizeCron expr =
     (let raw = JoinSpace (Fields (TrimSpace expr))
      in case map_of cronAliases (ToLower raw) of Some alias \<Rightarrow> alias | None \<Rightarrow> raw)"

definition parseCronInt :: "string \<Rightarrow> string \<Rightarrow> cron_error + int" where
  "parseCronInt raw label = (case Atoi (TrimSpace raw) of
       None \<Rightarrow> Inl (ErrValueInteger label)
     | Some v \<Rightarrow> Inr v)"

fun cron_values :: "nat \<Rightarrow> int \<Rightarrow> int \<Rightarrow> int \<Rightarrow> int list option" where
  "cron_values 0 v endv step = (if v \<le> endv then None else Some [])"
| "cron_values (Suc fuel) v endv step =
     (if v \<le> endv then map_option ((#) v) (cron_values fuel (wrap64 (v + step)) endv step) else Some [])"

definition cron_step :: "string \<Rightarrow> string \<Rightarrow> cron_error + string \<times> int" where
  "cron_step part label = (case Cut (CHR ''/'') part of
       (p, None) \<Rightarrow> Inr (p, 1)
     | (p, Some stepRaw) \<Rightarrow> (case Atoi stepRaw of
         None \<Rightarrow> Inl (ErrStepInteger label)
       | Some s \<Rightarrow> if s < 1 then Inl (ErrStepMin label) else Inr (p, s)))"

definition cron_bounds :: "string \<Rightarrow> int \<Rightarrow> int \<Rightarrow> string \<Rightarrow> cron_error + int \<times> int" where
  "cron_bounds part minv maxv label =
     (if part = ''*'' then Inr (minv, maxv)
      else case Cut (CHR ''-'') part of
        (a, Some b) \<Rightarrow> (case parseCronInt a label of
          Inl e \<Rightarrow> Inl e
        | Inr s \<Rightarrow> (case parseCronInt b label of
            Inl e \<Rightarrow> Inl e
          | Inr t \<Rightarrow> if s > t then Inl (ErrRangeOrder label) else Inr (s, t)))
      | (a, None) \<Rightarrow> (case parseCronInt part label of Inl e \<Rightarrow> Inl e | Inr v \<Rightarrow> Inr (v, v)))"

definition parseCronPart :: "int \<Rightarrow> int \<Rightarrow> string \<Rightarrow> string \<Rightarrow> cron_error + int list" where
  "parseCronPart minv maxv label raw =
     (let part = TrimSpace raw
      in if part = [] then Inl (ErrEmptyField label)
      else case cron_step part label of
        Inl e \<Rightarrow> Inl e
      | Inr (p, step) \<Rightarrow> (case cron_bounds p minv maxv label of
          Inl e \<Rightarrow> Inl e
        | Inr (s, t) \<Rightarrow>
            if s < minv \<or> t > maxv then Inl (ErrValueBounds label minv maxv)
            else (case cron_values 200 s t step of None \<Rightarrow> Inl ErrLoopFuel | Some vs \<Rightarrow> Inr vs)))"

fun parse_parts :: "int \<Rightarrow> int \<Rightarrow> string \<Rightarrow> string list \<Rightarrow> cron_error + int list" where
  "parse_parts minv maxv label [] = Inr []"
| "parse_parts minv maxv label (raw # raws) = (case parseCronPart minv maxv label raw of
       Inl e \<Rightarrow> Inl e
     | Inr vs \<Rightarrow> (case parse_parts minv maxv label raws of Inl e \<Rightarrow> Inl e | Inr ws \<Rightarrow> Inr (vs @ ws)))"

definition parseCronField :: "string \<Rightarrow> int \<Rightarrow> int \<Rightarrow> string \<Rightarrow> cron_error + int list" where
  "parseCronField raw minv maxv label = parse_parts minv maxv label (Split (CHR '','') raw)"

definition cron_specs :: "(int \<times> int \<times> string) list" where
  "cron_specs = [(0, 59, ''minute''), (0, 23, ''hour''), (1, 31, ''day-of-month''), (1, 12, ''month''),
     (0, 7, ''day-of-week'')]"

fun validate_fields :: "(int \<times> int \<times> string) list \<Rightarrow> string list \<Rightarrow> cron_error option" where
  "validate_fields ((lo, hi, label) # specs) (f # fs) = (case parseCronField f lo hi label of
       Inl e \<Rightarrow> Some e
     | Inr _ \<Rightarrow> validate_fields specs fs)"
| "validate_fields _ _ = None"

definition ValidateCron :: "string \<Rightarrow> cron_error + string" where
  "ValidateCron expr =
     (let norm = NormalizeCron expr; fields = Fields norm
      in if length fields \<noteq> 5 then Inl ErrFieldCount
         else case validate_fields cron_specs fields of Some e \<Rightarrow> Inl e | None \<Rightarrow> Inr norm)"

section \<open>The search for the next firing\<close>

definition civil_month_day :: "int \<Rightarrow> int \<times> int" where
  "civil_month_day day =
     (let z = day + 719468; doe = z mod 146097;
          yoe = (doe - doe div 1460 + doe div 36524 - doe div 146096) div 365;
          doy = doe - (365 * yoe + yoe div 4 - yoe div 100);
          mp = (5 * doy + 2) div 153
      in (if mp < 10 then mp + 3 else mp - 9, doy - (153 * mp + 2) div 5 + 1))"

definition min_minute :: "int \<Rightarrow> int" where "min_minute m = m mod 60"
definition min_hour :: "int \<Rightarrow> int" where "min_hour m = (m mod 1440) div 60"
definition min_day :: "int \<Rightarrow> int" where "min_day m = snd (civil_month_day (m div 1440))"
definition min_month :: "int \<Rightarrow> int" where "min_month m = fst (civil_month_day (m div 1440))"
definition min_weekday :: "int \<Rightarrow> int" where "min_weekday m = (m div 1440 + 4) mod 7"

definition cronDayMatches :: "int \<Rightarrow> int \<Rightarrow> int list \<Rightarrow> int list \<Rightarrow> bool \<Rightarrow> bool \<Rightarrow> bool" where
  "cronDayMatches day weekday days weekdays domAny dowAny =
     (if domAny \<and> dowAny then True
      else if domAny then weekday \<in> set weekdays
      else if dowAny then day \<in> set days
      else day \<in> set days \<or> weekday \<in> set weekdays)"

text \<open>The parsed expression: what \<open>NextFireAfter\<close> keeps in its local variables.\<close>

record cron_plan =
  cpMinutes :: "int list"
  cpHours :: "int list"
  cpDays :: "int list"
  cpMonths :: "int list"
  cpWeekdays :: "int list"
  cpDomAny :: bool
  cpDowAny :: bool

definition field_values :: "string \<Rightarrow> int \<Rightarrow> int \<Rightarrow> string \<Rightarrow> int list" where
  "field_values raw lo hi label = (case parseCronField raw lo hi label of Inl _ \<Rightarrow> [] | Inr vs \<Rightarrow> vs)"

definition fold_sunday :: "int list \<Rightarrow> int list" where
  "fold_sunday ws = (if 7 \<in> set ws then 0 # filter (\<lambda>w. w \<noteq> 7) ws else ws)"

definition cron_plan_of :: "string list \<Rightarrow> cron_plan" where
  "cron_plan_of fs =
     \<lparr>cpMinutes = field_values (fs ! 0) 0 59 ''minute'',
      cpHours = field_values (fs ! 1) 0 23 ''hour'',
      cpDays = field_values (fs ! 2) 1 31 ''day-of-month'',
      cpMonths = field_values (fs ! 3) 1 12 ''month'',
      cpWeekdays = fold_sunday (field_values (fs ! 4) 0 7 ''day-of-week''),
      cpDomAny = (fs ! 2 = ''*''), cpDowAny = (fs ! 4 = ''*'')\<rparr>"

definition cron_matches :: "cron_plan \<Rightarrow> int \<Rightarrow> bool" where
  "cron_matches p m \<longleftrightarrow>
     min_minute m \<in> set (cpMinutes p) \<and> min_hour m \<in> set (cpHours p) \<and>
     min_month m \<in> set (cpMonths p) \<and>
     cronDayMatches (min_day m) (min_weekday m) (cpDays p) (cpWeekdays p) (cpDomAny p) (cpDowAny p)"

function cron_search :: "cron_plan \<Rightarrow> int \<Rightarrow> int \<Rightarrow> int option" where
  "cron_search p candidate deadline =
     (if candidate \<le> deadline
      then if cron_matches p candidate then Some candidate else cron_search p (candidate + 1) deadline
      else None)"
  by pat_completeness auto
termination
  by (relation "measure (\<lambda>(p, candidate, deadline). nat (deadline + 1 - candidate))") auto

declare cron_search.simps [simp del]

definition minute_ns :: int where
  "minute_ns = 60 * second"

definition year_minutes :: int where
  "year_minutes = 366 * 24 * 60"

definition first_candidate :: "gotime \<Rightarrow> int" where
  "first_candidate after = after div minute_ns + 1"

definition NextFireAfter :: "string \<Rightarrow> gotime \<Rightarrow> cron_error + gotime" where
  "NextFireAfter expr after = (case ValidateCron expr of
       Inl e \<Rightarrow> Inl e
     | Inr norm \<Rightarrow>
         (let p = cron_plan_of (Fields norm); candidate = first_candidate after
          in case cron_search p candidate (candidate + year_minutes) of
               Some m \<Rightarrow> Inr (m * minute_ns)
             | None \<Rightarrow> Inl ErrNoMatchWithinYear))"

section \<open>The search returns the first match\<close>

lemma cron_search_Some:
  "cron_search p c d = Some m \<longleftrightarrow>
     c \<le> m \<and> m \<le> d \<and> cron_matches p m \<and> (\<forall>k. c \<le> k \<and> k < m \<longrightarrow> \<not> cron_matches p k)"
proof (induction p c d rule: cron_search.induct)
  case (1 p c d)
  show ?case
  proof (cases "c \<le> d \<and> \<not> cron_matches p c")
    case True
    with "1.IH" have "cron_search p c d = Some m \<longleftrightarrow>
        c + 1 \<le> m \<and> m \<le> d \<and> cron_matches p m \<and> (\<forall>k. c + 1 \<le> k \<and> k < m \<longrightarrow> \<not> cron_matches p k)"
      by (simp add: cron_search.simps [of p c d])
    also have "\<dots> \<longleftrightarrow> c \<le> m \<and> m \<le> d \<and> cron_matches p m \<and> (\<forall>k. c \<le> k \<and> k < m \<longrightarrow> \<not> cron_matches p k)"
    proof -
      have "c \<le> k \<longleftrightarrow> k = c \<or> c + 1 \<le> k" for k by auto
      with True show ?thesis by (metis less_le_not_le order_refl zle_add1_eq_le)
    qed
    finally show ?thesis .
  next
    case False
    then show ?thesis by (auto simp: cron_search.simps [of p c d])
  qed
qed

lemma cron_search_None:
  "cron_search p c d = None \<longleftrightarrow> (\<forall>k. c \<le> k \<and> k \<le> d \<longrightarrow> \<not> cron_matches p k)"
proof (cases "cron_search p c d")
  case None
  have "\<not> cron_matches p k" if k: "c \<le> k" "k \<le> d" for k
    using None k
  proof (induction p c d rule: cron_search.induct)
    case (1 p c d)
    then have c: "c \<le> d" "\<not> cron_matches p c" "cron_search p (c + 1) d = None"
      by (auto simp: cron_search.simps [of p c d] split: if_splits)
    show ?case
    proof (cases "k = c")
      case False
      with "1.prems"(2) have "c + 1 \<le> k" by simp
      with "1.IH" [OF c] "1.prems"(3) show ?thesis by simp
    qed (use c in simp)
  qed
  with None show ?thesis by auto
next
  case (Some m)
  then show ?thesis using cron_search_Some [of p c d m] by auto
qed

end
