(* ===== verification/Cron_Facts.thy ===== *)
theory Cron_Facts
  imports Cron
begin

text \<open>
  Properties of the cron parser and of the next-fire search: the field loop returns, a field with a
  step that cannot overflow denotes an arithmetic progression, validation is idempotent, and the
  search returns the first matching minute of the next 366 days.
\<close>

section \<open>The field loop\<close>

lemma progression_unfold:
  assumes "1 \<le> (step::int)" and "v \<le> t"
  shows "{u. v \<le> u \<and> u \<le> t \<and> (u - v) mod step = 0} =
     insert v {u. v + step \<le> u \<and> u \<le> t \<and> (u - (v + step)) mod step = 0}"
proof -
  have "(u - (v + step)) mod step = (u - v) mod step" for u
    using mod_diff_right_eq [of "u - v" step step] by (simp add: diff_diff_eq)
  moreover have "u = v \<or> v + step \<le> u" if "v \<le> u" "(u - v) mod step = 0" for u
    using that mod_pos_pos_trivial [of "u - v" step] by (cases "u < v + step") simp_all
  ultimately show ?thesis using assms by (auto simp: mod_eq_0_iff_dvd)
qed

lemma cron_values_ascending:
  "0 \<le> v \<Longrightarrow> 1 \<le> step \<Longrightarrow> t \<le> 59 \<Longrightarrow> step \<le> max_int64 - 59 \<Longrightarrow> nat (t + 1 - v) \<le> fuel \<Longrightarrow>
   \<exists>vs. cron_values fuel v t step = Some vs \<and>
     set vs = {u. v \<le> u \<and> u \<le> t \<and> (u - v) mod step = 0}"
proof (induction fuel arbitrary: v)
  case 0
  then show ?case by simp
next
  case (Suc fuel)
  show ?case
  proof (cases "v \<le> t")
    case True
    then have w: "wrap64 (v + step) = v + step"
      using Suc.prems by (intro wrap64_id) (simp_all add: max_int64_def)
    have "nat (t + 1 - (v + step)) \<le> fuel" "0 \<le> v + step" using Suc.prems True by simp_all
    then obtain vs where vs: "cron_values fuel (v + step) t step = Some vs"
      "set vs = {u. v + step \<le> u \<and> u \<le> t \<and> (u - (v + step)) mod step = 0}"
      using Suc.IH [of "v + step"] Suc.prems(2-4) by blast
    have "cron_values (Suc fuel) v t step = Some (v # vs)" using True w vs(1) by simp
    moreover have "set (v # vs) = {u. v \<le> u \<and> u \<le> t \<and> (u - v) mod step = 0}"
      using progression_unfold [OF Suc.prems(2) True] vs(2) by simp
    ultimately show ?thesis by blast
  next
    case False
    then show ?thesis by auto
  qed
qed

text \<open>
  A step so large that \<open>v + step\<close> overflows: two iterations bring \<open>v\<close> down by at least two, through
  a large negative value.
\<close>

lemma cron_values_huge:
  assumes "max_int64 - 59 < step" "step \<le> max_int64" "0 \<le> t" "t \<le> 59"
  shows "v \<le> 2 * int n \<Longrightarrow> - 130 \<le> v \<Longrightarrow> v \<le> 59 \<Longrightarrow> \<exists>vs. cron_values (Suc (Suc (2 * n))) v t step = Some vs"
proof (induction n arbitrary: v)
  case 0
  then have "wrap64 (v + step) = v + step"
    using assms by (intro wrap64_id) (simp_all add: max_int64_def)
  then show ?case using 0 assms by (simp add: max_int64_def)
next
  case (Suc n)
  consider "t < v" | "v \<le> t" "v + step \<le> max_int64" | "v \<le> t" "max_int64 < v + step" by linarith
  then show ?case
  proof cases
    case 1
    then show ?thesis by simp
  next
    case 2
    then have "wrap64 (v + step) = v + step" "t < v + step"
      using Suc.prems assms by (auto intro!: wrap64_id simp: max_int64_def)
    then show ?thesis by simp
  next
    case 3
    let ?x = "v + step - 18446744073709551616" and ?u = "v + 2 * step - 18446744073709551616"
    have x: "wrap64 (v + step) = ?x"
    proof -
      have "(v + step + 9223372036854775808) mod 18446744073709551616 =
          (v + step - 9223372036854775808) mod 18446744073709551616"
        using mod_diff_right_eq [of "v + step + 9223372036854775808" 18446744073709551616 18446744073709551616]
        by simp
      also have "\<dots> = v + step - 9223372036854775808"
        using 3 assms Suc.prems by (intro mod_pos_pos_trivial) (simp_all add: max_int64_def)
      finally show ?thesis by (simp add: wrap64_def)
    qed
    have u: "wrap64 (?x + step) = ?u"
      using 3 assms Suc.prems by (subst wrap64_id) (simp_all add: max_int64_def)
    have "?x \<le> t" using assms 3 by (simp add: max_int64_def)
    moreover have "\<exists>vs. cron_values (Suc (Suc (2 * n))) ?u t step = Some vs"
      using assms 3 Suc.prems by (intro Suc.IH) (simp_all add: max_int64_def)
    ultimately show ?thesis using 3(1) x u by auto
  qed
qed

lemma cron_values_returns:
  assumes "0 \<le> s" "s \<le> t" "t \<le> 59" "1 \<le> step" "step \<le> max_int64"
  shows "\<exists>vs. cron_values 200 s t step = Some vs"
proof (cases "step \<le> max_int64 - 59")
  case True
  then show ?thesis using assms cron_values_ascending [of s step t 200] by (simp add: nat_le_iff) blast
next
  case False
  with assms cron_values_huge [of step t s 99] show ?thesis by (simp add: eval_nat_numeral)
qed


section \<open>Parsing a field\<close>

lemma cron_bounds_ordered:
  "cron_bounds p lo hi label = Inr (s, t) \<Longrightarrow> lo \<le> hi \<Longrightarrow> s \<le> t"
  by (auto simp: cron_bounds_def split: if_splits prod.splits option.splits sum.splits)

lemma cron_step_range:
  "cron_step part label = Inr (p, step) \<Longrightarrow> 1 \<le> step \<and> step \<le> max_int64"
  by (auto simp: cron_step_def max_int64_def dest: Atoi_range split: prod.splits option.splits if_splits)

lemma parseCronPart_cases:
  assumes "parseCronPart lo hi label raw = Inr vs"
  obtains p s t step where "cron_step (TrimSpace raw) label = Inr (p, step)" "cron_bounds p lo hi label = Inr (s, t)"
    "lo \<le> s" "t \<le> hi" "cron_values 200 s t step = Some vs"
  using assms by (auto simp: parseCronPart_def Let_def split: if_splits sum.splits prod.splits option.splits)

lemma parseCronPart_no_fuel_error:
  assumes "0 \<le> lo" "lo \<le> hi" "hi \<le> 59"
  shows "parseCronPart lo hi label raw \<noteq> Inl ErrLoopFuel"
proof
  assume e: "parseCronPart lo hi label raw = Inl ErrLoopFuel"
  have step_err: "cron_step q label \<noteq> Inl ErrLoopFuel" for q
    by (auto simp: cron_step_def split: prod.splits option.splits)
  have int_err: "parseCronInt q label \<noteq> Inl ErrLoopFuel" for q
    by (auto simp: parseCronInt_def split: option.splits)
  have bounds_err: "cron_bounds q lo hi label \<noteq> Inl ErrLoopFuel" for q
    using int_err by (auto simp: cron_bounds_def split: prod.splits option.splits sum.splits)
  from e step_err bounds_err obtain p s t step where
    "cron_step (TrimSpace raw) label = Inr (p, step)" "cron_bounds p lo hi label = Inr (s, t)"
    "lo \<le> s" "t \<le> hi" "cron_values 200 s t step = None"
    by (auto simp: parseCronPart_def Let_def not_less split: if_splits sum.splits prod.splits option.splits)
  with assms cron_values_returns [of s t step] show False
    by (auto dest!: cron_step_range cron_bounds_ordered [OF _ assms(2)])
qed

lemma parse_parts_no_fuel_error:
  "0 \<le> lo \<Longrightarrow> lo \<le> hi \<Longrightarrow> hi \<le> 59 \<Longrightarrow> parse_parts lo hi label raws \<noteq> Inl ErrLoopFuel"
  by (induction raws) (auto simp: parseCronPart_no_fuel_error split: sum.splits)

lemma parse_parts_values:
  "parse_parts lo hi label raws = Inr vs \<Longrightarrow> v \<in> set vs \<Longrightarrow>
   \<exists>raw ws. raw \<in> set raws \<and> parseCronPart lo hi label raw = Inr ws \<and> v \<in> set ws"
  by (induction raws arbitrary: vs) (auto split: sum.splits; blast)+

section \<open>Properties\<close>

text \<open>
  C23: parsing a cron field always terminates. For every field text and each of the five fields'
  bounds, the value loop stops (within 200 iterations), even when the step is so large that the
  64-bit loop variable wraps around.
\<close>

theorem cron_field_loop_terminates:
  assumes "(lo, hi, label) \<in> set cron_specs"
  shows "parseCronField raw lo hi label \<noteq> Inl ErrLoopFuel"
proof -
  from assms have "0 \<le> lo \<and> lo \<le> hi \<and> hi \<le> 59" by (auto simp: cron_specs_def)
  then show ?thesis unfolding parseCronField_def by (intro parse_parts_no_fuel_error) auto
qed

theorem cron_field_loop_terminates_witness:
  "(0, 59, ''minute'') \<in> set cron_specs \<and>
   parseCronField ''5/9223372036854775807'' 0 59 ''minute'' \<noteq> Inl ErrLoopFuel"
  using cron_field_loop_terminates [of 0 59 "''minute''" "''5/9223372036854775807''"]
  by (simp add: cron_specs_def)

text \<open>
  A field part with a step that cannot overflow denotes the arithmetic progression it is
  written as: from its start to its end in steps, all inside the field's bounds.
\<close>

theorem cron_part_is_progression:
  assumes "parseCronPart lo hi label raw = Inr vs" and "0 \<le> lo" "lo \<le> hi" "hi \<le> 59"
    and "cron_step (TrimSpace raw) label = Inr (p, step)" and "step \<le> max_int64 - 59"
    and "cron_bounds p lo hi label = Inr (s, t)"
  shows "set vs = {v. s \<le> v \<and> v \<le> t \<and> (v - s) mod step = 0} \<and> (\<forall>v \<in> set vs. lo \<le> v \<and> v \<le> hi)"
proof -
  from assms(1,5,7) have b: "lo \<le> s" "t \<le> hi" and c: "cron_values 200 s t step = Some vs"
    by (auto elim!: parseCronPart_cases)
  with cron_values_ascending [of s step t 200] cron_step_range [OF assms(5)] assms(2,4,6)
  have *: "set vs = {v. s \<le> v \<and> v \<le> t \<and> (v - s) mod step = 0}" by auto
  then show ?thesis using b by auto
qed

lemmas cron_eval = parseCronField_def parseCronPart_def cron_step_def cron_bounds_def parseCronInt_def
  Atoi_def parse_digits_def is_digit_def digit_value_def TrimSpace_def TrimCutset_def is_space_def
  max_int64_def Let_def eval_nat_numeral wrap64_def

lemma part_example: "parseCronPart 0 59 ''minute'' ''10-50/20'' = Inr [10, 30, 50]"
  by (simp add: cron_eval)

lemma part_example_step: "cron_step (TrimSpace ''10-50/20'') ''minute'' = Inr (''10-50'', 20)"
  by (simp add: cron_eval)

lemma part_example_bounds: "cron_bounds ''10-50'' 0 59 ''minute'' = Inr (10, 50)"
  by (simp add: cron_eval)

theorem cron_part_is_progression_witness:
  "parseCronPart 0 59 ''minute'' ''10-50/20'' = Inr [10, 30, 50] \<and>
   set [10, 30, 50] = {v::int. 10 \<le> v \<and> v \<le> 50 \<and> (v - 10) mod 20 = 0}"
  using cron_part_is_progression [OF part_example _ _ _ part_example_step _ part_example_bounds] part_example
  by (simp add: max_int64_def)

text \<open>
  A step near the 64-bit limit corrupts a field. The loop variable of \<open>5/9223372036854775807\<close>
  wraps around and comes back below the start, so the parsed minute field also contains minutes 3
  and 1, which the expression does not denote.
\<close>

theorem cron_step_overflow_adds_values:
  "\<exists>vs. parseCronField ''5/9223372036854775807'' 0 59 ''minute'' = Inr vs \<and> 5 \<in> set vs \<and> 3 \<in> set vs \<and> 1 \<in> set vs"
  by (simp add: cron_eval)

text \<open>
  C22: the next firing is right. When \<open>NextFireAfter\<close> returns a time, the expression is valid, the
  time is a whole minute strictly after the given one and at most 366 days and one minute later, it
  matches the parsed expression, and no earlier whole minute after the given time matches.
\<close>

theorem next_fire_is_first_match:
  assumes "NextFireAfter expr after = Inr t"
  shows "\<exists>norm m. ValidateCron expr = Inr norm \<and> t = m * minute_ns \<and> after < t \<and>
     t \<le> after + (year_minutes + 1) * minute_ns \<and> cron_matches (cron_plan_of (Fields norm)) m \<and>
     (\<forall>k. after < k * minute_ns \<and> k < m \<longrightarrow> \<not> cron_matches (cron_plan_of (Fields norm)) k)"
proof -
  from assms obtain norm m where v: "ValidateCron expr = Inr norm" and t: "t = m * minute_ns"
    and s: "cron_search (cron_plan_of (Fields norm)) (first_candidate after) (first_candidate after + year_minutes) = Some m"
    by (auto simp: NextFireAfter_def Let_def split: sum.splits option.splits)
  have fc: "first_candidate after \<le> k \<longleftrightarrow> after < k * minute_ns" for k
    unfolding first_candidate_def by (rule div_succ_le_iff) (simp add: minute_ns_def)
  note m = s [unfolded cron_search_Some]
  have "m * minute_ns \<le> (first_candidate after + year_minutes) * minute_ns"
    using m by (intro mult_right_mono) (simp_all add: minute_ns_def)
  also have "\<dots> \<le> after + (year_minutes + 1) * minute_ns"
    by (simp add: first_candidate_def algebra_simps minute_ns_def)
  finally show ?thesis using v t m fc by blast
qed


lemma quarter_hour_fires: "NextFireAfter ''*/15 * * * *'' 0 = Inr 900000000000"
  by code_simp

theorem next_fire_is_first_match_witness:
  "NextFireAfter ''*/15 * * * *'' 0 = Inr 900000000000 \<and>
   (\<exists>norm m. ValidateCron ''*/15 * * * *'' = Inr norm \<and> 900000000000 = m * minute_ns \<and>
      cron_matches (cron_plan_of (Fields norm)) m)"
  using next_fire_is_first_match [OF quarter_hour_fires] quarter_hour_fires by blast

text \<open>
  The search only fails when there is nothing to find. For a valid expression, \<open>NextFireAfter\<close>
  returns a time exactly when some whole minute of its 366-day window matches the expression.
\<close>

theorem next_fire_complete:
  assumes "ValidateCron expr = Inr norm"
  shows "(\<exists>t. NextFireAfter expr after = Inr t) \<longleftrightarrow>
     (\<exists>m. first_candidate after \<le> m \<and> m \<le> first_candidate after + year_minutes \<and>
        cron_matches (cron_plan_of (Fields norm)) m)"
proof -
  have "(\<exists>t. NextFireAfter expr after = Inr t) \<longleftrightarrow>
      cron_search (cron_plan_of (Fields norm)) (first_candidate after) (first_candidate after + year_minutes) \<noteq> None"
    using assms by (simp add: NextFireAfter_def Let_def split: option.split)
  then show ?thesis unfolding cron_search_None by blast
qed

lemma hourly_valid: "ValidateCron ''@Hourly'' = Inr ''0 * * * *''"
  by code_simp

theorem next_fire_complete_witness:
  "ValidateCron ''@Hourly'' = Inr ''0 * * * *'' \<and> (\<exists>t. NextFireAfter ''@Hourly'' 0 = Inr t)"
proof -
  have "cron_matches (cron_plan_of (Fields ''0 * * * *'')) 60" by code_simp
  moreover have "first_candidate 0 \<le> 60" "60 \<le> first_candidate 0 + year_minutes" by code_simp+
  ultimately show ?thesis using next_fire_complete [OF hourly_valid, of 0] hourly_valid by blast
qed

lemma NormalizeCron_idem: "NormalizeCron (NormalizeCron e) = NormalizeCron e"
proof (cases "map_of cronAliases (ToLower (JoinSpace (Fields (TrimSpace e))))")
  case None
  then show ?thesis
    by (simp add: NormalizeCron_def Let_def TrimSpace_Join_Fields Fields_idem)
next
  case (Some a)
  then have "a \<in> set [''0 * * * *'', ''0 0 * * *'', ''0 0 * * 0'', ''0 0 1 * *'']"
    by (auto simp: cronAliases_def split: if_splits)
  moreover have "\<forall>a \<in> set [''0 * * * *'', ''0 0 * * *'', ''0 0 * * 0'', ''0 0 1 * *'']. NormalizeCron a = a"
    by code_simp
  ultimately have "NormalizeCron a = a" by blast
  with Some show ?thesis by (simp add: NormalizeCron_def [of e] Let_def)
qed

text \<open>
  Validation returns a normal form. The expression \<open>ValidateCron\<close> returns validates to itself,
  so the text stored for a schedule (with its aliases expanded and its white space collapsed) parses
  again to the same plan.
\<close>

theorem validate_cron_idempotent:
  assumes "ValidateCron expr = Inr norm"
  shows "ValidateCron norm = Inr norm \<and> NextFireAfter norm after = NextFireAfter expr after"
proof -
  from assms have n: "norm = NormalizeCron expr"
    by (auto simp: ValidateCron_def Let_def split: if_splits option.splits)
  have "ValidateCron norm = ValidateCron expr"
    unfolding ValidateCron_def n by (simp add: NormalizeCron_idem)
  with assms show ?thesis by (simp add: NextFireAfter_def)
qed

theorem validate_cron_idempotent_witness:
  "ValidateCron ''@Hourly'' = Inr ''0 * * * *'' \<and> ValidateCron ''0 * * * *'' = Inr ''0 * * * *''"
  using validate_cron_idempotent [OF hourly_valid] hourly_valid by simp

lemma no_leap_day:
  assumes "19783 \<le> d" "d \<le> 20148"
  shows "civil_month_day d \<noteq> (2, 29)"
proof (cases "d = 20148")
  case True
  have "civil_month_day 20148 = (3, 1)" by code_simp
  with True show ?thesis by simp
next
  case False
  obtain doe where doe: "doe = (d + 719468) mod 146097" by blast
  have z: "(d + 719468) mod 146097 = (d - 11017) mod 146097"
    using mod_diff_right_eq [of "d + 719468" 730485 146097] by simp
  have r: "doe = d - 11017" unfolding doe z using assms by (intro mod_pos_pos_trivial) simp_all
  with assms False have b: "8766 \<le> doe" "doe \<le> 9130" by simp_all
  then have "doe div 1460 = 6" "doe div 36524 = 0" "doe div 146096 = 0" by simp_all
  moreover have "(doe - 6) div 365 = 24" using b by simp
  ultimately have y: "(doe - doe div 1460 + doe div 36524 - doe div 146096) div 365 = 24" by simp
  have k: "365 * 24 + 24 div 4 - 24 div 100 = (8766::int)" by simp
  have c: "civil_month_day d =
      (let doy = doe - 8766; mp = (5 * doy + 2) div 153
       in (if mp < 10 then mp + 3 else mp - 9, doy - (153 * mp + 2) div 5 + 1))"
    unfolding civil_month_day_def Let_def doe [symmetric] y k by (rule refl)
  show ?thesis
  proof
    assume "civil_month_day d = (2, 29)"
    then have e: "(if (5 * (doe - 8766) + 2) div 153 < 10 then (5 * (doe - 8766) + 2) div 153 + 3
        else (5 * (doe - 8766) + 2) div 153 - 9) = 2"
      and f: "doe - 8766 - (153 * ((5 * (doe - 8766) + 2) div 153) + 2) div 5 + 1 = 29"
      unfolding c Let_def by simp_all
    have "0 \<le> (5 * (doe - 8766) + 2) div 153" using b by (simp add: pos_imp_zdiv_nonneg_iff)
    with e have "(5 * (doe - 8766) + 2) div 153 = 11" by (simp split: if_splits)
    with f b show False by simp
  qed
qed

lemma leap_plan:
  "cron_plan_of (Fields ''0 0 29 2 *'') = \<lparr>cpMinutes = [0], cpHours = [0], cpDays = [29], cpMonths = [2],
     cpWeekdays = [0, 0, 1, 2, 3, 4, 5, 6], cpDomAny = False, cpDowAny = True\<rparr>"
  by code_simp

text \<open>
  A leap-day schedule cannot be advanced. The valid expression \<open>0 0 29 2 *\<close> has no next firing
  after 29 February 2024 (the time is 1709164800 seconds): the search gives up after 366 days,
  although the expression matches on 29 February 2028.
\<close>

lemma leap_day_cron_has_no_next_fire:
  "ValidateCron ''0 0 29 2 *'' = Inr ''0 0 29 2 *'' \<and>
   NextFireAfter ''0 0 29 2 *'' (1709164800 * second) = Inl ErrNoMatchWithinYear \<and>
   cron_matches (cron_plan_of (Fields ''0 0 29 2 *'')) (1835395200 div 60)"
proof -
  have v: "ValidateCron ''0 0 29 2 *'' = Inr ''0 0 29 2 *''" by code_simp
  have c: "first_candidate (1709164800 * second) = 28486081" by code_simp
  have "\<not> cron_matches (cron_plan_of (Fields ''0 0 29 2 *'')) k" if k: "28486081 \<le> k" "k \<le> 29013121" for k
  proof
    assume "cron_matches (cron_plan_of (Fields ''0 0 29 2 *'')) k"
    then have m: "k mod 60 = 0" "(k mod 1440) div 60 = 0" "civil_month_day (k div 1440) = (2, 29)"
      by (auto simp: leap_plan cron_matches_def cronDayMatches_def min_minute_def min_hour_def
          min_month_def min_day_def prod_eq_iff)
    have "(k mod 1440) mod 60 = 0" using m(1) by (simp add: mod_mod_cancel)
    with m(2) have "k mod 1440 = 0" using div_mult_mod_eq [of "k mod 1440" 60] by simp
    then have q: "k = (k div 1440) * 1440" using div_mult_mod_eq [of k 1440] by simp
    have "19783 \<le> k div 1440" using k(1) q by linarith
    moreover have "k div 1440 \<le> 20148" using k(2) q by linarith
    ultimately show False using no_leap_day m(3) by blast
  qed
  then have "cron_search (cron_plan_of (Fields ''0 0 29 2 *'')) 28486081 (28486081 + year_minutes) = None"
    unfolding cron_search_None by (simp add: year_minutes_def)
  then have "NextFireAfter ''0 0 29 2 *'' (1709164800 * second) = Inl ErrNoMatchWithinYear"
    unfolding NextFireAfter_def Let_def c v by simp
  moreover have "cron_matches (cron_plan_of (Fields ''0 0 29 2 *'')) (1835395200 div 60)" by code_simp
  ultimately show ?thesis using v by blast
qed

end
