(* ===== verification/Lifecycle.thy ===== *)
theory Lifecycle
  imports Proto
begin

text \<open>
  The peer lifecycle state machine of \<open>daemon-go/peer/fsm.go\<close>: \<open>Apply\<close> is the exhaustive
  transition function (a rejected pair returns the old state and \<open>ErrIllegalTransition\<close>) and
  \<open>ToStatus\<close> projects a state onto the wire status. \<open>run_events\<close> feeds a sequence of events
  the way the registry does, leaving the state alone on a rejection.
\<close>

datatype LifecycleState = StateUnregistered | StateOnline | StateBusy | StateOffline | StateRetired

datatype LifecycleEvent =
    EventConnect
  | EventUserPromptSubmit
  | EventNotification
  | EventStop
  | EventTransportDisconnect
  | EventGhostDemote
  | EventPaneDisplaced
  | EventTerminalOffline
  | EventReconnect
  | EventReap
  | EventReclaimWithLiveAgent

datatype lifecycle_error = ErrIllegalTransition

definition ErrReject :: "LifecycleState \<Rightarrow> LifecycleState \<times> lifecycle_error option" where
  "ErrReject s = (s, Some ErrIllegalTransition)"

fun Apply :: "LifecycleState \<Rightarrow> LifecycleEvent \<Rightarrow> LifecycleState \<times> lifecycle_error option" where
  "Apply StateUnregistered e = (case e of
       EventConnect \<Rightarrow> (StateOnline, None)
     | _ \<Rightarrow> ErrReject StateUnregistered)"
| "Apply StateOnline e = (case e of
       EventUserPromptSubmit \<Rightarrow> (StateBusy, None)
     | EventNotification \<Rightarrow> (StateOnline, None)
     | EventStop \<Rightarrow> (StateOnline, None)
     | EventTransportDisconnect \<Rightarrow> (StateOffline, None)
     | EventGhostDemote \<Rightarrow> (StateOffline, None)
     | EventPaneDisplaced \<Rightarrow> (StateOffline, None)
     | EventTerminalOffline \<Rightarrow> (StateRetired, None)
     | _ \<Rightarrow> ErrReject StateOnline)"
| "Apply StateBusy e = (case e of
       EventStop \<Rightarrow> (StateOnline, None)
     | EventNotification \<Rightarrow> (StateOnline, None)
     | EventUserPromptSubmit \<Rightarrow> (StateBusy, None)
     | EventTransportDisconnect \<Rightarrow> (StateOffline, None)
     | EventGhostDemote \<Rightarrow> (StateOffline, None)
     | EventPaneDisplaced \<Rightarrow> (StateOffline, None)
     | EventTerminalOffline \<Rightarrow> (StateRetired, None)
     | _ \<Rightarrow> ErrReject StateBusy)"
| "Apply StateOffline e = (case e of
       EventTerminalOffline \<Rightarrow> (StateRetired, None)
     | EventReconnect \<Rightarrow> (StateOnline, None)
     | EventReap \<Rightarrow> (StateRetired, None)
     | _ \<Rightarrow> ErrReject StateOffline)"
| "Apply StateRetired e = (case e of
       EventReclaimWithLiveAgent \<Rightarrow> (StateOnline, None)
     | _ \<Rightarrow> ErrReject StateRetired)"

fun ToStatus :: "LifecycleState \<Rightarrow> PeerStatus option" where
  "ToStatus StateOnline = Some StatusOnline"
| "ToStatus StateBusy = Some StatusBusy"
| "ToStatus StateOffline = Some StatusOffline"
| "ToStatus StateRetired = Some StatusOffline"
| "ToStatus StateUnregistered = None"

text \<open>The registry's use of \<open>Apply\<close>: move on success, stay (and report) on a rejection.\<close>

definition apply_or_stay :: "LifecycleState \<Rightarrow> LifecycleEvent \<Rightarrow> LifecycleState" where
  "apply_or_stay s e = (case Apply s e of (n, None) \<Rightarrow> n | (_, Some _) \<Rightarrow> s)"

fun run_events :: "LifecycleState \<Rightarrow> LifecycleEvent list \<Rightarrow> LifecycleState" where
  "run_events s [] = s"
| "run_events s (e # es) = run_events (apply_or_stay s e) es"

section \<open>Facts about one transition\<close>

lemma Apply_reject_unchanged: "Apply s e = (n, Some err) \<Longrightarrow> n = s"
  by (cases s; cases e) (auto simp: ErrReject_def)

lemma Apply_never_unregistered: "Apply s e = (n, None) \<Longrightarrow> n \<noteq> StateUnregistered"
  by (cases s; cases e) (auto simp: ErrReject_def)

lemma ToStatus_registered: "s \<noteq> StateUnregistered \<Longrightarrow> \<exists>st. ToStatus s = Some st"
  by (cases s) auto

lemma Apply_status_total: "Apply s e = (n, None) \<Longrightarrow> \<exists>st. ToStatus n = Some st"
  by (rule ToStatus_registered) (rule Apply_never_unregistered)

lemma Apply_from_retired:
  "Apply StateRetired e = (n, None) \<longleftrightarrow> e = EventReclaimWithLiveAgent \<and> n = StateOnline"
  by (cases e) (auto simp: ErrReject_def)

lemma Apply_terminal_iff:
  "(\<exists>n. Apply s EventTerminalOffline = (n, None)) \<longleftrightarrow> s \<in> {StateOnline, StateBusy, StateOffline}"
  by (cases s) (auto simp: ErrReject_def)

lemma Apply_terminal_retires: "Apply s EventTerminalOffline = (n, None) \<Longrightarrow> n = StateRetired"
  by (cases s) (auto simp: ErrReject_def)

lemma Apply_disconnect_iff:
  "Apply s EventTransportDisconnect = (n, None) \<longleftrightarrow> s \<in> {StateOnline, StateBusy} \<and> n = StateOffline"
  by (cases s) (auto simp: ErrReject_def)

lemma Apply_ghost_iff:
  "Apply s EventGhostDemote = (n, None) \<longleftrightarrow> s \<in> {StateOnline, StateBusy} \<and> n = StateOffline"
  by (cases s) (auto simp: ErrReject_def)

lemma Apply_displaced_iff:
  "Apply s EventPaneDisplaced = (n, None) \<longleftrightarrow> s \<in> {StateOnline, StateBusy} \<and> n = StateOffline"
  by (cases s) (auto simp: ErrReject_def)

lemma apply_or_stay_never_unregistered:
  "s \<noteq> StateUnregistered \<Longrightarrow> apply_or_stay s e \<noteq> StateUnregistered"
  by (auto simp: apply_or_stay_def split: prod.splits option.splits dest: Apply_never_unregistered)

lemma apply_or_stay_retired:
  "e \<noteq> EventReclaimWithLiveAgent \<Longrightarrow> apply_or_stay StateRetired e = StateRetired"
  by (cases e) (auto simp: apply_or_stay_def ErrReject_def)

section \<open>Facts about runs\<close>

lemma run_events_append: "run_events s (xs @ ys) = run_events (run_events s xs) ys"
  by (induction xs arbitrary: s) auto

lemma run_events_registered: "s \<noteq> StateUnregistered \<Longrightarrow> run_events s es \<noteq> StateUnregistered"
  by (induction es arbitrary: s) (auto simp: apply_or_stay_never_unregistered)

text \<open>
  A retired peer stays retired through any sequence of lifecycle events that does not
  contain a reclaim with proof of a live agent: no other event, and no combination of them,
  resurrects it.
\<close>

theorem retired_is_absorbing:
  "EventReclaimWithLiveAgent \<notin> set es \<Longrightarrow> run_events StateRetired es = StateRetired"
  by (induction es) (auto simp: apply_or_stay_retired)

theorem retired_is_absorbing_witness:
  "EventReclaimWithLiveAgent \<notin> set [EventReconnect, EventConnect, EventStop] \<and>
   run_events StateRetired [EventReconnect, EventConnect, EventStop] = StateRetired"
  using retired_is_absorbing [of "[EventReconnect, EventConnect, EventStop]"] by simp

end
