(* ===== verification/Go_Time.thy ===== *)
theory Go_Time
  imports Cron
begin

text \<open>
  Decimal numbers (\<open>strconv.Itoa\<close>, \<open>%d\<close>) and the \<open>time.RFC3339Nano\<close> format of a UTC time, as the
  event journal and the name generator print them.
\<close>

definition digit_char :: "nat \<Rightarrow> char" where
  "digit_char d = char_of (48 + d)"

fun itoa :: "nat \<Rightarrow> string" where
  "itoa n = (if n < 10 then [digit_char n] else itoa (n div 10) @ [digit_char (n mod 10)])"

declare itoa.simps [simp del]

definition pad :: "nat \<Rightarrow> string \<Rightarrow> string" where
  "pad w s = replicate (w - length s) (CHR ''0'') @ s"

definition civil_year :: "int \<Rightarrow> int" where
  "civil_year day =
     (let z = day + 719468; era = z div 146097; doe = z mod 146097;
          yoe = (doe - doe div 1460 + doe div 36524 - doe div 146096) div 365
      in yoe + era * 400 + (if fst (civil_month_day day) \<le> 2 then 1 else 0))"

definition itoa_pad :: "nat \<Rightarrow> int \<Rightarrow> string" where
  "itoa_pad w n = pad w (itoa (nat n))"

definition trim_zeros :: "string \<Rightarrow> string" where
  "trim_zeros s = rev (dropWhile (\<lambda>c. c = CHR ''0'') (rev s))"

definition FormatRFC3339Nano :: "gotime \<Rightarrow> string" where
  "FormatRFC3339Nano t =
     (let secs = t div second; nanos = t mod second; day = secs div 86400; sod = secs mod 86400;
          (mo, d) = civil_month_day day; frac = trim_zeros (itoa_pad 9 nanos)
      in itoa_pad 4 (civil_year day) @ ''-'' @ itoa_pad 2 mo @ ''-'' @ itoa_pad 2 d @ ''T'' @
         itoa_pad 2 (sod div 3600) @ '':'' @ itoa_pad 2 (sod mod 3600 div 60) @ '':'' @
         itoa_pad 2 (sod mod 60) @ (if frac = [] then [] else ''.'' @ frac) @ ''Z'')"

lemma digits_value_append: "digits_value acc (xs @ ys) = digits_value (digits_value acc xs) ys"
  by (induction xs arbitrary: acc) auto

lemma digit_value_char: "d < 10 \<Longrightarrow> digit_value (digit_char d) = int d"
  by (simp add: digit_value_def digit_char_def)

lemma digits_value_itoa: "digits_value 0 (itoa n) = int n"
proof (induction n rule: itoa.induct)
  case (1 n)
  show ?case
  proof (cases "n < 10")
    case True
    then show ?thesis by (simp add: itoa.simps [of n] digit_value_char)
  next
    case False
    with 1 have "digits_value 0 (itoa n) = 10 * int (n div 10) + int (n mod 10)"
      by (simp add: itoa.simps [of n] digits_value_append digit_value_char)
    also have "\<dots> = int n" by (metis mult_div_mod_eq of_nat_add of_nat_mult of_nat_numeral)
    finally show ?thesis .
  qed
qed

lemma itoa_inject [simp]: "itoa m = itoa n \<longleftrightarrow> m = n"
  by (metis digits_value_itoa of_nat_eq_iff)

end
