(* ===== verification/Event_Buffer.thy ===== *)
theory Event_Buffer
  imports Go_Time
begin

text \<open>
  The in-memory dashboard event window of \<open>daemon-go/peer/events.go\<close>: a FIFO of the last 500 wire
  events with gap recovery (\<open>EventsSince\<close>) and a set of subscribers, each a signal channel of
  capacity one whose pending token is a boolean. Journal events (\<open>event\<close>) are projected onto wire
  maps by \<open>structured\<close>.
\<close>

record event =
  evEventID :: string
  evType :: string
  evTimestamp :: gotime
  evPeerID :: string
  evPeerName :: string
  evSessionID :: string
  evPayload :: jobject

record event_buffer =
  ebEvents :: "jobject list"
  ebSubscribers :: "(nat, bool) gomap"

definition eventsBufferCapacity :: nat where
  "eventsBufferCapacity = 500"

definition new_buffer :: event_buffer where
  "new_buffer = \<lparr>ebEvents = [], ebSubscribers = []\<rparr>"

definition push :: "jobject \<Rightarrow> event_buffer \<Rightarrow> event_buffer" where
  "push ev b =
     (let evs = ebEvents b @ [ev];
          over = length evs - eventsBufferCapacity
      in b\<lparr>ebEvents := (if length evs > eventsBufferCapacity then drop over evs else evs),
           ebSubscribers := gm_map (\<lambda>ch token. True) (ebSubscribers b)\<rparr>)"

definition subscribe :: "nat \<Rightarrow> event_buffer \<Rightarrow> event_buffer" where
  "subscribe ch b = b\<lparr>ebSubscribers := gm_put ch False (ebSubscribers b)\<rparr>"

definition unsubscribe :: "nat \<Rightarrow> event_buffer \<Rightarrow> event_buffer" where
  "unsubscribe ch b = b\<lparr>ebSubscribers := gm_del ch (ebSubscribers b)\<rparr>"

definition put_nonempty :: "string \<Rightarrow> string \<Rightarrow> jobject \<Rightarrow> jobject" where
  "put_nonempty k v m = (if v \<noteq> [] then gm_put k (JStr v) m else m)"

definition structured :: "event \<Rightarrow> jobject" where
  "structured e =
     (let base = [(''id'', JStr (evEventID e)), (''type'', JStr (evType e)),
                  (''timestamp'', JStr (FormatRFC3339Nano (evTimestamp e)))];
          m1 = put_nonempty ''peer_id'' (evPeerID e) base;
          m2 = put_nonempty ''peer_name'' (evPeerName e) m1;
          m3 = put_nonempty ''session_id'' (evSessionID e) m2
      in fold (\<lambda>(k, v) m. if k \<in> {''id'', ''type'', ''timestamp''} then m else gm_put k v m) (evPayload e) m3)"

definition appendStructured :: "event \<Rightarrow> event_buffer \<Rightarrow> event_buffer" where
  "appendStructured e b = push (structured e) b"

definition HydrateEvents :: "jobject list \<Rightarrow> event_buffer \<Rightarrow> event_buffer" where
  "HydrateEvents evs b = fold push evs b"

definition GetEvents :: "event_buffer \<Rightarrow> jobject list" where
  "GetEvents b = ebEvents b"

definition event_id :: "jobject \<Rightarrow> string" where
  "event_id ev = (case gm_get ev ''id'' of Some (JStr i) \<Rightarrow> i | _ \<Rightarrow> [])"

fun after_id :: "string \<Rightarrow> jobject list \<Rightarrow> jobject list option" where
  "after_id i [] = None"
| "after_id i (ev # evs) = (if event_id ev = i then Some evs else after_id i evs)"

definition EventsSince :: "string \<Rightarrow> event_buffer \<Rightarrow> jobject list" where
  "EventsSince eventID b =
     (if eventID = [] then ebEvents b
      else case after_id eventID (ebEvents b) of Some evs \<Rightarrow> evs | None \<Rightarrow> ebEvents b)"

section \<open>The window\<close>

definition last_n :: "nat \<Rightarrow> 'a list \<Rightarrow> 'a list" where
  "last_n n xs = drop (length xs - n) xs"

lemma last_n_append_last_n: "last_n n (last_n n xs @ ys) = last_n n (xs @ ys)"
proof (cases "length xs \<le> n")
  case True
  then show ?thesis by (simp add: last_n_def)
next
  case False
  then have "length xs - n + length ys = length xs + length ys - n" by linarith
  with False show ?thesis by (cases "length ys \<le> n") (simp_all add: last_n_def add.commute)
qed

lemma push_events: "ebEvents (push ev b) = last_n eventsBufferCapacity (ebEvents b @ [ev])"
  by (simp add: push_def Let_def last_n_def)

lemma fold_push_events:
  "ebEvents b = last_n eventsBufferCapacity hist \<Longrightarrow>
   ebEvents (fold push evs b) = last_n eventsBufferCapacity (hist @ evs)"
proof (induction evs arbitrary: b hist)
  case Nil
  then show ?case by simp
next
  case (Cons ev evs)
  have "ebEvents (push ev b) = last_n eventsBufferCapacity (hist @ [ev])"
    by (simp add: push_events Cons.prems last_n_append_last_n)
  from Cons.IH [OF this] show ?case by simp
qed

lemma after_id_append:
  "\<forall>x \<in> set pre. event_id x \<noteq> i \<Longrightarrow> event_id ev = i \<Longrightarrow> after_id i (pre @ ev # post) = Some post"
  by (induction pre) auto

lemma after_id_SomeD: "after_id i evs = Some post \<Longrightarrow> \<exists>x \<in> set evs. event_id x = i"
  by (induction evs) (auto split: if_splits)

text \<open>
  The window is the last 500 events of the history. After any sequence of pushes the buffer
  holds exactly the most recent \<open>eventsBufferCapacity\<close> events ever pushed, in order.
\<close>

theorem window_is_last_500:
  "GetEvents (fold push evs new_buffer) = last_n eventsBufferCapacity evs"
  using fold_push_events [of new_buffer "[]" evs] by (simp add: GetEvents_def new_buffer_def last_n_def)

text \<open>
  Gap recovery loses nothing. If the event a client saw last is still in the window and ids are
  not repeated, \<open>EventsSince\<close> returns exactly the events pushed after it; if it has been evicted,
  the client gets the whole window.
\<close>

theorem events_since_cursor:
  assumes "evs = seen @ ev # new" and "event_id ev = i" and "i \<noteq> []"
    and "\<forall>x \<in> set seen. event_id x \<noteq> i" and "\<forall>x \<in> set new. event_id x \<noteq> i"
  shows "EventsSince i (fold push evs new_buffer) =
     (if length new < eventsBufferCapacity then new else last_n eventsBufferCapacity new)"
proof -
  have w: "ebEvents (fold push evs new_buffer) = last_n eventsBufferCapacity evs"
    using window_is_last_500 [of evs] by (simp add: GetEvents_def)
  show ?thesis
  proof (cases "length new < eventsBufferCapacity")
    case True
    then have "last_n eventsBufferCapacity evs = drop (length evs - eventsBufferCapacity) seen @ ev # new"
      by (simp add: last_n_def assms(1))
    moreover have "\<forall>x \<in> set (drop (length evs - eventsBufferCapacity) seen). event_id x \<noteq> i"
      using assms(4) by (auto dest: in_set_dropD)
    ultimately have "after_id i (last_n eventsBufferCapacity evs) = Some new"
      using assms(2) by (simp add: after_id_append)
    with True assms(3) show ?thesis by (simp add: EventsSince_def w)
  next
    case False
    then have e: "last_n eventsBufferCapacity evs = last_n eventsBufferCapacity new"
      by (simp add: last_n_def assms(1) Suc_diff_le)
    have "after_id i (last_n eventsBufferCapacity new) = None"
    proof (rule ccontr)
      assume "after_id i (last_n eventsBufferCapacity new) \<noteq> None"
      then obtain x where "x \<in> set (last_n eventsBufferCapacity new)" "event_id x = i"
        by (auto dest: after_id_SomeD)
      then have "x \<in> set new" by (auto simp: last_n_def dest: in_set_dropD)
      with assms(5) \<open>event_id x = i\<close> show False by blast
    qed
    with False assms(3) show ?thesis by (simp add: EventsSince_def w e)
  qed
qed

theorem events_since_cursor_witness:
  "EventsSince ''b'' (fold push [[(''id'', JStr ''a'')], [(''id'', JStr ''b'')], [(''id'', JStr ''c'')]] new_buffer) =
     [[(''id'', JStr ''c'')]]"
  using events_since_cursor [of "[[(''id'', JStr ''a'')], [(''id'', JStr ''b'')], [(''id'', JStr ''c'')]]"
      "[[(''id'', JStr ''a'')]]" "[(''id'', JStr ''b'')]" "[[(''id'', JStr ''c'')]]" "''b''"]
  by (simp add: event_id_def gm_get_def eventsBufferCapacity_def)

text \<open>Every push leaves every subscriber with a pending token, so no wake-up is lost.\<close>

lemma push_wakes_subscribers:
  "gm_has (ebSubscribers b) ch \<Longrightarrow> gm_get (ebSubscribers (push ev b)) ch = Some True"
  by (auto simp: push_def Let_def gm_has_iff)

end
