(* ===== verification/Registry_State.thy ===== *)
theory Registry_State
  imports Lifecycle Event_Buffer "HOL-Library.Word"
begin

text \<open>
  The state of the peer registry of \<open>daemon-go/peer/registry.go\<close>, its durable store
  (\<open>peer/store.go\<close>) and the helpers every operation uses.

  An operation that holds \<open>r.mu\<close> is one function on \<open>registry\<close>. What the registry calls through
  an interface is the record \<open>env\<close>: one instant \<open>Now\<close> for all the \<open>time.Now()\<close> of an operation,
  the liveness probe, the transport (None when it is nil), the process probe (None when it is nil),
  the error a store call returns and the supply of UUIDs. The tables behind \<open>Store\<close> are the fields
  \<open>rgDbMappings\<close>, \<open>rgDbRetired\<close> and \<open>rgJournal\<close>. Calls that leave the registry (closing a socket,
  the offline hooks, a scheduled redelivery) are recorded in order in \<open>rgTrace\<close>.
\<close>

section \<open>Data\<close>

record retirement =
  rtAt :: gotime
  rtHard :: bool

record peer_state =
  psPeer :: peer
  psState :: LifecycleState

datatype store_call =
    SCUpsertMapping string
  | SCDeleteMapping string
  | SCRetire string
  | SCUnretire string
  | SCAppendEvent string

datatype action =
    ATransportClose string
  | AOnOffline string
  | AOnTerminalOffline string string
  | ARedeliver string
  | ANotify string string string

record env =
  Now :: gotime
  PIDAlive :: "int \<Rightarrow> bool"
  Transport :: "(string \<Rightarrow> bool) option"
  ProcProbe :: "((int \<Rightarrow> int list option) \<times> (string \<Rightarrow> int option)) option"
  StoreErr :: "store_call \<Rightarrow> string option"
  Uuid :: "nat \<Rightarrow> string"

record registry =
  rgPeers :: "(string, peer_state) gomap"
  rgMappings :: "(string, mapping) gomap"
  rgDirty :: bool
  rgVersion :: "64 word"
  rgRetired :: "(string, retirement) gomap"
  rgRetiredTTL :: duration
  rgReapTTL :: duration
  rgHeartbeat :: duration
  rgDescriptionTTL :: duration
  rgDescSetAt :: "(string, gotime) gomap"
  rgHasAsks :: bool
  rgACPBroker :: bool
  rgStaleBusyTTL :: duration
  rgEvictMaxAge :: duration
  rgPaneStrikes :: "(string, nat) gomap"
  rgContra :: "(string \<times> string, unit) gomap"
  rgEvlog :: event_buffer
  rgClosed :: bool
  rgLastRepair :: "gotime option"
  rgDbMappings :: "(string, mapping) gomap"
  rgDbRetired :: "(string, retirement) gomap"
  rgJournal :: "event list"
  rgUuids :: nat
  rgTrace :: "action list"

definition defaultRetiredTTL :: duration where
  "defaultRetiredTTL = 72 * 3600 * second"

definition defaultReapTTL :: duration where
  "defaultReapTTL = 30 * 60 * second"

definition defaultHeartbeatInterval :: duration where
  "defaultHeartbeatInterval = 30 * second"

definition paneHeartbeatTolerance :: duration where
  "paneHeartbeatTolerance = 60 * second"

text \<open>\<open>NewRegistry\<close> hydrates from the tables: every mapping, and the tombstones newer than the cutoff.\<close>

definition NewRegistry :: "gotime \<Rightarrow> (string, mapping) gomap \<Rightarrow> (string, retirement) gomap \<Rightarrow> event list \<Rightarrow> registry" where
  "NewRegistry now dbm dbr journal =
     \<lparr>rgPeers = [], rgMappings = dbm, rgDirty = False, rgVersion = 0,
      rgRetired = filter (\<lambda>(k, rt). now - defaultRetiredTTL < rtAt rt) dbr,
      rgRetiredTTL = defaultRetiredTTL, rgReapTTL = defaultReapTTL,
      rgHeartbeat = defaultHeartbeatInterval, rgDescriptionTTL = 15 * 60 * second, rgDescSetAt = [],
      rgHasAsks = False, rgACPBroker = False, rgStaleBusyTTL = 0, rgEvictMaxAge = 0,
      rgPaneStrikes = [], rgContra = [], rgEvlog = new_buffer, rgClosed = False, rgLastRepair = None,
      rgDbMappings = dbm, rgDbRetired = dbr, rgJournal = journal, rgUuids = 0, rgTrace = []\<rparr>"

definition ConfigureDurations :: "duration \<Rightarrow> duration \<Rightarrow> duration \<Rightarrow> registry \<Rightarrow> registry" where
  "ConfigureDurations heartbeatInterval reapTTL descriptionTTL r =
     r\<lparr>rgHeartbeat := (if heartbeatInterval > 0 then heartbeatInterval else rgHeartbeat r),
       rgReapTTL := reapTTL, rgDescriptionTTL := descriptionTTL\<rparr>"

definition WithReconciliation :: "bool \<Rightarrow> bool \<Rightarrow> duration \<Rightarrow> duration \<Rightarrow> registry \<Rightarrow> registry" where
  "WithReconciliation hasAsks acp staleBusyTTL evictMaxAge r =
     r\<lparr>rgHasAsks := hasAsks, rgACPBroker := acp, rgStaleBusyTTL := staleBusyTTL,
       rgEvictMaxAge := evictMaxAge\<rparr>"

section \<open>Helpers\<close>

definition trace :: "action \<Rightarrow> registry \<Rightarrow> registry" where
  "trace a r = r\<lparr>rgTrace := rgTrace r @ [a]\<rparr>"

definition nextUuid :: "env \<Rightarrow> registry \<Rightarrow> string \<times> registry" where
  "nextUuid e r = (Uuid e (rgUuids r), r\<lparr>rgUuids := Suc (rgUuids r)\<rparr>)"

definition appendEvent :: "env \<Rightarrow> event \<Rightarrow> registry \<Rightarrow> registry" where
  "appendEvent e ev r =
     (let (ev', r1) = (if evEventID ev = [] then (let (u, r') = nextUuid e r in (ev\<lparr>evEventID := u\<rparr>, r'))
                       else (ev, r));
          r2 = (if StoreErr e (SCAppendEvent (evType ev)) = None
                then r1\<lparr>rgJournal := rgJournal r1 @ [ev']\<rparr> else r1)
      in r2\<lparr>rgEvlog := appendStructured ev' (rgEvlog r2)\<rparr>)"

definition peer_event :: "string \<Rightarrow> gotime \<Rightarrow> string \<Rightarrow> string \<Rightarrow> jobject \<Rightarrow> event" where
  "peer_event ty now i name payload =
     \<lparr>evEventID = [], evType = ty, evTimestamp = now, evPeerID = i, evPeerName = name,
      evSessionID = i, evPayload = payload\<rparr>"

fun state_string :: "LifecycleState \<Rightarrow> string" where
  "state_string StateUnregistered = ''Unregistered''"
| "state_string StateOnline = ''Online''"
| "state_string StateBusy = ''Busy''"
| "state_string StateOffline = ''Offline''"
| "state_string StateRetired = ''Retired''"

fun event_string :: "LifecycleEvent \<Rightarrow> string" where
  "event_string EventConnect = ''Connect''"
| "event_string EventUserPromptSubmit = ''UserPromptSubmit''"
| "event_string EventNotification = ''Notification''"
| "event_string EventStop = ''Stop''"
| "event_string EventTransportDisconnect = ''TransportDisconnect''"
| "event_string EventGhostDemote = ''GhostDemote''"
| "event_string EventPaneDisplaced = ''PaneDisplaced''"
| "event_string EventTerminalOffline = ''TerminalOffline''"
| "event_string EventReconnect = ''Reconnect''"
| "event_string EventReap = ''Reap''"
| "event_string EventReclaimWithLiveAgent = ''ReclaimWithLiveAgent''"

definition emitContradiction :: "env \<Rightarrow> string \<Rightarrow> string \<Rightarrow> LifecycleState \<Rightarrow> LifecycleEvent \<Rightarrow> registry \<Rightarrow> registry" where
  "emitContradiction e i name from ev r =
     appendEvent e (peer_event ''peer_contradiction'' (Now e) i name
       [(''from_state'', JStr (state_string from)), (''event'', JStr (event_string ev)),
        (''detail'', JStr ''illegal lifecycle transition rejected'')]) r"

definition markMappingsDirty :: "registry \<Rightarrow> registry" where
  "markMappingsDirty r = r\<lparr>rgDirty := True, rgVersion := rgVersion r + 1\<rparr>"

definition retireLocked :: "env \<Rightarrow> string \<Rightarrow> bool \<Rightarrow> registry \<Rightarrow> registry" where
  "retireLocked e i hard r =
     (let rt = \<lparr>rtAt = Now e, rtHard = hard\<rparr>;
          r1 = r\<lparr>rgRetired := gm_put i rt (rgRetired r)\<rparr>
      in case StoreErr e (SCRetire i) of
           None \<Rightarrow> r1\<lparr>rgDbRetired := gm_put i rt (rgDbRetired r1)\<rparr>
         | Some err \<Rightarrow> appendEvent e (peer_event ''retire_persist_failed'' (Now e) i [] [(''error'', JStr err)]) r1)"

definition unretireLocked :: "env \<Rightarrow> string \<Rightarrow> registry \<Rightarrow> registry" where
  "unretireLocked e i r =
     (let r1 = r\<lparr>rgRetired := gm_del i (rgRetired r)\<rparr>
      in case StoreErr e (SCUnretire i) of
           None \<Rightarrow> r1\<lparr>rgDbRetired := gm_del i (rgDbRetired r1)\<rparr>
         | Some err \<Rightarrow> r1)"

text \<open>\<open>scheduleRedelivery\<close>: launched only with a tracker wired, and never after \<open>Close\<close>.\<close>

definition scheduleRedelivery :: "string \<Rightarrow> registry \<Rightarrow> registry" where
  "scheduleRedelivery i r = (if rgHasAsks r \<and> \<not> rgClosed r then trace (ARedeliver i) r else r)"

definition transportClose :: "env \<Rightarrow> string \<Rightarrow> registry \<Rightarrow> registry" where
  "transportClose e i r = (if Transport e = None then r else trace (ATransportClose i) r)"

definition connected :: "env \<Rightarrow> string \<Rightarrow> bool" where
  "connected e i = (case Transport e of None \<Rightarrow> False | Some isConnected \<Rightarrow> isConnected i)"

definition set_peer :: "string \<Rightarrow> (peer \<Rightarrow> peer) \<Rightarrow> registry \<Rightarrow> registry" where
  "set_peer i f r = r\<lparr>rgPeers := gm_adjust i (\<lambda>ps. ps\<lparr>psPeer := f (psPeer ps)\<rparr>) (rgPeers r)\<rparr>"

definition set_mapping :: "string \<Rightarrow> (mapping \<Rightarrow> mapping) \<Rightarrow> registry \<Rightarrow> registry" where
  "set_mapping i f r = r\<lparr>rgMappings := gm_adjust i f (rgMappings r)\<rparr>"

text \<open>\<open>ps.state = next; if s, ok := next.ToStatus(); ok {...}; ps.peer.LastSeen = &now\<close>.\<close>

definition move_to :: "gotime \<Rightarrow> LifecycleState \<Rightarrow> peer_state \<Rightarrow> peer_state" where
  "move_to now s ps =
     ps\<lparr>psState := s,
        psPeer := (psPeer ps)\<lparr>Status := (case ToStatus s of Some st \<Rightarrow> st | None \<Rightarrow> Status (psPeer ps)),
                             LastSeen := Some now\<rparr>\<rparr>"

definition put_peer :: "string \<Rightarrow> peer_state \<Rightarrow> registry \<Rightarrow> registry" where
  "put_peer i ps r = r\<lparr>rgPeers := gm_put i ps (rgPeers r)\<rparr>"

definition applyDescriptionTTL :: "env \<Rightarrow> string \<Rightarrow> registry \<Rightarrow> registry" where
  "applyDescriptionTTL e i r = (case gm_get (rgPeers r) i of
       None \<Rightarrow> r
     | Some ps \<Rightarrow>
         if Description (psPeer ps) = [] \<or> rgDescriptionTTL r \<le> 0 then r
         else (case gm_get (rgDescSetAt r) i of
             None \<Rightarrow> r\<lparr>rgDescSetAt := gm_put i (Now e) (rgDescSetAt r)\<rparr>
           | Some setAt \<Rightarrow>
               if Now e - setAt < rgDescriptionTTL r then r
               else (let r1 = set_peer i (\<lambda>p. p\<lparr>Description := []\<rparr>) r;
                         r2 = r1\<lparr>rgDescSetAt := gm_del i (rgDescSetAt r1)\<rparr>
                     in if gm_has (rgMappings r2) i
                        then markMappingsDirty (set_mapping i (\<lambda>m. m\<lparr>mDescription := [], mUpdatedAt := Now e\<rparr>) r2)
                        else r2)))"

definition recentlySeen :: "peer \<Rightarrow> gotime \<Rightarrow> bool" where
  "recentlySeen p now = (case LastSeen p of None \<Rightarrow> False | Some t \<Rightarrow> now - t \<le> paneHeartbeatTolerance)"

definition lastSeenAfter :: "peer \<Rightarrow> peer \<Rightarrow> bool" where
  "lastSeenAfter a b = (case LastSeen a of None \<Rightarrow> False
     | Some ta \<Rightarrow> (case LastSeen b of None \<Rightarrow> True | Some tb \<Rightarrow> tb < ta))"

definition live_status :: "PeerStatus \<Rightarrow> bool" where
  "live_status s \<longleftrightarrow> s = StatusOnline \<or> s = StatusBusy"

text \<open>A loop over the peers that stops at the first one satisfying a test.\<close>

definition find_peer :: "(peer_state \<Rightarrow> bool) \<Rightarrow> registry \<Rightarrow> (string \<times> peer_state) option" where
  "find_peer P r = find (\<lambda>(k, ps). P ps) (rgPeers r)"

fun put_all :: "(string \<times> json) list \<Rightarrow> jobject \<Rightarrow> jobject" where
  "put_all [] m = m"
| "put_all ((k, v) # kvs) m = put_all kvs (gm_put k v m)"

definition holds_pane :: "string \<Rightarrow> peer \<Rightarrow> bool" where
  "holds_pane pane p \<longleftrightarrow> PaneID p = Some pane"

section \<open>What the helpers leave alone\<close>

text \<open>Journalling changes nothing the registry decides on.\<close>

definition same_tables :: "registry \<Rightarrow> registry \<Rightarrow> bool" where
  "same_tables r r' \<longleftrightarrow>
     rgPeers r' = rgPeers r \<and> rgMappings r' = rgMappings r \<and> rgDirty r' = rgDirty r \<and>
     rgVersion r' = rgVersion r \<and> rgRetired r' = rgRetired r \<and> rgDescSetAt r' = rgDescSetAt r \<and>
     rgDbMappings r' = rgDbMappings r \<and> rgDbRetired r' = rgDbRetired r \<and>
     rgPaneStrikes r' = rgPaneStrikes r \<and> rgRetiredTTL r' = rgRetiredTTL r \<and>
     rgReapTTL r' = rgReapTTL r \<and> rgHeartbeat r' = rgHeartbeat r \<and>
     rgDescriptionTTL r' = rgDescriptionTTL r \<and> rgHasAsks r' = rgHasAsks r \<and>
     rgACPBroker r' = rgACPBroker r \<and> rgStaleBusyTTL r' = rgStaleBusyTTL r \<and>
     rgEvictMaxAge r' = rgEvictMaxAge r \<and> rgClosed r' = rgClosed r \<and> rgLastRepair r' = rgLastRepair r"

lemma appendEvent_same: "same_tables r (appendEvent e ev r)"
  by (simp add: same_tables_def appendEvent_def nextUuid_def Let_def split: prod.splits)

lemma emitContradiction_same: "same_tables r (emitContradiction e i n s ev r)"
  by (simp add: emitContradiction_def appendEvent_same)

lemma trace_same: "same_tables r (trace a r)"
  by (simp add: same_tables_def trace_def)

lemma scheduleRedelivery_same: "same_tables r (scheduleRedelivery i r)"
  by (simp add: scheduleRedelivery_def trace_same) (simp add: same_tables_def)

lemma transportClose_same: "same_tables r (transportClose e i r)"
  by (simp add: transportClose_def trace_same) (simp add: same_tables_def)

lemmas journal_simps [simp] =
  appendEvent_same [unfolded same_tables_def] emitContradiction_same [unfolded same_tables_def]
  trace_same [unfolded same_tables_def] scheduleRedelivery_same [unfolded same_tables_def]
  transportClose_same [unfolded same_tables_def]

lemma appendEvent_trace [simp]:
  "rgTrace (appendEvent e ev r) = rgTrace r" "rgContra (appendEvent e ev r) = rgContra r"
  by (simp_all add: appendEvent_def nextUuid_def Let_def split: prod.splits)

lemma emitContradiction_trace [simp]:
  "rgTrace (emitContradiction e i n s ev r) = rgTrace r" "rgContra (emitContradiction e i n s ev r) = rgContra r"
  by (simp_all add: emitContradiction_def)

lemma retireLocked_simps [simp]:
  "rgPeers (retireLocked e i h r) = rgPeers r" "rgMappings (retireLocked e i h r) = rgMappings r"
  "rgDirty (retireLocked e i h r) = rgDirty r" "rgVersion (retireLocked e i h r) = rgVersion r"
  "rgRetired (retireLocked e i h r) = gm_put i \<lparr>rtAt = Now e, rtHard = h\<rparr> (rgRetired r)"
  "rgDbMappings (retireLocked e i h r) = rgDbMappings r" "rgTrace (retireLocked e i h r) = rgTrace r"
  "rgDescSetAt (retireLocked e i h r) = rgDescSetAt r" "rgRetiredTTL (retireLocked e i h r) = rgRetiredTTL r"
  "rgHasAsks (retireLocked e i h r) = rgHasAsks r"
  by (simp_all add: retireLocked_def Let_def split: option.splits)

lemma retireLocked_persisted:
  "StoreErr e (SCRetire i) = None \<Longrightarrow>
   rgDbRetired (retireLocked e i h r) = gm_put i \<lparr>rtAt = Now e, rtHard = h\<rparr> (rgDbRetired r)"
  by (simp add: retireLocked_def Let_def)

lemma unretireLocked_simps [simp]:
  "rgPeers (unretireLocked e i r) = rgPeers r" "rgMappings (unretireLocked e i r) = rgMappings r"
  "rgDirty (unretireLocked e i r) = rgDirty r" "rgVersion (unretireLocked e i r) = rgVersion r"
  "rgRetired (unretireLocked e i r) = gm_del i (rgRetired r)"
  "rgDbMappings (unretireLocked e i r) = rgDbMappings r" "rgTrace (unretireLocked e i r) = rgTrace r"
  "rgDescSetAt (unretireLocked e i r) = rgDescSetAt r" "rgUuids (unretireLocked e i r) = rgUuids r"
  by (simp_all add: unretireLocked_def Let_def split: option.splits)

lemma set_peer_simps [simp]:
  "rgPeers (set_peer i f r) = gm_adjust i (\<lambda>ps. ps\<lparr>psPeer := f (psPeer ps)\<rparr>) (rgPeers r)"
  "rgMappings (set_peer i f r) = rgMappings r" "rgDirty (set_peer i f r) = rgDirty r"
  "rgRetired (set_peer i f r) = rgRetired r" "rgDbMappings (set_peer i f r) = rgDbMappings r"
  "rgDescSetAt (set_peer i f r) = rgDescSetAt r" "rgVersion (set_peer i f r) = rgVersion r"
  by (simp_all add: set_peer_def)

lemma set_mapping_simps [simp]:
  "rgPeers (set_mapping i f r) = rgPeers r" "rgMappings (set_mapping i f r) = gm_adjust i f (rgMappings r)"
  "rgRetired (set_mapping i f r) = rgRetired r" "rgDbMappings (set_mapping i f r) = rgDbMappings r"
  "rgDescSetAt (set_mapping i f r) = rgDescSetAt r" "rgDirty (set_mapping i f r) = rgDirty r"
  by (simp_all add: set_mapping_def)

lemma put_peer_simps [simp]:
  "rgPeers (put_peer i ps r) = gm_put i ps (rgPeers r)" "rgMappings (put_peer i ps r) = rgMappings r"
  "rgRetired (put_peer i ps r) = rgRetired r" "rgDbMappings (put_peer i ps r) = rgDbMappings r"
  "rgDescSetAt (put_peer i ps r) = rgDescSetAt r" "rgDirty (put_peer i ps r) = rgDirty r"
  "rgVersion (put_peer i ps r) = rgVersion r"
  by (simp_all add: put_peer_def)

lemma markMappingsDirty_simps [simp]:
  "rgPeers (markMappingsDirty r) = rgPeers r" "rgMappings (markMappingsDirty r) = rgMappings r"
  "rgRetired (markMappingsDirty r) = rgRetired r" "rgDbMappings (markMappingsDirty r) = rgDbMappings r"
  "rgDirty (markMappingsDirty r)" "rgDescSetAt (markMappingsDirty r) = rgDescSetAt r"
  "rgVersion (markMappingsDirty r) = rgVersion r + 1"
  by (simp_all add: markMappingsDirty_def)

lemma move_to_simps [simp]:
  "psState (move_to now s ps) = s" "LastSeen (psPeer (move_to now s ps)) = Some now"
  "PeerID (psPeer (move_to now s ps)) = PeerID (psPeer ps)"
  "DisplayName (psPeer (move_to now s ps)) = DisplayName (psPeer ps)"
  "Circle (psPeer (move_to now s ps)) = Circle (psPeer ps)" "Role (psPeer (move_to now s ps)) = Role (psPeer ps)"
  "Backend (psPeer (move_to now s ps)) = Backend (psPeer ps)" "PaneID (psPeer (move_to now s ps)) = PaneID (psPeer ps)"
  "Path (psPeer (move_to now s ps)) = Path (psPeer ps)"
  "Description (psPeer (move_to now s ps)) = Description (psPeer ps)"
  "Model (psPeer (move_to now s ps)) = Model (psPeer ps)"
  "AgentPID (psPeer (move_to now s ps)) = AgentPID (psPeer ps)"
  "Metadata (psPeer (move_to now s ps)) = Metadata (psPeer ps)"
  by (simp_all add: move_to_def)

lemma move_to_status: "ToStatus s = Some st \<Longrightarrow> Status (psPeer (move_to now s ps)) = st"
  by (simp add: move_to_def)

end
