(* ===== verification/Registry_Naming.thy ===== *)
theory Registry_Naming
  imports Registry_State Go_Strings
begin

text \<open>
  How \<open>daemon-go/peer/registry.go\<close> derives a peer's addressing name: \<open>sanitizeFolder\<close>,
  \<open>baseFolder\<close>, \<open>runtimeSessionID\<close> and the unbounded suffix loop of \<open>buildDisplayName\<close>, which is
  shown to end. A Go string ranged over by runes is a byte string here: every byte of a
  non-ASCII rune is replaced and the replacements collapse to one dash, as the rune's would.
\<close>

section \<open>Allocation parameters\<close>

record allocate_params =
  apCircle :: string
  apBackend :: string
  apPreferredDisplayName :: "string option"
  apModel :: "string option"
  apPath :: "string option"
  apPaneID :: "string option"
  apTmuxSession :: "string option"
  apMachine :: string
  apRole :: PeerRole
  apClaimedPeerID :: "string option"
  apMetadata :: jobject
  apAgentPID :: "int option"
  apTurnState :: "TurnState option"
  apParentPID :: "int option"
  apRuntimeIdentityVerified :: bool

section \<open>Folder names\<close>

definition folder_char :: "char \<Rightarrow> bool" where
  "folder_char c \<longleftrightarrow>
     c = CHR ''.'' \<or> c = CHR ''_'' \<or> c = CHR ''-'' \<or>
     (97 \<le> (of_char c :: nat) \<and> (of_char c :: nat) \<le> 122) \<or>
     (65 \<le> (of_char c :: nat) \<and> (of_char c :: nat) \<le> 90) \<or>
     (48 \<le> (of_char c :: nat) \<and> (of_char c :: nat) \<le> 57)"

fun sanitize_loop :: "bool \<Rightarrow> string \<Rightarrow> string" where
  "sanitize_loop prevDash [] = []"
| "sanitize_loop prevDash (c # cs) =
     (let c' = (if folder_char c then c else CHR ''-'')
      in if c' = CHR ''-'' then (if prevDash then sanitize_loop True cs else c' # sanitize_loop True cs)
         else c' # sanitize_loop False cs)"

definition sanitizeFolder :: "string \<Rightarrow> string" where
  "sanitizeFolder name =
     (let out = TrimCutset (\<lambda>c. c = CHR ''-'') (sanitize_loop False name)
      in if out \<noteq> [] then out else ''peer'')"

definition baseFolder :: "string \<Rightarrow> string" where
  "baseFolder path =
     (let trimmed = dropWhile (\<lambda>c. c = CHR ''/'') (rev path);
          last = rev (takeWhile (\<lambda>c. c \<noteq> CHR ''/'') trimmed)
      in if last = [] then ''peer'' else sanitizeFolder last)"

definition session_keys :: "string list" where
  "session_keys = [''hook_session_id'', ''runtime_session_id'', ''session_id'']"

fun first_string :: "jobject \<Rightarrow> string list \<Rightarrow> string" where
  "first_string m [] = []"
| "first_string m (k # ks) = (case gm_get m k of
       Some (JStr v) \<Rightarrow> if v \<noteq> [] then v else first_string m ks
     | _ \<Rightarrow> first_string m ks)"

definition runtimeSessionID :: "jobject \<Rightarrow> string" where
  "runtimeSessionID m = first_string m session_keys"

section \<open>Display names\<close>

definition folder_of :: "allocate_params \<Rightarrow> string" where
  "folder_of p = (case apPath p of Some path \<Rightarrow> if path \<noteq> [] then baseFolder path else ''peer'' | None \<Rightarrow> ''peer'')"

text \<open>The name tried in round \<open>k\<close>: the base name first, then the ones with suffix \<open>k = 2, 3, \<dots>\<close>.\<close>

definition name_candidate :: "allocate_params \<Rightarrow> nat \<Rightarrow> string" where
  "name_candidate p k =
     (let folder = folder_of p; preferred = (case apPreferredDisplayName p of Some d \<Rightarrow> d | None \<Rightarrow> [])
      in if k < 2 then (if preferred \<noteq> [] then preferred else folder @ ''-'' @ apBackend p)
         else if preferred \<noteq> [] then preferred @ ''-'' @ itoa k
         else folder @ ''-'' @ itoa k @ ''-'' @ apBackend p)"

definition name_blocker :: "registry \<Rightarrow> allocate_params \<Rightarrow> string \<Rightarrow> peer_state option" where
  "name_blocker r p name =
     map_option snd (find_peer (\<lambda>ps. DisplayName (psPeer ps) = name \<and> Circle (psPeer ps) = apCircle p) r)"

definition same_session :: "allocate_params \<Rightarrow> peer_state \<Rightarrow> bool" where
  "same_session p ps \<longleftrightarrow>
     runtimeSessionID (apMetadata p) \<noteq> [] \<and>
     runtimeSessionID (Metadata (psPeer ps)) = runtimeSessionID (apMetadata p)"

lemma name_blocker_None: "name_blocker r p name = None \<longleftrightarrow>
    (\<forall>(k, ps) \<in> set (rgPeers r). \<not> (DisplayName (psPeer ps) = name \<and> Circle (psPeer ps) = apCircle p))"
  by (auto simp: name_blocker_def find_peer_def find_None_iff)

lemma name_blocker_Some: "name_blocker r p name = Some ps \<Longrightarrow>
    \<exists>k. (k, ps) \<in> set (rgPeers r) \<and> DisplayName (psPeer ps) = name \<and> Circle (psPeer ps) = apCircle p"
  by (auto simp: name_blocker_def find_peer_def find_Some_iff) (metis nth_mem)

lemma name_candidate_inj: "inj_on (name_candidate p) {2..}"
  by (rule inj_onI) (auto simp: name_candidate_def Let_def split: if_splits)

definition taken_rounds :: "registry \<Rightarrow> allocate_params \<Rightarrow> nat \<Rightarrow> nat set" where
  "taken_rounds r p k = {j. k \<le> j \<and> name_blocker r p (name_candidate p j) \<noteq> None}"

lemma finite_taken_rounds: "finite (taken_rounds r p k)"
proof -
  let ?names = "(\<lambda>x. DisplayName (psPeer (snd x))) ` set (rgPeers r)"
  have "taken_rounds r p k \<subseteq> {0, 1} \<union> (name_candidate p -` ?names \<inter> {2..})"
  proof
    fix j assume j: "j \<in> taken_rounds r p k"
    then obtain ps where "name_blocker r p (name_candidate p j) = Some ps" by (auto simp: taken_rounds_def)
    then obtain i where "(i, ps) \<in> set (rgPeers r)" "DisplayName (psPeer ps) = name_candidate p j"
      by (blast dest: name_blocker_Some)
    then have "name_candidate p j \<in> ?names" by force
    then show "j \<in> {0, 1} \<union> (name_candidate p -` ?names \<inter> {2..})" by auto
  qed
  moreover have "finite (name_candidate p -` ?names \<inter> {2..})"
    by (rule finite_vimage_IntI [OF _ name_candidate_inj]) simp
  ultimately show ?thesis by (meson finite.emptyI finite_Un finite_insert finite_subset)
qed

function name_loop :: "registry \<Rightarrow> allocate_params \<Rightarrow> nat \<Rightarrow> string" where
  "name_loop r p k =
     (case name_blocker r p (name_candidate p k) of
        None \<Rightarrow> name_candidate p k
      | Some ps \<Rightarrow> if same_session p ps \<or> psState ps = StateOffline then name_candidate p k
                  else name_loop r p (Suc k))"
  by pat_completeness auto
termination
proof (relation "measure (\<lambda>(r, p, k). card (taken_rounds r p k))")
  show "wf (measure (\<lambda>(r, p, k). card (taken_rounds r p k)))" by simp
next
  fix r :: registry and p k ps
  assume "name_blocker r p (name_candidate p k) = Some ps"
  then have "k \<in> taken_rounds r p k" "k \<notin> taken_rounds r p (Suc k)" "taken_rounds r p (Suc k) \<subseteq> taken_rounds r p k"
    by (auto simp: taken_rounds_def)
  then have "taken_rounds r p (Suc k) \<subset> taken_rounds r p k" by blast
  then show "((r, p, Suc k), r, p, k) \<in> measure (\<lambda>(r, p, k). card (taken_rounds r p k))"
    by (simp add: psubset_card_mono finite_taken_rounds)
qed

declare name_loop.simps [simp del]

definition buildDisplayName :: "registry \<Rightarrow> allocate_params \<Rightarrow> string" where
  "buildDisplayName r p = name_loop r p 1"

section \<open>What the names are\<close>

lemma name_loop_result:
  "\<exists>j \<ge> k. name_loop r p k = name_candidate p j \<and>
     (case name_blocker r p (name_candidate p j) of
        None \<Rightarrow> True | Some ps \<Rightarrow> same_session p ps \<or> psState ps = StateOffline) \<and>
     (\<forall>i. k \<le> i \<and> i < j \<longrightarrow> (\<exists>ps. name_blocker r p (name_candidate p i) = Some ps \<and>
        \<not> same_session p ps \<and> psState ps \<noteq> StateOffline))"
proof (induction r p k rule: name_loop.induct)
  case (1 r p k)
  show ?case
  proof (cases "name_blocker r p (name_candidate p k)")
    case None
    then show ?thesis by (intro exI [of _ k]) (auto simp: name_loop.simps)
  next
    case (Some ps)
    show ?thesis
    proof (cases "same_session p ps \<or> psState ps = StateOffline")
      case True
      with Some show ?thesis by (intro exI [of _ k]) (auto simp: name_loop.simps)
    next
      case False
      from 1 [OF Some False] obtain j where j: "Suc k \<le> j" "name_loop r p (Suc k) = name_candidate p j"
        "case name_blocker r p (name_candidate p j) of None \<Rightarrow> True | Some ps \<Rightarrow> same_session p ps \<or> psState ps = StateOffline"
        "\<forall>i. Suc k \<le> i \<and> i < j \<longrightarrow> (\<exists>ps. name_blocker r p (name_candidate p i) = Some ps \<and>
        \<not> same_session p ps \<and> psState ps \<noteq> StateOffline)" by blast
      have "\<forall>i. k \<le> i \<and> i < j \<longrightarrow> (\<exists>ps. name_blocker r p (name_candidate p i) = Some ps \<and>
        \<not> same_session p ps \<and> psState ps \<noteq> StateOffline)"
        using j(4) Some False by (metis Suc_leI le_neq_implies_less)
      with j Some False show ?thesis by (intro exI [of _ j]) (simp add: name_loop.simps)
    qed
  qed
qed

lemma sanitize_loop_chars: "c \<in> set (sanitize_loop d s) \<Longrightarrow> folder_char c"
  by (induction d s rule: sanitize_loop.induct) (auto simp: Let_def folder_char_def split: if_splits)

lemma set_TrimCutset: "set (TrimCutset P s) \<subseteq> set s"
proof
  fix x assume "x \<in> set (TrimCutset P s)"
  then have "x \<in> set (dropWhile P (rev (dropWhile P s)))" by (simp add: TrimCutset_def)
  from set_dropWhileD [OF this] have "x \<in> set (dropWhile P s)" by simp
  from set_dropWhileD [OF this] show "x \<in> set s" .
qed

lemma sanitizeFolder_chars: "\<forall>c \<in> set (sanitizeFolder s). folder_char c"
proof (cases "TrimCutset (\<lambda>c. c = CHR ''-'') (sanitize_loop False s) = []")
  case True
  then show ?thesis by (simp add: sanitizeFolder_def folder_char_def)
next
  case False
  then show ?thesis using set_TrimCutset sanitize_loop_chars by (fastforce simp: sanitizeFolder_def)
qed

lemma sanitizeFolder_nonempty: "sanitizeFolder s \<noteq> []"
  by (simp add: sanitizeFolder_def Let_def)

lemma dropWhile_hd: "dropWhile P xs \<noteq> [] \<Longrightarrow> \<not> P (hd (dropWhile P xs))"
  by (induction xs) auto

lemma TrimCutset_ends:
  assumes "TrimCutset P s \<noteq> []"
  shows "\<not> P (hd (TrimCutset P s))" "\<not> P (last (TrimCutset P s))"
proof -
  let ?t = "dropWhile P s" and ?u = "dropWhile P (rev (dropWhile P s))"
  have u: "?u \<noteq> []" using assms by (simp add: TrimCutset_def)
  then show "\<not> P (last (TrimCutset P s))" by (simp add: TrimCutset_def last_rev dropWhile_hd)
  obtain pre where pre: "rev ?t = pre @ ?u" by (metis takeWhile_dropWhile_id)
  then have t: "?t = rev ?u @ rev pre" by (metis rev_append rev_rev_ident)
  have "rev ?u \<noteq> []" using u by simp
  then have "hd ?t = hd (rev ?u)" using t by (metis hd_append2)
  moreover have "?t \<noteq> []" using u by (metis dropWhile.simps(1) rev.simps(1))
  ultimately show "\<not> P (hd (TrimCutset P s))" using dropWhile_hd [of P s] by (simp add: TrimCutset_def)
qed

lemma sanitizeFolder_ends:
  "hd (sanitizeFolder s) \<noteq> CHR ''-'' \<and> last (sanitizeFolder s) \<noteq> CHR ''-''"
  using TrimCutset_ends [of "\<lambda>c. c = CHR ''-''" "sanitize_loop False s"]
  by (auto simp: sanitizeFolder_def Let_def)

text \<open>
  A folder name is always a valid identifier. Whatever the path, \<open>baseFolder\<close> yields a
  non-empty name of letters, digits, dots, underscores and dashes that neither starts nor ends with
  a dash.
\<close>

theorem base_folder_is_identifier:
  "baseFolder path \<noteq> [] \<and> list_all folder_char (baseFolder path) \<and>
   hd (baseFolder path) \<noteq> CHR ''-'' \<and> last (baseFolder path) \<noteq> CHR ''-''"
proof (cases "rev (takeWhile (\<lambda>c. c \<noteq> CHR ''/'') (dropWhile (\<lambda>c. c = CHR ''/'') (rev path))) = []")
  case True
  then show ?thesis by (simp add: baseFolder_def folder_char_def)
next
  case False
  then show ?thesis
    by (simp add: baseFolder_def Let_def sanitizeFolder_nonempty sanitizeFolder_ends sanitizeFolder_chars list_all_iff)
qed

text \<open>
  The name search ends, and with the least free suffix. For every registry and every request
  the loop of \<open>buildDisplayName\<close> stops at a round \<open>j\<close> whose name no peer of the circle holds, or
  whose holder the loop found first is offline or the same runtime session, and every earlier round
  was blocked by a holder that is neither.
\<close>

theorem build_display_name_least_free:
  "\<exists>j \<ge> 1. buildDisplayName r p = name_candidate p j \<and>
     (case name_blocker r p (name_candidate p j) of
        None \<Rightarrow> True | Some ps \<Rightarrow> same_session p ps \<or> psState ps = StateOffline) \<and>
     (\<forall>i. 1 \<le> i \<and> i < j \<longrightarrow> (\<exists>ps. name_blocker r p (name_candidate p i) = Some ps \<and>
        \<not> same_session p ps \<and> psState ps \<noteq> StateOffline))"
  unfolding buildDisplayName_def by (rule name_loop_result)

definition demo_naming :: "allocate_params" where
  "demo_naming = \<lparr>apCircle = ''dev'', apBackend = ''codex'', apPreferredDisplayName = None, apModel = None,
     apPath = Some ''/home/a/My App/'', apPaneID = None, apTmuxSession = None, apMachine = ''m'',
     apRole = RoleAgent, apClaimedPeerID = None, apMetadata = [], apAgentPID = None,
     apTurnState = None, apParentPID = None, apRuntimeIdentityVerified = False\<rparr>"

definition demo_peer :: "string \<Rightarrow> string \<Rightarrow> string \<Rightarrow> peer" where
  "demo_peer i name circle = \<lparr>PeerID = i, DisplayName = name, Path = [], Machine = ''m'', TmuxSession = None,
     PaneID = None, Backend = ''codex'', Model = None, Circle = circle, Role = RoleAgent,
     Status = StatusOnline, TurnState = TurnUnknown, LastSeen = Some 0, Metadata = [],
     Description = [], AgentPID = None\<rparr>"

definition demo_named :: registry where
  "demo_named = (NewRegistry 0 [] [] [])\<lparr>rgPeers :=
     [(''i'', \<lparr>psPeer = demo_peer ''i'' ''My-App-codex'' ''dev'', psState = StateOnline\<rparr>)]\<rparr>"

theorem build_display_name_least_free_witness:
  "buildDisplayName demo_named demo_naming = ''My-App-2-codex'' \<and>
   (\<exists>j \<ge> 1. buildDisplayName demo_named demo_naming = name_candidate demo_naming j)"
proof
  have n: "name_candidate demo_naming (Suc 0) = ''My-App-codex''" "name_candidate demo_naming 2 = ''My-App-2-codex''"
    by code_simp+
  have "name_blocker demo_named demo_naming ''My-App-codex'' =
      Some \<lparr>psPeer = demo_peer ''i'' ''My-App-codex'' ''dev'', psState = StateOnline\<rparr>"
    "name_blocker demo_named demo_naming ''My-App-2-codex'' = None"
    by (simp_all add: name_blocker_def find_peer_def demo_named_def demo_peer_def demo_naming_def)
  moreover have "\<not> same_session demo_naming ps" for ps
    by (simp add: same_session_def demo_naming_def runtimeSessionID_def session_keys_def)
  ultimately show "buildDisplayName demo_named demo_naming = ''My-App-2-codex''"
    using n by (simp add: buildDisplayName_def name_loop.simps numeral_2_eq_2)
  show "\<exists>j \<ge> 1. buildDisplayName demo_named demo_naming = name_candidate demo_naming j"
    using build_display_name_least_free [of demo_named demo_naming] by blast
qed

end
