(* ===== verification/Registry_Allocate.thy ===== *)
theory Registry_Allocate
  imports Registry_Naming
begin

text \<open>
  \<open>AllocateAndRegister\<close> of \<open>daemon-go/peer/registry.go\<close>, stage by stage and in the code's order:
  (a) the retirement guard, (b) the choice of an identity (claim, offline takeover, durable
  mapping), (c) the minting of a fresh id, (d) the in-place reconnect of a registered id, (d.5) the
  pane-claim gates and (e) the fresh registration. The warnings the code logs are not modelled.
\<close>

datatype alloc_error =
    ErrPeerRetired
  | ErrPaneHijackRejected string string string int int
  | ErrAllocate lifecycle_error

definition itoa_int :: "int \<Rightarrow> string" where
  "itoa_int n = (if n < 0 then ''-'' @ itoa (nat (- n)) else itoa (nat n))"

section \<open>Identity\<close>

definition claimMatchesIdentity :: "string \<Rightarrow> string \<Rightarrow> string \<Rightarrow> string \<Rightarrow> bool" where
  "claimMatchesIdentity existingBackend existingPath claimBackend claimPath \<longleftrightarrow>
     existingBackend = claimBackend \<and>
     (existingPath = [] \<or> claimPath = [] \<or> existingPath = claimPath)"

definition deref :: "string option \<Rightarrow> string" where
  "deref s = (case s of Some v \<Rightarrow> v | None \<Rightarrow> [])"

definition retirement_guard :: "env \<Rightarrow> allocate_params \<Rightarrow> registry \<Rightarrow> alloc_error + (registry \<times> bool)" where
  "retirement_guard e p r =
     (case apClaimedPeerID p of
        None \<Rightarrow> Inr (r, False)
      | Some cid \<Rightarrow> (case gm_get (rgRetired r) cid of
            None \<Rightarrow> Inr (r, False)
          | Some rt \<Rightarrow>
              if rtHard rt then Inl ErrPeerRetired
              else (let livePID = (case apAgentPID p of None \<Rightarrow> False | Some pid \<Rightarrow> PIDAlive e pid)
                    in if \<not> livePID \<and> \<not> apRuntimeIdentityVerified p then Inl ErrPeerRetired
                       else Inr (unretireLocked e cid r, True))))"

definition claimed_id :: "allocate_params \<Rightarrow> string \<Rightarrow> registry \<Rightarrow> string" where
  "claimed_id p claimPath r =
     (case apClaimedPeerID p of
        None \<Rightarrow> []
      | Some cid \<Rightarrow> (case gm_get (rgPeers r) cid of
            Some ps \<Rightarrow> if claimMatchesIdentity (Backend (psPeer ps)) (Path (psPeer ps)) (apBackend p) claimPath
                       then cid else []
          | None \<Rightarrow> (case gm_get (rgMappings r) cid of
                Some m \<Rightarrow> if claimMatchesIdentity (mBackend m) (deref (mPath m)) (apBackend p) claimPath
                          then cid else []
              | None \<Rightarrow> [])))"

definition reclaimableOfflineLocked :: "string \<Rightarrow> string \<Rightarrow> string \<Rightarrow> string \<Rightarrow> registry \<Rightarrow> string option" where
  "reclaimableOfflineLocked name circle backend claimPath r =
     map_option fst (find_peer (\<lambda>ps. DisplayName (psPeer ps) = name \<and> Circle (psPeer ps) = circle \<and>
       claimMatchesIdentity (Backend (psPeer ps)) (Path (psPeer ps)) backend claimPath \<and>
       psState ps = StateOffline) r)"

definition findReusableMappingLocked :: "string \<Rightarrow> string \<Rightarrow> string \<Rightarrow> string \<Rightarrow> registry \<Rightarrow> string option" where
  "findReusableMappingLocked name circle backend claimPath r =
     map_option fst (find (\<lambda>(sid, m). mDisplayName m = name \<and> mCircle m = circle \<and>
       claimMatchesIdentity (mBackend m) (deref (mPath m)) backend claimPath) (rgMappings r))"

definition reuse_id :: "allocate_params \<Rightarrow> string \<Rightarrow> registry \<Rightarrow> string" where
  "reuse_id p name r =
     (let claimPath = deref (apPath p);
          id1 = claimed_id p claimPath r;
          id2 = (if id1 = [] then (case reclaimableOfflineLocked name (apCircle p) (apBackend p) claimPath r of
                   Some i \<Rightarrow> i | None \<Rightarrow> []) else id1)
      in if id2 = [] then (case findReusableMappingLocked name (apCircle p) (apBackend p) claimPath r of
           Some i \<Rightarrow> i | None \<Rightarrow> []) else id2)"

definition allocate_id :: "env \<Rightarrow> allocate_params \<Rightarrow> string \<Rightarrow> registry \<Rightarrow> string \<times> registry" where
  "allocate_id e p name r =
     (let i = reuse_id p name r
      in if i = [] then (let (u, r') = nextUuid e r in (''repow-'' @ apCircle p @ ''-'' @ take 8 u, r'))
         else (i, r))"

section \<open>Panes\<close>

definition fresh_orchestrator :: "gotime \<Rightarrow> peer_state \<Rightarrow> bool" where
  "fresh_orchestrator now ps \<longleftrightarrow>
     Role (psPeer ps) = RoleOrchestrator \<and> live_status (Status (psPeer ps)) \<and> recentlySeen (psPeer ps) now"

definition release_one :: "env \<Rightarrow> string \<Rightarrow> string \<Rightarrow> string \<Rightarrow> registry \<Rightarrow> registry" where
  "release_one e paneID newID sid r = (case gm_get (rgPeers r) sid of
       None \<Rightarrow> r
     | Some ps \<Rightarrow>
         if sid = newID \<or> \<not> holds_pane paneID (psPeer ps) then r
         else if fresh_orchestrator (Now e) ps then r
         else (case Apply (psState ps) EventPaneDisplaced of
             (next, Some err) \<Rightarrow>
               emitContradiction e (PeerID (psPeer ps)) (DisplayName (psPeer ps)) (psState ps) EventPaneDisplaced r
           | (next, None) \<Rightarrow>
               (let ps' = move_to (Now e) next ps
                in appendEvent e (peer_event ''peer_offline'' (Now e) (PeerID (psPeer ps)) (DisplayName (psPeer ps))
                     [(''reason'', JStr ''pane_displaced''), (''pane_id'', JStr paneID), (''new_peer_id'', JStr newID)])
                   (put_peer sid (ps'\<lparr>psPeer := (psPeer ps')\<lparr>PaneID := None\<rparr>\<rparr>) r))))"

definition releasePaneLocked :: "env \<Rightarrow> string \<Rightarrow> string \<Rightarrow> registry \<Rightarrow> registry" where
  "releasePaneLocked e paneID newID r = fold (release_one e paneID newID) (map fst (rgPeers r)) r"

definition livePaneHolderLocked :: "env \<Rightarrow> string \<Rightarrow> registry \<Rightarrow> peer_state option" where
  "livePaneHolderLocked e paneID r =
     map_option snd (find_peer (\<lambda>ps. holds_pane paneID (psPeer ps) \<and> live_status (Status (psPeer ps)) \<and>
       (case AgentPID (psPeer ps) of None \<Rightarrow> False | Some pid \<Rightarrow> PIDAlive e pid) \<and>
       (recentlySeen (psPeer ps) (Now e) \<or> connected e (PeerID (psPeer ps)))) r)"

definition isFreshOrchestratorPaneLocked :: "env \<Rightarrow> string \<Rightarrow> registry \<Rightarrow> (string \<times> peer_state) option" where
  "isFreshOrchestratorPaneLocked e paneID r =
     find_peer (\<lambda>ps. holds_pane paneID (psPeer ps) \<and> fresh_orchestrator (Now e) ps) r"

text \<open>\<open>None\<close> is a proven claim; \<open>Some why\<close> is the reason it is not.\<close>

definition paneClaimProvenLocked :: "env \<Rightarrow> string \<Rightarrow> peer \<Rightarrow> int option \<Rightarrow> string option" where
  "paneClaimProvenLocked e paneID holder claimantPID = (case claimantPID of
       None \<Rightarrow> None
     | Some pid \<Rightarrow>
         if AgentPID holder = Some pid then None
         else (case ProcProbe e of
             None \<Rightarrow> None
           | Some (Ancestors, PaneRootPID) \<Rightarrow> (case Ancestors pid of
               None \<Rightarrow> None
             | Some ancestors \<Rightarrow>
                 (case AgentPID holder of
                    Some hpid \<Rightarrow> if hpid \<in> set ancestors
                      then Some (''claimant agent_pid='' @ itoa_int pid @ '' is a subprocess of the live holder's agent_pid='' @ itoa_int hpid)
                      else (case PaneRootPID paneID of
                          None \<Rightarrow> None
                        | Some root \<Rightarrow> if pid = root \<or> root \<in> set ancestors then None
                            else Some (''claimant agent_pid='' @ itoa_int pid @ '' is not in pane '' @ paneID @ ''s process tree (pane_pid='' @ itoa_int root @ '')''))
                  | None \<Rightarrow> (case PaneRootPID paneID of
                        None \<Rightarrow> None
                      | Some root \<Rightarrow> if pid = root \<or> root \<in> set ancestors then None
                          else Some (''claimant agent_pid='' @ itoa_int pid @ '' is not in pane '' @ paneID @ ''s process tree (pane_pid='' @ itoa_int root @ '')''))))))"

section \<open>(d) In-place reconnect\<close>

definition reconnect_target :: "bool \<Rightarrow> LifecycleState \<Rightarrow> LifecycleState" where
  "reconnect_target recovered s =
     (let go = \<lambda>ev. (case Apply s ev of (n, None) \<Rightarrow> n | (n, Some err) \<Rightarrow> s)
      in case s of
           StateOffline \<Rightarrow> go EventReconnect
         | StateBusy \<Rightarrow> go EventStop
         | StateRetired \<Rightarrow> if recovered then go EventReclaimWithLiveAgent else s
         | _ \<Rightarrow> s)"

definition or_else :: "'a option \<Rightarrow> 'a option \<Rightarrow> 'a option" where
  "or_else new old = (case new of Some v \<Rightarrow> Some v | None \<Rightarrow> old)"

definition reconnect_mapping :: "env \<Rightarrow> allocate_params \<Rightarrow> mapping \<Rightarrow> mapping" where
  "reconnect_mapping e p m =
     m\<lparr>mUpdatedAt := Now e, mModel := or_else (apModel p) (mModel m), mAgentPID := or_else (apAgentPID p) (mAgentPID m)\<rparr>"

definition reconnect :: "env \<Rightarrow> allocate_params \<Rightarrow> bool \<Rightarrow> string \<Rightarrow> peer_state \<Rightarrow> registry \<Rightarrow> registry \<times> (string \<times> string)" where
  "reconnect e p recovered i existing r =
     (let ps = move_to (Now e) (reconnect_target recovered (psState existing)) existing;
          r1 = put_peer i (ps\<lparr>psPeer := (psPeer ps)\<lparr>Model := or_else (apModel p) (Model (psPeer ps)),
                                                  PaneID := or_else (apPaneID p) (PaneID (psPeer ps))\<rparr>\<rparr>) r;
          r2 = (case apPaneID p of
                  Some pane \<Rightarrow> if pane \<noteq> [] then releasePaneLocked e pane i r1 else r1
                | None \<Rightarrow> r1);
          r3 = set_peer i (\<lambda>q. q\<lparr>TmuxSession := or_else (apTmuxSession p) (TmuxSession q),
                               Machine := (if apMachine p \<noteq> [] \<and> apMachine p \<noteq> ''unknown'' then apMachine p else Machine q),
                               AgentPID := or_else (apAgentPID p) (AgentPID q),
                               TurnState := (case apTurnState p of Some ts \<Rightarrow> ts | None \<Rightarrow> TurnState q),
                               Metadata := put_all (apMetadata p) (Metadata q)\<rparr>) r2;
          r4 = (if gm_has (rgMappings r3) i then markMappingsDirty (set_mapping i (reconnect_mapping e p) r3) else r3);
          r5 = appendEvent e (peer_event ''peer_online'' (Now e) i (DisplayName (psPeer existing)) []) r4
      in (scheduleRedelivery i r5, (i, DisplayName (psPeer existing))))"

section \<open>(d.5) The pane gates\<close>

datatype pane_gate =
    GateReject registry alloc_error
  | GateReuse registry string string
  | GatePane registry "string option"

definition pane_hijack :: "env \<Rightarrow> string \<Rightarrow> int option \<Rightarrow> registry \<Rightarrow> peer_state option" where
  "pane_hijack e pane parent r = (case parent of
       None \<Rightarrow> None
     | Some ppid \<Rightarrow> map_option snd (find_peer (\<lambda>ps. holds_pane pane (psPeer ps) \<and> AgentPID (psPeer ps) = Some ppid \<and>
         (recentlySeen (psPeer ps) (Now e) \<or> connected e (PeerID (psPeer ps)))) r))"

definition hijack_event :: "env \<Rightarrow> string \<Rightarrow> int \<Rightarrow> peer \<Rightarrow> event" where
  "hijack_event e pane parent h =
     peer_event ''pane_claim_rejected'' (Now e) (PeerID h) (DisplayName h)
       [(''pane_id'', JStr pane), (''holder_peer_id'', JStr (PeerID h)), (''claimant_parent_pid'', JNum parent),
        (''holder_agent_pid'', JNum parent), (''outcome'', JStr ''registration_rejected'')]"

definition proof_gate :: "env \<Rightarrow> allocate_params \<Rightarrow> string option \<Rightarrow> registry \<Rightarrow> registry \<times> string option" where
  "proof_gate e p effectivePane r = (case effectivePane of
       None \<Rightarrow> (r, None)
     | Some pane \<Rightarrow>
         if pane = [] then (r, Some pane)
         else (case livePaneHolderLocked e pane r of
             None \<Rightarrow> (r, Some pane)
           | Some h \<Rightarrow> (case paneClaimProvenLocked e pane (psPeer h) (apAgentPID p) of
               None \<Rightarrow> (r, Some pane)
             | Some why \<Rightarrow>
                 (appendEvent e (peer_event ''pane_claim_rejected'' (Now e) (PeerID (psPeer h)) (DisplayName (psPeer h))
                    [(''pane_id'', JStr pane), (''holder_peer_id'', JStr (PeerID (psPeer h))), (''reason'', JStr why),
                     (''outcome'', JStr ''registered_pane_less'')]) r, None))))"

definition pane_gates :: "env \<Rightarrow> allocate_params \<Rightarrow> registry \<Rightarrow> pane_gate" where
  "pane_gates e p r =
     (let pane = deref (apPaneID p)
      in if pane = [] then (let (r', ep) = proof_gate e p (apPaneID p) r in GatePane r' ep)
         else (case pane_hijack e pane (apParentPID p) r of
             Some h \<Rightarrow> (case apParentPID p of
                 Some ppid \<Rightarrow> GateReject (appendEvent e (hijack_event e pane ppid (psPeer h)) r)
                                (ErrPaneHijackRejected pane (DisplayName (psPeer h)) (PeerID (psPeer h)) ppid ppid)
               | None \<Rightarrow> GatePane r (apPaneID p))
           | None \<Rightarrow> (case isFreshOrchestratorPaneLocked e pane r of
               Some (k, h) \<Rightarrow>
                 if Backend (psPeer h) = apBackend p \<and> Circle (psPeer h) = apCircle p
                 then GateReuse (set_peer k (\<lambda>q. q\<lparr>LastSeen := Some (Now e), Model := or_else (apModel p) (Model q),
                          TurnState := (case apTurnState p of Some ts \<Rightarrow> ts | None \<Rightarrow> TurnState q)\<rparr>) r)
                        (PeerID (psPeer h)) (DisplayName (psPeer h))
                 else (let (r', ep) = proof_gate e p None r in GatePane r' ep)
             | None \<Rightarrow> (let (r', ep) = proof_gate e p (apPaneID p) r in GatePane r' ep))))"

section \<open>(e) Fresh registration\<close>

definition fresh_peer :: "env \<Rightarrow> allocate_params \<Rightarrow> string \<Rightarrow> mapping \<Rightarrow> PeerStatus \<Rightarrow> string option \<Rightarrow> peer" where
  "fresh_peer e p i m status pane =
     \<lparr>PeerID = i, DisplayName = mDisplayName m, Path = deref (apPath p), Machine = apMachine p,
      TmuxSession = apTmuxSession p, PaneID = pane, Backend = apBackend p, Model = mModel m, Circle = mCircle m,
      Role = mRole m, Status = status, TurnState = (case apTurnState p of Some ts \<Rightarrow> ts | None \<Rightarrow> TurnUnknown),
      LastSeen = Some (Now e), Metadata = apMetadata p, Description = mDescription m, AgentPID = apAgentPID p\<rparr>"

text \<open>The mapping the registration writes: role, circle, name and description of an existing one win.\<close>

definition fresh_mapping :: "env \<Rightarrow> allocate_params \<Rightarrow> string \<Rightarrow> string \<Rightarrow> registry \<Rightarrow> mapping" where
  "fresh_mapping e p i name r =
     (let new = \<lparr>mSessionID = i, mDisplayName = name, mCircle = apCircle p, mBackend = apBackend p, mPath = apPath p,
                mRole = apRole p, mUpdatedAt = Now e, mDescription = [], mModel = apModel p, mAgentPID = apAgentPID p\<rparr>
      in case gm_get (rgMappings r) i of
           None \<Rightarrow> new
         | Some m \<Rightarrow> new\<lparr>mRole := mRole m, mCircle := mCircle m, mDescription := mDescription m,
                         mDisplayName := mDisplayName m, mModel := or_else (apModel p) (mModel m)\<rparr>)"

definition register_fresh :: "env \<Rightarrow> allocate_params \<Rightarrow> string \<Rightarrow> string \<Rightarrow> string option \<Rightarrow> registry \<Rightarrow>
    registry \<times> (alloc_error + (string \<times> string))" where
  "register_fresh e p i name pane r = (case Apply StateUnregistered EventConnect of
       (next, Some err) \<Rightarrow> (emitContradiction e i name StateUnregistered EventConnect r, Inl (ErrAllocate err))
     | (next, None) \<Rightarrow>
         (let status = (case ToStatus next of Some st \<Rightarrow> st | None \<Rightarrow> StatusOffline);
              m = fresh_mapping e p i name r;
              r1 = put_peer i \<lparr>psPeer = fresh_peer e p i m status pane, psState = next\<rparr> r;
              r2 = (case pane of Some pn \<Rightarrow> if pn \<noteq> [] then releasePaneLocked e pn i r1 else r1 | None \<Rightarrow> r1);
              r3 = markMappingsDirty (r2\<lparr>rgMappings := gm_put i m (rgMappings r2)\<rparr>);
              r4 = appendEvent e (peer_event ''peer_online'' (Now e) i (mDisplayName m) []) r3
          in (scheduleRedelivery i r4, Inr (i, mDisplayName m))))"

section \<open>The operation\<close>

definition AllocateAndRegister :: "env \<Rightarrow> allocate_params \<Rightarrow> registry \<Rightarrow> registry \<times> (alloc_error + (string \<times> string))" where
  "AllocateAndRegister e p r = (case retirement_guard e p r of
       Inl err \<Rightarrow> (r, Inl err)
     | Inr (r1, recovered) \<Rightarrow>
         (let name = buildDisplayName r1 p;
              (i, r2) = allocate_id e p name r1
          in case gm_get (rgPeers r2) i of
               Some existing \<Rightarrow> (let (r3, res) = reconnect e p recovered i existing r2 in (r3, Inr res))
             | None \<Rightarrow> (case pane_gates e p r2 of
                   GateReject r3 err \<Rightarrow> (r3, Inl err)
                 | GateReuse r3 hid hname \<Rightarrow> (r3, Inr (hid, hname))
                 | GatePane r3 pane \<Rightarrow> register_fresh e p i name pane r3)))"

end
