(* ===== verification/Registry_Ops.thy ===== *)
theory Registry_Ops
  imports Registry_Allocate
begin

text \<open>
  The other operations of the registry: going offline, status and turn updates, circle and name
  changes (\<open>daemon-go/peer/registry.go\<close>), reading and resolving (\<open>registry_read.go\<close>, the end of
  \<open>events.go\<close>), access control and updates by name (\<open>registry_access.go\<close>,
  \<open>registry_lifecycle_byname.go\<close>) and the special-role claim (\<open>claim_role.go\<close>).
\<close>

section \<open>Going offline\<close>

definition markOffline :: "env \<Rightarrow> string \<Rightarrow> bool \<Rightarrow> string \<Rightarrow> bool \<Rightarrow> registry \<Rightarrow> registry" where
  "markOffline e i terminal reason hardRetire r = (case gm_get (rgPeers r) i of
       None \<Rightarrow> if terminal then retireLocked e i hardRetire r else r
     | Some ps \<Rightarrow>
         (let event = (if terminal then EventTerminalOffline else EventTransportDisconnect)
          in case Apply (psState ps) event of
               (next, Some err) \<Rightarrow> emitContradiction e i (DisplayName (psPeer ps)) (psState ps) event r
             | (next, None) \<Rightarrow>
                 (let r1 = put_peer i (move_to (Now e) next ps) r;
                      r2 = (if terminal then retireLocked e i hardRetire r1 else r1);
                      r3 = (if terminal then transportClose e i r2 else r2);
                      r4 = appendEvent e (peer_event ''peer_offline'' (Now e) i (DisplayName (psPeer ps)) []) r3;
                      r5 = trace (AOnOffline i) r4
                  in if terminal then trace (AOnTerminalOffline i reason) r5 else r5)))"

definition MarkOfflineWithReason :: "env \<Rightarrow> string \<Rightarrow> bool \<Rightarrow> string \<Rightarrow> registry \<Rightarrow> registry" where
  "MarkOfflineWithReason e i terminal reason r = markOffline e i terminal reason False r"

definition MarkOffline :: "env \<Rightarrow> string \<Rightarrow> bool \<Rightarrow> registry \<Rightarrow> registry" where
  "MarkOffline e i terminal r = MarkOfflineWithReason e i terminal ''terminal_offline'' r"

definition ClosePeer :: "env \<Rightarrow> string \<Rightarrow> string \<Rightarrow> registry \<Rightarrow> registry" where
  "ClosePeer e i reason r = markOffline e i True reason True r"

section \<open>Status, turn, circle, name\<close>

fun statusToEvent :: "PeerStatus \<Rightarrow> LifecycleEvent" where
  "statusToEvent StatusOnline = EventStop"
| "statusToEvent StatusBusy = EventUserPromptSubmit"
| "statusToEvent StatusOffline = EventTransportDisconnect"

fun status_string :: "PeerStatus \<Rightarrow> string" where
  "status_string StatusOnline = ''online''"
| "status_string StatusBusy = ''busy''"
| "status_string StatusOffline = ''offline''"

definition UpdateStatus :: "env \<Rightarrow> string \<Rightarrow> PeerStatus \<Rightarrow> registry \<Rightarrow> registry" where
  "UpdateStatus e i status r = (case gm_get (rgPeers r) i of
       None \<Rightarrow> r
     | Some ps \<Rightarrow> (case Apply (psState ps) (statusToEvent status) of
           (next, Some err) \<Rightarrow> emitContradiction e i (DisplayName (psPeer ps)) (psState ps) (statusToEvent status) r
         | (next, None) \<Rightarrow>
             (let r1 = put_peer i (move_to (Now e) next ps) r;
                  r2 = appendEvent e (peer_event ''peer_status'' (Now e) i (DisplayName (psPeer ps))
                         [(''status'', JStr (status_string status))]) r1
              in if psState ps = StateOffline \<and> (next = StateOnline \<or> next = StateBusy)
                 then scheduleRedelivery i r2 else r2)))"

definition UpdateTurnState :: "env \<Rightarrow> string \<Rightarrow> TurnState \<Rightarrow> registry \<Rightarrow> registry" where
  "UpdateTurnState e i ts r = set_peer i (\<lambda>p. p\<lparr>TurnState := ts, LastSeen := Some (Now e)\<rparr>) r"

definition SetCircle :: "env \<Rightarrow> string \<Rightarrow> string \<Rightarrow> registry \<Rightarrow> registry" where
  "SetCircle e i circle r =
     (if \<not> gm_has (rgPeers r) i then r
      else (let r1 = set_peer i (\<lambda>p. p\<lparr>Circle := circle\<rparr>) r
            in if gm_has (rgMappings r1) i
               then markMappingsDirty (set_mapping i (\<lambda>m. m\<lparr>mCircle := circle, mUpdatedAt := Now e\<rparr>) r1) else r1))"

definition UpdateTmuxSession :: "string \<Rightarrow> string \<Rightarrow> registry \<Rightarrow> registry" where
  "UpdateTmuxSession i tmuxSession r = set_peer i (\<lambda>p. p\<lparr>TmuxSession := Some tmuxSession\<rparr>) r"

definition name_rivals :: "string \<Rightarrow> string \<Rightarrow> string \<Rightarrow> registry \<Rightarrow> (string \<times> peer_state) list" where
  "name_rivals i name backend r =
     filter (\<lambda>(k, ps). k \<noteq> i \<and> DisplayName (psPeer ps) = name \<and> Backend (psPeer ps) = backend) (rgPeers r)"

definition UpdateDisplayName :: "env \<Rightarrow> string \<Rightarrow> string \<Rightarrow> registry \<Rightarrow> registry \<times> bool" where
  "UpdateDisplayName e i name r = (case gm_get (rgPeers r) i of
       None \<Rightarrow> (r, False)
     | Some ps \<Rightarrow>
         (let rivals = name_rivals i name (Backend (psPeer ps)) r
          in if \<not> list_all (\<lambda>(k, other). psState other = StateOffline) rivals then (r, False)
             else (let r1 = r\<lparr>rgPeers := gm_dels (map fst rivals) (rgPeers r)\<rparr>;
                       r2 = set_peer i (\<lambda>p. p\<lparr>DisplayName := name\<rparr>) r1
                   in (if gm_has (rgMappings r2) i
                       then markMappingsDirty (set_mapping i (\<lambda>m. m\<lparr>mDisplayName := name, mUpdatedAt := Now e\<rparr>) r2)
                       else r2, True))))"

section \<open>Reading\<close>

definition GetPeer :: "env \<Rightarrow> string \<Rightarrow> registry \<Rightarrow> registry \<times> peer option" where
  "GetPeer e i r =
     (let r' = applyDescriptionTTL e i r in (r', map_option psPeer (gm_get (rgPeers r') i)))"

definition GetPeerByPane :: "env \<Rightarrow> string \<Rightarrow> registry \<Rightarrow> registry \<times> peer option" where
  "GetPeerByPane e pane r =
     (if pane = [] then (r, None)
      else case find_peer (\<lambda>ps. holds_pane pane (psPeer ps)) r of
          None \<Rightarrow> (r, None)
        | Some (k, ps) \<Rightarrow> (let r' = applyDescriptionTTL e (PeerID (psPeer ps)) r
                          in (r', map_option psPeer (gm_get (rgPeers r') k))))"

definition GetAllPeers :: "env \<Rightarrow> registry \<Rightarrow> registry \<times> peer list" where
  "GetAllPeers e r =
     (let r' = fold (applyDescriptionTTL e) (map fst (rgPeers r)) r
      in (r', map (psPeer \<circ> snd) (rgPeers r')))"

definition GetMapping :: "string \<Rightarrow> registry \<Rightarrow> mapping option" where
  "GetMapping i r = gm_get (rgMappings r) i"

fun latest :: "peer list \<Rightarrow> peer option \<Rightarrow> peer option" where
  "latest [] best = best"
| "latest (p # ps) best = latest ps (case best of None \<Rightarrow> Some p
     | Some b \<Rightarrow> if lastSeenAfter p b then Some p else Some b)"

definition ResolveByIdentifier :: "string \<Rightarrow> registry \<Rightarrow> peer option" where
  "ResolveByIdentifier identifier r =
     (if identifier = [] then None
      else case gm_get (rgPeers r) identifier of
          Some ps \<Rightarrow> Some (psPeer ps)
        | None \<Rightarrow> latest (filter (\<lambda>p. DisplayName p = identifier) (map (psPeer \<circ> snd) (rgPeers r))) None)"

section \<open>Resolving an address\<close>

datatype resolve_error = AmbiguousName string "string list" | UnknownPeer string
  | CircleBoundaryError string string string string

record preference_key =
  pkConnected :: bool
  pkPaned :: bool
  pkLastSeen :: int

definition has_pane :: "peer \<Rightarrow> bool" where
  "has_pane p \<longleftrightarrow> (case PaneID p of None \<Rightarrow> False | Some s \<Rightarrow> s \<noteq> [])"

definition preferenceKey :: "env \<Rightarrow> peer \<Rightarrow> preference_key" where
  "preferenceKey e p =
     \<lparr>pkConnected = connected e (PeerID p), pkPaned = has_pane p,
      pkLastSeen = (case LastSeen p of Some t \<Rightarrow> t | None \<Rightarrow> 0)\<rparr>"

definition greater :: "preference_key \<Rightarrow> preference_key \<Rightarrow> bool" where
  "greater a b =
     (if pkConnected a \<noteq> pkConnected b then pkConnected a
      else if pkPaned a \<noteq> pkPaned b then pkPaned a else pkLastSeen b < pkLastSeen a)"

fun best_of :: "env \<Rightarrow> peer \<Rightarrow> peer list \<Rightarrow> peer" where
  "best_of e best [] = best"
| "best_of e best (p # ps) =
     best_of e (if greater (preferenceKey e p) (preferenceKey e best) then p else best) ps"

fun insert_string :: "string \<Rightarrow> string list \<Rightarrow> string list" where
  "insert_string s [] = [s]"
| "insert_string s (t # ts) =
     (if s = t then t # ts
      else if string_less s t then s # t # ts
      else t # insert_string s ts)"

definition peers_list :: "registry \<Rightarrow> peer list" where
  "peers_list r = map (psPeer \<circ> snd) (rgPeers r)"

text \<open>The rest of \<open>resolvePeerLocked\<close>, from the matching peers on: several names match.\<close>

definition viable :: "peer list \<Rightarrow> peer list" where
  "viable matches =
     (let active = filter (\<lambda>p. Status p \<noteq> StatusOffline) matches in if active = [] then matches else active)"

definition choose_match :: "env \<Rightarrow> string \<Rightarrow> string option \<Rightarrow> peer list \<Rightarrow> resolve_error + peer option" where
  "choose_match e identifier circle matches =
     (let candidates = viable matches;
          paned = filter has_pane candidates
      in if circle = None \<and> length candidates > 1
         then (if length paned = 1 then Inr (Some (hd paned))
               else Inl (AmbiguousName identifier (fold insert_string (map Circle candidates) [])))
         else (case candidates of
             [] \<Rightarrow> Inr None
           | c # cs \<Rightarrow> Inr (Some (best_of e c cs))))"

definition resolvePeerLocked :: "env \<Rightarrow> string \<Rightarrow> string option \<Rightarrow> registry \<Rightarrow> resolve_error + peer option" where
  "resolvePeerLocked e identifier circle r = (case gm_get (rgPeers r) identifier of
       Some ps \<Rightarrow> Inr (Some (psPeer ps))
     | None \<Rightarrow>
         (let matches = filter (\<lambda>p. DisplayName p = identifier) (peers_list r)
          in if matches = [] then Inr None
             else (case circle of
                 None \<Rightarrow> if length matches = 1 then Inr (Some (hd matches)) else choose_match e identifier circle matches
               | Some c \<Rightarrow>
                   (let filtered = filter (\<lambda>p. Circle p = c) matches
                    in if filtered = []
                       then (if length matches = 1 \<and> BypassesCircles (Role (hd matches)) then Inr (Some (hd matches))
                             else Inr None)
                       else if length filtered = 1 then Inr (Some (hd filtered))
                       else choose_match e identifier circle filtered))))"

definition ResolvePeer :: "env \<Rightarrow> string \<Rightarrow> string option \<Rightarrow> registry \<Rightarrow> registry \<times> (resolve_error + peer option)" where
  "ResolvePeer e identifier circle r = (case resolvePeerLocked e identifier circle r of
       Inl err \<Rightarrow> (r, Inl err)
     | Inr None \<Rightarrow> (r, Inr None)
     | Inr (Some p) \<Rightarrow> (let r' = applyDescriptionTTL e (PeerID p) r
                       in (r', Inr (map_option psPeer (gm_get (rgPeers r') (PeerID p))))))"

definition ResolvePeerStrict :: "string \<Rightarrow> string option \<Rightarrow> registry \<Rightarrow> peer list" where
  "ResolvePeerStrict identifier circle r =
     (let inCircle = (\<lambda>p. case circle of None \<Rightarrow> True | Some c \<Rightarrow> Circle p = c);
          byName = filter (\<lambda>p. DisplayName p = identifier \<and> inCircle p) (peers_list r)
      in case gm_get (rgPeers r) identifier of
           Some ps \<Rightarrow> if inCircle (psPeer ps) then [psPeer ps] else byName
         | None \<Rightarrow> byName)"

definition HeartbeatTolerance :: "registry \<Rightarrow> duration" where
  "HeartbeatTolerance r = rgHeartbeat r * 2"

definition fresh_or_connected :: "env \<Rightarrow> duration \<Rightarrow> peer \<Rightarrow> bool" where
  "fresh_or_connected e tolerance p \<longleftrightarrow>
     (case LastSeen p of None \<Rightarrow> False | Some t \<Rightarrow> Now e - t \<le> tolerance) \<or> connected e (PeerID p)"

definition GetOrchestrator :: "env \<Rightarrow> string \<Rightarrow> registry \<Rightarrow> peer option" where
  "GetOrchestrator e circle r =
     latest (filter (\<lambda>p. Circle p = circle \<and> Role p = RoleOrchestrator \<and> live_status (Status p) \<and>
       fresh_or_connected e (HeartbeatTolerance r) p) (peers_list r)) None"

section \<open>Access control\<close>

definition checkCircleAccess :: "peer option \<Rightarrow> peer option \<Rightarrow> bool \<Rightarrow> resolve_error option" where
  "checkCircleAccess from to bypass = (case (from, to) of
       (Some f, Some t) \<Rightarrow>
         if bypass \<or> BypassesCircles (Role f) \<or> BypassesCircles (Role t) then None
         else if Circle f \<noteq> Circle t then Some (CircleBoundaryError (DisplayName f) (Circle f) (DisplayName t) (Circle t))
         else None
     | _ \<Rightarrow> None)"

definition resolve_sender :: "env \<Rightarrow> string \<Rightarrow> string \<Rightarrow> registry \<Rightarrow> peer option" where
  "resolve_sender e fromPeer targetCircle r = (case resolvePeerLocked e fromPeer (Some targetCircle) r of
       Inr (Some f) \<Rightarrow> Some f
     | _ \<Rightarrow> (case resolvePeerLocked e fromPeer None r of Inr f \<Rightarrow> f | Inl err \<Rightarrow> None))"

definition CheckAccess :: "env \<Rightarrow> string \<Rightarrow> string \<Rightarrow> bool \<Rightarrow> string option \<Rightarrow> registry \<Rightarrow>
    resolve_error + (peer option \<times> peer)" where
  "CheckAccess e fromPeer toPeer bypassCircle circle r = (case resolvePeerLocked e toPeer circle r of
       Inl err \<Rightarrow> Inl err
     | Inr None \<Rightarrow> Inl (UnknownPeer toPeer)
     | Inr (Some target) \<Rightarrow>
         (let from = resolve_sender e fromPeer (Circle target) r
          in case checkCircleAccess from (Some target) bypassCircle of
               Some err \<Rightarrow> Inl err
             | None \<Rightarrow> Inr (from, target)))"

section \<open>Updates by name\<close>

definition by_name :: "env \<Rightarrow> string \<Rightarrow> string option \<Rightarrow> (string \<Rightarrow> peer \<Rightarrow> registry \<Rightarrow> registry) \<Rightarrow> registry \<Rightarrow>
    registry \<times> (resolve_error + bool)" where
  "by_name e identifier circle f r = (case resolvePeerLocked e identifier circle r of
       Inl err \<Rightarrow> (r, Inl err)
     | Inr None \<Rightarrow> (r, Inr False)
     | Inr (Some p) \<Rightarrow> (f (PeerID p) p r, Inr True))"

definition UpdateModelByName :: "env \<Rightarrow> string \<Rightarrow> string \<Rightarrow> registry \<Rightarrow> registry \<times> (resolve_error + bool)" where
  "UpdateModelByName e identifier model = by_name e identifier None (\<lambda>i p r.
     if Model p = Some model then r
     else (let r1 = set_peer i (\<lambda>q. q\<lparr>Model := Some model, LastSeen := Some (Now e)\<rparr>) r
           in case gm_get (rgMappings r1) i of
                Some m \<Rightarrow> if mModel m \<noteq> Some model
                  then markMappingsDirty (set_mapping i (\<lambda>m. m\<lparr>mModel := Some model, mUpdatedAt := Now e\<rparr>) r1) else r1
              | None \<Rightarrow> r1))"

definition UpdateMetadataByName :: "env \<Rightarrow> string \<Rightarrow> jobject \<Rightarrow> registry \<Rightarrow> registry \<times> (resolve_error + bool)" where
  "UpdateMetadataByName e identifier metadata = by_name e identifier None (\<lambda>i p r.
     set_peer i (\<lambda>q. q\<lparr>Metadata := put_all metadata (Metadata q), LastSeen := Some (Now e)\<rparr>) r)"

definition TouchLastSeen :: "env \<Rightarrow> string \<Rightarrow> string option \<Rightarrow> registry \<Rightarrow> registry \<times> (resolve_error + bool)" where
  "TouchLastSeen e identifier circle = by_name e identifier circle (\<lambda>i p r.
     set_peer i (\<lambda>q. q\<lparr>LastSeen := Some (Now e)\<rparr>) r)"

definition UpdateDescription :: "env \<Rightarrow> string \<Rightarrow> string \<Rightarrow> string option \<Rightarrow> registry \<Rightarrow> registry \<times> (resolve_error + bool)" where
  "UpdateDescription e identifier description circle = by_name e identifier circle (\<lambda>i p r.
     (let r1 = set_peer i (\<lambda>q. q\<lparr>Description := description, LastSeen := Some (Now e)\<rparr>) r;
          r2 = r1\<lparr>rgDescSetAt := (if description = [] then gm_del i (rgDescSetAt r1)
                                 else gm_put i (Now e) (rgDescSetAt r1))\<rparr>
      in case gm_get (rgMappings r2) i of
           Some m \<Rightarrow> if mDescription m \<noteq> description
             then markMappingsDirty (set_mapping i (\<lambda>m. m\<lparr>mDescription := description, mUpdatedAt := Now e\<rparr>) r2) else r2
         | None \<Rightarrow> r2))"

definition DeleteMapping :: "env \<Rightarrow> string \<Rightarrow> registry \<Rightarrow> registry" where
  "DeleteMapping e i r =
     (if StoreErr e (SCDeleteMapping i) = None then r\<lparr>rgDbMappings := gm_del i (rgDbMappings r)\<rparr> else r)"

definition remove_peer :: "string \<Rightarrow> registry \<Rightarrow> registry" where
  "remove_peer i r = r\<lparr>rgPeers := gm_del i (rgPeers r), rgMappings := gm_del i (rgMappings r)\<rparr>"

definition UnregisterPeer :: "env \<Rightarrow> string \<Rightarrow> string option \<Rightarrow> registry \<Rightarrow> registry \<times> (resolve_error + bool)" where
  "UnregisterPeer e identifier circle r =
     (let drop = (\<lambda>i r. DeleteMapping e i (transportClose e i (remove_peer i r)))
      in case gm_get (rgPeers r) identifier of
           Some ps \<Rightarrow> (drop (PeerID (psPeer ps)) r, Inr True)
         | None \<Rightarrow> by_name e identifier circle (\<lambda>i p. drop i) r)"

definition looksLikePeerID :: "string \<Rightarrow> bool" where
  "looksLikePeerID identifier \<longleftrightarrow> length identifier > 6 \<and> take 6 identifier = ''repow-''"

definition MarkOfflineByNameWithReason :: "env \<Rightarrow> string \<Rightarrow> bool \<Rightarrow> string \<Rightarrow> registry \<Rightarrow> registry \<times> (resolve_error + bool)" where
  "MarkOfflineByNameWithReason e identifier terminal reason r = (case resolvePeerLocked e identifier None r of
       Inl err \<Rightarrow> (r, Inl err)
     | Inr None \<Rightarrow> if terminal \<and> looksLikePeerID identifier
         then (MarkOfflineWithReason e identifier True reason r, Inr False) else (r, Inr False)
     | Inr (Some p) \<Rightarrow> (MarkOfflineWithReason e (PeerID p) terminal reason r, Inr True))"

section \<open>Claiming the orchestrator role\<close>

datatype claim_error =
    ErrBadRole
  | ClaimResolve resolve_error
  | RoleClaimConflict string string string

record claim_result =
  crPeer :: peer
  crAlreadyHeld :: bool
  crPreviousHolders :: "string list"

definition target_circle :: "string option \<Rightarrow> peer \<Rightarrow> string" where
  "target_circle circle target = (case circle of Some c \<Rightarrow> if c \<noteq> [] then c else Circle target | None \<Rightarrow> Circle target)"

definition blocking_holder :: "env \<Rightarrow> PeerRole \<Rightarrow> string \<Rightarrow> string \<Rightarrow> registry \<Rightarrow> peer option" where
  "blocking_holder e role circle targetID r =
     latest (filter (\<lambda>p. PeerID p \<noteq> targetID \<and> Circle p = circle \<and> Role p = role \<and> live_status (Status p) \<and>
       fresh_or_connected e (HeartbeatTolerance r) p) (peers_list r)) None"

definition demote_holder :: "gotime \<Rightarrow> string \<Rightarrow> registry \<Rightarrow> registry" where
  "demote_holder now i r =
     (let r1 = set_peer i (\<lambda>p. p\<lparr>Role := RoleAgent\<rparr>) r
      in case gm_get (rgMappings r1) i of
           Some m \<Rightarrow> if mRole m \<noteq> RoleAgent
             then markMappingsDirty (set_mapping i (\<lambda>m. m\<lparr>mRole := RoleAgent, mUpdatedAt := now\<rparr>) r1) else r1
         | None \<Rightarrow> r1)"

definition demote_mapping :: "gotime \<Rightarrow> string \<Rightarrow> registry \<Rightarrow> registry" where
  "demote_mapping now i r =
     markMappingsDirty (set_mapping i (\<lambda>m. m\<lparr>mRole := RoleAgent, mUpdatedAt := now\<rparr>) r)"

definition claim_commit :: "env \<Rightarrow> PeerRole \<Rightarrow> string \<Rightarrow> string \<Rightarrow> registry \<Rightarrow> registry \<times> string list" where
  "claim_commit e role circle tid r =
     (let holders = map (PeerID \<circ> psPeer \<circ> snd) (filter (\<lambda>(k, ps). PeerID (psPeer ps) \<noteq> tid \<and>
            Circle (psPeer ps) = circle \<and> Role (psPeer ps) = role) (rgPeers r));
          r1 = fold (demote_holder (Now e)) holders r;
          r2 = set_peer tid (\<lambda>p. p\<lparr>Role := role, LastSeen := Some (Now e)\<rparr>) r1;
          r3 = (if gm_has (rgMappings r2) tid
                then markMappingsDirty (set_mapping tid (\<lambda>m. m\<lparr>mRole := role, mUpdatedAt := Now e\<rparr>) r2) else r2);
          rows = map fst (filter (\<lambda>(sid, m). sid \<noteq> tid \<and> mCircle m = circle \<and> mRole m = role) (rgMappings r3))
      in (fold (demote_mapping (Now e)) rows r3, holders @ rows))"

definition ClaimSpecialRole :: "env \<Rightarrow> string \<Rightarrow> PeerRole \<Rightarrow> string option \<Rightarrow> bool \<Rightarrow> registry \<Rightarrow>
    registry \<times> (claim_error + claim_result option)" where
  "ClaimSpecialRole e name role circle force r =
     (if role \<noteq> RoleOrchestrator then (r, Inl ErrBadRole)
      else case resolvePeerLocked e name circle r of
          Inl err \<Rightarrow> (r, Inl (ClaimResolve err))
        | Inr None \<Rightarrow> (r, Inr None)
        | Inr (Some target) \<Rightarrow>
            (let c = target_circle circle target; tid = PeerID target
             in case blocking_holder e role c tid r of
                  Some h \<Rightarrow> (r, Inl (RoleClaimConflict (DisplayName h) (PeerID h) c))
                | None \<Rightarrow>
                    (let (r1, previous) = claim_commit e role c tid r;
                         result = \<lparr>crPeer = target\<lparr>Role := role, LastSeen := Some (Now e)\<rparr>,
                                   crAlreadyHeld = (Role target = role), crPreviousHolders = previous\<rparr>
                     in (appendEvent e (peer_event ''role_claimed'' (Now e) tid (DisplayName target)
                           [(''role'', JStr ''orchestrator''), (''circle'', JStr c), (''force'', JBool force),
                            (''previous_holders'', JArr (map JStr previous))]) r1, Inr (Some result)))))"

section \<open>Persistence\<close>

text \<open>
  \<open>persistMappings\<close> takes its snapshot under the read lock, writes it unlocked and clears the dirty
  flag only if no mutation came between: the three phases are three functions.
\<close>

definition persist_snapshot :: "registry \<Rightarrow> (64 word \<times> mapping list) option" where
  "persist_snapshot r = (if rgDirty r then Some (rgVersion r, map snd (rgMappings r)) else None)"

definition upsert_one :: "env \<Rightarrow> mapping \<Rightarrow> registry \<times> bool \<Rightarrow> registry \<times> bool" where
  "upsert_one e m acc = (let (r, success) = acc
     in if StoreErr e (SCUpsertMapping (mSessionID m)) = None
        then (r\<lparr>rgDbMappings := gm_put (mSessionID m) m (rgDbMappings r)\<rparr>, success) else (r, False))"

definition persist_write :: "env \<Rightarrow> mapping list \<Rightarrow> registry \<Rightarrow> registry \<times> bool" where
  "persist_write e snapshot r = fold (upsert_one e) snapshot (r, True)"

definition persist_commit :: "64 word \<Rightarrow> bool \<Rightarrow> registry \<Rightarrow> registry" where
  "persist_commit version success r =
     (if success \<and> rgVersion r = version then r\<lparr>rgDirty := False\<rparr> else r)"

definition persistMappings :: "env \<Rightarrow> registry \<Rightarrow> registry" where
  "persistMappings e r = (case persist_snapshot r of
       None \<Rightarrow> r
     | Some (version, snapshot) \<Rightarrow>
         (let (r1, success) = persist_write e snapshot r in persist_commit version success r1))"

definition CloseRegistry :: "env \<Rightarrow> registry \<Rightarrow> registry" where
  "CloseRegistry e r = persistMappings e (r\<lparr>rgClosed := True\<rparr>)"

definition pruneRetired :: "env \<Rightarrow> registry \<Rightarrow> registry" where
  "pruneRetired e r =
     (let expired = map fst (filter (\<lambda>(k, rt). \<not> Now e - rgRetiredTTL r < rtAt rt) (rgRetired r))
      in fold (\<lambda>i r. if StoreErr e (SCUnretire i) = None then r\<lparr>rgDbRetired := gm_del i (rgDbRetired r)\<rparr> else r)
           expired (r\<lparr>rgRetired := gm_dels expired (rgRetired r)\<rparr>))"

end
