(* ===== verification/Reconcile.thy ===== *)
theory Reconcile
  imports Registry_Ops Ask_Safety
begin

text \<open>
  The demand-driven maintenance of \<open>daemon-go/peer/reconcile.go\<close> and of \<open>LazyRepair\<close> in
  \<open>peer/registry.go\<close>: demotion of ghosts, the three-strike demotion, the stale-busy repair, reaping,
  eviction, expired stashes and the redelivery of stashed replies.

  A pass that probes outside the lock is split where the code releases it: \<open>*_snapshot\<close> (first
  critical section), the probe (\<open>runtimeEvidenceIDs\<close>), \<open>*_commit\<close> (second critical section, on
  whatever the registry has become by then) and \<open>*_finish\<close> (after the lock). The interfaces the passes
  call are the record \<open>probes\<close> and the ask tracker; \<open>StashedAsk\<close> is a projection of the tracker's ask
  (the adapter \<open>toStashed\<close> in \<open>main.go\<close>), here the ask itself. A tracker call that would block for
  ever is None.
\<close>

record probes =
  PaneProbe :: "(peer \<Rightarrow> bool) option"
  Ping :: "string \<Rightarrow> jobject option"
  NotifyOK :: "string \<Rightarrow> string \<Rightarrow> string \<Rightarrow> bool"
  HasDelivery :: bool
  NormPath :: "string \<Rightarrow> string"

definition repairDebounce :: duration where
  "repairDebounce = 30 * second"

section \<open>Contradictions\<close>

definition ContradictionOnlineButNoWS :: string where
  "ContradictionOnlineButNoWS = ''ONLINE_BUT_NO_WS''"

definition ContradictionPaneMissing :: string where
  "ContradictionPaneMissing = ''PANE_MISSING''"

definition ContradictionAgentPIDDead :: string where
  "ContradictionAgentPIDDead = ''AGENT_PID_DEAD''"

definition emitContradictionCode :: "env \<Rightarrow> peer \<Rightarrow> string \<Rightarrow> string \<Rightarrow> registry \<Rightarrow> registry" where
  "emitContradictionCode e p code detail r =
     (if gm_has (rgContra r) (PeerID p, code) then r
      else appendEvent e (peer_event ''peer_contradiction'' (Now e) (PeerID p) (DisplayName p)
             [(''code'', JStr code), (''severity'', JStr ''error''), (''detail'', JStr detail)])
           (r\<lparr>rgContra := gm_put (PeerID p, code) () (rgContra r)\<rparr>))"

definition clearContradiction :: "string \<Rightarrow> string \<Rightarrow> registry \<Rightarrow> registry" where
  "clearContradiction i code r = r\<lparr>rgContra := gm_del (i, code) (rgContra r)\<rparr>"

definition clearAllContradictions :: "string \<Rightarrow> registry \<Rightarrow> registry" where
  "clearAllContradictions i r = r\<lparr>rgContra := filter (\<lambda>(k, u). fst k \<noteq> i) (rgContra r)\<rparr>"

section \<open>Evidence\<close>

definition runtimeEvidenceIDs :: "probes \<Rightarrow> peer list \<Rightarrow> string list" where
  "runtimeEvidenceIDs q candidates = (case PaneProbe q of
       None \<Rightarrow> []
     | Some hasEvidence \<Rightarrow> map PeerID (filter (\<lambda>p.
         ((case AgentPID p of None \<Rightarrow> False | Some pid \<Rightarrow> pid > 0) \<or> has_pane p) \<and> hasEvidence p) candidates))"

definition runtimeMarker :: "peer \<Rightarrow> int \<times> string" where
  "runtimeMarker p = ((case AgentPID p of Some pid \<Rightarrow> pid | None \<Rightarrow> 0), deref (PaneID p))"

section \<open>Demotion of peers without a socket\<close>

definition json_present :: "string \<Rightarrow> jobject \<Rightarrow> bool" where
  "json_present k m \<longleftrightarrow> (case gm_get m k of None \<Rightarrow> False | Some v \<Rightarrow> v \<noteq> JNull)"

definition demote_exempt :: "bool \<Rightarrow> peer \<Rightarrow> bool" where
  "demote_exempt acpFlag p \<longleftrightarrow> (acpFlag \<and> json_present ''acp'' (Metadata p)) \<or> json_present ''in_process'' (Metadata p)"

definition clear_connected :: "env \<Rightarrow> string \<Rightarrow> registry \<Rightarrow> registry" where
  "clear_connected e i r =
     (if connected e i then clearContradiction i ContradictionAgentPIDDead (clearContradiction i ContradictionOnlineButNoWS r)
      else r)"

definition ghosts :: "env \<Rightarrow> registry \<Rightarrow> (string \<times> peer_state) list" where
  "ghosts e r = filter (\<lambda>(i, ps). (psState ps = StateOnline \<or> psState ps = StateBusy) \<and>
     \<not> connected e i \<and> \<not> demote_exempt (rgACPBroker r) (psPeer ps)) (rgPeers r)"

text \<open>The first critical section: the ids to demote outright and the pane-backed peers to probe.\<close>

definition demote_snapshot :: "env \<Rightarrow> registry \<Rightarrow> registry \<times> string list \<times> peer list" where
  "demote_snapshot e r =
     (let r1 = fold (clear_connected e) (map fst (rgPeers r)) r; gs = ghosts e r1
      in (r1, map fst (filter (\<lambda>(i, ps). \<not> has_pane (psPeer ps)) gs),
          map (psPeer \<circ> snd) (filter (\<lambda>(i, ps). has_pane (psPeer ps)) gs)))"

definition demote_one :: "env \<Rightarrow> string list \<Rightarrow> string \<Rightarrow> registry \<times> (string \<times> string \<times> string) list \<Rightarrow>
    registry \<times> (string \<times> string \<times> string) list" where
  "demote_one e paneDead i acc =
     (let (r, dones) = acc
      in case gm_get (rgPeers r) i of
           None \<Rightarrow> (r, dones)
         | Some ps \<Rightarrow>
             (let p = psPeer ps; isPaneDead = (i \<in> set paneDead);
                  r1 = emitContradictionCode e p ContradictionOnlineButNoWS
                         (''peer is '' @ status_string (Status p) @ '' but has no live WebSocket connection'') r;
                  r2 = (if isPaneDead \<and> AgentPID p \<noteq> None
                        then emitContradictionCode e p ContradictionAgentPIDDead ''agent pid has no runtime evidence'' r1
                        else r1)
              in case Apply (psState ps) EventGhostDemote of
                   (n, Some err) \<Rightarrow> (emitContradiction e i (DisplayName p) (psState ps) EventGhostDemote r2, dones)
                 | (n, None) \<Rightarrow> (put_peer i (move_to (Now e) n ps) r2,
                     dones @ [(i, DisplayName p, if isPaneDead then ''no_websocket_no_runtime_evidence'' else ''no_websocket_no_pane'')])))"

definition demote_commit :: "env \<Rightarrow> string list \<Rightarrow> string list \<Rightarrow> registry \<Rightarrow> registry \<times> (string \<times> string \<times> string) list" where
  "demote_commit e candidates paneDead r = fold (demote_one e paneDead) (candidates @ paneDead) (r, [])"

definition demote_finish :: "env \<Rightarrow> (string \<times> string \<times> string) list \<Rightarrow> registry \<Rightarrow> registry" where
  "demote_finish e dones r =
     fold (\<lambda>(i, name, reason). appendEvent e (peer_event ''peer_offline'' (Now e) i name [(''reason'', JStr reason)])) dones r"

definition demoteDisconnected :: "env \<Rightarrow> probes \<Rightarrow> registry \<Rightarrow> registry" where
  "demoteDisconnected e q r =
     (if Transport e = None then r
      else (let (r1, candidates, panes) = demote_snapshot e r;
                evidence = runtimeEvidenceIDs q panes;
                paneDead = filter (\<lambda>i. i \<notin> set evidence) (map PeerID panes);
                (r2, dones) = demote_commit e candidates paneDead r1
            in demote_finish e dones r2))"

section \<open>Three strikes\<close>

definition strike_targets :: "env \<Rightarrow> registry \<Rightarrow> string list" where
  "strike_targets e r = map fst (filter (\<lambda>(i, ps).
     (psState ps = StateOnline \<or> psState ps = StateBusy) \<and> has_pane (psPeer ps) \<and>
     Backend (psPeer ps) \<noteq> AgentOpenCode \<and> connected e i) (rgPeers r))"

definition gc_strikes :: "registry \<Rightarrow> registry" where
  "gc_strikes r = r\<lparr>rgPaneStrikes := filter (\<lambda>(i, n). gm_has (rgPeers r) i) (rgPaneStrikes r)\<rparr>"

definition strike_one :: "env \<Rightarrow> probes \<Rightarrow> string \<Rightarrow> registry \<Rightarrow> registry" where
  "strike_one e q i r = (case Ping q i of
       None \<Rightarrow> r
     | Some pong \<Rightarrow> (case gm_get pong ''pane_alive'' of
           Some (JBool True) \<Rightarrow>
             clearContradiction i ContradictionPaneMissing (r\<lparr>rgPaneStrikes := gm_del i (rgPaneStrikes r)\<rparr>)
         | Some (JBool False) \<Rightarrow>
             (let strikes = (case gm_get (rgPaneStrikes r) i of Some n \<Rightarrow> n | None \<Rightarrow> 0) + 1
              in if strikes < PaneUnsafeStrikeLimit then r\<lparr>rgPaneStrikes := gm_put i strikes (rgPaneStrikes r)\<rparr>
                 else (let r1 = r\<lparr>rgPaneStrikes := gm_del i (rgPaneStrikes r)\<rparr>;
                           r2 = (case gm_get (rgPeers r1) i of
                                   None \<Rightarrow> r1
                                 | Some ps \<Rightarrow> emitContradictionCode e (psPeer ps) ContradictionPaneMissing
                                     (case PaneID (psPeer ps) of
                                        Some pane \<Rightarrow> ''connected pane '' @ pane @ '' is no longer alive''
                                      | None \<Rightarrow> ''connected pane is no longer alive'') r1)
                       in MarkOffline e i True r2))
         | _ \<Rightarrow> r))"

definition demoteUnsafeConnectedPeers :: "env \<Rightarrow> probes \<Rightarrow> registry \<Rightarrow> registry" where
  "demoteUnsafeConnectedPeers e q r =
     (if Transport e = None then r else fold (strike_one e q) (strike_targets e r) (gc_strikes r))"

section \<open>Stale busy peers\<close>

definition is_stale :: "gotime \<Rightarrow> peer \<Rightarrow> bool" where
  "is_stale cutoff p \<longleftrightarrow> (case LastSeen p of None \<Rightarrow> False | Some t \<Rightarrow> t < cutoff)"

definition repair_busy_one :: "env \<Rightarrow> string \<Rightarrow> registry \<times> (string \<times> string) list \<Rightarrow> registry \<times> (string \<times> string) list" where
  "repair_busy_one e i acc =
     (let (r, dones) = acc
      in case gm_get (rgPeers r) i of
           None \<Rightarrow> (r, dones)
         | Some ps \<Rightarrow>
             if psState ps \<noteq> StateBusy \<or> TurnState (psPeer ps) \<noteq> TurnWorking \<or>
                \<not> is_stale (Now e - rgStaleBusyTTL r) (psPeer ps) then (r, dones)
             else (case Apply (psState ps) EventStop of
                 (n, Some err) \<Rightarrow> (emitContradiction e i (DisplayName (psPeer ps)) (psState ps) EventStop r, dones)
               | (n, None) \<Rightarrow>
                   (let ps' = move_to (Now e) n ps
                    in (put_peer i (ps'\<lparr>psPeer := (psPeer ps')\<lparr>TurnState := TurnIdle\<rparr>\<rparr>) r,
                        dones @ [(i, DisplayName (psPeer ps))]))))"

definition repairStaleBusyPeers :: "env \<Rightarrow> registry \<Rightarrow> registry" where
  "repairStaleBusyPeers e r =
     (if rgStaleBusyTTL r \<le> 0 then r
      else (let (r1, dones) = fold (repair_busy_one e) (map fst (rgPeers r)) (r, [])
            in fold (\<lambda>(i, name). appendEvent e (peer_event ''peer_status'' (Now e) i name
                 [(''status'', JStr ''online''), (''reason'', JStr ''stale_busy_repair'')])) dones r1))"

section \<open>Loss events\<close>

definition opt_str :: "string option \<Rightarrow> json" where
  "opt_str s = (case s of Some v \<Rightarrow> JStr v | None \<Rightarrow> JNull)"

definition opt_num :: "int option \<Rightarrow> json" where
  "opt_num n = (case n of Some v \<Rightarrow> JNum v | None \<Rightarrow> JNull)"

text \<open>Times in payloads are kept as numbers; the code formats them as RFC 3339 strings.\<close>

definition lost_event :: "gotime \<Rightarrow> ask \<Rightarrow> string \<Rightarrow> event" where
  "lost_event now a reason =
     peer_event ''pending_reply_lost'' now (FromPeerID a) (FromPeerName a)
       [(''correlation_id'', JStr (CorrelationID a)), (''answerer_peer_id'', JStr (ToPeerID a)),
        (''answerer_name'', JStr (ToPeerName a)), (''asker_name'', JStr (FromPeerName a)),
        (''asker_display_name'', opt_str (map_option aiDisplayName (AskerIdentity a))),
        (''asker_circle'', opt_str (map_option aiCircle (AskerIdentity a))),
        (''asker_backend'', opt_str (map_option aiBackend (AskerIdentity a))),
        (''asker_peer_id'', JStr (FromPeerID a)), (''reason'', JStr reason),
        (''pending_reply_at'', opt_num (PendingReplyAt a))]"

definition emitPendingReplyLost :: "env \<Rightarrow> string \<Rightarrow> ask \<Rightarrow> registry \<Rightarrow> registry" where
  "emitPendingReplyLost e reason a r = appendEvent e (lost_event (Now e) a reason) r"

definition emitOfflineStillHasEvidence :: "env \<Rightarrow> string \<Rightarrow> gotime \<Rightarrow> duration \<Rightarrow> peer \<Rightarrow> registry \<Rightarrow> registry" where
  "emitOfflineStillHasEvidence e reason cutoff ttl p r =
     appendEvent e (peer_event ''offline_peer_still_has_runtime_evidence'' (Now e) (PeerID p) (DisplayName p)
       [(''peer_id'', JStr (PeerID p)), (''display_name'', JStr (DisplayName p)), (''backend'', JStr (Backend p)),
        (''path'', JStr (Path p)), (''pane_id'', opt_str (PaneID p)), (''agent_pid'', opt_num (AgentPID p)),
        (''last_seen'', opt_num (LastSeen p)), (''cutoff'', JNum cutoff), (''ttl_seconds'', JNum (ttl div second)),
        (''reason'', JStr reason)]) r"

text \<open>The loop that forgets every ask of the removed peers; \<open>forget\<close> is the tracker's \<open>ForgetPeer\<close>.\<close>

fun forget_all :: "(string \<Rightarrow> 't \<Rightarrow> (nat \<times> 't) option) \<Rightarrow> string list \<Rightarrow> 't \<Rightarrow> 't option" where
  "forget_all forget [] t = Some t"
| "forget_all forget (i # is) t = (case forget i t of None \<Rightarrow> None | Some (n, t') \<Rightarrow> forget_all forget is t')"

section \<open>Reaping and evicting\<close>

definition stale_offline :: "gotime \<Rightarrow> registry \<Rightarrow> peer list" where
  "stale_offline cutoff r =
     map (psPeer \<circ> snd) (filter (\<lambda>(i, ps). psState ps = StateOffline \<and> is_stale cutoff (psPeer ps)) (rgPeers r))"

definition reap_snapshot :: "env \<Rightarrow> registry \<Rightarrow> peer list" where
  "reap_snapshot e r = stale_offline (Now e - rgReapTTL r) r"

definition evict_snapshot :: "env \<Rightarrow> registry \<Rightarrow> peer list" where
  "evict_snapshot e r = stale_offline (Now e - rgEvictMaxAge r) r"

text \<open>The revalidation under the second lock: still registered, offline, stale, and the same runtime.\<close>

definition still_stale :: "gotime \<Rightarrow> peer \<Rightarrow> registry \<Rightarrow> peer_state option" where
  "still_stale cutoff snap r = (case gm_get (rgPeers r) (PeerID snap) of
       None \<Rightarrow> None
     | Some ps \<Rightarrow> if psState ps = StateOffline \<and> is_stale cutoff (psPeer ps) \<and>
                    runtimeMarker (psPeer ps) = runtimeMarker snap then Some ps else None)"

definition drop_peer :: "string \<Rightarrow> registry \<Rightarrow> registry" where
  "drop_peer i r = clearAllContradictions i (remove_peer i r)"

definition reap_one :: "env \<Rightarrow> string list \<Rightarrow> peer \<Rightarrow> registry \<times> (string \<times> string) list \<times> peer list \<Rightarrow>
    registry \<times> (string \<times> string) list \<times> peer list" where
  "reap_one e evidence snap acc =
     (let (r, dones, spared) = acc
      in case still_stale (Now e - rgReapTTL r) snap r of
           None \<Rightarrow> (r, dones, spared)
         | Some ps \<Rightarrow>
             if PeerID snap \<in> set evidence then (r, dones, spared @ [psPeer ps])
             else (case Apply (psState ps) EventReap of
                 (n, Some err) \<Rightarrow>
                   (emitContradiction e (PeerID snap) (DisplayName (psPeer ps)) (psState ps) EventReap r, dones, spared)
               | (n, None) \<Rightarrow>
                   (let r1 = drop_peer (PeerID snap) r
                    in (r1\<lparr>rgRetired := gm_put (PeerID snap) \<lparr>rtAt = Now e, rtHard = False\<rparr> (rgRetired r1)\<rparr>,
                        dones @ [(PeerID snap, DisplayName (psPeer ps))], spared))))"

definition reap_commit :: "env \<Rightarrow> string list \<Rightarrow> peer list \<Rightarrow> registry \<Rightarrow> registry \<times> (string \<times> string) list \<times> peer list" where
  "reap_commit e evidence stale r = fold (reap_one e evidence) stale (r, [], [])"

definition store_reaped :: "env \<Rightarrow> string \<Rightarrow> string \<Rightarrow> registry \<Rightarrow> registry" where
  "store_reaped e i name r =
     (let r1 = DeleteMapping e i (transportClose e i r);
          r2 = (case StoreErr e (SCRetire i) of
                  None \<Rightarrow> r1\<lparr>rgDbRetired := gm_put i \<lparr>rtAt = Now e, rtHard = False\<rparr> (rgDbRetired r1)\<rparr>
                | Some err \<Rightarrow> appendEvent e (peer_event ''retire_persist_failed'' (Now e) i []
                    [(''error'', JStr err), (''reason'', JStr ''reap'')]) r1)
      in appendEvent e (peer_event ''peer_reaped'' (Now e) i name [(''reason'', JStr ''offline_ttl'')]) r2)"

text \<open>Stash loss: snapshot the stashes of every removed peer, report each loss, then forget the asks.\<close>

definition report_losses :: "env \<Rightarrow> string \<Rightarrow> string list \<Rightarrow> tracker \<Rightarrow> registry \<Rightarrow> registry" where
  "report_losses e reason ids t r =
     fold (emitPendingReplyLost e reason) (concat (map (\<lambda>i. SnapshotPendingRepliesForPeer i t) ids)) r"

definition reap_finish :: "env \<Rightarrow> (string \<times> string) list \<Rightarrow> peer list \<Rightarrow> registry \<times> tracker \<Rightarrow> (registry \<times> tracker) option" where
  "reap_finish e dones spared rt =
     (let (r, t) = rt; ids = map fst dones;
          r1 = fold (emitOfflineStillHasEvidence e ''offline_ttl_with_runtime_evidence'' (Now e - rgReapTTL r) (rgReapTTL r)) spared r;
          r2 = (if rgHasAsks r1 then report_losses e ''offline_ttl_reap'' ids t r1 else r1);
          r3 = fold (\<lambda>(i, name). store_reaped e i name) dones r2
      in if rgHasAsks r1 then map_option (\<lambda>t'. (r3, t')) (forget_all ForgetPeer ids t) else Some (r3, t))"

definition reapDangling :: "env \<Rightarrow> probes \<Rightarrow> registry \<times> tracker \<Rightarrow> (registry \<times> tracker) option" where
  "reapDangling e q rt =
     (let (r, t) = rt; stale = reap_snapshot e r;
          (r1, dones, spared) = reap_commit e (runtimeEvidenceIDs q stale) stale r
      in reap_finish e dones spared (r1, t))"

definition evict_one :: "env \<Rightarrow> string list \<Rightarrow> peer \<Rightarrow> registry \<times> peer list \<times> peer list \<Rightarrow> registry \<times> peer list \<times> peer list" where
  "evict_one e evidence snap acc =
     (let (r, evicted, spared) = acc
      in case still_stale (Now e - rgEvictMaxAge r) snap r of
           None \<Rightarrow> (r, evicted, spared)
         | Some ps \<Rightarrow>
             if PeerID snap \<in> set evidence then (r, evicted, spared @ [psPeer ps])
             else (drop_peer (PeerID snap) r, evicted @ [psPeer ps], spared))"

definition evict_commit :: "env \<Rightarrow> string list \<Rightarrow> peer list \<Rightarrow> registry \<Rightarrow> registry \<times> peer list \<times> peer list" where
  "evict_commit e evidence stale r = fold (evict_one e evidence) stale (r, [], [])"

definition evict_finish :: "env \<Rightarrow> peer list \<Rightarrow> peer list \<Rightarrow> registry \<times> tracker \<Rightarrow> (registry \<times> tracker) option" where
  "evict_finish e evicted spared rt =
     (let (r, t) = rt; ids = map PeerID evicted;
          r1 = fold (emitOfflineStillHasEvidence e ''stale_evict_with_runtime_evidence'' (Now e - rgEvictMaxAge r) (rgEvictMaxAge r)) spared r;
          r2 = (if rgHasAsks r1 then report_losses e ''stale_evict'' ids t r1 else r1);
          r3 = fold (DeleteMapping e) ids r2
      in if rgHasAsks r1 then map_option (\<lambda>t'. (r3, t')) (forget_all ForgetPeer ids t) else Some (r3, t))"

definition evictStalePeers :: "env \<Rightarrow> probes \<Rightarrow> registry \<times> tracker \<Rightarrow> (registry \<times> tracker) option" where
  "evictStalePeers e q rt =
     (let (r, t) = rt
      in if rgEvictMaxAge r \<le> 0 then Some (r, t)
         else (let stale = evict_snapshot e r;
                   (r1, evicted, spared) = evict_commit e (runtimeEvidenceIDs q stale) stale r
               in evict_finish e evicted spared (r1, t)))"

definition emitAndEvictExpiredStashes :: "env \<Rightarrow> registry \<times> tracker \<Rightarrow> (registry \<times> tracker) option" where
  "emitAndEvictExpiredStashes e rt =
     (let (r, t) = rt
      in if \<not> rgHasAsks r then Some (r, t)
         else (let r1 = fold (emitPendingReplyLost e ''ttl_evicted'') (SnapshotExpiredPendingReplies (Now e) t) r
               in case EvictExpired (Now e) True t of
                    None \<Rightarrow> None
                  | Some (n, t') \<Rightarrow> Some (r1, t')))"

section \<open>The repair\<close>

definition LazyRepair :: "env \<Rightarrow> probes \<Rightarrow> registry \<times> tracker \<Rightarrow> (registry \<times> tracker) option" where
  "LazyRepair e q rt =
     (let (r, t) = rt
      in if (case rgLastRepair r of None \<Rightarrow> False | Some l \<Rightarrow> Now e - l < repairDebounce) then Some (r, t)
         else (let r1 = r\<lparr>rgLastRepair := Some (Now e)\<rparr>;
                   r2 = repairStaleBusyPeers e (demoteUnsafeConnectedPeers e q (demoteDisconnected e q r1))
               in do {
                    s1 \<leftarrow> reapDangling e q (r2, t);
                    s2 \<leftarrow> evictStalePeers e q s1;
                    (r5, t5) \<leftarrow> emitAndEvictExpiredStashes e s2;
                    Some (pruneRetired e (persistMappings e r5), t5)
                  }))"

section \<open>Redelivery\<close>

text \<open>\<open>normalizeIdentityPath\<close>: symlink resolution is the file system's, given by \<open>NormPath\<close>.\<close>

definition normalizeIdentityPath :: "probes \<Rightarrow> string \<Rightarrow> string" where
  "normalizeIdentityPath q raw = (if raw = [] then [] else NormPath q raw)"

definition deliverOneStashed :: "probes \<Rightarrow> string \<Rightarrow> bool \<Rightarrow> ask \<Rightarrow> registry \<times> tracker \<Rightarrow> (registry \<times> tracker) option" where
  "deliverOneStashed q asker rebind a rt =
     (let (r, t) = rt
      in case PendingReply a of
           None \<Rightarrow> Some (r, t)
         | Some txt \<Rightarrow>
             (let r1 = trace (ANotify (ToPeerID a) asker txt) r
              in if \<not> NotifyOK q (ToPeerID a) asker txt then Some (r1, t)
                 else map_option (\<lambda>(b, t'). (r1, t'))
                   (MarkPendingReplyDelivered (CorrelationID a) (if rebind then Some asker else None) ''ack_with_msg'' t)))"

fun deliver_all :: "probes \<Rightarrow> string \<Rightarrow> bool \<Rightarrow> ask list \<Rightarrow> registry \<times> tracker \<Rightarrow> (registry \<times> tracker) option" where
  "deliver_all q asker rebind [] rt = Some rt"
| "deliver_all q asker rebind (a # as) rt =
     (case deliverOneStashed q asker rebind a rt of None \<Rightarrow> None | Some rt' \<Rightarrow> deliver_all q asker rebind as rt')"

definition identity_of :: "probes \<Rightarrow> peer \<Rightarrow> asker_identity option" where
  "identity_of q p =
     (let np = normalizeIdentityPath q (Path p)
      in if DisplayName p = [] \<or> Circle p = [] \<or> Backend p = [] \<or> Machine p = [] \<or> Machine p = ''unknown'' \<or> np = []
         then None
         else Some \<lparr>aiDisplayName = DisplayName p, aiCircle = Circle p, aiBackend = Backend p, aiPath = np,
                    aiMachine = Machine p\<rparr>)"

definition same_identity :: "probes \<Rightarrow> asker_identity \<Rightarrow> peer \<Rightarrow> bool" where
  "same_identity q ident p \<longleftrightarrow>
     DisplayName p = aiDisplayName ident \<and> Circle p = aiCircle ident \<and> Backend p = aiBackend ident \<and>
     Machine p = aiMachine ident \<and> normalizeIdentityPath q (Path p) = aiPath ident"

definition identity_matches :: "probes \<Rightarrow> asker_identity \<Rightarrow> registry \<Rightarrow> string list" where
  "identity_matches q ident r = map fst (filter (\<lambda>(i, ps). same_identity q ident (psPeer ps)) (rgPeers r))"

text \<open>Pass 2, for a reply whose asker's id is gone: only when one live peer has the asker's identity.\<close>

definition rebind_pass :: "probes \<Rightarrow> string \<Rightarrow> registry \<times> tracker \<Rightarrow> (registry \<times> tracker) option" where
  "rebind_pass q asker rt =
     (let (r, t) = rt
      in case gm_get (rgPeers r) asker of
           None \<Rightarrow> Some (r, t)
         | Some ps \<Rightarrow> (case identity_of q (psPeer ps) of
               None \<Rightarrow> Some (r, t)
             | Some ident \<Rightarrow>
                 if identity_matches q ident r \<noteq> [asker] then Some (r, t)
                 else deliver_all q asker True
                   (TakeOrphanPendingRepliesMatching ident (map (\<lambda>(i, ps). (i, ())) (rgPeers r)) t) (r, t)))"

definition redeliverPendingReplies :: "probes \<Rightarrow> string \<Rightarrow> registry \<times> tracker \<Rightarrow> (registry \<times> tracker) option" where
  "redeliverPendingReplies q asker rt =
     (let (r, t) = rt
      in if \<not> rgHasAsks r \<or> \<not> HasDelivery q then Some (r, t)
         else do {
           s1 \<leftarrow> deliver_all q asker False (TakePendingRepliesForAsker asker t) (r, t);
           rebind_pass q asker s1
         })"

end
