(* ===== verification/Registry_Invariant.thy ===== *)
theory Registry_Invariant
  imports Registry_Ops
begin

text \<open>
  The registry's invariant and its preservation by every operation: each peer sits under its own
  id in a registered state whose wire status is the projection of it, has a durable mapping that
  agrees with it on name, circle, backend, role, description, path and agent pid, and when the
  mappings are clean the store holds every one of them.
\<close>

section \<open>The invariant\<close>

definition peer_ok :: "string \<Rightarrow> peer_state \<Rightarrow> bool" where
  "peer_ok i ps \<longleftrightarrow> PeerID (psPeer ps) = i \<and> psState ps \<noteq> StateUnregistered \<and>
     ToStatus (psState ps) = Some (Status (psPeer ps))"

definition agrees :: "peer \<Rightarrow> mapping \<Rightarrow> bool" where
  "agrees p m \<longleftrightarrow> mDisplayName m = DisplayName p \<and> mCircle m = Circle p \<and> mBackend m = Backend p \<and>
     mRole m = Role p \<and> mDescription m = Description p \<and> deref (mPath m) = Path p \<and> mAgentPID m = AgentPID p"

definition peers_ok :: "registry \<Rightarrow> bool" where
  "peers_ok r \<longleftrightarrow> (\<forall>i ps. gm_get (rgPeers r) i = Some ps \<longrightarrow>
     peer_ok i ps \<and> (\<exists>m. gm_get (rgMappings r) i = Some m \<and> agrees (psPeer ps) m))"

definition keyed :: "(string, mapping) gomap \<Rightarrow> bool" where
  "keyed M \<longleftrightarrow> (\<forall>i m. gm_get M i = Some m \<longrightarrow> mSessionID m = i)"

definition maps_ok :: "registry \<Rightarrow> bool" where
  "maps_ok r \<longleftrightarrow> gm_ok (rgPeers r) \<and> gm_ok (rgMappings r) \<and> gm_ok (rgRetired r) \<and> keyed (rgMappings r)"

lemma keyed_adjust [intro]: "keyed M \<Longrightarrow> (\<And>m. mSessionID (g m) = mSessionID m) \<Longrightarrow> keyed (gm_adjust i g M)"
  by (auto simp: keyed_def)

lemma keyed_put [intro]: "keyed M \<Longrightarrow> mSessionID m = i \<Longrightarrow> keyed (gm_put i m M)"
  by (auto simp: keyed_def)

lemma keyed_del [intro]: "keyed M \<Longrightarrow> keyed (gm_del i M)"
  by (simp add: keyed_def)

definition durable :: "registry \<Rightarrow> bool" where
  "durable r \<longleftrightarrow> (\<not> rgDirty r \<longrightarrow> (\<forall>i m. gm_get (rgMappings r) i = Some m \<longrightarrow> gm_get (rgDbMappings r) i = Some m))"

definition registry_ok :: "registry \<Rightarrow> bool" where
  "registry_ok r \<longleftrightarrow> peers_ok r \<and> maps_ok r \<and> durable r"

lemma registry_okI: "peers_ok r \<Longrightarrow> maps_ok r \<Longrightarrow> durable r \<Longrightarrow> registry_ok r"
  by (simp add: registry_ok_def)

lemma registry_okD:
  assumes "registry_ok r" "gm_get (rgPeers r) i = Some ps"
  obtains m where "peer_ok i ps" "gm_get (rgMappings r) i = Some m" "agrees (psPeer ps) m"
  using assms by (auto simp: registry_ok_def peers_ok_def)

lemma registry_ok_peer: "registry_ok r \<Longrightarrow> gm_get (rgPeers r) i = Some ps \<Longrightarrow> peer_ok i ps"
  by (simp add: registry_ok_def peers_ok_def)

lemma registry_ok_id: "registry_ok r \<Longrightarrow> gm_get (rgPeers r) i = Some ps \<Longrightarrow> PeerID (psPeer ps) = i"
  using registry_ok_peer by (simp add: peer_ok_def)

lemma registry_ok_has_mapping: "registry_ok r \<Longrightarrow> gm_get (rgPeers r) i = Some ps \<Longrightarrow> gm_has (rgMappings r) i"
  by (auto simp: gm_has_iff registry_ok_def peers_ok_def)

lemma registry_ok_gm:
  "registry_ok r \<Longrightarrow> gm_ok (rgPeers r)" "registry_ok r \<Longrightarrow> gm_ok (rgMappings r)" "registry_ok r \<Longrightarrow> gm_ok (rgRetired r)"
  by (simp_all add: registry_ok_def maps_ok_def)

lemma registry_ok_session: "registry_ok r \<Longrightarrow> gm_get (rgMappings r) i = Some m \<Longrightarrow> mSessionID m = i"
  unfolding registry_ok_def maps_ok_def keyed_def by blast

lemma durable_dirty: "rgDirty r \<Longrightarrow> durable r"
  by (simp add: durable_def)

lemma registry_ok_same_tables: "same_tables r r' \<Longrightarrow> registry_ok r \<Longrightarrow> registry_ok r'"
  by (simp add: same_tables_def registry_ok_def peers_ok_def maps_ok_def durable_def)

lemma registry_ok_frame:
  assumes "registry_ok r" "rgPeers r' = rgPeers r" "rgMappings r' = rgMappings r" "gm_ok (rgRetired r')"
    "rgDirty r' = rgDirty r" "rgDbMappings r' = rgDbMappings r"
  shows "registry_ok r'"
  using assms by (simp add: registry_ok_def peers_ok_def maps_ok_def durable_def)

section \<open>Updates that keep it\<close>

definition same_ident :: "peer \<Rightarrow> peer \<Rightarrow> bool" where
  "same_ident p q \<longleftrightarrow> PeerID q = PeerID p \<and> DisplayName q = DisplayName p \<and> Circle q = Circle p \<and>
     Backend q = Backend p \<and> Role q = Role p \<and> Description q = Description p \<and> Path q = Path p \<and>
     AgentPID q = AgentPID p"

lemma same_ident_refl [simp]: "same_ident p p"
  by (simp add: same_ident_def)

lemma same_ident_trans: "same_ident p q \<Longrightarrow> same_ident q s \<Longrightarrow> same_ident p s"
  by (simp add: same_ident_def)

lemma agrees_same_ident: "same_ident p q \<Longrightarrow> agrees q m \<longleftrightarrow> agrees p m"
  by (simp add: same_ident_def agrees_def)

lemma move_to_ident [simp]: "same_ident p (psPeer (move_to now s ps)) = same_ident p (psPeer ps)"
  by (simp add: same_ident_def)

lemma move_to_ok:
  "PeerID (psPeer ps) = i \<Longrightarrow> s \<noteq> StateUnregistered \<Longrightarrow> peer_ok i (move_to now s ps)"
  using ToStatus_registered [of s] by (auto simp: peer_ok_def move_to_def)

lemma registry_ok_put_peer:
  assumes "registry_ok r" "gm_get (rgPeers r) i = Some ps" "peer_ok i ps'" "same_ident (psPeer ps) (psPeer ps')"
  shows "registry_ok (put_peer i ps' r)"
proof -
  obtain m where "gm_get (rgMappings r) i = Some m" "agrees (psPeer ps) m"
    using registry_okD [OF assms(1,2)] by blast
  then show ?thesis using assms
    by (auto simp: registry_ok_def peers_ok_def maps_ok_def durable_def agrees_same_ident)
qed

lemma registry_ok_set_peer:
  assumes "registry_ok r" "\<And>p. same_ident p (f p)" "\<And>p. Status (f p) = Status p"
  shows "registry_ok (set_peer i f r)"
proof (cases "gm_get (rgPeers r) i")
  case None
  then show ?thesis using assms(1) by (simp add: set_peer_def gm_adjust_def)
next
  case (Some ps)
  then have "registry_ok (put_peer i (ps\<lparr>psPeer := f (psPeer ps)\<rparr>) r)"
    using assms registry_ok_peer [OF assms(1) Some]
    by (intro registry_ok_put_peer) (auto simp: peer_ok_def same_ident_def)
  moreover have "put_peer i (ps\<lparr>psPeer := f (psPeer ps)\<rparr>) r = set_peer i f r"
    using Some by (simp add: put_peer_def set_peer_def gm_adjust_def)
  ultimately show ?thesis by simp
qed

text \<open>A change of a peer and of its mapping together, with the dirty flag set.\<close>

lemma registry_ok_set_both:
  assumes "registry_ok r" "\<And>p. PeerID (f p) = PeerID p" "\<And>p. Status (f p) = Status p"
    "\<And>m. mSessionID (g m) = mSessionID m" "\<And>p m. agrees p m \<Longrightarrow> agrees (f p) (g m)"
  shows "registry_ok (markMappingsDirty (set_mapping i g (set_peer i f r)))"
proof (rule registry_okI)
  show "maps_ok (markMappingsDirty (set_mapping i g (set_peer i f r)))"
    using assms(1,4) by (auto simp: registry_ok_def maps_ok_def)
  show "durable (markMappingsDirty (set_mapping i g (set_peer i f r)))"
    by (rule durable_dirty) simp
  show "peers_ok (markMappingsDirty (set_mapping i g (set_peer i f r)))"
    unfolding peers_ok_def
  proof (intro allI impI)
    fix k ps
    assume k: "gm_get (rgPeers (markMappingsDirty (set_mapping i g (set_peer i f r)))) k = Some ps"
    show "peer_ok k ps \<and> (\<exists>m. gm_get (rgMappings (markMappingsDirty (set_mapping i g (set_peer i f r)))) k = Some m \<and>
        agrees (psPeer ps) m)"
    proof (cases "k = i")
      case True
      with k obtain ps0 where ps0: "gm_get (rgPeers r) i = Some ps0" "ps = ps0\<lparr>psPeer := f (psPeer ps0)\<rparr>"
        by auto
      from registry_okD [OF assms(1) ps0(1)] obtain m where
        m: "peer_ok i ps0" "gm_get (rgMappings r) i = Some m" "agrees (psPeer ps0) m" by blast
      then show ?thesis using True ps0 assms(2,3,5) by (simp add: peer_ok_def)
    next
      case False
      with k have "gm_get (rgPeers r) k = Some ps" by simp
      from registry_okD [OF assms(1) this] False show ?thesis by fastforce
    qed
  qed
qed

lemma registry_ok_set_mapping_only:
  assumes "registry_ok r" "gm_get (rgPeers r) i = None" "\<And>m. mSessionID (g m) = mSessionID m"
  shows "registry_ok (markMappingsDirty (set_mapping i g r))"
proof -
  have "set_peer i (\<lambda>p. p) r = r" by (simp add: set_peer_def gm_adjust_def assms(2))
  have "peers_ok (markMappingsDirty (set_mapping i g r))"
    using assms(1,2) by (auto simp: registry_ok_def peers_ok_def)
  moreover have "maps_ok (markMappingsDirty (set_mapping i g r))"
    using assms(1,3) by (auto simp: registry_ok_def maps_ok_def)
  ultimately show ?thesis by (intro registry_okI durable_dirty) auto
qed

lemma registry_ok_drop_peers:
  assumes "registry_ok r"
  shows "registry_ok (r\<lparr>rgPeers := gm_dels ks (rgPeers r)\<rparr>)"
  using assms by (auto simp: registry_ok_def peers_ok_def maps_ok_def durable_def split: if_splits)

lemma registry_ok_remove_peer: "registry_ok r \<Longrightarrow> registry_ok (remove_peer i r)"
  by (auto simp: remove_peer_def registry_ok_def peers_ok_def maps_ok_def durable_def split: if_splits)

lemma registry_ok_retire: "registry_ok r \<Longrightarrow> registry_ok (retireLocked e i h r)"
  by (rule registry_ok_frame [of r]) (auto simp: registry_ok_gm)

lemma registry_ok_unretire: "registry_ok r \<Longrightarrow> registry_ok (unretireLocked e i r)"
  by (rule registry_ok_frame [of r]) (auto simp: registry_ok_gm)

lemmas registry_ok_events =
  registry_ok_same_tables [OF appendEvent_same] registry_ok_same_tables [OF emitContradiction_same]
  registry_ok_same_tables [OF trace_same] registry_ok_same_tables [OF scheduleRedelivery_same]
  registry_ok_same_tables [OF transportClose_same]

lemma registry_ok_desc_set_at: "registry_ok r \<Longrightarrow> registry_ok (r\<lparr>rgDescSetAt := x\<rparr>)"
  by (rule registry_ok_frame [of r]) (auto simp: registry_ok_gm)

lemma registry_ok_description_ttl:
  assumes "registry_ok r"
  shows "registry_ok (applyDescriptionTTL e i r)"
proof -
  have "registry_ok (markMappingsDirty (set_mapping i (\<lambda>m. m\<lparr>mDescription := [], mUpdatedAt := Now e\<rparr>)
      ((set_peer i (\<lambda>p. p\<lparr>Description := []\<rparr>) r)\<lparr>rgDescSetAt := x\<rparr>)))" for x
  proof -
    have "registry_ok (markMappingsDirty (set_mapping i (\<lambda>m. m\<lparr>mDescription := [], mUpdatedAt := Now e\<rparr>)
        (set_peer i (\<lambda>p. p\<lparr>Description := []\<rparr>) r)))"
      using assms by (rule registry_ok_set_both) (auto simp: agrees_def)
    then show ?thesis by (rule registry_ok_frame) (auto simp: registry_ok_gm [OF assms])
  qed
  then show ?thesis
    using assms registry_ok_has_mapping [OF assms, of i]
    by (auto simp: applyDescriptionTTL_def Let_def registry_ok_desc_set_at split: option.splits)
qed

end
