(* ===== verification/Registry_Preserve.thy ===== *)
theory Registry_Preserve
  imports Registry_Invariant
begin

text \<open>
  Every operation of the registry preserves \<open>registry_ok\<close>: first the loop that releases a pane,
  then \<open>AllocateAndRegister\<close>, then the rest.
\<close>

section \<open>Releasing a pane\<close>

text \<open>What a loop over the peers may do to them: only status, last seen and pane change.\<close>

definition peer_moved :: "string \<Rightarrow> peer_state option \<Rightarrow> peer_state option \<Rightarrow> bool" where
  "peer_moved k a b = (case a of None \<Rightarrow> b = None
     | Some ps \<Rightarrow> (\<exists>ps'. b = Some ps' \<and> same_ident (psPeer ps) (psPeer ps') \<and> (peer_ok k ps \<longrightarrow> peer_ok k ps')))"

definition peers_moved :: "string \<Rightarrow> registry \<Rightarrow> registry \<Rightarrow> bool" where
  "peers_moved i r r' \<longleftrightarrow>
     (gm_ok (rgPeers r) \<longrightarrow> gm_ok (rgPeers r')) \<and> gm_get (rgPeers r') i = gm_get (rgPeers r) i \<and>
     (\<forall>k. peer_moved k (gm_get (rgPeers r) k) (gm_get (rgPeers r') k)) \<and>
     rgMappings r' = rgMappings r \<and> rgRetired r' = rgRetired r \<and> rgDirty r' = rgDirty r \<and>
     rgDbMappings r' = rgDbMappings r \<and> rgDbRetired r' = rgDbRetired r \<and> rgTrace r' = rgTrace r \<and> rgHasAsks r' = rgHasAsks r \<and>
     rgClosed r' = rgClosed r"

lemma peer_moved_refl [simp]: "peer_moved k a a"
  by (simp add: peer_moved_def split: option.split)

lemma peer_moved_trans: "peer_moved k a b \<Longrightarrow> peer_moved k b c \<Longrightarrow> peer_moved k a c"
  by (auto simp: peer_moved_def split: option.splits intro: same_ident_trans)

lemma peer_moved_SomeD:
  "peer_moved k a (Some ps') \<Longrightarrow>
   \<exists>ps. a = Some ps \<and> same_ident (psPeer ps) (psPeer ps') \<and> (peer_ok k ps \<longrightarrow> peer_ok k ps')"
  by (auto simp: peer_moved_def split: option.splits)

lemma peers_moved_refl [simp]: "peers_moved i r r"
  by (simp add: peers_moved_def)

lemma peers_moved_trans: "peers_moved i r s \<Longrightarrow> peers_moved i s t \<Longrightarrow> peers_moved i r t"
  unfolding peers_moved_def by (simp, metis peer_moved_trans)

lemma peers_movedD:
  assumes "peers_moved i r r'" "gm_get (rgPeers r') k = Some ps'"
  shows "\<exists>ps. gm_get (rgPeers r) k = Some ps \<and> same_ident (psPeer ps) (psPeer ps') \<and> (peer_ok k ps \<longrightarrow> peer_ok k ps')"
proof -
  have "peer_moved k (gm_get (rgPeers r) k) (Some ps')" using assms unfolding peers_moved_def by metis
  then show ?thesis by (rule peer_moved_SomeD)
qed

lemma peers_moved_frame:
  "rgPeers r' = rgPeers r \<Longrightarrow> rgMappings r' = rgMappings r \<Longrightarrow> rgRetired r' = rgRetired r \<Longrightarrow> rgDirty r' = rgDirty r \<Longrightarrow>
   rgDbMappings r' = rgDbMappings r \<Longrightarrow> rgDbRetired r' = rgDbRetired r \<Longrightarrow> rgTrace r' = rgTrace r \<Longrightarrow>
   rgHasAsks r' = rgHasAsks r \<Longrightarrow> rgClosed r' = rgClosed r \<Longrightarrow> peers_moved i r r'"
  by (simp add: peers_moved_def)

lemma peers_moved_put:
  assumes "gm_get (rgPeers r) k = Some ps" "k \<noteq> i" "same_ident (psPeer ps) (psPeer ps')" "peer_ok k ps \<longrightarrow> peer_ok k ps'"
  shows "peers_moved i r (put_peer k ps' r)"
proof -
  have "peer_moved j (gm_get (rgPeers r) j) (gm_get (rgPeers (put_peer k ps' r)) j)" for j
    using assms by (cases "j = k") (simp_all add: peer_moved_def [of k])
  with assms(2) show ?thesis by (simp add: peers_moved_def put_peer_def)
qed

lemma release_one_moved: "peers_moved newID r (release_one e pane newID sid r)"
proof (cases "gm_get (rgPeers r) sid")
  case None
  then show ?thesis by (simp add: release_one_def)
next
  case (Some ps)
  show ?thesis
  proof (cases "sid = newID \<or> \<not> holds_pane pane (psPeer ps) \<or> fresh_orchestrator (Now e) ps")
    case True
    with Some show ?thesis by (auto simp: release_one_def)
  next
    case False
    show ?thesis
    proof (cases "Apply (psState ps) EventPaneDisplaced")
      case (Pair s1 err)
      show ?thesis
      proof (cases err)
        case None
        let ?ps = "(move_to (Now e) s1 ps)\<lparr>psPeer := (psPeer (move_to (Now e) s1 ps))\<lparr>PaneID := None\<rparr>\<rparr>"
        have s: "same_ident (psPeer ps) (psPeer ?ps)" by (simp add: same_ident_def)
        have "s1 \<noteq> StateUnregistered" using Pair None Apply_never_unregistered by blast
        then have "peer_ok sid (move_to (Now e) s1 ps)" if "peer_ok sid ps"
          using that by (intro move_to_ok) (auto simp: peer_ok_def)
        then have "peer_ok sid ps \<longrightarrow> peer_ok sid ?ps" by (simp add: peer_ok_def)
        with Some False s have "peers_moved newID r (put_peer sid ?ps r)"
          by (intro peers_moved_put) auto
        moreover have "peers_moved newID (put_peer sid ?ps r) (release_one e pane newID sid r)"
          using Some False Pair None by (intro peers_moved_frame) (simp_all add: release_one_def Let_def)
        ultimately show ?thesis by (rule peers_moved_trans)
      next
        case (Some err')
        then show ?thesis using False \<open>gm_get (rgPeers r) sid = Some ps\<close> Pair
          by (intro peers_moved_frame) (simp_all add: release_one_def)
      qed
    qed
  qed
qed

lemma fold_release_moved: "peers_moved newID r (fold (release_one e pane newID) ks r)"
  by (induction ks arbitrary: r) (auto intro: peers_moved_trans release_one_moved)

lemma releasePane_moved: "peers_moved newID r (releasePaneLocked e pane newID r)"
  by (simp add: releasePaneLocked_def fold_release_moved)

lemma peers_moved_get: "peers_moved i r r' \<Longrightarrow> gm_get (rgPeers r') i = gm_get (rgPeers r) i"
  by (simp add: peers_moved_def)

lemma peers_moved_ok:
  assumes "peers_moved i r r'" "registry_ok r"
  shows "registry_ok r'"
proof (rule registry_okI)
  show "maps_ok r'" "durable r'" using assms by (simp_all add: registry_ok_def peers_moved_def maps_ok_def durable_def)
  show "peers_ok r'" unfolding peers_ok_def
  proof (intro allI impI)
    fix k ps' assume k: "gm_get (rgPeers r') k = Some ps'"
    with assms(1) obtain ps where ps: "gm_get (rgPeers r) k = Some ps" "same_ident (psPeer ps) (psPeer ps')"
        "peer_ok k ps \<longrightarrow> peer_ok k ps'" by (blast dest: peers_movedD)
    from registry_okD [OF assms(2) ps(1)] obtain m where
      "peer_ok k ps" "gm_get (rgMappings r) k = Some m" "agrees (psPeer ps) m" by blast
    with ps assms(1) show "peer_ok k ps' \<and> (\<exists>m. gm_get (rgMappings r') k = Some m \<and> agrees (psPeer ps') m)"
      by (auto simp: peers_moved_def agrees_same_ident)
  qed
qed

section \<open>Allocation\<close>

lemma retirement_guard_ok: "registry_ok r \<Longrightarrow> retirement_guard e p r = Inr (r1, rec) \<Longrightarrow> registry_ok r1"
  by (auto simp: retirement_guard_def Let_def registry_ok_unretire split: option.splits if_splits)

lemma allocate_id_ok:
  assumes "registry_ok r" "allocate_id e p name r = (i, r2)"
  shows "registry_ok r2"
  by (rule registry_ok_frame [OF assms(1)])
    (use assms in \<open>auto simp: allocate_id_def nextUuid_def Let_def registry_ok_gm split: if_splits\<close>)

lemma reconnect_target_registered: "s \<noteq> StateUnregistered \<Longrightarrow> reconnect_target recovered s \<noteq> StateUnregistered"
  by (cases s) (simp_all add: reconnect_target_def Let_def)

lemma reconnect_ok:
  assumes r: "registry_ok r" and ex: "gm_get (rgPeers r) i = Some existing"
  shows "registry_ok (fst (reconnect e p recovered i existing r))"
proof -
  let ?ps = "move_to (Now e) (reconnect_target recovered (psState existing)) existing"
  let ?ps1 = "?ps\<lparr>psPeer := (psPeer ?ps)\<lparr>Model := or_else (apModel p) (Model (psPeer ?ps)),
                                                  PaneID := or_else (apPaneID p) (PaneID (psPeer ?ps))\<rparr>\<rparr>"
  let ?r1 = "put_peer i ?ps1 r"
  let ?r2 = "(case apPaneID p of Some pane \<Rightarrow> if pane \<noteq> [] then releasePaneLocked e pane i ?r1 else ?r1 | None \<Rightarrow> ?r1)"
  have ok: "peer_ok i existing" using r ex by (rule registry_ok_peer)
  then have "peer_ok i ?ps" by (intro move_to_ok reconnect_target_registered) (auto simp: peer_ok_def)
  then have "peer_ok i ?ps1" by (simp add: peer_ok_def)
  then have r1: "registry_ok ?r1" using r ex by (intro registry_ok_put_peer) (auto simp: same_ident_def)
  have r2: "registry_ok ?r2"
    using r1 peers_moved_ok [OF releasePane_moved r1] by (auto split: option.split)
  let ?f = "\<lambda>q. q\<lparr>TmuxSession := or_else (apTmuxSession p) (TmuxSession q),
                               Machine := (if apMachine p \<noteq> [] \<and> apMachine p \<noteq> ''unknown'' then apMachine p else Machine q),
                               AgentPID := or_else (apAgentPID p) (AgentPID q),
                               TurnState := (case apTurnState p of Some ts \<Rightarrow> ts | None \<Rightarrow> TurnState q),
                               Metadata := put_all (apMetadata p) (Metadata q)\<rparr>"
  have g2: "\<exists>ps2. gm_get (rgPeers ?r2) i = Some ps2"
    using peers_moved_get [OF releasePane_moved [of i ?r1 e]] by (auto split: option.split)
  then have has: "gm_has (rgMappings (set_peer i ?f ?r2)) i" using registry_ok_has_mapping [OF r2] by auto
  have "registry_ok (markMappingsDirty (set_mapping i (reconnect_mapping e p) (set_peer i ?f ?r2)))"
    using r2 by (rule registry_ok_set_both) (auto simp: reconnect_mapping_def agrees_def or_else_def split: option.split)
  then show ?thesis using has
    by (simp add: reconnect_def Let_def registry_ok_events)
qed

lemma proof_gate_ok: "registry_ok r \<Longrightarrow> registry_ok (fst (proof_gate e p ep r))"
  by (auto simp: proof_gate_def registry_ok_events split: option.splits)

lemma proof_gate_peers: "rgPeers (fst (proof_gate e p ep r)) = rgPeers r"
  by (auto simp: proof_gate_def split: option.splits)

lemma gate_reuse_ok:
  assumes "registry_ok r"
  shows "registry_ok (set_peer k (\<lambda>q. q\<lparr>LastSeen := a, Model := f q, TurnState := g q\<rparr>) r)"
  using assms by (rule registry_ok_set_peer) (simp_all add: same_ident_def)

lemma pane_gates_ok:
  assumes "registry_ok r"
  shows "case pane_gates e p r of GateReject r' err \<Rightarrow> registry_ok r'
     | GateReuse r' i n \<Rightarrow> registry_ok r' | GatePane r' pane \<Rightarrow> registry_ok r' \<and> rgPeers r' = rgPeers r"
  using assms proof_gate_ok [OF assms] proof_gate_peers
  by (auto simp: pane_gates_def Let_def registry_ok_events gate_reuse_ok split: option.splits prod.splits)
    (metis fst_conv)+

lemma register_fresh_ok:
  assumes r: "registry_ok r" and new: "gm_get (rgPeers r) i = None"
  shows "registry_ok (fst (register_fresh e p i name pane r))"
proof -
  let ?m = "fresh_mapping e p i name r"
  let ?new = "\<lparr>psPeer = fresh_peer e p i ?m StatusOnline pane, psState = StateOnline\<rparr>"
  let ?r1 = "put_peer i ?new r"
  let ?r2 = "(case pane of Some pn \<Rightarrow> if pn \<noteq> [] then releasePaneLocked e pn i ?r1 else ?r1 | None \<Rightarrow> ?r1)"
  let ?r3 = "markMappingsDirty (?r2\<lparr>rgMappings := gm_put i ?m (rgMappings ?r2)\<rparr>)"
  have mv: "peers_moved i ?r1 ?r2" using releasePane_moved by (auto split: option.split)
  have fm: "mSessionID ?m = i" "agrees (psPeer ?new) ?m"
    by (simp_all add: fresh_mapping_def fresh_peer_def agrees_def Let_def split: option.split)
  have newok: "peer_ok i ?new" by (simp add: peer_ok_def fresh_peer_def)
  have maps: "rgMappings ?r2 = rgMappings r" "rgRetired ?r2 = rgRetired r" "gm_ok (rgPeers ?r2)"
    using mv registry_ok_gm [OF r] by (simp_all add: peers_moved_def)
  have "peers_ok ?r3" unfolding peers_ok_def
  proof (intro allI impI)
    fix k ps' assume k: "gm_get (rgPeers ?r3) k = Some ps'"
    show "peer_ok k ps' \<and> (\<exists>m. gm_get (rgMappings ?r3) k = Some m \<and> agrees (psPeer ps') m)"
    proof (cases "k = i")
      case True
      with k peers_moved_get [OF mv] have "ps' = ?new" by simp
      with True newok fm show ?thesis by simp
    next
      case False
      with k peers_movedD [OF mv, of k ps'] obtain ps where ps: "gm_get (rgPeers r) k = Some ps"
        "same_ident (psPeer ps) (psPeer ps')" "peer_ok k ps \<longrightarrow> peer_ok k ps'" by auto
      from registry_okD [OF r ps(1)] ps(2,3) False maps(1) show ?thesis
        by (auto simp: agrees_same_ident)
    qed
  qed
  moreover have "maps_ok ?r3" using r maps fm by (auto simp: registry_ok_def maps_ok_def)
  moreover have "durable ?r3" by (rule durable_dirty) simp
  ultimately have "registry_ok ?r3" by (rule registry_okI)
  then show ?thesis by (simp add: register_fresh_def Let_def registry_ok_events)
qed

lemma allocate_ok: "registry_ok r \<Longrightarrow> registry_ok (fst (AllocateAndRegister e p r))"
proof -
  assume r: "registry_ok r"
  show ?thesis
  proof (cases "retirement_guard e p r")
    case (Inl err)
    with r show ?thesis by (simp add: AllocateAndRegister_def)
  next
    case (Inr g)
    obtain r1 rec where g: "g = (r1, rec)" by (cases g)
    have r1: "registry_ok r1" using r Inr g by (blast intro: retirement_guard_ok)
    obtain i r2 where a: "allocate_id e p (buildDisplayName r1 p) r1 = (i, r2)"
      by (cases "allocate_id e p (buildDisplayName r1 p) r1")
    have r2: "registry_ok r2" using r1 a by (rule allocate_id_ok)
    show ?thesis
    proof (cases "gm_get (rgPeers r2) i")
      case (Some existing)
      obtain r3 res where rc: "reconnect e p rec i existing r2 = (r3, res)"
        by (cases "reconnect e p rec i existing r2")
      have "registry_ok r3" using reconnect_ok [OF r2 Some, of e p rec] rc by simp
      with Inr g a rc Some show ?thesis by (simp add: AllocateAndRegister_def Let_def)
    next
      case None
      with Inr g a pane_gates_ok [OF r2, of e p] register_fresh_ok show ?thesis
        by (auto simp: AllocateAndRegister_def Let_def split: pane_gate.splits)
    qed
  qed
qed

end
