(* ===== verification/Registry_Steps.thy ===== *)
theory Registry_Steps
  imports Registry_Preserve
begin

text \<open>
  The rest of the registry's operations preserve \<open>registry_ok\<close>, and the registry as a state
  machine: \<open>registry_op\<close> names the operations, \<open>run_op\<close> performs one in an environment and
  \<open>run_ops\<close> any interleaving of them, which is what concurrent requests amount to since each
  operation holds the registry lock.
\<close>

section \<open>Preservation by the other operations\<close>

lemma fsm_put_ok:
  assumes "registry_ok r" "gm_get (rgPeers r) i = Some ps" "Apply (psState ps) ev = (n, None)"
  shows "registry_ok (put_peer i (move_to now n ps) r)"
proof -
  have "n \<noteq> StateUnregistered" using assms(3) Apply_never_unregistered by blast
  then have "peer_ok i (move_to now n ps)"
    using registry_ok_id [OF assms(1,2)] by (intro move_to_ok) auto
  with assms(1,2) show ?thesis by (intro registry_ok_put_peer) auto
qed

lemma markOffline_ok: "registry_ok r \<Longrightarrow> registry_ok (markOffline e i terminal reason hard r)"
  by (auto simp: markOffline_def Let_def registry_ok_retire registry_ok_events fsm_put_ok split: option.split prod.split)

lemma UpdateStatus_ok: "registry_ok r \<Longrightarrow> registry_ok (UpdateStatus e i status r)"
  by (auto simp: UpdateStatus_def Let_def registry_ok_events fsm_put_ok split: option.split prod.split)

lemma UpdateTurnState_ok: "registry_ok r \<Longrightarrow> registry_ok (UpdateTurnState e i ts r)"
  unfolding UpdateTurnState_def by (rule registry_ok_set_peer) (simp_all add: same_ident_def)

lemma UpdateTmuxSession_ok: "registry_ok r \<Longrightarrow> registry_ok (UpdateTmuxSession i s r)"
  unfolding UpdateTmuxSession_def by (rule registry_ok_set_peer) (simp_all add: same_ident_def)

lemma SetCircle_ok:
  assumes r: "registry_ok r"
  shows "registry_ok (SetCircle e i circle r)"
proof -
  have "registry_ok (markMappingsDirty (set_mapping i (\<lambda>m. m\<lparr>mCircle := circle, mUpdatedAt := Now e\<rparr>)
      (set_peer i (\<lambda>p. p\<lparr>Circle := circle\<rparr>) r)))"
    using r by (rule registry_ok_set_both) (auto simp: agrees_def)
  then show ?thesis
    using r registry_ok_has_mapping [OF r, of i] by (auto simp: SetCircle_def Let_def gm_has_iff)
qed

lemma UpdateDisplayName_ok:
  assumes r: "registry_ok r"
  shows "registry_ok (fst (UpdateDisplayName e i name r))"
proof (cases "gm_get (rgPeers r) i")
  case None
  with r show ?thesis by (simp add: UpdateDisplayName_def)
next
  case (Some ps)
  let ?ks = "map fst (name_rivals i name (Backend (psPeer ps)) r)"
  let ?r1 = "r\<lparr>rgPeers := gm_dels ?ks (rgPeers r)\<rparr>"
  have r1: "registry_ok ?r1" using r by (rule registry_ok_drop_peers)
  have "i \<notin> set ?ks" by (auto simp: name_rivals_def)
  then have "gm_has (rgMappings (set_peer i (\<lambda>p. p\<lparr>DisplayName := name\<rparr>) ?r1)) i"
    using registry_ok_has_mapping [OF r Some] by simp
  moreover have "registry_ok (markMappingsDirty (set_mapping i (\<lambda>m. m\<lparr>mDisplayName := name, mUpdatedAt := Now e\<rparr>)
      (set_peer i (\<lambda>p. p\<lparr>DisplayName := name\<rparr>) ?r1)))"
    using r1 by (rule registry_ok_set_both) (auto simp: agrees_def)
  ultimately show ?thesis using r Some by (simp add: UpdateDisplayName_def Let_def)
qed

lemma GetPeer_ok: "registry_ok r \<Longrightarrow> registry_ok (fst (GetPeer e i r))"
  by (simp add: GetPeer_def Let_def registry_ok_description_ttl)

lemma GetPeerByPane_ok: "registry_ok r \<Longrightarrow> registry_ok (fst (GetPeerByPane e pane r))"
  by (auto simp: GetPeerByPane_def Let_def registry_ok_description_ttl split: option.split)

lemma fold_description_ttl_ok: "registry_ok r \<Longrightarrow> registry_ok (fold (applyDescriptionTTL e) ks r)"
  by (induction ks arbitrary: r) (auto simp: registry_ok_description_ttl)

lemma GetAllPeers_ok: "registry_ok r \<Longrightarrow> registry_ok (fst (GetAllPeers e r))"
  by (simp add: GetAllPeers_def Let_def fold_description_ttl_ok)

lemma ResolvePeer_ok: "registry_ok r \<Longrightarrow> registry_ok (fst (ResolvePeer e n c r))"
  by (auto simp: ResolvePeer_def Let_def registry_ok_description_ttl split: sum.split option.split)

lemma by_name_ok:
  assumes "registry_ok r" "\<And>i p. registry_ok (f i p r)"
  shows "registry_ok (fst (by_name e identifier circle f r))"
  using assms by (auto simp: by_name_def split: sum.split option.split)

lemma UpdateModelByName_ok:
  assumes r: "registry_ok r"
  shows "registry_ok (fst (UpdateModelByName e identifier model r))"
proof -
  have a: "registry_ok (set_peer i (\<lambda>q. q\<lparr>Model := Some model, LastSeen := Some (Now e)\<rparr>) r)" for i
    using r by (rule registry_ok_set_peer) (simp_all add: same_ident_def)
  have "registry_ok (markMappingsDirty (set_mapping i (\<lambda>m. m\<lparr>mModel := Some model, mUpdatedAt := Now e\<rparr>)
      (set_peer i (\<lambda>q. q\<lparr>Model := Some model, LastSeen := Some (Now e)\<rparr>) r)))" for i
    using r by (rule registry_ok_set_both) (auto simp: agrees_def)
  with r a show ?thesis
    unfolding UpdateModelByName_def by (intro by_name_ok) (auto simp: Let_def split: option.split)
qed

lemma UpdateMetadataByName_ok: "registry_ok r \<Longrightarrow> registry_ok (fst (UpdateMetadataByName e identifier md r))"
  unfolding UpdateMetadataByName_def
  by (intro by_name_ok registry_ok_set_peer) (simp_all add: same_ident_def)

lemma TouchLastSeen_ok: "registry_ok r \<Longrightarrow> registry_ok (fst (TouchLastSeen e identifier c r))"
  unfolding TouchLastSeen_def
  by (intro by_name_ok registry_ok_set_peer) (simp_all add: same_ident_def)

lemma UpdateDescription_ok:
  assumes r: "registry_ok r"
  shows "registry_ok (fst (UpdateDescription e identifier d c r))"
proof -
  let ?f = "\<lambda>q. q\<lparr>Description := d, LastSeen := Some (Now e)\<rparr>"
  let ?g = "\<lambda>m. m\<lparr>mDescription := d, mUpdatedAt := Now e\<rparr>"
  have both: "registry_ok (markMappingsDirty (set_mapping i ?g (set_peer i ?f r)))" for i
    using r by (rule registry_ok_set_both) (auto simp: agrees_def)
  have changed: "registry_ok (markMappingsDirty (set_mapping i ?g ((set_peer i ?f r)\<lparr>rgDescSetAt := x\<rparr>)))" for i x
    using both [of i] by (rule registry_ok_frame) (auto simp: registry_ok_gm [OF r])
  have same: "registry_ok ((set_peer i ?f r)\<lparr>rgDescSetAt := x\<rparr>)"
    if m: "gm_get (rgMappings r) i = None \<or> (\<exists>m. gm_get (rgMappings r) i = Some m \<and> mDescription m = d)" for i x
  proof (rule registry_okI)
    show "maps_ok ((set_peer i ?f r)\<lparr>rgDescSetAt := x\<rparr>)" "durable ((set_peer i ?f r)\<lparr>rgDescSetAt := x\<rparr>)"
      using r by (auto simp: registry_ok_def maps_ok_def durable_def set_peer_def)
    show "peers_ok ((set_peer i ?f r)\<lparr>rgDescSetAt := x\<rparr>)" unfolding peers_ok_def
    proof (intro allI impI)
      fix k ps assume k: "gm_get (rgPeers ((set_peer i ?f r)\<lparr>rgDescSetAt := x\<rparr>)) k = Some ps"
      then obtain ps0 where ps0: "gm_get (rgPeers r) k = Some ps0"
        "ps = (if k = i then ps0\<lparr>psPeer := ?f (psPeer ps0)\<rparr> else ps0)"
        by (auto split: if_splits)
      from registry_okD [OF r ps0(1)] obtain m' where
        "peer_ok k ps0" "gm_get (rgMappings r) k = Some m'" "agrees (psPeer ps0) m'" by blast
      with ps0 m show "peer_ok k ps \<and> (\<exists>m. gm_get (rgMappings ((set_peer i ?f r)\<lparr>rgDescSetAt := x\<rparr>)) k = Some m \<and> agrees (psPeer ps) m)"
        by (auto simp: peer_ok_def agrees_def)
    qed
  qed
  have step: "registry_ok (let r1 = set_peer i ?f r;
          r2 = r1\<lparr>rgDescSetAt := (if d = [] then gm_del i (rgDescSetAt r1) else gm_put i (Now e) (rgDescSetAt r1))\<rparr>
      in case gm_get (rgMappings r2) i of
           Some m \<Rightarrow> if mDescription m \<noteq> d then markMappingsDirty (set_mapping i ?g r2) else r2
         | None \<Rightarrow> r2)" for i
  proof -
    obtain X where X: "(if d = [] then gm_del i (rgDescSetAt (set_peer i ?f r))
        else gm_put i (Now e) (rgDescSetAt (set_peer i ?f r))) = X" by blast
    show ?thesis unfolding Let_def X using changed [of i X] same [of i X] by (simp split: option.split)
  qed
  show ?thesis unfolding UpdateDescription_def using r step by (rule by_name_ok)
qed

lemma DeleteMapping_ok:
  assumes "registry_ok r" "gm_get (rgMappings r) i = None"
  shows "registry_ok (DeleteMapping e i r)"
  using assms by (auto simp: DeleteMapping_def registry_ok_def peers_ok_def maps_ok_def durable_def)

lemma drop_peer_ok: "registry_ok r \<Longrightarrow> registry_ok (DeleteMapping e i (transportClose e i (remove_peer i r)))"
  by (rule DeleteMapping_ok, intro registry_ok_events registry_ok_remove_peer) (simp_all add: remove_peer_def)

lemma UnregisterPeer_ok: "registry_ok r \<Longrightarrow> registry_ok (fst (UnregisterPeer e n c r))"
  by (auto simp: UnregisterPeer_def Let_def drop_peer_ok by_name_ok split: option.split)

lemma MarkOfflineByName_ok: "registry_ok r \<Longrightarrow> registry_ok (fst (MarkOfflineByNameWithReason e n terminal reason r))"
  by (auto simp: MarkOfflineByNameWithReason_def MarkOfflineWithReason_def markOffline_ok split: sum.split option.split)

section \<open>The role claim\<close>

lemma demote_holder_ok:
  assumes r: "registry_ok r"
  shows "registry_ok (demote_holder now i r)"
proof -
  let ?f = "\<lambda>p. p\<lparr>Role := RoleAgent\<rparr>"
  have "registry_ok (markMappingsDirty (set_mapping i (\<lambda>m. m\<lparr>mRole := RoleAgent, mUpdatedAt := now\<rparr>) (set_peer i ?f r)))"
    using r by (rule registry_ok_set_both) (auto simp: agrees_def)
  moreover have "registry_ok (set_peer i ?f r)"
    if "gm_get (rgMappings r) i = None \<or> (\<exists>m. gm_get (rgMappings r) i = Some m \<and> mRole m = RoleAgent)"
  proof (cases "gm_get (rgPeers r) i")
    case None
    then have "set_peer i ?f r = r" by (simp add: set_peer_def gm_adjust_def)
    with r show ?thesis by simp
  next
    case (Some ps)
    obtain m0 where m0: "gm_get (rgMappings r) i = Some m0" "agrees (psPeer ps) m0"
      using registry_okD [OF r Some] by blast
    with that have "agrees (psPeer ps) m0" "mRole m0 = RoleAgent" by auto
    then have "?f (psPeer ps) = psPeer ps" by (simp add: agrees_def)
    then have p: "put_peer i (ps\<lparr>psPeer := ?f (psPeer ps)\<rparr>) r = set_peer i ?f r"
      "ps\<lparr>psPeer := ?f (psPeer ps)\<rparr> = ps"
      using Some by (simp_all add: put_peer_def set_peer_def gm_adjust_def)
    have "registry_ok (put_peer i ps r)"
      using r Some registry_ok_peer [OF r Some] by (intro registry_ok_put_peer) auto
    with p show ?thesis by simp
  qed
  ultimately show ?thesis by (auto simp: demote_holder_def Let_def split: option.split)
qed

lemma fold_demote_holder_ok: "registry_ok r \<Longrightarrow> registry_ok (fold (demote_holder now) ks r)"
  by (induction ks arbitrary: r) (auto simp: demote_holder_ok)

lemma demote_holder_get:
  "gm_get (rgPeers (demote_holder now i r)) k =
     map_option (\<lambda>ps. if k = i then ps\<lparr>psPeer := (psPeer ps)\<lparr>Role := RoleAgent\<rparr>\<rparr> else ps) (gm_get (rgPeers r) k)"
  by (cases "gm_get (rgPeers r) k") (auto simp: demote_holder_def Let_def split: option.split)

lemma fold_demote_holder_get:
  "gm_get (rgPeers (fold (demote_holder now) ks r)) k =
     map_option (\<lambda>ps. if k \<in> set ks then ps\<lparr>psPeer := (psPeer ps)\<lparr>Role := RoleAgent\<rparr>\<rparr> else ps) (gm_get (rgPeers r) k)"
proof (induction ks arbitrary: r)
  case Nil
  then show ?case by (cases "gm_get (rgPeers r) k") simp_all
next
  case (Cons a ks)
  then show ?case by (cases "gm_get (rgPeers r) k") (simp_all add: demote_holder_get)
qed

text \<open>After the live holders are demoted no mapping row that still has the role has a live peer.\<close>

definition role_holders :: "string \<Rightarrow> PeerRole \<Rightarrow> string \<Rightarrow> registry \<Rightarrow> string list" where
  "role_holders circle role tid r = map (PeerID \<circ> psPeer \<circ> snd) (filter (\<lambda>(k, ps). PeerID (psPeer ps) \<noteq> tid \<and>
     Circle (psPeer ps) = circle \<and> Role (psPeer ps) = role) (rgPeers r))"

lemma role_holders_iff:
  assumes "registry_ok r"
  shows "k \<in> set (role_holders circle role tid r) \<longleftrightarrow>
     (\<exists>ps. gm_get (rgPeers r) k = Some ps \<and> k \<noteq> tid \<and> Circle (psPeer ps) = circle \<and> Role (psPeer ps) = role)"
proof
  assume "k \<in> set (role_holders circle role tid r)"
  then obtain j ps where j: "(j, ps) \<in> set (rgPeers r)" "k = PeerID (psPeer ps)" "k \<noteq> tid"
    "Circle (psPeer ps) = circle" "Role (psPeer ps) = role" by (auto simp: role_holders_def)
  then have "gm_get (rgPeers r) j = Some ps" using registry_ok_gm(1) [OF assms] by (simp add: gm_mem_iff)
  with registry_ok_id [OF assms this] j show "\<exists>ps. gm_get (rgPeers r) k = Some ps \<and> k \<noteq> tid \<and> Circle (psPeer ps) = circle \<and> Role (psPeer ps) = role"
    by auto
next
  assume "\<exists>ps. gm_get (rgPeers r) k = Some ps \<and> k \<noteq> tid \<and> Circle (psPeer ps) = circle \<and> Role (psPeer ps) = role"
  then obtain ps where ps: "gm_get (rgPeers r) k = Some ps" "k \<noteq> tid" "Circle (psPeer ps) = circle" "Role (psPeer ps) = role"
    by blast
  have "PeerID (psPeer ps) = k" using assms ps(1) by (rule registry_ok_id)
  with ps gm_get_mem [OF ps(1)] show "k \<in> set (role_holders circle role tid r)"
    by (force simp: role_holders_def)
qed

definition with_target :: "env \<Rightarrow> PeerRole \<Rightarrow> string \<Rightarrow> registry \<Rightarrow> registry" where
  "with_target e role tid r =
     (let r2 = set_peer tid (\<lambda>p. p\<lparr>Role := role, LastSeen := Some (Now e)\<rparr>) r
      in if gm_has (rgMappings r2) tid
         then markMappingsDirty (set_mapping tid (\<lambda>m. m\<lparr>mRole := role, mUpdatedAt := Now e\<rparr>) r2) else r2)"

definition role_rows :: "string \<Rightarrow> PeerRole \<Rightarrow> string \<Rightarrow> registry \<Rightarrow> string list" where
  "role_rows circle role tid r = map fst (filter (\<lambda>(sid, m). sid \<noteq> tid \<and> mCircle m = circle \<and> mRole m = role) (rgMappings r))"

lemma claim_commit_eq:
  "claim_commit e role circle tid r =
     (let hs = role_holders circle role tid r; r3 = with_target e role tid (fold (demote_holder (Now e)) hs r);
          rows = role_rows circle role tid r3
      in (fold (demote_mapping (Now e)) rows r3, hs @ rows))"
  by (simp add: claim_commit_def role_holders_def with_target_def role_rows_def Let_def)

lemma with_target_ok:
  assumes "registry_ok r" "gm_get (rgPeers r) tid = Some ps"
  shows "registry_ok (with_target e role tid r)"
proof -
  have "registry_ok (markMappingsDirty (set_mapping tid (\<lambda>m. m\<lparr>mRole := role, mUpdatedAt := Now e\<rparr>)
      (set_peer tid (\<lambda>p. p\<lparr>Role := role, LastSeen := Some (Now e)\<rparr>) r)))"
    using assms(1) by (rule registry_ok_set_both) (auto simp: agrees_def)
  then show ?thesis using registry_ok_has_mapping [OF assms] by (simp add: with_target_def Let_def)
qed

lemma with_target_get:
  "k \<noteq> tid \<Longrightarrow> gm_get (rgPeers (with_target e role tid r)) k = gm_get (rgPeers r) k"
  by (simp add: with_target_def Let_def)

lemma role_rows_iff:
  "gm_ok (rgMappings r) \<Longrightarrow> k \<in> set (role_rows circle role tid r) \<longleftrightarrow>
     (\<exists>m. gm_get (rgMappings r) k = Some m \<and> k \<noteq> tid \<and> mCircle m = circle \<and> mRole m = role)"
  by (force simp: role_rows_def gm_mem_iff)

lemma demote_mappings_ok:
  "registry_ok r \<Longrightarrow> \<forall>k \<in> set ks. gm_get (rgPeers r) k = None \<Longrightarrow> registry_ok (fold (demote_mapping now) ks r)"
proof (induction ks arbitrary: r)
  case (Cons k ks)
  then have "registry_ok (demote_mapping now k r)"
    unfolding demote_mapping_def by (intro registry_ok_set_mapping_only) auto
  then show ?case using Cons by (simp add: demote_mapping_def)
qed simp

lemma demote_mapping_simps [simp]:
  "rgPeers (demote_mapping now i r) = rgPeers r"
  "rgMappings (demote_mapping now i r) = gm_adjust i (\<lambda>m. m\<lparr>mRole := RoleAgent, mUpdatedAt := now\<rparr>) (rgMappings r)"
  by (simp_all add: demote_mapping_def)

lemma fold_demote_mapping_peers [simp]: "rgPeers (fold (demote_mapping now) ks r) = rgPeers r"
  by (induction ks arbitrary: r) auto

lemma claim_holders_gone:
  assumes r: "registry_ok r" and t: "gm_get (rgPeers r) tid = Some ps" and role: "role \<noteq> RoleAgent"
    and r3: "r3 = with_target e role tid (fold (demote_holder now) (role_holders circle role tid r) r)"
  shows "registry_ok r3" "\<forall>k ps. gm_get (rgPeers r3) k = Some ps \<and> k \<noteq> tid \<and> Circle (psPeer ps) = circle \<longrightarrow> Role (psPeer ps) \<noteq> role"
    "\<forall>k \<in> set (role_rows circle role tid r3). gm_get (rgPeers r3) k = None"
proof -
  let ?r1 = "fold (demote_holder now) (role_holders circle role tid r) r"
  have r1: "registry_ok ?r1" using r by (rule fold_demote_holder_ok)
  obtain ps1 where "gm_get (rgPeers ?r1) tid = Some ps1" using t by (simp add: fold_demote_holder_get)
  with r1 show ok: "registry_ok r3" unfolding r3 by (rule with_target_ok)
  show gone: "\<forall>k ps. gm_get (rgPeers r3) k = Some ps \<and> k \<noteq> tid \<and> Circle (psPeer ps) = circle \<longrightarrow> Role (psPeer ps) \<noteq> role"
  proof (intro allI impI)
    fix k ps assume k: "gm_get (rgPeers r3) k = Some ps \<and> k \<noteq> tid \<and> Circle (psPeer ps) = circle"
    then have "gm_get (rgPeers ?r1) k = Some ps" using with_target_get r3 by metis
    then have "map_option (\<lambda>ps0. if k \<in> set (role_holders circle role tid r)
        then ps0\<lparr>psPeer := (psPeer ps0)\<lparr>Role := RoleAgent\<rparr>\<rparr> else ps0) (gm_get (rgPeers r) k) = Some ps"
      by (simp only: fold_demote_holder_get)
    then obtain ps0 where ps0: "gm_get (rgPeers r) k = Some ps0"
      "ps = (if k \<in> set (role_holders circle role tid r) then ps0\<lparr>psPeer := (psPeer ps0)\<lparr>Role := RoleAgent\<rparr>\<rparr> else ps0)"
      by blast
    with k role show "Role (psPeer ps) \<noteq> role"
      using role_holders_iff [OF r, of k circle role tid] by (auto split: if_splits)
  qed
  show "\<forall>k \<in> set (role_rows circle role tid r3). gm_get (rgPeers r3) k = None"
  proof
    fix k assume "k \<in> set (role_rows circle role tid r3)"
    then obtain m where m: "gm_get (rgMappings r3) k = Some m" "k \<noteq> tid" "mCircle m = circle" "mRole m = role"
      using registry_ok_gm(2) [OF ok] by (auto simp: role_rows_iff)
    show "gm_get (rgPeers r3) k = None"
    proof (rule ccontr)
      assume "gm_get (rgPeers r3) k \<noteq> None"
      then obtain ps where "gm_get (rgPeers r3) k = Some ps" by blast
      then have ps: "gm_get (rgPeers r3) k = Some ps" by simp
      from registry_okD [OF ok ps] m have "agrees (psPeer ps) m" by auto
      with m gone ps show False by (auto simp: agrees_def)
    qed
  qed
qed

lemma claim_commit_ok:
  assumes "registry_ok r" "gm_get (rgPeers r) tid = Some ps" "role \<noteq> RoleAgent"
  shows "registry_ok (fst (claim_commit e role circle tid r))"
  using claim_holders_gone [OF assms refl, where e = e and now = "Now e" and circle = circle]
  by (simp add: claim_commit_eq Let_def demote_mappings_ok)

end
