(* ===== verification/Registry_Access.thy ===== *)
theory Registry_Access
  imports Registry_Steps
begin

text \<open>
  What addressing, access control and the role claim guarantee: a resolved peer is registered, an
  unscoped name is never guessed, a delivery crosses a circle only with a reason, and a successful
  claim leaves one orchestrator in the circle. Panes: a claim never displaces a fresh orchestrator.
\<close>

section \<open>Resolving\<close>

lemma best_of_mem: "best_of e b ps \<in> set (b # ps)"
  by (induction ps arbitrary: b) (auto split: if_splits)

lemma hd_mem_of_length_1: "length xs = 1 \<Longrightarrow> hd xs \<in> set xs"
  by (cases xs) auto

lemma set_viable: "set (viable ms) \<subseteq> set ms"
  by (auto simp: viable_def Let_def)

lemma choose_match_SomeD:
  assumes "choose_match e n c ms = Inr (Some p)"
  shows "(c = None \<and> length (filter has_pane (viable ms)) = 1 \<and> p = hd (filter has_pane (viable ms))) \<or>
     (\<not> (c = None \<and> length (viable ms) > 1) \<and> (\<exists>d ds. viable ms = d # ds \<and> p = best_of e d ds))"
  using assms by (auto simp: choose_match_def Let_def split: if_splits list.splits)

lemma choose_match_viable:
  assumes "choose_match e n c ms = Inr (Some p)"
  shows "p \<in> set (viable ms)"
  using choose_match_SomeD [OF assms]
proof
  assume "c = None \<and> length (filter has_pane (viable ms)) = 1 \<and> p = hd (filter has_pane (viable ms))"
  then have "p \<in> set (filter has_pane (viable ms))" by (metis hd_mem_of_length_1)
  then show ?thesis by simp
next
  assume "\<not> (c = None \<and> length (viable ms) > 1) \<and> (\<exists>d ds. viable ms = d # ds \<and> p = best_of e d ds)"
  then show ?thesis using best_of_mem by metis
qed

lemma choose_match_mem: "choose_match e n c ms = Inr (Some p) \<Longrightarrow> p \<in> set ms"
  using choose_match_viable set_viable by blast

lemma resolve_mem: "resolvePeerLocked e n c r = Inr (Some p) \<Longrightarrow> p \<in> set (peers_list r)"
proof -
  assume res: "resolvePeerLocked e n c r = Inr (Some p)"
  show ?thesis
  proof (cases "gm_get (rgPeers r) n")
    case (Some ps)
    with res gm_get_mem [OF Some] show ?thesis
      by (force simp: resolvePeerLocked_def peers_list_def)
  next
    case None
    let ?ms = "filter (\<lambda>p. DisplayName p = n) (peers_list r)"
    have sub: "set ?ms \<subseteq> set (peers_list r)" by auto
    show ?thesis
    proof (cases c)
      case None
      with res \<open>gm_get (rgPeers r) n = None\<close>
      have "p = hd ?ms \<and> length ?ms = 1 \<or> choose_match e n c ?ms = Inr (Some p)"
        by (auto simp: resolvePeerLocked_def Let_def split: if_splits)
      then have "p \<in> set ?ms" using hd_mem_of_length_1 [of ?ms] choose_match_mem by metis
      with sub show ?thesis by blast
    next
      case (Some ci)
      let ?fs = "filter (\<lambda>p. Circle p = ci) ?ms"
      from res \<open>gm_get (rgPeers r) n = None\<close> Some
      have "p = hd ?ms \<and> length ?ms = 1 \<or> p = hd ?fs \<and> length ?fs = 1 \<or> choose_match e n c ?fs = Inr (Some p)"
        by (auto simp: resolvePeerLocked_def Let_def split: if_splits)
      then have "p \<in> set ?ms \<or> p \<in> set ?fs"
        using hd_mem_of_length_1 [of ?ms] hd_mem_of_length_1 [of ?fs] choose_match_mem by metis
      with sub show ?thesis by auto
    qed
  qed
qed

lemma peers_list_get:
  assumes "registry_ok r" "p \<in> set (peers_list r)"
  shows "\<exists>ps. gm_get (rgPeers r) (PeerID p) = Some ps \<and> psPeer ps = p"
proof -
  from assms(2) obtain k ps where k: "(k, ps) \<in> set (rgPeers r)" "psPeer ps = p" by (auto simp: peers_list_def)
  then have "gm_get (rgPeers r) k = Some ps" using registry_ok_gm(1) [OF assms(1)] by (simp add: gm_mem_iff)
  with registry_ok_id [OF assms(1) this] k show ?thesis by auto
qed

lemma resolve_registered:
  "registry_ok r \<Longrightarrow> resolvePeerLocked e n c r = Inr (Some p) \<Longrightarrow>
   \<exists>ps. gm_get (rgPeers r) (PeerID p) = Some ps \<and> psPeer ps = p"
  by (intro peers_list_get resolve_mem)

text \<open>A peer that resolution picked over another of the same name had a reason to be picked.\<close>

definition preferred_over :: "peer \<Rightarrow> peer \<Rightarrow> bool" where
  "preferred_over p q \<longleftrightarrow>
     (Status p \<noteq> StatusOffline \<and> Status q = StatusOffline) \<or> (has_pane p \<and> \<not> has_pane q)"

lemma unique_filter:
  assumes "length (filter P xs) = 1" "y \<in> set xs" "P y"
  shows "y = hd (filter P xs)"
proof -
  obtain z where "filter P xs = [z]" using assms(1) by (auto simp: length_Suc_conv)
  moreover have "y \<in> set (filter P xs)" using assms by simp
  ultimately show ?thesis by simp
qed

lemma choose_match_unscoped:
  assumes c: "choose_match e n None ms = Inr (Some p)" and q: "q \<in> set ms" "q \<noteq> p"
  shows "preferred_over p q"
proof -
  have p: "p \<in> set (viable ms)" using c by (rule choose_match_viable)
  have mem: "has_pane p \<and> \<not> has_pane q" if "q \<in> set (viable ms)"
    using choose_match_SomeD [OF c]
  proof
    assume "None = None \<and> length (filter has_pane (viable ms)) = 1 \<and> p = hd (filter has_pane (viable ms))"
    then have l: "length (filter has_pane (viable ms)) = 1" "p = hd (filter has_pane (viable ms))" by simp_all
    have "p \<in> set (filter has_pane (viable ms))" unfolding l(2) using l(1) by (rule hd_mem_of_length_1)
    then have "has_pane p" by simp
    moreover have "\<not> has_pane q" using unique_filter [OF l(1) that] l(2) q(2) by blast
    ultimately show ?thesis by blast
  next
    assume "\<not> (None = None \<and> length (viable ms) > 1) \<and> (\<exists>d ds. viable ms = d # ds \<and> p = best_of e d ds)"
    then have "viable ms = [p]" using p by (cases "viable ms") auto
    with that q(2) show ?thesis by simp
  qed
  show ?thesis
  proof (cases "q \<in> set (viable ms)")
    case True
    with mem show ?thesis by (simp add: preferred_over_def)
  next
    case False
    with q(1) p show ?thesis by (auto simp: preferred_over_def viable_def Let_def split: if_splits)
  qed
qed


definition demo_env :: env where
  "demo_env = \<lparr>Now = 100 * second, PIDAlive = (\<lambda>p. p = 7), Transport = Some (\<lambda>i. i = ''a''), ProcProbe = None,
     StoreErr = (\<lambda>c. None), Uuid = (\<lambda>n. ''uuid'' @ itoa n)\<rparr>"

definition demo_two :: registry where
  "demo_two = (NewRegistry 0 [] [] [])\<lparr>rgPeers :=
     [(''a'', \<lparr>psPeer = (demo_peer ''a'' ''web'' ''dev'')\<lparr>Status := StatusOffline\<rparr>, psState = StateOffline\<rparr>),
      (''b'', \<lparr>psPeer = demo_peer ''b'' ''web'' ''ops'', psState = StateOnline\<rparr>)]\<rparr>"


section \<open>Access\<close>

text \<open>
  C19: circles hold. When \<open>CheckAccess\<close> lets a known sender reach a target, the target is registered
  and either the caller asked to bypass circles, one of the two has a role that is not an ordinary
  agent's, or both are in the same circle; every other combination of known peers is refused.
\<close>

theorem check_access_respects_circles:
  assumes "CheckAccess e fromPeer toPeer bypass circle r = Inr (Some f, t)"
  shows "t \<in> set (peers_list r) \<and> f \<in> set (peers_list r) \<and>
     (bypass \<or> Role f \<noteq> RoleAgent \<or> Role t \<noteq> RoleAgent \<or> Circle f = Circle t)"
proof -
  from assms obtain target where t: "resolvePeerLocked e toPeer circle r = Inr (Some target)"
    by (auto simp: CheckAccess_def split: sum.splits option.splits)
  with assms have tt: "t = target" and f: "resolve_sender e fromPeer (Circle target) r = Some f"
      and acc: "checkCircleAccess (Some f) (Some target) bypass = None"
    by (auto simp: CheckAccess_def Let_def split: option.splits)
  have "f \<in> set (peers_list r)"
    using f by (auto simp: resolve_sender_def dest: resolve_mem split: sum.splits option.splits)
  moreover have "bypass \<or> Role f \<noteq> RoleAgent \<or> Role t \<noteq> RoleAgent \<or> Circle f = Circle t"
    using acc tt by (auto simp: checkCircleAccess_def BypassesCircles_iff split: if_splits)
  ultimately show ?thesis using resolve_mem [OF t] tt by blast
qed

definition demo_circles :: registry where
  "demo_circles = (NewRegistry 0 [] [] [])\<lparr>rgPeers :=
     [(''a'', \<lparr>psPeer = demo_peer ''a'' ''api'' ''dev'', psState = StateOnline\<rparr>),
      (''b'', \<lparr>psPeer = demo_peer ''b'' ''web'' ''dev'', psState = StateOnline\<rparr>)]\<rparr>"

theorem check_access_respects_circles_witness:
  "CheckAccess demo_env ''a'' ''web'' False None demo_circles =
     Inr (Some (demo_peer ''a'' ''api'' ''dev''), demo_peer ''b'' ''web'' ''dev'') \<and>
   demo_peer ''b'' ''web'' ''dev'' \<in> set (peers_list demo_circles)"
proof -
  have c: "CheckAccess demo_env ''a'' ''web'' False None demo_circles =
      Inr (Some (demo_peer ''a'' ''api'' ''dev''), demo_peer ''b'' ''web'' ''dev'')"
    by (simp add: CheckAccess_def resolve_sender_def resolvePeerLocked_def demo_circles_def gm_get_def peers_list_def
        demo_peer_def checkCircleAccess_def Let_def)
  with check_access_respects_circles [OF c] show ?thesis by blast
qed

section \<open>The orchestrator role\<close>

lemma latest_None: "latest ps b = None \<longleftrightarrow> ps = [] \<and> b = None"
  by (induction ps b rule: latest.induct) (auto split: option.splits if_splits)

lemma fold_demote_mapping_get:
  "gm_get (rgMappings (fold (demote_mapping now) ks r)) k =
     map_option (\<lambda>m. if k \<in> set ks then m\<lparr>mRole := RoleAgent, mUpdatedAt := now\<rparr> else m) (gm_get (rgMappings r) k)"
proof (induction ks arbitrary: r)
  case Nil
  then show ?case by (cases "gm_get (rgMappings r) k") simp_all
next
  case (Cons a ks)
  then show ?case by (cases "gm_get (rgMappings r) k"; cases "k = a") auto
qed

lemma with_target_mappings:
  "k \<noteq> tid \<Longrightarrow> gm_get (rgMappings (with_target e role tid r)) k = gm_get (rgMappings r) k"
  by (simp add: with_target_def Let_def)

lemma claim_commit_unique:
  assumes r: "registry_ok r" and t: "gm_get (rgPeers r) tid = Some ps" and role: "role \<noteq> RoleAgent"
    and r'_def: "r' = fst (claim_commit e role circle tid r)"
  shows "registry_ok r'"
    "gm_get (rgPeers r') tid = Some (ps\<lparr>psPeer := (psPeer ps)\<lparr>Role := role, LastSeen := Some (Now e)\<rparr>\<rparr>)"
    "\<forall>k q. gm_get (rgPeers r') k = Some q \<and> k \<noteq> tid \<and> Circle (psPeer q) = circle \<longrightarrow> Role (psPeer q) \<noteq> role"
    "\<forall>k m. gm_get (rgMappings r') k = Some m \<and> k \<noteq> tid \<and> mCircle m = circle \<longrightarrow> mRole m \<noteq> role"
proof -
  let ?r1 = "fold (demote_holder (Now e)) (role_holders circle role tid r) r"
  let ?r3 = "with_target e role tid ?r1"
  have r': "r' = fold (demote_mapping (Now e)) (role_rows circle role tid ?r3) ?r3"
    by (simp add: r'_def claim_commit_eq Let_def)
  note gone = claim_holders_gone [OF r t role refl, where e = e and now = "Now e" and circle = circle]
  show "registry_ok r'" unfolding r'_def using r t role by (rule claim_commit_ok)
  have "tid \<notin> set (role_holders circle role tid r)" using role_holders_iff [OF r] by blast
  then show "gm_get (rgPeers r') tid = Some (ps\<lparr>psPeer := (psPeer ps)\<lparr>Role := role, LastSeen := Some (Now e)\<rparr>\<rparr>)"
    by (simp add: r' with_target_def Let_def fold_demote_holder_get t)
  show "\<forall>k q. gm_get (rgPeers r') k = Some q \<and> k \<noteq> tid \<and> Circle (psPeer q) = circle \<longrightarrow> Role (psPeer q) \<noteq> role"
    using gone(2) by (simp add: r')
  show "\<forall>k m. gm_get (rgMappings r') k = Some m \<and> k \<noteq> tid \<and> mCircle m = circle \<longrightarrow> mRole m \<noteq> role"
  proof (intro allI impI)
    fix k m assume km: "gm_get (rgMappings r') k = Some m \<and> k \<noteq> tid \<and> mCircle m = circle"
    then have "map_option (\<lambda>m. if k \<in> set (role_rows circle role tid ?r3) then m\<lparr>mRole := RoleAgent, mUpdatedAt := Now e\<rparr> else m)
        (gm_get (rgMappings ?r3) k) = Some m"
      by (simp only: r' fold_demote_mapping_get)
    then obtain m0 where m0: "gm_get (rgMappings ?r3) k = Some m0"
      "m = (if k \<in> set (role_rows circle role tid ?r3) then m0\<lparr>mRole := RoleAgent, mUpdatedAt := Now e\<rparr> else m0)" by blast
    show "mRole m \<noteq> role"
    proof (cases "k \<in> set (role_rows circle role tid ?r3)")
      case True
      with m0 role show ?thesis by simp
    next
      case False
      with role_rows_iff [OF registry_ok_gm(2) [OF gone(1)], of k circle role tid] m0 km show ?thesis by auto
    qed
  qed
qed

text \<open>
  One orchestrator per circle. A claim that succeeds, naming no circle or the target's own,
  leaves the target as the only orchestrator of its circle, among the live peers and among the
  durable mappings a restart would hydrate.
\<close>

theorem claim_makes_unique_orchestrator:
  assumes r: "registry_ok r" and circ: "circle = None \<or> circle = Some (Circle (crPeer res))"
    and claim: "ClaimSpecialRole e name role circle force r = (r', Inr (Some res))"
  shows "(\<exists>ps. gm_get (rgPeers r') (PeerID (crPeer res)) = Some ps \<and> Role (psPeer ps) = RoleOrchestrator \<and>
            Circle (psPeer ps) = Circle (crPeer res)) \<and>
     (\<forall>k q. gm_get (rgPeers r') k = Some q \<and> Role (psPeer q) = RoleOrchestrator \<and>
        Circle (psPeer q) = Circle (crPeer res) \<longrightarrow> k = PeerID (crPeer res)) \<and>
     (\<forall>k m. gm_get (rgMappings r') k = Some m \<and> mRole m = RoleOrchestrator \<and>
        mCircle m = Circle (crPeer res) \<longrightarrow> k = PeerID (crPeer res))"
proof -
  from claim have role: "role = RoleOrchestrator" by (auto simp: ClaimSpecialRole_def split: if_splits)
  from claim obtain target where t: "resolvePeerLocked e name circle r = Inr (Some target)"
    by (auto simp: ClaimSpecialRole_def split: if_splits sum.splits option.splits)
  let ?c = "target_circle circle target"
  obtain r1 prev where cc: "claim_commit e role ?c (PeerID target) r = (r1, prev)"
    by (cases "claim_commit e role ?c (PeerID target) r")
  from claim role t cc have res: "PeerID (crPeer res) = PeerID target" "Circle (crPeer res) = Circle target"
    and same: "rgPeers r' = rgPeers r1" "rgMappings r' = rgMappings r1"
    by (auto simp: ClaimSpecialRole_def Let_def split: option.splits prod.splits)
  have c: "?c = Circle target" using circ res by (auto simp: target_circle_def)
  obtain ps where ps: "gm_get (rgPeers r) (PeerID target) = Some ps" "psPeer ps = target"
    using resolve_registered [OF r t] by blast
  have r1: "r1 = fst (claim_commit e role (Circle target) (PeerID target) r)" using cc c by simp
  have "role \<noteq> RoleAgent" using role by simp
  from claim_commit_unique [OF r ps(1) this r1] have "gm_get (rgPeers r1) (PeerID target) = Some (ps\<lparr>psPeer := (psPeer ps)\<lparr>Role := role, LastSeen := Some (Now e)\<rparr>\<rparr>)"
    "\<forall>k q. gm_get (rgPeers r1) k = Some q \<and> k \<noteq> PeerID target \<and> Circle (psPeer q) = Circle target \<longrightarrow> Role (psPeer q) \<noteq> role"
    "\<forall>k m. gm_get (rgMappings r1) k = Some m \<and> k \<noteq> PeerID target \<and> mCircle m = Circle target \<longrightarrow> mRole m \<noteq> role"
    by blast+
  with ps(2) role show ?thesis unfolding res same by auto
qed

text \<open>A registry of two peers of one circle, the second an offline orchestrator.\<close>

definition demo_row :: "peer \<Rightarrow> mapping" where
  "demo_row p = \<lparr>mSessionID = PeerID p, mDisplayName = DisplayName p, mCircle = Circle p, mBackend = Backend p,
     mPath = None, mRole = Role p, mUpdatedAt = 0, mDescription = [], mModel = None, mAgentPID = None\<rparr>"

definition demo_worker :: peer where
  "demo_worker = demo_peer ''a'' ''api'' ''dev''"

definition demo_chief :: peer where
  "demo_chief = (demo_peer ''b'' ''web'' ''dev'')\<lparr>Role := RoleOrchestrator, Status := StatusOffline\<rparr>"

definition demo_claim :: registry where
  "demo_claim = (NewRegistry 0 [(''a'', demo_row demo_worker), (''b'', demo_row demo_chief)] [] [])\<lparr>rgPeers :=
     [(''a'', \<lparr>psPeer = demo_worker, psState = StateOnline\<rparr>),
      (''b'', \<lparr>psPeer = demo_chief, psState = StateOffline\<rparr>)]\<rparr>"

lemma demo_claim_ok: "registry_ok demo_claim"
  by (auto simp: registry_ok_def peers_ok_def maps_ok_def durable_def keyed_def demo_claim_def NewRegistry_def gm_ok_def
      gm_get_Cons peer_ok_def agrees_def demo_row_def demo_worker_def demo_chief_def demo_peer_def deref_def
      split: if_splits)

theorem claim_makes_unique_orchestrator_witness:
  "\<exists>res r'. ClaimSpecialRole demo_env ''a'' RoleOrchestrator None False demo_claim = (r', Inr (Some res)) \<and>
     crPreviousHolders res = [''b''] \<and>
     (\<forall>k q. gm_get (rgPeers r') k = Some q \<and> Role (psPeer q) = RoleOrchestrator \<and>
        Circle (psPeer q) = Circle (crPeer res) \<longrightarrow> k = PeerID (crPeer res))"
proof -
  have res: "resolvePeerLocked demo_env ''a'' None demo_claim = Inr (Some demo_worker)"
    by (simp add: resolvePeerLocked_def demo_claim_def gm_get_Cons)
  have blk: "blocking_holder demo_env RoleOrchestrator ''dev'' ''a'' demo_claim = None"
    by (simp add: blocking_holder_def demo_claim_def peers_list_def demo_worker_def demo_chief_def demo_peer_def live_status_def)
  have ids: "PeerID demo_worker = ''a''" "Circle demo_worker = ''dev''"
    by (simp_all add: demo_worker_def demo_peer_def)
  have hs: "role_holders ''dev'' RoleOrchestrator ''a'' demo_claim = [''b'']"
    by (simp add: role_holders_def demo_claim_def demo_worker_def demo_chief_def demo_peer_def)
  have rows: "role_rows ''dev'' RoleOrchestrator ''a''
      (with_target demo_env RoleOrchestrator ''a'' (demote_holder (Now demo_env) ''b'' demo_claim)) = []"
    by code_simp
  obtain r1 where cc: "claim_commit demo_env RoleOrchestrator ''dev'' ''a'' demo_claim = (r1, [''b''])"
    by (simp add: claim_commit_eq Let_def hs rows)
  obtain r' res where c: "ClaimSpecialRole demo_env ''a'' RoleOrchestrator None False demo_claim = (r', Inr (Some res))"
      "crPreviousHolders res = [''b'']"
    by (simp add: ClaimSpecialRole_def res ids target_circle_def blk cc)
  with claim_makes_unique_orchestrator [OF demo_claim_ok _ c(1)] show ?thesis by blast
qed

section \<open>Panes\<close>

text \<open>What becomes of one peer when \<open>newID\<close> takes a pane.\<close>

definition displaced :: "env \<Rightarrow> string \<Rightarrow> string \<Rightarrow> string \<Rightarrow> peer_state \<Rightarrow> peer_state" where
  "displaced e pane newID k ps =
     (if k \<noteq> newID \<and> holds_pane pane (psPeer ps) \<and> \<not> fresh_orchestrator (Now e) ps \<and>
         psState ps \<in> {StateOnline, StateBusy}
      then (move_to (Now e) StateOffline ps)\<lparr>psPeer := (psPeer (move_to (Now e) StateOffline ps))\<lparr>PaneID := None\<rparr>\<rparr>
      else ps)"

lemma release_one_self:
  "gm_get (rgPeers (release_one e pane newID k r)) k = map_option (displaced e pane newID k) (gm_get (rgPeers r) k)"
proof (cases "gm_get (rgPeers r) k")
  case None
  then show ?thesis by (simp add: release_one_def)
next
  case (Some ps)
  then show ?thesis
    by (cases "psState ps") (auto simp: release_one_def displaced_def ErrReject_def Let_def)
qed

lemma release_one_other: "k \<noteq> sid \<Longrightarrow> gm_get (rgPeers (release_one e pane newID sid r)) k = gm_get (rgPeers r) k"
  by (auto simp: release_one_def Let_def split: option.split prod.split)

lemma fold_release_get:
  "distinct ks \<Longrightarrow> gm_get (rgPeers (fold (release_one e pane newID) ks r)) k =
     (if k \<in> set ks then map_option (displaced e pane newID k) (gm_get (rgPeers r) k) else gm_get (rgPeers r) k)"
proof (induction ks arbitrary: r)
  case (Cons s ks)
  then show ?case by (cases "k = s") (simp_all add: release_one_self release_one_other)
qed simp

lemma releasePane_get:
  assumes "registry_ok r"
  shows "gm_get (rgPeers (releasePaneLocked e pane newID r)) k = map_option (displaced e pane newID k) (gm_get (rgPeers r) k)"
proof -
  have d: "distinct (map fst (rgPeers r))" using registry_ok_gm(1) [OF assms] by (simp add: gm_ok_def)
  show ?thesis
  proof (cases "k \<in> set (map fst (rgPeers r))")
    case True
    with d show ?thesis by (simp add: releasePaneLocked_def fold_release_get)
  next
    case False
    then have "gm_get (rgPeers r) k = None" by (simp add: gm_get_None_iff)
    with d False show ?thesis by (simp add: releasePaneLocked_def fold_release_get)
  qed
qed

text \<open>
  Pane ownership after a claim. Once \<open>releasePaneLocked\<close> has given a pane to its new owner, a
  fresh orchestrator that held it is exactly as it was, and any other peer that still records the
  pane was already offline or retired: no live ordinary peer keeps a pane it has lost.
\<close>

theorem released_pane_has_no_live_rival:
  assumes "registry_ok r" and "gm_get (rgPeers r) k = Some ps" and "k \<noteq> newID"
    and "gm_get (rgPeers (releasePaneLocked e pane newID r)) k = Some ps'"
  shows "(fresh_orchestrator (Now e) ps \<longrightarrow> ps' = ps) \<and>
     (holds_pane pane (psPeer ps') \<and> \<not> fresh_orchestrator (Now e) ps \<longrightarrow>
        psState ps' \<in> {StateOffline, StateRetired}) \<and>
     (\<not> holds_pane pane (psPeer ps) \<longrightarrow> ps' = ps)"
proof -
  have st: "psState ps \<noteq> StateUnregistered"
    using registry_ok_peer [OF assms(1,2)] by (simp add: peer_ok_def)
  show ?thesis
    using assms(2,3,4) st unfolding releasePane_get [OF assms(1)]
    by (cases "psState ps") (auto simp: displaced_def holds_pane_def split: if_splits)
qed

definition demo_paned :: registry where
  "demo_paned = demo_claim\<lparr>rgPeers :=
     [(''a'', \<lparr>psPeer = demo_worker\<lparr>PaneID := Some ''%1''\<rparr>, psState = StateOnline\<rparr>)]\<rparr>"

theorem released_pane_has_no_live_rival_witness:
  "\<exists>ps ps'. gm_get (rgPeers demo_paned) ''a'' = Some ps \<and>
     gm_get (rgPeers (releasePaneLocked demo_env ''%1'' ''c'' demo_paned)) ''a'' = Some ps' \<and>
     \<not> holds_pane ''%1'' (psPeer ps') \<and>
     (\<not> holds_pane ''%1'' (psPeer ps) \<longrightarrow> ps' = ps)"
proof -
  have ok: "registry_ok demo_paned"
    by (auto simp: registry_ok_def peers_ok_def maps_ok_def durable_def keyed_def demo_paned_def demo_claim_def
      NewRegistry_def gm_ok_def gm_get_Cons peer_ok_def agrees_def demo_row_def demo_worker_def demo_chief_def
      demo_peer_def deref_def split: if_splits)
  obtain ps where ps: "gm_get (rgPeers demo_paned) ''a'' = Some ps" "ps = \<lparr>psPeer = demo_worker\<lparr>PaneID := Some ''%1''\<rparr>, psState = StateOnline\<rparr>"
    by (simp add: demo_paned_def gm_get_Cons)
  obtain ps' where ps': "gm_get (rgPeers (releasePaneLocked demo_env ''%1'' ''c'' demo_paned)) ''a'' = Some ps'"
    "\<not> holds_pane ''%1'' (psPeer ps')"
    unfolding releasePane_get [OF ok]
    using ps by (simp add: displaced_def holds_pane_def fresh_orchestrator_def demo_worker_def demo_peer_def)
  from released_pane_has_no_live_rival [OF ok ps(1) _ ps'(1)] ps(1) ps' show ?thesis by blast
qed

end
