(* ===== verification/Reconcile_Invariant.thy ===== *)
theory Reconcile_Invariant
  imports Reconcile Registry_Access
begin

text \<open>
  Every phase of the maintenance passes keeps \<open>registry_ok\<close> and leaves alone the peers it should:
  \<open>spares\<close> says which ones.
\<close>

section \<open>Frames\<close>

lemma emitContradictionCode_frame [simp]:
  "rgPeers (emitContradictionCode e p c d r) = rgPeers r" "rgMappings (emitContradictionCode e p c d r) = rgMappings r"
  "rgRetired (emitContradictionCode e p c d r) = rgRetired r" "rgDirty (emitContradictionCode e p c d r) = rgDirty r"
  "rgDbMappings (emitContradictionCode e p c d r) = rgDbMappings r"
  by (simp_all add: emitContradictionCode_def)

lemma clearContradiction_frame [simp]:
  "rgPeers (clearContradiction i c r) = rgPeers r" "rgMappings (clearContradiction i c r) = rgMappings r"
  "rgRetired (clearContradiction i c r) = rgRetired r" "rgDirty (clearContradiction i c r) = rgDirty r"
  "rgDbMappings (clearContradiction i c r) = rgDbMappings r" "rgACPBroker (clearContradiction i c r) = rgACPBroker r"
  by (simp_all add: clearContradiction_def)

lemma registry_ok_contra:
  "registry_ok r \<Longrightarrow> registry_ok (emitContradictionCode e p c d r)"
  "registry_ok r \<Longrightarrow> registry_ok (clearContradiction i c r)"
  by (rule registry_ok_frame [of r]; simp add: registry_ok_gm)+

lemma registry_ok_strikes: "registry_ok r \<Longrightarrow> registry_ok (r\<lparr>rgPaneStrikes := x\<rparr>)"
  by (rule registry_ok_frame [of r]) (auto simp: registry_ok_gm)

lemma clear_connected_frame [simp]:
  "rgPeers (clear_connected e i r) = rgPeers r" "rgMappings (clear_connected e i r) = rgMappings r"
  "rgRetired (clear_connected e i r) = rgRetired r" "rgDirty (clear_connected e i r) = rgDirty r"
  "rgDbMappings (clear_connected e i r) = rgDbMappings r" "rgACPBroker (clear_connected e i r) = rgACPBroker r"
  by (simp_all add: clear_connected_def)

lemma fold_clear_connected_frame [simp]:
  "rgPeers (fold (clear_connected e) ks r) = rgPeers r" "rgMappings (fold (clear_connected e) ks r) = rgMappings r"
  "rgRetired (fold (clear_connected e) ks r) = rgRetired r" "rgDirty (fold (clear_connected e) ks r) = rgDirty r"
  "rgDbMappings (fold (clear_connected e) ks r) = rgDbMappings r" "rgACPBroker (fold (clear_connected e) ks r) = rgACPBroker r"
  by (induction ks arbitrary: r) auto

lemma demote_snapshot_ok: "registry_ok r \<Longrightarrow> registry_ok (fst (demote_snapshot e r))"
  by (rule registry_ok_frame [of r]) (auto simp: demote_snapshot_def Let_def registry_ok_gm)

text \<open>Folds whose every step keeps a property of the registry keep it.\<close>

lemma fold_keeps: "(\<And>x s. P s \<Longrightarrow> P (f x s)) \<Longrightarrow> P s \<Longrightarrow> P (fold f xs s)"
  by (induction xs arbitrary: s) auto

lemma fold_keeps_fst: "(\<And>x s. P (fst s) \<Longrightarrow> P (fst (f x s))) \<Longrightarrow> P (fst s) \<Longrightarrow> P (fst (fold f xs s))"
  by (induction xs arbitrary: s) auto

lemma fold_events_ok: "(\<And>x s. same_tables s (f x s)) \<Longrightarrow> registry_ok r \<Longrightarrow> registry_ok (fold f xs r)"
  by (rule fold_keeps [where P = registry_ok]) (auto intro: registry_ok_same_tables)

lemma same_tables_refl [simp]: "same_tables r r"
  by (simp add: same_tables_def)

lemma same_tables_trans: "same_tables r s \<Longrightarrow> same_tables s t \<Longrightarrow> same_tables r t"
  by (simp add: same_tables_def)

lemma fold_same_tables: "(\<And>x s. same_tables s (f x s)) \<Longrightarrow> same_tables r (fold f xs r)"
  by (rule fold_keeps [where P = "same_tables r"]) (blast intro: same_tables_trans, simp)

section \<open>Demotion\<close>

lemma demote_one_ok: "registry_ok (fst acc) \<Longrightarrow> registry_ok (fst (demote_one e pd i acc))"
proof (cases acc)
  case (Pair r dones)
  assume "registry_ok (fst acc)"
  then have r: "registry_ok r" using Pair by simp
  show ?thesis
  proof (cases "gm_get (rgPeers r) i")
    case None
    with Pair r show ?thesis by (simp add: demote_one_def)
  next
    case (Some ps)
    let ?r1 = "emitContradictionCode e (psPeer ps) ContradictionOnlineButNoWS
       (''peer is '' @ status_string (Status (psPeer ps)) @ '' but has no live WebSocket connection'') r"
    let ?r2 = "if i \<in> set pd \<and> AgentPID (psPeer ps) \<noteq> None
       then emitContradictionCode e (psPeer ps) ContradictionAgentPIDDead ''agent pid has no runtime evidence'' ?r1 else ?r1"
    have r2: "registry_ok ?r2" "gm_get (rgPeers ?r2) i = Some ps" using r Some by (simp_all add: registry_ok_contra)
    have key: "registry_ok (fst (case Apply (psState ps) EventGhostDemote of
        (n, Some err) \<Rightarrow> (emitContradiction e i (DisplayName (psPeer ps)) (psState ps) EventGhostDemote x, dones)
      | (n, None) \<Rightarrow> (put_peer i (move_to (Now e) n ps) x, dones @ d)))"
      if "registry_ok x" "gm_get (rgPeers x) i = Some ps" for x d
      using that by (auto simp: registry_ok_events fsm_put_ok split: prod.split option.split)
    show ?thesis unfolding demote_one_def Let_def Pair prod.case Some option.case by (rule key [OF r2])
  qed
qed

lemma demote_commit_ok: "registry_ok r \<Longrightarrow> registry_ok (fst (demote_commit e cs pd r))"
  unfolding demote_commit_def by (rule fold_keeps_fst [where P = registry_ok]) (auto intro: demote_one_ok)

lemma demote_finish_same: "same_tables r (demote_finish e dones r)"
  unfolding demote_finish_def by (rule fold_same_tables) (auto simp: appendEvent_same split: prod.split)

lemma demoteDisconnected_ok: "registry_ok r \<Longrightarrow> registry_ok (demoteDisconnected e q r)"
proof -
  assume r: "registry_ok r"
  obtain r1 cs ps where s: "demote_snapshot e r = (r1, cs, ps)" by (cases "demote_snapshot e r")
  have r1: "registry_ok r1" using demote_snapshot_ok [OF r, of e] s by simp
  show ?thesis
    using r demote_commit_ok [OF r1] registry_ok_same_tables [OF demote_finish_same]
    by (simp add: demoteDisconnected_def s Let_def split: prod.split) (metis fst_conv)
qed

lemma MarkOffline_ok: "registry_ok r \<Longrightarrow> registry_ok (MarkOffline e i terminal r)"
  by (simp add: MarkOffline_def MarkOfflineWithReason_def markOffline_ok)

lemma strike_one_ok: "registry_ok r \<Longrightarrow> registry_ok (strike_one e q i r)"
  by (auto simp: strike_one_def Let_def registry_ok_contra registry_ok_strikes MarkOffline_ok
      split: option.split json.split bool.split)

lemma gc_strikes_ok: "registry_ok r \<Longrightarrow> registry_ok (gc_strikes r)"
  by (simp add: gc_strikes_def registry_ok_strikes)

lemma demoteUnsafe_ok: "registry_ok r \<Longrightarrow> registry_ok (demoteUnsafeConnectedPeers e q r)"
  by (auto simp: demoteUnsafeConnectedPeers_def gc_strikes_ok strike_one_ok intro: fold_keeps [where P = registry_ok])

lemma repair_busy_one_ok: "registry_ok (fst acc) \<Longrightarrow> registry_ok (fst (repair_busy_one e i acc))"
proof (cases acc)
  case (Pair r dones)
  assume "registry_ok (fst acc)"
  then have r: "registry_ok r" using Pair by simp
  have "registry_ok (put_peer i ((move_to (Now e) n ps)\<lparr>psPeer := (psPeer (move_to (Now e) n ps))\<lparr>TurnState := TurnIdle\<rparr>\<rparr>) r)"
    if "gm_get (rgPeers r) i = Some ps" "Apply (psState ps) EventStop = (n, None)" for ps n
  proof (rule registry_ok_put_peer [OF r that(1)])
    have "n \<noteq> StateUnregistered" using that(2) Apply_never_unregistered by blast
    then have "peer_ok i (move_to (Now e) n ps)" using registry_ok_id [OF r that(1)] by (intro move_to_ok) auto
    then show "peer_ok i ((move_to (Now e) n ps)\<lparr>psPeer := (psPeer (move_to (Now e) n ps))\<lparr>TurnState := TurnIdle\<rparr>\<rparr>)"
      by (simp add: peer_ok_def)
  qed (simp add: same_ident_def)
  with Pair r show ?thesis
    by (auto simp: repair_busy_one_def Let_def registry_ok_events split: option.split prod.split)
qed

lemma repairStaleBusy_ok: "registry_ok r \<Longrightarrow> registry_ok (repairStaleBusyPeers e r)"
proof -
  assume r: "registry_ok r"
  have a: "registry_ok (fst (fold (repair_busy_one e) ks (r, [])))" for ks
    by (rule fold_keeps_fst [where P = registry_ok]) (auto simp: r intro: repair_busy_one_ok)
  obtain r1 dones where f: "fold (repair_busy_one e) (map fst (rgPeers r)) (r, []) = (r1, dones)"
    by (cases "fold (repair_busy_one e) (map fst (rgPeers r)) (r, [])")
  then have "registry_ok r1" using a [of "map fst (rgPeers r)"] by simp
  then have "registry_ok (fold (\<lambda>(i, name). appendEvent e (peer_event ''peer_status'' (Now e) i name
       [(''status'', JStr ''online''), (''reason'', JStr ''stale_busy_repair'')])) dones r1)"
    by (intro fold_events_ok) (auto simp: appendEvent_same split: prod.split)
  with r f show ?thesis by (simp add: repairStaleBusyPeers_def)
qed

section \<open>Reaping and evicting\<close>

lemma clearAll_frame [simp]:
  "rgPeers (clearAllContradictions i r) = rgPeers r" "rgMappings (clearAllContradictions i r) = rgMappings r"
  "rgRetired (clearAllContradictions i r) = rgRetired r" "rgDirty (clearAllContradictions i r) = rgDirty r"
  "rgDbMappings (clearAllContradictions i r) = rgDbMappings r"
  by (simp_all add: clearAllContradictions_def)

lemma drop_peer_simps [simp]:
  "rgPeers (drop_peer i r) = gm_del i (rgPeers r)" "rgMappings (drop_peer i r) = gm_del i (rgMappings r)"
  "rgRetired (drop_peer i r) = rgRetired r" "rgHasAsks (drop_peer i r) = rgHasAsks r"
  "rgReapTTL (drop_peer i r) = rgReapTTL r" "rgEvictMaxAge (drop_peer i r) = rgEvictMaxAge r"
  by (simp_all add: drop_peer_def remove_peer_def clearAllContradictions_def)

lemma drop_peer_kept: "registry_ok r \<Longrightarrow> registry_ok (drop_peer i r)"
  unfolding drop_peer_def
  by (rule registry_ok_frame [OF registry_ok_remove_peer]) (auto simp: registry_ok_gm remove_peer_def)

lemma registry_ok_retired: "registry_ok r \<Longrightarrow> gm_ok x \<Longrightarrow> registry_ok (r\<lparr>rgRetired := x\<rparr>)"
  by (rule registry_ok_frame [of r]) auto

lemma still_stale_Some:
  "still_stale cutoff snap r = Some ps \<longleftrightarrow> gm_get (rgPeers r) (PeerID snap) = Some ps \<and> psState ps = StateOffline \<and>
     is_stale cutoff (psPeer ps) \<and> runtimeMarker (psPeer ps) = runtimeMarker snap"
  by (auto simp: still_stale_def split: option.splits)

lemma reap_one_ok: "registry_ok (fst acc) \<Longrightarrow> registry_ok (fst (reap_one e ev snap acc))"
  by (cases acc) (auto simp: reap_one_def Let_def registry_ok_events drop_peer_kept registry_ok_retired registry_ok_gm
      split: option.split prod.split)

lemma reap_commit_ok: "registry_ok r \<Longrightarrow> registry_ok (fst (reap_commit e ev stale r))"
  unfolding reap_commit_def by (rule fold_keeps_fst [where P = registry_ok]) (auto intro: reap_one_ok)

lemma evict_one_ok: "registry_ok (fst acc) \<Longrightarrow> registry_ok (fst (evict_one e ev snap acc))"
  by (cases acc) (auto simp: evict_one_def Let_def drop_peer_kept split: option.split)

lemma evict_commit_ok: "registry_ok r \<Longrightarrow> registry_ok (fst (evict_commit e ev stale r))"
  unfolding evict_commit_def by (rule fold_keeps_fst [where P = registry_ok]) (auto intro: evict_one_ok)

text \<open>
  The finish phases delete rows whose mapping has gone from memory. In between another request may
  have registered the id again; then the mappings are dirty, and the row is written again.
\<close>

definition unmapped_or_dirty :: "string \<Rightarrow> registry \<Rightarrow> bool" where
  "unmapped_or_dirty i r \<longleftrightarrow> gm_get (rgMappings r) i = None \<or> rgDirty r"

lemma DeleteMapping_ok': "registry_ok r \<Longrightarrow> unmapped_or_dirty i r \<Longrightarrow> registry_ok (DeleteMapping e i r)"
  by (auto simp: DeleteMapping_def unmapped_or_dirty_def registry_ok_def peers_ok_def maps_ok_def durable_def)

lemma DeleteMapping_frame [simp]:
  "rgPeers (DeleteMapping e i r) = rgPeers r" "rgMappings (DeleteMapping e i r) = rgMappings r"
  "rgRetired (DeleteMapping e i r) = rgRetired r" "rgDirty (DeleteMapping e i r) = rgDirty r"
  "rgHasAsks (DeleteMapping e i r) = rgHasAsks r" "rgJournal (DeleteMapping e i r) = rgJournal r"
  "rgTrace (DeleteMapping e i r) = rgTrace r"
  by (simp_all add: DeleteMapping_def)

lemma store_reaped_frame [simp]:
  "rgPeers (store_reaped e i n r) = rgPeers r" "rgMappings (store_reaped e i n r) = rgMappings r"
  "rgRetired (store_reaped e i n r) = rgRetired r" "rgDirty (store_reaped e i n r) = rgDirty r"
  by (simp_all add: store_reaped_def Let_def split: option.split)

lemma store_reaped_ok:
  assumes "registry_ok r" "unmapped_or_dirty i r"
  shows "registry_ok (store_reaped e i name r)"
proof -
  have "registry_ok (DeleteMapping e i (transportClose e i r))"
    using assms by (intro DeleteMapping_ok' registry_ok_events) (auto simp: unmapped_or_dirty_def)
  moreover have "registry_ok (s\<lparr>rgDbRetired := x\<rparr>)" if "registry_ok s" for s x
    using that by (rule registry_ok_frame) (auto simp: registry_ok_gm [OF that])
  ultimately show ?thesis by (auto simp: store_reaped_def Let_def registry_ok_events split: option.split)
qed

lemma fold_store_reaped_ok:
  "registry_ok r \<Longrightarrow> \<forall>i \<in> set (map fst dones). unmapped_or_dirty i r \<Longrightarrow>
   registry_ok (fold (\<lambda>(i, name). store_reaped e i name) dones r)"
proof (induction dones arbitrary: r)
  case (Cons d dones)
  obtain i n where d: "d = (i, n)" by (cases d)
  have "registry_ok (store_reaped e i n r)" using Cons.prems d by (intro store_reaped_ok) auto
  moreover have "\<forall>j \<in> set (map fst dones). unmapped_or_dirty j (store_reaped e i n r)"
    using Cons.prems(2) by (auto simp: unmapped_or_dirty_def)
  ultimately have "registry_ok (fold (\<lambda>(i, name). store_reaped e i name) dones (store_reaped e i n r))"
    by (rule Cons.IH)
  then show ?case using d by simp
qed simp

lemma report_losses_same: "same_tables r (report_losses e reason ids t r)"
  unfolding report_losses_def
  by (rule fold_same_tables) (simp add: emitPendingReplyLost_def appendEvent_same)

lemma spared_events_same: "same_tables r (fold (emitOfflineStillHasEvidence e reason c ttl) ps r)"
  by (rule fold_same_tables) (simp add: emitOfflineStillHasEvidence_def appendEvent_same)

lemma unmapped_same: "same_tables r s \<Longrightarrow> unmapped_or_dirty i s = unmapped_or_dirty i r"
  by (simp add: same_tables_def unmapped_or_dirty_def)

lemma reap_finish_ok:
  assumes "registry_ok r" "\<forall>i \<in> set (map fst dones). unmapped_or_dirty i r" "reap_finish e dones spared (r, t) = Some (r', t')"
  shows "registry_ok r'"
proof -
  let ?r1 = "fold (emitOfflineStillHasEvidence e ''offline_ttl_with_runtime_evidence'' (Now e - rgReapTTL r) (rgReapTTL r)) spared r"
  let ?r2 = "if rgHasAsks ?r1 then report_losses e ''offline_ttl_reap'' (map fst dones) t ?r1 else ?r1"
  have same: "same_tables r ?r2"
    using same_tables_trans [OF spared_events_same report_losses_same] spared_events_same by simp
  have "r' = fold (\<lambda>(i, name). store_reaped e i name) dones ?r2"
    using assms(3) by (auto simp: reap_finish_def Let_def split: if_splits)
  moreover have "registry_ok ?r2" using same assms(1) by (rule registry_ok_same_tables)
  moreover have "\<forall>i \<in> set (map fst dones). unmapped_or_dirty i ?r2"
    using assms(2) unmapped_same [OF same] by blast
  ultimately show ?thesis using fold_store_reaped_ok by blast
qed

lemma fold_delete_mapping_ok:
  "registry_ok r \<Longrightarrow> \<forall>i \<in> set ids. unmapped_or_dirty i r \<Longrightarrow> registry_ok (fold (DeleteMapping e) ids r)"
proof (induction ids arbitrary: r)
  case (Cons i ids)
  then have "registry_ok (DeleteMapping e i r)" by (intro DeleteMapping_ok') auto
  moreover have "\<forall>j \<in> set ids. unmapped_or_dirty j (DeleteMapping e i r)"
    using Cons.prems(2) by (auto simp: unmapped_or_dirty_def)
  ultimately show ?case using Cons.IH by simp
qed simp

lemma evict_finish_ok:
  assumes "registry_ok r" "\<forall>p \<in> set evicted. unmapped_or_dirty (PeerID p) r" "evict_finish e evicted spared (r, t) = Some (r', t')"
  shows "registry_ok r'"
proof -
  let ?r1 = "fold (emitOfflineStillHasEvidence e ''stale_evict_with_runtime_evidence'' (Now e - rgEvictMaxAge r) (rgEvictMaxAge r)) spared r"
  let ?r2 = "if rgHasAsks ?r1 then report_losses e ''stale_evict'' (map PeerID evicted) t ?r1 else ?r1"
  have same: "same_tables r ?r2"
    using same_tables_trans [OF spared_events_same report_losses_same] spared_events_same by simp
  have "r' = fold (DeleteMapping e) (map PeerID evicted) ?r2"
    using assms(3) by (auto simp: evict_finish_def Let_def split: if_splits)
  moreover have "registry_ok ?r2" using same assms(1) by (rule registry_ok_same_tables)
  moreover have "\<forall>i \<in> set (map PeerID evicted). unmapped_or_dirty i ?r2"
    using assms(2) unmapped_same [OF same] by auto
  ultimately show ?thesis using fold_delete_mapping_ok by blast
qed

end
