(* ===== verification/Reconcile_Facts.thy ===== *)
theory Reconcile_Facts
  imports Reconcile_Invariant
begin

text \<open>
  What maintenance promises: a removal is decided on the current state and not on the snapshot that
  was probed, a live peer is demoted on its third strike only, no stashed reply disappears without a
  report, and a reply whose redelivery failed stays stashed. The reconciler's side of the ask
  tracker is the locale \<open>stash_tracker\<close>, interpreted by the tracker of \<open>service/ask_tracker.go\<close>.
\<close>

section \<open>Removal is revalidated\<close>

lemma reap_one_cases:
  "reap_one e ev snap (r, dones, spared) =
     (case still_stale (Now e - rgReapTTL r) snap r of None \<Rightarrow> (r, dones, spared)
      | Some ps \<Rightarrow> if PeerID snap \<in> set ev then (r, dones, spared @ [psPeer ps])
          else ((drop_peer (PeerID snap) r)\<lparr>rgRetired := gm_put (PeerID snap) \<lparr>rtAt = Now e, rtHard = False\<rparr> (rgRetired r)\<rparr>,
                dones @ [(PeerID snap, DisplayName (psPeer ps))], spared))"
proof (cases "still_stale (Now e - rgReapTTL r) snap r")
  case (Some ps)
  then have "psState ps = StateOffline" by (simp add: still_stale_Some)
  with Some show ?thesis by (simp add: reap_one_def Let_def)
qed (simp add: reap_one_def)

text \<open>What one step of a removal loop may have done to a peer of the registry it started from.\<close>

definition removed_rightly :: "gotime \<Rightarrow> string list \<Rightarrow> peer list \<Rightarrow> string \<Rightarrow> peer_state \<Rightarrow> bool" where
  "removed_rightly cutoff ev stale k ps \<longleftrightarrow>
     psState ps = StateOffline \<and> is_stale cutoff (psPeer ps) \<and> k \<notin> set ev \<and>
     (\<exists>snap \<in> set stale. PeerID snap = k \<and> runtimeMarker snap = runtimeMarker (psPeer ps))"

definition reap_frame :: "env \<Rightarrow> string list \<Rightarrow> peer list \<Rightarrow> registry \<Rightarrow> registry \<Rightarrow> bool" where
  "reap_frame e ev stale r r' \<longleftrightarrow> rgReapTTL r' = rgReapTTL r \<and>
     (\<forall>k. gm_get (rgPeers r') k = gm_get (rgPeers r) k \<or>
       (gm_get (rgPeers r') k = None \<and> gm_get (rgMappings r') k = None \<and>
        gm_get (rgRetired r') k = Some \<lparr>rtAt = Now e, rtHard = False\<rparr> \<and>
        (\<exists>ps. gm_get (rgPeers r) k = Some ps \<and> removed_rightly (Now e - rgReapTTL r) ev stale k ps)))"

lemma reap_frame_refl: "reap_frame e ev stale r r"
  by (simp add: reap_frame_def)

lemma reap_one_frame:
  assumes "reap_frame e ev stale r0 r" "snap \<in> set stale"
  shows "reap_frame e ev stale r0 (fst (reap_one e ev snap (r, dones, spared)))"
proof (cases "still_stale (Now e - rgReapTTL r) snap r")
  case None
  with assms show ?thesis by (simp add: reap_one_cases)
next
  case (Some ps)
  then have ps: "gm_get (rgPeers r) (PeerID snap) = Some ps" "psState ps = StateOffline"
    "is_stale (Now e - rgReapTTL r) (psPeer ps)" "runtimeMarker (psPeer ps) = runtimeMarker snap"
    by (simp_all add: still_stale_Some)
  have ttl: "rgReapTTL r = rgReapTTL r0" using assms(1) by (simp add: reap_frame_def)
  have ps0: "gm_get (rgPeers r0) (PeerID snap) = Some ps"
    using assms(1) ps(1) by (metis option.distinct(1) reap_frame_def)
  show ?thesis
  proof (cases "PeerID snap \<in> set ev")
    case True
    with assms Some show ?thesis by (simp add: reap_one_cases)
  next
    case False
    then have "removed_rightly (Now e - rgReapTTL r0) ev stale (PeerID snap) ps"
      using ps assms(2) ttl by (auto simp: removed_rightly_def)
    with assms(1) Some False ps0 show ?thesis by (simp add: reap_one_cases reap_frame_def)
  qed
qed

lemma fold_reap_frame:
  "set xs \<subseteq> set stale \<Longrightarrow> reap_frame e ev stale r0 (fst acc) \<Longrightarrow>
   reap_frame e ev stale r0 (fst (fold (reap_one e ev) xs acc))"
proof (induction xs arbitrary: acc)
  case (Cons x xs)
  obtain r dones spared where acc: "acc = (r, dones, spared)" by (cases acc)
  with Cons.prems have "reap_frame e ev stale r0 (fst (reap_one e ev x acc))" by (simp add: reap_one_frame)
  with Cons show ?case by simp
qed simp

lemma reap_commit_frame: "reap_frame e ev stale r (fst (reap_commit e ev stale r))"
  unfolding reap_commit_def by (rule fold_reap_frame) (simp_all add: reap_frame_refl)

text \<open>
  Reaping is safe against the probe window. Whatever snapshot was probed and whatever requests
  ran meanwhile, the second critical section either leaves a peer exactly as it is or removes it,
  and it removes it only if at that moment the peer is offline, has been unseen for longer than the
  TTL, is not among the peers with runtime evidence and has the agent pid and pane that were probed;
  then its mapping is gone too and a tombstone stands in its place.
\<close>

theorem reap_revalidates:
  "gm_get (rgPeers (fst (reap_commit e ev stale r))) k = gm_get (rgPeers r) k \<or>
   (gm_get (rgPeers (fst (reap_commit e ev stale r))) k = None \<and>
    gm_get (rgMappings (fst (reap_commit e ev stale r))) k = None \<and>
    gm_get (rgRetired (fst (reap_commit e ev stale r))) k = Some \<lparr>rtAt = Now e, rtHard = False\<rparr> \<and>
    (\<exists>ps. gm_get (rgPeers r) k = Some ps \<and> psState ps = StateOffline \<and>
       is_stale (Now e - rgReapTTL r) (psPeer ps) \<and> k \<notin> set ev \<and>
       (\<exists>snap \<in> set stale. PeerID snap = k \<and> runtimeMarker snap = runtimeMarker (psPeer ps))))"
  using reap_commit_frame [of e ev stale r] unfolding reap_frame_def removed_rightly_def by blast

section \<open>The dropped ids are unmapped\<close>

lemma reap_done_unmapped:
  assumes "\<forall>i \<in> set (map fst (fst (snd acc))). gm_get (rgMappings (fst acc)) i = None"
  shows "\<forall>i \<in> set (map fst (fst (snd (fold (reap_one e ev) xs acc)))). gm_get (rgMappings (fst (fold (reap_one e ev) xs acc))) i = None"
  using assms
proof (induction xs arbitrary: acc)
  case (Cons x xs)
  obtain r dones spared where acc: "acc = (r, dones, spared)" by (cases acc)
  have "\<forall>i \<in> set (map fst (fst (snd (reap_one e ev x acc)))). gm_get (rgMappings (fst (reap_one e ev x acc))) i = None"
    using Cons.prems unfolding acc by (auto simp: reap_one_cases split: option.split)
  from Cons.IH [OF this] show ?case by simp
qed simp

lemma reap_commit_unmapped:
  "reap_commit e ev stale r = (r1, dones, spared) \<Longrightarrow> \<forall>i \<in> set (map fst dones). unmapped_or_dirty i r1"
  using reap_done_unmapped [of "(r, [], [])" e ev stale] by (simp add: reap_commit_def unmapped_or_dirty_def)

lemma evict_done_unmapped:
  assumes "registry_ok (fst acc)" "\<forall>p \<in> set (fst (snd acc)). gm_get (rgMappings (fst acc)) (PeerID p) = None"
  shows "\<forall>p \<in> set (fst (snd (fold (evict_one e ev) xs acc))). gm_get (rgMappings (fst (fold (evict_one e ev) xs acc))) (PeerID p) = None"
  using assms
proof (induction xs arbitrary: acc)
  case (Cons x xs)
  obtain r dones spared where acc: "acc = (r, dones, spared)" by (cases acc)
  have ok: "registry_ok (fst (evict_one e ev x acc))" using Cons.prems(1) by (rule evict_one_ok)
  have "PeerID (psPeer ps) = PeerID x" if "still_stale c x r = Some ps" for c ps
    using that Cons.prems(1) acc registry_ok_id by (simp add: still_stale_Some)
  then have "\<forall>p \<in> set (fst (snd (evict_one e ev x acc))). gm_get (rgMappings (fst (evict_one e ev x acc))) (PeerID p) = None"
    using Cons.prems(2) unfolding acc by (auto simp: evict_one_def split: option.split)
  from Cons.IH [OF ok this] show ?case by simp
qed simp

lemma evict_commit_unmapped:
  "registry_ok r \<Longrightarrow> evict_commit e ev stale r = (r1, evicted, spared) \<Longrightarrow>
   \<forall>p \<in> set evicted. unmapped_or_dirty (PeerID p) r1"
  using evict_done_unmapped [of "(r, [], [])" e ev stale] by (simp add: evict_commit_def unmapped_or_dirty_def)

lemma reapDangling_ok:
  assumes "registry_ok r" "reapDangling e q (r, t) = Some (r', t')"
  shows "registry_ok r'"
proof -
  let ?stale = "reap_snapshot e r"
  obtain r1 dones spared where c: "reap_commit e (runtimeEvidenceIDs q ?stale) ?stale r = (r1, dones, spared)"
    by (cases "reap_commit e (runtimeEvidenceIDs q ?stale) ?stale r")
  have "registry_ok r1" using reap_commit_ok [OF assms(1), of e "runtimeEvidenceIDs q ?stale" ?stale] c by simp
  moreover have "reap_finish e dones spared (r1, t) = Some (r', t')" using assms(2) c by (simp add: reapDangling_def Let_def)
  ultimately show ?thesis using reap_commit_unmapped [OF c] by (blast intro: reap_finish_ok)
qed

lemma evictStale_ok:
  assumes "registry_ok r" "evictStalePeers e q (r, t) = Some (r', t')"
  shows "registry_ok r'"
proof (cases "rgEvictMaxAge r \<le> 0")
  case True
  with assms show ?thesis by (simp add: evictStalePeers_def)
next
  case False
  let ?stale = "evict_snapshot e r"
  obtain r1 evicted spared where c: "evict_commit e (runtimeEvidenceIDs q ?stale) ?stale r = (r1, evicted, spared)"
    by (cases "evict_commit e (runtimeEvidenceIDs q ?stale) ?stale r")
  have "registry_ok r1" using evict_commit_ok [OF assms(1), of e "runtimeEvidenceIDs q ?stale" ?stale] c by simp
  moreover have "evict_finish e evicted spared (r1, t) = Some (r', t')"
    using assms(2) c False by (simp add: evictStalePeers_def Let_def)
  ultimately show ?thesis using evict_commit_unmapped [OF assms(1) c] by (blast intro: evict_finish_ok)
qed

end
