(* ===== verification/Reconcile_Stash.thy ===== *)
theory Reconcile_Stash
  imports Reconcile_Facts
begin

text \<open>
  Stashed replies under maintenance and redelivery. \<open>stash_tracker\<close> is the contract of the
  \<open>AskTracker\<close> interface of \<open>peer/reconcile.go\<close> that the loss reports rely on; the interpretation
  shows that \<open>service/ask_tracker.go\<close> keeps it.
\<close>

section \<open>The interface\<close>

locale stash_tracker =
  fixes ok :: "'t \<Rightarrow> bool"
    and stash :: "'t \<Rightarrow> string \<Rightarrow> 'a option"
    and about :: "string \<Rightarrow> 'a \<Rightarrow> bool"
    and snapshot :: "string \<Rightarrow> 't \<Rightarrow> 'a list"
    and forget :: "string \<Rightarrow> 't \<Rightarrow> (nat \<times> 't) option"
    and expired :: "gotime \<Rightarrow> 't \<Rightarrow> 'a list"
    and sweep :: "gotime \<Rightarrow> 't \<Rightarrow> (nat \<times> 't) option"
  assumes forget_total: "ok t \<Longrightarrow> \<exists>n t'. forget i t = Some (n, t') \<and> ok t'"
    and forget_stash: "ok t \<Longrightarrow> forget i t = Some (n, t') \<Longrightarrow>
      stash t' c = (case stash t c of None \<Rightarrow> None | Some a \<Rightarrow> if about i a then None else Some a)"
    and snapshot_stash: "ok t \<Longrightarrow> a \<in> set (snapshot i t) \<longleftrightarrow> (\<exists>c. stash t c = Some a \<and> about i a)"
    and sweep_total: "ok t \<Longrightarrow> \<exists>n t'. sweep now t = Some (n, t') \<and> ok t'"
    and sweep_stash: "ok t \<Longrightarrow> sweep now t = Some (n, t') \<Longrightarrow> stash t c = Some a \<Longrightarrow>
      stash t' c = Some a \<or> a \<in> set (expired now t)"
begin

lemma forget_all_reported:
  "ok t \<Longrightarrow> \<exists>t'. forget_all forget ids t = Some t' \<and> ok t' \<and>
     (\<forall>c a. stash t c = Some a \<longrightarrow> stash t' c = Some a \<or> (\<exists>i \<in> set ids. a \<in> set (snapshot i t)))"
proof (induction ids arbitrary: t)
  case Nil
  then show ?case by simp
next
  case (Cons i ids)
  from forget_total [OF Cons.prems, of i] obtain n t1 where f: "forget i t = Some (n, t1)" "ok t1" by blast
  from Cons.IH [OF f(2)] obtain t' where t': "forget_all forget ids t1 = Some t'" "ok t'"
    "\<forall>c a. stash t1 c = Some a \<longrightarrow> stash t' c = Some a \<or> (\<exists>i \<in> set ids. a \<in> set (snapshot i t1))" by blast
  have mono: "a \<in> set (snapshot j t)" if "a \<in> set (snapshot j t1)" for j a
    using that f(2) Cons.prems forget_stash [OF Cons.prems f(1)]
    by (force simp: snapshot_stash split: option.splits if_splits)
  have "stash t' c = Some a \<or> (\<exists>j \<in> set (i # ids). a \<in> set (snapshot j t))" if c: "stash t c = Some a" for c a
  proof (cases "about i a")
    case True
    then show ?thesis using c Cons.prems by (auto simp: snapshot_stash)
  next
    case False
    then have "stash t1 c = Some a" using c forget_stash [OF Cons.prems f(1)] by simp
    with t'(3) mono show ?thesis by (meson list.set_intros(2))
  qed
  with f(1) t' show ?case by simp
qed

lemma forget_all_total: "ok t \<Longrightarrow> \<exists>t'. forget_all forget ids t = Some t' \<and> ok t'"
  using forget_all_reported by blast

lemma unreported_survives:
  "ok t \<Longrightarrow> forget_all forget ids t = Some t' \<Longrightarrow> stash t c = Some a \<Longrightarrow>
   \<forall>i \<in> set ids. a \<notin> set (snapshot i t) \<Longrightarrow> stash t' c = Some a"
  using forget_all_reported [of t ids] by auto

end

definition stashed :: "tracker \<Rightarrow> string \<Rightarrow> ask option" where
  "stashed t c = (case gm_get (tr_asks t) c of None \<Rightarrow> None | Some a \<Rightarrow> if PendingReply a = None then None else Some a)"

lemma stashed_Some: "stashed t c = Some a \<longleftrightarrow> gm_get (tr_asks t) c = Some a \<and> PendingReply a \<noteq> None"
  by (auto simp: stashed_def split: option.splits)

lemma mem_map_snd_gm_select:
  "gm_ok m \<Longrightarrow> a \<in> set (map snd (gm_select P m)) \<longleftrightarrow> (\<exists>c. gm_get m c = Some a \<and> P c a)"
  by (auto simp: set_gm_select image_iff) (metis set_gm_select snd_conv)

lemma ForgetPeer_stash:
  assumes "tracker_ok t" "ForgetPeer i t = Some (n, t')"
  shows "stashed t' c = (case stashed t c of None \<Rightarrow> None | Some a \<Rightarrow> if involves i a then None else Some a)"
  using ForgetPeer_ok [OF assms(1), of i] assms(2) by (auto simp: stashed_def split: option.splits)

lemma EvictExpired_stash:
  assumes "tracker_ok t" "EvictExpired now True t = Some (n, t')" "stashed t c = Some a"
  shows "stashed t' c = Some a \<or> a \<in> set (SnapshotExpiredPendingReplies now t)"
proof -
  have "gm_get (tr_asks t') c = (if CreatedAt a < now - tr_ttl t then None else Some a)"
    using EvictExpired_ok [OF assms(1), of now True] assms(2,3) by (auto simp: stashed_Some split: if_splits)
  then show ?thesis
    using assms(1,3) mem_map_snd_gm_select [of "tr_asks t" a]
    by (auto simp: stashed_Some SnapshotExpiredPendingReplies_def simp del: set_map split: if_splits)
qed

interpretation asks: stash_tracker tracker_ok stashed involves SnapshotPendingRepliesForPeer ForgetPeer
  SnapshotExpiredPendingReplies "\<lambda>now. EvictExpired now True"
proof
  fix t :: tracker and i :: string and n :: nat and t' c a now
  assume t: "tracker_ok t"
  show "\<exists>n t'. ForgetPeer i t = Some (n, t') \<and> tracker_ok t'"
    using ForgetPeer_ok [OF t, of i] by (auto simp: op_ok_def)
  show "\<exists>n t'. EvictExpired now True t = Some (n, t') \<and> tracker_ok t'"
    using EvictExpired_ok [OF t, of now True] by (auto simp: op_ok_def)
  show "(a \<in> set (SnapshotPendingRepliesForPeer i t)) = (\<exists>c. stashed t c = Some a \<and> involves i a)"
    using t mem_map_snd_gm_select [of "tr_asks t" a]
    by (auto simp: SnapshotPendingRepliesForPeer_def stashed_Some simp del: set_map)
next
  fix t :: tracker and i :: string and n :: nat and t' c
  assume "tracker_ok t" "ForgetPeer i t = Some (n, t')"
  then show "stashed t' c = (case stashed t c of None \<Rightarrow> None | Some a \<Rightarrow> if involves i a then None else Some a)"
    by (rule ForgetPeer_stash)
next
  fix t :: tracker and now :: gotime and n :: nat and t' c a
  assume "tracker_ok t" "EvictExpired now True t = Some (n, t')" "stashed t c = Some a"
  then show "stashed t' c = Some a \<or> a \<in> set (SnapshotExpiredPendingReplies now t)" by (rule EvictExpired_stash)
qed

section \<open>The journal only grows\<close>

definition journal_le :: "registry \<Rightarrow> registry \<Rightarrow> bool" where
  "journal_le r r' \<longleftrightarrow> set (rgJournal r) \<subseteq> set (rgJournal r')"

lemma journal_le_refl [simp]: "journal_le r r"
  by (simp add: journal_le_def)

lemma journal_le_trans: "journal_le r s \<Longrightarrow> journal_le s t \<Longrightarrow> journal_le r t"
  by (auto simp: journal_le_def)

lemma journal_le_fold: "(\<And>x s. journal_le s (f x s)) \<Longrightarrow> journal_le r (fold f xs r)"
  by (rule fold_keeps [where P = "journal_le r"]) (blast intro: journal_le_trans, simp)

lemma journal_le_appendEvent [simp]: "journal_le r (appendEvent e ev r)"
  by (auto simp: journal_le_def appendEvent_def nextUuid_def Let_def split: prod.splits)

lemma journal_le_emit [simp]: "journal_le r (emitPendingReplyLost e reason a r)"
  by (simp add: emitPendingReplyLost_def)

lemma journal_le_delete [simp]: "journal_le r (DeleteMapping e i r)"
  by (simp add: journal_le_def)

lemma journal_le_store_reaped: "journal_le r (store_reaped e i n r)"
proof -
  have a: "journal_le r (DeleteMapping e i (transportClose e i r))"
    by (simp add: journal_le_def transportClose_def trace_def)
  have b: "journal_le s (s\<lparr>rgDbRetired := x\<rparr>)" for s x by (simp add: journal_le_def)
  show ?thesis unfolding store_reaped_def Let_def
    by (intro journal_le_trans [OF a] journal_le_trans [OF _ journal_le_appendEvent]) (auto simp: b split: option.split)
qed

section \<open>Losses are reported\<close>

definition reports :: "ask \<Rightarrow> event \<Rightarrow> bool" where
  "reports a ev \<longleftrightarrow> evType ev = ''pending_reply_lost'' \<and> evPeerID ev = FromPeerID a \<and>
     gm_get (evPayload ev) ''correlation_id'' = Some (JStr (CorrelationID a)) \<and>
     gm_get (evPayload ev) ''answerer_peer_id'' = Some (JStr (ToPeerID a))"

definition reported :: "ask \<Rightarrow> registry \<Rightarrow> bool" where
  "reported a r \<longleftrightarrow> (\<exists>ev \<in> set (rgJournal r). reports a ev)"

lemma reported_mono: "reported a r \<Longrightarrow> journal_le r r' \<Longrightarrow> reported a r'"
  by (auto simp: reported_def journal_le_def)

definition journal_up :: "env \<Rightarrow> bool" where
  "journal_up e \<longleftrightarrow> StoreErr e (SCAppendEvent ''pending_reply_lost'') = None"

lemma emit_reported: "journal_up e \<Longrightarrow> reported a (emitPendingReplyLost e reason a r)"
  by (auto simp: emitPendingReplyLost_def appendEvent_def lost_event_def peer_event_def nextUuid_def Let_def
      reported_def reports_def journal_up_def gm_get_Cons)

lemma fold_emit_reported:
  "journal_up e \<Longrightarrow> a \<in> set as \<Longrightarrow> reported a (fold (emitPendingReplyLost e reason) as r)"
proof (induction as arbitrary: r)
  case (Cons b as)
  show ?case
  proof (cases "a = b")
    case True
    have "journal_le (emitPendingReplyLost e reason b r) (fold (emitPendingReplyLost e reason) as (emitPendingReplyLost e reason b r))"
      by (rule journal_le_fold) simp
    with True emit_reported [OF Cons.prems(1)] show ?thesis by (auto intro: reported_mono)
  next
    case False
    with Cons show ?thesis by simp
  qed
qed simp

text \<open>A pass is careful: it ends, keeps the tracker well-formed and reports every stash it drops.\<close>

definition careful :: "(registry \<times> tracker \<Rightarrow> (registry \<times> tracker) option) \<Rightarrow> bool" where
  "careful f \<longleftrightarrow> (\<forall>r t. tracker_ok t \<longrightarrow> (\<exists>r' t'. f (r, t) = Some (r', t') \<and> tracker_ok t' \<and> journal_le r r' \<and>
     (\<forall>c a. stashed t c = Some a \<longrightarrow> stashed t' c = Some a \<or> reported a r')))"

lemma carefulD:
  assumes "careful f" "tracker_ok t"
  obtains r' t' where "f (r, t) = Some (r', t')" "tracker_ok t'" "journal_le r r'"
    "\<And>c a. stashed t c = Some a \<Longrightarrow> stashed t' c = Some a \<or> reported a r'"
  using assms unfolding careful_def by metis

lemma careful_comp:
  assumes "careful f" "careful g"
  shows "careful (\<lambda>s. f s \<bind> g)"
  unfolding careful_def
proof (intro allI impI)
  fix r t assume t: "tracker_ok t"
  obtain r1 t1 where f: "f (r, t) = Some (r1, t1)" "tracker_ok t1" "journal_le r r1"
    "\<And>c a. stashed t c = Some a \<Longrightarrow> stashed t1 c = Some a \<or> reported a r1"
    using carefulD [OF assms(1) t, of r] by blast
  obtain r2 t2 where g: "g (r1, t1) = Some (r2, t2)" "tracker_ok t2" "journal_le r1 r2"
    "\<And>c a. stashed t1 c = Some a \<Longrightarrow> stashed t2 c = Some a \<or> reported a r2"
    using carefulD [OF assms(2) f(2), of r1] by blast
  have "stashed t2 c = Some a \<or> reported a r2" if "stashed t c = Some a" for c a
    using f(4) [OF that] g(3,4) by (auto intro: reported_mono)
  moreover have "journal_le r r2" using f(3) g(3) by (rule journal_le_trans)
  ultimately show "\<exists>r' t'. f (r, t) \<bind> g = Some (r', t') \<and> tracker_ok t' \<and> journal_le r r' \<and>
     (\<forall>c a. stashed t c = Some a \<longrightarrow> stashed t' c = Some a \<or> reported a r')"
    using f(1) g(1,2) by auto
qed

text \<open>The end of a removal pass: report, clean up the store, forget.\<close>

lemma careful_finish:
  assumes "journal_up e" "journal_le r0 r" "\<And>s. journal_le s (h s)" "tracker_ok t"
  shows "\<exists>r' t'. (if b then map_option (\<lambda>t'. (h (report_losses e reason ids t r), t')) (forget_all ForgetPeer ids t)
       else Some (h r, t)) = Some (r', t') \<and> tracker_ok t' \<and> journal_le r0 r' \<and>
     (\<forall>c a. stashed t c = Some a \<longrightarrow> stashed t' c = Some a \<or> reported a r')"
proof (cases b)
  case False
  with assms show ?thesis by (auto intro: journal_le_trans)
next
  case True
  obtain t' where t': "forget_all ForgetPeer ids t = Some t'" "tracker_ok t'"
    "\<forall>c a. stashed t c = Some a \<longrightarrow> stashed t' c = Some a \<or> (\<exists>i \<in> set ids. a \<in> set (SnapshotPendingRepliesForPeer i t))"
    using asks.forget_all_reported [OF assms(4), of ids] by blast
  have "reported a (h (report_losses e reason ids t r))"
    if "\<exists>i \<in> set ids. a \<in> set (SnapshotPendingRepliesForPeer i t)" for a
  proof -
    have "reported a (report_losses e reason ids t r)" unfolding report_losses_def
      using that by (intro fold_emit_reported [OF assms(1)]) auto
    then show ?thesis using assms(3) by (rule reported_mono)
  qed
  moreover have "journal_le r0 (h (report_losses e reason ids t r))"
  proof -
    have "journal_le r (report_losses e reason ids t r)" unfolding report_losses_def by (rule journal_le_fold) simp
    with assms(2,3) show ?thesis by (blast intro: journal_le_trans)
  qed
  ultimately have "journal_le r0 (h (report_losses e reason ids t r)) \<and>
     (\<forall>c a. stashed t c = Some a \<longrightarrow> stashed t' c = Some a \<or> reported a (h (report_losses e reason ids t r)))"
    using t'(3) by blast
  with True t'(1,2) show ?thesis by simp
qed

section \<open>The passes are careful\<close>

lemma reap_one_journal: "journal_le (fst acc) (fst (reap_one e ev snap acc))"
  by (cases acc) (auto simp: reap_one_cases journal_le_def drop_peer_def remove_peer_def clearAllContradictions_def split: option.split)

lemma reap_commit_journal: "journal_le r (fst (reap_commit e ev stale r))"
proof -
  have "journal_le r (fst (fold (reap_one e ev) xs acc))" if "journal_le r (fst acc)" for xs acc
    by (rule fold_keeps_fst [where P = "journal_le r"]) (auto intro: that journal_le_trans reap_one_journal)
  then show ?thesis by (simp add: reap_commit_def)
qed

lemma evict_one_journal: "journal_le (fst acc) (fst (evict_one e ev snap acc))"
  by (cases acc) (auto simp: evict_one_def journal_le_def drop_peer_def remove_peer_def clearAllContradictions_def split: option.split)

lemma evict_commit_journal: "journal_le r (fst (evict_commit e ev stale r))"
proof -
  have "journal_le r (fst (fold (evict_one e ev) xs acc))" if "journal_le r (fst acc)" for xs acc
    by (rule fold_keeps_fst [where P = "journal_le r"]) (auto intro: that journal_le_trans evict_one_journal)
  then show ?thesis by (simp add: evict_commit_def)
qed

lemma spared_journal: "journal_le r (fold (emitOfflineStillHasEvidence e reason c ttl) ps r)"
  by (rule journal_le_fold) (simp add: emitOfflineStillHasEvidence_def)

lemma careful_reap:
  assumes "journal_up e"
  shows "careful (reapDangling e q)"
  unfolding careful_def
proof (intro allI impI)
  fix r t assume t: "tracker_ok t"
  let ?stale = "reap_snapshot e r"
  obtain r1 dones spared where c: "reap_commit e (runtimeEvidenceIDs q ?stale) ?stale r = (r1, dones, spared)"
    by (cases "reap_commit e (runtimeEvidenceIDs q ?stale) ?stale r")
  let ?r2 = "fold (emitOfflineStillHasEvidence e ''offline_ttl_with_runtime_evidence'' (Now e - rgReapTTL r1) (rgReapTTL r1)) spared r1"
  have le: "journal_le r ?r2"
    using reap_commit_journal [of r e "runtimeEvidenceIDs q ?stale" ?stale] c spared_journal
    by (auto intro: journal_le_trans)
  have h: "journal_le s (fold (\<lambda>(i, name). store_reaped e i name) dones s)" for s
    by (rule journal_le_fold) (auto simp: journal_le_store_reaped split: prod.split)
  from careful_finish [OF assms le h t, of "rgHasAsks ?r2" "''offline_ttl_reap''" "map fst dones"]
  show "\<exists>r' t'. reapDangling e q (r, t) = Some (r', t') \<and> tracker_ok t' \<and> journal_le r r' \<and>
     (\<forall>c a. stashed t c = Some a \<longrightarrow> stashed t' c = Some a \<or> reported a r')"
    by (cases "rgHasAsks ?r2") (simp_all add: reapDangling_def reap_finish_def c Let_def)
qed

lemma careful_evict:
  assumes "journal_up e"
  shows "careful (evictStalePeers e q)"
  unfolding careful_def
proof (intro allI impI)
  fix r t assume t: "tracker_ok t"
  let ?stale = "evict_snapshot e r"
  obtain r1 evicted spared where c: "evict_commit e (runtimeEvidenceIDs q ?stale) ?stale r = (r1, evicted, spared)"
    by (cases "evict_commit e (runtimeEvidenceIDs q ?stale) ?stale r")
  let ?r2 = "fold (emitOfflineStillHasEvidence e ''stale_evict_with_runtime_evidence'' (Now e - rgEvictMaxAge r1) (rgEvictMaxAge r1)) spared r1"
  have le: "journal_le r ?r2"
    using evict_commit_journal [of r e "runtimeEvidenceIDs q ?stale" ?stale] c spared_journal
    by (auto intro: journal_le_trans)
  have h: "journal_le s (fold (DeleteMapping e) (map PeerID evicted) s)" for s
    by (rule journal_le_fold) simp
  from careful_finish [OF assms le h t, of "rgHasAsks ?r2" "''stale_evict''" "map PeerID evicted"] t
  show "\<exists>r' t'. evictStalePeers e q (r, t) = Some (r', t') \<and> tracker_ok t' \<and> journal_le r r' \<and>
     (\<forall>c a. stashed t c = Some a \<longrightarrow> stashed t' c = Some a \<or> reported a r')"
    by (cases "rgEvictMaxAge r \<le> 0"; cases "rgHasAsks ?r2") (simp_all add: evictStalePeers_def evict_finish_def c Let_def)
qed

lemma careful_sweep:
  assumes "journal_up e"
  shows "careful (emitAndEvictExpiredStashes e)"
  unfolding careful_def
proof (intro allI impI)
  fix r t assume t: "tracker_ok t"
  let ?r1 = "fold (emitPendingReplyLost e ''ttl_evicted'') (SnapshotExpiredPendingReplies (Now e) t) r"
  obtain n t' where t': "EvictExpired (Now e) True t = Some (n, t')" "tracker_ok t'"
    using asks.sweep_total [OF t, of "Now e"] by blast
  have "journal_le r ?r1" by (rule journal_le_fold) simp
  moreover have "stashed t' c = Some a \<or> reported a ?r1" if "stashed t c = Some a" for c a
    using asks.sweep_stash [OF t t'(1) that] fold_emit_reported [OF assms] by blast
  ultimately show "\<exists>r' t'. emitAndEvictExpiredStashes e (r, t) = Some (r', t') \<and> tracker_ok t' \<and> journal_le r r' \<and>
     (\<forall>c a. stashed t c = Some a \<longrightarrow> stashed t' c = Some a \<or> reported a r')"
    using t t' by (simp add: emitAndEvictExpiredStashes_def Let_def)
qed

lemma journal_le_persist: "journal_le r (pruneRetired e (persistMappings e r))"
proof -
  have a: "rgJournal (fst (fold (upsert_one e) ms (s, b))) = rgJournal s" for ms s b
    by (induction ms arbitrary: s b) (auto simp: upsert_one_def)
  have "rgJournal (persistMappings e r) = rgJournal r"
    using a [of "map snd (rgMappings r)" r True]
    by (auto simp: persistMappings_def persist_snapshot_def persist_write_def persist_commit_def Let_def split: prod.split)
  moreover have "rgJournal (fold (\<lambda>i r. if StoreErr e (SCUnretire i) = None then r\<lparr>rgDbRetired := gm_del i (rgDbRetired r)\<rparr> else r) ks s) = rgJournal s" for ks and s :: registry
    by (induction ks arbitrary: s) auto
  ultimately show ?thesis by (simp add: journal_le_def pruneRetired_def Let_def)
qed


text \<open>A peer unseen for an hour, the asker of a stashed reply: the repair reaps it and reports the loss.\<close>

definition demo_gone :: registry where
  "demo_gone = demo_claim\<lparr>rgHasAsks := True, rgPeers :=
     [(''a'', \<lparr>psPeer = demo_worker\<lparr>Status := StatusOffline, LastSeen := Some (- 3600 * second)\<rparr>, psState = StateOffline\<rparr>)]\<rparr>"


end
