(* ===== verification/Reconcile_Redelivery.thy ===== *)
theory Reconcile_Redelivery
  imports Reconcile_Stash
begin

text \<open>
  Redelivery of stashed replies: what \<open>redeliverPendingReplies\<close> does to each ask of the peer that came
  back, whatever the outcome of the individual deliveries.
\<close>

text \<open>Clearing a delivered stash closes that ask and touches no other.\<close>

lemma Mark_delivered:
  assumes t: "tracker_ok t" and a: "stashed t cid = Some a"
  shows "\<exists>b t' a'. MarkPendingReplyDelivered cid nf reason t = Some (b, t') \<and> tracker_ok t' \<and>
     gm_get (tr_asks t') cid = Some a' \<and> PendingReply a' = None \<and> Closed a' \<and>
     (\<forall>c. c \<noteq> cid \<longrightarrow> gm_get (tr_asks t') c = gm_get (tr_asks t) c)"
proof -
  have g: "gm_get (tr_asks t) cid = Some a" "PendingReply a \<noteq> None" using a by (simp_all add: stashed_Some)
  from MarkPendingReplyDelivered_ok [OF t, of cid nf reason] obtain b t' where
    m: "MarkPendingReplyDelivered cid nf reason t = Some (b, t')" "tracker_ok t'" by (auto simp: op_ok_def)
  let ?a1 = "case nf of None \<Rightarrow> a | Some f \<Rightarrow> a\<lparr>FromPeerID := f\<rparr>"
  have c1: "Closed ?a1 = Closed a" by (simp split: option.split)
  show ?thesis
  proof (cases "Closed a")
    case True
    then have "tr_asks t' = gm_put cid (?a1\<lparr>PendingReply := None\<rparr>) (tr_asks t)"
      using m(1) g c1 by (auto simp: MarkPendingReplyDelivered_def Let_def)
    with m True c1 show ?thesis by simp
  next
    case False
    let ?a2 = "?a1\<lparr>Closed := True, CloseReason := reason, PendingReply := None\<rparr>"
    have "AskAnswer a = None" using tracker_ok_ask [OF t g(1)] False by (auto simp: ask_ok_def)
    then have "ask_ok cid ?a2"
      using tracker_ok_ask [OF t g(1)] by (auto simp: ask_ok_def split: option.split)
    then obtain s where s: "resolveWaiter cid (outcome_answer ''cancelled'' (Some reason)) (t\<lparr>tr_asks := gm_put cid ?a2 (tr_asks t)\<rparr>) = Some s"
      "signalled cid (outcome_answer ''cancelled'' (Some reason)) (t\<lparr>tr_asks := gm_put cid ?a2 (tr_asks t)\<rparr>) s"
      using close_and_resolve [OF t g(1), of ?a2] by auto
    have "t' = s" using m(1) g c1 False s(1)
      by (simp add: MarkPendingReplyDelivered_def Let_def cancelWaiter_def)
    then have "tr_asks t' = gm_put cid ?a2 (tr_asks t)" using s(2) by (simp add: signalled_def)
    with m show ?thesis by simp
  qed
qed

text \<open>What one ask with a stash looks like once its redelivery has been tried.\<close>

definition tried :: "probes \<Rightarrow> string \<Rightarrow> ask \<Rightarrow> tracker \<Rightarrow> bool" where
  "tried q asker a t \<longleftrightarrow>
     (if NotifyOK q (ToPeerID a) asker (the (PendingReply a))
      then \<exists>a'. gm_get (tr_asks t) (CorrelationID a) = Some a' \<and> PendingReply a' = None \<and> Closed a'
      else gm_get (tr_asks t) (CorrelationID a) = Some a)"

definition notified :: "string \<Rightarrow> ask \<Rightarrow> action" where
  "notified asker a = ANotify (ToPeerID a) asker (the (PendingReply a))"

lemma deliverOne_step:
  assumes t: "tracker_ok t" and a: "stashed t (CorrelationID a) = Some a"
  shows "\<exists>t'. deliverOneStashed q asker rebind a (r, t) = Some (trace (notified asker a) r, t') \<and> tracker_ok t' \<and>
     tried q asker a t' \<and> (\<forall>c. c \<noteq> CorrelationID a \<longrightarrow> gm_get (tr_asks t') c = gm_get (tr_asks t) c)"
proof -
  obtain msg where msg: "PendingReply a = Some msg" "gm_get (tr_asks t) (CorrelationID a) = Some a"
    using a by (auto simp: stashed_Some)
  show ?thesis
  proof (cases "NotifyOK q (ToPeerID a) asker msg")
    case True
    from Mark_delivered [OF t a, of "if rebind then Some asker else None" "''ack_with_msg''"]
    show ?thesis using True msg
      by (auto simp: deliverOneStashed_def Let_def notified_def tried_def)
  next
    case False
    with t msg show ?thesis by (simp add: deliverOneStashed_def Let_def notified_def tried_def)
  qed
qed

lemma deliver_all_step:
  "tracker_ok t \<Longrightarrow> distinct (map CorrelationID as) \<Longrightarrow> \<forall>a \<in> set as. stashed t (CorrelationID a) = Some a \<Longrightarrow>
   \<exists>r' t'. deliver_all q asker rebind as (r, t) = Some (r', t') \<and> tracker_ok t' \<and>
     rgTrace r' = rgTrace r @ map (notified asker) as \<and> rgPeers r' = rgPeers r \<and>
     (\<forall>a \<in> set as. tried q asker a t') \<and>
     (\<forall>c. c \<notin> CorrelationID ` set as \<longrightarrow> gm_get (tr_asks t') c = gm_get (tr_asks t) c)"
proof (induction as arbitrary: r t)
  case Nil
  then show ?case by simp
next
  case (Cons a as)
  have sa: "stashed t (CorrelationID a) = Some a" using Cons.prems(3) by simp
  from deliverOne_step [OF Cons.prems(1) sa, of q asker rebind r]
  obtain t1 where one: "deliverOneStashed q asker rebind a (r, t) = Some (trace (notified asker a) r, t1)" "tracker_ok t1"
    "tried q asker a t1" "\<forall>c. c \<noteq> CorrelationID a \<longrightarrow> gm_get (tr_asks t1) c = gm_get (tr_asks t) c" by blast
  have d: "distinct (map CorrelationID as)" "CorrelationID a \<notin> CorrelationID ` set as" using Cons.prems(2) by auto
  have "\<forall>b \<in> set as. stashed t1 (CorrelationID b) = Some b"
  proof
    fix b assume b: "b \<in> set as"
    then have "CorrelationID b \<noteq> CorrelationID a" using d(2) by (metis imageI)
    then have "gm_get (tr_asks t1) (CorrelationID b) = gm_get (tr_asks t) (CorrelationID b)" using one(4) by blast
    with Cons.prems(3) b show "stashed t1 (CorrelationID b) = Some b" by (simp add: stashed_def)
  qed
  from Cons.IH [OF one(2) d(1) this, of "trace (notified asker a) r"]
  obtain r' t' where rest: "deliver_all q asker rebind as (trace (notified asker a) r, t1) = Some (r', t')" "tracker_ok t'"
    "rgTrace r' = rgTrace (trace (notified asker a) r) @ map (notified asker) as" "rgPeers r' = rgPeers r"
    "\<forall>a \<in> set as. tried q asker a t'"
    "\<forall>c. c \<notin> CorrelationID ` set as \<longrightarrow> gm_get (tr_asks t') c = gm_get (tr_asks t1) c" by auto
  have "gm_get (tr_asks t') (CorrelationID a) = gm_get (tr_asks t1) (CorrelationID a)" using rest(6) d(2) by blast
  then have "tried q asker a t'" using one(3) by (simp add: tried_def)
  moreover have "rgTrace r' = rgTrace r @ map (notified asker) (a # as)" using rest(3) by (simp add: trace_def)
  ultimately show ?case using one rest by simp
qed

lemma selected_asks:
  assumes t: "tracker_ok t"
  shows "distinct (map CorrelationID (map snd (gm_select P (tr_asks t))))"
    "a \<in> set (map snd (gm_select P (tr_asks t))) \<longleftrightarrow>
       gm_get (tr_asks t) (CorrelationID a) = Some a \<and> P (CorrelationID a) a"
proof -
  have ids: "CorrelationID a = c" if "gm_get (tr_asks t) c = Some a" for c a
    using tracker_ok_ask [OF t that] by (simp add: ask_ok_def)
  have "map CorrelationID (map snd (gm_select P (tr_asks t))) = map fst (gm_select P (tr_asks t))"
    using t ids by (auto simp: set_gm_select)
  then show "distinct (map CorrelationID (map snd (gm_select P (tr_asks t))))"
    using distinct_keys_gm_select [OF tracker_ok_gm_ok [OF t], of P] by metis
  show "a \<in> set (map snd (gm_select P (tr_asks t))) \<longleftrightarrow>
       gm_get (tr_asks t) (CorrelationID a) = Some a \<and> P (CorrelationID a) a"
    unfolding mem_map_snd_gm_select [OF tracker_ok_gm_ok [OF t]] using ids by blast
qed

lemma take_pending_mem:
  assumes "tracker_ok t"
  shows "a \<in> set (TakePendingRepliesForAsker i t) \<longleftrightarrow> stashed t (CorrelationID a) = Some a \<and> FromPeerID a = i"
  unfolding TakePendingRepliesForAsker_def selected_asks(2) [OF assms] by (auto simp: stashed_Some)

lemma orphans_mem:
  assumes "tracker_ok t" "a \<in> set (TakeOrphanPendingRepliesMatching ident live t)"
  shows "stashed t (CorrelationID a) = Some a \<and> \<not> gm_has live (FromPeerID a)"
  using assms(2) unfolding TakeOrphanPendingRepliesMatching_def selected_asks(2) [OF assms(1)]
  by (auto simp: stashed_Some)

text \<open>The second pass never touches an ask that has no stash or whose asker is registered.\<close>

lemma rebind_pass_spares:
  assumes t: "tracker_ok t"
  shows "\<exists>r' t'. rebind_pass q asker (r, t) = Some (r', t') \<and> tracker_ok t' \<and>
     (\<forall>c a. gm_get (tr_asks t) c = Some a \<and> (PendingReply a = None \<or> gm_has (rgPeers r) (FromPeerID a)) \<longrightarrow>
        gm_get (tr_asks t') c = Some a) \<and>
     (\<exists>xs. rgTrace r' = rgTrace r @ xs) \<and> (gm_get (rgPeers r) asker = None \<longrightarrow> (r', t') = (r, t))"
proof (cases "\<exists>ps ident. gm_get (rgPeers r) asker = Some ps \<and> identity_of q (psPeer ps) = Some ident \<and>
    identity_matches q ident r = [asker]")
  case False
  then have "rebind_pass q asker (r, t) = Some (r, t)" by (auto simp: rebind_pass_def split: option.split)
  with t show ?thesis by simp
next
  case True
  then obtain ps ident where ps: "gm_get (rgPeers r) asker = Some ps" "identity_of q (psPeer ps) = Some ident"
    "identity_matches q ident r = [asker]" by blast
  let ?live = "map (\<lambda>(i, ps). (i, ())) (rgPeers r)"
  let ?as = "TakeOrphanPendingRepliesMatching ident ?live t"
  have live: "gm_has ?live i = gm_has (rgPeers r) i" for i
  proof -
    have "fst ` set ?live = fst ` set (rgPeers r)" by force
    then show ?thesis by (simp add: gm_has_def gm_get_None_iff)
  qed
  have "distinct (map CorrelationID ?as)"
    unfolding TakeOrphanPendingRepliesMatching_def by (rule selected_asks(1) [OF t])
  moreover have "\<forall>a \<in> set ?as. stashed t (CorrelationID a) = Some a" using orphans_mem [OF t] by blast
  ultimately obtain r' t' where d: "deliver_all q asker True ?as (r, t) = Some (r', t')" "tracker_ok t'"
    "rgTrace r' = rgTrace r @ map (notified asker) ?as"
    "\<forall>c. c \<notin> CorrelationID ` set ?as \<longrightarrow> gm_get (tr_asks t') c = gm_get (tr_asks t) c"
    using deliver_all_step [OF t, of ?as q asker True r] by blast
  have spare: "gm_get (tr_asks t') c = Some a" if "gm_get (tr_asks t) c = Some a" "PendingReply a = None \<or> gm_has (rgPeers r) (FromPeerID a)" for c a
  proof -
    have "c \<notin> CorrelationID ` set ?as"
    proof
      assume "c \<in> CorrelationID ` set ?as"
      then obtain b where b: "b \<in> set ?as" "CorrelationID b = c" by blast
      from orphans_mem [OF t b(1)] b(2) that(1) have "b = a" by (simp add: stashed_Some)
      with orphans_mem [OF t b(1)] live that(2) show False by (auto simp: stashed_Some)
    qed
    with d(4) that(1) show ?thesis by simp
  qed
  have "rebind_pass q asker (r, t) = Some (r', t')" using ps d(1) by (simp add: rebind_pass_def)
  with d(2,3) spare ps(1) show ?thesis by auto
qed


text \<open>A reply stashed for \<open>p1\<close> whose delivery fails is still there; nothing is lost.\<close>

definition demo_probes :: "bool \<Rightarrow> probes" where
  "demo_probes up = \<lparr>PaneProbe = None, Ping = \<lambda>i. None, NotifyOK = \<lambda>a b c. up, HasDelivery = True, NormPath = \<lambda>p. p\<rparr>"

definition demo_asker :: registry where
  "demo_asker = demo_claim\<lparr>rgHasAsks := True, rgPeers :=
     [(''p1'', \<lparr>psPeer = demo_peer ''p1'' ''api'' ''dev'', psState = StateOnline\<rparr>)]\<rparr>"


end
