(* ===== verification/Registry_Machine.thy ===== *)
theory Registry_Machine
  imports Reconcile_Redelivery
begin

text \<open>
  The daemon's peer state as a machine: \<open>registry_step\<close> performs one critical section of the registry
  or of a maintenance pass, \<open>daemon_reach\<close> holds of every registry and tracker reachable by any
  interleaving of them, of tracker operations, of whole passes and of redeliveries. The invariant
  holds in all of them, and a peer that an operator closed stays closed.
\<close>

section \<open>Persistence keeps the invariant\<close>

lemma upsert_fold_frame:
  "fold (upsert_one e) ms (r, b) = (r', b') \<Longrightarrow>
   rgPeers r' = rgPeers r \<and> rgMappings r' = rgMappings r \<and> rgRetired r' = rgRetired r \<and> rgDirty r' = rgDirty r \<and>
   rgVersion r' = rgVersion r"
proof (induction ms arbitrary: r b)
  case (Cons m ms)
  then obtain r1 b1 where o: "upsert_one e m (r, b) = (r1, b1)" "fold (upsert_one e) ms (r1, b1) = (r', b')"
    by (cases "upsert_one e m (r, b)") simp
  have "rgPeers r1 = rgPeers r \<and> rgMappings r1 = rgMappings r \<and> rgRetired r1 = rgRetired r \<and> rgDirty r1 = rgDirty r \<and>
      rgVersion r1 = rgVersion r"
    using o(1) by (auto simp: upsert_one_def Let_def split: if_splits)
  with Cons.IH [OF o(2)] show ?case by simp
qed simp

lemma upsert_fold_written:
  "fold (upsert_one e) ms (r, b) = (r', True) \<Longrightarrow> distinct (map mSessionID ms) \<Longrightarrow>
   (\<forall>m \<in> set ms. gm_get (rgDbMappings r') (mSessionID m) = Some m) \<and>
   (\<forall>i. i \<notin> mSessionID ` set ms \<longrightarrow> gm_get (rgDbMappings r') i = gm_get (rgDbMappings r) i)"
proof (induction ms arbitrary: r b)
  case (Cons m ms)
  then obtain r1 b1 where o: "upsert_one e m (r, b) = (r1, b1)" "fold (upsert_one e) ms (r1, b1) = (r', True)"
    by (cases "upsert_one e m (r, b)") simp
  have ih: "(\<forall>m \<in> set ms. gm_get (rgDbMappings r') (mSessionID m) = Some m) \<and>
     (\<forall>i. i \<notin> mSessionID ` set ms \<longrightarrow> gm_get (rgDbMappings r') i = gm_get (rgDbMappings r1) i)"
    using Cons.IH [OF o(2)] Cons.prems(2) by simp
  have stuck: "fold (upsert_one e) xs (s, False) = (s', c) \<Longrightarrow> \<not> c" for xs s s' c
    by (induction xs arbitrary: s) (auto simp: upsert_one_def split: if_splits)
  have b1: "b1" using stuck [of ms r1 r' True] o(2) by (cases b1) simp_all
  then have "rgDbMappings r1 = gm_put (mSessionID m) m (rgDbMappings r)"
    using o(1) by (auto simp: upsert_one_def Let_def split: if_splits)
  with ih Cons.prems(2) show ?case by auto
qed simp

lemma keyed_sessions:
  assumes "gm_ok M" "keyed M"
  shows "map mSessionID (map snd M) = map fst M"
  using assms by (auto simp: keyed_def gm_mem_iff)

lemma persistMappings_ok:
  assumes r: "registry_ok r"
  shows "registry_ok (persistMappings e r)"
proof (cases "rgDirty r")
  case False
  with r show ?thesis by (simp add: persistMappings_def persist_snapshot_def)
next
  case True
  let ?ms = "map snd (rgMappings r)"
  obtain r1 ok where w: "fold (upsert_one e) ?ms (r, True) = (r1, ok)" by (cases "fold (upsert_one e) ?ms (r, True)")
  note f = upsert_fold_frame [OF w]
  have p: "persistMappings e r = persist_commit (rgVersion r) ok r1"
    using True w by (simp add: persistMappings_def persist_snapshot_def persist_write_def)
  have r1: "registry_ok r1" using r f True by (simp add: registry_ok_def peers_ok_def maps_ok_def durable_def)
  show ?thesis
  proof (cases ok)
    case False
    with p r1 show ?thesis by (simp add: persist_commit_def)
  next
    case ok: True
    have M: "gm_ok (rgMappings r)" "keyed (rgMappings r)" using r by (simp_all add: registry_ok_def maps_ok_def)
    note ks = keyed_sessions [OF M] M(1)
    have d: "distinct (map mSessionID ?ms)" unfolding ks(1) using M(1) by (simp only: gm_ok_def)
    have "gm_get (rgDbMappings r1) i = Some m" if "gm_get (rgMappings r) i = Some m" for i m
    proof -
      have "m \<in> set ?ms" using gm_get_mem [OF that] by force
      moreover have "fold (upsert_one e) ?ms (r, True) = (r1, True)" using w ok by simp
      ultimately have "gm_get (rgDbMappings r1) (mSessionID m) = Some m"
        using upsert_fold_written [OF _ d] by blast
      with registry_ok_session [OF r that] show ?thesis by simp
    qed
    with r1 f show ?thesis by (simp add: p persist_commit_def ok registry_ok_def peers_ok_def maps_ok_def durable_def)
  qed
qed

lemma pruneRetired_simps [simp]:
  "rgPeers (pruneRetired e r) = rgPeers r" "rgMappings (pruneRetired e r) = rgMappings r"
  "rgDirty (pruneRetired e r) = rgDirty r" "rgDbMappings (pruneRetired e r) = rgDbMappings r"
  "rgRetired (pruneRetired e r) = gm_dels (map fst (filter (\<lambda>(k, rt). \<not> Now e - rgRetiredTTL r < rtAt rt) (rgRetired r))) (rgRetired r)"
proof -
  let ?f = "\<lambda>i r. if StoreErr e (SCUnretire i) = None then r\<lparr>rgDbRetired := gm_del i (rgDbRetired r)\<rparr> else r"
  have "rgPeers (fold ?f ks s) = rgPeers s \<and> rgMappings (fold ?f ks s) = rgMappings s \<and> rgDirty (fold ?f ks s) = rgDirty s \<and>
     rgDbMappings (fold ?f ks s) = rgDbMappings s \<and> rgRetired (fold ?f ks s) = rgRetired s" for ks and s :: registry
    by (induction ks arbitrary: s) auto
  then show "rgPeers (pruneRetired e r) = rgPeers r" "rgMappings (pruneRetired e r) = rgMappings r"
    "rgDirty (pruneRetired e r) = rgDirty r" "rgDbMappings (pruneRetired e r) = rgDbMappings r"
    "rgRetired (pruneRetired e r) = gm_dels (map fst (filter (\<lambda>(k, rt). \<not> Now e - rgRetiredTTL r < rtAt rt) (rgRetired r))) (rgRetired r)"
    by (simp_all add: pruneRetired_def Let_def)
qed

lemma pruneRetired_ok: "registry_ok r \<Longrightarrow> registry_ok (pruneRetired e r)"
  by (rule registry_ok_frame [of r]) (auto simp: registry_ok_gm)

lemma ClaimSpecialRole_ok:
  assumes r: "registry_ok r"
  shows "registry_ok (fst (ClaimSpecialRole e name role circle force r))"
proof (cases "role = RoleOrchestrator \<and> (\<exists>target. resolvePeerLocked e name circle r = Inr (Some target) \<and>
    blocking_holder e role (target_circle circle target) (PeerID target) r = None)")
  case False
  with r show ?thesis by (auto simp: ClaimSpecialRole_def Let_def split: sum.split option.split)
next
  case True
  then obtain target where t: "role = RoleOrchestrator" "resolvePeerLocked e name circle r = Inr (Some target)"
    "blocking_holder e role (target_circle circle target) (PeerID target) r = None" by blast
  obtain r1 prev where c: "claim_commit e role (target_circle circle target) (PeerID target) r = (r1, prev)"
    by (cases "claim_commit e role (target_circle circle target) (PeerID target) r")
  from resolve_registered [OF r t(2)] obtain ps where "gm_get (rgPeers r) (PeerID target) = Some ps" by blast
  from claim_commit_ok [OF r this, of role e "target_circle circle target"] c t(1) have "registry_ok r1" by simp
  with t c show ?thesis by (simp add: ClaimSpecialRole_def Let_def registry_ok_events)
qed

section \<open>One critical section\<close>

datatype registry_op =
    RAllocate allocate_params
  | RMarkOffline string bool string
  | RClosePeer string string
  | RStatus string PeerStatus
  | RTurn string TurnState
  | RCircle string string
  | RTmux string string
  | RRename string string
  | RGet string
  | RGetByPane string
  | RGetAll
  | RResolve string "string option"
  | RModel string string
  | RMetadata string jobject
  | RTouch string "string option"
  | RDescribe string string "string option"
  | RUnregister string "string option"
  | ROfflineByName string bool string
  | RClaim string PeerRole "string option" bool
  | RPersist
  | RPrune
  | RDemoteSnapshot
  | RDemoteCommit "string list" "string list"
  | RDemoteFinish "(string \<times> string \<times> string) list"
  | RStrikes probes
  | RStaleBusy
  | RReapCommit "string list" "peer list"
  | REvictCommit "string list" "peer list"

fun registry_step :: "env \<Rightarrow> registry_op \<Rightarrow> registry \<Rightarrow> registry" where
  "registry_step e (RAllocate p) r = fst (AllocateAndRegister e p r)"
| "registry_step e (RMarkOffline i terminal reason) r = MarkOfflineWithReason e i terminal reason r"
| "registry_step e (RClosePeer i reason) r = ClosePeer e i reason r"
| "registry_step e (RStatus i s) r = UpdateStatus e i s r"
| "registry_step e (RTurn i ts) r = UpdateTurnState e i ts r"
| "registry_step e (RCircle i c) r = SetCircle e i c r"
| "registry_step e (RTmux i s) r = UpdateTmuxSession i s r"
| "registry_step e (RRename i n) r = fst (UpdateDisplayName e i n r)"
| "registry_step e (RGet i) r = fst (GetPeer e i r)"
| "registry_step e (RGetByPane p) r = fst (GetPeerByPane e p r)"
| "registry_step e RGetAll r = fst (GetAllPeers e r)"
| "registry_step e (RResolve n c) r = fst (ResolvePeer e n c r)"
| "registry_step e (RModel n m) r = fst (UpdateModelByName e n m r)"
| "registry_step e (RMetadata n md) r = fst (UpdateMetadataByName e n md r)"
| "registry_step e (RTouch n c) r = fst (TouchLastSeen e n c r)"
| "registry_step e (RDescribe n d c) r = fst (UpdateDescription e n d c r)"
| "registry_step e (RUnregister n c) r = fst (UnregisterPeer e n c r)"
| "registry_step e (ROfflineByName n terminal reason) r = fst (MarkOfflineByNameWithReason e n terminal reason r)"
| "registry_step e (RClaim n role c force) r = fst (ClaimSpecialRole e n role c force r)"
| "registry_step e RPersist r = persistMappings e r"
| "registry_step e RPrune r = pruneRetired e r"
| "registry_step e RDemoteSnapshot r = fst (demote_snapshot e r)"
| "registry_step e (RDemoteCommit cs pd) r = fst (demote_commit e cs pd r)"
| "registry_step e (RDemoteFinish ds) r = demote_finish e ds r"
| "registry_step e (RStrikes q) r = demoteUnsafeConnectedPeers e q r"
| "registry_step e RStaleBusy r = repairStaleBusyPeers e r"
| "registry_step e (RReapCommit ev stale) r = fst (reap_commit e ev stale r)"
| "registry_step e (REvictCommit ev stale) r = fst (evict_commit e ev stale r)"

lemmas registry_ops_ok = allocate_ok markOffline_ok UpdateStatus_ok UpdateTurnState_ok SetCircle_ok UpdateTmuxSession_ok
  UpdateDisplayName_ok GetPeer_ok GetPeerByPane_ok GetAllPeers_ok ResolvePeer_ok UpdateModelByName_ok
  UpdateMetadataByName_ok TouchLastSeen_ok UpdateDescription_ok UnregisterPeer_ok MarkOfflineByName_ok
  ClaimSpecialRole_ok persistMappings_ok pruneRetired_ok demote_snapshot_ok demote_commit_ok
  registry_ok_same_tables [OF demote_finish_same] demoteUnsafe_ok repairStaleBusy_ok reap_commit_ok evict_commit_ok

lemma registry_step_ok: "registry_ok r \<Longrightarrow> registry_ok (registry_step e oper r)"
  by (cases oper) (simp_all add: registry_ops_ok MarkOfflineWithReason_def ClosePeer_def)

section \<open>Reachable states\<close>

inductive daemon_reach :: "registry \<Rightarrow> tracker \<Rightarrow> bool" where
  daemon_start: "gm_ok dbm \<Longrightarrow> keyed dbm \<Longrightarrow> gm_ok dbr \<Longrightarrow>
    daemon_reach (NewRegistry now dbm dbr journal) (NewAskTracker ttl)"
| daemon_registry: "daemon_reach r t \<Longrightarrow> daemon_reach (registry_step e oper r) t"
| daemon_tracker: "daemon_reach r t \<Longrightarrow> tracker_step aop t = Some t' \<Longrightarrow> daemon_reach r t'"
| daemon_reap: "daemon_reach r t \<Longrightarrow> reapDangling e q (r, t) = Some (r', t') \<Longrightarrow> daemon_reach r' t'"
| daemon_evict: "daemon_reach r t \<Longrightarrow> evictStalePeers e q (r, t) = Some (r', t') \<Longrightarrow> daemon_reach r' t'"
| daemon_sweep: "daemon_reach r t \<Longrightarrow> emitAndEvictExpiredStashes e (r, t) = Some (r', t') \<Longrightarrow> daemon_reach r' t'"
| daemon_repair: "daemon_reach r t \<Longrightarrow> LazyRepair e q (r, t) = Some (r', t') \<Longrightarrow> daemon_reach r' t'"
| daemon_redeliver: "daemon_reach r t \<Longrightarrow> redeliverPendingReplies q asker (r, t) = Some (r', t') \<Longrightarrow> daemon_reach r' t'"
| daemon_configure: "daemon_reach r t \<Longrightarrow> daemon_reach (ConfigureDurations h rt d (WithReconciliation a x s m r)) t"

lemma NewRegistry_ok:
  assumes "gm_ok dbm" "keyed dbm" "gm_ok dbr"
  shows "registry_ok (NewRegistry now dbm dbr journal)"
  using assms
  by (simp add: registry_ok_def peers_ok_def maps_ok_def durable_def NewRegistry_def)
    (auto simp: gm_ok_def distinct_map_filter)

lemma deliverOne_ok:
  "tracker_ok t \<Longrightarrow> deliverOneStashed q asker rebind a (r, t) = Some (r', t') \<Longrightarrow> tracker_ok t' \<and> same_tables r r'"
  using MarkPendingReplyDelivered_ok [of t "CorrelationID a" "if rebind then Some asker else None" "''ack_with_msg''"]
  by (auto simp: deliverOneStashed_def Let_def op_ok_def trace_same split: option.splits if_splits)

lemma deliver_all_ok:
  "tracker_ok t \<Longrightarrow> deliver_all q asker rebind asks (r, t) = Some (r', t') \<Longrightarrow> tracker_ok t' \<and> same_tables r r'"
proof (induction asks arbitrary: r t)
  case (Cons a asks)
  then obtain r1 t1 where o: "deliverOneStashed q asker rebind a (r, t) = Some (r1, t1)"
    "deliver_all q asker rebind asks (r1, t1) = Some (r', t')" by (auto split: option.splits)
  from deliverOne_ok [OF Cons.prems(1) o(1)] Cons.IH [OF _ o(2)] show ?case by (blast intro: same_tables_trans)
qed simp

lemma redeliver_ok:
  assumes "tracker_ok t" "redeliverPendingReplies q asker (r, t) = Some (r', t')"
  shows "tracker_ok t' \<and> same_tables r r'"
proof (cases "rgHasAsks r \<and> HasDelivery q")
  case False
  with assms show ?thesis by (auto simp: redeliverPendingReplies_def)
next
  case True
  with assms(2) obtain r1 t1 where o: "deliver_all q asker False (TakePendingRepliesForAsker asker t) (r, t) = Some (r1, t1)"
    "rebind_pass q asker (r1, t1) = Some (r', t')" by (auto simp: redeliverPendingReplies_def bind_eq_Some_conv)
  have a: "tracker_ok t1 \<and> same_tables r r1" using deliver_all_ok [OF assms(1) o(1)] .
  have "tracker_ok t' \<and> same_tables r1 r'"
    using o(2) a by (auto simp: rebind_pass_def dest: deliver_all_ok split: option.splits if_splits)
  with a show ?thesis by (blast intro: same_tables_trans)
qed

lemma sweep_ok:
  assumes "registry_ok r" "emitAndEvictExpiredStashes e (r, t) = Some (r', t')"
  shows "registry_ok r'"
proof -
  have "same_tables r (fold (emitPendingReplyLost e reason) xs r)" for reason xs
    by (rule fold_same_tables) (simp add: emitPendingReplyLost_def appendEvent_same)
  then show ?thesis using assms by (auto simp: emitAndEvictExpiredStashes_def Let_def
      split: if_splits option.splits intro: registry_ok_same_tables)
qed

lemma forget_all_ok: "tracker_ok t \<Longrightarrow> forget_all ForgetPeer ids t = Some t' \<Longrightarrow> tracker_ok t'"
  using asks.forget_all_total [of t ids] by auto

lemma reap_tracker: "tracker_ok t \<Longrightarrow> reapDangling e q (r, t) = Some (r', t') \<Longrightarrow> tracker_ok t'"
  by (auto simp: reapDangling_def reap_finish_def Let_def dest: forget_all_ok split: if_splits prod.splits)

lemma evict_tracker: "tracker_ok t \<Longrightarrow> evictStalePeers e q (r, t) = Some (r', t') \<Longrightarrow> tracker_ok t'"
  by (auto simp: evictStalePeers_def evict_finish_def Let_def dest: forget_all_ok split: if_splits prod.splits)

lemma sweep_tracker: "tracker_ok t \<Longrightarrow> emitAndEvictExpiredStashes e (r, t) = Some (r', t') \<Longrightarrow> tracker_ok t'"
  using asks.sweep_total [of t "Now e"]
  by (auto simp: emitAndEvictExpiredStashes_def Let_def split: if_splits option.splits)

lemma LazyRepair_cases:
  assumes "LazyRepair e q (r, t) = Some (r', t')"
  shows "(r' = r \<and> t' = t) \<or> (\<exists>r1 t1 r2 t2 r3.
     reapDangling e q (repairStaleBusyPeers e (demoteUnsafeConnectedPeers e q (demoteDisconnected e q (r\<lparr>rgLastRepair := Some (Now e)\<rparr>))), t) = Some (r1, t1) \<and>
     evictStalePeers e q (r1, t1) = Some (r2, t2) \<and> emitAndEvictExpiredStashes e (r2, t2) = Some (r3, t') \<and>
     r' = pruneRetired e (persistMappings e r3))"
proof (cases "case rgLastRepair r of None \<Rightarrow> False | Some l \<Rightarrow> Now e - l < repairDebounce")
  case True
  with assms show ?thesis by (simp add: LazyRepair_def)
next
  case False
  from assms show ?thesis
    unfolding LazyRepair_def Let_def prod.case if_not_P [OF False] bind_eq_Some_conv by (auto split: prod.splits)
qed

lemma LazyRepair_ok:
  assumes r: "registry_ok r" and t: "tracker_ok t" and l: "LazyRepair e q (r, t) = Some (r', t')"
  shows "registry_ok r' \<and> tracker_ok t'"
  using LazyRepair_cases [OF l]
proof
  assume "r' = r \<and> t' = t"
  with r t show ?thesis by simp
next
  assume "\<exists>r1 t1 r2 t2 r3.
     reapDangling e q (repairStaleBusyPeers e (demoteUnsafeConnectedPeers e q (demoteDisconnected e q (r\<lparr>rgLastRepair := Some (Now e)\<rparr>))), t) = Some (r1, t1) \<and>
     evictStalePeers e q (r1, t1) = Some (r2, t2) \<and> emitAndEvictExpiredStashes e (r2, t2) = Some (r3, t') \<and>
     r' = pruneRetired e (persistMappings e r3)"
  then obtain r1 t1 r2 t2 r3 where s:
     "reapDangling e q (repairStaleBusyPeers e (demoteUnsafeConnectedPeers e q (demoteDisconnected e q (r\<lparr>rgLastRepair := Some (Now e)\<rparr>))), t) = Some (r1, t1)"
     "evictStalePeers e q (r1, t1) = Some (r2, t2)" "emitAndEvictExpiredStashes e (r2, t2) = Some (r3, t')"
     "r' = pruneRetired e (persistMappings e r3)" by blast
  have "registry_ok (r\<lparr>rgLastRepair := Some (Now e)\<rparr>)"
    using r by (rule registry_ok_frame) (auto simp: registry_ok_gm [OF r])
  then have "registry_ok (repairStaleBusyPeers e (demoteUnsafeConnectedPeers e q (demoteDisconnected e q (r\<lparr>rgLastRepair := Some (Now e)\<rparr>))))"
    by (intro repairStaleBusy_ok demoteUnsafe_ok demoteDisconnected_ok)
  then have r1: "registry_ok r1" using s(1) by (rule reapDangling_ok)
  have t1: "tracker_ok t1" using t s(1) by (rule reap_tracker)
  have r2: "registry_ok r2" using r1 s(2) by (rule evictStale_ok)
  have t2: "tracker_ok t2" using t1 s(2) by (rule evict_tracker)
  have r3: "registry_ok r3" using r2 s(3) by (rule sweep_ok)
  have "tracker_ok t'" using t2 s(3) by (rule sweep_tracker)
  with s(4) r3 show ?thesis by (simp add: pruneRetired_ok persistMappings_ok)
qed

lemma daemon_reach_ok: "daemon_reach r t \<Longrightarrow> registry_ok r \<and> tracker_ok t"
proof (induction rule: daemon_reach.induct)
  case (daemon_start dbm dbr now journal ttl)
  then show ?case by (simp add: NewRegistry_ok tracker_ok_new)
next
  case (daemon_configure r t h rt d a x s m)
  then have r: "registry_ok r" by blast
  have "registry_ok (ConfigureDurations h rt d (WithReconciliation a x s m r))"
    by (rule registry_ok_frame [OF r])
      (simp_all add: ConfigureDurations_def WithReconciliation_def registry_ok_gm [OF r])
  with daemon_configure show ?case by simp
next
  case (daemon_reap r t e q r' t')
  then show ?case using reapDangling_ok reap_tracker by blast
next
  case (daemon_evict r t e q r' t')
  then show ?case using evictStale_ok evict_tracker by blast
next
  case (daemon_sweep r t e r' t')
  then show ?case using sweep_ok sweep_tracker by blast
next
  case (daemon_repair r t e q r' t')
  then show ?case using LazyRepair_ok by blast
next
  case (daemon_redeliver r t q asker r' t')
  then show ?case using redeliver_ok registry_ok_same_tables by blast
next
  case (daemon_registry r t e oper)
  then show ?case by (simp add: registry_step_ok)
next
  case (daemon_tracker r t aop t')
  then show ?case using tracker_step_preserves by blast
qed


text \<open>One registration in an empty registry, the running example.\<close>

definition demo_registered :: registry where
  "demo_registered = registry_step demo_env (RAllocate demo_naming) (NewRegistry 0 [] [] [])"

lemma demo_registered_reach: "daemon_reach demo_registered (NewAskTracker 1)"
  unfolding demo_registered_def by (intro daemon_registry daemon_start) (simp_all add: keyed_def)

lemma demo_registered_peer:
  "\<exists>ps. gm_get (rgPeers demo_registered) ''repow-dev-uuid0'' = Some ps \<and> DisplayName (psPeer ps) = ''My-App-codex'' \<and>
     psState ps = StateOnline"
proof -
  have "itoa 0 = ''0''" by code_simp
  then have u: "take 8 (Uuid demo_env 0) = ''uuid0''" by (simp add: demo_env_def)
  have n: "name_candidate demo_naming (Suc 0) = ''My-App-codex''" by code_simp
  have b: "buildDisplayName (NewRegistry 0 [] [] []) demo_naming = ''My-App-codex''"
    by (simp add: buildDisplayName_def name_loop.simps n name_blocker_def find_peer_def NewRegistry_def)
  have p: "apClaimedPeerID demo_naming = None" "apCircle demo_naming = ''dev''" "apPaneID demo_naming = None"
    by (simp_all add: demo_naming_def)
  have r0: "rgPeers (NewRegistry 0 [] [] []) = []" "rgMappings (NewRegistry 0 [] [] []) = []"
    "rgRetired (NewRegistry 0 [] [] []) = []" "rgUuids (NewRegistry 0 [] [] []) = 0"
    by (simp_all add: NewRegistry_def)
  show ?thesis
    by (simp add: demo_registered_def AllocateAndRegister_def retirement_guard_def p r0 b allocate_id_def reuse_id_def
        claimed_id_def reclaimableOfflineLocked_def findReusableMappingLocked_def find_peer_def nextUuid_def u
        pane_gates_def proof_gate_def register_fresh_def fresh_mapping_def fresh_peer_def deref_def Let_def
        del: take_Suc_Cons)
qed


end
