(* ===== verification/Registry_Closed.thy ===== *)
theory Registry_Closed
  imports Registry_Machine
begin

text \<open>
  Operator close. \<open>ClosePeer\<close> writes a hard tombstone; as long as the retired record is registered no
  critical section of the registry reopens it, except the ones \<open>may_reopen\<close> lists. After a restart the
  record is gone and the guard, which looks at the claimed id only, lets a registration without a
  claim adopt the closed identity through its durable mapping.
\<close>

definition closed :: "string \<Rightarrow> registry \<Rightarrow> bool" where
  "closed i r \<longleftrightarrow> (\<exists>ps. gm_get (rgPeers r) i = Some ps \<and> psState ps = StateRetired) \<and>
     (\<exists>rt. gm_get (rgRetired r) i = Some rt \<and> rtHard rt)"

text \<open>
  The steps that may take a closed record away or revive it: unregistering peers, pruning its
  tombstone past the TTL, and a registration that has just recovered another, soft-retired identity.
\<close>

definition recovers :: "env \<Rightarrow> allocate_params \<Rightarrow> registry \<Rightarrow> bool" where
  "recovers e p r \<longleftrightarrow> (case retirement_guard e p r of Inr (r1, True) \<Rightarrow> True | _ \<Rightarrow> False)"

definition may_reopen :: "string \<Rightarrow> env \<Rightarrow> registry_op \<Rightarrow> registry \<Rightarrow> bool" where
  "may_reopen i e oper r = (case oper of
       RUnregister n c \<Rightarrow> True
     | RPrune \<Rightarrow> (case gm_get (rgRetired r) i of None \<Rightarrow> True | Some rt \<Rightarrow> \<not> Now e - rgRetiredTTL r < rtAt rt)
     | RAllocate p \<Rightarrow> recovers e p r
     | _ \<Rightarrow> False)"

inductive spared_run :: "string \<Rightarrow> registry \<Rightarrow> registry \<Rightarrow> bool" for i where
  spared_refl: "spared_run i r r"
| spared_step: "spared_run i r s \<Longrightarrow> \<not> may_reopen i e oper s \<Longrightarrow> spared_run i r (registry_step e oper s)"

section \<open>Frames\<close>

lemma closed_frame: "rgPeers r' = rgPeers r \<Longrightarrow> rgRetired r' = rgRetired r \<Longrightarrow> closed i r \<Longrightarrow> closed i r'"
  by (simp add: closed_def)

lemma closed_same_tables: "same_tables r r' \<Longrightarrow> closed i r \<Longrightarrow> closed i r'"
  by (rule closed_frame) (simp_all add: same_tables_def)

lemma closed_set_peer [simp]: "closed i (set_peer k f r) \<longleftrightarrow> closed i r"
  by (auto simp: closed_def)

lemma closed_set_mapping [simp]: "closed i (set_mapping k f r) \<longleftrightarrow> closed i r"
  by (simp add: closed_def)

lemma closed_dirty [simp]: "closed i (markMappingsDirty r) \<longleftrightarrow> closed i r"
  by (simp add: closed_def)

lemma closed_events [simp]:
  "closed i (appendEvent e ev r) \<longleftrightarrow> closed i r" "closed i (emitContradiction e n m s v r) \<longleftrightarrow> closed i r"
  "closed i (trace a r) \<longleftrightarrow> closed i r" "closed i (scheduleRedelivery n r) \<longleftrightarrow> closed i r"
  "closed i (transportClose e n r) \<longleftrightarrow> closed i r" "closed i (emitContradictionCode e p c d r) \<longleftrightarrow> closed i r"
  by (simp_all add: closed_def)

lemma closed_put_peer: "closed i r \<Longrightarrow> (k = i \<Longrightarrow> psState ps = StateRetired) \<Longrightarrow> closed i (put_peer k ps r)"
  by (auto simp: closed_def)

lemma closed_state: "closed i r \<Longrightarrow> gm_get (rgPeers r) i = Some ps \<Longrightarrow> psState ps = StateRetired"
  by (simp add: closed_def)

lemma closed_present: "closed i r \<Longrightarrow> \<exists>ps. gm_get (rgPeers r) i = Some ps \<and> psState ps = StateRetired"
  by (simp add: closed_def)

lemma closed_updates [simp]:
  "closed i (r\<lparr>rgDescSetAt := x1\<rparr>) \<longleftrightarrow> closed i r" "closed i (r\<lparr>rgPaneStrikes := x2\<rparr>) \<longleftrightarrow> closed i r"
  "closed i (r\<lparr>rgMappings := x3\<rparr>) \<longleftrightarrow> closed i r" "closed i (r\<lparr>rgUuids := x4\<rparr>) \<longleftrightarrow> closed i r"
  "closed i (r\<lparr>rgContra := x5\<rparr>) \<longleftrightarrow> closed i r"
  by (simp_all add: closed_def)

section \<open>Each step\<close>

text \<open>A lifecycle step of a registered peer: the closed record's own step is always rejected.\<close>

lemma closed_fsm:
  assumes "closed i r" "gm_get (rgPeers r) k = Some ps" "Apply (psState ps) ev = (n, None)" "ev \<noteq> EventReclaimWithLiveAgent"
  shows "k \<noteq> i"
proof
  assume "k = i"
  with assms(1,2) have "psState ps = StateRetired" by (simp add: closed_state)
  with assms(3,4) Apply_from_retired show False by simp
qed

lemma closed_markOffline:
  assumes "closed i r"
  shows "closed i (markOffline e k terminal reason hard r)"
proof (cases "gm_get (rgPeers r) k")
  case None
  then have "k \<noteq> i" using closed_present [OF assms] by auto
  with None assms show ?thesis by (auto simp: markOffline_def closed_def)
next
  case (Some ps)
  let ?ev = "if terminal then EventTerminalOffline else EventTransportDisconnect"
  obtain n err where a: "Apply (psState ps) ?ev = (n, err)" by (cases "Apply (psState ps) ?ev")
  show ?thesis
  proof (cases err)
    case None
    then have "k \<noteq> i" using closed_fsm [OF assms Some, of ?ev n] a by auto
    then have "closed i (put_peer k (move_to (Now e) n ps) r)" "closed i (retireLocked e k hard (put_peer k (move_to (Now e) n ps) r))"
      using assms by (auto simp: closed_def)
    with Some a None show ?thesis by (simp add: markOffline_def Let_def)
  next
    case (Some err')
    with \<open>gm_get (rgPeers r) k = Some ps\<close> a assms show ?thesis by (simp add: markOffline_def Let_def)
  qed
qed

lemma statusToEvent_ne: "statusToEvent s \<noteq> EventReclaimWithLiveAgent"
  by (cases s) simp_all

lemma closed_UpdateStatus:
  assumes "closed i r"
  shows "closed i (UpdateStatus e k s r)"
proof (cases "gm_get (rgPeers r) k")
  case None
  with assms show ?thesis by (simp add: UpdateStatus_def)
next
  case (Some ps)
  obtain n err where a: "Apply (psState ps) (statusToEvent s) = (n, err)" by (cases "Apply (psState ps) (statusToEvent s)")
  show ?thesis
  proof (cases err)
    case None
    then have "k \<noteq> i" using closed_fsm [OF assms Some _ statusToEvent_ne] a by auto
    then have "closed i (put_peer k (move_to (Now e) n ps) r)" using assms by (intro closed_put_peer) auto
    with Some a None show ?thesis by (simp add: UpdateStatus_def Let_def)
  next
    case (Some err')
    with \<open>gm_get (rgPeers r) k = Some ps\<close> a assms show ?thesis by (simp add: UpdateStatus_def)
  qed
qed

lemma closed_rename:
  assumes r: "registry_ok r" and c: "closed i r"
  shows "closed i (fst (UpdateDisplayName e k name r))"
proof (cases "gm_get (rgPeers r) k")
  case None
  with c show ?thesis by (simp add: UpdateDisplayName_def)
next
  case (Some ps)
  let ?rivals = "name_rivals k name (Backend (psPeer ps)) r"
  let ?r1 = "r\<lparr>rgPeers := gm_dels (map fst ?rivals) (rgPeers r)\<rparr>"
  show ?thesis
  proof (cases "list_all (\<lambda>(k, other). psState other = StateOffline) ?rivals")
    case False
    with Some c show ?thesis by (simp add: UpdateDisplayName_def)
  next
    case True
    obtain pi where pi: "gm_get (rgPeers r) i = Some pi" "psState pi = StateRetired" using closed_present [OF c] by blast
    have "i \<notin> set (map fst ?rivals)"
    proof
      assume "i \<in> set (map fst ?rivals)"
      then obtain other where other: "(i, other) \<in> set ?rivals" by auto
      then have "psState other = StateOffline" "gm_get (rgPeers r) i = Some other"
        using True registry_ok_gm(1) [OF r] by (auto simp: list_all_iff name_rivals_def gm_mem_iff)
      with pi show False by simp
    qed
    then have "closed i ?r1" using c by (simp add: closed_def)
    with Some True show ?thesis by (simp add: UpdateDisplayName_def Let_def)
  qed
qed

lemma closed_description_ttl [simp]: "closed i r \<Longrightarrow> closed i (applyDescriptionTTL e k r)"
  by (auto simp: applyDescriptionTTL_def Let_def split: option.split)

lemma closed_fold: "(\<And>x s. closed i s \<Longrightarrow> closed i (f x s)) \<Longrightarrow> closed i r \<Longrightarrow> closed i (fold f xs r)"
  by (rule fold_keeps [where P = "closed i"])

lemma closed_reads:
  assumes "closed i r"
  shows "closed i (fst (GetPeer e k r))" "closed i (fst (GetPeerByPane e pane r))" "closed i (fst (GetAllPeers e r))"
    "closed i (fst (ResolvePeer e n c r))"
  using assms closed_fold [of i "applyDescriptionTTL e" r]
  by (auto simp: GetPeer_def GetPeerByPane_def GetAllPeers_def ResolvePeer_def Let_def split: option.split sum.split)

lemma closed_by_name:
  "closed i r \<Longrightarrow> (\<And>k p. closed i (f k p r)) \<Longrightarrow> closed i (fst (by_name e n c f r))"
  by (auto simp: by_name_def split: sum.split option.split)

lemma closed_updates_by_name:
  assumes "closed i r"
  shows "closed i (fst (UpdateModelByName e n m r))" "closed i (fst (UpdateMetadataByName e n md r))"
    "closed i (fst (TouchLastSeen e n c r))" "closed i (fst (UpdateDescription e n d c r))"
  using assms
  by (auto simp: UpdateModelByName_def UpdateMetadataByName_def TouchLastSeen_def UpdateDescription_def Let_def
      intro!: closed_by_name split: option.split)

lemma closed_by_name_offline:
  "closed i r \<Longrightarrow> closed i (fst (MarkOfflineByNameWithReason e n terminal reason r))"
  by (auto simp: MarkOfflineByNameWithReason_def MarkOfflineWithReason_def closed_markOffline split: sum.split option.split)

lemma closed_claim:
  assumes "closed i r"
  shows "closed i (fst (ClaimSpecialRole e name role c force r))"
proof -
  have a: "closed i (demote_holder now k s)" if "closed i s" for now k s
    using that by (auto simp: demote_holder_def Let_def split: option.split)
  have b: "closed i (demote_mapping now k s)" if "closed i s" for now k s
    using that by (simp add: demote_mapping_def)
  have w: "closed i (with_target e ro tid s)" if "closed i s" for ro tid s
    using that by (simp add: with_target_def Let_def)
  have "closed i (fst (claim_commit e ro ci tid r))" for ro ci tid
    using assms by (auto simp: claim_commit_eq Let_def intro!: closed_fold a b w)
  then have d: "closed i r1" if "claim_commit e ro ci tid r = (r1, prev)" for ro ci tid r1 prev
    using that by (metis fst_conv)
  show ?thesis using assms d
    by (simp add: ClaimSpecialRole_def Let_def split: sum.split option.split prod.split)
qed

section \<open>Registration\<close>

lemma closed_release_one:
  assumes "closed i r"
  shows "closed i (release_one e pane newID k r)"
proof (cases "gm_get (rgPeers r) k")
  case None
  with assms show ?thesis by (simp add: release_one_def)
next
  case (Some ps)
  show ?thesis using assms Some closed_fsm [OF assms Some, of EventPaneDisplaced]
    by (auto simp: release_one_def Let_def intro!: closed_put_peer split: prod.split option.split)
qed

lemma closed_releasePane: "closed i r \<Longrightarrow> closed i (releasePaneLocked e pane newID r)"
  unfolding releasePaneLocked_def by (rule closed_fold) (auto intro: closed_release_one)

lemma closed_reconnect:
  assumes c: "closed i r" and g: "gm_get (rgPeers r) k = Some existing"
  shows "closed i (fst (reconnect e p False k existing r))"
proof -
  have s: "psState existing = StateRetired" if "k = i" using that c g by (simp add: closed_state)
  have t: "reconnect_target False StateRetired = StateRetired" by (simp add: reconnect_target_def)
  have "closed i (put_peer k ps' r)" if "psState ps' = reconnect_target False (psState existing)" for ps'
    using c s t that by (intro closed_put_peer) auto
  then show ?thesis
    by (auto simp: reconnect_def Let_def intro!: closed_releasePane split: option.split)
qed

lemma closed_proof_gate: "closed i (fst (proof_gate e p ep r)) \<longleftrightarrow> closed i r"
  by (auto simp: proof_gate_def split: option.split)

lemma closed_pane_gates:
  assumes "closed i r"
  shows "case pane_gates e p r of GateReject r' err \<Rightarrow> closed i r' | GateReuse r' k n \<Rightarrow> closed i r'
     | GatePane r' pane \<Rightarrow> closed i r' \<and> rgPeers r' = rgPeers r"
  using assms closed_proof_gate [of i e p "apPaneID p" r] closed_proof_gate [of i e p None r]
    proof_gate_peers [of e p "apPaneID p" r] proof_gate_peers [of e p None r]
  by (cases "proof_gate e p (apPaneID p) r"; cases "proof_gate e p None r")
    (auto simp: pane_gates_def Let_def split: option.splits)

lemma closed_register_fresh:
  assumes c: "closed i r" and g: "gm_get (rgPeers r) k = None"
  shows "closed i (fst (register_fresh e p k name pane r))"
proof -
  have "k \<noteq> i" using closed_present [OF c] g by auto
  then have "closed i (put_peer k ps r)" for ps using c by (intro closed_put_peer) auto
  then show ?thesis
    by (auto simp: register_fresh_def Let_def intro!: closed_releasePane split: option.split)
qed

lemma closed_allocate:
  assumes c: "closed i r" and n: "\<not> recovers e p r"
  shows "closed i (fst (AllocateAndRegister e p r))"
proof (cases "retirement_guard e p r")
  case (Inl err)
  with c show ?thesis by (simp add: AllocateAndRegister_def)
next
  case (Inr g)
  obtain r1 rec where g: "g = (r1, rec)" by (cases g)
  with Inr n have rec: "rec = False" by (auto simp: recovers_def split: bool.splits)
  have "r1 = r" using Inr g rec
    by (auto simp: retirement_guard_def Let_def split: option.splits if_splits)
  obtain k r2 where a: "allocate_id e p (buildDisplayName r1 p) r1 = (k, r2)"
    by (cases "allocate_id e p (buildDisplayName r1 p) r1")
  have c2: "closed i r2" using a c \<open>r1 = r\<close>
    by (auto simp: allocate_id_def nextUuid_def Let_def split: if_splits)
  show ?thesis
  proof (cases "gm_get (rgPeers r2) k")
    case (Some existing)
    obtain r3 res where rc: "reconnect e p False k existing r2 = (r3, res)" by (cases "reconnect e p False k existing r2")
    have "closed i r3" using closed_reconnect [OF c2 Some, of e p] rc by simp
    with Inr g rec a rc Some show ?thesis by (simp add: AllocateAndRegister_def Let_def)
  next
    case None
    with Inr g a closed_pane_gates [OF c2, of e p] closed_register_fresh show ?thesis
      by (auto simp: AllocateAndRegister_def Let_def split: pane_gate.splits)
  qed
qed

section \<open>Maintenance\<close>

lemma closed_fold_fst: "(\<And>x s. closed i (fst s) \<Longrightarrow> closed i (fst (f x s))) \<Longrightarrow> closed i (fst s) \<Longrightarrow> closed i (fst (fold f xs s))"
  by (rule fold_keeps_fst [where P = "closed i"])

lemma closed_demote_one:
  assumes "closed i (fst acc)"
  shows "closed i (fst (demote_one e pd k acc))"
proof (cases acc)
  case (Pair r dones)
  then have c: "closed i r" using assms by simp
  have "closed i (put_peer k (move_to (Now e) n ps) x)"
    if "gm_get (rgPeers r) k = Some ps" "Apply (psState ps) EventGhostDemote = (n, None)" "closed i x" for ps n x
    using closed_fsm [OF c that(1,2)] that(3) by (intro closed_put_peer) auto
  then show ?thesis using c Pair
    by (auto simp: demote_one_def Let_def simp del: append.simps split: option.split prod.split)
qed

lemma closed_strike_one: "closed i r \<Longrightarrow> closed i (strike_one e q k r)"
  by (auto simp: strike_one_def Let_def clearContradiction_def MarkOffline_def MarkOfflineWithReason_def
      intro!: closed_markOffline split: option.split json.split bool.split)

lemma closed_busy_one:
  assumes "closed i (fst acc)"
  shows "closed i (fst (repair_busy_one e k acc))"
proof (cases acc)
  case (Pair r dones)
  then have c: "closed i r" using assms by simp
  have "k \<noteq> i" if "gm_get (rgPeers r) k = Some ps" "psState ps = StateBusy" for ps
    using that closed_state [OF c] by auto
  then have "closed i (put_peer k ps' r)" if "gm_get (rgPeers r) k = Some ps" "psState ps = StateBusy" for ps ps'
    using c that by (intro closed_put_peer) auto
  then show ?thesis using c Pair
    by (auto simp: repair_busy_one_def Let_def split: option.split prod.split)
qed

lemma closed_drop_peer: "closed i r \<Longrightarrow> k \<noteq> i \<Longrightarrow> closed i (drop_peer k r)"
  by (simp add: closed_def)

lemma closed_reap_one:
  assumes "closed i (fst acc)"
  shows "closed i (fst (reap_one e ev snap acc))"
proof -
  obtain r dones spared where acc: "acc = (r, dones, spared)" by (cases acc)
  then have c: "closed i r" using assms by simp
  show ?thesis
  proof (cases "still_stale (Now e - rgReapTTL r) snap r")
    case None
    with c acc show ?thesis by (simp add: reap_one_cases)
  next
    case (Some ps)
    then have "PeerID snap \<noteq> i" using closed_state [OF c] by (auto simp: still_stale_Some)
    with c acc Some show ?thesis by (simp add: reap_one_cases closed_def)
  qed
qed

lemma closed_evict_one:
  assumes "closed i (fst acc)"
  shows "closed i (fst (evict_one e ev snap acc))"
proof -
  obtain r dones spared where acc: "acc = (r, dones, spared)" by (cases acc)
  then have c: "closed i r" using assms by simp
  show ?thesis
  proof (cases "still_stale (Now e - rgEvictMaxAge r) snap r")
    case None
    with c acc show ?thesis by (simp add: evict_one_def)
  next
    case (Some ps)
    then have "PeerID snap \<noteq> i" using closed_state [OF c] by (auto simp: still_stale_Some)
    with c acc Some show ?thesis by (simp add: evict_one_def closed_def)
  qed
qed

lemma closed_demote_snapshot: "closed i r \<Longrightarrow> closed i (fst (demote_snapshot e r))"
  by (rule closed_frame [of _ r]) (simp_all add: demote_snapshot_def Let_def)

lemma closed_persist:
  assumes "closed i r"
  shows "closed i (persistMappings e r)"
proof -
  obtain r1 ok where w: "fold (upsert_one e) (map snd (rgMappings r)) (r, True) = (r1, ok)"
    by (cases "fold (upsert_one e) (map snd (rgMappings r)) (r, True)")
  from upsert_fold_frame [OF w] assms have "closed i r1" by (simp add: closed_def)
  with assms w show ?thesis
    by (auto simp: persistMappings_def persist_snapshot_def persist_write_def persist_commit_def closed_def)
qed

lemma closed_prune:
  assumes r: "registry_ok r" and c: "closed i r" and n: "\<not> may_reopen i e RPrune r"
  shows "closed i (pruneRetired e r)"
proof -
  obtain rt where rt: "gm_get (rgRetired r) i = Some rt" "Now e - rgRetiredTTL r < rtAt rt"
    using n by (auto simp: may_reopen_def split: option.splits)
  have "i \<notin> set (map fst (filter (\<lambda>(k, rt). \<not> Now e - rgRetiredTTL r < rtAt rt) (rgRetired r)))"
    using rt registry_ok_gm(3) [OF r] by (auto simp: gm_mem_iff)
  with c show ?thesis by (simp add: closed_def)
qed

section \<open>The closed record through any spared run\<close>

lemma closed_circle: "closed i r \<Longrightarrow> closed i (SetCircle e k c r)"
  by (simp add: SetCircle_def Let_def)

lemmas closed_steps = closed_markOffline closed_UpdateStatus closed_rename closed_reads closed_updates_by_name
  closed_by_name_offline closed_claim closed_allocate closed_demote_snapshot closed_persist closed_prune closed_circle
  closed_same_tables [OF demote_finish_same]

lemma closed_step:
  assumes r: "registry_ok r" and c: "closed i r" and n: "\<not> may_reopen i e oper r"
  shows "closed i (registry_step e oper r)"
proof (cases oper)
  case (RAllocate p)
  with c n show ?thesis by (simp add: may_reopen_def closed_allocate)
next
  case (RUnregister m c')
  with n show ?thesis by (simp add: may_reopen_def)
next
  case RPrune
  with r c n show ?thesis by (simp add: closed_prune)
next
  case (RDemoteCommit cs pd)
  with c show ?thesis by (simp add: demote_commit_def closed_fold_fst closed_demote_one)
next
  case (RStrikes q)
  with c show ?thesis
    by (auto simp: demoteUnsafeConnectedPeers_def gc_strikes_def intro!: closed_fold closed_strike_one)
next
  case RStaleBusy
  have "closed i (fst (fold (repair_busy_one e) (map fst (rgPeers r)) (r, [])))"
    using c by (intro closed_fold_fst closed_busy_one) simp_all
  then have "closed i r1" if "fold (repair_busy_one e) (map fst (rgPeers r)) (r, []) = (r1, ds)" for r1 ds
    using that by simp
  then have "closed i (repairStaleBusyPeers e r)"
    using c by (auto simp: repairStaleBusyPeers_def intro!: closed_fold split: prod.split)
  with RStaleBusy show ?thesis by simp
next
  case (RReapCommit ev stale)
  with c show ?thesis by (simp add: reap_commit_def closed_fold_fst closed_reap_one)
next
  case (REvictCommit ev stale)
  with c show ?thesis by (simp add: evict_commit_def closed_fold_fst closed_evict_one)
qed (use r c in \<open>simp_all add: closed_steps MarkOfflineWithReason_def ClosePeer_def UpdateTurnState_def UpdateTmuxSession_def\<close>)

lemma closed_guard: "closed i r \<Longrightarrow> apClaimedPeerID p = Some i \<Longrightarrow> AllocateAndRegister e p r = (r, Inl ErrPeerRetired)"
  by (auto simp: closed_def AllocateAndRegister_def retirement_guard_def)

lemma spared_run_closed:
  "spared_run i r s \<Longrightarrow> registry_ok r \<Longrightarrow> closed i r \<Longrightarrow> registry_ok s \<and> closed i s"
  by (induction rule: spared_run.induct) (auto simp: registry_step_ok closed_step)


lemma ClosePeer_eq:
  assumes "gm_get (rgPeers r) i = Some ps" "psState ps \<in> {StateOnline, StateBusy, StateOffline}"
  shows "ClosePeer e i reason r = trace (AOnTerminalOffline i reason) (trace (AOnOffline i)
     (appendEvent e (peer_event ''peer_offline'' (Now e) i (DisplayName (psPeer ps)) [])
       (transportClose e i (retireLocked e i True (put_peer i (move_to (Now e) StateRetired ps) r)))))"
proof -
  have "Apply (psState ps) EventTerminalOffline = (StateRetired, None)" using assms(2) by auto
  then show ?thesis using assms(1) by (simp add: ClosePeer_def markOffline_def Let_def)
qed

lemma ClosePeer_closed:
  "gm_get (rgPeers r) i = Some ps \<Longrightarrow> psState ps \<in> {StateOnline, StateBusy, StateOffline} \<Longrightarrow> closed i (ClosePeer e i reason r)"
  unfolding ClosePeer_eq by simp (simp add: closed_def)

lemma gm_get_filter_keep: "gm_get m i = Some v \<Longrightarrow> P (i, v) \<Longrightarrow> gm_get (filter P m) i = Some v"
  by (induction m) (auto simp: gm_get_Cons split: if_splits)

text \<open>
  Closing is final and durable. Closing a peer that is not already retired retires it, writes the
  hard tombstone to memory and to the store, severs the socket before the offline hooks run, and
  runs each hook once, in order; a daemon restarted from that store within the retirement TTL
  still refuses every claim of the id.
\<close>

theorem close_peer_is_durable:
  assumes "gm_get (rgPeers r) i = Some ps" and "psState ps \<in> {StateOnline, StateBusy, StateOffline}"
    and "StoreErr e (SCRetire i) = None" and "now - defaultRetiredTTL < Now e" and "apClaimedPeerID p = Some i"
  shows "closed i (ClosePeer e i reason r) \<and>
     gm_get (rgDbRetired (ClosePeer e i reason r)) i = Some \<lparr>rtAt = Now e, rtHard = True\<rparr> \<and>
     rgTrace (ClosePeer e i reason r) =
       rgTrace r @ (if Transport e = None then [] else [ATransportClose i]) @ [AOnOffline i, AOnTerminalOffline i reason] \<and>
     snd (AllocateAndRegister e' p (NewRegistry now (rgDbMappings (ClosePeer e i reason r))
        (rgDbRetired (ClosePeer e i reason r)) (rgJournal (ClosePeer e i reason r)))) = Inl ErrPeerRetired"
proof -
  note c = ClosePeer_eq [OF assms(1,2), of e reason]
  have db: "rgDbRetired (ClosePeer e i reason r) = gm_put i \<lparr>rtAt = Now e, rtHard = True\<rparr> (rgDbRetired r)"
    using assms(3) by (simp add: c retireLocked_persisted put_peer_def)
  have "rgTrace (put_peer i x r) = rgTrace r" for x by (simp add: put_peer_def)
  then have tr: "rgTrace (ClosePeer e i reason r) =
     rgTrace r @ (if Transport e = None then [] else [ATransportClose i]) @ [AOnOffline i, AOnTerminalOffline i reason]"
    by (simp add: c trace_def transportClose_def)
  have "gm_get (rgRetired (NewRegistry now dbm (rgDbRetired (ClosePeer e i reason r)) j)) i = Some \<lparr>rtAt = Now e, rtHard = True\<rparr>" for dbm j
    using assms(4) by (simp add: NewRegistry_def db gm_get_filter_keep)
  then have "snd (AllocateAndRegister e' p (NewRegistry now dbm (rgDbRetired (ClosePeer e i reason r)) j)) = Inl ErrPeerRetired" for dbm j
    using assms(5) by (simp add: AllocateAndRegister_def retirement_guard_def)
  moreover have "closed i (ClosePeer e i reason r)" using assms(1,2) by (rule ClosePeer_closed)
  ultimately show ?thesis using db tr by simp
qed

section \<open>Witnesses\<close>

definition demo_reclaim :: allocate_params where
  "demo_reclaim = demo_naming\<lparr>apClaimedPeerID := Some ''a'', apAgentPID := Some 7\<rparr>"

theorem close_peer_is_durable_witness:
  "closed ''a'' (ClosePeer demo_env ''a'' ''close'' demo_claim) \<and>
   rgTrace (ClosePeer demo_env ''a'' ''close'' demo_claim) = [ATransportClose ''a'', AOnOffline ''a'', AOnTerminalOffline ''a'' ''close''] \<and>
   snd (AllocateAndRegister demo_env demo_reclaim (NewRegistry (200 * second) (rgDbMappings (ClosePeer demo_env ''a'' ''close'' demo_claim))
      (rgDbRetired (ClosePeer demo_env ''a'' ''close'' demo_claim)) (rgJournal (ClosePeer demo_env ''a'' ''close'' demo_claim)))) = Inl ErrPeerRetired"
proof -
  have g: "gm_get (rgPeers demo_claim) ''a'' = Some \<lparr>psPeer = demo_worker, psState = StateOnline\<rparr>"
    by (simp add: demo_claim_def gm_get_Cons)
  have "rgTrace demo_claim = []" by (simp add: demo_claim_def NewRegistry_def)
  then show ?thesis
    using close_peer_is_durable [OF g, of demo_env "200 * second" demo_reclaim "''close''" demo_env]
    by (simp add: demo_env_def defaultRetiredTTL_def demo_reclaim_def)
qed


section \<open>Where the guard does not reach\<close>

text \<open>The state after a restart: one durable mapping, whose id carries a hard tombstone.\<close>

definition demo_tombstone :: registry where
  "demo_tombstone = NewRegistry 0 [(''old'', demo_row (demo_peer ''old'' ''My-App-codex'' ''dev''))]
     [(''old'', \<lparr>rtAt = 0, rtHard = True\<rparr>)] []"

text \<open>
  The retirement guard covers claims only. After a restart, a registration in the same folder that
  claims no id adopts the closed peer's id through its durable mapping: the id is online again under
  its hard tombstone, and a later claim of it, by the very agent that was given it, is refused.
\<close>

theorem closed_id_adopted_without_claim:
  "snd (AllocateAndRegister demo_env demo_naming demo_tombstone) = Inr (''old'', ''My-App-codex'') \<and>
   map_option psState (gm_get (rgPeers (fst (AllocateAndRegister demo_env demo_naming demo_tombstone))) ''old'') = Some StateOnline \<and>
   snd (AllocateAndRegister demo_env (demo_naming\<lparr>apClaimedPeerID := Some ''old'', apAgentPID := Some 7\<rparr>)
     (fst (AllocateAndRegister demo_env demo_naming demo_tombstone))) = Inl ErrPeerRetired"
proof -
  have n: "name_candidate demo_naming (Suc 0) = ''My-App-codex''" by code_simp
  have r: "rgPeers demo_tombstone = []" "rgRetired demo_tombstone = [(''old'', \<lparr>rtAt = 0, rtHard = True\<rparr>)]"
    "rgMappings demo_tombstone = [(''old'', demo_row (demo_peer ''old'' ''My-App-codex'' ''dev''))]"
    by (simp_all add: demo_tombstone_def NewRegistry_def defaultRetiredTTL_def)
  have b: "buildDisplayName demo_tombstone demo_naming = ''My-App-codex''"
    by (simp add: buildDisplayName_def name_loop.simps n name_blocker_def find_peer_def r)
  have p: "apClaimedPeerID demo_naming = None" "apCircle demo_naming = ''dev''" "apPaneID demo_naming = None"
    "apBackend demo_naming = ''codex''" "apPath demo_naming = Some ''/home/a/My App/''"
    by (simp_all add: demo_naming_def)
  have i: "allocate_id demo_env demo_naming ''My-App-codex'' demo_tombstone = (''old'', demo_tombstone)"
    by (simp add: allocate_id_def reuse_id_def claimed_id_def reclaimableOfflineLocked_def findReusableMappingLocked_def
        find_peer_def p r demo_row_def demo_peer_def deref_def claimMatchesIdentity_def)
  obtain r' where a: "AllocateAndRegister demo_env demo_naming demo_tombstone = (r', Inr (''old'', ''My-App-codex''))"
    "map_option psState (gm_get (rgPeers r') ''old'') = Some StateOnline"
    "rgRetired r' = [(''old'', \<lparr>rtAt = 0, rtHard = True\<rparr>)]"
    by (simp add: AllocateAndRegister_def retirement_guard_def p b i r pane_gates_def proof_gate_def register_fresh_def
        fresh_mapping_def demo_row_def demo_peer_def deref_def gm_get_Cons Let_def)
  have "snd (AllocateAndRegister demo_env (demo_naming\<lparr>apClaimedPeerID := Some ''old'', apAgentPID := Some 7\<rparr>) r') = Inl ErrPeerRetired"
    by (simp add: AllocateAndRegister_def retirement_guard_def a(3) gm_get_Cons)
  with a show ?thesis by simp
qed

end
