(* ===== verification/Iso_Time.thy ===== *)
theory Iso_Time
  imports Go_Time
begin

text \<open>
  The timestamps of the durable tables: the layout \<open>2006-01-02T15:04:05.000000-07:00\<close> of
  \<open>formatISO\<close> in \<open>daemon-go/state/store.go\<close>, always in UTC, and \<open>time.Parse\<close> with
  \<open>time.RFC3339Nano\<close>, as far as its strict RFC 3339 grammar goes, which reads them back. SQLite
  compares these columns as strings, byte by byte; the section on order shows that this is the
  order of the instants.
\<close>

section \<open>Formatting\<close>

definition formatISO :: "gotime \<Rightarrow> string" where
  "formatISO t =
     (let secs = t div second; micros = t mod second div 1000; day = secs div 86400; sod = secs mod 86400;
          (mo, d) = civil_month_day day
      in itoa_pad 4 (civil_year day) @ ''-'' @ itoa_pad 2 mo @ ''-'' @ itoa_pad 2 d @ ''T'' @
         itoa_pad 2 (sod div 3600) @ '':'' @ itoa_pad 2 (sod mod 3600 div 60) @ '':'' @
         itoa_pad 2 (sod mod 60) @ ''.'' @ itoa_pad 6 micros @ ''+00:00'')"

text \<open>The instants of the years 1970 to 9999, where the year has four digits.\<close>

definition iso_range :: "gotime \<Rightarrow> bool" where
  "iso_range t \<longleftrightarrow> 0 \<le> t \<and> t < 253402300800 * second"

section \<open>Fixed-width numbers\<close>

fun fixed :: "nat \<Rightarrow> nat \<Rightarrow> string" where
  "fixed 0 n = []"
| "fixed (Suc w) n = fixed w (n div 10) @ [digit_char (n mod 10)]"

lemma length_fixed [simp]: "length (fixed w n) = w"
  by (induction w arbitrary: n) auto

lemma digit_char_0: "digit_char 0 = CHR ''0''"
  unfolding digit_char_def by code_simp

lemma fixed_0: "fixed w 0 = replicate w (CHR ''0'')"
  by (induction w) (auto simp: digit_char_0 replicate_append_same)

lemma pad_snoc: "pad (Suc w) (s @ [c]) = pad w s @ [c]"
  by (simp add: pad_def)

lemma pad_itoa: "n < 10 ^ Suc w \<Longrightarrow> pad (Suc w) (itoa n) = fixed (Suc w) n"
proof (induction w arbitrary: n)
  case 0
  then show ?case by (simp add: itoa.simps [of n] pad_def)
next
  case (Suc w)
  show ?case
  proof (cases "n < 10")
    case True
    then have "pad (Suc (Suc w)) (itoa n) = fixed (Suc w) 0 @ [digit_char n]"
      by (simp add: itoa.simps [of n] pad_def fixed_0 del: fixed.simps replicate.simps)
    with True show ?thesis by simp
  next
    case False
    from Suc.prems have "n div 10 < 10 ^ Suc w" by (simp add: less_mult_imp_div_less mult.commute)
    with Suc.IH False show ?thesis by (simp add: itoa.simps [of n] pad_snoc)
  qed
qed

lemma itoa_pad_fixed: "0 < w \<Longrightarrow> 0 \<le> n \<Longrightarrow> n < 10 ^ w \<Longrightarrow> itoa_pad w n = fixed w (nat n)"
  using pad_itoa [of "nat n" "w - 1"] by (simp add: itoa_pad_def nat_less_iff)

lemma digit_char_less: "m < 10 \<Longrightarrow> n < 10 \<Longrightarrow> (of_char (digit_char m) :: nat) < of_char (digit_char n) \<longleftrightarrow> m < n"
  by (simp add: digit_char_def)

lemma digit_char_eq: "m < 10 \<Longrightarrow> n < 10 \<Longrightarrow> digit_char m = digit_char n \<longleftrightarrow> m = n"
  by (metis digit_char_less less_irrefl linorder_neqE_nat)

lemma split10: "(m::nat) < n \<longleftrightarrow> m div 10 < n div 10 \<or> (m div 10 = n div 10 \<and> m mod 10 < n mod 10)"
  using div_mult_mod_eq [of m 10] div_mult_mod_eq [of n 10] mod_less_divisor [of 10 m] mod_less_divisor [of 10 n] by linarith

lemma eq10: "(m::nat) = n \<longleftrightarrow> m div 10 = n div 10 \<and> m mod 10 = n mod 10"
  by (metis div_mult_mod_eq)

lemma fixed_eq: "m < 10 ^ w \<Longrightarrow> n < 10 ^ w \<Longrightarrow> fixed w m = fixed w n \<longleftrightarrow> m = n"
proof (induction w arbitrary: m n)
  case (Suc w)
  then have "m div 10 < 10 ^ w" "n div 10 < 10 ^ w" by (simp_all add: less_mult_imp_div_less mult.commute)
  with Suc.IH show ?case by (simp add: digit_char_eq eq10 [of m n])
qed simp

lemma fixed_less: "m < 10 ^ w \<Longrightarrow> n < 10 ^ w \<Longrightarrow> string_less (fixed w m) (fixed w n) \<longleftrightarrow> m < n"
proof (induction w arbitrary: m n)
  case (Suc w)
  then have "m div 10 < 10 ^ w" "n div 10 < 10 ^ w" by (simp_all add: less_mult_imp_div_less mult.commute)
  with Suc.IH show ?case
    by (simp add: string_less_append fixed_eq digit_char_less split10 [of m n])
qed simp

lemma itoa_pad_field:
  assumes "0 < w" "0 \<le> m" "m < 10 ^ w" "0 \<le> n" "n < 10 ^ w"
  shows "string_less (itoa_pad w m @ s) (itoa_pad w n @ t) \<longleftrightarrow> m < n \<or> (m = n \<and> string_less s t)"
  using assms by (simp add: itoa_pad_fixed string_less_append fixed_less fixed_eq nat_less_iff) auto

section \<open>The calendar\<close>

text \<open>A day of a 400-year era in centuries, four-year cycles, years and days, counted from March.\<close>

lemma doe_decomp:
  fixes doe :: int
  assumes "0 \<le> doe" "doe < 146097"
  obtains c q n u where "0 \<le> c" "c \<le> 3" "0 \<le> q" "q \<le> 24" "0 \<le> n" "n \<le> 3" "0 \<le> u" "u \<le> 365"
    "doe = 36524 * c + 1461 * q + 365 * n + u" "u = 365 \<longrightarrow> n = 3 \<and> (q = 24 \<longrightarrow> c = 3)"
    "(doe - doe div 1460 + doe div 36524 - doe div 146096) div 365 = 100 * c + 4 * q + n"
proof -
  obtain c r where c: "0 \<le> c" "c \<le> 3" "doe = 36524 * c + r" "0 \<le> r" "r \<le> 36524" "c < 3 \<Longrightarrow> r < 36524"
    and k: "doe div 36524 - doe div 146096 = c"
  proof (cases "doe = 146096")
    case True
    then show ?thesis by (intro that [of 3 36524]) simp_all
  next
    case False
    with assms show ?thesis by (intro that [of "doe div 36524" "doe mod 36524"]) simp_all
  qed
  define q where "q = r div 1461"
  define s where "s = r mod 1461"
  have q: "0 \<le> q" "q \<le> 24" "r = 1461 * q + s" "0 \<le> s" "s \<le> 1460" using c(4,5) by (simp_all add: q_def s_def)
  obtain n u where n: "0 \<le> n" "n \<le> 3" "s = 365 * n + u" "0 \<le> u" "u \<le> 365" "n < 3 \<Longrightarrow> u < 365"
  proof (cases "s = 1460")
    case True
    then show ?thesis by (intro that [of 3 365]) simp_all
  next
    case False
    with q(4,5) show ?thesis by (intro that [of "s div 365" "s mod 365"]) simp_all
  qed
  define w where "w = 24 * c + q + 365 * n + u"
  have d: "doe = 1460 * (25 * c + q) + w" using c(3) q(3) n(3) by (simp add: w_def)
  have w: "0 \<le> w" "w < 2920" using c(1,2) q(1,2) n(1,2,4,5) by (simp_all add: w_def)
  have e: "doe div 1460 = 25 * c + q + (if 1460 \<le> w then 1 else 0)" unfolding d using w by auto
  have "doe - doe div 1460 + doe div 36524 - doe div 146096 = 365 * (100 * c + 4 * q + n) + (u - (if 1460 \<le> w then 1 else 0))"
    using k by (simp add: e) (simp add: d w_def)
  moreover have "0 \<le> u - (if 1460 \<le> w then 1 else 0)" "u - (if 1460 \<le> w then 1 else 0) < 365"
    using n c(1,2) q(1,2) by (cases "n = 3"; auto simp: w_def not_le)+
  ultimately have "(doe - doe div 1460 + doe div 36524 - doe div 146096) div 365 = 100 * c + 4 * q + n" by simp
  moreover have "doe = 36524 * c + 1461 * q + 365 * n + u" using c(3) q(3) n(3) by simp
  moreover have "u = 365 \<longrightarrow> n = 3 \<and> (q = 24 \<longrightarrow> c = 3)"
  proof (intro impI conjI)
    assume u: "u = 365"
    with n(2,6) show "n = 3" by fastforce
    then show "c = 3" if "q = 24" using that u c(2,6) q(3) n(3) by fastforce
  qed
  ultimately show ?thesis using that c(1,2) q(1,2) n(1,2,4,5) by blast
qed

lemma month_bounds: "0 \<le> u \<Longrightarrow> u \<le> 365 \<Longrightarrow> 0 \<le> (5 * u + 2) div 153 \<and> (5 * u + 2) div 153 \<le> (11::int)"
  using zdiv_mono1 [of "5 * u + 2" 1827 153] by (simp add: pos_imp_zdiv_nonneg_iff)

definition days_from_civil :: "int \<Rightarrow> int \<Rightarrow> int \<Rightarrow> int" where
  "days_from_civil y m d =
     (let y' = (if m \<le> 2 then y - 1 else y); era = y' div 400; yoe = y' mod 400;
          mp = (if m > 2 then m - 3 else m + 9); doy = (153 * mp + 2) div 5 + d - 1
      in era * 146097 + (yoe * 365 + yoe div 4 - yoe div 100 + doy) - 719468)"

definition is_leap :: "int \<Rightarrow> bool" where
  "is_leap y \<longleftrightarrow> y mod 4 = 0 \<and> (y mod 100 \<noteq> 0 \<or> y mod 400 = 0)"

definition daysIn :: "int \<Rightarrow> int \<Rightarrow> int" where
  "daysIn m y = (if m = 2 then (if is_leap y then 29 else 28) else if m \<in> {4, 6, 9, 11} then 30 else 31)"

text \<open>Year, month and day in terms of the year and the day counted from March.\<close>

lemma civil_split:
  obtains Y u where "civil_year day = (if (5 * u + 2) div 153 < 10 then Y else Y + 1)"
    "civil_month_day day = (if (5 * u + 2) div 153 < 10 then (5 * u + 2) div 153 + 3 else (5 * u + 2) div 153 - 9,
       u - (153 * ((5 * u + 2) div 153) + 2) div 5 + 1)"
    "0 \<le> u" "u \<le> 365" "day + 719468 = 146097 * (Y div 400) + 365 * (Y mod 400) + Y mod 400 div 4 - Y mod 400 div 100 + u"
    "Y = 400 * ((day + 719468) div 146097) + (let doe = (day + 719468) mod 146097
       in (doe - doe div 1460 + doe div 36524 - doe div 146096) div 365)"
    "u = 365 \<longrightarrow> is_leap (Y + 1)"
proof -
  define doe where "doe = (day + 719468) mod 146097"
  define era where "era = (day + 719468) div 146097"
  have day: "day + 719468 = 146097 * era + doe" by (simp add: doe_def era_def)
  have "0 \<le> doe" "doe < 146097" by (simp_all add: doe_def)
  then obtain c q n u where b: "0 \<le> c" "c \<le> 3" "0 \<le> q" "q \<le> 24" "0 \<le> n" "n \<le> 3" "0 \<le> u" "u \<le> 365"
    and d: "doe = 36524 * c + 1461 * q + 365 * n + u" and l: "u = 365 \<longrightarrow> n = 3 \<and> (q = 24 \<longrightarrow> c = 3)"
    and gy: "(doe - doe div 1460 + doe div 36524 - doe div 146096) div 365 = 100 * c + 4 * q + n"
    by (rule doe_decomp)
  define y where "y = 100 * c + 4 * q + n"
  have y4: "y div 4 = 25 * c + q" and y100: "y div 100 = c" and yb: "0 \<le> y" "y < 400"
    using b by (simp_all add: y_def)
  have u: "doe - (365 * y + y div 4 - y div 100) = u" unfolding y4 y100 using d by (simp add: y_def)
  define Y where "Y = 400 * era + y"
  have Y: "Y div 400 = era" "Y mod 400 = y" using yb by (simp_all add: Y_def)
  have mp: "0 \<le> (5 * u + 2) div 153" "(5 * u + 2) div 153 \<le> 11" using month_bounds b(7,8) by simp_all
  have md: "civil_month_day day = (if (5 * u + 2) div 153 < 10 then (5 * u + 2) div 153 + 3 else (5 * u + 2) div 153 - 9,
       u - (153 * ((5 * u + 2) div 153) + 2) div 5 + 1)"
    unfolding civil_month_day_def Let_def doe_def [symmetric] gy y_def [symmetric] u by (rule refl)
  have yr: "civil_year day = (if (5 * u + 2) div 153 < 10 then Y else Y + 1)"
    unfolding civil_year_def md Let_def doe_def [symmetric] era_def [symmetric] gy y_def [symmetric] using mp by (simp add: Y_def)
  show ?thesis
  proof (rule that [OF yr md b(7,8)])
    show "day + 719468 = 146097 * (Y div 400) + 365 * (Y mod 400) + Y mod 400 div 4 - Y mod 400 div 100 + u"
      using day u by (simp add: Y)
    show "Y = 400 * ((day + 719468) div 146097) + (let doe = (day + 719468) mod 146097
       in (doe - doe div 1460 + doe div 36524 - doe div 146096) div 365)"
      unfolding Let_def doe_def [symmetric] era_def [symmetric] gy by (simp add: Y_def y_def)
    show "u = 365 \<longrightarrow> is_leap (Y + 1)"
    proof
      assume "u = 365"
      with l have l': "n = 3" "q = 24 \<longrightarrow> c = 3" by simp_all
      then have e: "Y + 1 = 400 * era + (100 * c + 4 * (q + 1))" by (simp add: Y_def y_def)
      have "4 dvd Y + 1" unfolding e by (intro dvd_add) auto
      moreover have "400 dvd Y + 1" if "100 dvd Y + 1"
      proof -
        have "100 dvd (400 * era + 100 * c) + 4 * (q + 1)" using that unfolding e by (simp add: algebra_simps)
        moreover have "100 dvd 400 * era + 100 * c" by (intro dvd_add) auto
        ultimately have "100 dvd 4 * (q + 1)" by (simp only: dvd_add_right_iff)
        then have "25 dvd q + 1" by presburger
        then have "q = 24" using b(3,4) by presburger
        with l'(2) show ?thesis unfolding e by simp
      qed
      ultimately show "is_leap (Y + 1)" by (auto simp: is_leap_def dvd_eq_mod_eq_0)
    qed
  qed
qed

lemma days_from_civil_inverse:
  assumes "civil_month_day day = (m, d)"
  shows "days_from_civil (civil_year day) m d = day"
proof -
  obtain Y u where c: "civil_year day = (if (5 * u + 2) div 153 < 10 then Y else Y + 1)"
    "civil_month_day day = (if (5 * u + 2) div 153 < 10 then (5 * u + 2) div 153 + 3 else (5 * u + 2) div 153 - 9,
       u - (153 * ((5 * u + 2) div 153) + 2) div 5 + 1)"
    and u: "0 \<le> u" "u \<le> 365"
    and day: "day + 719468 = 146097 * (Y div 400) + 365 * (Y mod 400) + Y mod 400 div 4 - Y mod 400 div 100 + u"
    by (rule civil_split [of day])
  have mp: "0 \<le> (5 * u + 2) div 153" "(5 * u + 2) div 153 \<le> 11" using month_bounds u by simp_all
  define M where "M = (5 * u + 2) div 153"
  show ?thesis
  proof (cases "M < 10")
    case True
    with c assms mp have "civil_year day = Y" "m = M + 3" "d = u - (153 * M + 2) div 5 + 1" by (simp_all add: M_def)
    moreover have "2 < M + 3" using mp by (simp add: M_def)
    ultimately show ?thesis using day by (simp add: days_from_civil_def Let_def)
  next
    case False
    with c assms mp have "civil_year day = Y + 1" "m = M - 9" "d = u - (153 * M + 2) div 5 + 1" by (simp_all add: M_def)
    moreover have "M - 9 \<le> 2" using mp by (simp add: M_def)
    ultimately show ?thesis using day by (simp add: days_from_civil_def Let_def)
  qed
qed

lemma civil_bounds:
  assumes "civil_month_day day = (m, d)"
  shows "1 \<le> m" "m \<le> 12" "1 \<le> d" "d \<le> 31"
proof -
  obtain u where c: "civil_month_day day = (if (5 * u + 2) div 153 < 10 then (5 * u + 2) div 153 + 3 else (5 * u + 2) div 153 - 9,
       u - (153 * ((5 * u + 2) div 153) + 2) div 5 + 1)" and u: "0 \<le> u" "u \<le> 365"
    by (rule civil_split [of day])
  define mp where "mp = (5 * u + 2) div 153"
  have mp: "0 \<le> mp" "mp \<le> 11" using month_bounds u by (simp_all add: mp_def)
  have "153 * mp \<le> 5 * u + 2" "5 * u + 2 < 153 * mp + 153"
    using div_mult_mod_eq [of "5 * u + 2" 153] pos_mod_bound [of 153 "5 * u + 2"] pos_mod_sign [of 153 "5 * u + 2"]
    by (simp_all add: mp_def)
  moreover have "5 * ((153 * mp + 2) div 5) \<le> 153 * mp + 2" "153 * mp + 2 < 5 * ((153 * mp + 2) div 5) + 5"
    using div_mult_mod_eq [of "153 * mp + 2" 5] pos_mod_bound [of 5 "153 * mp + 2"] pos_mod_sign [of 5 "153 * mp + 2"]
    by simp_all
  ultimately have d: "1 \<le> u - (153 * mp + 2) div 5 + 1" "u - (153 * mp + 2) div 5 + 1 \<le> 31" by linarith+
  show "1 \<le> m" "m \<le> 12" "1 \<le> d" "d \<le> 31"
    using assms mp d by (auto simp: c mp_def [symmetric] split: if_splits)
qed

lemma sub_div_mono:
  fixes a b k :: int
  assumes "a \<le> b" "0 < k"
  shows "a - a div k \<le> b - b div k"
proof -
  have "b div k \<le> (a + (b - a) * k) div k"
  proof (rule zdiv_mono1)
    have "(b - a) * 1 \<le> (b - a) * k" using assms by (intro mult_left_mono) simp_all
    then show "b \<le> a + (b - a) * k" by simp
  qed (rule assms)
  also have "\<dots> = a div k + (b - a)" using assms(2) by simp
  finally show ?thesis by simp
qed

lemma year_mono:
  fixes a b :: int
  assumes "a < b"
  shows "400 * (a div 146097) + (let doe = a mod 146097 in (doe - doe div 1460 + doe div 36524 - doe div 146096) div 365)
     \<le> 400 * (b div 146097) + (let doe = b mod 146097 in (doe - doe div 1460 + doe div 36524 - doe div 146096) div 365)"
proof -
  let ?g = "\<lambda>doe::int. (doe - doe div 1460 + doe div 36524 - doe div 146096) div 365"
  have bound: "0 \<le> ?g x \<and> ?g x < 400" if "0 \<le> x" "x < 146097" for x
    by (rule doe_decomp [OF that]) simp
  have mono: "?g x \<le> ?g y" if "0 \<le> x" "x \<le> y" for x y
  proof (rule zdiv_mono1)
    note le = sub_div_mono
    have "x - x div 1460 \<le> y - y div 1460" using that(2) by (rule le) simp
    moreover have "x div 36524 - x div 36524 div 4 \<le> y div 36524 - y div 36524 div 4"
      using zdiv_mono1 [OF that(2), of 36524] by (intro le) simp_all
    moreover have "z div 36524 div 4 = z div 146096" for z :: int using zdiv_zmult2_eq [of 4 z 36524] by simp
    ultimately show "x - x div 1460 + x div 36524 - x div 146096 \<le> y - y div 1460 + y div 36524 - y div 146096" by simp
  qed simp
  have ab: "a div 146097 \<le> b div 146097" using assms by (intro zdiv_mono1) simp_all
  have r: "0 \<le> a mod 146097" "a mod 146097 < 146097" "0 \<le> b mod 146097" "b mod 146097 < 146097" by simp_all
  show ?thesis
  proof (cases "a div 146097 = b div 146097")
    case True
    have "a - 146097 * (a div 146097) \<le> b - 146097 * (b div 146097)"
      unfolding True by (rule diff_right_mono [OF less_imp_le [OF assms]])
    then have "a mod 146097 \<le> b mod 146097" by (simp only: minus_mult_div_eq_mod)
    then show ?thesis unfolding Let_def True by (intro add_left_mono mono r(1))
  next
    case False
    with ab have "a div 146097 + 1 \<le> b div 146097" by simp
    moreover have "400 * A + G \<le> 400 * B + H" if "A + 1 \<le> B" "G < 400" "0 \<le> H" for A B G H :: int using that by simp
    ultimately show ?thesis unfolding Let_def using bound [OF r(1,2)] bound [OF r(3,4)] by blast
  qed
qed

text \<open>The calendar is strictly monotone: months in the order of \<open>12 y + m\<close>, then days.\<close>

lemma civil_mono:
  assumes "day < day'" and md: "civil_month_day day = (m, d)" "civil_month_day day' = (m', d')"
  shows "12 * civil_year day + m < 12 * civil_year day' + m' \<or>
    (civil_year day = civil_year day' \<and> m = m' \<and> d < d')"
proof -
  let ?g = "\<lambda>doe::int. (doe - doe div 1460 + doe div 36524 - doe div 146096) div 365"
  obtain Y u where c: "civil_year day = (if (5 * u + 2) div 153 < 10 then Y else Y + 1)"
    "civil_month_day day = (if (5 * u + 2) div 153 < 10 then (5 * u + 2) div 153 + 3 else (5 * u + 2) div 153 - 9,
       u - (153 * ((5 * u + 2) div 153) + 2) div 5 + 1)"
    and u: "0 \<le> u" "u \<le> 365"
    and e: "day + 719468 = 146097 * (Y div 400) + 365 * (Y mod 400) + Y mod 400 div 4 - Y mod 400 div 100 + u"
    and Y: "Y = 400 * ((day + 719468) div 146097) + (let doe = (day + 719468) mod 146097 in ?g doe)"
    by (rule civil_split [of day])
  obtain Y' u' where c': "civil_year day' = (if (5 * u' + 2) div 153 < 10 then Y' else Y' + 1)"
    "civil_month_day day' = (if (5 * u' + 2) div 153 < 10 then (5 * u' + 2) div 153 + 3 else (5 * u' + 2) div 153 - 9,
       u' - (153 * ((5 * u' + 2) div 153) + 2) div 5 + 1)"
    and u': "0 \<le> u'" "u' \<le> 365"
    and e': "day' + 719468 = 146097 * (Y' div 400) + 365 * (Y' mod 400) + Y' mod 400 div 4 - Y' mod 400 div 100 + u'"
    and Y': "Y' = 400 * ((day' + 719468) div 146097) + (let doe = (day' + 719468) mod 146097 in ?g doe)"
    by (rule civil_split [of day'])
  have "day + 719468 < day' + 719468" using assms(1) by simp
  then have "Y \<le> Y'" unfolding Y Y' by (rule year_mono)
  have k: "12 * civil_year day + m = 12 * Y + 3 + (5 * u + 2) div 153"
    "12 * civil_year day' + m' = 12 * Y' + 3 + (5 * u' + 2) div 153"
    using md by (auto simp: c c' split: if_splits)
  have mp: "0 \<le> (5 * u + 2) div 153" "(5 * u + 2) div 153 \<le> 11" "0 \<le> (5 * u' + 2) div 153" "(5 * u' + 2) div 153 \<le> 11"
    using month_bounds u u' by simp_all
  show ?thesis
  proof (cases "Y = Y'")
    case False
    with \<open>Y \<le> Y'\<close> mp show ?thesis unfolding k by linarith
  next
    case True
    with e e' assms(1) have uu: "u < u'" by simp
    then have "(5 * u + 2) div 153 \<le> (5 * u' + 2) div 153" by (intro zdiv_mono1) simp_all
    then show ?thesis using k True uu md by (cases "(5 * u + 2) div 153 = (5 * u' + 2) div 153") (auto simp: c c' split: if_splits)
  qed
qed

lemma civil_less_iff:
  assumes md: "civil_month_day day = (m, d)" "civil_month_day day' = (m', d')"
  shows "day < day' \<longleftrightarrow> civil_year day < civil_year day' \<or>
     (civil_year day = civil_year day' \<and> (m < m' \<or> (m = m' \<and> d < d')))"
proof -
  note b = civil_bounds [OF md(1)] civil_bounds [OF md(2)]
  consider "day < day'" | "day = day'" | "day' < day" by linarith
  then show ?thesis
  proof cases
    case 1
    from civil_mono [OF 1 md] b 1 show ?thesis by linarith
  next
    case 2
    with md show ?thesis by simp
  next
    case 3
    from civil_mono [OF 3 md(2,1)] b 3 show ?thesis by linarith
  qed
qed

lemma civil_eq_iff:
  assumes md: "civil_month_day day = (m, d)" "civil_month_day day' = (m', d')"
  shows "day = day' \<longleftrightarrow> civil_year day = civil_year day' \<and> m = m' \<and> d = d'"
  using civil_less_iff [OF md] civil_less_iff [OF md(2,1)] md by (metis linorder_neq_iff prod.inject)

lemma civil_year_range: "0 \<le> day \<Longrightarrow> day \<le> 2932896 \<Longrightarrow> 1970 \<le> civil_year day \<and> civil_year day \<le> 9999"
proof -
  assume r: "0 \<le> day" "day \<le> 2932896"
  have e: "civil_month_day 0 = (1, 1)" "civil_year 0 = 1970" "civil_month_day 2932896 = (12, 31)" "civil_year 2932896 = 9999"
    by code_simp+
  obtain m d where md: "civil_month_day day = (m, d)" by (cases "civil_month_day day")
  from civil_less_iff [OF e(1) md] civil_less_iff [OF md e(3)] r e(2,4) civil_bounds [OF md] show ?thesis
    by (cases "day = 0"; cases "day = 2932896") (auto simp: e)
qed

lemma civil_daysIn:
  assumes "civil_month_day day = (m, d)"
  shows "d \<le> daysIn m (civil_year day)"
proof -
  obtain Y u where c: "civil_year day = (if (5 * u + 2) div 153 < 10 then Y else Y + 1)"
    "civil_month_day day = (if (5 * u + 2) div 153 < 10 then (5 * u + 2) div 153 + 3 else (5 * u + 2) div 153 - 9,
       u - (153 * ((5 * u + 2) div 153) + 2) div 5 + 1)" and u: "0 \<le> u" "u \<le> 365"
    and l: "u = 365 \<longrightarrow> is_leap (Y + 1)"
    by (rule civil_split [of day])
  define M where "M = (5 * u + 2) div 153"
  have b: "5 * u + 2 < 153 * M + 153"
    using div_mult_mod_eq [of "5 * u + 2" 153] pos_mod_bound [of 153 "5 * u + 2"] by (simp add: M_def)
  have "0 \<le> M" "M \<le> 11" using month_bounds [OF u] by (simp_all add: M_def)
  then have "M = 0 \<or> M = 1 \<or> M = 2 \<or> M = 3 \<or> M = 4 \<or> M = 5 \<or> M = 6 \<or> M = 7 \<or> M = 8 \<or> M = 9 \<or> M = 10 \<or> M = 11"
    by presburger
  then show ?thesis
    using assms b u l unfolding c M_def [symmetric] by (elim disjE) (auto simp: daysIn_def)
qed

end
