(* ===== verification/Iso_Order.thy ===== *)
theory Iso_Order
  imports Iso_Time
begin

text \<open>
  The strings \<open>formatISO\<close> prints, compared byte by byte as SQLite compares the columns that hold
  them, are in the order of the instants, and the parser reads back what was printed.
\<close>

section \<open>The order of the strings\<close>

text \<open>The seven numbers a timestamp prints, and the instant they add up to.\<close>

lemma iso_fields:
  fixes t :: int
  assumes "iso_range t"
  obtains day sod u where "0 \<le> day" "day \<le> 2932896" "0 \<le> sod" "sod < 86400" "0 \<le> u" "u < 1000000"
    "t div 1000 = (day * 86400 + sod) * 1000000 + u" "day = t div second div 86400"
    "sod = t div second mod 86400" "u = t mod second div 1000"
proof -
  have r: "0 \<le> t mod second" "t mod second < 1000000000" by simp_all
  have "t div 1000 = (t mod second + 1000 * (1000000 * (t div second))) div 1000"
    using mod_mult_div_eq [of t second] by simp
  also have "\<dots> = 1000000 * (t div second) + t mod second div 1000" by (rule div_mult_self2) simp
  finally have 1: "t div 1000 = 1000000 * (t div second) + t mod second div 1000" .
  have 2: "t div second = t div second div 86400 * 86400 + t div second mod 86400" by (rule div_mult_mod_eq [symmetric])
  from assms have t: "0 \<le> t" "t \<le> 253402300799999999999" by (simp_all add: iso_range_def)
  have b: "0 \<le> t div second" "t div second \<le> 253402300799"
    using t(1) zdiv_mono1 [OF t(2), of second] by (simp_all add: pos_imp_zdiv_nonneg_iff)
  have "t div second div 86400 \<le> 2932896" using zdiv_mono1 [OF b(2), of 86400] by simp
  then have d: "0 \<le> t div second div 86400" "t div second div 86400 \<le> 2932896"
    using b by (simp_all add: pos_imp_zdiv_nonneg_iff)
  have "t mod second div 1000 \<le> 999999999 div 1000" using r by (intro zdiv_mono1) simp_all
  then have u: "0 \<le> t mod second div 1000" "t mod second div 1000 < 1000000" using r by (simp_all add: pos_imp_zdiv_nonneg_iff)
  show ?thesis
  proof (rule that [OF d _ _ u _ refl refl refl])
    show "0 \<le> t div second mod 86400" "t div second mod 86400 < 86400" by simp_all
    show "t div 1000 = (t div second div 86400 * 86400 + t div second mod 86400) * 1000000 + t mod second div 1000"
      by (subst 2 [symmetric]) (simp only: 1 mult.commute)
  qed
qed

lemma lex_digits:
  fixes q q' r r' k :: int
  assumes "0 \<le> r" "r < k" "0 \<le> r'" "r' < k"
  shows "q * k + r < q' * k + r' \<longleftrightarrow> q < q' \<or> (q = q' \<and> r < r')"
proof -
  have "q * k + r < q' * k + r'" if "q < q'"
  proof -
    from that have "(q + 1) * k \<le> q' * k" using assms by (intro mult_right_mono) simp_all
    with assms show ?thesis by (simp add: algebra_simps)
  qed
  moreover have "q' * k + r' < q * k + r" if "q' < q"
  proof -
    from that have "(q' + 1) * k \<le> q * k" using assms by (intro mult_right_mono) simp_all
    with assms show ?thesis by (simp add: algebra_simps)
  qed
  ultimately show ?thesis by (cases q q' rule: linorder_cases) auto
qed

lemma lex_eq:
  fixes q q' r r' k :: int
  assumes "0 \<le> r" "r < k" "0 \<le> r'" "r' < k"
  shows "q * k + r = q' * k + r' \<longleftrightarrow> q = q' \<and> r = r'"
  using lex_digits [OF assms, of q q'] lex_digits [OF assms(3,4,1,2), of q' q] by (metis less_irrefl linorder_neq_iff)

definition clock :: "int \<Rightarrow> string" where
  "clock sod = itoa_pad 2 (sod div 3600) @ '':'' @ itoa_pad 2 (sod mod 3600 div 60) @ '':'' @ itoa_pad 2 (sod mod 60)"

lemma formatISO_fields:
  assumes "civil_month_day (t div second div 86400) = (m, d)"
  shows "formatISO t = itoa_pad 4 (civil_year (t div second div 86400)) @ ''-'' @ itoa_pad 2 m @ ''-'' @ itoa_pad 2 d @ ''T'' @
     clock (t div second mod 86400) @ ''.'' @ itoa_pad 6 (t mod second div 1000) @ ''+00:00''"
  using assms by (simp add: formatISO_def clock_def Let_def)

lemma clock_bounds:
  assumes "0 \<le> sod" "sod < (86400::int)"
  shows "0 \<le> sod div 3600" "sod div 3600 < 24" "0 \<le> sod mod 3600 div 60" "sod mod 3600 div 60 < 60"
    "0 \<le> sod mod 60" "sod mod 60 < 60" "sod = ((sod div 3600) * 60 + sod mod 3600 div 60) * 60 + sod mod 60"
proof -
  have join: "T = (H * 60 + M) * 60 + S" if "M * 60 + S = R" "H * 3600 + R = T" for H M S R T :: int
    using that by simp
  have "sod mod 3600 mod 60 = sod mod 60" by (rule mod_mod_cancel) simp
  then show "sod = ((sod div 3600) * 60 + sod mod 3600 div 60) * 60 + sod mod 60"
    using join [OF div_mult_mod_eq [of "sod mod 3600" 60] div_mult_mod_eq [of sod 3600]] by simp
  have "sod div 3600 \<le> 86399 div 3600" using assms by (intro zdiv_mono1) simp_all
  then show "sod div 3600 < 24" by simp
  have "sod mod 3600 div 60 \<le> 3599 div 60" using pos_mod_bound [of 3600 sod] by (intro zdiv_mono1) simp_all
  then show "sod mod 3600 div 60 < 60" by simp
qed (use assms in \<open>simp_all add: pos_imp_zdiv_nonneg_iff\<close>)

lemma clock_digits:
  assumes "0 \<le> sod" "sod < 86400"
  obtains H M S where "clock sod = itoa_pad 2 H @ '':'' @ itoa_pad 2 M @ '':'' @ itoa_pad 2 S"
    "0 \<le> H" "H < 24" "0 \<le> M" "M < 60" "0 \<le> S" "S < 60" "sod = (H * 60 + M) * 60 + S"
  using that [OF clock_def [of sod] clock_bounds [OF assms]] .

lemma clock_less:
  assumes "0 \<le> a" "a < 86400" "0 \<le> b" "b < 86400"
  shows "string_less (clock a @ s) (clock b @ t) \<longleftrightarrow> a < b \<or> (a = b \<and> string_less s t)"
proof -
  obtain H M S where A: "clock a = itoa_pad 2 H @ '':'' @ itoa_pad 2 M @ '':'' @ itoa_pad 2 S"
    "0 \<le> H" "H < 24" "0 \<le> M" "M < 60" "0 \<le> S" "S < 60" "a = (H * 60 + M) * 60 + S"
    by (rule clock_digits [OF assms(1,2)])
  obtain H' M' S' where B: "clock b = itoa_pad 2 H' @ '':'' @ itoa_pad 2 M' @ '':'' @ itoa_pad 2 S'"
    "0 \<le> H'" "H' < 24" "0 \<le> M'" "M' < 60" "0 \<le> S'" "S' < 60" "b = (H' * 60 + M') * 60 + S'"
    by (rule clock_digits [OF assms(3,4)])
  have "string_less (clock a @ s) (clock b @ t) \<longleftrightarrow> H < H' \<or> (H = H' \<and> (M < M' \<or> (M = M' \<and> (S < S' \<or> (S = S' \<and> string_less s t)))))"
    using A(2-7) B(2-7) by (simp add: A(1) B(1) itoa_pad_field)
  moreover have "a < b \<longleftrightarrow> H < H' \<or> (H = H' \<and> M < M') \<or> (H = H' \<and> M = M' \<and> S < S')"
    unfolding A(8) B(8) lex_digits [OF A(6,7) B(6,7)] lex_digits [OF A(4,5) B(4,5)]
    using lex_eq [OF A(4,5) B(4,5)] by blast
  moreover have "a = b \<longleftrightarrow> H = H' \<and> M = M' \<and> S = S'"
    unfolding A(8) B(8) lex_eq [OF A(6,7) B(6,7)] lex_eq [OF A(4,5) B(4,5)] by blast
  ultimately show ?thesis by blast
qed

lemma iso_string_order_aux:
  assumes "iso_range a" and "iso_range b"
  shows "string_less (formatISO a) (formatISO b) \<longleftrightarrow> a div 1000 < b div 1000"
proof -
  obtain day sod u where A: "0 \<le> day" "day \<le> 2932896" "0 \<le> sod" "sod < 86400" "0 \<le> u" "u < 1000000"
    and a: "a div 1000 = (day * 86400 + sod) * 1000000 + u"
    and fa: "day = a div second div 86400" "sod = a div second mod 86400" "u = a mod second div 1000"
    by (rule iso_fields [OF assms(1)])
  obtain day' sod' u' where B: "0 \<le> day'" "day' \<le> 2932896" "0 \<le> sod'" "sod' < 86400" "0 \<le> u'" "u' < 1000000"
    and b: "b div 1000 = (day' * 86400 + sod') * 1000000 + u'"
    and fb: "day' = b div second div 86400" "sod' = b div second mod 86400" "u' = b mod second div 1000"
    by (rule iso_fields [OF assms(2)])
  obtain m d m' d' where md: "civil_month_day day = (m, d)" "civil_month_day day' = (m', d')"
    by (cases "civil_month_day day"; cases "civil_month_day day'")
  note c = civil_bounds [OF md(1)] civil_bounds [OF md(2)] civil_year_range [OF A(1,2)] civil_year_range [OF B(1,2)]
  have "string_less (formatISO a) (formatISO b) \<longleftrightarrow>
     day < day' \<or> (day = day' \<and> (sod < sod' \<or> (sod = sod' \<and> u < u')))"
    unfolding formatISO_fields [OF md(1) [unfolded fa(1)]] formatISO_fields [OF md(2) [unfolded fb(1)]]
      fa [symmetric] fb [symmetric] civil_less_iff [OF md] civil_eq_iff [OF md]
    using c A(3-6) B(3-6) by (simp add: itoa_pad_field clock_less) blast
  also have "\<dots> \<longleftrightarrow> a div 1000 < b div 1000"
    unfolding a b lex_digits [OF A(5,6) B(5,6)] lex_digits [OF A(3,4) B(3,4)] lex_eq [OF A(3,4) B(3,4)] by blast
  finally show ?thesis .
qed

text \<open>
  C33: comparing stored timestamps as strings is comparing instants. For all instants of the years
  1970 to 9999, \<open>formatISO a\<close> is lexicographically below \<open>formatISO b\<close> exactly when \<open>a\<close> is earlier than
  \<open>b\<close> at the microsecond precision the layout keeps; so the \<open>ORDER BY created_at\<close> and
  \<open>expires_at <= ?\<close> of the tables are comparisons of time.
\<close>

theorem iso_string_order:
  assumes "iso_range a" and "iso_range b"
  shows "string_less (formatISO a) (formatISO b) \<longleftrightarrow> a div 1000 < b div 1000"
  using assms by (rule iso_string_order_aux)

theorem iso_string_order_witness:
  "iso_range 1700000000000000000 \<and> iso_range 1700000060000001000 \<and>
   string_less (formatISO 1700000000000000000) (formatISO 1700000060000001000)"
  using iso_string_order [of 1700000000000000000 1700000060000001000] by (simp add: iso_range_def)

end
