(* ===== verification/Iso_Parse.thy ===== *)
theory Iso_Parse
  imports Iso_Order
begin

text \<open>
  \<open>time.Parse(time.RFC3339Nano, s)\<close>, used by \<open>parseTS\<close>, \<open>workParseISO\<close> and \<open>calendarParseISO\<close> of
  \<open>daemon-go/state\<close>: the strict RFC 3339 grammar the standard library tries first (date, time,
  fraction of any length cut to nanoseconds, \<open>Z\<close> or a numeric offset). A string outside it is
  rejected here; the library's second, lenient parser also reads a few such strings.
\<close>

definition parse_uint :: "int \<Rightarrow> int \<Rightarrow> string \<Rightarrow> int option" where
  "parse_uint lo hi s =
     (if list_all is_digit s \<and> lo \<le> digits_value 0 s \<and> digits_value 0 s \<le> hi then Some (digits_value 0 s) else None)"

definition nanoseconds :: "string \<Rightarrow> int" where
  "nanoseconds digits = digits_value 0 (take 9 (digits @ replicate 9 (CHR ''0'')))"

definition parse_frac :: "string \<Rightarrow> int \<times> string" where
  "parse_frac s = (case s of
       c # d # ds \<Rightarrow> if c = CHR ''.'' \<and> is_digit d
         then (nanoseconds (takeWhile is_digit (d # ds)), dropWhile is_digit (d # ds)) else (0, s)
     | _ \<Rightarrow> (0, s))"

definition parse_zone :: "string \<Rightarrow> int option" where
  "parse_zone s =
     (if s = ''Z'' then Some 0
      else if length s \<noteq> 6 then None
      else do {
        hr \<leftarrow> parse_uint 0 23 (take 2 (drop 1 s));
        mm \<leftarrow> parse_uint 0 59 (take 2 (drop 4 s));
        if s ! 3 \<noteq> CHR '':'' then None
        else if s ! 0 = CHR ''+'' then Some ((hr * 60 + mm) * 60)
        else if s ! 0 = CHR ''-'' then Some (- ((hr * 60 + mm) * 60))
        else None
      })"

definition parseISO :: "string \<Rightarrow> gotime option" where
  "parseISO s =
     (if length s < 19 then None
      else do {
        y \<leftarrow> parse_uint 0 9999 (take 4 s);
        m \<leftarrow> parse_uint 1 12 (take 2 (drop 5 s));
        d \<leftarrow> parse_uint 1 (daysIn m y) (take 2 (drop 8 s));
        h \<leftarrow> parse_uint 0 23 (take 2 (drop 11 s));
        mi \<leftarrow> parse_uint 0 59 (take 2 (drop 14 s));
        sec \<leftarrow> parse_uint 0 59 (take 2 (drop 17 s));
        if \<not> (s ! 4 = CHR ''-'' \<and> s ! 7 = CHR ''-'' \<and> s ! 10 = CHR ''T'' \<and> s ! 13 = CHR '':'' \<and> s ! 16 = CHR '':'') then None
        else do {
          let (ns, rest) = parse_frac (drop 19 s);
          off \<leftarrow> parse_zone rest;
          Some ((days_from_civil y m d * 86400 + ((h * 60 + mi) * 60 + sec) - off) * second + ns)
        }
      })"

section \<open>Reading back what was printed\<close>

lemma digit_char_digit: "n < 10 \<Longrightarrow> is_digit (digit_char n)"
proof -
  have "\<forall>k \<in> set [0..<10]. is_digit (digit_char k)" by code_simp
  then show "n < 10 \<Longrightarrow> is_digit (digit_char n)" by simp
qed

lemma fixed_digits: "list_all is_digit (fixed w n)"
  by (induction w arbitrary: n) (simp_all add: digit_char_digit)

lemma digits_value_fixed: "n < 10 ^ w \<Longrightarrow> digits_value 0 (fixed w n) = int n"
proof (induction w arbitrary: n)
  case (Suc w)
  then have "n div 10 < 10 ^ w" by (simp add: less_mult_imp_div_less mult.commute)
  with Suc.IH show ?case
    by (simp add: digits_value_append digit_value_char) (simp add: zdiv_int zmod_int)
qed simp

lemma length_itoa_pad: "0 < w \<Longrightarrow> 0 \<le> n \<Longrightarrow> n < 10 ^ w \<Longrightarrow> length (itoa_pad w n) = w"
  by (simp add: itoa_pad_fixed)

lemma parse_uint_itoa_pad:
  "0 < w \<Longrightarrow> 0 \<le> n \<Longrightarrow> n < 10 ^ w \<Longrightarrow> lo \<le> n \<Longrightarrow> n \<le> hi \<Longrightarrow> parse_uint lo hi (itoa_pad w n) = Some n"
  by (simp add: itoa_pad_fixed parse_uint_def fixed_digits digits_value_fixed nat_less_iff)

lemma digits_value_zeros: "digits_value a (replicate k (CHR ''0'')) = a * 10 ^ k"
  by (induction k arbitrary: a) (simp_all add: digit_value_def)

text \<open>A fraction is the digits up to the zone.\<close>

lemma parse_frac_digits:
  assumes "list_all is_digit ds" "ds \<noteq> []" "\<not> is_digit z"
  shows "parse_frac (''.'' @ ds @ z # rest) = (nanoseconds ds, z # rest)"
proof -
  obtain d es where d: "ds = d # es" using assms(2) by (cases ds) auto
  have "takeWhile is_digit (d # es @ z # rest) = d # es" "dropWhile is_digit (d # es @ z # rest) = z # rest"
    using assms(1,3) by (simp_all add: d list_all_iff)
  then show ?thesis using assms(1) by (simp add: parse_frac_def d)
qed

text \<open>\<open>w\<close> digits of fraction, for any \<open>w\<close> up to nine, count from the left.\<close>

lemma nanoseconds_fixed:
  assumes "w \<le> 9" "n < 10 ^ w"
  shows "nanoseconds (fixed w n) = int n * 10 ^ (9 - w)"
proof -
  have "take 9 (fixed w n @ replicate 9 (CHR ''0'')) = fixed w n @ replicate (9 - w) (CHR ''0'')" using assms(1) by simp
  then show ?thesis unfolding nanoseconds_def using assms(2)
    by (simp only: digits_value_append digits_value_zeros digits_value_fixed)
qed

lemma zone_marks: "\<not> is_digit (CHR ''+'')" "\<not> is_digit (CHR ''Z'')"
  by code_simp+

lemma parse_frac_fixed:
  assumes "0 < w" "w \<le> 9" "0 \<le> u" "u < 10 ^ w" "\<not> is_digit z"
  shows "parse_frac (''.'' @ itoa_pad w u @ z # rest) = (u * 10 ^ (9 - w), z # rest)"
proof -
  have f: "itoa_pad w u = fixed w (nat u)" using assms by (intro itoa_pad_fixed) simp_all
  have "fixed w (nat u) \<noteq> []" using length_fixed [of w "nat u"] assms(1) by (metis length_0_conv less_irrefl)
  then have "parse_frac (''.'' @ fixed w (nat u) @ z # rest) = (nanoseconds (fixed w (nat u)), z # rest)"
    using assms(5) by (intro parse_frac_digits) (simp_all add: fixed_digits)
  moreover have "nat u < 10 ^ w" using assms(3,4) by (simp add: nat_less_iff)
  ultimately show ?thesis unfolding f using assms(2,3) by (simp add: nanoseconds_fixed)
qed

lemma parse_zone_utc: "parse_zone ''+00:00'' = Some 0"
  by code_simp

lemma length2: "length s = 2 \<Longrightarrow> \<exists>a b. s = [a, b]" and length4: "length s = 4 \<Longrightarrow> \<exists>a b c d. s = [a, b, c, d]"
  by (auto simp: length_Suc_conv eval_nat_numeral)

lemma parseISO_blocks:
  assumes "length y = 4" "length m = 2" "length d = 2" "length h = 2" "length mi = 2" "length sec = 2"
    and "parse_uint 0 9999 y = Some vy" "parse_uint 1 12 m = Some vm" "parse_uint 1 (daysIn vm vy) d = Some vd"
    and "parse_uint 0 23 h = Some vh" "parse_uint 0 59 mi = Some vmi" "parse_uint 0 59 sec = Some vs"
    and "parse_frac rest = (ns, rest')" "parse_zone rest' = Some off"
  shows "parseISO (y @ ''-'' @ m @ ''-'' @ d @ ''T'' @ h @ '':'' @ mi @ '':'' @ sec @ rest) =
     Some ((days_from_civil vy vm vd * 86400 + ((vh * 60 + vmi) * 60 + vs) - off) * second + ns)"
proof -
  obtain y0 y1 y2 y3 m0 m1 d0 d1 h0 h1 mi0 mi1 s0 s1 where e: "y = [y0, y1, y2, y3]" "m = [m0, m1]" "d = [d0, d1]"
    "h = [h0, h1]" "mi = [mi0, mi1]" "sec = [s0, s1]"
    using length4 [OF assms(1)] length2 [OF assms(2)] length2 [OF assms(3)] length2 [OF assms(4)]
      length2 [OF assms(5)] length2 [OF assms(6)] by blast
  show ?thesis using assms(7-) by (simp add: e parseISO_def)
qed

text \<open>The part all layouts share, and what is read back from it and a fraction.\<close>

definition date_time :: "gotime \<Rightarrow> string" where
  "date_time t =
     (let day = t div second div 86400; (mo, d) = civil_month_day day
      in itoa_pad 4 (civil_year day) @ ''-'' @ itoa_pad 2 mo @ ''-'' @ itoa_pad 2 d @ ''T'' @ clock (t div second mod 86400))"

lemma parse_date_time:
  assumes "iso_range t" "parse_frac rest = (ns, z)" "parse_zone z = Some 0"
  shows "parseISO (date_time t @ rest) = Some (t div second * second + ns)"
proof -
  obtain day sod where A: "0 \<le> day" "day \<le> 2932896" "0 \<le> sod" "sod < 86400"
    and f: "day = t div second div 86400" "sod = t div second mod 86400"
    by (rule iso_fields [OF assms(1)])
  obtain m d where md: "civil_month_day day = (m, d)" by (cases "civil_month_day day")
  note c = civil_bounds [OF md] civil_year_range [OF A(1,2)] civil_daysIn [OF md]
  obtain H M S where k: "clock sod = itoa_pad 2 H @ '':'' @ itoa_pad 2 M @ '':'' @ itoa_pad 2 S"
    "0 \<le> H" "H < 24" "0 \<le> M" "M < 60" "0 \<le> S" "S < 60" "sod = (H * 60 + M) * 60 + S"
    by (rule clock_digits [OF A(3,4)])
  have fmt: "date_time t @ rest = itoa_pad 4 (civil_year day) @ ''-'' @ itoa_pad 2 m @ ''-'' @ itoa_pad 2 d @ ''T'' @
     itoa_pad 2 H @ '':'' @ itoa_pad 2 M @ '':'' @ itoa_pad 2 S @ rest"
    using md unfolding date_time_def Let_def f [symmetric] by (simp add: k(1))
  have "parseISO (date_time t @ rest) = Some ((days_from_civil (civil_year day) m d * 86400 + ((H * 60 + M) * 60 + S) - 0) * second + ns)"
    unfolding fmt
    by (rule parseISO_blocks [OF _ _ _ _ _ _ _ _ _ _ _ _ assms(2,3)])
      (use c k(2-7) in \<open>simp_all add: length_itoa_pad parse_uint_itoa_pad\<close>)
  also have "\<dots> = Some ((day * 86400 + sod) * second + ns)"
    unfolding days_from_civil_inverse [OF md] k(8) [symmetric] by simp
  also have "day * 86400 + sod = t div second" unfolding f by (rule div_mult_mod_eq)
  finally show ?thesis .
qed

text \<open>Cutting to a unit that divides the second commutes with splitting off the seconds.\<close>

lemma unit_split:
  fixes t k m :: int
  assumes "k * m = second" "k \<noteq> 0"
  shows "t div second * second + t mod second div k * k = t div k * k"
proof -
  have "t = t mod second + k * (m * (t div second))"
    unfolding mult.assoc [symmetric] assms(1) by (rule mod_mult_div_eq [symmetric])
  then have "t div k = (t mod second + k * (m * (t div second))) div k" by (rule arg_cong)
  also have "\<dots> = m * (t div second) + t mod second div k" by (rule div_mult_self2 [OF assms(2)])
  finally have q: "t div k = m * (t div second) + t mod second div k" .
  have split: "a * s + r * k = (m * a + r) * k" if "k * m = s" for a r s using that by (auto simp: algebra_simps)
  show ?thesis unfolding q by (rule split [OF assms(1)])
qed

lemma unit_bounds:
  fixes t k m :: int
  assumes "k * m = second" "0 < k"
  shows "0 \<le> t mod second div k" "t mod second div k < m"
proof -
  have r: "0 \<le> t mod second" "t mod second < second" by simp_all
  show "0 \<le> t mod second div k" using r(1) assms(2) by (simp add: pos_imp_zdiv_nonneg_iff)
  have "t mod second div k * k \<le> t mod second" using assms(2) by (metis mult.commute mult_div_mod_eq pos_mod_sign add_increasing2 order_refl)
  then have "t mod second div k * k < m * k" using r(2) assms(1) by (simp only: mult.commute)
  then show "t mod second div k < m" using assms(2) by (simp only: mult_less_cancel_right_pos)
qed

lemma iso_roundtrip_aux:
  assumes "iso_range t"
  shows "parseISO (formatISO t) = Some (t div 1000 * 1000)"
proof -
  have fmt: "formatISO t = date_time t @ ''.'' @ itoa_pad 6 (t mod second div 1000) @ CHR ''+'' # ''00:00''"
    by (simp add: formatISO_def date_time_def clock_def Let_def split: prod.split)
  have "parse_frac (''.'' @ itoa_pad 6 (t mod second div 1000) @ CHR ''+'' # ''00:00'') = (t mod second div 1000 * 10 ^ (9 - 6), CHR ''+'' # ''00:00'')"
    by (rule parse_frac_fixed) (use unit_bounds [of 1000 1000000 t] zone_marks in simp_all)
  from parse_date_time [OF assms this] show ?thesis unfolding fmt using unit_split [of 1000 1000000 t] parse_zone_utc by simp
qed

text \<open>The fraction without its trailing zeros, as \<open>RFC3339Nano\<close> prints it.\<close>

lemma trim_zeros_split: "\<exists>k. s = trim_zeros s @ replicate k (CHR ''0'')"
proof -
  have "rev s = takeWhile (\<lambda>c. c = CHR ''0'') (rev s) @ dropWhile (\<lambda>c. c = CHR ''0'') (rev s)" by simp
  then have s: "s = trim_zeros s @ rev (takeWhile (\<lambda>c. c = CHR ''0'') (rev s))"
    unfolding trim_zeros_def by (metis rev_append rev_rev_ident)
  have "takeWhile (\<lambda>c. c = CHR ''0'') (rev s) = replicate (length (takeWhile (\<lambda>c. c = CHR ''0'') (rev s))) (CHR ''0'')"
    by (rule replicate_eqI) (auto dest: set_takeWhileD)
  then have "rev (takeWhile (\<lambda>c. c = CHR ''0'') (rev s)) = replicate (length (takeWhile (\<lambda>c. c = CHR ''0'') (rev s))) (CHR ''0'')"
    by (metis rev_replicate)
  with s show ?thesis by metis
qed

lemma nanoseconds_trim:
  assumes "length s = 9" "list_all is_digit s"
  shows "nanoseconds (trim_zeros s) = digits_value 0 s" "list_all is_digit (trim_zeros s)"
proof -
  obtain k where k: "s = trim_zeros s @ replicate k (CHR ''0'')" using trim_zeros_split by blast
  then have len: "length (trim_zeros s) + k = 9" using assms(1) by (metis length_append length_replicate)
  have "take 9 (trim_zeros s @ replicate 9 (CHR ''0'')) = trim_zeros s @ replicate k (CHR ''0'')"
    using len by (simp add: min_def)
  then show "nanoseconds (trim_zeros s) = digits_value 0 s" unfolding nanoseconds_def by (simp flip: k)
  show "list_all is_digit (trim_zeros s)" using assms(2) by (subst (asm) k) simp
qed

lemma parse_frac_nanos:
  assumes "0 \<le> n" "n < 1000000000"
  shows "parse_frac ((if trim_zeros (itoa_pad 9 n) = [] then [] else ''.'' @ trim_zeros (itoa_pad 9 n)) @ ''Z'') = (n, ''Z'')"
proof -
  have f: "itoa_pad 9 n = fixed 9 (nat n)" using assms by (intro itoa_pad_fixed) simp_all
  have val: "digits_value 0 (itoa_pad 9 n) = n" unfolding f using assms by (simp add: digits_value_fixed nat_less_iff)
  have props: "length (itoa_pad 9 n) = 9" "list_all is_digit (itoa_pad 9 n)" unfolding f by (simp_all add: fixed_digits)
  note t = nanoseconds_trim [OF props, unfolded val]
  show ?thesis
  proof (cases "trim_zeros (itoa_pad 9 n) = []")
    case True
    then have "n = 0" using t(1) by (simp add: nanoseconds_def digits_value_zeros)
    then show ?thesis using True by (simp add: parse_frac_def)
  next
    case False
    then show ?thesis using parse_frac_digits [OF t(2) False zone_marks(2), of "[]"] t(1) by simp
  qed
qed

lemma nano_roundtrip:
  assumes "iso_range t"
  shows "parseISO (FormatRFC3339Nano t) = Some t"
proof -
  let ?frac = "(if trim_zeros (itoa_pad 9 (t mod second)) = [] then [] else ''.'' @ trim_zeros (itoa_pad 9 (t mod second))) @ ''Z''"
  have fmt: "FormatRFC3339Nano t = date_time t @ ?frac"
    by (simp add: FormatRFC3339Nano_def date_time_def clock_def Let_def split: prod.split)
  have "0 \<le> t mod second" "t mod second < 1000000000" by simp_all
  from parse_date_time [OF assms parse_frac_nanos [OF this]]
  show ?thesis unfolding fmt div_mult_mod_eq by (simp add: parse_zone_def)
qed

text \<open>
  C34: stored timestamps read back, for every instant of the years 1970 to 9999: parsing what
  \<open>formatISO\<close> printed yields the instant cut to the microseconds the layout keeps, and parsing what
  \<open>RFC3339Nano\<close> printed (the schedules) yields the instant itself.
\<close>

theorem iso_roundtrip:
  assumes "iso_range t"
  shows "parseISO (formatISO t) = Some (t div 1000 * 1000) \<and> parseISO (FormatRFC3339Nano t) = Some t"
  using iso_roundtrip_aux [OF assms] nano_roundtrip [OF assms] by simp

theorem iso_roundtrip_witness:
  "iso_range 1709208000123456789 \<and> parseISO (formatISO 1709208000123456789) = Some 1709208000123456000 \<and>
   parseISO (FormatRFC3339Nano 1709208000123456789) = Some 1709208000123456789"
  using iso_roundtrip [of 1709208000123456789] by (simp add: iso_range_def)

end
