(* ===== verification/Sql_Table.thy ===== *)
theory Sql_Table
  imports Iso_Order "HOL-Library.Product_Lexorder"
begin

text \<open>
  The tables of \<open>daemon-go/state\<close>: a table is a Go-style map from its primary key to its rows, one
  statement is one function on it, and a transaction is their composition (the store holds a single
  connection, so transactions do not interleave). A text column orders by its bytes; \<open>ORDER BY\<close> is
  the library's \<open>sort_key\<close>, for which \<open>dbtext\<close> carries the order.
\<close>

section \<open>Text columns\<close>

datatype dbtext = DBText (dbtext: string)

instantiation dbtext :: linorder
begin

definition less_dbtext :: "dbtext \<Rightarrow> dbtext \<Rightarrow> bool" where
  "less_dbtext a b \<longleftrightarrow> string_less (dbtext a) (dbtext b)"

definition less_eq_dbtext :: "dbtext \<Rightarrow> dbtext \<Rightarrow> bool" where
  "less_eq_dbtext a b \<longleftrightarrow> a = b \<or> string_less (dbtext a) (dbtext b)"

instance
proof
  fix x y z :: dbtext
  show "x < y \<longleftrightarrow> x \<le> y \<and> \<not> y \<le> x"
    by (auto simp: less_dbtext_def less_eq_dbtext_def dest: string_less_trans)
  show "x \<le> x" by (simp add: less_eq_dbtext_def)
  show "x \<le> y \<Longrightarrow> y \<le> z \<Longrightarrow> x \<le> z" by (auto simp: less_eq_dbtext_def dest: string_less_trans)
  show "x \<le> y \<Longrightarrow> y \<le> x \<Longrightarrow> x = y" by (auto simp: less_eq_dbtext_def dest: string_less_trans)
  show "x \<le> y \<or> y \<le> x" using string_less_total [of "dbtext x" "dbtext y"] by (auto simp: less_eq_dbtext_def intro: dbtext.expand)
qed

end

lemma dbtext_less [simp]: "DBText s < DBText t \<longleftrightarrow> string_less s t"
  by (simp add: less_dbtext_def)

lemma dbtext_le [simp]: "DBText s \<le> DBText t \<longleftrightarrow> s = t \<or> string_less s t"
  by (simp add: less_eq_dbtext_def)

text \<open>A cutoff test on a timestamp column is a test on instants.\<close>

lemma formatISO_less: "iso_range a \<Longrightarrow> iso_range b \<Longrightarrow> DBText (formatISO a) < DBText (formatISO b) \<longleftrightarrow> a div 1000 < b div 1000"
  using iso_string_order_aux by simp

section \<open>Rows\<close>

definition rows_where :: "('v \<Rightarrow> bool) \<Rightarrow> ('k, 'v) gomap \<Rightarrow> 'v list" where
  "rows_where P t = filter P (map snd t)"

definition delete_where :: "('v \<Rightarrow> bool) \<Rightarrow> ('k, 'v) gomap \<Rightarrow> ('k, 'v) gomap" where
  "delete_where P t = filter (\<lambda>(k, v). \<not> P v) t"

text \<open>A table is well formed when its keys are distinct and every row is filed under its own key.\<close>

definition table_ok :: "('v \<Rightarrow> 'k) \<Rightarrow> ('k, 'v) gomap \<Rightarrow> bool" where
  "table_ok pk t \<longleftrightarrow> gm_ok t \<and> (\<forall>k v. gm_get t k = Some v \<longrightarrow> pk v = k)"

lemma table_okI: "gm_ok t \<Longrightarrow> (\<And>k v. gm_get t k = Some v \<Longrightarrow> pk v = k) \<Longrightarrow> table_ok pk t"
  by (simp add: table_ok_def)

lemma table_ok_gm [dest]: "table_ok pk t \<Longrightarrow> gm_ok t"
  by (simp add: table_ok_def)

lemma table_ok_pk: "table_ok pk t \<Longrightarrow> gm_get t k = Some v \<Longrightarrow> pk v = k"
  by (simp add: table_ok_def)

lemma table_ok_Nil [simp]: "table_ok pk []"
  by (simp add: table_ok_def)

lemma table_ok_put [intro]: "table_ok pk t \<Longrightarrow> pk v = k \<Longrightarrow> table_ok pk (gm_put k v t)"
  by (auto simp: table_ok_def)

lemma table_ok_adjust: "table_ok pk t \<Longrightarrow> (\<And>v. pk (f v) = pk v) \<Longrightarrow> table_ok pk (gm_adjust k f t)"
  by (auto simp: table_ok_def)

lemma table_ok_dels [intro]: "table_ok pk t \<Longrightarrow> table_ok pk (gm_dels ks t)"
  by (auto simp: table_ok_def)

lemma gm_get_filter: "gm_ok t \<Longrightarrow> gm_get (filter (\<lambda>(k, v). Q k v) t) k = (case gm_get t k of Some v \<Rightarrow> if Q k v then Some v else None | None \<Rightarrow> None)"
  by (induction t) (auto simp: gm_get_def gm_ok_def split: option.splits dest: map_of_SomeD intro: rev_image_eqI)

lemma gm_get_delete_where [simp]:
  "gm_ok t \<Longrightarrow> gm_get (delete_where P t) k = (case gm_get t k of Some v \<Rightarrow> if P v then None else Some v | None \<Rightarrow> None)"
  by (auto simp: delete_where_def gm_get_filter split: option.splits)

lemma gm_ok_delete_where [intro, simp]: "gm_ok t \<Longrightarrow> gm_ok (delete_where P t)"
  by (simp add: gm_ok_def delete_where_def distinct_map_filter)

lemma table_ok_delete_where [intro]: "table_ok pk t \<Longrightarrow> table_ok pk (delete_where P t)"
  by (auto simp: table_ok_def split: option.splits if_splits)

lemma set_rows_where: "gm_ok t \<Longrightarrow> v \<in> set (rows_where P t) \<longleftrightarrow> P v \<and> (\<exists>k. gm_get t k = Some v)"
  by (auto simp: rows_where_def gm_mem_iff [symmetric] image_iff) force

lemma rows_where_pk: "table_ok pk t \<Longrightarrow> v \<in> set (rows_where P t) \<longleftrightarrow> P v \<and> gm_get t (pk v) = Some v"
  by (metis set_rows_where table_ok_gm table_ok_pk)

lemma distinct_rows_where: "table_ok pk t \<Longrightarrow> distinct (map pk (rows_where P t))"
proof -
  assume t: "table_ok pk t"
  then have "map pk (map snd t) = map fst t" by (auto simp: table_ok_def gm_mem_iff)
  moreover have "distinct (map fst t)" using t by (simp add: table_ok_def gm_ok_def)
  ultimately have "distinct (map pk (map snd t))" by (simp only:)
  then show ?thesis unfolding rows_where_def by (rule distinct_map_filter)
qed

text \<open>The rows taken by a \<open>LIMIT\<close> on a sorted selection precede those it leaves.\<close>

lemma sorted_take_before_drop:
  assumes "x \<in> set (take n (sort_key f xs))" "y \<in> set (drop n (sort_key f xs))"
  shows "f x \<le> f y"
proof -
  have "sorted (map f (take n (sort_key f xs) @ drop n (sort_key f xs)))" by simp
  with assms show ?thesis by (auto simp: sorted_append simp del: append_take_drop_id)
qed

lemma distinct_map_take: "distinct (map f xs) \<Longrightarrow> distinct (map f (take n xs))"
  by (simp add: distinct_take take_map [symmetric])

lemma distinct_map_sort_key: "distinct (map g (sort_key f xs)) = distinct (map g xs)"
  by (simp add: distinct_map)

lemma distinct_split: "distinct (map f xs) \<Longrightarrow> set (take n xs) \<inter> set (drop n xs) = {}"
  by (metis append_take_drop_id distinct_append distinct_map)

end
