(* ===== verification/Delivery_Queue.thy ===== *)
theory Delivery_Queue
  imports Complex_Main Sql_Table
begin

text \<open>
  The durable delivery queue of polling peers, \<open>daemon-go/state/queued_deliveries.go\<close>: enqueue with
  a lifetime and a cap per peer, drain (read and delete, oldest first), list and delete. The table
  is keyed by \<open>delivery_id\<close>, its primary key. Attachments and metadata are the decoded values of
  their JSON columns. \<open>ttlSeconds\<close> is a rational number where the code has a float64; the minted id
  is an argument. A failing statement rolls its transaction back; of the failures only the one the
  data can cause is represented, an id that is already in the table.
\<close>

section \<open>Data\<close>

datatype DeliveryKind = DeliveryAsk | DeliveryNotify

record queued_delivery =
  DeliveryID :: string
  qdPeerID :: string
  qdRepowireSessionID :: "string option"
  qdKind :: DeliveryKind
  qdFromPeerID :: "string option"
  qdFromPeerName :: string
  qdToPeerName :: string
  qdCorrelationID :: "string option"
  qdText :: string
  qdCreatedAt :: string
  qdExpiresAt :: string
  qdAttachments :: "jobject list"
  qdMetadata :: jobject

type_synonym delivery_table = "(string, queued_delivery) gomap"

datatype queue_error = ErrInsertDelivery string

section \<open>Statements\<close>

text \<open>\<open>ORDER BY created_at, delivery_id\<close>.\<close>

definition queue_key :: "queued_delivery \<Rightarrow> dbtext \<times> dbtext" where
  "queue_key d = (DBText (qdCreatedAt d), DBText (DeliveryID d))"

definition deleteExpired :: "string \<Rightarrow> delivery_table \<Rightarrow> delivery_table" where
  "deleteExpired cutoffISO db = delete_where (\<lambda>d. DBText (qdExpiresAt d) \<le> DBText cutoffISO) db"

definition over_cap :: "string \<Rightarrow> nat \<Rightarrow> delivery_table \<Rightarrow> queued_delivery list" where
  "over_cap peerID maxPerPeer db =
     drop maxPerPeer (rev (sort_key queue_key (rows_where (\<lambda>d. qdPeerID d = peerID) db)))"

definition enforceCap :: "string \<Rightarrow> nat \<Rightarrow> delivery_table \<Rightarrow> delivery_table" where
  "enforceCap peerID maxPerPeer db = gm_dels (map DeliveryID (over_cap peerID maxPerPeer db)) db"

definition selectForPeer :: "string \<Rightarrow> string \<Rightarrow> nat \<Rightarrow> delivery_table \<Rightarrow> queued_delivery list" where
  "selectForPeer peerID cutoffISO limit db =
     take limit (sort_key queue_key
       (rows_where (\<lambda>d. qdPeerID d = peerID \<and> DBText cutoffISO < DBText (qdExpiresAt d)) db))"

section \<open>Operations\<close>

definition stamped :: "string \<Rightarrow> gotime \<Rightarrow> rat \<Rightarrow> queued_delivery \<Rightarrow> queued_delivery" where
  "stamped i now ttlSeconds d =
     d\<lparr>DeliveryID := i, qdCreatedAt := formatISO now, qdExpiresAt := formatISO (now + \<lfloor>ttlSeconds * 1000000000\<rfloor>)\<rparr>"

definition EnqueueDelivery :: "string \<Rightarrow> gotime \<Rightarrow> rat \<Rightarrow> int \<Rightarrow> queued_delivery \<Rightarrow> delivery_table \<Rightarrow>
    (queue_error + queued_delivery option) \<times> delivery_table" where
  "EnqueueDelivery i now ttlSeconds maxPerPeer d db =
     (if maxPerPeer \<le> 0 \<or> ttlSeconds \<le> 0 then (Inr None, db)
      else (let out = stamped i now ttlSeconds d;
                db1 = deleteExpired (qdCreatedAt out) db
            in if gm_has db1 i then (Inl (ErrInsertDelivery i), db)
               else (Inr (Some out), enforceCap (qdPeerID out) (nat maxPerPeer) (gm_put i out db1))))"

definition DrainDeliveries :: "string \<Rightarrow> int \<Rightarrow> gotime \<Rightarrow> delivery_table \<Rightarrow> queued_delivery list \<times> delivery_table" where
  "DrainDeliveries peerID maxResults now db =
     (if maxResults \<le> 0 then ([], db)
      else (let cutoff = formatISO now; db1 = deleteExpired cutoff db;
                out = selectForPeer peerID cutoff (nat maxResults) db1
            in (out, gm_dels (map DeliveryID out) db1)))"

definition ListDeliveries :: "string \<Rightarrow> int \<Rightarrow> gotime \<Rightarrow> delivery_table \<Rightarrow> queued_delivery list \<times> delivery_table" where
  "ListDeliveries peerID maxResults now db =
     (if maxResults \<le> 0 then ([], db)
      else (let cutoff = formatISO now; db1 = deleteExpired cutoff db
            in (selectForPeer peerID cutoff (nat maxResults) db1, db1)))"

definition DeleteDelivery :: "string \<Rightarrow> delivery_table \<Rightarrow> bool \<times> delivery_table" where
  "DeleteDelivery deliveryID db = (gm_has db deliveryID, gm_del deliveryID db)"

section \<open>The statements on well-formed tables\<close>

abbreviation queue_ok :: "delivery_table \<Rightarrow> bool" where
  "queue_ok db \<equiv> table_ok DeliveryID db"

definition live_rows :: "string \<Rightarrow> string \<Rightarrow> delivery_table \<Rightarrow> queued_delivery set" where
  "live_rows peerID cutoff db = {d. qdPeerID d = peerID \<and> string_less cutoff (qdExpiresAt d) \<and> gm_get db (DeliveryID d) = Some d}"

lemma expired_iff: "DBText e \<le> DBText c \<longleftrightarrow> \<not> string_less c e"
  using string_less_total [of e c] string_less_trans [of c e c] by (auto dest: string_less_trans)

lemma get_deleteExpired:
  "queue_ok db \<Longrightarrow> gm_get (deleteExpired c db) k = Some d \<longleftrightarrow> gm_get db k = Some d \<and> string_less c (qdExpiresAt d)"
  using table_ok_gm [of DeliveryID db] by (auto simp: deleteExpired_def expired_iff simp del: dbtext_le split: option.splits if_splits)

lemma deleteExpired_ok [intro, simp]: "queue_ok db \<Longrightarrow> queue_ok (deleteExpired c db)"
  by (auto simp: deleteExpired_def)

lemma set_selectable:
  "queue_ok db \<Longrightarrow> set (rows_where (\<lambda>d. qdPeerID d = p \<and> DBText c < DBText (qdExpiresAt d)) db) = live_rows p c db"
  by (auto simp: rows_where_pk live_rows_def)

lemma live_rows_deleteExpired: "queue_ok db \<Longrightarrow> live_rows p c (deleteExpired c db) = live_rows p c db"
  by (auto simp: live_rows_def get_deleteExpired)

lemma get_dels_rows:
  assumes "queue_ok db" and "set ds \<subseteq> {d. gm_get db (DeliveryID d) = Some d}"
  shows "gm_get (gm_dels (map DeliveryID ds) db) k = Some d \<longleftrightarrow> gm_get db k = Some d \<and> d \<notin> set ds"
proof (cases "gm_get db k = Some d")
  case True
  then have "DeliveryID d = k" by (rule table_ok_pk [OF assms(1)])
  have "k \<in> set (map DeliveryID ds) \<longleftrightarrow> d \<in> set ds"
  proof
    assume "k \<in> set (map DeliveryID ds)"
    then obtain d' where "d' \<in> set ds" "DeliveryID d' = k" by auto
    moreover from this assms(2) have "gm_get db k = Some d'" by auto
    ultimately show "d \<in> set ds" using True by simp
  qed (use \<open>DeliveryID d = k\<close> in auto)
  with True show ?thesis by simp
next
  case False
  then show ?thesis by auto
qed

lemma selectForPeer_sub: "queue_ok db \<Longrightarrow> set (selectForPeer p c n db) \<subseteq> live_rows p c db"
  using set_take_subset [of n] by (fastforce simp: selectForPeer_def set_selectable [symmetric])

lemma distinct_selectForPeer: "queue_ok db \<Longrightarrow> distinct (map DeliveryID (selectForPeer p c n db))"
  by (simp add: selectForPeer_def distinct_map_take distinct_map_sort_key distinct_rows_where)

end
