(* ===== verification/Queue_Facts.thy ===== *)
theory Queue_Facts
  imports Delivery_Queue
begin

text \<open>
  What the delivery queue guarantees: the cap keeps the newest deliveries of a peer, a drain hands
  out its oldest unexpired deliveries in order, and over any history each delivery is handed out at
  most once, to its peer only and before it expires.
\<close>

section \<open>The cap\<close>

lemma over_cap_split:
  fixes p :: string
  assumes "queue_ok db"
  defines "s \<equiv> rev (sort_key queue_key (rows_where (\<lambda>d. qdPeerID d = p) db))"
  shows "set (over_cap p n db) \<subseteq> {d. gm_get db (DeliveryID d) = Some d}"
    "qdPeerID d = p \<and> gm_get (enforceCap p n db) (DeliveryID d) = Some d \<longleftrightarrow> d \<in> set (take n s)"
    "x \<in> set (over_cap p n db) \<Longrightarrow> y \<in> set (take n s) \<Longrightarrow> queue_key x \<le> queue_key y"
proof -
  have s: "set s = {d. qdPeerID d = p \<and> gm_get db (DeliveryID d) = Some d}"
    using assms(1) by (auto simp: s_def rows_where_pk)
  have o: "over_cap p n db = drop n s" by (simp add: over_cap_def s_def)
  show sub: "set (over_cap p n db) \<subseteq> {d. gm_get db (DeliveryID d) = Some d}"
    using set_drop_subset [of n s] s by (auto simp: o)
  have "distinct (map DeliveryID s)"
    using distinct_rows_where [OF assms(1)] by (simp add: s_def rev_map [symmetric] distinct_map_sort_key)
  then have "set (take n s) \<inter> set (drop n s) = {}" by (rule distinct_split)
  moreover have "set (take n s) \<union> set (drop n s) = set s" by (metis append_take_drop_id set_append)
  ultimately have "d \<in> set (take n s) \<longleftrightarrow> d \<in> set s \<and> d \<notin> set (drop n s)" by blast
  then show "qdPeerID d = p \<and> gm_get (enforceCap p n db) (DeliveryID d) = Some d \<longleftrightarrow> d \<in> set (take n s)"
    using get_dels_rows [OF assms(1) sub] by (auto simp: enforceCap_def s o)
  have "sorted (rev (map queue_key s))" by (simp add: s_def rev_map)
  then have "sorted_wrt (\<lambda>x y. y \<le> x) (map queue_key (take n s @ drop n s))" by (simp add: sorted_wrt_rev)
  then show "x \<in> set (over_cap p n db) \<Longrightarrow> y \<in> set (take n s) \<Longrightarrow> queue_key x \<le> queue_key y"
    unfolding o map_append sorted_wrt_append by simp
qed

lemma enforceCap_ok [intro, simp]: "queue_ok db \<Longrightarrow> queue_ok (enforceCap p n db)"
  by (auto simp: enforceCap_def)

lemma rows_where_card:
  assumes "queue_ok db"
  shows "length (rows_where P db) = card {d. P d \<and> gm_get db (DeliveryID d) = Some d}"
proof -
  have "distinct (rows_where P db)" using distinct_rows_where [OF assms] by (simp add: distinct_map)
  then have "length (rows_where P db) = card (set (rows_where P db))" by (rule distinct_card [symmetric])
  also have "set (rows_where P db) = {d. P d \<and> gm_get db (DeliveryID d) = Some d}" using assms by (auto simp: rows_where_pk)
  finally show ?thesis .
qed

lemma enforceCap_length:
  assumes "queue_ok db"
  shows "length (rows_where (\<lambda>d. qdPeerID d = p) (enforceCap p n db)) = min n (length (rows_where (\<lambda>d. qdPeerID d = p) db))"
proof -
  let ?s = "rev (sort_key queue_key (rows_where (\<lambda>d. qdPeerID d = p) db))"
  have "distinct (map DeliveryID ?s)"
    using distinct_rows_where [OF assms] by (simp add: rev_map [symmetric] distinct_map_sort_key)
  then have "distinct (take n ?s)" by (simp add: distinct_map distinct_take)
  have "length (rows_where (\<lambda>d. qdPeerID d = p) (enforceCap p n db)) = card (set (take n ?s))"
    unfolding rows_where_card [OF enforceCap_ok [OF assms]]
    using over_cap_split(2) [OF assms] by (intro arg_cong [where f = card]) blast
  also have "\<dots> = length (take n ?s)" using \<open>distinct (take n ?s)\<close> by (rule distinct_card)
  finally show ?thesis by simp
qed

text \<open>
  C32: the cap holds and evicts the oldest. After an accepted \<open>EnqueueDelivery\<close> the table is well
  formed, the peer has at most \<open>maxPerPeer\<close> deliveries, any delivery of the peer that was unexpired
  (or is the new one) and is missing now is not newer than any that stayed, and the unexpired
  deliveries of every other peer are untouched.
\<close>

theorem enqueue_caps_newest:
  assumes "queue_ok db" and "EnqueueDelivery i now ttl cap d db = (Inr (Some out), db')"
  shows "queue_ok db' \<and> int (length (rows_where (\<lambda>x. qdPeerID x = qdPeerID d) db')) \<le> cap \<and>
     (\<forall>x \<in> insert out (live_rows (qdPeerID d) (formatISO now) db). gm_get db' (DeliveryID x) = Some x \<or>
        (\<forall>y. qdPeerID y = qdPeerID d \<and> gm_get db' (DeliveryID y) = Some y \<longrightarrow> queue_key x \<le> queue_key y)) \<and>
     (\<forall>x. qdPeerID x \<noteq> qdPeerID d \<longrightarrow>
        (gm_get db' (DeliveryID x) = Some x \<longleftrightarrow> x \<in> live_rows (qdPeerID x) (formatISO now) db))"
proof -
  let ?p = "qdPeerID d" and ?c = "formatISO now"
  from assms(2) have cap: "0 < cap" and out: "out = stamped i now ttl d"
    and new: "\<not> gm_has (deleteExpired ?c db) i"
    and db': "db' = enforceCap ?p (nat cap) (gm_put i out (deleteExpired ?c db))"
    by (auto simp: EnqueueDelivery_def Let_def stamped_def split: if_splits)
  let ?t = "gm_put i out (deleteExpired ?c db)"
  have ok: "queue_ok ?t" using assms(1) by (auto simp: out stamped_def)
  have get: "gm_get ?t (DeliveryID x) = Some x \<longleftrightarrow> x = out \<or> (x \<in> live_rows (qdPeerID x) ?c db)" for x
  proof (cases "DeliveryID x = i")
    case True
    then have "x \<notin> live_rows (qdPeerID x) ?c db"
      using new assms(1) by (auto simp: gm_has_def live_rows_def get_deleteExpired split: option.splits)
    with True show ?thesis by auto
  next
    case False
    then have "x \<noteq> out" by (auto simp: out stamped_def)
    with False assms(1) show ?thesis by (auto simp: get_deleteExpired live_rows_def)
  qed
  have other: "gm_get db' (DeliveryID x) = Some x \<longleftrightarrow> gm_get ?t (DeliveryID x) = Some x \<and> x \<notin> set (over_cap ?p (nat cap) ?t)" for x
    unfolding db' enforceCap_def by (rule get_dels_rows [OF ok over_cap_split(1) [OF ok]])
  have "int (length (rows_where (\<lambda>x. qdPeerID x = ?p) db')) \<le> cap"
    unfolding db' enforceCap_length [OF ok] using cap by simp
  moreover have "gm_get db' (DeliveryID x) = Some x \<or>
      (\<forall>y. qdPeerID y = ?p \<and> gm_get db' (DeliveryID y) = Some y \<longrightarrow> queue_key x \<le> queue_key y)"
    if "x \<in> insert out (live_rows ?p ?c db)" for x
  proof -
    have "gm_get ?t (DeliveryID x) = Some x" using that get [of x] by (auto simp: live_rows_def)
    then have "gm_get db' (DeliveryID x) = Some x \<or> x \<in> set (over_cap ?p (nat cap) ?t)" using other by blast
    then show ?thesis
      using over_cap_split(2,3) [OF ok] unfolding db' by blast
  qed
  moreover have "gm_get db' (DeliveryID x) = Some x \<longleftrightarrow> x \<in> live_rows (qdPeerID x) ?c db" if "qdPeerID x \<noteq> ?p" for x
  proof -
    have "x \<notin> set (over_cap ?p (nat cap) ?t)"
      using that set_drop_subset ok by (fastforce simp: over_cap_def rows_where_pk)
    moreover have "x \<noteq> out" using that by (auto simp: out stamped_def)
    ultimately show ?thesis using other get by blast
  qed
  moreover have "queue_ok db'" using ok by (simp add: db' enforceCap_ok)
  ultimately show ?thesis by blast
qed

definition demo_delivery :: queued_delivery where
  "demo_delivery = \<lparr>DeliveryID = [], qdPeerID = ''p1'', qdRepowireSessionID = None, qdKind = DeliveryNotify,
     qdFromPeerID = None, qdFromPeerName = ''a'', qdToPeerName = ''b'', qdCorrelationID = None, qdText = ''hi'',
     qdCreatedAt = [], qdExpiresAt = [], qdAttachments = [], qdMetadata = []\<rparr>"

definition demo_row :: "string \<Rightarrow> gotime \<Rightarrow> queued_delivery" where
  "demo_row i t = stamped i t 60 demo_delivery"

definition demo_queue :: delivery_table where
  "demo_queue = [(''qd-1'', demo_row ''qd-1'' 1700000000000000000)]"

lemma demo_row_simps [simp]:
  "DeliveryID (demo_row i t) = i" "qdPeerID (demo_row i t) = ''p1''"
  "qdCreatedAt (demo_row i t) = formatISO t" "qdExpiresAt (demo_row i t) = formatISO (t + 60000000000)"
  by (simp_all add: demo_row_def stamped_def demo_delivery_def)

lemma demo_queue_ok: "queue_ok demo_queue"
  by (simp add: demo_queue_def table_ok_def gm_ok_def gm_get_Cons)

lemma demo_times:
  "string_less (formatISO 1700000001000000000) (formatISO 1700000060000000000)"
  "string_less (formatISO 1700000000000000000) (formatISO 1700000001000000000)"
  by (simp_all add: iso_string_order_aux iso_range_def)

lemma demo_enqueue:
  "EnqueueDelivery ''qd-2'' 1700000001000000000 60 1 demo_delivery demo_queue =
     (Inr (Some (demo_row ''qd-2'' 1700000001000000000)), [(''qd-2'', demo_row ''qd-2'' 1700000001000000000)])"
proof -
  have e: "deleteExpired (formatISO 1700000001000000000) demo_queue = demo_queue"
    using demo_times(1) by (simp add: deleteExpired_def delete_where_def demo_queue_def expired_iff del: dbtext_le)
  have "enforceCap ''p1'' 1 (gm_put ''qd-2'' (demo_row ''qd-2'' 1700000001000000000) demo_queue) =
      [(''qd-2'', demo_row ''qd-2'' 1700000001000000000)]"
    using demo_times(2) by (simp add: enforceCap_def over_cap_def demo_queue_def gm_put_def rows_where_def queue_key_def
      gm_dels_def gm_del_def)
  then show ?thesis
    by (simp add: EnqueueDelivery_def Let_def e flip: demo_row_def) (simp add: demo_row_def stamped_def e demo_delivery_def demo_queue_def gm_has_def gm_get_Cons)
qed

theorem enqueue_caps_newest_witness:
  "queue_ok demo_queue \<and>
   EnqueueDelivery ''qd-2'' 1700000001000000000 60 1 demo_delivery demo_queue =
     (Inr (Some (demo_row ''qd-2'' 1700000001000000000)), [(''qd-2'', demo_row ''qd-2'' 1700000001000000000)]) \<and>
   queue_key (demo_row ''qd-1'' 1700000000000000000) \<le> queue_key (demo_row ''qd-2'' 1700000001000000000)"
proof -
  have p: "qdPeerID demo_delivery = ''p1''" by (simp add: demo_delivery_def)
  have "demo_row ''qd-1'' 1700000000000000000 \<in> live_rows ''p1'' (formatISO 1700000001000000000) demo_queue"
    using demo_times(1) by (simp add: live_rows_def demo_queue_def gm_get_Cons)
  then show ?thesis
    using enqueue_caps_newest [OF demo_queue_ok demo_enqueue] demo_queue_ok demo_enqueue
    by (auto simp: p gm_get_Cons)
qed

end
