(* ===== verification/Queue_History.thy ===== *)
theory Queue_History
  imports Queue_Facts
begin

text \<open>
  Drains: what one drain hands out, and what any history of operations hands out in total.
\<close>

section \<open>One drain\<close>

lemma drain_eq:
  assumes "queue_ok db" "0 < n" "DrainDeliveries p n now db = (out, db')"
  shows "set out \<subseteq> live_rows p (formatISO now) db" "distinct (map DeliveryID out)" "queue_ok db'"
    "gm_get db' k = Some x \<longleftrightarrow> gm_get db k = Some x \<and> string_less (formatISO now) (qdExpiresAt x) \<and> x \<notin> set out"
    "out = take (nat n) (sort_key queue_key (rows_where (\<lambda>d. qdPeerID d = p \<and>
        DBText (formatISO now) < DBText (qdExpiresAt d)) (deleteExpired (formatISO now) db)))"
proof -
  let ?c = "formatISO now" and ?db = "deleteExpired (formatISO now) db"
  have ok: "queue_ok ?db" using assms(1) by simp
  from assms(2,3) have o: "out = selectForPeer p ?c (nat n) ?db" and d: "db' = gm_dels (map DeliveryID out) ?db"
    by (auto simp: DrainDeliveries_def Let_def)
  from o show "out = take (nat n) (sort_key queue_key (rows_where (\<lambda>d. qdPeerID d = p \<and> DBText ?c < DBText (qdExpiresAt d)) ?db))"
    by (simp add: selectForPeer_def)
  have sub: "set out \<subseteq> live_rows p ?c ?db" unfolding o by (rule selectForPeer_sub [OF ok])
  then show "set out \<subseteq> live_rows p ?c db" by (simp add: live_rows_deleteExpired assms(1))
  show "distinct (map DeliveryID out)" unfolding o by (rule distinct_selectForPeer [OF ok])
  show "queue_ok db'" unfolding d using ok by blast
  have "set out \<subseteq> {x. gm_get ?db (DeliveryID x) = Some x}" using sub by (auto simp: live_rows_def)
  from get_dels_rows [OF ok this]
  show "gm_get db' k = Some x \<longleftrightarrow> gm_get db k = Some x \<and> string_less ?c (qdExpiresAt x) \<and> x \<notin> set out"
    unfolding d by (simp add: get_deleteExpired assms(1))
qed

text \<open>
  A drain hands out the oldest unexpired deliveries. \<open>DrainDeliveries\<close> returns the first
  \<open>maxResults\<close> unexpired deliveries of the peer in the order of creation, removes exactly those (and
  expired rows), leaves no older one behind, and does not touch another peer's unexpired deliveries.
\<close>

theorem drain_oldest_first:
  assumes "queue_ok db" and "0 < n" and "DrainDeliveries p n now db = (out, db')"
  shows "queue_ok db' \<and> sorted (map queue_key out) \<and> distinct (map DeliveryID out) \<and>
     length out = min (nat n) (card (live_rows p (formatISO now) db)) \<and>
     live_rows p (formatISO now) db' = live_rows p (formatISO now) db - set out \<and>
     set out \<subseteq> live_rows p (formatISO now) db \<and>
     (\<forall>x \<in> set out. \<forall>y \<in> live_rows p (formatISO now) db'. queue_key x \<le> queue_key y) \<and>
     (\<forall>q. q \<noteq> p \<longrightarrow> live_rows q (formatISO now) db' = live_rows q (formatISO now) db)"
proof -
  let ?c = "formatISO now" and ?db = "deleteExpired (formatISO now) db"
  let ?s = "sort_key queue_key (rows_where (\<lambda>d. qdPeerID d = p \<and> DBText ?c < DBText (qdExpiresAt d)) ?db)"
  note d = drain_eq [OF assms]
  have s: "set ?s = live_rows p ?c db"
    using set_selectable [OF deleteExpired_ok [OF assms(1)], of p ?c ?c] by (simp add: live_rows_deleteExpired assms(1))
  have dist: "distinct (map DeliveryID ?s)"
    unfolding distinct_map_sort_key using assms(1) by (intro distinct_rows_where deleteExpired_ok)
  then have "length ?s = card (live_rows p ?c db)" unfolding s [symmetric] by (simp add: distinct_map distinct_card del: set_sort length_sort)
  then have len: "length out = min (nat n) (card (live_rows p ?c db))" unfolding d(5) by (simp add: min.commute)
  have live: "live_rows q ?c db' = live_rows q ?c db - set out" for q
    using d(4) by (auto simp: live_rows_def)
  have "live_rows p ?c db' \<subseteq> set (drop (nat n) ?s)"
  proof
    fix y assume "y \<in> live_rows p ?c db'"
    then have "y \<in> set ?s" "y \<notin> set (take (nat n) ?s)" using live [of p] s d(5) by auto
    then show "y \<in> set (drop (nat n) ?s)" by (metis UnE append_take_drop_id set_append)
  qed
  then have "\<forall>x \<in> set out. \<forall>y \<in> live_rows p ?c db'. queue_key x \<le> queue_key y"
    using sorted_take_before_drop [of _ "nat n" queue_key] d(5) by blast
  moreover have "live_rows q ?c db' = live_rows q ?c db" if "q \<noteq> p" for q
    using live [of q] d(1) that by (auto simp: live_rows_def)
  moreover have "sorted (map queue_key out)" unfolding d(5) take_map [symmetric] by (rule sorted_wrt_take) simp
  ultimately show ?thesis using d(1-3) len live [of p] by blast
qed

lemma demo_drain:
  "DrainDeliveries ''p1'' 5 1700000001000000000 demo_queue = ([demo_row ''qd-1'' 1700000000000000000], [])"
proof -
  have e: "deleteExpired (formatISO 1700000001000000000) demo_queue = demo_queue"
    using demo_times(1) by (simp add: deleteExpired_def delete_where_def demo_queue_def expired_iff del: dbtext_le)
  have "selectForPeer ''p1'' (formatISO 1700000001000000000) 5 demo_queue = [demo_row ''qd-1'' 1700000000000000000]"
    using demo_times(1) by (simp add: selectForPeer_def rows_where_def demo_queue_def)
  then show ?thesis by (simp add: DrainDeliveries_def Let_def e) (simp add: demo_queue_def gm_dels_def gm_del_def)
qed

theorem drain_oldest_first_witness:
  "queue_ok demo_queue \<and> DrainDeliveries ''p1'' 5 1700000001000000000 demo_queue = ([demo_row ''qd-1'' 1700000000000000000], []) \<and>
   live_rows ''p1'' (formatISO 1700000001000000000) demo_queue = {demo_row ''qd-1'' 1700000000000000000}"
proof -
  note d = drain_oldest_first [OF demo_queue_ok _ demo_drain]
  have "live_rows ''p1'' (formatISO 1700000001000000000) [] = {}" by (simp add: live_rows_def)
  with d demo_queue_ok demo_drain show ?thesis by auto
qed

section \<open>Histories\<close>

datatype queue_op =
    QEnqueue string gotime rat int queued_delivery
  | QDrain string int gotime
  | QList string int gotime
  | QDelete string

type_synonym handed = "gotime \<times> string \<times> queued_delivery"

fun queue_step :: "queue_op \<Rightarrow> delivery_table \<times> handed list \<Rightarrow> delivery_table \<times> handed list" where
  "queue_step (QEnqueue i now ttl cap d) (db, hs) = (snd (EnqueueDelivery i now ttl cap d db), hs)"
| "queue_step (QDrain p n now) (db, hs) =
     (let (out, db') = DrainDeliveries p n now db in (db', hs @ map (\<lambda>d. (now, p, d)) out))"
| "queue_step (QList p n now) (db, hs) = (snd (ListDeliveries p n now db), hs)"
| "queue_step (QDelete i) (db, hs) = (snd (DeleteDelivery i db), hs)"

definition queue_run :: "queue_op list \<Rightarrow> delivery_table \<times> handed list" where
  "queue_run ops = fold queue_step ops ([], [])"

fun minted :: "queue_op \<Rightarrow> string list" where
  "minted (QEnqueue i now ttl cap d) = [i]"
| "minted _ = []"

definition deadline :: "gotime \<Rightarrow> rat \<Rightarrow> gotime" where
  "deadline t ttlSeconds = t + \<lfloor>ttlSeconds * 1000000000\<rfloor>"

fun times_ok :: "queue_op \<Rightarrow> bool" where
  "times_ok (QEnqueue i now ttl cap d) \<longleftrightarrow> iso_range now \<and> iso_range (deadline now ttl)"
| "times_ok (QDrain p n now) \<longleftrightarrow> iso_range now"
| "times_ok _ \<longleftrightarrow> True"

definition from_ops :: "queue_op list \<Rightarrow> queued_delivery \<Rightarrow> bool" where
  "from_ops ops x \<longleftrightarrow> (\<exists>i t ttl cap d. QEnqueue i t ttl cap d \<in> set ops \<and> x = stamped i t ttl d)"

definition handed_ok :: "queue_op list \<Rightarrow> handed \<Rightarrow> bool" where
  "handed_ok ops h \<longleftrightarrow> (case h of (now, p, x) \<Rightarrow> qdPeerID x = p \<and>
     (\<exists>i t ttl cap d. QEnqueue i t ttl cap d \<in> set ops \<and> x = stamped i t ttl d \<and> now div 1000 < deadline t ttl div 1000))"

definition history_ok :: "queue_op list \<Rightarrow> delivery_table \<times> handed list \<Rightarrow> bool" where
  "history_ok ops s \<longleftrightarrow> (case s of (db, hs) \<Rightarrow>
     queue_ok db \<and> (\<forall>k x. gm_get db k = Some x \<longrightarrow> from_ops ops x) \<and> (\<forall>h \<in> set hs. handed_ok ops h) \<and>
     distinct (map (\<lambda>h. DeliveryID (snd (snd h))) hs) \<and>
     (\<forall>h \<in> set hs. \<not> gm_has db (DeliveryID (snd (snd h)))))"

lemma handed_ok_mono: "handed_ok ops h \<Longrightarrow> set ops \<subseteq> set ops' \<Longrightarrow> handed_ok ops' h"
  by (fastforce simp: handed_ok_def split: prod.splits)

lemma from_ops_mono: "from_ops ops x \<Longrightarrow> set ops \<subseteq> set ops' \<Longrightarrow> from_ops ops' x"
  by (fastforce simp: from_ops_def)

lemma handed_minted:
  assumes "handed_ok ops h"
  shows "DeliveryID (snd (snd h)) \<in> set (concat (map minted ops))"
proof -
  obtain now p x where h: "h = (now, p, x)" by (cases h)
  with assms obtain i t ttl cap d where o: "QEnqueue i t ttl cap d \<in> set ops" "x = stamped i t ttl d"
    by (auto simp: handed_ok_def)
  then have "DeliveryID x = i" by (simp add: stamped_def)
  with o(1) h show ?thesis by force
qed

text \<open>A step that only removes rows keeps the history in order.\<close>

lemma history_shrink:
  assumes "history_ok ops (db, hs)" "queue_ok db'" "\<And>k x. gm_get db' k = Some x \<Longrightarrow> gm_get db k = Some x"
    and "set ops \<subseteq> set ops'"
  shows "history_ok ops' (db', hs)"
proof -
  have "\<forall>h \<in> set hs. \<not> gm_has db' (DeliveryID (snd (snd h)))"
  proof (intro ballI notI)
    fix h assume "h \<in> set hs" "gm_has db' (DeliveryID (snd (snd h)))"
    moreover from this(2) have "gm_has db (DeliveryID (snd (snd h)))" using assms(3) unfolding gm_has_iff by blast
    ultimately show False using assms(1) by (simp add: history_ok_def)
  qed
  moreover have "from_ops ops' x" if "gm_get db' k = Some x" for k x
    using assms(1) assms(3) [OF that] from_ops_mono [OF _ assms(4)] by (auto simp: history_ok_def)
  ultimately show ?thesis using assms handed_ok_mono by (auto simp: history_ok_def)
qed

lemma enqueue_rows:
  assumes "queue_ok db" "gm_get (snd (EnqueueDelivery i now ttl cap d db)) k = Some x"
  shows "gm_get db k = Some x \<or> x = stamped i now ttl d \<and> k = i"
  using assms by (auto simp: EnqueueDelivery_def Let_def enforceCap_def stamped_def get_deleteExpired split: if_splits)

lemma enqueue_ok: "queue_ok db \<Longrightarrow> queue_ok (snd (EnqueueDelivery i now ttl cap d db))"
proof -
  assume ok: "queue_ok db"
  then have "queue_ok (gm_put i (stamped i now ttl d) (deleteExpired c db))" for c
    by (intro table_ok_put deleteExpired_ok) (simp_all add: stamped_def)
  with ok show ?thesis by (auto simp: EnqueueDelivery_def Let_def)
qed

lemma step_history:
  assumes h: "history_ok ops (db, hs)" and m: "distinct (concat (map minted (ops @ [aop])))"
    and t: "\<forall>op \<in> set (ops @ [aop]). times_ok op"
  shows "history_ok (ops @ [aop]) (queue_step aop (db, hs))"
proof -
  have ok: "queue_ok db" using h by (simp add: history_ok_def)
  show ?thesis
  proof (cases aop)
    case (QEnqueue i now ttl cap d)
    let ?db = "snd (EnqueueDelivery i now ttl cap d db)"
    have new: "DeliveryID (snd (snd x)) \<noteq> i" if "x \<in> set hs" for x
    proof -
      from that h have "handed_ok ops x" by (simp add: history_ok_def)
      then have "DeliveryID (snd (snd x)) \<in> set (concat (map minted ops))" by (rule handed_minted)
      then show ?thesis using m QEnqueue by auto
    qed
    have "from_ops (ops @ [aop]) x" if "gm_get ?db k = Some x" for k x
    proof (cases "gm_get db k = Some x")
      case True
      then have "from_ops ops x" using h by (simp add: history_ok_def)
      then show ?thesis by (rule from_ops_mono) auto
    next
      case False
      with enqueue_rows [OF ok that] have "x = stamped i now ttl d" by simp
      moreover have "QEnqueue i now ttl cap d \<in> set (ops @ [aop])" using QEnqueue by simp
      ultimately show ?thesis unfolding from_ops_def by blast
    qed
    moreover have "\<not> gm_has ?db (DeliveryID (snd (snd x)))" if "x \<in> set hs" for x
      using enqueue_rows [OF ok] new [OF that] h that by (fastforce simp: history_ok_def gm_has_iff)
    ultimately show ?thesis
      using h enqueue_ok [OF ok] QEnqueue by (auto simp: history_ok_def intro: handed_ok_mono)
  next
    case (QDrain p n now)
    obtain out db' where d: "DrainDeliveries p n now db = (out, db')" by fastforce
    show ?thesis
    proof (cases "0 < n")
      case False
      with d have "out = []" "db' = db" by (auto simp: DrainDeliveries_def)
      with QDrain d ok show ?thesis by (auto intro!: history_shrink [OF h])
    next
      case True
      note D = drain_eq [OF ok True d]
      have hand: "handed_ok (ops @ [aop]) (now, p, x)" if x: "x \<in> set out" for x
      proof -
        from x D(1) have l: "qdPeerID x = p" "string_less (formatISO now) (qdExpiresAt x)" "gm_get db (DeliveryID x) = Some x"
          by (auto simp: live_rows_def)
        from l(3) h have "from_ops ops x" by (simp add: history_ok_def)
        then obtain i t' ttl cap d' where o: "QEnqueue i t' ttl cap d' \<in> set ops" "x = stamped i t' ttl d'"
          unfolding from_ops_def by blast
        from t o(1) have r: "iso_range (deadline t' ttl)" by force
        from t QDrain have "iso_range now" by simp
        with l(2) r have "now div 1000 < deadline t' ttl div 1000"
          by (simp add: o(2) stamped_def deadline_def [symmetric] iso_string_order_aux)
        with o l(1) show ?thesis by (force simp: handed_ok_def)
      qed
      have rows: "gm_get db' k = Some x \<Longrightarrow> gm_get db k = Some x" for k x using D(4) by blast
      have gone: "\<not> gm_has db' (DeliveryID x)" if "x \<in> set out" for x
        using that D(1) by (auto simp: gm_has_iff D(4) live_rows_def)
      have fresh: "DeliveryID (snd (snd y)) \<noteq> DeliveryID x" if "y \<in> set hs" "x \<in> set out" for x y
      proof
        assume e: "DeliveryID (snd (snd y)) = DeliveryID x"
        have "gm_has db (DeliveryID x)" using that(2) D(1) by (auto simp: gm_has_def live_rows_def)
        moreover have "\<not> gm_has db (DeliveryID (snd (snd y)))" using that(1) h by (simp add: history_ok_def)
        ultimately show False by (simp add: e)
      qed
      have "history_ok (ops @ [aop]) (db', hs)" by (rule history_shrink [OF h D(3) rows]) auto
      then show ?thesis
        using QDrain d hand gone fresh D(2) by (auto simp: history_ok_def comp_def image_iff)
    qed
  next
    case (QList p n now)
    then show ?thesis using ok
      by (auto simp: ListDeliveries_def Let_def get_deleteExpired intro!: history_shrink [OF h])
  next
    case (QDelete i)
    have "queue_ok (gm_del i db)" using ok by (auto simp: table_ok_def)
    then show ?thesis unfolding QDelete queue_step.simps DeleteDelivery_def snd_conv
      by (rule history_shrink [OF h]) (auto split: if_splits)
  qed
qed

lemma run_history:
  "distinct (concat (map minted ops)) \<Longrightarrow> \<forall>op \<in> set ops. times_ok op \<Longrightarrow> history_ok ops (queue_run ops)"
proof (induction ops rule: rev_induct)
  case Nil
  then show ?case by (simp add: queue_run_def history_ok_def)
next
  case (snoc aop ops)
  obtain db hs where r: "queue_run ops = (db, hs)" by (cases "queue_run ops")
  with snoc have "history_ok ops (db, hs)" by simp
  from step_history [OF this snoc.prems] show ?case using r by (simp add: queue_run_def)
qed

text \<open>
  C31: each delivery is handed out at most once, to its peer and in time. Over any history of
  operations from an empty queue in which no delivery id is minted twice, the deliveries all drains
  returned have pairwise different ids, and each was enqueued for the draining peer and was drained
  before its lifetime ended, whatever the interleaving with lists, deletes, expiry and the cap.
\<close>

theorem delivered_at_most_once:
  assumes "distinct (concat (map minted ops))" and "\<forall>op \<in> set ops. times_ok op"
    and "queue_run ops = (db, hs)"
  shows "distinct (map (\<lambda>(now, p, x). DeliveryID x) hs) \<and>
     (\<forall>(now, p, x) \<in> set hs. qdPeerID x = p \<and> (\<exists>i t ttl cap d. QEnqueue i t ttl cap d \<in> set ops \<and>
        x = stamped i t ttl d \<and> now div 1000 < deadline t ttl div 1000))"
  using run_history [OF assms(1,2)]
  by (auto simp: assms(3) history_ok_def handed_ok_def case_prod_unfold)

definition demo_queue_ops :: "queue_op list" where
  "demo_queue_ops = [QEnqueue ''qd-1'' 1700000000000000000 60 1 demo_delivery, QDrain ''p1'' 5 1700000001000000000]"

theorem delivered_at_most_once_witness:
  "distinct (concat (map minted demo_queue_ops)) \<and> (\<Union>op \<in> set demo_queue_ops. {times_ok op}) = {True} \<and>
   queue_run demo_queue_ops = ([], [(1700000001000000000, ''p1'', demo_row ''qd-1'' 1700000000000000000)]) \<and>
   qdPeerID (demo_row ''qd-1'' 1700000000000000000) = ''p1''"
proof -
  have m: "distinct (concat (map minted demo_queue_ops))" by (simp add: demo_queue_ops_def)
  have t: "\<forall>op \<in> set demo_queue_ops. times_ok op" by (simp add: demo_queue_ops_def iso_range_def deadline_def)
  have e: "snd (EnqueueDelivery ''qd-1'' 1700000000000000000 60 1 demo_delivery []) = demo_queue"
    by (simp add: EnqueueDelivery_def Let_def deleteExpired_def delete_where_def gm_has_def enforceCap_def over_cap_def
      rows_where_def gm_dels_def gm_put_def demo_queue_def demo_row_def stamped_def demo_delivery_def)
  have r: "queue_run demo_queue_ops = ([], [(1700000001000000000, ''p1'', demo_row ''qd-1'' 1700000000000000000)])"
    by (simp add: queue_run_def demo_queue_ops_def e demo_drain)
  have "(\<Union>op \<in> set demo_queue_ops. {times_ok op}) = {True}" using t by (auto simp: demo_queue_ops_def)
  with m r delivered_at_most_once [OF m t r] show ?thesis by auto
qed

end
