(* ===== verification/Work_Store.thy ===== *)
theory Work_Store
  imports Sql_Table Iso_Parse
begin

text \<open>
  Tracked work: \<open>daemon-go/state/work.go\<close> and the runner operations of \<open>state/work_runner.go\<close>, on
  the table \<open>tracked_work\<close> keyed by \<open>work_id\<close>. JSON columns hold their decoded values.

  A method reads the row with \<open>GetWork\<close> and writes it back with one \<open>UPDATE\<close>, in two statements
  and no transaction, so each of them is a \<open>plan_*\<close> function, from the row read to the error
  returned or to the assignment the \<open>UPDATE\<close> makes on whatever the row has become by then, and the
  operation composed of the two. \<open>nowISO()\<close> is \<open>formatISO\<close> of one instant per operation; minted ids
  are arguments.
\<close>

section \<open>Data\<close>

definition workStates :: "string list" where
  "workStates = [''queued'', ''dispatching'', ''delivered'', ''running'', ''awaiting_input'', ''completed'',
     ''failed'', ''cancelled'', ''blocked'', ''expired'', ''unavailable'']"

definition IsTerminalState :: "string \<Rightarrow> bool" where
  "IsTerminalState s \<longleftrightarrow> s \<in> set [''completed'', ''failed'', ''cancelled'', ''expired'', ''unavailable'']"

datatype work_error =
    ErrAttemptIDRequired
  | ErrStaleAttempt
  | ErrInvalidState string
  | ErrTerminal string string
  | ErrDuplicateWork string

definition validateWorkState :: "string \<Rightarrow> work_error option" where
  "validateWorkState s = (if s \<in> set workStates then None else Some (ErrInvalidState s))"

record tracked_work =
  WorkID :: string
  twState :: string
  twCreatedAt :: string
  twUpdatedAt :: string
  twTitle :: string
  twKind :: string
  twStateReason :: "string option"
  twPhase :: "string option"
  twProgress :: jobject
  twProgressEvents :: "json list"
  twOwnerPeerID :: "string option"
  twAssignedPeerID :: "string option"
  twRepowireSessionID :: "string option"
  twCorrelationID :: "string option"
  twCircle :: "string option"
  twCreatedByPeerID :: "string option"
  twSourceKind :: "string option"
  twSourceID :: "string option"
  twScope :: "string option"
  twVisibility :: string
  twRequest :: jobject
  twDeadlineAt :: "string option"
  twExpiresAt :: "string option"
  twResultSummary :: "string option"
  twResultData :: jobject
  twError :: jobject
  twArtifacts :: "json list"
  twProvenance :: jobject
  twCancelRequested :: bool
  twCancelRequestedAt :: "string option"
  twCancelRequestedByPeerID :: "string option"
  twCancellationReason :: "string option"
  twCompletedAt :: "string option"

definition Terminal :: "tracked_work \<Rightarrow> bool" where
  "Terminal w \<longleftrightarrow> IsTerminalState (twState w)"

record work_create =
  wcTitle :: string
  wcKind :: string
  wcCreatedByPeerID :: "string option"
  wcOwnerPeerID :: "string option"
  wcAssignedPeerID :: "string option"
  wcRepowireSessionID :: "string option"
  wcCorrelationID :: "string option"
  wcCircle :: "string option"
  wcSourceKind :: "string option"
  wcSourceID :: "string option"
  wcScope :: "string option"
  wcVisibility :: string
  wcRequest :: jobject
  wcDeadlineAt :: "string option"
  wcExpiresAt :: "string option"
  wcProvenance :: jobject

record work_filter =
  wfState :: "string option"
  wfOwnerPeerID :: "string option"
  wfCreatedByPeerID :: "string option"
  wfRepowireSessionID :: "string option"
  wfCircle :: "string option"

type_synonym work_table = "(string, tracked_work) gomap"

section \<open>Create and read\<close>

definition prepareWork :: "string \<Rightarrow> string \<Rightarrow> work_create \<Rightarrow> tracked_work" where
  "prepareWork now workID c =
     \<lparr>WorkID = workID, twState = ''queued'', twCreatedAt = now, twUpdatedAt = now, twTitle = wcTitle c,
      twKind = (if wcKind c = [] then ''general'' else wcKind c), twStateReason = None, twPhase = None,
      twProgress = [], twProgressEvents = [], twOwnerPeerID = wcOwnerPeerID c, twAssignedPeerID = wcAssignedPeerID c,
      twRepowireSessionID = wcRepowireSessionID c, twCorrelationID = wcCorrelationID c, twCircle = wcCircle c,
      twCreatedByPeerID = wcCreatedByPeerID c, twSourceKind = wcSourceKind c, twSourceID = wcSourceID c,
      twScope = wcScope c, twVisibility = (if wcVisibility c = [] then ''circle'' else wcVisibility c),
      twRequest = wcRequest c, twDeadlineAt = wcDeadlineAt c, twExpiresAt = wcExpiresAt c, twResultSummary = None,
      twResultData = [], twError = [], twArtifacts = [], twProvenance = wcProvenance c, twCancelRequested = False,
      twCancelRequestedAt = None, twCancelRequestedByPeerID = None, twCancellationReason = None, twCompletedAt = None\<rparr>"

definition insertWork :: "tracked_work \<Rightarrow> work_table \<Rightarrow> work_error option \<times> work_table" where
  "insertWork w db = (if gm_has db (WorkID w) then (Some (ErrDuplicateWork (WorkID w)), db)
                      else (None, gm_put (WorkID w) w db))"

definition CreateWork :: "string \<Rightarrow> string \<Rightarrow> work_create \<Rightarrow> work_table \<Rightarrow> (work_error + tracked_work) \<times> work_table" where
  "CreateWork now workID c db =
     (let w = prepareWork now workID c
      in case insertWork w db of (Some err, db') \<Rightarrow> (Inl err, db') | (None, db') \<Rightarrow> (Inr w, db'))"

definition GetWork :: "string \<Rightarrow> work_table \<Rightarrow> work_error + tracked_work option" where
  "GetWork workID db = (case gm_get db workID of
       None \<Rightarrow> Inr None
     | Some w \<Rightarrow> (case validateWorkState (twState w) of Some err \<Rightarrow> Inl err | None \<Rightarrow> Inr (Some w)))"

definition opt_matches :: "string option \<Rightarrow> string option \<Rightarrow> bool" where
  "opt_matches want have \<longleftrightarrow> (case want of None \<Rightarrow> True | Some v \<Rightarrow> have = Some v)"

definition work_matches :: "work_filter \<Rightarrow> tracked_work \<Rightarrow> bool" where
  "work_matches f w \<longleftrightarrow> opt_matches (wfState f) (Some (twState w)) \<and>
     opt_matches (wfOwnerPeerID f) (twOwnerPeerID w) \<and> opt_matches (wfCreatedByPeerID f) (twCreatedByPeerID w) \<and>
     opt_matches (wfRepowireSessionID f) (twRepowireSessionID w) \<and> opt_matches (wfCircle f) (twCircle w)"

text \<open>\<open>ORDER BY updated_at DESC\<close>; a row whose state does not validate fails the whole list.\<close>

definition ListWork :: "work_filter \<Rightarrow> work_table \<Rightarrow> work_error + tracked_work list" where
  "ListWork f db = (case (case wfState f of None \<Rightarrow> None | Some s \<Rightarrow> validateWorkState s) of
       Some err \<Rightarrow> Inl err
     | None \<Rightarrow>
         (let rows = rev (sort_key (\<lambda>w. DBText (twUpdatedAt w)) (rows_where (work_matches f) db))
          in case find (\<lambda>w. validateWorkState (twState w) \<noteq> None) rows of
               Some w \<Rightarrow> Inl (ErrInvalidState (twState w))
             | None \<Rightarrow> Inr rows))"

section \<open>The runner block of the provenance\<close>

definition obj_at :: "jobject \<Rightarrow> string \<Rightarrow> jobject" where
  "obj_at m k = (case gm_get m k of Some (JObj v) \<Rightarrow> v | _ \<Rightarrow> [])"

definition str_at :: "jobject \<Rightarrow> string \<Rightarrow> string" where
  "str_at m k = (case gm_get m k of Some (JStr v) \<Rightarrow> v | _ \<Rightarrow> [])"

definition toAnySlice :: "json option \<Rightarrow> json list" where
  "toAnySlice v = (case v of Some (JArr a) \<Rightarrow> a | _ \<Rightarrow> [])"

definition runnerCurrentAttempt :: "tracked_work \<Rightarrow> string" where
  "runnerCurrentAttempt w = str_at (obj_at (twProvenance w) ''runner'') ''current_attempt_id''"

text \<open>The normalised runner block; \<open>runnerProvenance\<close> is the provenance with this block in it.\<close>

definition runner_of :: "tracked_work \<Rightarrow> jobject" where
  "runner_of w =
     (let runner = obj_at (twProvenance w) ''runner'';
          attempts = toAnySlice (gm_get runner ''attempts'');
          r1 = (if gm_has runner ''attempt_count'' then runner else gm_put ''attempt_count'' (JNum (int (length attempts))) runner)
      in if gm_has r1 ''attempts'' then r1 else gm_put ''attempts'' (JArr []) r1)"

definition with_runner :: "jobject \<Rightarrow> tracked_work \<Rightarrow> jobject" where
  "with_runner runner w = gm_put ''runner'' (JObj runner) (twProvenance w)"

definition requestDueAt :: "tracked_work \<Rightarrow> string" where
  "requestDueAt w = str_at (obj_at (obj_at (twRequest w) ''execution'') ''schedule'') ''due_at''"

definition str_or_null :: "string option \<Rightarrow> json" where
  "str_or_null v = (case v of Some s \<Rightarrow> JStr s | None \<Rightarrow> JNull)"

section \<open>State transitions\<close>

record work_update =
  wuState :: string
  wuStateReason :: "string option"
  wuPhase :: "string option"
  wuProgress :: "jobject option"
  wuProgressNote :: "string option"
  wuResultSummary :: "string option"
  wuResultData :: "jobject option"
  wuError :: "jobject option"
  wuArtifacts :: "json list option"
  wuProvenance :: "jobject option"
  wuAttemptID :: "string option"

definition given_or :: "'a option \<Rightarrow> 'a \<Rightarrow> 'a" where
  "given_or new old = (case new of Some v \<Rightarrow> v | None \<Rightarrow> old)"

definition attempt_guard :: "work_update \<Rightarrow> tracked_work \<Rightarrow> work_error option" where
  "attempt_guard u w =
     (let cur = runnerCurrentAttempt w
      in if cur \<noteq> [] \<and> (wuState u = ''completed'' \<or> wuState u = ''failed'' \<or> wuState u = ''cancelled'')
         then (case wuAttemptID u of
             None \<Rightarrow> Some ErrAttemptIDRequired
           | Some a \<Rightarrow> if a = [] then Some ErrAttemptIDRequired else if a \<noteq> cur then Some ErrStaleAttempt else None)
         else None)"

definition progress_events :: "string \<Rightarrow> work_update \<Rightarrow> tracked_work \<Rightarrow> json list" where
  "progress_events now u w = (case wuProgressNote u of
       None \<Rightarrow> twProgressEvents w
     | Some note \<Rightarrow> if note = [] then twProgressEvents w
         else twProgressEvents w @ [JObj [(''at'', JStr now), (''note'', JStr note), (''state'', JStr (wuState u)),
           (''phase'', case wuPhase u of Some p \<Rightarrow> JStr p | None \<Rightarrow> str_or_null (twPhase w))]])"

definition update_write :: "string \<Rightarrow> work_update \<Rightarrow> tracked_work \<Rightarrow> tracked_work \<Rightarrow> tracked_work" where
  "update_write now u w row =
     row\<lparr>twState := wuState u, twStateReason := wuStateReason u, twPhase := wuPhase u,
         twProgress := given_or (wuProgress u) (twProgress w), twProgressEvents := progress_events now u w,
         twResultSummary := (case wuResultSummary u of Some s \<Rightarrow> Some s | None \<Rightarrow> twResultSummary w),
         twResultData := given_or (wuResultData u) (twResultData w), twError := given_or (wuError u) (twError w),
         twArtifacts := given_or (wuArtifacts u) (twArtifacts w),
         twProvenance := given_or (wuProvenance u) (twProvenance w),
         twCompletedAt := (if IsTerminalState (wuState u) \<and> twCompletedAt w = None then Some now else twCompletedAt w),
         twUpdatedAt := now\<rparr>"

definition plan_update :: "string \<Rightarrow> work_update \<Rightarrow> tracked_work \<Rightarrow> work_error + (tracked_work \<Rightarrow> tracked_work)" where
  "plan_update now u w = (case attempt_guard u w of
       Some err \<Rightarrow> Inl err
     | None \<Rightarrow> if Terminal w \<and> wuState u \<noteq> twState w then Inl (ErrTerminal (WorkID w) (twState w))
               else Inr (update_write now u w))"

text \<open>A method of the store: read, decide, write, read again.\<close>

definition store_method :: "string \<Rightarrow> (tracked_work \<Rightarrow> work_error + (tracked_work \<Rightarrow> tracked_work)) \<Rightarrow> work_table \<Rightarrow>
    (work_error + tracked_work option) \<times> work_table" where
  "store_method workID plan db = (case GetWork workID db of
       Inl err \<Rightarrow> (Inl err, db)
     | Inr None \<Rightarrow> (Inr None, db)
     | Inr (Some w) \<Rightarrow> (case plan w of
           Inl err \<Rightarrow> (Inl err, db)
         | Inr f \<Rightarrow> (let db' = gm_adjust workID f db in (GetWork workID db', db'))))"

definition UpdateWorkState :: "string \<Rightarrow> string \<Rightarrow> work_update \<Rightarrow> work_table \<Rightarrow> (work_error + tracked_work option) \<times> work_table" where
  "UpdateWorkState now workID u db = (case validateWorkState (wuState u) of
       Some err \<Rightarrow> (Inl err, db)
     | None \<Rightarrow> store_method workID (plan_update now u) db)"

definition coalesce :: "'a option \<Rightarrow> 'a option \<Rightarrow> 'a option" where
  "coalesce old new = (case old of Some v \<Rightarrow> Some v | None \<Rightarrow> new)"

definition plan_cancel :: "string \<Rightarrow> string option \<Rightarrow> string \<Rightarrow> tracked_work \<Rightarrow> work_error + (tracked_work \<Rightarrow> tracked_work)" where
  "plan_cancel now by reason0 w =
     (let reason = (if reason0 = [] then ''cancel_requested'' else reason0)
      in if Terminal w
         then Inr (\<lambda>row. row\<lparr>twCancelRequested := True, twCancelRequestedAt := coalesce (twCancelRequestedAt row) (Some now),
                twCancelRequestedByPeerID := coalesce (twCancelRequestedByPeerID row) by,
                twCancellationReason := coalesce (twCancellationReason row) (Some reason), twUpdatedAt := now\<rparr>)
         else if twState w = ''queued''
         then Inr (\<lambda>row. row\<lparr>twState := ''cancelled'', twStateReason := Some reason, twCancelRequested := True,
                twCancelRequestedAt := Some now, twCancelRequestedByPeerID := by, twCancellationReason := Some reason,
                twCompletedAt := Some now, twUpdatedAt := now\<rparr>)
         else Inr (\<lambda>row. row\<lparr>twStateReason := Some reason, twCancelRequested := True, twCancelRequestedAt := Some now,
                twCancelRequestedByPeerID := by, twCancellationReason := Some reason, twUpdatedAt := now\<rparr>))"

definition CancelWork :: "string \<Rightarrow> string \<Rightarrow> string option \<Rightarrow> string \<Rightarrow> work_table \<Rightarrow> (work_error + tracked_work option) \<times> work_table" where
  "CancelWork now workID by reason = store_method workID (plan_cancel now by reason)"

section \<open>Dispatch\<close>

record acquire_options =
  aoRunnerOwnerID :: string
  aoLeaseUntil :: string
  aoAttemptID :: string
  aoIgnoreDueAt :: bool
  aoRetry :: bool

definition new_attempt :: "string \<Rightarrow> string \<Rightarrow> acquire_options \<Rightarrow> tracked_work \<Rightarrow> json" where
  "new_attempt now attemptID opt w = JObj
     [(''attempt_id'', JStr attemptID), (''status'', JStr ''dispatching''), (''phase'', JStr ''acquired''),
      (''started_at'', JStr now), (''completed_at'', JNull), (''runner_owner_id'', JStr (aoRunnerOwnerID opt)),
      (''lease_until'', JStr (aoLeaseUntil opt)), (''assigned_peer_id'', str_or_null (twAssignedPeerID w)),
      (''assigned_peer_info'', JObj []), (''tmux'', JObj []), (''correlation_id'', JNull),
      (''delivery_state'', JNull), (''error'', JObj [])]"

definition acquired_runner :: "string \<Rightarrow> string \<Rightarrow> acquire_options \<Rightarrow> tracked_work \<Rightarrow> jobject" where
  "acquired_runner now attemptID opt w =
     (let runner = runner_of w; attempts = toAnySlice (gm_get runner ''attempts'') @ [new_attempt now attemptID opt w]
      in gm_put ''attempts'' (JArr attempts) (gm_put ''lease_until'' (JStr (aoLeaseUntil opt))
           (gm_put ''acquired_at'' (JStr now) (gm_put ''runner_owner_id'' (JStr (aoRunnerOwnerID opt))
             (gm_put ''current_attempt_id'' (JStr attemptID) (gm_put ''attempt_count'' (JNum (int (length attempts))) runner))))))"

definition acquirable :: "gotime \<Rightarrow> acquire_options \<Rightarrow> tracked_work \<Rightarrow> bool" where
  "acquirable now opt w \<longleftrightarrow> \<not> twCancelRequested w \<and>
     twState w \<in> set (if aoRetry opt then [''failed'', ''unavailable'', ''delivered''] else [''queued'', ''failed'', ''unavailable'']) \<and>
     (aoIgnoreDueAt opt \<or> requestDueAt w = [] \<or>
      (case parseISO (requestDueAt w) of None \<Rightarrow> True | Some due \<Rightarrow> due \<le> now))"

definition acquire_write :: "string \<Rightarrow> string \<Rightarrow> acquire_options \<Rightarrow> tracked_work \<Rightarrow> tracked_work \<Rightarrow> tracked_work" where
  "acquire_write now attemptID opt w row =
     row\<lparr>twState := ''dispatching'', twStateReason := Some ''dispatching'', twPhase := Some ''acquired'',
         twAssignedPeerID := twAssignedPeerID w, twCorrelationID := twCorrelationID w,
         twProvenance := with_runner (acquired_runner now attemptID opt w) w, twError := [],
         twCompletedAt := None, twUpdatedAt := now\<rparr>"

definition AcquireForDispatch :: "gotime \<Rightarrow> string \<Rightarrow> string \<Rightarrow> acquire_options \<Rightarrow> work_table \<Rightarrow>
    (work_error + tracked_work option) \<times> work_table" where
  "AcquireForDispatch now freshID workID opt db =
     (let attemptID = (if aoAttemptID opt = [] then freshID else aoAttemptID opt)
      in case GetWork workID db of
           Inl err \<Rightarrow> (Inl err, db)
         | Inr None \<Rightarrow> (Inr None, db)
         | Inr (Some w) \<Rightarrow>
             if \<not> acquirable now opt w then (Inr None, db)
             else (let db' = gm_adjust workID (acquire_write (formatISO now) attemptID opt w) db
                   in (GetWork workID db', db')))"

section \<open>Attempts\<close>

record attempt_update =
  auStatus :: "string option"
  auPhase :: "string option"
  auAssignedPeerID :: "string option"
  auAssignedPeerInfo :: "jobject option"
  auTmux :: "jobject option"
  auCorrelationID :: "string option"
  auDeliveryState :: "string option"
  auResumePlan :: "jobject option"
  auOperationID :: "string option"
  auAcquisitionStrategy :: "string option"
  auAcquisition :: "jobject option"
  auError :: "jobject option"

definition attemptTerminalStatuses :: "string list" where
  "attemptTerminalStatuses = [''delivered'', ''completed'', ''failed'', ''unavailable'', ''interrupted'', ''cancelled'']"

definition setStr :: "string \<Rightarrow> string option \<Rightarrow> jobject \<Rightarrow> jobject" where
  "setStr k v m = (case v of Some s \<Rightarrow> gm_put k (JStr s) m | None \<Rightarrow> m)"

definition setMap :: "string \<Rightarrow> jobject option \<Rightarrow> jobject \<Rightarrow> jobject" where
  "setMap k v m = (case v of Some s \<Rightarrow> gm_put k (JObj s) m | None \<Rightarrow> m)"

definition errReason :: "jobject option \<Rightarrow> string \<Rightarrow> string" where
  "errReason e fallback = (case e of None \<Rightarrow> fallback | Some m \<Rightarrow> if str_at m ''reason'' \<noteq> [] then str_at m ''reason'' else fallback)"

definition update_attempt :: "string \<Rightarrow> attempt_update \<Rightarrow> jobject \<Rightarrow> jobject" where
  "update_attempt now u attempt =
     (let m = setMap ''error'' (auError u) (setMap ''acquisition'' (auAcquisition u)
                (setStr ''acquisition_strategy'' (auAcquisitionStrategy u) (setStr ''operation_id'' (auOperationID u)
                (setMap ''resume_plan'' (auResumePlan u) (setStr ''delivery_state'' (auDeliveryState u)
                (setStr ''correlation_id'' (auCorrelationID u) (setMap ''tmux'' (auTmux u)
                (setMap ''assigned_peer_info'' (auAssignedPeerInfo u) (setStr ''assigned_peer_id'' (auAssignedPeerID u)
                (setStr ''phase'' (auPhase u) (setStr ''status'' (auStatus u) attempt)))))))))))
      in case auStatus u of
           Some s \<Rightarrow> if s \<in> set attemptTerminalStatuses then gm_put ''completed_at'' (JStr now) m else m
         | None \<Rightarrow> m)"

text \<open>The loop over the attempts changes the first object with the id and stops; None when there is none.\<close>

fun change_attempt :: "(jobject \<Rightarrow> jobject) \<Rightarrow> string \<Rightarrow> json list \<Rightarrow> json list option" where
  "change_attempt f i [] = None"
| "change_attempt f i (a # as) = (case a of
       JObj m \<Rightarrow> if str_at m ''attempt_id'' = i then Some (JObj (f m) # as) else map_option ((#) a) (change_attempt f i as)
     | _ \<Rightarrow> map_option ((#) a) (change_attempt f i as))"

definition completed_or :: "string \<Rightarrow> tracked_work \<Rightarrow> string option" where
  "completed_or now w = coalesce (twCompletedAt w) (Some now)"

definition cascade :: "string \<Rightarrow> attempt_update \<Rightarrow> tracked_work \<Rightarrow> string \<times> string option \<times> string option" where
  "cascade now u w =
     (if auStatus u = Some ''delivered'' then (''delivered'', Some ''ask_delivered'', twCompletedAt w)
      else if auStatus u = Some ''failed'' then (''failed'', Some (errReason (auError u) ''dispatch_failed''), completed_or now w)
      else if auStatus u = Some ''unavailable'' then (''unavailable'', Some (errReason (auError u) ''unavailable''), completed_or now w)
      else if auStatus u = Some ''cancelled'' then (''cancelled'', Some ''cancel_requested'', completed_or now w)
      else (twState w, twStateReason w, twCompletedAt w))"

definition attempt_runner :: "attempt_update \<Rightarrow> json list \<Rightarrow> tracked_work \<Rightarrow> jobject" where
  "attempt_runner u attempts w =
     (let r1 = gm_put ''attempts'' (JArr attempts) (runner_of w)
      in case auError u of Some e \<Rightarrow> if e \<noteq> [] then gm_put ''last_error'' (JObj e) r1 else r1 | None \<Rightarrow> r1)"

definition attempt_write :: "string \<Rightarrow> string \<Rightarrow> attempt_update \<Rightarrow> json list \<Rightarrow> tracked_work \<Rightarrow> tracked_work \<Rightarrow> tracked_work" where
  "attempt_write now attemptID u attempts w row =
     (let runner = attempt_runner u attempts w; prov = with_runner runner w
      in if str_at runner ''current_attempt_id'' \<noteq> attemptID
         then row\<lparr>twProvenance := prov, twUpdatedAt := now\<rparr>
         else (let (st, reason, completedAt) = cascade now u w
               in row\<lparr>twState := st, twStateReason := reason, twPhase := coalesce (auPhase u) (twPhase w),
                      twAssignedPeerID := coalesce (auAssignedPeerID u) (twAssignedPeerID w),
                      twCorrelationID := coalesce (auCorrelationID u) (twCorrelationID w), twProvenance := prov,
                      twError := given_or (auError u) (twError w), twCompletedAt := completedAt, twUpdatedAt := now\<rparr>))"

definition UpdateAttempt :: "string \<Rightarrow> string \<Rightarrow> string \<Rightarrow> attempt_update \<Rightarrow> work_table \<Rightarrow>
    (work_error + tracked_work option) \<times> work_table" where
  "UpdateAttempt now workID attemptID u db = (case GetWork workID db of
       Inl err \<Rightarrow> (Inl err, db)
     | Inr None \<Rightarrow> (Inr None, db)
     | Inr (Some w) \<Rightarrow>
         (case change_attempt (update_attempt now u) attemptID (toAnySlice (gm_get (runner_of w) ''attempts'')) of
            None \<Rightarrow> (Inr None, db)
          | Some attempts \<Rightarrow>
              (let db' = gm_adjust workID (attempt_write now attemptID u attempts w) db in (GetWork workID db', db'))))"

section \<open>Recovery\<close>

definition interrupted :: "string \<Rightarrow> jobject \<Rightarrow> jobject" where
  "interrupted now m = gm_put ''error'' (JObj [(''reason'', JStr ''runner_interrupted'')]) (gm_put ''completed_at'' (JStr now)
     (gm_put ''phase'' (JStr ''runner_interrupted'') (gm_put ''status'' (JStr ''unavailable'') m)))"

definition lease_live :: "gotime \<Rightarrow> tracked_work \<Rightarrow> bool" where
  "lease_live current w \<longleftrightarrow> str_at (runner_of w) ''lease_until'' \<noteq> [] \<and>
     (case parseISO (str_at (runner_of w) ''lease_until'') of None \<Rightarrow> False | Some lease \<Rightarrow> current < lease)"

definition recovered_runner :: "string \<Rightarrow> tracked_work \<Rightarrow> jobject" where
  "recovered_runner now w =
     (let runner = runner_of w; attemptID = str_at runner ''current_attempt_id'';
          attempts = toAnySlice (gm_get runner ''attempts'')
      in gm_put ''current_attempt_id'' (JStr attemptID) (gm_put ''last_error'' (JObj [(''reason'', JStr ''runner_interrupted'')])
           (gm_put ''attempts'' (JArr (case change_attempt (interrupted now) attemptID attempts of Some as \<Rightarrow> as | None \<Rightarrow> attempts)) runner)))"

definition recover_write :: "string \<Rightarrow> string \<Rightarrow> tracked_work \<Rightarrow> tracked_work \<Rightarrow> tracked_work" where
  "recover_write wall now w row =
     row\<lparr>twState := ''unavailable'', twStateReason := Some ''runner_interrupted'', twPhase := Some ''runner_interrupted'',
         twAssignedPeerID := twAssignedPeerID w, twCorrelationID := twCorrelationID w,
         twProvenance := with_runner (recovered_runner now w) w, twError := [(''reason'', JStr ''runner_interrupted'')],
         twCompletedAt := Some now, twUpdatedAt := wall\<rparr>"

definition recover_one :: "string \<Rightarrow> string \<Rightarrow> gotime \<Rightarrow> tracked_work \<Rightarrow> work_table \<times> tracked_work list \<Rightarrow> work_table \<times> tracked_work list" where
  "recover_one wall now current w acc =
     (let (db, recovered) = acc
      in if lease_live current w then (db, recovered)
         else (let db' = gm_adjust (WorkID w) (recover_write wall now w) db
               in (db', recovered @ (case GetWork (WorkID w) db' of Inr (Some w') \<Rightarrow> [w'] | _ \<Rightarrow> []))))"

definition any_work :: work_filter where
  "any_work = \<lparr>wfState = None, wfOwnerPeerID = None, wfCreatedByPeerID = None, wfRepowireSessionID = None, wfCircle = None\<rparr>"

definition RecoverStaleDispatching :: "gotime \<Rightarrow> string \<Rightarrow> work_table \<Rightarrow> (work_error + tracked_work list) \<times> work_table" where
  "RecoverStaleDispatching wall now db = (case ListWork (any_work\<lparr>wfState := Some ''dispatching''\<rparr>) db of
       Inl err \<Rightarrow> (Inl err, db)
     | Inr rows \<Rightarrow>
         (let current = (case parseISO now of Some t \<Rightarrow> t | None \<Rightarrow> wall);
              (db', recovered) = fold (recover_one (formatISO wall) now current) rows (db, [])
          in (Inr recovered, db')))"

end
