(* ===== verification/Work_Facts.thy ===== *)
theory Work_Facts
  imports Work_Store
begin

text \<open>
  What tracked work guarantees: rows stay well formed under every interleaving of the statements of
  concurrent calls, finished work stays finished, an old attempt cannot finish the work of a newer
  one; and two places where the code does not hold what it means to.
\<close>

section \<open>Well-formed rows under interleaving\<close>

definition row_ok :: "tracked_work \<Rightarrow> bool" where
  "row_ok w \<longleftrightarrow> twState w \<in> set workStates \<and> (Terminal w \<longrightarrow> twCompletedAt w \<noteq> None)"

text \<open>A table and the writes that calls in progress have decided on but not yet made.\<close>

type_synonym pending_write = "string \<times> (tracked_work \<Rightarrow> tracked_work)"

inductive work_reach :: "work_table \<Rightarrow> pending_write list \<Rightarrow> bool" where
  work_start: "work_reach [] []"
| work_create: "work_reach db ps \<Longrightarrow> work_reach (snd (CreateWork now i c db)) ps"
| read_update: "work_reach db ps \<Longrightarrow> validateWorkState (wuState u) = None \<Longrightarrow> GetWork i db = Inr (Some w) \<Longrightarrow>
    plan_update now u w = Inr f \<Longrightarrow> work_reach db ((i, f) # ps)"
| read_cancel: "work_reach db ps \<Longrightarrow> GetWork i db = Inr (Some w) \<Longrightarrow> plan_cancel now by reason w = Inr f \<Longrightarrow>
    work_reach db ((i, f) # ps)"
| read_acquire: "work_reach db ps \<Longrightarrow> GetWork i db = Inr (Some w) \<Longrightarrow> acquirable t opt w \<Longrightarrow>
    work_reach db ((i, acquire_write now a opt w) # ps)"
| read_attempt: "work_reach db ps \<Longrightarrow> GetWork i db = Inr (Some w) \<Longrightarrow> work_reach db ((i, attempt_write now a u as w) # ps)"
| read_recover: "work_reach db ps \<Longrightarrow> GetWork i db = Inr (Some w) \<Longrightarrow> work_reach db ((i, recover_write wall now w) # ps)"
| write_row: "work_reach db (ps @ (i, f) # qs) \<Longrightarrow> work_reach (gm_adjust i f db) (ps @ qs)"

definition write_ok :: "(tracked_work \<Rightarrow> tracked_work) \<Rightarrow> bool" where
  "write_ok f \<longleftrightarrow> (\<forall>row. row_ok row \<longrightarrow> row_ok (f row) \<and> WorkID (f row) = WorkID row)"

definition work_ok :: "work_table \<Rightarrow> bool" where
  "work_ok db \<longleftrightarrow> table_ok WorkID db \<and> (\<forall>i w. gm_get db i = Some w \<longrightarrow> row_ok w)"

lemma GetWork_Some: "GetWork i db = Inr (Some w) \<longleftrightarrow> gm_get db i = Some w \<and> twState w \<in> set workStates"
  by (auto simp: GetWork_def validateWorkState_def split: option.splits if_splits)

lemma work_ok_get: "work_ok db \<Longrightarrow> gm_get db i = Some w \<Longrightarrow> GetWork i db = Inr (Some w)"
  by (simp add: GetWork_Some work_ok_def row_ok_def)

lemma work_okD: "work_ok db \<Longrightarrow> gm_get db i = Some w \<Longrightarrow> row_ok w \<and> WorkID w = i"
  by (auto simp: work_ok_def table_ok_def)

lemma work_ok_adjust: "work_ok db \<Longrightarrow> write_ok f \<Longrightarrow> work_ok (gm_adjust i f db)"
  by (auto simp: work_ok_def table_ok_def write_ok_def split: if_splits)

lemma terminal_states: "IsTerminalState s \<Longrightarrow> s \<in> set workStates"
  by (auto simp: IsTerminalState_def workStates_def)

lemma not_terminal: "\<not> IsTerminalState ''queued''" "\<not> IsTerminalState ''dispatching''" "\<not> IsTerminalState ''delivered''"
  "IsTerminalState ''cancelled''" "IsTerminalState ''unavailable''" "IsTerminalState ''failed''" "IsTerminalState ''completed''"
  "IsTerminalState ''expired''"
  by (simp_all add: IsTerminalState_def)

lemma named_states: "''queued'' \<in> set workStates" "''dispatching'' \<in> set workStates" "''delivered'' \<in> set workStates"
  by (simp_all add: workStates_def)

text \<open>What an accepted update writes, whatever the row is by then.\<close>

lemma plan_update_Inr:
  assumes "plan_update now u w = Inr f"
  shows "attempt_guard u w = None" "Terminal w \<Longrightarrow> wuState u = twState w"
    "twState (f row) = wuState u" "WorkID (f row) = WorkID row" "twProvenance (f row) = given_or (wuProvenance u) (twProvenance w)"
    "twCompletedAt (f row) = (if IsTerminalState (wuState u) \<and> twCompletedAt w = None then Some now else twCompletedAt w)"
proof -
  show guard: "attempt_guard u w = None" using assms by (cases "attempt_guard u w") (simp_all add: plan_update_def)
  show "Terminal w \<Longrightarrow> wuState u = twState w" using assms guard by (cases "wuState u = twState w") (simp_all add: plan_update_def)
  have "f = update_write now u w" using assms guard by (simp add: plan_update_def split: if_splits)
  then show "twState (f row) = wuState u" "WorkID (f row) = WorkID row" "twProvenance (f row) = given_or (wuProvenance u) (twProvenance w)"
    "twCompletedAt (f row) = (if IsTerminalState (wuState u) \<and> twCompletedAt w = None then Some now else twCompletedAt w)"
    by (simp_all add: update_write_def)
qed

lemma write_update:
  assumes "validateWorkState (wuState u) = None" "plan_update now u w = Inr f"
  shows "write_ok f"
  using assms(1) by (auto simp: write_ok_def row_ok_def Terminal_def plan_update_Inr [OF assms(2)] validateWorkState_def split: if_splits)

lemma write_cancel: "plan_cancel now by reason w = Inr f \<Longrightarrow> write_ok f"
  by (auto simp: plan_cancel_def Let_def write_ok_def row_ok_def Terminal_def terminal_states not_terminal split: if_splits)

lemma write_acquire: "write_ok (acquire_write now a opt w)"
  by (simp add: write_ok_def acquire_write_def row_ok_def Terminal_def not_terminal named_states)

lemma write_recover: "write_ok (recover_write wall now w)"
  by (simp add: write_ok_def recover_write_def row_ok_def Terminal_def not_terminal terminal_states)

lemma cascade_ok:
  assumes "row_ok w" "cascade now u w = (st, reason, c)"
  shows "st \<in> set workStates \<and> (IsTerminalState st \<longrightarrow> c \<noteq> None)"
proof -
  have "completed_or now w \<noteq> None" by (simp add: completed_or_def coalesce_def split: option.split)
  then show ?thesis using assms
    by (auto simp: cascade_def row_ok_def Terminal_def not_terminal named_states terminal_states simp del: not_None_eq split: if_splits)
qed

lemma write_attempt:
  assumes "row_ok w"
  shows "write_ok (attempt_write now a u as w)"
proof (cases "str_at (attempt_runner u as w) ''current_attempt_id'' = a")
  case False
  then show ?thesis by (simp add: write_ok_def attempt_write_def Let_def row_ok_def Terminal_def)
next
  case True
  obtain st reason c where cas: "cascade now u w = (st, reason, c)" by (cases "cascade now u w")
  show ?thesis using True cascade_ok [OF assms cas]
    by (simp add: write_ok_def attempt_write_def Let_def cas row_ok_def Terminal_def del: not_None_eq)
qed

lemma create_ok: "work_ok db \<Longrightarrow> work_ok (snd (CreateWork now i c db))"
  by (auto simp: CreateWork_def insertWork_def Let_def work_ok_def table_ok_def prepareWork_def row_ok_def Terminal_def
    not_terminal named_states split: if_splits)

lemma work_reach_ok: "work_reach db ps \<Longrightarrow> work_ok db \<and> (\<forall>(i, f) \<in> set ps. write_ok f)"
proof (induction rule: work_reach.induct)
  case (read_attempt db ps i w now a u as)
  then have "row_ok w" using work_okD by (auto simp: GetWork_Some)
  with read_attempt write_attempt show ?case by auto
next
  case (write_row db ps i f qs)
  then show ?case using work_ok_adjust by auto
qed (auto simp: work_ok_def create_ok [unfolded work_ok_def] dest: write_update write_cancel intro: write_acquire write_recover)

text \<open>
  C28: tracked work stays well formed under concurrency. Whatever calls run concurrently, with every
  read and every write of theirs interleaved in any order, each row is filed under its own id, is in
  one of the eleven states, carries a completion time if that state is terminal, and can be read
  back: neither \<open>GetWork\<close> nor \<open>ListWork\<close> ever fails on a stored state, and the list is complete.
\<close>

theorem work_rows_well_formed:
  assumes "work_reach db ps"
  shows "(\<exists>rows. ListWork any_work db = Inr rows \<and> (\<forall>i w. gm_get db i = Some w \<longrightarrow> w \<in> set rows)) \<and>
     (\<forall>i w. gm_get db i = Some w \<longrightarrow> WorkID w = i \<and> twState w \<in> set workStates \<and>
        (Terminal w \<longrightarrow> twCompletedAt w \<noteq> None) \<and> GetWork i db = Inr (Some w))"
proof -
  have ok: "work_ok db" using work_reach_ok [OF assms] by simp
  let ?rows = "rev (sort_key (\<lambda>w. DBText (twUpdatedAt w)) (rows_where (work_matches any_work) db))"
  have all: "work_matches any_work w" for w by (simp add: work_matches_def any_work_def opt_matches_def)
  have gm: "gm_ok db" using ok by (simp add: work_ok_def table_ok_def)
  have "find (\<lambda>w. validateWorkState (twState w) \<noteq> None) ?rows = None"
    using ok by (auto simp: find_None_iff set_rows_where [OF gm] validateWorkState_def work_ok_def row_ok_def)
  then have "ListWork any_work db = Inr ?rows" by (simp add: ListWork_def any_work_def Let_def)
  moreover have "\<forall>i w. gm_get db i = Some w \<longrightarrow> w \<in> set ?rows" by (auto simp: set_rows_where [OF gm] all)
  ultimately show ?thesis using work_okD [OF ok] work_ok_get [OF ok] by (auto simp: row_ok_def)
qed

text \<open>Two calls on one piece of work: a cancel has read the queued row when an update completes it.\<close>

definition sample_work :: work_create where
  "sample_work = \<lparr>wcTitle = ''job'', wcKind = [], wcCreatedByPeerID = None, wcOwnerPeerID = None, wcAssignedPeerID = None,
     wcRepowireSessionID = None, wcCorrelationID = None, wcCircle = None, wcSourceKind = None, wcSourceID = None,
     wcScope = None, wcVisibility = [], wcRequest = [], wcDeadlineAt = None, wcExpiresAt = None, wcProvenance = []\<rparr>"

definition sample_update :: "string \<Rightarrow> work_update" where
  "sample_update st = \<lparr>wuState = st, wuStateReason = None, wuPhase = None, wuProgress = None, wuProgressNote = None,
     wuResultSummary = None, wuResultData = None, wuError = None, wuArtifacts = None, wuProvenance = None, wuAttemptID = None\<rparr>"

definition sample_row :: tracked_work where
  "sample_row = prepareWork ''t0'' ''w1'' sample_work"

lemma sample_create: "CreateWork ''t0'' ''w1'' sample_work [] = (Inr sample_row, [(''w1'', sample_row)])"
proof -
  have "WorkID sample_row = ''w1''" by (simp add: sample_row_def prepareWork_def)
  then show ?thesis by (simp add: CreateWork_def insertWork_def gm_has_def gm_put_def flip: sample_row_def)
qed

lemma sample_read: "GetWork ''w1'' [(''w1'', sample_row)] = Inr (Some sample_row)"
  by (simp add: GetWork_def gm_get_Cons validateWorkState_def sample_row_def prepareWork_def workStates_def)

lemma sample_interleaving:
  "\<exists>f g. plan_cancel ''t1'' None [] sample_row = Inr f \<and> plan_update ''t2'' (sample_update ''completed'') sample_row = Inr g \<and>
     work_reach [(''w1'', f (g sample_row))] [] \<and> twState (f (g sample_row)) = ''cancelled''"
proof -
  let ?db = "[(''w1'', sample_row)]"
  have adj: "gm_adjust ''w1'' h [(''w1'', row)] = [(''w1'', h row)]" for h and row :: tracked_work
    by (simp add: gm_adjust_def gm_get_Cons gm_put_def)
  obtain f where f: "plan_cancel ''t1'' None [] sample_row = Inr f" "twState (f row) = ''cancelled''" for row
    by (simp add: plan_cancel_def sample_row_def prepareWork_def Terminal_def IsTerminalState_def Let_def)
  obtain g where g: "plan_update ''t2'' (sample_update ''completed'') sample_row = Inr g"
    by (simp add: plan_update_def attempt_guard_def sample_row_def prepareWork_def Terminal_def IsTerminalState_def Let_def
      sample_update_def runnerCurrentAttempt_def obj_at_def str_at_def sample_work_def gm_get_def)
  have "work_reach ?db []" using work_create [OF work_start, of "''t0''" "''w1''" sample_work] by (simp add: sample_create)
  then have "work_reach ?db [(''w1'', f)]" by (rule read_cancel) (fact sample_read, fact f)
  then have "work_reach ?db [(''w1'', g), (''w1'', f)]"
    by (rule read_update [OF _ _ sample_read g]) (simp add: validateWorkState_def sample_update_def workStates_def)
  then have "work_reach [(''w1'', g sample_row)] [(''w1'', f)]" using write_row [of ?db "[]" "''w1''" g "[(''w1'', f)]"] by (simp add: adj)
  then have "work_reach [(''w1'', f (g sample_row))] []" using write_row [of "[(''w1'', g sample_row)]" "[]" "''w1''" f "[]"] by (simp add: adj)
  with f g show ?thesis by blast
qed

lemma work_rows_well_formed_witness:
  "\<exists>w. twState w = ''cancelled'' \<and> work_reach [(''w1'', w)] [] \<and> WorkID w = ''w1'' \<and> GetWork ''w1'' [(''w1'', w)] = Inr (Some w)"
proof -
  obtain f g where reach: "work_reach [(''w1'', f (g sample_row))] []" "twState (f (g sample_row)) = ''cancelled''"
    using sample_interleaving by blast
  show ?thesis using work_rows_well_formed [OF reach(1)] reach by (auto simp: gm_get_def)
qed

end
