(* ===== verification/Work_Safety.thy ===== *)
theory Work_Safety
  imports Work_Facts
begin

text \<open>
  Histories of whole calls on the work table: finished work stays finished, the worker of an old
  attempt cannot finish the work of a newer one, and where the code lets a late delivery report or a
  second dispatcher through.
\<close>

section \<open>Histories\<close>

datatype work_call =
    CallCreate string string work_create
  | CallUpdate string string work_update
  | CallCancel string string "string option" string
  | CallAcquire gotime string string acquire_options
  | CallAttempt string string string attempt_update
  | CallRecover gotime string

fun work_step :: "work_call \<Rightarrow> work_table \<Rightarrow> work_table" where
  "work_step (CallCreate now i c) db = snd (CreateWork now i c db)"
| "work_step (CallUpdate now i u) db = snd (UpdateWorkState now i u db)"
| "work_step (CallCancel now i by reason) db = snd (CancelWork now i by reason db)"
| "work_step (CallAcquire now fresh i opt) db = snd (AcquireForDispatch now fresh i opt db)"
| "work_step (CallAttempt now i a u) db = snd (UpdateAttempt now i a u db)"
| "work_step (CallRecover wall now) db = snd (RecoverStaleDispatching wall now db)"

definition work_run :: "work_call list \<Rightarrow> work_table \<Rightarrow> work_table" where
  "work_run calls db = fold work_step calls db"

text \<open>What a call does to one row: nothing, or a single assignment decided on that row.\<close>

inductive call_effect :: "work_call \<Rightarrow> string \<Rightarrow> tracked_work \<Rightarrow> tracked_work \<Rightarrow> bool" where
  no_effect: "call_effect call i w w"
| update_effect: "validateWorkState (wuState u) = None \<Longrightarrow> plan_update now u w = Inr f \<Longrightarrow>
    call_effect (CallUpdate now i u) i w (f w)"
| cancel_effect: "plan_cancel now by reason w = Inr f \<Longrightarrow> call_effect (CallCancel now i by reason) i w (f w)"
| acquire_effect: "acquirable now opt w \<Longrightarrow>
    call_effect (CallAcquire now fresh i opt) i w (acquire_write t a opt w w)"
| attempt_effect: "change_attempt (update_attempt now u) a (toAnySlice (gm_get (runner_of w) ''attempts'')) = Some as \<Longrightarrow>
    call_effect (CallAttempt now i a u) i w (attempt_write now a u as w w)"
| recover_effect: "twState w = ''dispatching'' \<Longrightarrow> call_effect (CallRecover wall now) i w (recover_write t now w w)"



definition dispatching_work :: work_filter where
  "dispatching_work = any_work\<lparr>wfState := Some ''dispatching''\<rparr>"

lemma store_method_row:
  assumes "gm_get db i = Some w"
  shows "\<exists>w'. gm_get (snd (store_method j plan db)) i = Some w' \<and> (w' = w \<or> i = j \<and> (\<exists>f. plan w = Inr f \<and> w' = f w))"
  using assms by (auto simp: store_method_def GetWork_Some Let_def split: sum.splits option.splits)

lemma recover_fold_row:
  assumes "gm_get db i = Some w" "\<And>x. x \<in> set rows \<Longrightarrow> WorkID x = i \<Longrightarrow> x = w" "distinct (map WorkID rows)"
  shows "\<exists>w'. gm_get (fst (fold (recover_one wall now current) rows (db, acc))) i = Some w' \<and>
     (w' = w \<or> w \<in> set rows \<and> w' = recover_write wall now w w)"
  using assms
proof (induction rows arbitrary: db acc)
  case (Cons x rows)
  obtain db' acc' where step: "recover_one wall now current x (db, acc) = (db', acc')" by (cases "recover_one wall now current x (db, acc)")
  have db': "db' = db \<or> db' = gm_adjust (WorkID x) (recover_write wall now x) db"
    using step by (auto simp: recover_one_def Let_def split: if_splits)
  show ?case
  proof (cases "db' \<noteq> db \<and> WorkID x = i")
    case True
    then have x: "x = w" "gm_get db' i = Some (recover_write wall now w w)" using Cons.prems db' by auto
    have "x' \<notin> set rows" if "WorkID x' = i" for x' using that True Cons.prems(3) by (auto simp: image_iff)
    then have "gm_get (fst (fold (recover_one wall now current) rows (db', acc'))) i = Some (recover_write wall now w w)"
      using x(2)
    proof (induction rows arbitrary: db' acc')
      case (Cons y ys)
      obtain d a where s: "recover_one wall now current y (db', acc') = (d, a)" by (cases "recover_one wall now current y (db', acc')")
      have "WorkID y \<noteq> i" using Cons.prems(1) by auto
      then have "gm_get d i = Some (recover_write wall now w w)" using s Cons.prems(2) by (auto simp: recover_one_def Let_def split: if_splits)
      then show ?case using Cons s by simp
    qed simp
    then show ?thesis using x step by auto
  next
    case False
    then have "gm_get db' i = Some w" using db' Cons.prems(1) by auto
    from Cons.IH [OF this, of acc'] Cons.prems step show ?thesis by auto
  qed
qed simp

lemma work_step_row:
  assumes ok: "work_ok db" and row: "gm_get db i = Some w"
  shows "\<exists>w'. gm_get (work_step call db) i = Some w' \<and> call_effect call i w w'"
proof (cases call)
  case (CallCreate now j c)
  then show ?thesis using row by (auto simp: CreateWork_def insertWork_def Let_def gm_has_def intro: no_effect)
next
  case (CallUpdate now j u)
  show ?thesis
  proof (cases "validateWorkState (wuState u)")
    case None
    then show ?thesis using store_method_row [OF row, of j "plan_update now u"] CallUpdate
      by (auto simp: UpdateWorkState_def intro: no_effect update_effect)
  qed (use CallUpdate row in \<open>auto simp: UpdateWorkState_def intro: no_effect\<close>)
next
  case (CallCancel now j by' reason)
  then show ?thesis using store_method_row [OF row, of j "plan_cancel now by' reason"]
    by (auto simp: CancelWork_def intro: no_effect cancel_effect)
next
  case (CallAcquire now fresh j opt)
  show ?thesis
  proof (cases "j = i")
    case True
    then show ?thesis using work_ok_get [OF ok row] row CallAcquire
      by (auto simp: AcquireForDispatch_def Let_def intro: no_effect acquire_effect)
  next
    case False
    then have "gm_get (work_step call db) i = Some w" using row CallAcquire
      by (auto simp: AcquireForDispatch_def Let_def split: sum.splits option.splits)
    then show ?thesis by (blast intro: no_effect)
  qed
next
  case (CallAttempt now j a u)
  show ?thesis
  proof (cases "j = i")
    case True
    then show ?thesis using work_ok_get [OF ok row] row CallAttempt
      by (auto simp: UpdateAttempt_def Let_def intro: no_effect attempt_effect split: option.splits)
  next
    case False
    then have "gm_get (work_step call db) i = Some w" using row CallAttempt
      by (auto simp: UpdateAttempt_def Let_def split: sum.splits option.splits)
    then show ?thesis by (blast intro: no_effect)
  qed
next
  case (CallRecover wall now)
  show ?thesis
  proof (cases "ListWork dispatching_work db")
    case (Inr rows)
    have t: "table_ok WorkID db" using ok by (simp add: work_ok_def)
    have rows: "rows = rev (sort_key (\<lambda>w. DBText (twUpdatedAt w)) (rows_where (work_matches dispatching_work) db))"
      using Inr by (auto simp: ListWork_def Let_def split: option.splits)
    have "distinct (map WorkID rows)" by (simp add: rows rev_map [symmetric] distinct_map_sort_key distinct_rows_where [OF t])
    moreover have "gm_get db (WorkID x) = Some x \<and> twState x = ''dispatching''" if "x \<in> set rows" for x
      using that by (simp add: rows rows_where_pk [OF t] work_matches_def dispatching_work_def any_work_def opt_matches_def)
    ultimately obtain w' where w': "gm_get (fst (fold (recover_one (formatISO wall) now (case parseISO now of Some t \<Rightarrow> t | None \<Rightarrow> wall)) rows (db, []))) i = Some w'"
        "w' = w \<or> twState w = ''dispatching'' \<and> w' = recover_write (formatISO wall) now w w"
      using recover_fold_row [OF row, of rows "formatISO wall" now] row by fastforce
    have "work_step call db = fst (fold (recover_one (formatISO wall) now (case parseISO now of Some t \<Rightarrow> t | None \<Rightarrow> wall)) rows (db, []))"
      using Inr CallRecover by (simp add: RecoverStaleDispatching_def dispatching_work_def Let_def split: prod.split)
    with w' CallRecover show ?thesis by (auto intro: no_effect recover_effect)
  qed (use CallRecover row in \<open>auto simp: RecoverStaleDispatching_def dispatching_work_def intro: no_effect\<close>)
qed

lemma work_step_ok: "work_ok db \<Longrightarrow> work_ok (work_step call db)"
proof -
  assume ok: "work_ok db"
  show ?thesis
  proof (cases call)
    case (CallCreate now i c)
    then show ?thesis using ok create_ok by simp
  next
    case (CallUpdate now i u)
    then show ?thesis using ok
      by (auto simp: UpdateWorkState_def store_method_def Let_def GetWork_Some split: option.splits sum.splits intro: work_ok_adjust write_update)
  next
    case (CallCancel now i by' reason)
    then show ?thesis using ok
      by (auto simp: CancelWork_def store_method_def Let_def split: option.splits sum.splits intro: work_ok_adjust write_cancel)
  next
    case (CallAcquire now fresh i opt)
    then show ?thesis using ok
      by (auto simp: AcquireForDispatch_def Let_def split: option.splits sum.splits intro: work_ok_adjust write_acquire)
  next
    case (CallAttempt now i a u)
    then show ?thesis using ok work_okD [OF ok]
      by (auto simp: UpdateAttempt_def Let_def GetWork_Some split: option.splits sum.splits intro!: work_ok_adjust write_attempt)
  next
    case (CallRecover wall now)
    have "work_ok (fst acc) \<Longrightarrow> work_ok (fst (fold (recover_one t now c) rows acc))" for t c rows acc
    proof (induction rows arbitrary: acc)
      case (Cons x rows)
      have "work_ok (fst (recover_one t now c x acc))" using Cons.prems
        by (auto simp: recover_one_def Let_def split: prod.splits intro: work_ok_adjust write_recover)
      with Cons.IH show ?case by simp
    qed simp
    from this [of "(db, [])"] CallRecover ok show ?thesis
      by (auto simp: RecoverStaleDispatching_def Let_def split: sum.splits prod.splits) (metis fst_conv)
  qed
qed

text \<open>A property of one row that every call's effect preserves holds after every history.\<close>

lemma work_run_row:
  assumes "work_ok db" "gm_get db i = Some w" "P w" "\<And>c. c \<in> set calls \<Longrightarrow> Q c"
    "\<And>c w w'. Q c \<Longrightarrow> P w \<Longrightarrow> call_effect c i w w' \<Longrightarrow> P w'"
  shows "\<exists>w'. gm_get (work_run calls db) i = Some w' \<and> P w'"
  using assms(1-4)
proof (induction calls arbitrary: db w)
  case (Cons c calls)
  obtain w' where w': "gm_get (work_step c db) i = Some w'" "call_effect c i w w'"
    using work_step_row [OF Cons.prems(1,2)] by blast
  then have "P w'" using assms(5) [OF _ Cons.prems(3) w'(2)] Cons.prems(4) by simp
  with Cons.IH [OF work_step_ok [OF Cons.prems(1)] w'(1)] Cons.prems(4) show ?case by (simp add: work_run_def)
qed (auto simp: work_run_def)

section \<open>Finished work stays finished\<close>

definition final_state :: "string \<Rightarrow> bool" where
  "final_state s \<longleftrightarrow> s = ''completed'' \<or> s = ''cancelled'' \<or> s = ''expired''"

text \<open>A report on an attempt that carries an outcome.\<close>

fun reports_outcome :: "string \<Rightarrow> work_call \<Rightarrow> bool" where
  "reports_outcome i (CallAttempt now j a u) \<longleftrightarrow> j = i \<and>
     auStatus u \<in> Some ` {''delivered'', ''failed'', ''unavailable'', ''cancelled''}"
| "reports_outcome i call \<longleftrightarrow> False"

lemma final_effect:
  assumes "\<not> reports_outcome i call" "final_state st" "row_ok w \<and> twState w = st \<and> twCompletedAt w = c" "call_effect call i w w'"
  shows "row_ok w' \<and> twState w' = st \<and> twCompletedAt w' = c"
  using assms(4)
proof (cases rule: call_effect.cases)
  case (update_effect u now f)
  have "Terminal w" using assms(2,3) by (auto simp: Terminal_def final_state_def not_terminal)
  then show ?thesis using assms(3) plan_update_Inr [OF update_effect(4)] update_effect(2)
    by (auto simp: row_ok_def Terminal_def)
next
  case (cancel_effect now who reason f)
  then show ?thesis using assms(2,3)
    by (auto simp: plan_cancel_def Let_def row_ok_def Terminal_def final_state_def not_terminal split: if_splits)
next
  case (acquire_effect now opt fresh t a)
  then show ?thesis using assms(2,3) by (auto simp: acquirable_def final_state_def split: if_splits)
next
  case (attempt_effect now u a as)
  have "cascade now u w = (twState w, twStateReason w, twCompletedAt w)" using assms(1) attempt_effect by (auto simp: cascade_def)
  then show ?thesis using attempt_effect(2) assms(3) by (auto simp: attempt_write_def Let_def row_ok_def Terminal_def)
next
  case (recover_effect wall now t)
  then show ?thesis using assms(2,3) by (auto simp: final_state_def)
qed (use assms(3) in auto)

lemma work_run_ok: "work_ok (work_run calls [])"
proof -
  have "work_ok db \<Longrightarrow> work_ok (work_run calls db)" for db
    by (induction calls arbitrary: db) (auto simp: work_run_def work_step_ok)
  from this [of "[]"] show ?thesis by (simp add: work_ok_def [of "[]"])
qed

lemma work_run_append: "work_run (xs @ ys) db = work_run ys (work_run xs db)"
  by (simp add: work_run_def)


section \<open>An old attempt cannot finish the work of a newer one\<close>

text \<open>The calls of workers that do not hold attempt \<open>a\<close>, and everything else but a new dispatch.\<close>

fun stale_call :: "string \<Rightarrow> string \<Rightarrow> work_call \<Rightarrow> bool" where
  "stale_call i a (CallUpdate now j u) \<longleftrightarrow> j = i \<longrightarrow> wuAttemptID u \<noteq> Some a \<and> wuProvenance u = None"
| "stale_call i a (CallAttempt now j b u) \<longleftrightarrow> j = i \<longrightarrow> b \<noteq> a"
| "stale_call i a (CallAcquire now fresh j opt) \<longleftrightarrow> j \<noteq> i"
| "stale_call i a call \<longleftrightarrow> True"

lemma str_at_put: "str_at (gm_put k v m) k' = (if k' = k then (case v of JStr s \<Rightarrow> s | _ \<Rightarrow> []) else str_at m k')"
  by (simp add: str_at_def split: json.split)

lemma current_of_runner: "str_at (runner_of w) ''current_attempt_id'' = runnerCurrentAttempt w"
  by (simp add: runner_of_def runnerCurrentAttempt_def Let_def str_at_put)

lemma current_of_attempt_runner: "str_at (attempt_runner u as w) ''current_attempt_id'' = runnerCurrentAttempt w"
  by (simp add: attempt_runner_def Let_def str_at_put current_of_runner split: option.split)

lemma current_of_recovered: "str_at (recovered_runner now w) ''current_attempt_id'' = runnerCurrentAttempt w"
  by (simp add: recovered_runner_def Let_def str_at_put current_of_runner)

lemma current_with_runner: "twProvenance w' = with_runner r w \<Longrightarrow> runnerCurrentAttempt w' = str_at r ''current_attempt_id''"
  by (simp add: runnerCurrentAttempt_def with_runner_def obj_at_def)

definition unfinished_by :: "string \<Rightarrow> tracked_work \<Rightarrow> bool" where
  "unfinished_by a w \<longleftrightarrow> runnerCurrentAttempt w = a \<and> twState w \<noteq> ''completed'' \<and> twState w \<noteq> ''failed''"

lemma stale_effect:
  assumes "stale_call i a call" "a \<noteq> []" "unfinished_by a w" "call_effect call i w w'"
  shows "unfinished_by a w'"
  using assms(4)
proof (cases rule: call_effect.cases)
  case (update_effect u now f)
  note f = plan_update_Inr [OF update_effect(4)]
  have "wuState u \<noteq> ''completed'' \<and> wuState u \<noteq> ''failed''"
    using f(1) assms(1-3) update_effect(1) by (auto simp: attempt_guard_def unfinished_by_def Let_def split: option.splits if_splits)
  moreover have "twState (f w) = wuState u \<and> twProvenance (f w) = twProvenance w"
    using f(3,5) assms(1) update_effect(1) by (simp add: given_or_def)
  ultimately show ?thesis using update_effect(2) assms(3) by (simp add: unfinished_by_def runnerCurrentAttempt_def)
next
  case (cancel_effect now who reason f)
  then show ?thesis using assms(3)
    by (auto simp: plan_cancel_def Let_def unfinished_by_def runnerCurrentAttempt_def split: if_splits)
next
  case (attempt_effect now u b as)
  have "runnerCurrentAttempt w \<noteq> b" using assms(1,3) attempt_effect(1) by (auto simp: unfinished_by_def)
  then have "w' = w\<lparr>twProvenance := with_runner (attempt_runner u as w) w, twUpdatedAt := now\<rparr>"
    using attempt_effect(2) by (simp add: attempt_write_def Let_def current_of_attempt_runner)
  then show ?thesis using assms(3) current_with_runner [of w' "attempt_runner u as w" w] by (simp add: unfinished_by_def current_of_attempt_runner)
next
  case (recover_effect wall now t)
  then show ?thesis using assms(3) current_with_runner [of w' "recovered_runner now w" w]
    by (simp add: unfinished_by_def recover_write_def current_of_recovered)
qed (use assms in auto)


end
