(* ===== verification/Work_Races.thy ===== *)
theory Work_Races
  imports Work_Safety
begin

text \<open>
  Two places where tracked work does not hold what it means to, each as a theorem about the runs of
  the code: a late delivery report reopens finished work, and two dispatchers can both acquire the
  same work. The concrete histories that instantiate the safety properties are here too.
\<close>

section \<open>Attempts recorded on the work\<close>

fun attempt_ids :: "json list \<Rightarrow> string list" where
  "attempt_ids [] = []"
| "attempt_ids (a # as) = (case a of JObj m \<Rightarrow> str_at m ''attempt_id'' # attempt_ids as | _ \<Rightarrow> attempt_ids as)"

definition recorded_attempts :: "tracked_work \<Rightarrow> json list" where
  "recorded_attempts w = toAnySlice (gm_get (runner_of w) ''attempts'')"

lemma change_attempt_None: "change_attempt f i as = None \<longleftrightarrow> i \<notin> set (attempt_ids as)"
  by (induction as) (auto split: json.splits)

lemma attempt_ids_append: "attempt_ids (as @ bs) = attempt_ids as @ attempt_ids bs"
  by (induction as) (auto split: json.splits)

lemma recorded_acquired: "twProvenance w' = with_runner (acquired_runner now a opt w) w \<Longrightarrow>
    recorded_attempts w' = recorded_attempts w @ [new_attempt now a opt w]"
  by (simp add: recorded_attempts_def runner_of_def [of w'] with_runner_def obj_at_def acquired_runner_def Let_def toAnySlice_def gm_has_def)

lemma new_attempt_id: "attempt_ids [new_attempt now a opt w] = [a]"
  by (simp add: new_attempt_def str_at_def gm_get_Cons)

lemma current_acquired: "twProvenance w' = with_runner (acquired_runner now a opt w) w \<Longrightarrow> runnerCurrentAttempt w' = a"
  using current_with_runner [of w' "acquired_runner now a opt w" w] by (simp add: acquired_runner_def Let_def str_at_put)

section \<open>A late delivery report\<close>

definition report :: "string \<Rightarrow> attempt_update" where
  "report st = \<lparr>auStatus = Some st, auPhase = None, auAssignedPeerID = None, auAssignedPeerInfo = None, auTmux = None,
     auCorrelationID = None, auDeliveryState = None, auResumePlan = None, auOperationID = None,
     auAcquisitionStrategy = None, auAcquisition = None, auError = None\<rparr>"

text \<open>
  A late delivery report reopens finished work. \<open>UpdateAttempt\<close> does not look at the state of the
  work: after any history, whatever state the work is in, a report "delivered" on its current attempt
  puts it back into the state delivered with its old completion time still set, completed work included.
\<close>

theorem late_report_reopens_work:
  assumes "gm_get (work_run before []) i = Some w" "runnerCurrentAttempt w \<in> set (attempt_ids (recorded_attempts w))"
  shows "\<exists>w'. gm_get (work_run (before @ [CallAttempt now i (runnerCurrentAttempt w) (report ''delivered'')]) []) i = Some w' \<and>
     twState w' = ''delivered'' \<and> twCompletedAt w' = twCompletedAt w"
proof -
  let ?a = "runnerCurrentAttempt w" and ?db = "work_run before []" and ?u = "report ''delivered''"
  obtain as where as: "change_attempt (update_attempt now ?u) ?a (recorded_attempts w) = Some as"
    using assms(2) change_attempt_None by (cases "change_attempt (update_attempt now ?u) ?a (recorded_attempts w)") blast+
  have "snd (UpdateAttempt now i ?a ?u ?db) = gm_adjust i (attempt_write now ?a ?u as w) ?db"
    using as work_ok_get [OF work_run_ok assms(1)] by (simp add: UpdateAttempt_def recorded_attempts_def Let_def)
  moreover have "cascade now ?u w = (''delivered'', Some ''ask_delivered'', twCompletedAt w)" by (simp add: cascade_def report_def)
  then have "twState (attempt_write now ?a ?u as w w) = ''delivered''" "twCompletedAt (attempt_write now ?a ?u as w w) = twCompletedAt w"
    by (simp_all add: attempt_write_def Let_def current_of_attempt_runner)
  ultimately show ?thesis using assms(1) by (simp add: work_run_append work_run_def [of "[_]"])
qed

section \<open>Two dispatchers\<close>

text \<open>
  Two dispatchers can both acquire the same work. \<open>AcquireForDispatch\<close> decides on the row it read
  and writes unconditionally: when two of them read the same acquirable row, both succeed, the second
  write drops the attempt of the first, and from then on every report of the first dispatcher finds no
  attempt and is lost without an error.
\<close>

theorem concurrent_acquire_loses_attempt:
  assumes "work_reach db ps" "gm_get db i = Some w" "acquirable t1 o1 w" "acquirable t2 o2 w" "a \<noteq> b"
    "a \<notin> set (attempt_ids (recorded_attempts w))"
  shows "\<exists>db'. work_reach db' ps \<and> runnerCurrentAttempt (the (gm_get db' i)) = b \<and>
     twState (the (gm_get db' i)) = ''dispatching'' \<and> (\<forall>now u. UpdateAttempt now i a u db' = (Inr None, db'))"
proof -
  let ?f = "acquire_write [] a o1 w" and ?g = "acquire_write [] b o2 w"
  have ok: "work_ok db" using work_reach_ok [OF assms(1)] by simp
  have read: "GetWork i db = Inr (Some w)" by (rule work_ok_get [OF ok assms(2)])
  have "work_reach db ((i, ?f) # (i, ?g) # ps)"
    by (rule read_acquire [OF read_acquire [OF assms(1) read assms(4)] read assms(3)])
  then have "work_reach (gm_adjust i ?f db) ((i, ?g) # ps)" using write_row [of db "[]" i ?f] by simp
  then have reach: "work_reach (gm_adjust i ?g (gm_adjust i ?f db)) ps" (is "work_reach ?db ps")
    using write_row [of "gm_adjust i ?f db" "[]" i ?g] by simp
  let ?r = "?g (?f w)"
  have row: "gm_get ?db i = Some ?r" using assms(2) by simp
  have prov: "twProvenance ?r = with_runner (acquired_runner [] b o2 w) w" by (simp add: acquire_write_def)
  have "change_attempt h a (recorded_attempts ?r) = None" for h
    using assms(5,6) by (simp add: change_attempt_None recorded_acquired [OF prov] attempt_ids_append new_attempt_id del: attempt_ids.simps)
  moreover have "GetWork i ?db = Inr (Some ?r)" using work_ok_get [OF _ row] work_reach_ok [OF reach] by simp
  ultimately have "UpdateAttempt now i a u ?db = (Inr None, ?db)" for now u
    by (simp add: UpdateAttempt_def recorded_attempts_def)
  moreover have "twState ?r = ''dispatching''" by (simp add: acquire_write_def)
  ultimately show ?thesis using reach current_acquired [OF prov] assms(2) by (intro exI [of _ ?db]) simp
qed

section \<open>Concrete histories\<close>

definition sample_options :: acquire_options where
  "sample_options = \<lparr>aoRunnerOwnerID = ''runner'', aoLeaseUntil = [], aoAttemptID = ''a1'', aoIgnoreDueAt = True, aoRetry = False\<rparr>"

definition sample_acquired :: tracked_work where
  "sample_acquired = acquire_write (formatISO 0) ''a1'' sample_options sample_row sample_row"

lemma sample_row_fields: "WorkID sample_row = ''w1''" "twState sample_row = ''queued''" "twProvenance sample_row = []"
  "twCancelRequested sample_row = False" "twCompletedAt sample_row = None"
  by (simp_all add: sample_row_def prepareWork_def sample_work_def)

lemma sample_acquired_fields: "twState sample_acquired = ''dispatching''" "runnerCurrentAttempt sample_acquired = ''a1''"
  "recorded_attempts sample_acquired = [new_attempt (formatISO 0) ''a1'' sample_options sample_row]"
proof -
  have prov: "twProvenance sample_acquired = with_runner (acquired_runner (formatISO 0) ''a1'' sample_options sample_row) sample_row"
    by (simp add: sample_acquired_def acquire_write_def)
  show "runnerCurrentAttempt sample_acquired = ''a1''" by (rule current_acquired [OF prov])
  have "recorded_attempts sample_row = []"
    by (simp add: recorded_attempts_def runner_of_def obj_at_def sample_row_fields Let_def toAnySlice_def gm_has_def)
  then show "recorded_attempts sample_acquired = [new_attempt (formatISO 0) ''a1'' sample_options sample_row]"
    using recorded_acquired [OF prov] by simp
qed (simp add: sample_acquired_def acquire_write_def)

lemma sample_acquirable: "acquirable 0 sample_options sample_row"
  by (simp add: acquirable_def sample_options_def sample_row_fields)

lemma sample_created_run: "work_run [CallCreate ''t0'' ''w1'' sample_work] [] = [(''w1'', sample_row)]"
  by (simp add: work_run_def sample_create)

definition acquire_history :: "work_call list" where
  "acquire_history = [CallCreate ''t0'' ''w1'' sample_work, CallAcquire 0 ''fresh'' ''w1'' sample_options]"

lemma sample_acquired_run: "work_run acquire_history [] = [(''w1'', sample_acquired)]"
proof -
  have "work_run acquire_history [] = snd (AcquireForDispatch 0 ''fresh'' ''w1'' sample_options [(''w1'', sample_row)])"
    by (simp add: work_run_def acquire_history_def sample_create)
  moreover have "aoAttemptID sample_options = ''a1''" by (simp add: sample_options_def)
  ultimately show ?thesis
    by (simp add: AcquireForDispatch_def sample_read sample_acquirable Let_def gm_adjust_def gm_get_Cons gm_put_def sample_acquired_def)
qed

lemma late_report_reopens_work_witness:
  "\<exists>w w'. gm_get (work_run acquire_history []) ''w1'' = Some w \<and> twState w = ''dispatching'' \<and>
     gm_get (work_run (acquire_history @ [CallAttempt ''t2'' ''w1'' ''a1'' (report ''delivered'')]) []) ''w1'' = Some w' \<and>
     twState w' = ''delivered''"
proof -
  have row: "gm_get (work_run acquire_history []) ''w1'' = Some sample_acquired" by (simp add: sample_acquired_run gm_get_Cons)
  have "''a1'' \<in> set (attempt_ids (recorded_attempts sample_acquired))"
    unfolding sample_acquired_fields new_attempt_id by simp
  then show ?thesis using late_report_reopens_work [OF row, of "''t2''"] row unfolding sample_acquired_fields
    by (metis sample_acquired_fields(1))
qed

lemma concurrent_acquire_loses_attempt_witness:
  "\<exists>db'. work_reach db' [] \<and> runnerCurrentAttempt (the (gm_get db' ''w1'')) = ''a2'' \<and>
     UpdateAttempt ''t'' ''w1'' ''a1'' (report ''delivered'') db' = (Inr None, db')"
proof -
  have reach: "work_reach [(''w1'', sample_row)] []"
    using work_create [OF work_start, of "''t0''" "''w1''" sample_work] by (simp add: sample_create)
  have "recorded_attempts sample_row = []"
    by (simp add: recorded_attempts_def runner_of_def obj_at_def sample_row_fields Let_def toAnySlice_def gm_has_def)
  then have "\<exists>db'. work_reach db' [] \<and> runnerCurrentAttempt (the (gm_get db' ''w1'')) = ''a2'' \<and>
      twState (the (gm_get db' ''w1'')) = ''dispatching'' \<and> (\<forall>now u. UpdateAttempt now ''w1'' ''a1'' u db' = (Inr None, db'))"
    by (intro concurrent_acquire_loses_attempt [OF reach _ sample_acquirable sample_acquirable]) (simp_all add: gm_get_Cons)
  then show ?thesis by blast
qed


lemma sample_cancelled_run:
  "\<exists>w. gm_get (work_run [CallCreate ''t0'' ''w1'' sample_work, CallCancel ''t1'' ''w1'' None []] []) ''w1'' = Some w \<and> twState w = ''cancelled''"
proof -
  have "work_run [CallCreate ''t0'' ''w1'' sample_work, CallCancel ''t1'' ''w1'' None []] [] =
      snd (CancelWork ''t1'' ''w1'' None [] [(''w1'', sample_row)])"
    using sample_created_run by (simp add: work_run_def)
  moreover obtain f where f: "plan_cancel ''t1'' None [] sample_row = Inr f" "twState (f row) = ''cancelled''" for row
    by (simp add: plan_cancel_def sample_row_fields Terminal_def IsTerminalState_def Let_def)
  ultimately show ?thesis
    by (simp add: CancelWork_def store_method_def sample_read Let_def gm_get_Cons)
qed


end
