(* ===== verification/Calendar.thy ===== *)
theory Calendar
  imports Complex_Main Work_Store Cron
begin

text \<open>
  Recurring work: \<open>daemon-go/state/calendar.go\<close> and \<open>MaterializeDue\<close> of \<open>state/work_status.go\<close>, on the
  tables \<open>calendar_entries\<close> and \<open>tracked_work\<close>. An occurrence is claimed by a transaction that
  compares the entry's \<open>next_due_at\<close> with the value read before, so \<open>MaterializeDue\<close> is the read and
  the decision (\<open>plan_materialize\<close>) and the transaction (\<open>commit_claim\<close>), composed in a loop over the
  listed entries. \<open>nextFire\<close> is an argument, as in the code.
\<close>

section \<open>Entries\<close>

record calendar_entry =
  CalendarID :: string
  ceTitle :: string
  ceKind :: string
  ceState :: string
  ceCron :: string
  ceNextDueAt :: string
  ceVisibility :: string
  ceOwnerPeerID :: "string option"
  ceAssignedPeerID :: "string option"
  ceCircle :: "string option"
  ceCreatedByPeerID :: "string option"
  ceSourceKind :: "string option"
  ceSourceID :: "string option"
  ceScope :: "string option"
  ceRequest :: jobject
  ceProvenance :: jobject
  ceLastOccurrenceWorkID :: "string option"
  ceLastMaterializedAt :: "string option"
  ceCreatedAt :: string
  ceUpdatedAt :: string

type_synonym calendar_table = "(string, calendar_entry) gomap"

datatype calendar_error =
    ErrInsertEntry string
  | ErrParseNextDue string
  | ErrNextFire cron_error
  | ErrInsertWork work_error

text \<open>
  The second layout is the first without the zone, read in UTC: what it accepts is what the first
  accepts once \<open>Z\<close> is appended.
\<close>

definition calendarParseISO :: "string \<Rightarrow> gotime option" where
  "calendarParseISO s = (case parseISO s of Some t \<Rightarrow> Some t | None \<Rightarrow> parseISO (s @ ''Z''))"

definition CreateCalendarEntry :: "string \<Rightarrow> string \<Rightarrow> calendar_entry \<Rightarrow> calendar_table \<Rightarrow>
    (calendar_error + calendar_entry) \<times> calendar_table" where
  "CreateCalendarEntry now newid e db =
     (let out = e\<lparr>CalendarID := newid, ceState := ''active'',
            ceVisibility := (if ceVisibility e = [] then ''circle'' else ceVisibility e),
            ceCreatedAt := now, ceUpdatedAt := now, ceLastOccurrenceWorkID := None, ceLastMaterializedAt := None\<rparr>
      in if gm_has db newid then (Inl (ErrInsertEntry newid), db) else (Inr out, gm_put newid out db))"

definition GetCalendarEntry :: "string \<Rightarrow> calendar_table \<Rightarrow> calendar_entry option" where
  "GetCalendarEntry calendarID db = gm_get db calendarID"

record calendar_filter =
  cfState :: "string option"
  cfOwnerPeerID :: "string option"
  cfCreatedByPeerID :: "string option"
  cfCircle :: "string option"

definition entry_matches :: "calendar_filter \<Rightarrow> calendar_entry \<Rightarrow> bool" where
  "entry_matches f e \<longleftrightarrow> opt_matches (cfState f) (Some (ceState e)) \<and> opt_matches (cfOwnerPeerID f) (ceOwnerPeerID e) \<and>
     opt_matches (cfCreatedByPeerID f) (ceCreatedByPeerID e) \<and> opt_matches (cfCircle f) (ceCircle e)"

definition due_key :: "calendar_entry \<Rightarrow> dbtext" where
  "due_key e = DBText (ceNextDueAt e)"

definition ListCalendarEntries :: "calendar_filter \<Rightarrow> calendar_table \<Rightarrow> calendar_entry list" where
  "ListCalendarEntries f db = sort_key due_key (rows_where (entry_matches f) db)"

text \<open>Read, compute the new provenance, write it back, read again.\<close>

definition CancelCalendarEntry :: "string \<Rightarrow> string \<Rightarrow> string \<Rightarrow> calendar_table \<Rightarrow> calendar_entry option \<times> calendar_table" where
  "CancelCalendarEntry now calendarID reason0 db =
     (let reason = (if reason0 = [] then ''cancel_requested'' else reason0)
      in case GetCalendarEntry calendarID db of
           None \<Rightarrow> (None, db)
         | Some existing \<Rightarrow>
             (let prov = gm_put ''cancel_reason'' (JStr reason) (ceProvenance existing);
                  db' = gm_adjust calendarID (\<lambda>row. row\<lparr>ceState := ''cancelled'', ceProvenance := prov, ceUpdatedAt := now\<rparr>) db
              in (GetCalendarEntry calendarID db', db')))"

definition last_10 :: "'a list \<Rightarrow> 'a list" where
  "last_10 history = (if 10 < length history then drop (length history - 10) history else history)"

definition UpdateCalendarRuntimeBinding :: "string \<Rightarrow> string \<Rightarrow> jobject \<Rightarrow> calendar_table \<Rightarrow>
    calendar_entry option \<times> calendar_table" where
  "UpdateCalendarRuntimeBinding now calendarID binding db = (case GetCalendarEntry calendarID db of
       None \<Rightarrow> (None, db)
     | Some existing \<Rightarrow>
         (let history = last_10 (toAnySlice (gm_get (ceProvenance existing) ''runtime_binding_history'') @ [JObj binding]);
              prov = gm_put ''runtime_binding_history'' (JArr history)
                       (gm_put ''runtime_binding'' (JObj binding) (ceProvenance existing));
              db' = gm_adjust calendarID (\<lambda>row. row\<lparr>ceProvenance := prov, ceUpdatedAt := now\<rparr>) db
          in (GetCalendarEntry calendarID db', db')))"

definition active_entries :: calendar_filter where
  "active_entries = \<lparr>cfState = Some ''active'', cfOwnerPeerID = None, cfCreatedByPeerID = None, cfCircle = None\<rparr>"

text \<open>\<open>time.Sub\<close> saturates at the range of a \<open>Duration\<close>; the float is the exact rational.\<close>

definition go_sub :: "gotime \<Rightarrow> gotime \<Rightarrow> int" where
  "go_sub t u = max (- max_int64 - 1) (min max_int64 (t - u))"

definition SecondsUntilNextDue :: "gotime \<Rightarrow> calendar_table \<Rightarrow> calendar_error + rat option" where
  "SecondsUntilNextDue now db = (case ListCalendarEntries active_entries db of
       [] \<Rightarrow> Inr None
     | e # es \<Rightarrow> (case calendarParseISO (ceNextDueAt e) of
           None \<Rightarrow> Inl (ErrParseNextDue (ceNextDueAt e))
         | Some due \<Rightarrow> (let secs = of_int (go_sub due now) / of_int second in Inr (Some (if secs < 0 then 0 else secs)))))"

section \<open>Materializing an occurrence\<close>

record calendar_store =
  csEntries :: calendar_table
  csWork :: work_table

definition prepareCalendarOccurrence :: "string \<Rightarrow> string \<Rightarrow> calendar_entry \<Rightarrow> tracked_work" where
  "prepareCalendarOccurrence now workID entry =
     (let execution = obj_at (ceRequest entry) ''execution'';
          schedule = gm_put ''cron'' (JStr (ceCron entry)) (gm_put ''calendar_id'' (JStr (CalendarID entry))
                       (gm_put ''due_at'' (JStr (ceNextDueAt entry)) (obj_at execution ''schedule'')));
          request = gm_put ''execution'' (JObj (gm_put ''schedule'' (JObj schedule) execution)) (ceRequest entry);
          provenance = [(''calendar'', JObj [(''calendar_id'', JStr (CalendarID entry)), (''cron'', JStr (ceCron entry)),
            (''scheduled_due_at'', JStr (ceNextDueAt entry))])]
      in prepareWork now workID
           \<lparr>wcTitle = ceTitle entry, wcKind = ceKind entry, wcCreatedByPeerID = ceCreatedByPeerID entry,
            wcOwnerPeerID = ceOwnerPeerID entry, wcAssignedPeerID = ceAssignedPeerID entry, wcRepowireSessionID = None,
            wcCorrelationID = None, wcCircle = ceCircle entry, wcSourceKind = Some ''calendar'',
            wcSourceID = Some (CalendarID entry), wcScope = ceScope entry, wcVisibility = ceVisibility entry,
            wcRequest = request, wcDeadlineAt = None, wcExpiresAt = None, wcProvenance = provenance\<rparr>)"

record claim =
  clID :: string
  clOld :: string
  clNext :: string
  clProv :: jobject
  clNow :: string
  clWork :: tracked_work

datatype decision = SkipEntry | FailEntry cron_error | ClaimEntry claim

definition plan_materialize :: "(string \<Rightarrow> gotime \<Rightarrow> cron_error + gotime) \<Rightarrow> gotime \<Rightarrow> string \<Rightarrow> string \<Rightarrow>
    calendar_entry option \<Rightarrow> decision" where
  "plan_materialize nextFire now nowText workID refreshed = (case refreshed of
       None \<Rightarrow> SkipEntry
     | Some e \<Rightarrow>
         if ceState e \<noteq> ''active'' then SkipEntry
         else if (case calendarParseISO (ceNextDueAt e) of None \<Rightarrow> False | Some rd \<Rightarrow> now < rd) then SkipEntry
         else (case nextFire (ceCron e) now of
             Inl err \<Rightarrow> FailEntry err
           | Inr nxt \<Rightarrow> ClaimEntry \<lparr>clID = CalendarID e, clOld = ceNextDueAt e, clNext = formatISO nxt,
               clProv = gm_put ''last_materialized_reason'' (JStr ''due'') (ceProvenance e), clNow = nowText,
               clWork = prepareCalendarOccurrence nowText workID e\<rparr>))"

definition claimed_entry :: "claim \<Rightarrow> calendar_entry \<Rightarrow> calendar_entry" where
  "claimed_entry c row =
     row\<lparr>ceNextDueAt := clNext c, ceLastOccurrenceWorkID := Some (WorkID (clWork c)),
         ceLastMaterializedAt := Some (clNow c), ceProvenance := clProv c, ceUpdatedAt := clNow c\<rparr>"

text \<open>The transaction: None when no row matched, and nothing changes unless it commits.\<close>

definition commit_claim :: "claim \<Rightarrow> calendar_store \<Rightarrow> (work_error + tracked_work option) \<times> calendar_store" where
  "commit_claim c s = (case gm_get (csEntries s) (clID c) of
       None \<Rightarrow> (Inr None, s)
     | Some row \<Rightarrow>
         if ceNextDueAt row \<noteq> clOld c \<or> ceState row \<noteq> ''active'' then (Inr None, s)
         else (case insertWork (clWork c) (csWork s) of
             (Some err, db) \<Rightarrow> (Inl err, s)
           | (None, db) \<Rightarrow>
               (Inr (Some (clWork c)),
                s\<lparr>csEntries := gm_put (clID c) (claimed_entry c row) (csEntries s), csWork := db\<rparr>)))"

text \<open>The loop; \<open>mint\<close> is the id minted for the occurrence of an entry.\<close>

fun materialize_loop :: "(string \<Rightarrow> gotime \<Rightarrow> cron_error + gotime) \<Rightarrow> gotime \<Rightarrow> string \<Rightarrow> (string \<Rightarrow> string) \<Rightarrow>
    calendar_entry list \<Rightarrow> tracked_work list \<Rightarrow> calendar_store \<Rightarrow> (calendar_error + tracked_work list) \<times> calendar_store" where
  "materialize_loop nextFire now nowText mint [] done s = (Inr done, s)"
| "materialize_loop nextFire now nowText mint (e # es) done s =
     (if (case calendarParseISO (ceNextDueAt e) of None \<Rightarrow> True | Some due \<Rightarrow> now < due)
      then materialize_loop nextFire now nowText mint es done s
      else (case plan_materialize nextFire now nowText (mint (CalendarID e)) (GetCalendarEntry (CalendarID e) (csEntries s)) of
          SkipEntry \<Rightarrow> materialize_loop nextFire now nowText mint es done s
        | FailEntry err \<Rightarrow> (Inl (ErrNextFire err), s)
        | ClaimEntry c \<Rightarrow> (case commit_claim c s of
              (Inl err, s') \<Rightarrow> (Inl (ErrInsertWork err), s')
            | (Inr None, s') \<Rightarrow> materialize_loop nextFire now nowText mint es done s'
            | (Inr (Some w), s') \<Rightarrow> materialize_loop nextFire now nowText mint es (done @ [w]) s')))"

definition MaterializeDue :: "gotime \<Rightarrow> string \<Rightarrow> (string \<Rightarrow> string) \<Rightarrow> (string \<Rightarrow> gotime \<Rightarrow> cron_error + gotime) \<Rightarrow>
    calendar_store \<Rightarrow> (calendar_error + tracked_work list) \<times> calendar_store" where
  "MaterializeDue now nowText mint nextFire s =
     materialize_loop nextFire now nowText mint (ListCalendarEntries active_entries (csEntries s)) [] s"

section \<open>Status projections\<close>

definition opt_json :: "json option \<Rightarrow> json" where
  "opt_json v = (case v of Some j \<Rightarrow> j | None \<Rightarrow> JNull)"

definition work_Status :: "tracked_work \<Rightarrow> jobject" where
  "work_Status w =
     (let execution = obj_at (twRequest w) ''execution''; schedule = obj_at execution ''schedule''
      in [(''job_id'', JStr (WorkID w)), (''work_id'', JStr (WorkID w)), (''title'', JStr (twTitle w)),
          (''kind'', JStr (twKind w)), (''state'', JStr (twState w)), (''state_reason'', str_or_null (twStateReason w)),
          (''phase'', str_or_null (twPhase w)), (''progress'', JObj (twProgress w)),
          (''progress_events'', JArr (twProgressEvents w)), (''owner_peer_id'', str_or_null (twOwnerPeerID w)),
          (''assigned_peer_id'', str_or_null (twAssignedPeerID w)),
          (''repowire_session_id'', str_or_null (twRepowireSessionID w)),
          (''correlation_id'', str_or_null (twCorrelationID w)), (''circle'', str_or_null (twCircle w)),
          (''created_by_peer_id'', str_or_null (twCreatedByPeerID w)), (''source_kind'', str_or_null (twSourceKind w)),
          (''source_id'', str_or_null (twSourceID w)), (''scope'', str_or_null (twScope w)),
          (''visibility'', JStr (twVisibility w)), (''created_at'', JStr (twCreatedAt w)),
          (''updated_at'', JStr (twUpdatedAt w)), (''deadline_at'', str_or_null (twDeadlineAt w)),
          (''expires_at'', str_or_null (twExpiresAt w)), (''result_summary'', str_or_null (twResultSummary w)),
          (''cancel_requested'', JBool (twCancelRequested w)),
          (''cancel_requested_at'', str_or_null (twCancelRequestedAt w)),
          (''cancel_requested_by_peer_id'', str_or_null (twCancelRequestedByPeerID w)),
          (''cancellation_reason'', str_or_null (twCancellationReason w)),
          (''protocol_cancel'', opt_json (gm_get (twProvenance w) ''protocol_cancel'')),
          (''request'', JObj (twRequest w)), (''provenance'', JObj (twProvenance w)), (''execution'', JObj execution),
          (''runner'', JObj (obj_at (twProvenance w) ''runner'')), (''due_at'', opt_json (gm_get schedule ''due_at'')),
          (''links'', JObj (obj_at (twProvenance w) ''links''))])"

definition Result :: "tracked_work \<Rightarrow> jobject" where
  "Result w =
     (if \<not> Terminal w
      then [(''job_id'', JStr (WorkID w)), (''work_id'', JStr (WorkID w)), (''result_state'', JStr ''not_ready''),
            (''status'', JObj (work_Status w))]
      else [(''job_id'', JStr (WorkID w)), (''work_id'', JStr (WorkID w)), (''state'', JStr (twState w)),
            (''summary'', str_or_null (twResultSummary w)), (''data'', JObj (twResultData w)),
            (''error'', JObj (twError w)), (''artifacts'', JArr (twArtifacts w)),
            (''completed_at'', str_or_null (twCompletedAt w)), (''provenance'', JObj (twProvenance w))])"

definition calendar_Status :: "calendar_entry \<Rightarrow> jobject" where
  "calendar_Status e =
     [(''calendar_id'', JStr (CalendarID e)), (''recurring_id'', JStr (CalendarID e)), (''title'', JStr (ceTitle e)),
      (''kind'', JStr (ceKind e)), (''state'', JStr (ceState e)), (''cron'', JStr (ceCron e)),
      (''next_due_at'', JStr (ceNextDueAt e)), (''owner_peer_id'', str_or_null (ceOwnerPeerID e)),
      (''assigned_peer_id'', str_or_null (ceAssignedPeerID e)), (''circle'', str_or_null (ceCircle e)),
      (''created_by_peer_id'', str_or_null (ceCreatedByPeerID e)), (''source_kind'', str_or_null (ceSourceKind e)),
      (''source_id'', str_or_null (ceSourceID e)), (''scope'', str_or_null (ceScope e)),
      (''visibility'', JStr (ceVisibility e)), (''request'', JObj (ceRequest e)), (''provenance'', JObj (ceProvenance e)),
      (''execution'', JObj (obj_at (ceRequest e) ''execution'')),
      (''last_occurrence_work_id'', str_or_null (ceLastOccurrenceWorkID e)),
      (''last_materialized_at'', str_or_null (ceLastMaterializedAt e)), (''created_at'', JStr (ceCreatedAt e)),
      (''updated_at'', JStr (ceUpdatedAt e))]"

end
