(* ===== verification/Next_Fire.thy ===== *)
theory Next_Fire
  imports Cron Iso_Parse
begin

text \<open>
  The contract between the cron search and the components that advance a recurring entry (the
  calendar of \<open>daemon-go/state\<close> and the scheduler of \<open>daemon-go/service\<close>): a next firing lies strictly
  after the given time, on a whole minute, within the year the search covers. \<open>NextFireAfter\<close> keeps it.
\<close>

locale firing =
  fixes nextFire :: "string \<Rightarrow> gotime \<Rightarrow> cron_error + gotime"
  assumes later: "nextFire expr after = Inr t \<Longrightarrow> after < t"
    and whole_minute: "nextFire expr after = Inr t \<Longrightarrow> \<exists>m. t = m * minute_ns"
    and soon: "nextFire expr after = Inr t \<Longrightarrow> t \<le> after + (year_minutes + 1) * minute_ns"

text \<open>Instants whose next firing the timestamp layout can still hold: until the end of the year 9998.\<close>

definition fire_range :: "gotime \<Rightarrow> bool" where
  "fire_range now \<longleftrightarrow> 0 \<le> now \<and> now + (year_minutes + 1) * minute_ns < 253402300800 * second"

lemma whole_minute_micros: "t = m * minute_ns \<Longrightarrow> t div 1000 * 1000 = t"
  by (simp add: minute_ns_def)

context firing
begin

lemma next_range: "fire_range now \<Longrightarrow> nextFire expr now = Inr t \<Longrightarrow> iso_range t"
  using later soon by (fastforce simp: fire_range_def iso_range_def)

lemma next_reads_back: "fire_range now \<Longrightarrow> nextFire expr now = Inr t \<Longrightarrow> parseISO (formatISO t) = Some t"
  using iso_roundtrip_aux [OF next_range] whole_minute whole_minute_micros by metis

end

lemma NextFireAfter_cases:
  assumes "NextFireAfter expr after = Inr t"
  shows "\<exists>m. t = m * minute_ns \<and> first_candidate after \<le> m \<and> m \<le> first_candidate after + year_minutes"
  using assms by (auto simp: NextFireAfter_def Let_def cron_search_Some split: sum.splits option.splits)

lemma candidate_after: "first_candidate after \<le> m \<longleftrightarrow> after < m * minute_ns"
  unfolding first_candidate_def by (rule div_succ_le_iff) (simp add: minute_ns_def)

lemma candidate_within: "m \<le> first_candidate after + year_minutes \<Longrightarrow> m * minute_ns \<le> after + (year_minutes + 1) * minute_ns"
proof -
  assume "m \<le> first_candidate after + year_minutes"
  then have "m * minute_ns \<le> (first_candidate after + year_minutes) * minute_ns"
    by (intro mult_right_mono) (simp_all add: minute_ns_def)
  also have "\<dots> \<le> after + (year_minutes + 1) * minute_ns"
    by (simp add: first_candidate_def algebra_simps minute_ns_def)
  finally show ?thesis .
qed

interpretation cron: firing NextFireAfter
  by unfold_locales (auto dest!: NextFireAfter_cases simp: candidate_after candidate_within)

end
