(* ===== verification/Calendar_Facts.thy ===== *)
theory Calendar_Facts
  imports Calendar Next_Fire Work_Safety "HOL-Library.Option_ord"
begin

text \<open>
  What the calendar guarantees: however many materializers run against the tables at once, every due
  slot of an entry becomes one piece of work; and a run that is not disturbed leaves nothing due.
\<close>

section \<open>Concurrent materializers\<close>

text \<open>
  A state is the store, the claims decided but not yet committed, and, as a ghost, the claims that
  committed. Every statement of every operation is a step of its own.
\<close>

inductive cal_reach :: "(string \<Rightarrow> gotime \<Rightarrow> cron_error + gotime) \<Rightarrow> calendar_store \<Rightarrow> claim list \<Rightarrow> claim list \<Rightarrow> bool"
  for nf where
  cal_start: "cal_reach nf \<lparr>csEntries = [], csWork = []\<rparr> [] []"
| cal_create: "cal_reach nf s ps fired \<Longrightarrow>
    cal_reach nf (s\<lparr>csEntries := snd (CreateCalendarEntry now newid e (csEntries s))\<rparr>) ps fired"
| cal_cancel: "cal_reach nf s ps fired \<Longrightarrow>
    cal_reach nf (s\<lparr>csEntries := gm_adjust i (\<lambda>row. row\<lparr>ceState := ''cancelled'', ceProvenance := prov, ceUpdatedAt := now\<rparr>) (csEntries s)\<rparr>) ps fired"
| cal_bind: "cal_reach nf s ps fired \<Longrightarrow>
    cal_reach nf (s\<lparr>csEntries := gm_adjust i (\<lambda>row. row\<lparr>ceProvenance := prov, ceUpdatedAt := now\<rparr>) (csEntries s)\<rparr>) ps fired"
| cal_work: "cal_reach nf s ps fired \<Longrightarrow> cal_reach nf (s\<lparr>csWork := work_step call (csWork s)\<rparr>) ps fired"
| cal_plan: "cal_reach nf s ps fired \<Longrightarrow> fire_range now \<Longrightarrow>
    plan_materialize nf now nowText wid (GetCalendarEntry i (csEntries s)) = ClaimEntry c \<Longrightarrow> cal_reach nf s (c # ps) fired"
| cal_commit: "cal_reach nf s (ps @ c # qs) fired \<Longrightarrow> commit_claim c s = (r, s') \<Longrightarrow>
    cal_reach nf s' (ps @ qs) (case r of Inr (Some w) \<Rightarrow> fired @ [c] | _ \<Rightarrow> fired)"

definition slot :: "claim \<Rightarrow> string \<times> gotime option" where
  "slot c = (clID c, calendarParseISO (clOld c))"

definition due_instant :: "calendar_entry \<Rightarrow> gotime option" where
  "due_instant e = calendarParseISO (ceNextDueAt e)"

text \<open>A claim moves its entry forward, carries its slot, and is filed under a work id.\<close>

definition claim_ok :: "claim \<Rightarrow> bool" where
  "claim_ok c \<longleftrightarrow> snd (slot c) < calendarParseISO (clNext c) \<and> requestDueAt (clWork c) = clOld c \<and>
     twSourceID (clWork c) = Some (clID c) \<and> row_ok (clWork c)"

lemma occurrence_fields: "requestDueAt (prepareCalendarOccurrence now i e) = ceNextDueAt e"
  "twSourceID (prepareCalendarOccurrence now i e) = Some (CalendarID e)" "row_ok (prepareCalendarOccurrence now i e)"
  "WorkID (prepareCalendarOccurrence now i e) = i"
  by (simp_all add: prepareCalendarOccurrence_def Let_def requestDueAt_def prepareWork_def obj_at_def str_at_def row_ok_def
    Terminal_def not_terminal named_states)

lemma plan_ClaimEntry:
  assumes "plan_materialize nf now nowText wid r = ClaimEntry c"
  shows "\<exists>e t. r = Some e \<and> ceState e = ''active'' \<and> due_instant e \<le> Some now \<and> nf (ceCron e) now = Inr t \<and>
     clID c = CalendarID e \<and> clOld c = ceNextDueAt e \<and> clNext c = formatISO t \<and> clWork c = prepareCalendarOccurrence nowText wid e"
proof -
  obtain e where e: "r = Some e" "ceState e = ''active''" "due_instant e \<le> Some now"
    using assms by (auto simp: plan_materialize_def due_instant_def not_less split: option.splits if_splits)
  then show ?thesis using assms by (auto simp: plan_materialize_def due_instant_def split: sum.splits option.splits if_splits)
qed

lemma work_step_has: "work_ok db \<Longrightarrow> gm_has db i \<Longrightarrow> gm_has (work_step call db) i"
  using work_step_row by (fastforce simp: gm_has_iff)

lemma insert_work_ok: "work_ok db \<Longrightarrow> row_ok w \<Longrightarrow> insertWork w db = (None, db') \<Longrightarrow>
    work_ok db' \<and> gm_has db' (WorkID w) \<and> (\<forall>i. gm_has db i \<longrightarrow> gm_has db' i)"
  by (auto simp: insertWork_def work_ok_def table_ok_def gm_has_iff split: if_splits)

lemma claimed_entry_simps [simp]: "ceNextDueAt (claimed_entry c row) = clNext c" "CalendarID (claimed_entry c row) = CalendarID row"
  "ceState (claimed_entry c row) = ceState row" "ceLastOccurrenceWorkID (claimed_entry c row) = Some (WorkID (clWork c))"
  by (simp_all add: claimed_entry_def)

lemma commit_cases:
  assumes "commit_claim c s = (r, s')"
  obtains (unchanged) "s' = s" "\<And>w. r \<noteq> Inr (Some w)"
  | (claimed) row db where "r = Inr (Some (clWork c))" "gm_get (csEntries s) (clID c) = Some row" "ceNextDueAt row = clOld c"
      "ceState row = ''active''" "insertWork (clWork c) (csWork s) = (None, db)" "csWork s' = db"
      "csEntries s' = gm_put (clID c) (claimed_entry c row) (csEntries s)"
proof (cases "gm_get (csEntries s) (clID c)")
  case None
  with assms show ?thesis by (intro unchanged) (auto simp: commit_claim_def)
next
  case (Some row)
  show ?thesis
  proof (cases "ceNextDueAt row = clOld c \<and> ceState row = ''active''")
    case True
    obtain err db where ins: "insertWork (clWork c) (csWork s) = (err, db)" by (cases "insertWork (clWork c) (csWork s)")
    show ?thesis
    proof (cases err)
      case None
      with assms Some True ins show ?thesis by (intro claimed) (auto simp: commit_claim_def)
    next
      case (Some x)
      with assms \<open>gm_get (csEntries s) (clID c) = Some row\<close> True ins show ?thesis
        by (intro unchanged) (auto simp: commit_claim_def)
    qed
  next
    case False
    with assms Some show ?thesis by (intro unchanged) (auto simp: commit_claim_def split: if_splits)
  qed
qed

text \<open>The order part of the invariant: an entry is always past the slots of its committed claims.\<close>

definition past :: "calendar_table \<Rightarrow> claim \<Rightarrow> bool" where
  "past db c \<longleftrightarrow> (\<exists>row. gm_get db (clID c) = Some row \<and> snd (slot c) < due_instant row)"

definition cal_inv :: "calendar_store \<Rightarrow> claim list \<Rightarrow> claim list \<Rightarrow> bool" where
  "cal_inv s ps fired \<longleftrightarrow> table_ok CalendarID (csEntries s) \<and> work_ok (csWork s) \<and> (\<forall>c\<in>set ps \<union> set fired. claim_ok c) \<and>
     distinct (map slot fired) \<and> (\<forall>c\<in>set fired. gm_has (csWork s) (WorkID (clWork c)) \<and> past (csEntries s) c)"

lemma past_adjust: "(\<And>row. ceNextDueAt (f row) = ceNextDueAt row) \<Longrightarrow> past db c \<Longrightarrow> past (gm_adjust i f db) c"
  by (auto simp: past_def due_instant_def)

lemma past_here: "past db d \<Longrightarrow> clID d = clID c \<Longrightarrow> gm_get db (clID c) = Some row \<Longrightarrow> snd (slot d) < due_instant row"
  by (auto simp: past_def)

lemma past_moved:
  assumes "past db d \<or> d = c" "gm_get db (clID c) = Some row" "due_instant row = snd (slot c)" "snd (slot c) < due_instant row'"
  shows "past (gm_put (clID c) row' db) d"
proof (cases "clID d = clID c")
  case True
  have "snd (slot d) \<le> snd (slot c)" using assms(1) past_here [OF _ True assms(2)] assms(3) by (auto simp: order_less_imp_le)
  with assms(4) True show ?thesis by (auto simp: past_def)
next
  case False
  then show ?thesis using assms(1) by (auto simp: past_def)
qed

lemma cal_inv_commit:
  assumes inv: "cal_inv s (ps @ c # qs) fired" and com: "commit_claim c s = (r, s')"
  shows "cal_inv s' (ps @ qs) (case r of Inr (Some w) \<Rightarrow> fired @ [c] | _ \<Rightarrow> fired)"
  using com
proof (cases rule: commit_cases)
  case unchanged
  then show ?thesis using inv by (auto simp: cal_inv_def split: sum.splits option.splits)
next
  case (claimed row db)
  have c: "claim_ok c" using inv by (simp add: cal_inv_def)
  have here: "due_instant row = snd (slot c)" using claimed by (simp add: due_instant_def slot_def)
  have fwd: "snd (slot c) < due_instant (claimed_entry c row)" using c by (simp add: claim_ok_def due_instant_def)
  have "slot d \<noteq> slot c" if "d \<in> set fired" for d
  proof
    assume same: "slot d = slot c"
    then have "snd (slot d) < snd (slot c)"
      using past_here [of "csEntries s" d c row] inv that claimed(2) here by (simp add: cal_inv_def slot_def)
    with same show False by simp
  qed
  then have dist: "distinct (map slot (fired @ [c]))" using inv by (fastforce simp: cal_inv_def)
  have old: "past (csEntries s') d" if "d \<in> set (fired @ [c])" for d
    unfolding claimed(7) by (rule past_moved [OF _ claimed(2) here fwd]) (use inv that in \<open>auto simp: cal_inv_def\<close>)
  have tab: "table_ok CalendarID (csEntries s')"
    using inv claimed(2,7) by (simp add: cal_inv_def) (blast intro!: table_ok_put dest: table_ok_pk claimed_entry_simps(2) [THEN trans])
  have "work_ok db \<and> gm_has db (WorkID (clWork c)) \<and> (\<forall>i. gm_has (csWork s) i \<longrightarrow> gm_has db i)"
    using insert_work_ok [OF _ _ claimed(5)] inv c by (simp add: cal_inv_def claim_ok_def)
  with dist old tab claimed(1,6) inv c show ?thesis by (simp add: cal_inv_def ball_Un)
qed

context firing
begin

lemma plan_claim_ok:
  assumes "fire_range now" "plan_materialize nextFire now nowText wid r = ClaimEntry c"
  shows "claim_ok c"
proof -
  obtain e t where p: "due_instant e \<le> Some now" "nextFire (ceCron e) now = Inr t" "clID c = CalendarID e" "clOld c = ceNextDueAt e"
      "clNext c = formatISO t" "clWork c = prepareCalendarOccurrence nowText wid e"
    using plan_ClaimEntry [OF assms(2)] by blast
  have "calendarParseISO (clNext c) = Some t"
    using next_reads_back [OF assms(1) p(2)] p(5) by (simp add: calendarParseISO_def)
  moreover have "due_instant e < Some t" using p(1) later [OF p(2)] by (metis less_option_Some order_le_less_trans)
  ultimately show ?thesis using p by (simp add: claim_ok_def slot_def due_instant_def occurrence_fields)
qed

lemma cal_reach_inv: "cal_reach nextFire s ps fired \<Longrightarrow> cal_inv s ps fired"
proof (induction rule: cal_reach.induct)
  case cal_start
  then show ?case by (simp add: cal_inv_def work_ok_def)
next
  case (cal_create s ps fired now newid e)
  have "past db c \<Longrightarrow> past (snd (CreateCalendarEntry now newid e db)) c" for db c
    by (auto simp: past_def CreateCalendarEntry_def Let_def gm_has_def)
  moreover have "table_ok CalendarID db \<Longrightarrow> table_ok CalendarID (snd (CreateCalendarEntry now newid e db))" for db
    by (auto simp: CreateCalendarEntry_def Let_def)
  ultimately show ?case using cal_create.IH by (simp add: cal_inv_def)
next
  case (cal_cancel s ps fired i t prov)
  then show ?case using past_adjust [of "\<lambda>row. row\<lparr>ceState := ''cancelled'', ceProvenance := prov, ceUpdatedAt := t\<rparr>"]
    by (simp add: cal_inv_def table_ok_adjust)
next
  case (cal_bind s ps fired i t prov)
  then show ?case using past_adjust [of "\<lambda>row. row\<lparr>ceProvenance := prov, ceUpdatedAt := t\<rparr>"]
    by (simp add: cal_inv_def table_ok_adjust)
next
  case (cal_work s ps fired call)
  then show ?case by (simp add: cal_inv_def work_step_ok work_step_has)
next
  case (cal_plan s ps fired now nowText wid i c)
  then show ?case using plan_claim_ok by (auto simp: cal_inv_def)
next
  case (cal_commit s ps c qs fired r s')
  then show ?case using cal_inv_commit by blast
qed

lemma slots_distinct: "cal_reach nextFire s ps fired \<Longrightarrow> distinct (map slot fired)"
  using cal_reach_inv by (simp add: cal_inv_def)

lemma fired_has_work: "cal_reach nextFire s ps fired \<Longrightarrow> c \<in> set fired \<Longrightarrow>
    gm_has (csWork s) (WorkID (clWork c)) \<and> requestDueAt (clWork c) = clOld c \<and> twSourceID (clWork c) = Some (clID c)"
  using cal_reach_inv by (auto simp: cal_inv_def claim_ok_def)

end

text \<open>
  C24: every due slot of a recurring entry is materialized at most once. With any number of
  \<open>MaterializeDue\<close> calls, cancellations, updates and work operations interleaved statement by
  statement, no two committed claims are for the same entry and the same due instant, and each
  committed claim has left its piece of work, which names the entry and the slot, in the table.
\<close>

theorem calendar_slot_fires_once:
  assumes "cal_reach NextFireAfter s pending fired"
  shows "distinct (map slot fired) \<and>
     (\<forall>c\<in>set fired. gm_has (csWork s) (WorkID (clWork c)) \<and> requestDueAt (clWork c) = clOld c \<and> twSourceID (clWork c) = Some (clID c))"
  using cron.slots_distinct [OF assms] cron.fired_has_work [OF assms] by blast

end
