(* ===== verification/Calendar_Run.thy ===== *)
theory Calendar_Run
  imports Calendar_Facts Cron_Facts
begin

text \<open>
  One undisturbed run of \<open>MaterializeDue\<close> against its specification: every due entry is advanced and
  materialized, every other one is left alone, nothing is due afterwards. And the entry that stops
  all others: one whose cron expression has no next firing.
\<close>

section \<open>Specification\<close>

definition due_now :: "gotime \<Rightarrow> calendar_entry \<Rightarrow> bool" where
  "due_now now e \<longleftrightarrow> ceState e = ''active'' \<and> (case due_instant e of Some due \<Rightarrow> due \<le> now | None \<Rightarrow> False)"

text \<open>The row after a run, as a function of the row before it.\<close>

definition advance :: "(string \<Rightarrow> gotime \<Rightarrow> cron_error + gotime) \<Rightarrow> gotime \<Rightarrow> string \<Rightarrow> (string \<Rightarrow> string) \<Rightarrow> calendar_entry \<Rightarrow> calendar_entry" where
  "advance nf now nowText mint e =
     (if due_now now e
      then (case nf (ceCron e) now of
          Inl err \<Rightarrow> e
        | Inr t \<Rightarrow> e\<lparr>ceNextDueAt := formatISO t, ceLastOccurrenceWorkID := Some (mint (CalendarID e)),
            ceLastMaterializedAt := Some nowText,
            ceProvenance := gm_put ''last_materialized_reason'' (JStr ''due'') (ceProvenance e), ceUpdatedAt := nowText\<rparr>)
      else e)"

definition occurrence :: "string \<Rightarrow> (string \<Rightarrow> string) \<Rightarrow> calendar_entry \<Rightarrow> tracked_work" where
  "occurrence nowText mint e = prepareCalendarOccurrence nowText (mint (CalendarID e)) e"

lemma WorkID_occurrence [simp]: "WorkID (occurrence nowText mint e) = mint (CalendarID e)"
  by (simp add: occurrence_def occurrence_fields)

lemma not_due_skip: "ceState e = ''active'' \<Longrightarrow> \<not> due_now now e \<longleftrightarrow> (case calendarParseISO (ceNextDueAt e) of None \<Rightarrow> True | Some due \<Rightarrow> now < due)"
  by (auto simp: due_now_def due_instant_def split: option.splits)

text \<open>A due entry that is still as listed is claimed with its specified row and work.\<close>

lemma plan_due:
  assumes "due_now now e" "nf (ceCron e) now = Inr t"
  shows "\<exists>c. plan_materialize nf now nowText (mint (CalendarID e)) (Some e) = ClaimEntry c \<and> clID c = CalendarID e \<and>
     clOld c = ceNextDueAt e \<and> clWork c = occurrence nowText mint e \<and> claimed_entry c e = advance nf now nowText mint e"
  using assms by (auto simp: plan_materialize_def due_now_def due_instant_def advance_def claimed_entry_def occurrence_def
    occurrence_fields split: option.splits)

lemma commit_due:
  assumes "gm_get (csEntries s) (clID c) = Some e" "clOld c = ceNextDueAt e" "ceState e = ''active''" "\<not> gm_has (csWork s) (WorkID (clWork c))"
  shows "commit_claim c s = (Inr (Some (clWork c)), s\<lparr>csEntries := gm_put (clID c) (claimed_entry c e) (csEntries s),
     csWork := gm_put (WorkID (clWork c)) (clWork c) (csWork s)\<rparr>)"
  using assms by (simp add: commit_claim_def insertWork_def)

lemma loop_step:
  assumes "gm_get (csEntries s) (CalendarID e) = Some e" "due_now now e" "nf (ceCron e) now = Inr t" "\<not> gm_has (csWork s) (mint (CalendarID e))"
  shows "materialize_loop nf now nowText mint (e # es) done s =
     materialize_loop nf now nowText mint es (done @ [occurrence nowText mint e])
       (s\<lparr>csEntries := gm_put (CalendarID e) (advance nf now nowText mint e) (csEntries s),
          csWork := gm_put (mint (CalendarID e)) (occurrence nowText mint e) (csWork s)\<rparr>)"
proof -
  obtain c where c: "plan_materialize nf now nowText (mint (CalendarID e)) (Some e) = ClaimEntry c" "clID c = CalendarID e"
     "clOld c = ceNextDueAt e" "clWork c = occurrence nowText mint e" "claimed_entry c e = advance nf now nowText mint e"
    using plan_due [of now e nf t nowText mint] assms(2,3) by blast
  have active: "ceState e = ''active''" using assms(2) by (simp add: due_now_def)
  have "commit_claim c s = (Inr (Some (clWork c)), s\<lparr>csEntries := gm_put (clID c) (claimed_entry c e) (csEntries s),
     csWork := gm_put (WorkID (clWork c)) (clWork c) (csWork s)\<rparr>)"
    by (rule commit_due) (use assms c active in simp_all)
  then show ?thesis using assms(1,2) not_due_skip [OF active, of now] c
    by (simp add: GetCalendarEntry_def split: option.splits)
qed

lemma loop_skip: "ceState e = ''active'' \<Longrightarrow> \<not> due_now now e \<Longrightarrow>
    materialize_loop nf now nowText mint (e # es) done s = materialize_loop nf now nowText mint es done s"
  using not_due_skip [of e now] by (simp split: option.splits)

lemma loop_runs:
  assumes "distinct (map CalendarID es)" "\<And>e. e \<in> set es \<Longrightarrow> gm_get (csEntries s) (CalendarID e) = Some e \<and> ceState e = ''active''"
    "\<And>e. e \<in> set es \<Longrightarrow> due_now now e \<Longrightarrow> \<exists>t. nf (ceCron e) now = Inr t" "inj mint"
    "\<And>e. e \<in> set es \<Longrightarrow> \<not> gm_has (csWork s) (mint (CalendarID e))"
  shows "\<exists>s'. materialize_loop nf now nowText mint es done s = (Inr (done @ map (occurrence nowText mint) (filter (due_now now) es)), s') \<and>
     (\<forall>i. gm_get (csEntries s') i = (if i \<in> CalendarID ` set es then map_option (advance nf now nowText mint) else id) (gm_get (csEntries s) i)) \<and>
     (\<forall>j. gm_get (csWork s') j = (case map_of (map (\<lambda>e. (mint (CalendarID e), occurrence nowText mint e)) (filter (due_now now) es)) j of
        Some w \<Rightarrow> Some w | None \<Rightarrow> gm_get (csWork s) j))"
  using assms
proof (induction es arbitrary: s "done")
  case (Cons e es)
  have e: "gm_get (csEntries s) (CalendarID e) = Some e" "ceState e = ''active''" "\<not> gm_has (csWork s) (mint (CalendarID e))"
    using Cons.prems by auto
  show ?case
  proof (cases "due_now now e")
    case False
    then have adv: "advance nf now nowText mint e = e" by (simp add: advance_def)
    obtain s' where s': "materialize_loop nf now nowText mint es done s = (Inr (done @ map (occurrence nowText mint) (filter (due_now now) es)), s')"
      "\<forall>i. gm_get (csEntries s') i = (if i \<in> CalendarID ` set es then map_option (advance nf now nowText mint) else id) (gm_get (csEntries s) i)"
      "\<forall>j. gm_get (csWork s') j = (case map_of (map (\<lambda>e. (mint (CalendarID e), occurrence nowText mint e)) (filter (due_now now) es)) j of
        Some w \<Rightarrow> Some w | None \<Rightarrow> gm_get (csWork s) j)"
      using Cons.IH [of s "done"] Cons.prems by auto
    show ?thesis
      by (intro exI [of _ s']) (use s' loop_skip [OF e(2) False] e adv False in auto)
  next
    case True
    then obtain t where t: "nf (ceCron e) now = Inr t" using Cons.prems(3) by auto
    let ?s = "s\<lparr>csEntries := gm_put (CalendarID e) (advance nf now nowText mint e) (csEntries s),
      csWork := gm_put (mint (CalendarID e)) (occurrence nowText mint e) (csWork s)\<rparr>"
    have other: "CalendarID d \<noteq> CalendarID e" if "d \<in> set es" for d using that Cons.prems(1) by (auto simp: image_iff)
    obtain s' where s': "materialize_loop nf now nowText mint es (done @ [occurrence nowText mint e]) ?s =
        (Inr ((done @ [occurrence nowText mint e]) @ map (occurrence nowText mint) (filter (due_now now) es)), s')"
      "\<forall>i. gm_get (csEntries s') i = (if i \<in> CalendarID ` set es then map_option (advance nf now nowText mint) else id) (gm_get (csEntries ?s) i)"
      "\<forall>j. gm_get (csWork s') j = (case map_of (map (\<lambda>e. (mint (CalendarID e), occurrence nowText mint e)) (filter (due_now now) es)) j of
        Some w \<Rightarrow> Some w | None \<Rightarrow> gm_get (csWork ?s) j)"
      using Cons.IH [of ?s "done @ [occurrence nowText mint e]"] Cons.prems other
      by (auto simp: gm_has_def inj_eq)
    have notin: "CalendarID e \<notin> CalendarID ` set es" using Cons.prems(1) by simp
    have fresh: "map_of (map (\<lambda>e. (mint (CalendarID e), occurrence nowText mint e)) (filter (due_now now) es)) (mint (CalendarID e)) = None"
      using notin Cons.prems(4) by (auto simp: map_of_eq_None_iff inj_eq)
    show ?thesis
      by (intro exI [of _ s']) (use s' loop_step [of s e now nf t mint nowText, OF e(1) True t e(3)] e notin fresh True in \<open>auto split: option.splits\<close>)
  qed
qed auto

context firing
begin

lemma materialize_due_run:
  assumes tab: "table_ok CalendarID (csEntries s)" and now: "fire_range now" and mint: "inj mint" "\<And>i. \<not> gm_has (csWork s) (mint i)"
    and crons: "\<And>i e. gm_get (csEntries s) i = Some e \<Longrightarrow> due_now now e \<Longrightarrow> \<exists>t. nextFire (ceCron e) now = Inr t"
  shows "\<exists>works s'. MaterializeDue now nowText mint nextFire s = (Inr works, s') \<and>
     (\<forall>i. gm_get (csEntries s') i = map_option (advance nextFire now nowText mint) (gm_get (csEntries s) i)) \<and>
     set works = {occurrence nowText mint e | e i. gm_get (csEntries s) i = Some e \<and> due_now now e} \<and>
     (\<forall>w\<in>set works. gm_get (csWork s') (WorkID w) = Some w) \<and>
     (\<forall>i e. gm_get (csEntries s') i = Some e \<longrightarrow> \<not> due_now now e)"
proof -
  let ?es = "ListCalendarEntries active_entries (csEntries s)"
  let ?due = "filter (due_now now) ?es" and ?adv = "advance nextFire now nowText mint" and ?occ = "occurrence nowText mint"
  have es: "e \<in> set ?es \<longleftrightarrow> ceState e = ''active'' \<and> gm_get (csEntries s) (CalendarID e) = Some e" for e
    by (simp add: ListCalendarEntries_def rows_where_pk [OF tab] entry_matches_def active_entries_def opt_matches_def)
  have dist: "distinct (map CalendarID ?es)"
    by (simp add: ListCalendarEntries_def distinct_map_sort_key distinct_rows_where [OF tab])
  have listed: "gm_get (csEntries s) i = Some e \<and> due_now now e \<longleftrightarrow> e \<in> set ?due \<and> CalendarID e = i" for i e
    using table_ok_pk [OF tab] es by (auto simp: due_now_def)
  obtain s' where s': "materialize_loop nextFire now nowText mint ?es [] s = (Inr ([] @ map ?occ ?due), s')"
    "\<forall>i. gm_get (csEntries s') i = (if i \<in> CalendarID ` set ?es then map_option ?adv else id) (gm_get (csEntries s) i)"
    "\<forall>j. gm_get (csWork s') j = (case map_of (map (\<lambda>e. (mint (CalendarID e), ?occ e)) ?due) j of
        Some w \<Rightarrow> Some w | None \<Rightarrow> gm_get (csWork s) j)"
    using loop_runs [of ?es s now nextFire mint nowText "[]"] dist es crons mint by blast
  have rows: "gm_get (csEntries s') i = map_option ?adv (gm_get (csEntries s) i)" for i
  proof (cases "gm_get (csEntries s) i")
    case (Some e)
    have "e \<in> set ?es \<and> CalendarID e = i \<or> ceState e \<noteq> ''active''" using Some es table_ok_pk [OF tab] by auto
    then show ?thesis using Some s'(2) by (auto simp: advance_def due_now_def)
  qed (use s'(2) in auto)
  have "\<not> due_now now (?adv e)" if row: "gm_get (csEntries s) i = Some e" for i e
  proof (cases "due_now now e")
    case True
    then obtain t where t: "nextFire (ceCron e) now = Inr t" using crons [OF row True] by blast
    have "due_instant (?adv e) = Some t"
      using t True next_reads_back [OF now t] by (simp add: advance_def due_instant_def calendarParseISO_def)
    then show ?thesis using later [OF t] by (simp add: due_now_def)
  qed (simp add: advance_def)
  then have none_due: "\<forall>i e. gm_get (csEntries s') i = Some e \<longrightarrow> \<not> due_now now e" using rows by auto
  have "distinct (map CalendarID ?due)" using dist by (rule distinct_map_filter)
  then have keys: "distinct (map fst (map (\<lambda>e. (mint (CalendarID e), ?occ e)) ?due))"
    using mint(1) by (simp add: distinct_map inj_on_def inj_def comp_def)
  have works: "gm_get (csWork s') (WorkID w) = Some w" if "w \<in> set (map ?occ ?due)" for w
  proof -
    from that obtain e where e: "e \<in> set ?due" "w = ?occ e" by auto
    then have "map_of (map (\<lambda>e. (mint (CalendarID e), ?occ e)) ?due) (mint (CalendarID e)) = Some w"
      by (subst map_of_eq_Some_iff [OF keys]) auto
    with s'(3) e show ?thesis by simp
  qed
  show ?thesis
    by (intro exI [of _ "map ?occ ?due"] exI [of _ s'] conjI) (use s'(1) rows works none_due listed in \<open>auto simp: MaterializeDue_def image_iff\<close>)
qed

end

text \<open>
  C27: an undisturbed run does exactly what is due. If every due entry has a next firing and the minted
  ids are fresh, \<open>MaterializeDue\<close> succeeds; every entry becomes its row under the specification
  \<open>advance\<close>, which moves the due ones past now and leaves the others as they are; the works
  returned, one for each due entry, are in the table; and no entry is due any more.
\<close>

theorem materialize_due_exact:
  assumes "table_ok CalendarID (csEntries s)" "fire_range now" "inj mint" "\<forall>i. \<not> gm_has (csWork s) (mint i)"
    "\<forall>i e. gm_get (csEntries s) i = Some e \<longrightarrow> due_now now e \<longrightarrow> (\<exists>t. NextFireAfter (ceCron e) now = Inr t)"
  shows "\<exists>works s'. MaterializeDue now nowText mint NextFireAfter s = (Inr works, s') \<and>
     (\<forall>i. gm_get (csEntries s') i = map_option (advance NextFireAfter now nowText mint) (gm_get (csEntries s) i)) \<and>
     set works = {occurrence nowText mint e | e i. gm_get (csEntries s) i = Some e \<and> due_now now e} \<and>
     (\<forall>w\<in>set works. gm_get (csWork s') (WorkID w) = Some w) \<and>
     (\<forall>i e. gm_get (csEntries s') i = Some e \<longrightarrow> \<not> due_now now e)"
  by (rule cron.materialize_due_run) (use assms in auto)

text \<open>
  One entry without a next firing stops all the others. When the first due entry in the order of
  the list has a cron expression the search finds nothing for, \<open>MaterializeDue\<close> fails and changes
  nothing, however many entries behind it are due; the same happens at every later run.
\<close>

theorem stuck_entry_blocks_calendar:
  assumes "ListCalendarEntries active_entries (csEntries s) = undue @ e # others" "\<forall>d\<in>set undue. \<not> due_now now d"
    "table_ok CalendarID (csEntries s)" "due_now now e" "nextFire (ceCron e) now = Inl err"
  shows "MaterializeDue now nowText mint nextFire s = (Inl (ErrNextFire err), s)"
proof -
  have listed: "d \<in> set (undue @ e # others) \<Longrightarrow> ceState d = ''active'' \<and> gm_get (csEntries s) (CalendarID d) = Some d" for d
    using assms(1) by (simp add: ListCalendarEntries_def rows_where_pk [OF assms(3)] entry_matches_def active_entries_def opt_matches_def
        flip: assms(1))
  have fails: "materialize_loop nextFire now nowText mint (e # others) [] s = (Inl (ErrNextFire err), s)"
    using listed [of e] assms(4,5)
    by (auto simp: GetCalendarEntry_def plan_materialize_def due_now_def due_instant_def split: option.splits)
  have "\<forall>d\<in>set undue. ceState d = ''active'' \<and> \<not> due_now now d" using listed assms(2) by auto
  then have "materialize_loop nextFire now nowText mint (undue @ e # others) [] s = materialize_loop nextFire now nowText mint (e # others) [] s"
    by (induction undue) (use loop_skip in auto)
  then show ?thesis using assms(1) fails by (simp add: MaterializeDue_def)
qed

section \<open>Concrete runs\<close>

definition sample_entry :: "string \<Rightarrow> string \<Rightarrow> gotime \<Rightarrow> calendar_entry" where
  "sample_entry i expr due = \<lparr>CalendarID = i, ceTitle = ''digest'', ceKind = [], ceState = ''active'', ceCron = expr,
     ceNextDueAt = formatISO due, ceVisibility = ''circle'', ceOwnerPeerID = None, ceAssignedPeerID = None, ceCircle = None,
     ceCreatedByPeerID = None, ceSourceKind = None, ceSourceID = None, ceScope = None, ceRequest = [], ceProvenance = [],
     ceLastOccurrenceWorkID = None, ceLastMaterializedAt = None, ceCreatedAt = [], ceUpdatedAt = []\<rparr>"

lemma sample_entry_simps [simp]: "CalendarID (sample_entry i expr due) = i" "ceState (sample_entry i expr due) = ''active''"
  "ceCron (sample_entry i expr due) = expr" "ceNextDueAt (sample_entry i expr due) = formatISO due"
  by (simp_all add: sample_entry_def)

lemma sample_entry_due: "iso_range due \<Longrightarrow> due div 1000 * 1000 = due \<Longrightarrow> due_instant (sample_entry i expr due) = Some due"
  by (simp add: due_instant_def calendarParseISO_def iso_roundtrip_aux)

abbreviation quarterly :: string where
  "quarterly \<equiv> ''*/15 * * * *''"

lemma quarterly_due: "due_now 0 (sample_entry ''cal-1'' quarterly 0)"
  using sample_entry_due [of 0] by (simp add: due_now_def iso_range_def)

lemma epoch_range: "fire_range 0"
  by (simp add: fire_range_def year_minutes_def minute_ns_def)

definition sample_store :: calendar_store where
  "sample_store = \<lparr>csEntries = [(''cal-1'', sample_entry ''cal-1'' quarterly 0)], csWork = []\<rparr>"

lemma sample_store_get: "gm_get (csEntries sample_store) i = Some e \<longleftrightarrow> i = ''cal-1'' \<and> e = sample_entry ''cal-1'' quarterly 0"
  by (auto simp: sample_store_def gm_get_Cons)

lemma materialize_due_exact_witness:
  "\<exists>works s' e. MaterializeDue 0 ''t'' ((@) ''w-'') NextFireAfter sample_store = (Inr works, s') \<and>
     gm_get (csEntries s') ''cal-1'' = Some e \<and> ceNextDueAt e = formatISO 900000000000 \<and>
     occurrence ''t'' ((@) ''w-'') (sample_entry ''cal-1'' quarterly 0) \<in> set works"
proof -
  let ?e = "sample_entry ''cal-1'' quarterly 0"
  have tab: "table_ok CalendarID (csEntries sample_store)"
    by (auto simp: table_ok_def sample_store_def gm_ok_def gm_get_Cons)
  obtain works s' where run: "MaterializeDue 0 ''t'' ((@) ''w-'') NextFireAfter sample_store = (Inr works, s')"
    "gm_get (csEntries s') ''cal-1'' = map_option (advance NextFireAfter 0 ''t'' ((@) ''w-'')) (gm_get (csEntries sample_store) ''cal-1'')"
    "occurrence ''t'' ((@) ''w-'') ?e \<in> set works"
    using materialize_due_exact [OF tab epoch_range, of "(@) ''w-''" "''t''"] quarter_hour_fires quarterly_due
    by (auto simp: inj_def sample_store_get gm_has_def sample_store_def [THEN arg_cong, of csWork])
  have "gm_get (csEntries s') ''cal-1'' = Some (advance NextFireAfter 0 ''t'' ((@) ''w-'') ?e)"
    using run(2) sample_store_get [of "''cal-1''" ?e] by simp
  moreover have "ceNextDueAt (advance NextFireAfter 0 ''t'' ((@) ''w-'') ?e) = formatISO 900000000000"
    by (simp add: advance_def quarterly_due quarter_hour_fires)
  ultimately show ?thesis using run by blast
qed

text \<open>Two materializers that read the same due entry: the second claim finds the slot gone.\<close>

lemma racing_claims:
  assumes reach: "cal_reach nf s ps fired" and now: "fire_range now" and row: "gm_get (csEntries s) i = Some e" "CalendarID e = i"
    and due: "due_now now e" "nf (ceCron e) now = Inr t" "formatISO t \<noteq> ceNextDueAt e" and fresh: "\<not> gm_has (csWork s) w1" "w1 \<noteq> w2"
  shows "\<exists>c s'. cal_reach nf s' ps (fired @ [c]) \<and> clID c = i \<and> gm_has (csWork s') w1 \<and> gm_get (csWork s') w2 = gm_get (csWork s) w2"
proof -
  obtain c where c: "plan_materialize nf now ''t'' w1 (Some e) = ClaimEntry c" "clID c = i" "clOld c = ceNextDueAt e"
     "clWork c = occurrence ''t'' (\<lambda>_. w1) e" "claimed_entry c e = advance nf now ''t'' (\<lambda>_. w1) e"
    using plan_due [of now e nf t "''t''" "\<lambda>_. w1"] due(1,2) row(2) by auto
  obtain d where d: "plan_materialize nf now ''t'' w2 (Some e) = ClaimEntry d" "clID d = i" "clOld d = ceNextDueAt e"
    using plan_due [of now e nf t "''t''" "\<lambda>_. w2"] due(1,2) row(2) by auto
  have active: "ceState e = ''active''" using due(1) by (simp add: due_now_def)
  have wc: "WorkID (clWork c) = w1" by (simp add: c(4))
  let ?s = "s\<lparr>csEntries := gm_put (clID c) (claimed_entry c e) (csEntries s), csWork := gm_put w1 (clWork c) (csWork s)\<rparr>"
  have first: "commit_claim c s = (Inr (Some (clWork c)), ?s)"
    using commit_due [of s c e] row(1) c(2,3) active fresh(1) wc by simp
  have "ceNextDueAt (claimed_entry c e) \<noteq> clOld d" using due by (simp add: c(5) advance_def d(3))
  then have second: "commit_claim d ?s = (Inr None, ?s)" by (simp add: commit_claim_def c(2) d(2))
  have read: "GetCalendarEntry i (csEntries s) = Some e" using row(1) by (simp add: GetCalendarEntry_def)
  have "cal_reach nf s (d # ps) fired" by (rule cal_plan [OF reach now, of "''t''" w2 i]) (use read d(1) in simp)
  then have "cal_reach nf s (c # d # ps) fired" by (rule cal_plan [OF _ now, of nf s _ _ "''t''" w1 i]) (use read c(1) in simp)
  then have "cal_reach nf ?s (d # ps) (fired @ [c])" using cal_commit [of nf s "[]" c "d # ps" fired, OF _ first] by simp
  then have "cal_reach nf ?s ps (fired @ [c])" using cal_commit [of nf ?s "[]" d ps "fired @ [c]", OF _ second] by simp
  then show ?thesis using c(2) fresh(2) by (intro exI [of _ c] exI [of _ ?s]) (simp add: gm_has_def)
qed

lemma calendar_slot_fires_once_witness:
  "\<exists>s c. cal_reach NextFireAfter s [] [c] \<and> clID c = ''cal-1'' \<and> distinct (map slot [c]) \<and> gm_has (csWork s) (WorkID (clWork c)) \<and>
     gm_get (csWork s) ''w2'' = None"
proof -
  let ?e = "(sample_entry ''cal-1'' quarterly 0)\<lparr>ceVisibility := ''circle''\<rparr>"
  obtain s where s: "cal_reach NextFireAfter s [] []" "csWork s = []" "\<exists>e. gm_get (csEntries s) ''cal-1'' = Some e \<and> CalendarID e = ''cal-1'' \<and>
      ceState e = ''active'' \<and> ceCron e = quarterly \<and> ceNextDueAt e = formatISO 0"
    using cal_create [OF cal_start, of NextFireAfter "''t''" "''cal-1''" "sample_entry [] quarterly 0"]
    by (auto simp: CreateCalendarEntry_def Let_def gm_has_def)
  then obtain e where e: "gm_get (csEntries s) ''cal-1'' = Some e" "CalendarID e = ''cal-1''" "ceState e = ''active''"
      "ceCron e = quarterly" "ceNextDueAt e = formatISO 0"
    by blast
  have zero: "iso_range 0" by (simp add: iso_range_def)
  have "due_now 0 e" using iso_roundtrip_aux [OF zero] e by (simp add: due_now_def due_instant_def calendarParseISO_def)
  moreover have "formatISO 900000000000 \<noteq> formatISO 0"
  proof
    assume "formatISO 900000000000 = formatISO 0"
    moreover have "iso_range 900000000000" by (simp add: iso_range_def)
    ultimately show False using iso_roundtrip_aux [of 900000000000] iso_roundtrip_aux [OF zero] by simp
  qed
  moreover have "NextFireAfter (ceCron e) 0 = Inr 900000000000" using e(4) quarter_hour_fires by simp
  ultimately obtain c s' where c: "cal_reach NextFireAfter s' ([]::claim list) ([] @ [c])" "clID c = ''cal-1''" "gm_get (csWork s') ''w2'' = None"
    using racing_claims [OF s(1) epoch_range e(1,2), of 900000000000 "''w1''" "''w2''"] e(5) s(2) by (auto simp: gm_has_def)
  show ?thesis using calendar_slot_fires_once [OF c(1)] c by auto
qed

text \<open>29 February 2024, and an entry that fires on leap days only, ahead of one that fires every quarter.\<close>

definition leap_day :: gotime where
  "leap_day = 1709164800 * second"

lemma leap_day_due: "due_now leap_day (sample_entry i expr leap_day)"
  using sample_entry_due [of leap_day] by (simp add: due_now_def iso_range_def leap_day_def)

lemma stuck_entry_blocks_calendar_witness:
  "\<exists>s. s = \<lparr>csEntries = [(''cal-1'', sample_entry ''cal-1'' ''0 0 29 2 *'' leap_day), (''cal-2'', sample_entry ''cal-2'' quarterly leap_day)],
       csWork = []\<rparr> \<and>
     MaterializeDue leap_day ''t'' ((@) ''w-'') NextFireAfter s = (Inl (ErrNextFire ErrNoMatchWithinYear), s)"
proof -
  let ?a = "sample_entry ''cal-1'' ''0 0 29 2 *'' leap_day" and ?b = "sample_entry ''cal-2'' quarterly leap_day"
  let ?s = "\<lparr>csEntries = [(''cal-1'', ?a), (''cal-2'', ?b)], csWork = []\<rparr>"
  have "ListCalendarEntries active_entries (csEntries ?s) = [] @ ?a # [?b]"
    by (simp add: ListCalendarEntries_def rows_where_def entry_matches_def active_entries_def opt_matches_def due_key_def)
  moreover have "table_ok CalendarID (csEntries ?s)" by (auto simp: table_ok_def gm_ok_def gm_get_Cons)
  moreover have "NextFireAfter (ceCron ?a) leap_day = Inl ErrNoMatchWithinYear"
    using leap_day_cron_has_no_next_fire by (simp add: leap_day_def)
  ultimately have "MaterializeDue leap_day ''t'' ((@) ''w-'') NextFireAfter ?s = (Inl (ErrNextFire ErrNoMatchWithinYear), ?s)"
    using leap_day_due by (intro stuck_entry_blocks_calendar) auto
  then show ?thesis by blast
qed

end
