(* ===== verification/Schedules.thy ===== *)
theory Schedules
  imports Next_Fire Sql_Table
begin

text \<open>
  Scheduled check-ins: the table of \<open>daemon-go/state/schedules.go\<close>. Times are \<open>RFC3339Nano\<close> strings
  in UTC. The column \<open>updated_at\<close> is written and never read, so the rows leave it out.
\<close>

record schedule =
  ScheduleID :: string
  scFromPeer :: string
  scToPeer :: string
  scText :: string
  scFireAt :: string
  scKind :: string
  scCircle :: "string option"
  scCron :: "string option"
  scCreatedAt :: string

type_synonym schedule_table = "(string, schedule) gomap"

datatype schedule_error = ErrScheduleKind string | ErrFireAtUnset

definition validScheduleKinds :: "string list" where
  "validScheduleKinds = [''ask'', ''notify'']"

text \<open>\<open>INSERT OR REPLACE\<close>.\<close>

definition upsertSchedule :: "schedule \<Rightarrow> schedule_table \<Rightarrow> schedule_table" where
  "upsertSchedule sched db = gm_put (ScheduleID sched) sched db"

text \<open>The zero \<open>time.Time\<close> is the first instant of the year 1.\<close>

definition is_zero_time :: "gotime \<Rightarrow> bool" where
  "is_zero_time t \<longleftrightarrow> t = - 62135596800 * second"

definition CreateSchedule :: "gotime \<Rightarrow> string \<Rightarrow> string \<Rightarrow> string \<Rightarrow> string \<Rightarrow> gotime \<Rightarrow> string \<Rightarrow> string option \<Rightarrow> string option \<Rightarrow>
    schedule_table \<Rightarrow> (schedule_error + schedule) \<times> schedule_table" where
  "CreateSchedule now newid fromPeer toPeer txt fireAt kind0 circle cron db =
     (let kind = (if kind0 = [] then ''notify'' else kind0)
      in if kind \<notin> set validScheduleKinds then (Inl (ErrScheduleKind kind), db)
         else if is_zero_time fireAt then (Inl ErrFireAtUnset, db)
         else (let sched = \<lparr>ScheduleID = newid, scFromPeer = fromPeer, scToPeer = toPeer, scText = txt,
                     scFireAt = FormatRFC3339Nano fireAt, scKind = kind, scCircle = circle, scCron = cron,
                     scCreatedAt = FormatRFC3339Nano now\<rparr>
               in (Inr sched, upsertSchedule sched db)))"

definition GetSchedule :: "string \<Rightarrow> schedule_table \<Rightarrow> schedule option" where
  "GetSchedule scheduleID db = gm_get db scheduleID"

definition fire_key :: "schedule \<Rightarrow> dbtext" where
  "fire_key s = DBText (scFireAt s)"

definition ListSchedules :: "string option \<Rightarrow> schedule_table \<Rightarrow> schedule list" where
  "ListSchedules fromPeer db =
     sort_key fire_key (rows_where (\<lambda>s. case fromPeer of None \<Rightarrow> True | Some p \<Rightarrow> scFromPeer s = p) db)"

definition NextDueSchedule :: "schedule_table \<Rightarrow> schedule option" where
  "NextDueSchedule db = (case sort_key fire_key (rows_where (\<lambda>_. True) db) of [] \<Rightarrow> None | s # _ \<Rightarrow> Some s)"

definition RescheduleNext :: "string \<Rightarrow> gotime \<Rightarrow> schedule_table \<Rightarrow> bool \<times> schedule_table" where
  "RescheduleNext scheduleID nextFireAt db = (case GetSchedule scheduleID db of
       None \<Rightarrow> (False, db)
     | Some sched \<Rightarrow>
         if scCron sched = None then (False, db)
         else (True, gm_adjust scheduleID (\<lambda>row. row\<lparr>scFireAt := FormatRFC3339Nano nextFireAt\<rparr>) db))"

definition DeleteSchedule :: "string \<Rightarrow> schedule_table \<Rightarrow> schedule option \<times> schedule_table" where
  "DeleteSchedule scheduleID db = (case GetSchedule scheduleID db of
       None \<Rightarrow> (None, db)
     | Some sched \<Rightarrow> (Some sched, gm_del scheduleID db))"

section \<open>The earliest schedule\<close>

abbreviation schedules_ok :: "schedule_table \<Rightarrow> bool" where
  "schedules_ok db \<equiv> table_ok ScheduleID db"

lemma NextDueSchedule_Some:
  assumes "schedules_ok db" "NextDueSchedule db = Some s"
  shows "gm_get db (ScheduleID s) = Some s" "\<And>i x. gm_get db i = Some x \<Longrightarrow> fire_key s \<le> fire_key x"
proof -
  obtain rest where l: "sort_key fire_key (rows_where (\<lambda>_. True) db) = s # rest"
    using assms(2) by (auto simp: NextDueSchedule_def split: list.splits)
  have "s \<in> set (sort_key fire_key (rows_where (\<lambda>_. True) db))" by (simp add: l)
  then show "gm_get db (ScheduleID s) = Some s" by (simp add: rows_where_pk [OF assms(1)])
  fix i x assume "gm_get db i = Some x"
  then have "x \<in> set (sort_key fire_key (rows_where (\<lambda>_. True) db))"
    using set_rows_where [OF table_ok_gm [OF assms(1)], of x "\<lambda>_. True"] by auto
  moreover have "sorted (map fire_key (s # rest))" using sorted_sort_key [of fire_key "rows_where (\<lambda>_. True) db"] by (simp only: l)
  ultimately show "fire_key s \<le> fire_key x" unfolding l by auto
qed

lemma NextDueSchedule_None: "schedules_ok db \<Longrightarrow> NextDueSchedule db = None \<longleftrightarrow> (\<forall>i. gm_get db i = None)"
proof -
  assume ok: "schedules_ok db"
  have "NextDueSchedule db = None \<longleftrightarrow> rows_where (\<lambda>_. True) db = []"
    by (auto simp: NextDueSchedule_def split: list.splits) (metis length_sort list.size(3) length_0_conv)+
  also have "\<dots> \<longleftrightarrow> (\<forall>i. gm_get db i = None)"
    using set_rows_where [OF table_ok_gm [OF ok], of _ "\<lambda>_. True"]
    by (metis (full_types) list.set_intros(1) neq_Nil_conv not_Some_eq set_empty2 emptyE)
  finally show ?thesis .
qed

end
