(* ===== verification/Scheduler.thy ===== *)
theory Scheduler
  imports Schedules
begin

text \<open>
  The dispatcher of \<open>daemon-go/service/scheduler.go\<close>. It reaches the table through the interface
  \<open>schedulerStore\<close>, here a record of operations that may fail with an error text. One loop iteration
  is \<open>next_plan\<close> (what the earliest schedule asks for), the select it then blocks in, the check and
  the firing; \<open>sched_step\<close> is the goroutine with the clock, the wake channel of capacity 1 and the
  clients that change the table meanwhile.
\<close>

definition maxSchedulerSleep :: duration where
  "maxSchedulerSleep = 3600 * second"

record 'db scheduler_store =
  ssNextDue :: "'db \<Rightarrow> string + schedule option"
  ssGet :: "'db \<Rightarrow> string \<Rightarrow> string + schedule option"
  ssReschedule :: "string \<Rightarrow> gotime \<Rightarrow> 'db \<Rightarrow> (string + bool) \<times> 'db"
  ssDelete :: "string \<Rightarrow> 'db \<Rightarrow> (string + schedule option) \<times> 'db"

definition parseScheduleFireAt :: "string \<Rightarrow> gotime option" where
  "parseScheduleFireAt raw = parseISO raw"

section \<open>Firing\<close>

datatype scheduled_message =
    OpenScheduledAsk string string string "string option"
  | ScheduledNotify string string string "string option"

definition fire_message :: "schedule \<Rightarrow> scheduled_message" where
  "fire_message s =
     (if scKind s = ''ask'' then OpenScheduledAsk (scFromPeer s) (scToPeer s) (scText s) (scCircle s)
      else ScheduledNotify (scFromPeer s) (scToPeer s) (scText s) (scCircle s))"

text \<open>After the delivery, whatever came of it: advance a recurring schedule, drop a one-shot.\<close>

definition fire_advance :: "'db scheduler_store \<Rightarrow> gotime \<Rightarrow> schedule \<Rightarrow> 'db \<Rightarrow> 'db" where
  "fire_advance st now s db = (case scCron s of
       Some cron \<Rightarrow>
         (case NextFireAfter cron now of
            Inl err \<Rightarrow> snd (ssDelete st (ScheduleID s) db)
          | Inr nxt \<Rightarrow> (case ssReschedule st (ScheduleID s) nxt db of
                (Inl err, db') \<Rightarrow> snd (ssDelete st (ScheduleID s) db')
              | (Inr _, db') \<Rightarrow> db'))
     | None \<Rightarrow> snd (ssDelete st (ScheduleID s) db))"

section \<open>The loop\<close>

datatype loop_plan =
    BackOff duration
  | WaitForWake
  | DropUnparseable string
  | SleepThenCheck duration string
  | CheckNow string

definition next_plan :: "'db scheduler_store \<Rightarrow> gotime \<Rightarrow> 'db \<Rightarrow> loop_plan" where
  "next_plan st now db = (case ssNextDue st db of
       Inl err \<Rightarrow> BackOff maxSchedulerSleep
     | Inr None \<Rightarrow> WaitForWake
     | Inr (Some nxt) \<Rightarrow>
         (case parseScheduleFireAt (scFireAt nxt) of
            None \<Rightarrow> DropUnparseable (ScheduleID nxt)
          | Some fireAt \<Rightarrow>
              (let delay = fireAt - now
               in if 0 < delay then SleepThenCheck (min delay maxSchedulerSleep) (ScheduleID nxt)
                  else CheckNow (ScheduleID nxt))))"

datatype loop_phase =
    Top
  | Waiting
  | Backing gotime
  | Sleeping gotime string
  | Checking string
  | Advancing schedule
  | Exited

text \<open>
  The state of the dispatcher. Ghosts: \<open>sdPlanned\<close>, when the current iteration read the table;
  \<open>sdSent\<close>, the schedules delivered, each with that time and the time of the delivery; \<open>sdUsed\<close>, the
  ids ever given to a schedule.
\<close>

record 'db scheduler =
  sdDb :: 'db
  sdNow :: gotime
  sdWake :: bool
  sdPhase :: loop_phase
  sdPlanned :: gotime
  sdSent :: "(gotime \<times> gotime \<times> schedule) list"
  sdUsed :: "string set"

definition enter_plan :: "'db scheduler_store \<Rightarrow> 'db scheduler \<Rightarrow> 'db scheduler" where
  "enter_plan st s =
     (let s1 = s\<lparr>sdWake := False, sdPlanned := sdNow s\<rparr>
      in case next_plan st (sdNow s) (sdDb s) of
           BackOff d \<Rightarrow> s1\<lparr>sdPhase := Backing (sdNow s + d)\<rparr>
         | WaitForWake \<Rightarrow> s1\<lparr>sdPhase := Waiting\<rparr>
         | DropUnparseable i \<Rightarrow> s1\<lparr>sdPhase := Top, sdDb := snd (ssDelete st i (sdDb s))\<rparr>
         | SleepThenCheck d i \<Rightarrow> s1\<lparr>sdPhase := Sleeping (sdNow s + d) i\<rparr>
         | CheckNow i \<Rightarrow> s1\<lparr>sdPhase := Checking i\<rparr>)"

definition enter_check :: "'db scheduler_store \<Rightarrow> string \<Rightarrow> 'db scheduler \<Rightarrow> 'db scheduler" where
  "enter_check st i s = (case ssGet st (sdDb s) i of
       Inr (Some current) \<Rightarrow>
         s\<lparr>sdPhase := Advancing current, sdSent := sdSent s @ [(sdPlanned s, sdNow s, current)]\<rparr>
     | _ \<Rightarrow> s\<lparr>sdPhase := Top\<rparr>)"

inductive sched_step :: "'db scheduler_store \<Rightarrow> (string set \<times> 'db \<Rightarrow> string set \<times> 'db \<Rightarrow> bool) \<Rightarrow>
    'db scheduler \<Rightarrow> 'db scheduler \<Rightarrow> bool" for st clients where
  sched_tick: "sdNow s \<le> t \<Longrightarrow> sched_step st clients s (s\<lparr>sdNow := t\<rparr>)"
| sched_client: "clients (sdUsed s, sdDb s) (u, db) \<Longrightarrow> sched_step st clients s (s\<lparr>sdUsed := u, sdDb := db\<rparr>)"
| sched_wake: "sched_step st clients s (s\<lparr>sdWake := True\<rparr>)"
| sched_plan: "sdPhase s = Top \<Longrightarrow> sched_step st clients s (enter_plan st s)"
| sched_elapsed: "sdPhase s = Sleeping d i \<Longrightarrow> d \<le> sdNow s \<Longrightarrow> sched_step st clients s (s\<lparr>sdPhase := Checking i\<rparr>)"
| sched_backed: "sdPhase s = Backing d \<Longrightarrow> d \<le> sdNow s \<Longrightarrow> sched_step st clients s (s\<lparr>sdPhase := Top\<rparr>)"
| sched_woken: "sdPhase s = Sleeping d i \<or> sdPhase s = Waiting \<Longrightarrow> sdWake s \<Longrightarrow>
    sched_step st clients s (s\<lparr>sdPhase := Top, sdWake := False\<rparr>)"
| sched_stop: "sdPhase s = Sleeping d i \<or> sdPhase s = Waiting \<or> sdPhase s = Backing d \<Longrightarrow>
    sched_step st clients s (s\<lparr>sdPhase := Exited\<rparr>)"
| sched_check: "sdPhase s = Checking i \<Longrightarrow> sched_step st clients s (enter_check st i s)"
| sched_advance: "sdPhase s = Advancing current \<Longrightarrow>
    sched_step st clients s (s\<lparr>sdPhase := Top, sdDb := fire_advance st (sdNow s) current (sdDb s)\<rparr>)"

definition sched_start :: "gotime \<Rightarrow> string set \<Rightarrow> 'db \<Rightarrow> 'db scheduler" where
  "sched_start now used db = \<lparr>sdDb = db, sdNow = now, sdWake = False, sdPhase = Top, sdPlanned = now, sdSent = [], sdUsed = used\<rparr>"

definition sched_run :: "'db scheduler_store \<Rightarrow> (string set \<times> 'db \<Rightarrow> string set \<times> 'db \<Rightarrow> bool) \<Rightarrow>
    'db scheduler \<Rightarrow> 'db scheduler \<Rightarrow> bool" where
  "sched_run st clients = rtranclp (sched_step st clients)"

section \<open>The table behind the interface\<close>

definition sql_schedules :: "schedule_table scheduler_store" where
  "sql_schedules = \<lparr>ssNextDue = (\<lambda>db. Inr (NextDueSchedule db)), ssGet = (\<lambda>db i. Inr (GetSchedule i db)),
     ssReschedule = (\<lambda>i t db. let (ok, db') = RescheduleNext i t db in (Inr ok, db')),
     ssDelete = (\<lambda>i db. let (s, db') = DeleteSchedule i db in (Inr s, db'))\<rparr>"

text \<open>The routes create schedules under ids never used before, and delete them.\<close>

inductive sql_clients :: "string set \<times> schedule_table \<Rightarrow> string set \<times> schedule_table \<Rightarrow> bool" where
  client_create: "newid \<notin> used \<Longrightarrow>
    sql_clients (used, db) (insert newid used, snd (CreateSchedule now newid fromPeer toPeer txt fireAt kind circle cron db))"
| client_delete: "sql_clients (used, db) (used, snd (DeleteSchedule i db))"

end
