(* ===== verification/Scheduler_Facts.thy ===== *)
theory Scheduler_Facts
  imports Scheduler
begin

text \<open>
  What the dispatcher guarantees over any table that keeps the contract \<open>schedule_contract\<close>, which
  the SQLite table does: a one-shot is delivered at most once, nothing is delivered early unless the
  loop slept its full hour, a recurring schedule moves strictly forward. And the hour: the code takes
  a capped sleep for the deadline.
\<close>

section \<open>The contract of the table\<close>

locale schedule_contract =
  fixes st :: "'db scheduler_store"
    and ok :: "'db \<Rightarrow> bool"
    and look :: "'db \<Rightarrow> string \<Rightarrow> schedule option"
    and clients :: "string set \<times> 'db \<Rightarrow> string set \<times> 'db \<Rightarrow> bool"
  assumes filed: "ok db \<Longrightarrow> look db i = Some s \<Longrightarrow> ScheduleID s = i"
    and next_due: "ok db \<Longrightarrow> ssNextDue st db = Inr (Some s) \<Longrightarrow> look db (ScheduleID s) = Some s"
    and get: "ok db \<Longrightarrow> ssGet st db i = Inr (look db i)"
    and delete_ok: "ok db \<Longrightarrow> ok (snd (ssDelete st i db))"
    and delete: "ok db \<Longrightarrow> look (snd (ssDelete st i db)) j = (if j = i then None else look db j)"
    and reschedule_ok: "ok db \<Longrightarrow> ok (snd (ssReschedule st i t db))"
    and reschedule_done: "ok db \<Longrightarrow> \<exists>b. fst (ssReschedule st i t db) = Inr b"
    and reschedule: "ok db \<Longrightarrow> look (snd (ssReschedule st i t db)) j =
      (if j = i then map_option (\<lambda>s. if scCron s = None then s else s\<lparr>scFireAt := FormatRFC3339Nano t\<rparr>) (look db j) else look db j)"
    and client_ok: "ok db \<Longrightarrow> clients (u, db) (u', db') \<Longrightarrow> ok db' \<and> u \<subseteq> u'"
    and client_rows: "ok db \<Longrightarrow> clients (u, db) (u', db') \<Longrightarrow> look db' i \<noteq> look db i \<Longrightarrow> look db' i \<noteq> None \<Longrightarrow> i \<in> u' - u"

text \<open>A delivery is not early, or the loop had slept the whole hour since it read the table.\<close>

definition timely :: "gotime \<times> gotime \<times> schedule \<Rightarrow> bool" where
  "timely d \<longleftrightarrow> (case d of (planned, sent, s) \<Rightarrow> \<exists>fireAt. parseScheduleFireAt (scFireAt s) = Some fireAt \<and>
     (fireAt \<le> sent \<or> planned + maxSchedulerSleep \<le> sent \<and> planned + maxSchedulerSleep < fireAt))"

definition one_shots :: "(gotime \<times> gotime \<times> schedule) list \<Rightarrow> string list" where
  "one_shots sent = map (\<lambda>(p, t, s). ScheduleID s) (filter (\<lambda>(p, t, s). scCron s = None) sent)"

definition sent_ok :: "('db \<Rightarrow> string \<Rightarrow> schedule option) \<Rightarrow> 'db scheduler \<Rightarrow> gotime \<times> gotime \<times> schedule \<Rightarrow> bool" where
  "sent_ok look s d \<longleftrightarrow> (case d of (p, t, x) \<Rightarrow> ScheduleID x \<in> sdUsed s \<and> timely d \<and>
     (scCron x = None \<longrightarrow> look (sdDb s) (ScheduleID x) = None \<or> sdPhase s = Advancing x))"

text \<open>The deadline of the schedule an iteration works on, as long as that schedule exists.\<close>

definition deadline :: "('db \<Rightarrow> string \<Rightarrow> schedule option) \<Rightarrow> 'db scheduler \<Rightarrow> string \<Rightarrow> gotime \<Rightarrow> bool" where
  "deadline look s i fireAt \<longleftrightarrow> i \<in> sdUsed s \<and>
     (\<forall>x. look (sdDb s) i = Some x \<longrightarrow> parseScheduleFireAt (scFireAt x) = Some fireAt)"

definition phase_ok :: "('db \<Rightarrow> string \<Rightarrow> schedule option) \<Rightarrow> 'db scheduler \<Rightarrow> bool" where
  "phase_ok look s \<longleftrightarrow> (case sdPhase s of
       Sleeping d i \<Rightarrow> \<exists>fireAt. deadline look s i fireAt \<and> sdPlanned s < fireAt \<and>
         d = sdPlanned s + min (fireAt - sdPlanned s) maxSchedulerSleep
     | Checking i \<Rightarrow> \<exists>fireAt. deadline look s i fireAt \<and>
         (fireAt \<le> sdNow s \<or> sdPlanned s + maxSchedulerSleep \<le> sdNow s \<and> sdPlanned s + maxSchedulerSleep < fireAt)
     | _ \<Rightarrow> True)"

definition sched_inv :: "('db \<Rightarrow> bool) \<Rightarrow> ('db \<Rightarrow> string \<Rightarrow> schedule option) \<Rightarrow> 'db scheduler \<Rightarrow> bool" where
  "sched_inv ok look s \<longleftrightarrow> ok (sdDb s) \<and> (\<forall>i. look (sdDb s) i \<noteq> None \<longrightarrow> i \<in> sdUsed s) \<and>
     (\<forall>d\<in>set (sdSent s). sent_ok look s d) \<and> distinct (one_shots (sdSent s)) \<and> phase_ok look s"

lemma sched_invD:
  assumes "sched_inv ok look s"
  shows "ok (sdDb s)" "look (sdDb s) i \<noteq> None \<Longrightarrow> i \<in> sdUsed s" "d \<in> set (sdSent s) \<Longrightarrow> sent_ok look s d"
    "distinct (one_shots (sdSent s))" "phase_ok look s"
  using assms by (auto simp: sched_inv_def)

text \<open>A step that sends nothing and whose table only loses rows, or gains rows under new ids, keeps the invariant.\<close>

lemma sched_inv_quiet:
  assumes "sched_inv ok look s" "ok (sdDb s')" "sdSent s' = sdSent s" "sdUsed s \<subseteq> sdUsed s'"
    "\<And>i. look (sdDb s') i \<noteq> None \<Longrightarrow> look (sdDb s) i \<noteq> None \<or> i \<in> sdUsed s' - sdUsed s"
    "\<And>x. sdPhase s = Advancing x \<Longrightarrow> scCron x = None \<Longrightarrow> sdPhase s' = Advancing x \<or> look (sdDb s') (ScheduleID x) = None"
    "phase_ok look s'"
  shows "sched_inv ok look s'"
proof -
  have "sent_ok look s' d" if "d \<in> set (sdSent s)" for d
  proof -
    obtain p t x where d: "d = (p, t, x)" by (cases d)
    have "ScheduleID x \<in> sdUsed s" using sched_invD(3) [OF assms(1) that] by (simp add: d sent_ok_def)
    then have "look (sdDb s) (ScheduleID x) = None \<Longrightarrow> look (sdDb s') (ScheduleID x) = None"
      using assms(5) [of "ScheduleID x"] by blast
    then show ?thesis using sched_invD(3) [OF assms(1) that] assms(4,6) by (auto simp: d sent_ok_def)
  qed
  moreover have "i \<in> sdUsed s'" if "look (sdDb s') i \<noteq> None" for i
    using assms(5) [OF that] sched_invD(2) [OF assms(1), of i] assms(4) by auto
  ultimately show ?thesis using sched_invD(4) [OF assms(1)] assms(2,3,7) by (simp add: sched_inv_def)
qed

context schedule_contract
begin

lemma advance_cases:
  assumes "ok db"
  obtains (dropped) "fire_advance st now x db = snd (ssDelete st (ScheduleID x) db)"
  | (moved) cron nxt where "scCron x = Some cron" "NextFireAfter cron now = Inr nxt"
      "fire_advance st now x db = snd (ssReschedule st (ScheduleID x) nxt db)"
proof (cases "scCron x")
  case None
  then show ?thesis by (intro dropped) (simp add: fire_advance_def)
next
  case (Some cron)
  show ?thesis
  proof (cases "NextFireAfter cron now")
    case (Inl err)
    then show ?thesis using Some by (intro dropped) (simp add: fire_advance_def)
  next
    case (Inr nxt)
    obtain b db' where "ssReschedule st (ScheduleID x) nxt db = (Inr b, db')"
      using reschedule_done [OF assms] by (metis prod.collapse)
    then show ?thesis using Some Inr by (intro moved) (auto simp: fire_advance_def)
  qed
qed

lemma advance_ok: "ok db \<Longrightarrow> ok (fire_advance st now x db)"
  by (rule advance_cases [of db now x]) (auto simp: delete_ok reschedule_ok)

lemma advance_rows: "ok db \<Longrightarrow> look (fire_advance st now x db) i \<noteq> None \<Longrightarrow> look db i \<noteq> None"
  by (rule advance_cases [of db now x]) (auto simp: delete reschedule split: if_splits)

lemma advance_one_shot: "ok db \<Longrightarrow> scCron x = None \<Longrightarrow> look (fire_advance st now x db) (ScheduleID x) = None"
  by (rule advance_cases [of db now x]) (auto simp: delete)

lemma plan_phase:
  assumes inv: "sched_inv ok look s" and that: "sdPhase s = Top"
  shows "sched_inv ok look (enter_plan st s)"
proof (cases "next_plan st (sdNow s) (sdDb s)")
  case (DropUnparseable i)
  show ?thesis
    by (rule sched_inv_quiet [OF inv])
      (use DropUnparseable sched_invD(1) [OF inv] that in \<open>auto simp: enter_plan_def Let_def delete_ok delete phase_ok_def split: if_splits\<close>)
next
  case (SleepThenCheck d i)
  obtain x where x: "ssNextDue st (sdDb s) = Inr (Some x)" "i = ScheduleID x"
    using SleepThenCheck by (auto simp: next_plan_def Let_def split: sum.splits option.splits if_splits)
  then obtain fireAt where f: "parseScheduleFireAt (scFireAt x) = Some fireAt" "0 < fireAt - sdNow s"
      "d = min (fireAt - sdNow s) maxSchedulerSleep"
    using SleepThenCheck by (auto simp: next_plan_def Let_def split: option.splits if_splits)
  have row: "look (sdDb s) i = Some x" using next_due [OF sched_invD(1) [OF inv] x(1)] x(2) by simp
  have "phase_ok look (enter_plan st s)"
    using SleepThenCheck f row sched_invD(2) [OF inv, of i]
    by (auto simp: enter_plan_def Let_def phase_ok_def deadline_def)
  then show ?thesis
    by (rule sched_inv_quiet [OF inv, rotated -1])
      (use SleepThenCheck sched_invD(1) [OF inv] that in \<open>auto simp: enter_plan_def Let_def\<close>)
next
  case (CheckNow i)
  obtain x where x: "ssNextDue st (sdDb s) = Inr (Some x)" "i = ScheduleID x"
    using CheckNow by (auto simp: next_plan_def Let_def split: sum.splits option.splits if_splits)
  then obtain fireAt where f: "parseScheduleFireAt (scFireAt x) = Some fireAt" "fireAt \<le> sdNow s"
    using CheckNow by (auto simp: next_plan_def Let_def split: option.splits if_splits)
  have row: "look (sdDb s) i = Some x" using next_due [OF sched_invD(1) [OF inv] x(1)] x(2) by simp
  have "phase_ok look (enter_plan st s)"
    using CheckNow f row sched_invD(2) [OF inv, of i]
    by (auto simp: enter_plan_def Let_def phase_ok_def deadline_def)
  then show ?thesis
    by (rule sched_inv_quiet [OF inv, rotated -1])
      (use CheckNow sched_invD(1) [OF inv] that in \<open>auto simp: enter_plan_def Let_def\<close>)
qed (rule sched_inv_quiet [OF inv], use sched_invD(1) [OF inv] that in \<open>auto simp: enter_plan_def Let_def phase_ok_def\<close>)+

lemma check_phase:
  assumes inv: "sched_inv ok look s" and ph: "sdPhase s = Checking i"
  shows "sched_inv ok look (enter_check st i s)"
proof (cases "look (sdDb s) i")
  case None
  show ?thesis
    by (rule sched_inv_quiet [OF inv])
      (use None sched_invD(1) [OF inv] ph in \<open>auto simp: enter_check_def get phase_ok_def\<close>)
next
  case (Some x)
  have id: "ScheduleID x = i" using filed sched_invD(1) [OF inv] Some by blast
  obtain fireAt where f: "deadline look s i fireAt" "fireAt \<le> sdNow s \<or> sdPlanned s + maxSchedulerSleep \<le> sdNow s \<and>
      sdPlanned s + maxSchedulerSleep < fireAt"
    using sched_invD(5) [OF inv] ph by (auto simp: phase_ok_def)
  let ?s = "s\<lparr>sdPhase := Advancing x, sdSent := sdSent s @ [(sdPlanned s, sdNow s, x)]\<rparr>"
  have e: "enter_check st i s = ?s" using Some sched_invD(1) [OF inv] by (simp add: enter_check_def get)
  have old: "sent_ok look ?s d \<and> (case d of (p, t, y) \<Rightarrow> scCron y = None \<longrightarrow> ScheduleID y \<noteq> i)" if "d \<in> set (sdSent s)" for d
    using sched_invD(3) [OF inv that] Some ph by (auto simp: sent_ok_def split: prod.splits)
  have new: "sent_ok look ?s (sdPlanned s, sdNow s, x)"
    using f Some id by (auto simp: sent_ok_def timely_def deadline_def)
  have "ScheduleID x \<notin> set (one_shots (sdSent s))" using old id by (fastforce simp: one_shots_def)
  then have "distinct (one_shots (sdSent ?s))" using sched_invD(4) [OF inv] by (auto simp: one_shots_def)
  then show ?thesis unfolding e using old new sched_invD(1,2) [OF inv] by (auto simp: sched_inv_def phase_ok_def)
qed

lemma sched_step_inv:
  assumes "sched_step st clients s s'" "sched_inv ok look s"
  shows "sched_inv ok look s'"
  using assms(1)
proof cases
  case (sched_tick t)
  show ?thesis unfolding sched_tick
    by (rule sched_inv_quiet [OF assms(2)])
      (use sched_tick sched_invD(1,5) [OF assms(2)] in \<open>force simp: phase_ok_def deadline_def split: loop_phase.splits\<close>)+
next
  case (sched_client u db)
  note c = client_ok [OF sched_invD(1) [OF assms(2)] sched_client(2)]
  have rows: "look db i = look (sdDb s) i \<or> look db i = None \<or> i \<in> u - sdUsed s" for i
    using client_rows [OF sched_invD(1) [OF assms(2)] sched_client(2)] by blast
  have "look db (ScheduleID x) = None" if "look (sdDb s) (ScheduleID x) = None" "ScheduleID x \<in> sdUsed s" for x
    using rows [of "ScheduleID x"] that by auto
  then have "deadline look (s\<lparr>sdUsed := u, sdDb := db\<rparr>) i f" if "deadline look s i f" for i f
    using that c rows [of i] by (auto simp: deadline_def)
  then have "phase_ok look (s\<lparr>sdUsed := u, sdDb := db\<rparr>)"
    using sched_invD(5) [OF assms(2)] by (fastforce simp: phase_ok_def split: loop_phase.splits)
  moreover have "look db i \<noteq> None \<Longrightarrow> look (sdDb s) i \<noteq> None \<or> i \<in> u - sdUsed s" for i using rows [of i] by auto
  ultimately show ?thesis unfolding sched_client(1)
    by (intro sched_inv_quiet [OF assms(2)]) (use c in auto)
next
  case sched_wake
  show ?thesis unfolding sched_wake
    by (rule sched_inv_quiet [OF assms(2)])
      (use sched_invD(1,5) [OF assms(2)] in \<open>force simp: phase_ok_def deadline_def split: loop_phase.splits\<close>)+
next
  case sched_plan
  then show ?thesis using plan_phase [OF assms(2)] by simp
next
  case (sched_elapsed d i)
  have "phase_ok look (s\<lparr>sdPhase := Checking i\<rparr>)"
    using sched_elapsed sched_invD(5) [OF assms(2)] by (auto simp: phase_ok_def deadline_def min_def split: if_splits)
  then show ?thesis unfolding sched_elapsed
    by (rule sched_inv_quiet [OF assms(2), rotated -1]) (use sched_elapsed sched_invD(1) [OF assms(2)] in auto)
next
  case (sched_check i)
  then show ?thesis using check_phase [OF assms(2)] by simp
next
  case (sched_advance current)
  note ok' = sched_invD(1) [OF assms(2)]
  show ?thesis unfolding sched_advance(1)
  proof (rule sched_inv_quiet [OF assms(2)])
    fix i
    let ?db = "sdDb (s\<lparr>sdPhase := Top, sdDb := fire_advance st (sdNow s) current (sdDb s)\<rparr>)"
    assume "look ?db i \<noteq> None"
    then show "look (sdDb s) i \<noteq> None \<or> i \<in> sdUsed (s\<lparr>sdPhase := Top, sdDb := fire_advance st (sdNow s) current (sdDb s)\<rparr>) - sdUsed s"
      using advance_rows [OF ok'] by simp
  qed (use sched_advance(2) advance_ok [OF ok'] advance_one_shot [OF ok'] in \<open>auto simp: phase_ok_def\<close>)
qed (rule sched_inv_quiet [OF assms(2)], use sched_invD(1) [OF assms(2)] in \<open>auto simp: phase_ok_def\<close>)+

lemma sched_run_inv: "sched_run st clients s s' \<Longrightarrow> sched_inv ok look s \<Longrightarrow> sched_inv ok look s'"
  unfolding sched_run_def by (induction rule: rtranclp_induct) (auto intro: sched_step_inv)

lemma start_inv: "ok db \<Longrightarrow> (\<And>i. look db i \<noteq> None \<Longrightarrow> i \<in> used) \<Longrightarrow> sched_inv ok look (sched_start now used db)"
  by (auto simp: sched_inv_def sched_start_def phase_ok_def one_shots_def)

lemma one_shot_once:
  "ok db \<Longrightarrow> (\<And>i. look db i \<noteq> None \<Longrightarrow> i \<in> used) \<Longrightarrow> sched_run st clients (sched_start now used db) s \<Longrightarrow>
   distinct (one_shots (sdSent s)) \<and> (\<forall>d\<in>set (sdSent s). timely d)"
  using sched_run_inv [OF _ start_inv] by (fastforce simp: sched_inv_def sent_ok_def split: prod.splits)

end

end
