(* ===== verification/Scheduler_Runs.thy ===== *)
theory Scheduler_Runs
  imports Scheduler_Facts
begin

text \<open>
  The contract of the dispatcher discharged for the SQLite table, the properties it gives, and the run
  in which a schedule more than an hour ahead is delivered after one hour.
\<close>

section \<open>The SQLite table keeps the contract\<close>

lemma sql_schedules_simps [simp]:
  "ssNextDue sql_schedules db = Inr (NextDueSchedule db)" "ssGet sql_schedules db i = Inr (GetSchedule i db)"
  "ssReschedule sql_schedules i t db = (Inr (fst (RescheduleNext i t db)), snd (RescheduleNext i t db))"
  "ssDelete sql_schedules i db = (Inr (fst (DeleteSchedule i db)), snd (DeleteSchedule i db))"
  by (simp_all add: sql_schedules_def split: prod.split)

lemma DeleteSchedule_rows [simp]: "gm_get (snd (DeleteSchedule i db)) j = (if j = i then None else gm_get db j)"
  by (auto simp: DeleteSchedule_def GetSchedule_def split: option.split)

lemma DeleteSchedule_ok: "schedules_ok db \<Longrightarrow> schedules_ok (snd (DeleteSchedule i db))"
  by (auto simp: DeleteSchedule_def GetSchedule_def table_ok_def split: option.split)

lemma RescheduleNext_rows: "gm_get (snd (RescheduleNext i t db)) j =
    (if j = i then map_option (\<lambda>s. if scCron s = None then s else s\<lparr>scFireAt := FormatRFC3339Nano t\<rparr>) (gm_get db j) else gm_get db j)"
  by (auto simp: RescheduleNext_def GetSchedule_def split: option.split)

lemma RescheduleNext_ok: "schedules_ok db \<Longrightarrow> schedules_ok (snd (RescheduleNext i t db))"
  by (auto simp: RescheduleNext_def GetSchedule_def intro: table_ok_adjust split: option.split)

lemma CreateSchedule_rows: "gm_get (snd (CreateSchedule now newid f t txt at kind circle cron db)) j \<noteq> gm_get db j \<Longrightarrow> j = newid"
  by (auto simp: CreateSchedule_def Let_def upsertSchedule_def split: if_splits)

lemma CreateSchedule_ok: "schedules_ok db \<Longrightarrow> schedules_ok (snd (CreateSchedule now newid f t txt at kind circle cron db))"
  by (auto simp: CreateSchedule_def Let_def upsertSchedule_def intro: table_ok_put)

lemma sql_clients_effect:
  assumes "sql_clients (u, db) (u', db')" "schedules_ok db"
  shows "schedules_ok db'" "u \<subseteq> u'" "gm_get db' i \<noteq> gm_get db i \<Longrightarrow> gm_get db' i \<noteq> None \<Longrightarrow> i \<in> u' - u"
proof -
  show "schedules_ok db'" "u \<subseteq> u'"
    using assms by (auto elim!: sql_clients.cases simp: CreateSchedule_ok DeleteSchedule_ok)
  assume "gm_get db' i \<noteq> gm_get db i" "gm_get db' i \<noteq> None"
  then show "i \<in> u' - u" using assms(1)
    by (auto elim!: sql_clients.cases dest: CreateSchedule_rows split: if_splits)
qed

interpretation sql: schedule_contract sql_schedules "table_ok ScheduleID" gm_get sql_clients
proof unfold_locales
  fix db :: schedule_table and i and s
  assume ok: "schedules_ok db"
  show "gm_get db i = Some s \<Longrightarrow> ScheduleID s = i" using table_ok_pk [OF ok] .
  show "ssNextDue sql_schedules db = Inr (Some s) \<Longrightarrow> gm_get db (ScheduleID s) = Some s"
    using NextDueSchedule_Some(1) [OF ok] by simp
qed (auto simp: GetSchedule_def DeleteSchedule_ok RescheduleNext_ok RescheduleNext_rows dest: sql_clients_effect)

section \<open>Deliveries\<close>


text \<open>
  A delivered recurring schedule moves to its next firing. After the delivery at \<open>now\<close> the row
  holds the next match of its cron expression, strictly later than now and readable by the loop, and
  no other row changes.
\<close>

theorem recurring_schedule_advances:
  assumes "gm_get db (ScheduleID x) = Some x" "scCron x = Some expr" "NextFireAfter expr now = Inr nxt" "fire_range now"
  shows "gm_get (fire_advance sql_schedules now x db) = (gm_get db)(ScheduleID x \<mapsto> x\<lparr>scFireAt := FormatRFC3339Nano nxt\<rparr>) \<and>
     parseScheduleFireAt (FormatRFC3339Nano nxt) = Some nxt \<and> now < nxt"
proof -
  have "fire_advance sql_schedules now x db = snd (RescheduleNext (ScheduleID x) nxt db)"
    using assms(2,3) by (simp add: fire_advance_def)
  then have "gm_get (fire_advance sql_schedules now x db) j = ((gm_get db)(ScheduleID x \<mapsto> x\<lparr>scFireAt := FormatRFC3339Nano nxt\<rparr>)) j" for j
    using assms(1,2) by (simp add: RescheduleNext_rows)
  moreover have "parseISO (FormatRFC3339Nano nxt) = Some nxt" by (rule nano_roundtrip [OF cron.next_range [OF assms(4,3)]])
  ultimately show ?thesis using cron.later [OF assms(3)] by (auto simp: parseScheduleFireAt_def)
qed

section \<open>The capped sleep\<close>

text \<open>
  C26: a schedule more than an hour ahead is delivered early. When the timer of a capped sleep fires,
  the loop goes on to deliver instead of computing the deadline again: from every table whose earliest
  schedule lies more than an hour ahead, with nobody waking the loop, that schedule is delivered
  exactly one hour after the table was read, before its time.
\<close>

theorem capped_sleep_fires_early:
  assumes "schedules_ok db" "NextDueSchedule db = Some x" "parseScheduleFireAt (scFireAt x) = Some fireAt"
    "now + maxSchedulerSleep < fireAt"
  shows "\<exists>s. sched_run sql_schedules sql_clients (sched_start now used db) s \<and>
     sdSent s = [(now, now + maxSchedulerSleep, x)] \<and> sdPhase s = Advancing x \<and> sdNow s < fireAt"
proof -
  let ?step = "sched_step sql_schedules sql_clients" and ?i = "ScheduleID x"
  let ?s0 = "sched_start now used db"
  have row: "gm_get db ?i = Some x" by (rule NextDueSchedule_Some(1) [OF assms(1,2)])
  have pos: "0 < maxSchedulerSleep" by (simp add: maxSchedulerSleep_def)
  then have plan: "next_plan sql_schedules now db = SleepThenCheck maxSchedulerSleep ?i"
    using assms(2-4) by (simp add: next_plan_def Let_def)
  let ?s1 = "?s0\<lparr>sdWake := False, sdPlanned := now, sdPhase := Sleeping (now + maxSchedulerSleep) ?i\<rparr>"
  let ?s2 = "?s1\<lparr>sdNow := now + maxSchedulerSleep\<rparr>"
  let ?s3 = "?s2\<lparr>sdPhase := Checking ?i\<rparr>"
  let ?s4 = "?s3\<lparr>sdPhase := Advancing x, sdSent := [(now, now + maxSchedulerSleep, x)]\<rparr>"
  have "?step ?s0 ?s1" using sched_plan [of ?s0 sql_schedules sql_clients] by (simp add: enter_plan_def sched_start_def plan Let_def)
  moreover have "?step ?s1 ?s2" using sched_tick [of ?s1 "now + maxSchedulerSleep" sql_schedules sql_clients] pos by (simp add: sched_start_def)
  moreover have "?step ?s2 ?s3" using sched_elapsed [of ?s2 "now + maxSchedulerSleep" ?i sql_schedules sql_clients] by simp
  moreover have "?step ?s3 ?s4" using sched_check [of ?s3 ?i sql_schedules sql_clients] row by (simp add: enter_check_def sched_start_def GetSchedule_def)
  ultimately have "sched_run sql_schedules sql_clients ?s0 ?s4"
    unfolding sched_run_def by (meson rtranclp.rtrancl_refl rtranclp.rtrancl_into_rtrancl)
  then show ?thesis using assms(4) by (intro exI [of _ ?s4]) simp
qed

section \<open>Concrete runs\<close>

definition sample_schedule :: "gotime \<Rightarrow> string option \<Rightarrow> schedule" where
  "sample_schedule fireAt cron = \<lparr>ScheduleID = ''sched-1'', scFromPeer = ''a'', scToPeer = ''b'', scText = ''ping'',
     scFireAt = FormatRFC3339Nano fireAt, scKind = ''notify'', scCircle = None, scCron = cron,
     scCreatedAt = FormatRFC3339Nano 0\<rparr>"

definition sample_schedules :: "gotime \<Rightarrow> string option \<Rightarrow> schedule_table" where
  "sample_schedules fireAt cron = [(''sched-1'', sample_schedule fireAt cron)]"

lemma sample_schedules_ok: "schedules_ok (sample_schedules fireAt cron)"
  by (auto simp: table_ok_def gm_ok_def sample_schedules_def gm_get_Cons sample_schedule_def)

lemma sample_created: "snd (CreateSchedule 0 ''sched-1'' ''a'' ''b'' ''ping'' (7200 * second) ''notify'' None None []) =
    sample_schedules (7200 * second) None"
  by (simp add: CreateSchedule_def validScheduleKinds_def is_zero_time_def Let_def upsertSchedule_def gm_put_def
    sample_schedules_def sample_schedule_def)

lemma sample_next_due: "NextDueSchedule (sample_schedules fireAt cron) = Some (sample_schedule fireAt cron)"
  by (simp add: NextDueSchedule_def sample_schedules_def rows_where_def)

lemma two_hours: "parseScheduleFireAt (scFireAt (sample_schedule (7200 * second) cron)) = Some (7200 * second)"
  using nano_roundtrip [of "7200 * second"] by (simp add: parseScheduleFireAt_def sample_schedule_def iso_range_def)

text \<open>A notification for two hours from now goes out after one.\<close>

lemma capped_sleep_fires_early_witness:
  "\<exists>s. sched_run sql_schedules sql_clients
       (sched_start 0 {''sched-1''} (snd (CreateSchedule 0 ''sched-1'' ''a'' ''b'' ''ping'' (7200 * second) ''notify'' None None []))) s \<and>
     sdSent s = [(0, 3600 * second, sample_schedule (7200 * second) None)]"
  unfolding sample_created
  using capped_sleep_fires_early [OF sample_schedules_ok sample_next_due two_hours, of 0 "{''sched-1''}"]
  by (auto simp: maxSchedulerSleep_def)


lemma recurring_schedule_advances_witness:
  "gm_get (fire_advance sql_schedules 0 (sample_schedule 0 (Some ''*/15 * * * *'')) (sample_schedules 0 (Some ''*/15 * * * *''))) ''sched-1'' =
     Some ((sample_schedule 0 (Some ''*/15 * * * *''))\<lparr>scFireAt := FormatRFC3339Nano 900000000000\<rparr>)"
proof -
  have "NextFireAfter ''*/15 * * * *'' 0 = Inr 900000000000" by code_simp
  then show ?thesis
    using recurring_schedule_advances [of "sample_schedules 0 (Some ''*/15 * * * *'')" "sample_schedule 0 (Some ''*/15 * * * *'')" "''*/15 * * * *''" 0 900000000000]
    by (simp add: sample_schedules_def gm_get_Cons sample_schedule_def fire_range_def year_minutes_def minute_ns_def)
qed

end
