(* ===== verification/Cert_Store.thy ===== *)
theory Cert_Store
  imports Sql_Table Iso_Parse
begin

text \<open>
  Runtime identity certificates: \<open>daemon-go/state/runtime_certs.go\<close>, on the table
  \<open>runtime_identity_certificates\<close> keyed by nonce. Nonces are minted outside (32 random bytes); the
  JSON metadata is its decoded value. \<open>formatTS\<close> keeps milliseconds, and what \<open>parseTS\<close> accepts in
  its five layouts is what the \<open>RFC3339Nano\<close> reader accepts.
\<close>

section \<open>Millisecond timestamps\<close>

definition formatTS :: "gotime \<Rightarrow> string" where
  "formatTS t = date_time t @ ''.'' @ itoa_pad 3 (t mod second div 1000000) @ ''Z''"

definition parseTS :: "string \<Rightarrow> gotime option" where
  "parseTS raw = parseISO raw"

section \<open>Certificates\<close>

definition DefaultCertificateTTL :: duration where
  "DefaultCertificateTTL = 24 * 3600 * second"

record certificate =
  ctNonce :: string
  ctPeerID :: string
  ctDisplayName :: string
  ctBackend :: string
  ctProjectPath :: string
  ctRuntimeSessionID :: "string option"
  ctPaneID :: "string option"
  ctAgentPID :: "int option"
  ctParentPID :: "int option"
  ctIssuedAt :: string
  ctExpiresAt :: string
  ctMetadata :: jobject

record cert_envelope =
  enNonce :: string
  enPeerID :: string
  enDisplayName :: string
  enBackend :: string
  enProjectPath :: string
  enRuntimeSessionID :: "string option"
  enPaneID :: "string option"
  enAgentPID :: "int option"
  enParentPID :: "int option"

type_synonym cert_table = "(string, certificate) gomap"

definition or_empty :: "string option \<Rightarrow> string" where
  "or_empty v = (case v of Some s \<Rightarrow> s | None \<Rightarrow> [])"

text \<open>What a caller asks a certificate for.\<close>

record mint_request =
  mrPeerID :: string
  mrDisplayName :: string
  mrBackend :: string
  mrProjectPath :: "string option"
  mrRuntimeSessionID :: "string option"
  mrPaneID :: "string option"
  mrAgentPID :: "int option"
  mrParentPID :: "int option"
  mrMetadata :: jobject
  mrTTL :: duration
  mrIssuedAt :: "gotime option"

definition prepareCertificate :: "gotime \<Rightarrow> string \<Rightarrow> mint_request \<Rightarrow> certificate" where
  "prepareCertificate now nonce q =
     (let ttl = (if mrTTL q \<le> 0 then DefaultCertificateTTL else mrTTL q);
          issued = (case mrIssuedAt q of Some t \<Rightarrow> t | None \<Rightarrow> now)
      in \<lparr>ctNonce = nonce, ctPeerID = mrPeerID q, ctDisplayName = mrDisplayName q, ctBackend = mrBackend q,
          ctProjectPath = or_empty (mrProjectPath q), ctRuntimeSessionID = mrRuntimeSessionID q, ctPaneID = mrPaneID q,
          ctAgentPID = mrAgentPID q, ctParentPID = mrParentPID q, ctIssuedAt = formatTS issued,
          ctExpiresAt = formatTS (issued + ttl), ctMetadata = mrMetadata q\<rparr>)"

definition MintBirthCertificate :: "gotime \<Rightarrow> string \<Rightarrow> mint_request \<Rightarrow> cert_table \<Rightarrow> (string + certificate) \<times> cert_table" where
  "MintBirthCertificate now nonce q db =
     (let cert = prepareCertificate now nonce q
      in if gm_has db nonce then (Inl nonce, db) else (Inr cert, gm_put nonce cert db))"

definition getCertByNonce :: "string \<Rightarrow> cert_table \<Rightarrow> certificate option" where
  "getCertByNonce nonce db = gm_get db nonce"

definition unexpired :: "gotime \<Rightarrow> certificate \<Rightarrow> bool" where
  "unexpired now cert \<longleftrightarrow> (case parseTS (ctExpiresAt cert) of None \<Rightarrow> False | Some expires \<Rightarrow> now < expires)"

text \<open>Two optional pieces of evidence contradict when both are there and differ.\<close>

definition contradicts :: "'a option \<Rightarrow> 'a option \<Rightarrow> bool" where
  "contradicts a b \<longleftrightarrow> a \<noteq> None \<and> b \<noteq> None \<and> a \<noteq> b"

definition ValidateBirthCertificate :: "gotime \<Rightarrow> cert_envelope \<Rightarrow> string \<Rightarrow> string option \<Rightarrow> string option \<Rightarrow> int option \<Rightarrow>
    cert_table \<Rightarrow> certificate option" where
  "ValidateBirthCertificate now envelope backend projectPath paneID agentPID db =
     (if enNonce envelope = [] then None
      else (case getCertByNonce (enNonce envelope) db of
          None \<Rightarrow> None
        | Some cert \<Rightarrow>
            if \<not> unexpired now cert then None
            else if ctBackend cert \<noteq> backend then None
            else if ctProjectPath cert \<noteq> or_empty projectPath then None
            else if enPeerID envelope \<noteq> ctPeerID cert then None
            else if enDisplayName envelope \<noteq> ctDisplayName cert then None
            else if enBackend envelope \<noteq> ctBackend cert then None
            else if enProjectPath envelope \<noteq> ctProjectPath cert then None
            else if enRuntimeSessionID envelope \<noteq> ctRuntimeSessionID cert then None
            else if contradicts (ctPaneID cert) paneID then None
            else if enPaneID envelope \<noteq> ctPaneID cert then None
            else if contradicts (ctAgentPID cert) agentPID then None
            else if enAgentPID envelope \<noteq> ctAgentPID cert then None
            else if enParentPID envelope \<noteq> ctParentPID cert then None
            else Some cert))"

definition ValidateMCPIdentityProof :: "gotime \<Rightarrow> string \<Rightarrow> string \<Rightarrow> cert_table \<Rightarrow> bool" where
  "ValidateMCPIdentityProof now nonce peerID db =
     (if nonce = [] \<or> peerID = [] then False
      else (case getCertByNonce nonce db of
          None \<Rightarrow> False
        | Some cert \<Rightarrow> ctPeerID cert = peerID \<and> unexpired now cert))"

section \<open>Histories of mints\<close>

type_synonym mint_call = "gotime \<times> string \<times> mint_request"

definition mint_all :: "mint_call list \<Rightarrow> cert_table \<Rightarrow> cert_table" where
  "mint_all calls db = fold (\<lambda>(now, nonce, q) db. snd (MintBirthCertificate now nonce q db)) calls db"

definition expiry :: "gotime \<Rightarrow> mint_request \<Rightarrow> gotime" where
  "expiry now q = (case mrIssuedAt q of Some t \<Rightarrow> t | None \<Rightarrow> now) + (if mrTTL q \<le> 0 then DefaultCertificateTTL else mrTTL q)"

definition envelope_of :: "certificate \<Rightarrow> cert_envelope" where
  "envelope_of c = \<lparr>enNonce = ctNonce c, enPeerID = ctPeerID c, enDisplayName = ctDisplayName c, enBackend = ctBackend c,
     enProjectPath = ctProjectPath c, enRuntimeSessionID = ctRuntimeSessionID c, enPaneID = ctPaneID c,
     enAgentPID = ctAgentPID c, enParentPID = ctParentPID c\<rparr>"

lemma formatTS_roundtrip:
  assumes "iso_range t"
  shows "parseTS (formatTS t) = Some (t div 1000000 * 1000000)"
proof -
  have "parse_frac (''.'' @ itoa_pad 3 (t mod second div 1000000) @ CHR ''Z'' # []) = (t mod second div 1000000 * 10 ^ (9 - 3), CHR ''Z'' # [])"
    by (rule parse_frac_fixed) (use unit_bounds [of 1000000 1000 t] zone_marks in simp_all)
  from parse_date_time [OF assms this]
  have "parseTS (formatTS t) = Some (t div second * second + t mod second div 1000000 * 1000000)"
    by (simp add: parseTS_def formatTS_def parse_zone_def)
  also have "t div second * second + t mod second div 1000000 * 1000000 = t div 1000000 * 1000000"
    by (rule unit_split [of 1000000 1000]) simp_all
  finally show ?thesis .
qed

lemma mint_all_get: "gm_get (mint_all calls db) nonce = Some c \<Longrightarrow>
    gm_get db nonce = Some c \<or> (\<exists>now q. (now, nonce, q) \<in> set calls \<and> c = prepareCertificate now nonce q)"
proof (induction calls arbitrary: db)
  case (Cons call calls)
  obtain now n q where call: "call = (now, n, q)" by (cases call)
  from Cons.IH [of "snd (MintBirthCertificate now n q db)"] Cons.prems show ?case
    by (auto simp: call mint_all_def MintBirthCertificate_def Let_def split: if_splits)
qed (simp add: mint_all_def)

lemma envelope_of_eq: "en = (envelope_of c)\<lparr>enNonce := enNonce en\<rparr> \<longleftrightarrow>
    enPeerID en = ctPeerID c \<and> enDisplayName en = ctDisplayName c \<and> enBackend en = ctBackend c \<and>
    enProjectPath en = ctProjectPath c \<and> enRuntimeSessionID en = ctRuntimeSessionID c \<and> enPaneID en = ctPaneID c \<and>
    enAgentPID en = ctAgentPID c \<and> enParentPID en = ctParentPID c"
  by (cases en) (auto simp: envelope_of_def)

lemma ValidateBirthCertificate_Some:
  "ValidateBirthCertificate now en backend path pane pid db = Some c \<longleftrightarrow>
     enNonce en \<noteq> [] \<and> gm_get db (enNonce en) = Some c \<and> unexpired now c \<and> ctBackend c = backend \<and>
     ctProjectPath c = or_empty path \<and> en = (envelope_of c)\<lparr>enNonce := enNonce en\<rparr> \<and>
     \<not> contradicts (ctPaneID c) pane \<and> \<not> contradicts (ctAgentPID c) pid"
proof (cases "gm_get db (enNonce en)")
  case None
  then show ?thesis by (simp add: ValidateBirthCertificate_def getCertByNonce_def)
next
  case (Some d)
  have chain: "(if p then None else e) = Some c \<longleftrightarrow> \<not> p \<and> e = Some c" for p e by simp
  show ?thesis using Some unfolding ValidateBirthCertificate_def getCertByNonce_def envelope_of_eq chain
    by (simp add: chain del: if_split) metis
qed

lemma unexpired_prepare: "iso_range (expiry now0 q) \<Longrightarrow>
    unexpired now (prepareCertificate now0 nonce q) \<longleftrightarrow> now < expiry now0 q div 1000000 * 1000000"
  using formatTS_roundtrip [of "expiry now0 q"] by (simp add: unexpired_def prepareCertificate_def Let_def expiry_def)

lemma mint_all_keeps: "gm_get db n = Some x \<Longrightarrow> gm_get (mint_all calls db) n = Some x"
proof (induction calls arbitrary: db)
  case (Cons call calls)
  obtain t n' q where call: "call = (t, n', q)" by (cases call)
  have "gm_get (snd (MintBirthCertificate t n' q db)) n = Some x"
    using Cons.prems by (cases "n' = n") (simp_all add: MintBirthCertificate_def gm_has_def Let_def)
  from Cons.IH [OF this] show ?case by (simp add: mint_all_def call)
qed (simp add: mint_all_def)

lemma mint_all_stored:
  "(t, n, q) \<in> set calls \<Longrightarrow> gm_get db n = None \<Longrightarrow> distinct (map (\<lambda>(t, n, q). n) calls) \<Longrightarrow>
     gm_get (mint_all calls db) n = Some (prepareCertificate t n q)"
proof (induction calls arbitrary: db)
  case (Cons call calls)
  obtain t' n' q' where call: "call = (t', n', q')" by (cases call)
  let ?db = "snd (MintBirthCertificate t' n' q' db)"
  have step: "mint_all (call # calls) db = mint_all calls ?db" by (simp add: call mint_all_def)
  show ?case
  proof (cases "call = (t, n, q)")
    case True
    then have "gm_get ?db n = Some (prepareCertificate t n q)"
      using Cons.prems(2) call by (simp add: MintBirthCertificate_def gm_has_def Let_def)
    then show ?thesis unfolding step by (rule mint_all_keeps)
  next
    case False
    then have later: "(t, n, q) \<in> set calls" using Cons.prems(1) by simp
    have "n \<in> (\<lambda>(t, n, q). n) ` set calls" using imageI [OF later, of "\<lambda>(t, n, q). n"] by simp
    moreover have "n' \<notin> (\<lambda>(t, n, q). n) ` set calls" using Cons.prems(3) by (simp add: call)
    ultimately have "n' \<noteq> n" by metis
    then have "gm_get ?db n = None" using Cons.prems(2) by (simp add: MintBirthCertificate_def Let_def)
    then show ?thesis unfolding step using later Cons.prems(3) by (intro Cons.IH) simp_all
  qed
qed simp

text \<open>
  C38: a certificate proves the runtime it was minted for, and nothing else. An envelope is accepted at
  a time \<open>now\<close> exactly when some call minted its nonce for the peer, name, backend, path, session, pane and
  process ids the envelope carries and the caller's process does not contradict, and the expiry of
  that certificate, cut to milliseconds, still lies ahead; what comes back is that certificate.
\<close>

theorem certificate_proves_runtime:
  assumes "\<forall>(t, n, q)\<in>set calls. iso_range (expiry t q)" "distinct (map (\<lambda>(t, n, q). n) calls)" "enNonce en \<noteq> []"
  shows "ValidateBirthCertificate now en backend path pane pid (mint_all calls []) = Some c \<longleftrightarrow>
     (\<exists>t q. (t, enNonce en, q) \<in> set calls \<and> c = prepareCertificate t (enNonce en) q \<and> en = envelope_of c \<and>
        now < expiry t q div 1000000 * 1000000 \<and> mrBackend q = backend \<and> or_empty (mrProjectPath q) = or_empty path \<and>
        \<not> contradicts (mrPaneID q) pane \<and> \<not> contradicts (mrAgentPID q) pid)"
proof -
  have from_call: "(\<exists>t q. (t, n, q) \<in> set calls \<and> c = prepareCertificate t n q) \<longleftrightarrow> gm_get (mint_all calls []) n = Some c" for n
    using mint_all_get [of calls "[]" n c] mint_all_stored [of _ n _ calls "[]"] assms(2) by auto
  have fields: "ctNonce (prepareCertificate t n q) = n" "ctBackend (prepareCertificate t n q) = mrBackend q"
    "ctProjectPath (prepareCertificate t n q) = or_empty (mrProjectPath q)" "ctPaneID (prepareCertificate t n q) = mrPaneID q"
    "ctAgentPID (prepareCertificate t n q) = mrAgentPID q" for t n q
    by (simp_all add: prepareCertificate_def Let_def)
  have live: "unexpired now (prepareCertificate t n q) \<longleftrightarrow> now < expiry t q div 1000000 * 1000000" if "(t, n, q) \<in> set calls" for t n q
    by (rule unexpired_prepare) (use assms(1) that in auto)
  have same: "en = (envelope_of c)\<lparr>enNonce := enNonce en\<rparr> \<longleftrightarrow> en = envelope_of c" if "ctNonce c = enNonce en" for c
    using that by (simp add: envelope_of_def)
  let ?P = "\<lambda>x. unexpired now x \<and> ctBackend x = backend \<and> ctProjectPath x = or_empty path \<and>
    en = (envelope_of x)\<lparr>enNonce := enNonce en\<rparr> \<and> \<not> contradicts (ctPaneID x) pane \<and> \<not> contradicts (ctAgentPID x) pid"
  have "ValidateBirthCertificate now en backend path pane pid (mint_all calls []) = Some c \<longleftrightarrow>
      gm_get (mint_all calls []) (enNonce en) = Some c \<and> ?P c"
    using assms(3) unfolding ValidateBirthCertificate_Some by simp
  also have "\<dots> \<longleftrightarrow> (\<exists>t q. (t, enNonce en, q) \<in> set calls \<and> c = prepareCertificate t (enNonce en) q \<and> ?P (prepareCertificate t (enNonce en) q))"
    unfolding from_call [symmetric] by blast
  finally have stored: "ValidateBirthCertificate now en backend path pane pid (mint_all calls []) = Some c \<longleftrightarrow> \<dots>" .
  have pt: "(t, enNonce en, q) \<in> set calls \<and> c = prepareCertificate t (enNonce en) q \<and> ?P (prepareCertificate t (enNonce en) q) \<longleftrightarrow>
      (t, enNonce en, q) \<in> set calls \<and> c = prepareCertificate t (enNonce en) q \<and> en = envelope_of c \<and>
        now < expiry t q div 1000000 * 1000000 \<and> mrBackend q = backend \<and> or_empty (mrProjectPath q) = or_empty path \<and>
        \<not> contradicts (mrPaneID q) pane \<and> \<not> contradicts (mrAgentPID q) pid" for t q
    using live [of t "enNonce en" q] same [OF fields(1)] by (simp only: fields) metis
  show ?thesis unfolding stored pt by (rule refl)
qed

definition sample_mint :: mint_request where
  "sample_mint = \<lparr>mrPeerID = ''p1'', mrDisplayName = ''api'', mrBackend = ''codex'', mrProjectPath = Some ''/w'',
     mrRuntimeSessionID = None, mrPaneID = Some ''%1'', mrAgentPID = Some 42, mrParentPID = None, mrMetadata = [],
     mrTTL = 0, mrIssuedAt = None\<rparr>"

theorem certificate_proves_runtime_witness:
  "ValidateBirthCertificate 1709208001000000000 (envelope_of (prepareCertificate 1709208000000000000 ''n1'' sample_mint)) ''codex''
      (Some ''/w'') (Some ''%1'') (Some 42) (mint_all [(1709208000000000000, ''n1'', sample_mint)] []) =
    Some (prepareCertificate 1709208000000000000 ''n1'' sample_mint) \<and>
   ValidateBirthCertificate 1709208001000000000 (envelope_of (prepareCertificate 1709208000000000000 ''n1'' sample_mint)) ''codex''
      (Some ''/w'') (Some ''%2'') (Some 42) (mint_all [(1709208000000000000, ''n1'', sample_mint)] []) \<noteq>
    Some (prepareCertificate 1709208000000000000 ''n1'' sample_mint)"
proof -
  let ?c = "prepareCertificate 1709208000000000000 ''n1'' sample_mint"
  have e: "enNonce (envelope_of ?c) = ''n1''" by (simp add: envelope_of_def prepareCertificate_def Let_def)
  have x: "expiry 1709208000000000000 sample_mint = 1709294400000000000"
    by (simp add: expiry_def sample_mint_def DefaultCertificateTTL_def)
  have r: "iso_range (1709294400000000000 :: int)" by (simp add: iso_range_def)
  have iff: "ValidateBirthCertificate 1709208001000000000 (envelope_of ?c) ''codex'' (Some ''/w'') pane (Some 42)
      (mint_all [(1709208000000000000, ''n1'', sample_mint)] []) = Some ?c \<longleftrightarrow> \<not> contradicts (Some ''%1'') pane" for pane
    using certificate_proves_runtime [of "[(1709208000000000000, ''n1'', sample_mint)]" "envelope_of ?c"
        1709208001000000000 "''codex''" "Some ''/w''" pane "Some 42" ?c] r
    by (simp add: e x) (simp add: sample_mint_def or_empty_def contradicts_def)
  show ?thesis unfolding iff by (simp add: contradicts_def)
qed

end
