(* ===== verification/Trace_Store.thy ===== *)
theory Trace_Store
  imports Cert_Store
begin

text \<open>
  Delivery traces, \<open>daemon-go/state/delivery_traces.go\<close>, on the table \<open>delivery_traces\<close> keyed by a minted
  row id: one row per stage a message went through. The ordinal is computed inside the INSERT, so
  recording is one atomic statement. \<open>formatTS\<close> is the layout of the time column.
\<close>

record trace_row =
  trTraceID :: string
  trDeliveryID :: string
  trSeq :: int
  trKind :: string
  trStage :: string
  trStatus :: string
  trPeerID :: string
  trFromPeerID :: string
  trTS :: string
  trDetail :: jobject

type_synonym trace_table = "(string, trace_row) gomap"

record trace_call =
  tcRowID :: string
  tcNow :: gotime
  tcTraceID :: string
  tcKind :: string
  tcStage :: string
  tcStatus :: string
  tcDeliveryID :: string
  tcPeerID :: string
  tcFromPeerID :: string
  tcDetail :: jobject

text \<open>\<open>SELECT COALESCE(MAX(seq), -1) + 1 ... WHERE trace_id = ?\<close>.\<close>

definition next_seq :: "string \<Rightarrow> trace_table \<Rightarrow> int" where
  "next_seq traceID db =
     (let seqs = map trSeq (rows_where (\<lambda>r. trTraceID r = traceID) db)
      in (if seqs = [] then -1 else Max (set seqs)) + 1)"

definition trace_row_of :: "int \<Rightarrow> trace_call \<Rightarrow> trace_row" where
  "trace_row_of n c =
     \<lparr>trTraceID = tcTraceID c, trDeliveryID = (if tcDeliveryID c = [] then tcTraceID c else tcDeliveryID c), trSeq = n,
      trKind = tcKind c, trStage = tcStage c, trStatus = (if tcStatus c = [] then ''ok'' else tcStatus c),
      trPeerID = tcPeerID c, trFromPeerID = tcFromPeerID c, trTS = formatTS (tcNow c), trDetail = tcDetail c\<rparr>"

text \<open>False is the failed INSERT of a row id that is there already.\<close>

definition RecordTrace :: "trace_call \<Rightarrow> trace_table \<Rightarrow> bool \<times> trace_table" where
  "RecordTrace c db =
     (if gm_has db (tcRowID c) then (False, db)
      else (True, gm_put (tcRowID c) (trace_row_of (next_seq (tcTraceID c) db) c) db))"

definition StagesFor :: "string \<Rightarrow> trace_table \<Rightarrow> trace_row list" where
  "StagesFor traceID db = sort_key trSeq (rows_where (\<lambda>r. trTraceID r = traceID) db)"

definition defaultInboundStages :: "string list" where
  "defaultInboundStages = [''pane_injected'', ''thread_input_accepted'', ''injection_failed'']"

text \<open>\<open>GROUP BY peer_id, stage\<close>; an empty peer id is stored as NULL and matches no \<open>IN\<close> list.\<close>

definition stage_times :: "string \<Rightarrow> string \<Rightarrow> trace_table \<Rightarrow> dbtext list" where
  "stage_times p s db = map (\<lambda>r. DBText (trTS r)) (rows_where (\<lambda>r. trPeerID r = p \<and> p \<noteq> [] \<and> trStage r = s) db)"

definition LatestStagesForPeers :: "string list \<Rightarrow> string list \<Rightarrow> trace_table \<Rightarrow> (string \<times> string, string) gomap" where
  "LatestStagesForPeers peerIDs stages db =
     (let wanted = (if stages = [] then defaultInboundStages else stages)
      in map (\<lambda>(p, s). ((p, s), dbtext (Max (set (stage_times p s db)))))
           (filter (\<lambda>(p, s). stage_times p s db \<noteq> []) (List.product peerIDs wanted)))"

section \<open>Stages come back in the order they were recorded\<close>

definition trace_run :: "trace_call list \<Rightarrow> trace_table" where
  "trace_run calls = fold (\<lambda>c db. snd (RecordTrace c db)) calls []"

text \<open>The rows a run leaves for one trace: its calls, numbered from 0.\<close>

definition numbered :: "trace_call list \<Rightarrow> trace_row list" where
  "numbered calls = map (\<lambda>(n, c). trace_row_of (int n) c) (List.enumerate 0 calls)"

lemma numbered_snoc: "numbered (calls @ [c]) = numbered calls @ [trace_row_of (int (length calls)) c]"
  by (simp add: numbered_def enumerate_append_eq)

lemma seqs_numbered: "map trSeq (numbered calls) = map int [0..<length calls]"
  by (induction calls rule: rev_induct) (simp_all add: numbered_snoc trace_row_of_def, simp add: numbered_def)

lemma update_fresh: "k \<notin> fst ` set t \<Longrightarrow> AList.update k v t = t @ [(k, v)]"
  by (induction t) auto

lemma rows_where_insert: "\<not> gm_has t k \<Longrightarrow> rows_where P (gm_put k v t) = rows_where P t @ (if P v then [v] else [])"
  by (simp add: rows_where_def gm_put_def gm_has_def gm_get_None_iff update_fresh)

lemma trace_run_snoc: "trace_run (calls @ [c]) = snd (RecordTrace c (trace_run calls))"
  by (simp add: trace_run_def)

lemma trace_run_ids: "gm_has (trace_run calls) i \<Longrightarrow> i \<in> tcRowID ` set calls"
  by (induction calls rule: rev_induct)
    (auto simp: trace_run_snoc RecordTrace_def gm_has_def split: if_splits, simp add: trace_run_def)

lemma Max_upto: "0 < n \<Longrightarrow> Max (int ` {0..<n}) = int n - 1"
  by (rule Max_eqI) (auto intro!: image_eqI [of _ _ "n - 1"])

lemma trace_rows:
  assumes "distinct (map tcRowID calls)"
  shows "rows_where (\<lambda>r. trTraceID r = tr) (trace_run calls) = numbered (filter (\<lambda>c. tcTraceID c = tr) calls)"
  using assms
proof (induction calls arbitrary: tr rule: rev_induct)
  case (snoc c calls)
  let ?mine = "filter (\<lambda>d. tcTraceID d = tcTraceID c) calls"
  have fresh: "\<not> gm_has (trace_run calls) (tcRowID c)" using trace_run_ids [of calls "tcRowID c"] snoc.prems by auto
  have rows: "rows_where (\<lambda>r. trTraceID r = x) (trace_run calls) = numbered (filter (\<lambda>d. tcTraceID d = x) calls)" for x
    using snoc by simp
  have "next_seq (tcTraceID c) (trace_run calls) = int (length ?mine)"
  proof (cases "?mine = []")
    case True
    then show ?thesis by (simp add: next_seq_def rows numbered_def)
  next
    case False
    then have "Max (int ` {0..<length ?mine}) = int (length ?mine) - 1" by (intro Max_upto) simp
    then show ?thesis using False by (simp add: next_seq_def rows seqs_numbered)
  qed
  then have run: "trace_run (calls @ [c]) = gm_put (tcRowID c) (trace_row_of (int (length ?mine)) c) (trace_run calls)"
    using fresh by (simp add: trace_run_snoc RecordTrace_def)
  show ?case unfolding run using rows [of tr] by (simp add: rows_where_insert [OF fresh] numbered_snoc trace_row_of_def)
qed (simp add: trace_run_def numbered_def rows_where_def)

text \<open>
  The stages of a message are read back completely and in the order they were recorded. Whatever
  traces are written in between, \<open>StagesFor\<close> returns exactly the stages recorded for that trace,
  numbered 0, 1, 2, ... without gaps, in the order of their calls.
\<close>

theorem stages_in_recorded_order:
  assumes "distinct (map tcRowID calls)"
  shows "StagesFor tr (trace_run calls) = numbered (filter (\<lambda>c. tcTraceID c = tr) calls) \<and>
     map trSeq (StagesFor tr (trace_run calls)) = map int [0..<length (filter (\<lambda>c. tcTraceID c = tr) calls)]"
proof -
  let ?mine = "filter (\<lambda>c. tcTraceID c = tr) calls"
  have "sorted (map trSeq (numbered ?mine))" by (simp add: seqs_numbered sorted_iff_nth_mono)
  then have "StagesFor tr (trace_run calls) = numbered ?mine"
    unfolding StagesFor_def trace_rows [OF assms] by (rule sort_key_id_if_sorted)
  then show ?thesis by (simp add: seqs_numbered)
qed

definition sample_stage :: "string \<Rightarrow> string \<Rightarrow> string \<Rightarrow> trace_call" where
  "sample_stage i tr stage = \<lparr>tcRowID = i, tcNow = 0, tcTraceID = tr, tcKind = ''ask'', tcStage = stage, tcStatus = [],
     tcDeliveryID = [], tcPeerID = ''p1'', tcFromPeerID = [], tcDetail = []\<rparr>"

theorem stages_in_recorded_order_witness:
  "map trStage (StagesFor ''m1'' (trace_run [sample_stage ''r1'' ''m1'' ''accepted'', sample_stage ''r2'' ''m2'' ''accepted'',
      sample_stage ''r3'' ''m1'' ''pane_injected''])) = [''accepted'', ''pane_injected'']"
  using stages_in_recorded_order [of "[sample_stage ''r1'' ''m1'' ''accepted'', sample_stage ''r2'' ''m2'' ''accepted'',
      sample_stage ''r3'' ''m1'' ''pane_injected'']" "''m1''"]
  by (simp add: sample_stage_def numbered_def trace_row_of_def)

end
