(* ===== verification/Ws_Transport.thy ===== *)
theory Ws_Transport
  imports Proto
begin

text \<open>
  The socket registry of \<open>daemon-go/service/transport.go\<close>: which connection serves a peer, and the
  channels on which a pong or a delivery receipt is handed to the request waiting for it.

  A socket is a number (a \<open>*websocket.Conn\<close> is compared by identity; the hub never passes nil). A Go
  channel of capacity 1 is a list of at most one frame, and a send that would block is None. A method that
  waits is split where it releases the mutex: one step registers the channel, one sends the frame,
  one receives or times out and runs the deferred delete. Whether a write on a socket succeeds is
  decided by the network and is an argument. \<open>tpWire\<close> records the frames written, \<open>tpClosed\<close> the
  sockets closed. The ACP broker behind \<open>acp\<close> is present or not.
\<close>

section \<open>State\<close>

datatype transport_error = ErrNotConnected string | ErrTransportUnavailable | ErrPingTimeout string | ErrCancelled

record conn_info =
  ciSessionID :: string
  ciWS :: nat
  ciPaneID :: "string option"
  ciDisplayName :: string
  ciConnectedAt :: gotime

record transport =
  tpConns :: "(string, conn_info) gomap"
  tpPongs :: "(string, nat) gomap"
  tpAcks :: "(string \<times> string, nat) gomap"
  tpACP :: bool
  tpChans :: "(nat, jobject list) gomap"
  tpNext :: nat
  tpWire :: "(nat \<times> jobject) list"
  tpClosed :: "nat list"

definition NewWebSocketTransport :: transport where
  "NewWebSocketTransport = \<lparr>tpConns = [], tpPongs = [], tpAcks = [], tpACP = False, tpChans = [], tpNext = 0,
     tpWire = [], tpClosed = []\<rparr>"

definition EnableACP :: "bool \<Rightarrow> transport \<Rightarrow> transport" where
  "EnableACP enabled t = t\<lparr>tpACP := enabled\<rparr>"

section \<open>Connections\<close>

definition Connect :: "conn_info \<Rightarrow> transport \<Rightarrow> transport" where
  "Connect info t =
     (let t1 = t\<lparr>tpConns := gm_put (ciSessionID info) info (tpConns t)\<rparr>
      in case gm_get (tpConns t) (ciSessionID info) of
           None \<Rightarrow> t1
         | Some old \<Rightarrow> t1\<lparr>tpClosed := tpClosed t @ [ciWS old]\<rparr>)"

definition Disconnect :: "string \<Rightarrow> nat \<Rightarrow> transport \<Rightarrow> bool \<times> transport" where
  "Disconnect i ws t = (case gm_get (tpConns t) i of
       None \<Rightarrow> (False, t)
     | Some info \<Rightarrow> if ciWS info \<noteq> ws then (False, t) else (True, t\<lparr>tpConns := gm_del i (tpConns t)\<rparr>))"

definition CloseConn :: "string \<Rightarrow> transport \<Rightarrow> transport" where
  "CloseConn i t = (case gm_get (tpConns t) i of
       None \<Rightarrow> t
     | Some info \<Rightarrow> t\<lparr>tpConns := gm_del i (tpConns t), tpClosed := tpClosed t @ [ciWS info]\<rparr>)"

definition IsConnected :: "string \<Rightarrow> transport \<Rightarrow> bool" where
  "IsConnected i t = gm_has (tpConns t) i"

definition ConnectionPaneID :: "string \<Rightarrow> transport \<Rightarrow> string option" where
  "ConnectionPaneID i t = (case gm_get (tpConns t) i of None \<Rightarrow> None | Some info \<Rightarrow> ciPaneID info)"

definition GetAllSessions :: "transport \<Rightarrow> string list" where
  "GetAllSessions t = map fst (tpConns t)"

definition Send :: "bool \<Rightarrow> string \<Rightarrow> jobject \<Rightarrow> transport \<Rightarrow> transport_error option \<times> transport" where
  "Send writes i frame t = (case gm_get (tpConns t) i of
       None \<Rightarrow> (Some (ErrNotConnected i), t)
     | Some info \<Rightarrow>
         if writes then (None, t\<lparr>tpWire := tpWire t @ [(ciWS info, frame)]\<rparr>)
         else (Some ErrTransportUnavailable, t))"

section \<open>Waiting for a frame\<close>

definition new_chan :: "transport \<Rightarrow> nat \<times> transport" where
  "new_chan t = (tpNext t, t\<lparr>tpChans := gm_put (tpNext t) [] (tpChans t), tpNext := Suc (tpNext t)\<rparr>)"

definition hand_over :: "nat \<Rightarrow> jobject \<Rightarrow> transport \<Rightarrow> transport option" where
  "hand_over ch data t = (case gm_get (tpChans t) ch of
       Some [] \<Rightarrow> Some (t\<lparr>tpChans := gm_put ch [data] (tpChans t)\<rparr>)
     | _ \<Rightarrow> None)"

definition take_frame :: "nat \<Rightarrow> transport \<Rightarrow> (jobject \<times> transport) option" where
  "take_frame ch t = (case gm_get (tpChans t) ch of
       Some (data # rest) \<Rightarrow> Some (data, t\<lparr>tpChans := gm_put ch rest (tpChans t)\<rparr>)
     | _ \<Rightarrow> None)"

text \<open>A \<open>select\<close> over the channel, the timer and the context; a receive from an empty channel is not enabled.\<close>

datatype wait_end = EndReceive | EndTimeout | EndCancel

definition extractDeliveryID :: "jobject \<Rightarrow> string option" where
  "extractDeliveryID frame = (case gm_get frame ''delivery_id'' of Some (JStr i) \<Rightarrow> Some i | _ \<Rightarrow> None)"

definition ack_begin :: "string \<Rightarrow> string \<Rightarrow> transport \<Rightarrow> nat \<times> transport" where
  "ack_begin i deliveryID t =
     (let (ch, t1) = new_chan t in (ch, t1\<lparr>tpAcks := gm_put (i, deliveryID) ch (tpAcks t1)\<rparr>))"

definition ack_end :: "string \<Rightarrow> string \<Rightarrow> transport \<Rightarrow> transport" where
  "ack_end i deliveryID t = t\<lparr>tpAcks := gm_del (i, deliveryID) (tpAcks t)\<rparr>"

definition ResolveDeliveryAck :: "string \<Rightarrow> string \<Rightarrow> jobject \<Rightarrow> transport \<Rightarrow> transport option" where
  "ResolveDeliveryAck i deliveryID data t =
     (if deliveryID = [] then Some t
      else (case gm_get (tpAcks t) (i, deliveryID) of
          None \<Rightarrow> Some t
        | Some ch \<Rightarrow> hand_over ch data (t\<lparr>tpAcks := gm_del (i, deliveryID) (tpAcks t)\<rparr>)))"

definition ack_finish :: "wait_end \<Rightarrow> string \<Rightarrow> string \<Rightarrow> nat \<Rightarrow> transport \<Rightarrow>
    ((transport_error + jobject option) \<times> transport) option" where
  "ack_finish how i deliveryID ch t = (case how of
       EndReceive \<Rightarrow> (case take_frame ch t of None \<Rightarrow> None | Some (d, t1) \<Rightarrow> Some (Inr (Some d), ack_end i deliveryID t1))
     | EndTimeout \<Rightarrow> Some (Inr None, ack_end i deliveryID t)
     | EndCancel \<Rightarrow> Some (Inl ErrCancelled, ack_end i deliveryID t))"

text \<open>
  A whole call with nothing in between but what the peer's socket brings: the receipt, nothing until
  the timeout, or the end of the caller's context. A missing receipt is no error.
\<close>

datatype receipt = Receipt jobject | NoReceipt | Cancelled

definition plain_send :: "bool \<Rightarrow> string \<Rightarrow> jobject \<Rightarrow> transport \<Rightarrow> (transport_error + jobject option) \<times> transport" where
  "plain_send writes i frame t =
     (case Send writes i frame t of (Some x, t1) \<Rightarrow> (Inl x, t1) | (None, t1) \<Rightarrow> (Inr None, t1))"

definition SendAndWaitDeliveryAck :: "bool \<Rightarrow> receipt \<Rightarrow> string \<Rightarrow> jobject \<Rightarrow> transport \<Rightarrow>
    ((transport_error + jobject option) \<times> transport) option" where
  "SendAndWaitDeliveryAck writes receipt i frame t = (case extractDeliveryID frame of
       None \<Rightarrow> Some (plain_send writes i frame t)
     | Some deliveryID \<Rightarrow>
         if deliveryID = [] then Some (plain_send writes i frame t)
         else (let (ch, t1) = ack_begin i deliveryID t
               in case Send writes i frame t1 of
                    (Some x, t2) \<Rightarrow> Some (Inl x, ack_end i deliveryID t2)
                  | (None, t2) \<Rightarrow> (case receipt of
                        Receipt data \<Rightarrow> (case ResolveDeliveryAck i deliveryID data t2 of
                            None \<Rightarrow> None | Some t3 \<Rightarrow> ack_finish EndReceive i deliveryID ch t3)
                      | NoReceipt \<Rightarrow> ack_finish EndTimeout i deliveryID ch t2
                      | Cancelled \<Rightarrow> ack_finish EndCancel i deliveryID ch t2)))"

definition ping_begin :: "string \<Rightarrow> transport \<Rightarrow> (transport_error + nat) \<times> transport" where
  "ping_begin i t =
     (if gm_has (tpConns t) i
      then (let (ch, t1) = new_chan t in (Inr ch, t1\<lparr>tpPongs := gm_put i ch (tpPongs t1)\<rparr>))
      else (Inl (ErrNotConnected i), t))"

definition ping_end :: "string \<Rightarrow> transport \<Rightarrow> transport" where
  "ping_end i t = t\<lparr>tpPongs := gm_del i (tpPongs t)\<rparr>"

definition ping_finish :: "wait_end \<Rightarrow> string \<Rightarrow> nat \<Rightarrow> transport \<Rightarrow> ((transport_error + jobject) \<times> transport) option" where
  "ping_finish how i ch t = (case how of
       EndReceive \<Rightarrow> (case take_frame ch t of None \<Rightarrow> None | Some (d, t1) \<Rightarrow> Some (Inr d, ping_end i t1))
     | EndTimeout \<Rightarrow> Some (Inl (ErrPingTimeout i), ping_end i t)
     | EndCancel \<Rightarrow> Some (Inl ErrCancelled, ping_end i t))"

definition ResolvePong :: "string \<Rightarrow> jobject \<Rightarrow> transport \<Rightarrow> transport option" where
  "ResolvePong i data t = (case gm_get (tpPongs t) i of
       None \<Rightarrow> Some t
     | Some ch \<Rightarrow> hand_over ch data (t\<lparr>tpPongs := gm_del i (tpPongs t)\<rparr>))"

section \<open>The route to a subprocess\<close>

record acp_spec =
  asPeerID :: string
  asCommand :: string
  asArgs :: "string list"
  asCWD :: string
  asEnv :: "(string, string) gomap"

definition json_string :: "json \<Rightarrow> string option" where
  "json_string v = (case v of JStr s \<Rightarrow> Some s | _ \<Rightarrow> None)"

definition json_strings :: "json option \<Rightarrow> string list" where
  "json_strings v = (case v of Some (JArr vs) \<Rightarrow> List.map_filter json_string vs | _ \<Rightarrow> [])"

definition json_env :: "json option \<Rightarrow> (string, string) gomap" where
  "json_env v = (case v of
       Some (JObj kvs) \<Rightarrow> fold (\<lambda>(k, x) env. case json_string x of None \<Rightarrow> env | Some s \<Rightarrow> gm_put k s env) kvs []
     | _ \<Rightarrow> [])"

definition ACPRoute :: "transport \<Rightarrow> peer \<Rightarrow> acp_spec option" where
  "ACPRoute t target =
     (if \<not> tpACP t then None
      else (case gm_get (Metadata target) ''acp'' of
          Some (JObj raw) \<Rightarrow>
            (case gm_get raw ''command'' of
               Some (JStr command) \<Rightarrow>
                 if command = [] then None
                 else Some \<lparr>asPeerID = PeerID target, asCommand = command, asArgs = json_strings (gm_get raw ''args''),
                        asCWD = (case gm_get raw ''cwd'' of Some (JStr cwd) \<Rightarrow> if cwd = [] then Path target else cwd | _ \<Rightarrow> Path target),
                        asEnv = json_env (gm_get raw ''env'')\<rparr>
             | _ \<Rightarrow> None)
        | _ \<Rightarrow> None))"

end
