(* ===== verification/Transport_Facts.thy ===== *)
theory Transport_Facts
  imports Ws_Transport
begin

text \<open>
  What the socket registry keeps under any interleaving of its methods: handing a frame over never
  blocks, and the connection of a peer is the one that connected last, whatever handlers of older
  sockets still do.
\<close>

section \<open>Channels\<close>

text \<open>Each registered channel is empty, and registered once.\<close>

definition chans_ok :: "transport \<Rightarrow> bool" where
  "chans_ok t \<longleftrightarrow>
     (\<forall>k ch. gm_get (tpAcks t) k = Some ch \<longrightarrow> gm_get (tpChans t) ch = Some [] \<and> ch < tpNext t) \<and>
     (\<forall>i ch. gm_get (tpPongs t) i = Some ch \<longrightarrow> gm_get (tpChans t) ch = Some [] \<and> ch < tpNext t) \<and>
     (\<forall>k k' ch. gm_get (tpAcks t) k = Some ch \<longrightarrow> gm_get (tpAcks t) k' = Some ch \<longrightarrow> k = k') \<and>
     (\<forall>i i' ch. gm_get (tpPongs t) i = Some ch \<longrightarrow> gm_get (tpPongs t) i' = Some ch \<longrightarrow> i = i') \<and>
     (\<forall>k i ch. gm_get (tpAcks t) k = Some ch \<longrightarrow> gm_get (tpPongs t) i \<noteq> Some ch)"

lemma ack_chan: "chans_ok t \<Longrightarrow> gm_get (tpAcks t) k = Some ch \<Longrightarrow> gm_get (tpChans t) ch = Some [] \<and> ch < tpNext t"
  and pong_chan: "chans_ok t \<Longrightarrow> gm_get (tpPongs t) i = Some ch \<Longrightarrow> gm_get (tpChans t) ch = Some [] \<and> ch < tpNext t"
  and ack_chan_once: "chans_ok t \<Longrightarrow> gm_get (tpAcks t) k = Some ch \<Longrightarrow> gm_get (tpAcks t) k' = Some ch \<Longrightarrow> k = k'"
  and pong_chan_once: "chans_ok t \<Longrightarrow> gm_get (tpPongs t) i = Some ch \<Longrightarrow> gm_get (tpPongs t) i' = Some ch \<Longrightarrow> i = i'"
  and chans_apart: "chans_ok t \<Longrightarrow> gm_get (tpAcks t) k = Some ch \<Longrightarrow> gm_get (tpPongs t) i = Some ch \<Longrightarrow> False"
  unfolding chans_ok_def by blast+

text \<open>
  One step of a request or of a socket's read loop, labelled with the event that changes which
  socket serves a peer. A wait can only receive from a channel that was filled before.
\<close>

datatype conn_op = OpConnect conn_info | OpDisconnect string nat | OpClose string

inductive tp_step :: "conn_op option \<Rightarrow> transport \<Rightarrow> transport \<Rightarrow> bool" where
  connect: "tp_step (Some (OpConnect info)) t (Connect info t)"
| disconnect: "tp_step (Some (OpDisconnect i ws)) t (snd (Disconnect i ws t))"
| close: "tp_step (Some (OpClose i)) t (CloseConn i t)"
| acp: "tp_step None t (EnableACP enabled t)"
| send: "tp_step None t (snd (Send writes i frame t))"
| ack_wait: "tp_step None t (snd (ack_begin i d t))"
| ack_done: "ack_finish how i d ch t = Some (res, t') \<Longrightarrow> tp_step None t t'"
| ack_frame: "ResolveDeliveryAck i d data t = Some t' \<Longrightarrow> tp_step None t t'"
| ping_wait: "tp_step None t (snd (ping_begin i t))"
| ping_done: "ping_finish how i ch t = Some (pong, t') \<Longrightarrow> tp_step None t t'"
| pong_frame: "ResolvePong i data t = Some t' \<Longrightarrow> tp_step None t t'"

inductive tp_run :: "conn_op list \<Rightarrow> transport \<Rightarrow> bool" where
  start: "tp_run [] NewWebSocketTransport"
| other: "tp_run ops t \<Longrightarrow> tp_step None t t' \<Longrightarrow> tp_run ops t'"
| event: "tp_run ops t \<Longrightarrow> tp_step (Some op) t t' \<Longrightarrow> tp_run (ops @ [op]) t'"

inductive_cases tp_event: "tp_step (Some op) t t'"
inductive_cases tp_other: "tp_step None t t'"

lemma chans_ok_conns [simp]:
  "chans_ok (t\<lparr>tpConns := c\<rparr>) = chans_ok t" "chans_ok (t\<lparr>tpClosed := x\<rparr>) = chans_ok t"
  "chans_ok (t\<lparr>tpWire := w\<rparr>) = chans_ok t" "chans_ok (t\<lparr>tpACP := a\<rparr>) = chans_ok t"
  by (simp_all add: chans_ok_def)

lemma chans_ok_start: "chans_ok NewWebSocketTransport"
  by (simp add: chans_ok_def NewWebSocketTransport_def)

lemma chans_ok_unregister:
  assumes "chans_ok t"
  shows "chans_ok (t\<lparr>tpAcks := gm_del k (tpAcks t)\<rparr>)" "chans_ok (t\<lparr>tpPongs := gm_del i (tpPongs t)\<rparr>)"
  using assms by (auto simp: chans_ok_def split: if_splits)

lemma chans_ok_register:
  assumes "chans_ok t" "new_chan t = (ch, t1)"
  shows "chans_ok (t1\<lparr>tpAcks := gm_put k ch (tpAcks t1)\<rparr>)" "chans_ok (t1\<lparr>tpPongs := gm_put i ch (tpPongs t1)\<rparr>)"
proof -
  have t1: "ch = tpNext t" "t1 = t\<lparr>tpChans := gm_put (tpNext t) [] (tpChans t), tpNext := Suc (tpNext t)\<rparr>"
    using assms(2) by (auto simp: new_chan_def)
  have old: "c < tpNext t" if "gm_get (tpAcks t) x = Some c \<or> gm_get (tpPongs t) y = Some c" for x y c
    using that ack_chan [OF assms(1)] pong_chan [OF assms(1)] by blast
  have ne: "gm_get (tpAcks t) x \<noteq> Some (tpNext t)" "gm_get (tpPongs t) y \<noteq> Some (tpNext t)" for x y
    using old [of x "tpNext t" y] by auto
  show "chans_ok (t1\<lparr>tpAcks := gm_put k ch (tpAcks t1)\<rparr>)"
    using assms(1) ne unfolding t1 chans_ok_def by (simp add: less_Suc_eq del: split_paired_All) blast
  show "chans_ok (t1\<lparr>tpPongs := gm_put i ch (tpPongs t1)\<rparr>)"
    using assms(1) ne unfolding t1 chans_ok_def by (simp add: less_Suc_eq del: split_paired_All) blast
qed

lemma hand_over_fresh:
  assumes "gm_get (tpChans t) ch = Some []"
  shows "hand_over ch data t = Some (t\<lparr>tpChans := gm_put ch [data] (tpChans t)\<rparr>)"
  using assms by (simp add: hand_over_def)

lemma chans_ok_hand_over:
  assumes "chans_ok t" "hand_over ch data t = Some t'"
    and "\<And>k. gm_get (tpAcks t) k \<noteq> Some ch" "\<And>i. gm_get (tpPongs t) i \<noteq> Some ch"
  shows "chans_ok t'"
  using assms by (auto simp: chans_ok_def hand_over_def split: option.splits list.splits)

lemma chans_ok_take:
  assumes "chans_ok t" "take_frame ch t = Some (d, t')"
  shows "chans_ok t'"
proof -
  obtain rest where r: "gm_get (tpChans t) ch = Some (d # rest)" "t' = t\<lparr>tpChans := gm_put ch rest (tpChans t)\<rparr>"
    using assms(2) by (auto simp: take_frame_def split: option.splits list.splits)
  have "gm_get (tpAcks t) k \<noteq> Some ch" "gm_get (tpPongs t) i \<noteq> Some ch" for k i
    using ack_chan [OF assms(1)] pong_chan [OF assms(1)] r(1) by fastforce+
  then show ?thesis using assms(1) by (auto simp: r(2) chans_ok_def)
qed

lemma ack_resolve_ok:
  assumes "chans_ok t"
  shows "\<exists>t'. ResolveDeliveryAck i d data t = Some t' \<and> chans_ok t'"
proof (cases "d = [] \<or> gm_get (tpAcks t) (i, d) = None")
  case True
  then show ?thesis using assms by (auto simp: ResolveDeliveryAck_def)
next
  case False
  then obtain ch where ch: "gm_get (tpAcks t) (i, d) = Some ch" "d \<noteq> []" by auto
  let ?t = "t\<lparr>tpAcks := gm_del (i, d) (tpAcks t)\<rparr>"
  have "gm_get (tpChans ?t) ch = Some []" using ack_chan [OF assms ch(1)] by simp
  note go = hand_over_fresh [OF this, of data]
  have "gm_get (tpAcks ?t) k \<noteq> Some ch" "gm_get (tpPongs ?t) j \<noteq> Some ch" for k j
    using ack_chan_once [OF assms ch(1), of k] chans_apart [OF assms ch(1), of j] by auto
  from chans_ok_hand_over [OF chans_ok_unregister(1) [OF assms] go this] show ?thesis
    using ch by (simp add: ResolveDeliveryAck_def go)
qed

lemma pong_resolve_ok:
  assumes "chans_ok t"
  shows "\<exists>t'. ResolvePong i data t = Some t' \<and> chans_ok t'"
proof (cases "gm_get (tpPongs t) i")
  case None
  then show ?thesis using assms by (simp add: ResolvePong_def)
next
  case (Some ch)
  let ?t = "t\<lparr>tpPongs := gm_del i (tpPongs t)\<rparr>"
  have "gm_get (tpChans ?t) ch = Some []" using pong_chan [OF assms Some] by simp
  note go = hand_over_fresh [OF this, of data]
  have "gm_get (tpAcks ?t) k \<noteq> Some ch" "gm_get (tpPongs ?t) j \<noteq> Some ch" for k j
    using pong_chan_once [OF assms Some, of j] chans_apart [OF assms _ Some, of k] by auto
  from chans_ok_hand_over [OF chans_ok_unregister(2) [OF assms] go this] show ?thesis
    using Some by (simp add: ResolvePong_def go)
qed

lemma tp_step_ok: "tp_step lab t t' \<Longrightarrow> chans_ok t \<Longrightarrow> chans_ok t'"
proof (induction rule: tp_step.induct)
  case (ack_done how i d ch t res t')
  then show ?case
    by (auto simp: ack_finish_def ack_end_def intro: chans_ok_unregister chans_ok_take split: wait_end.splits option.splits)
next
  case (ping_done how i ch t pong t')
  then show ?case
    by (auto simp: ping_finish_def ping_end_def intro: chans_ok_unregister chans_ok_take split: wait_end.splits option.splits)
next
  case (ack_wait t i d)
  then show ?case by (auto simp: ack_begin_def split: prod.splits intro: chans_ok_register)
next
  case (ping_wait t i)
  then show ?case by (auto simp: ping_begin_def split: prod.splits intro: chans_ok_register)
next
  case (ack_frame i d data t t')
  then show ?case using ack_resolve_ok [of t i d data] by auto
next
  case (pong_frame i data t t')
  then show ?case using pong_resolve_ok [of t i data] by auto
qed (auto simp: Connect_def Disconnect_def CloseConn_def EnableACP_def Send_def Let_def split: option.splits)

lemma tp_run_ok: "tp_run ops t \<Longrightarrow> chans_ok t"
  by (induction rule: tp_run.induct) (auto intro: chans_ok_start tp_step_ok)

lemma take_hand_over: "hand_over ch data t = Some t' \<Longrightarrow> \<exists>t''. take_frame ch t' = Some (data, t'')"
  by (auto simp: hand_over_def take_frame_def split: option.splits list.splits)

text \<open>
  C35: a frame that arrives is handed over without blocking the read loop that holds it. After any
  interleaving of connections, sends, pings and receipts, resolving a receipt or a pong returns, and
  the request registered for it then receives exactly that frame.
\<close>

theorem frames_are_handed_over:
  assumes "tp_run ops t"
  shows "\<exists>t1 t2. ResolveDeliveryAck i d data t = Some t1 \<and> ResolvePong i data t = Some t2 \<and>
     (\<forall>ch. d \<noteq> [] \<longrightarrow> gm_get (tpAcks t) (i, d) = Some ch \<longrightarrow> (\<exists>t'. ack_finish EndReceive i d ch t1 = Some (Inr (Some data), t'))) \<and>
     (\<forall>ch. gm_get (tpPongs t) i = Some ch \<longrightarrow> (\<exists>t'. ping_finish EndReceive i ch t2 = Some (Inr data, t')))"
proof -
  have ok: "chans_ok t" using assms by (rule tp_run_ok)
  obtain t1 t2 where r: "ResolveDeliveryAck i d data t = Some t1" "ResolvePong i data t = Some t2"
    using ack_resolve_ok [OF ok] pong_resolve_ok [OF ok] by metis
  have "\<exists>t'. ack_finish EndReceive i d ch t1 = Some (Inr (Some data), t')" if "d \<noteq> []" "gm_get (tpAcks t) (i, d) = Some ch" for ch
    using r(1) that take_hand_over [of ch data _ t1] by (fastforce simp: ResolveDeliveryAck_def ack_finish_def)
  moreover have "\<exists>t'. ping_finish EndReceive i ch t2 = Some (Inr data, t')" if "gm_get (tpPongs t) i = Some ch" for ch
    using r(2) that take_hand_over [of ch data _ t2] by (fastforce simp: ResolvePong_def ping_finish_def)
  ultimately show ?thesis using r by blast
qed

definition sample_conn :: conn_info where
  "sample_conn = \<lparr>ciSessionID = ''p1'', ciWS = 7, ciPaneID = None, ciDisplayName = ''api'', ciConnectedAt = 0\<rparr>"

theorem frames_are_handed_over_witness:
  "\<exists>t1 t2. ResolvePong ''p1'' [(''pane_alive'', JBool True)] (snd (ping_begin ''p1'' (Connect sample_conn NewWebSocketTransport))) = Some t1 \<and>
     ping_finish EndReceive ''p1'' 0 t1 = Some (Inr [(''pane_alive'', JBool True)], t2)"
proof -
  let ?t = "snd (ping_begin ''p1'' (Connect sample_conn NewWebSocketTransport))"
  have run: "tp_run ([] @ [OpConnect sample_conn]) ?t"
    by (intro tp_run.other [OF tp_run.event [OF tp_run.start tp_step.connect] tp_step.ping_wait])
  have "gm_get (tpPongs ?t) ''p1'' = Some 0"
    by (simp add: Connect_def NewWebSocketTransport_def ping_begin_def new_chan_def Let_def gm_has_def sample_conn_def)
  with frames_are_handed_over [OF run, of "''p1''" "''''" "[(''pane_alive'', JBool True)]"] show ?thesis by blast
qed

section \<open>Which socket serves a peer\<close>

definition supersedes :: "conn_info \<Rightarrow> conn_op \<Rightarrow> bool" where
  "supersedes info op = (case op of
       OpConnect info' \<Rightarrow> ciSessionID info' = ciSessionID info
     | OpDisconnect i ws \<Rightarrow> i = ciSessionID info \<and> ws = ciWS info
     | OpClose i \<Rightarrow> i = ciSessionID info)"

definition latest_conn :: "conn_op list \<Rightarrow> conn_info \<Rightarrow> bool" where
  "latest_conn ops info \<longleftrightarrow> (\<exists>xs ys. ops = xs @ OpConnect info # ys \<and> (\<forall>op\<in>set ys. \<not> supersedes info op))"

lemma latest_conn_Nil [simp]: "\<not> latest_conn [] info"
  by (simp add: latest_conn_def)

lemma latest_conn_snoc: "latest_conn (ops @ [op]) info \<longleftrightarrow> op = OpConnect info \<or> latest_conn ops info \<and> \<not> supersedes info op"
proof
  assume "latest_conn (ops @ [op]) info"
  then obtain xs ys where e: "ops @ [op] = xs @ OpConnect info # ys" "\<forall>op\<in>set ys. \<not> supersedes info op"
    by (auto simp: latest_conn_def)
  show "op = OpConnect info \<or> latest_conn ops info \<and> \<not> supersedes info op"
  proof (cases ys rule: rev_cases)
    case (snoc zs z)
    then have "ops = xs @ OpConnect info # zs" "op = z" using e(1) by (simp_all flip: append_Cons append_assoc)
    then show ?thesis using e(2) snoc by (auto simp: latest_conn_def)
  qed (use e(1) in simp)
next
  assume "op = OpConnect info \<or> latest_conn ops info \<and> \<not> supersedes info op"
  then show "latest_conn (ops @ [op]) info"
  proof
    assume "latest_conn ops info \<and> \<not> supersedes info op"
    then obtain xs ys where "ops @ [op] = xs @ OpConnect info # (ys @ [op])" "\<forall>x\<in>set (ys @ [op]). \<not> supersedes info x"
      by (auto simp: latest_conn_def)
    then show ?thesis unfolding latest_conn_def by blast
  next
    assume "op = OpConnect info"
    then have "ops @ [op] = ops @ OpConnect info # []" by simp
    then show ?thesis unfolding latest_conn_def by (metis empty_iff list.set(1))
  qed
qed

lemma tp_other_conns: "tp_step None t t' \<Longrightarrow> tpConns t' = tpConns t \<and> tpClosed t' = tpClosed t"
  by (erule tp_other)
    (auto simp: EnableACP_def Send_def ack_begin_def ping_begin_def new_chan_def ack_finish_def ack_end_def ping_finish_def
      ping_end_def take_frame_def ResolveDeliveryAck_def ResolvePong_def hand_over_def
      split: option.splits list.splits wait_end.splits if_splits)

lemma get_Connect: "gm_get (tpConns (Connect info' t)) i = (if i = ciSessionID info' then Some info' else gm_get (tpConns t) i)"
  by (simp add: Connect_def Let_def split: option.split)

lemma get_Disconnect: "gm_get (tpConns (snd (Disconnect j ws t))) i = Some info \<longleftrightarrow>
    gm_get (tpConns t) i = Some info \<and> \<not> (i = j \<and> ws = ciWS info)"
  by (cases "gm_get (tpConns t) j") (auto simp: Disconnect_def)

lemma get_CloseConn: "gm_get (tpConns (CloseConn j t)) i = (if i = j then None else gm_get (tpConns t) i)"
  by (simp add: CloseConn_def split: option.split)

lemma conns_latest: "tp_run ops t \<Longrightarrow> gm_get (tpConns t) i = Some info \<longleftrightarrow> latest_conn ops info \<and> ciSessionID info = i"
proof (induction arbitrary: i info rule: tp_run.induct)
  case start
  then show ?case by (simp add: NewWebSocketTransport_def)
next
  case (other ops t t')
  then show ?case using tp_other_conns by metis
next
  case (event ops t op t')
  show ?case
  proof (cases op)
    case (OpConnect info')
    then have "t' = Connect info' t" using event(2) by (auto elim: tp_event)
    then show ?thesis using OpConnect event.IH by (auto simp: latest_conn_snoc get_Connect supersedes_def)
  next
    case (OpDisconnect j ws)
    then have "t' = snd (Disconnect j ws t)" using event(2) by (auto elim: tp_event)
    then show ?thesis using OpDisconnect event.IH by (auto simp: latest_conn_snoc get_Disconnect supersedes_def)
  next
    case (OpClose j)
    then have "t' = CloseConn j t" using event(2) by (auto elim: tp_event)
    then show ?thesis using OpClose event.IH by (auto simp: latest_conn_snoc get_CloseConn supersedes_def)
  qed
qed

text \<open>A socket that was connected and serves nobody any more was closed, or its handler has left.\<close>

lemma sockets_accounted: "tp_run ops t \<Longrightarrow> OpConnect info \<in> set ops \<Longrightarrow>
    gm_get (tpConns t) (ciSessionID info) = Some info \<or> ciWS info \<in> set (tpClosed t) \<or>
    OpDisconnect (ciSessionID info) (ciWS info) \<in> set ops"
proof (induction rule: tp_run.induct)
  case (other ops t t')
  then show ?case using tp_other_conns by metis
next
  case (event ops t op t')
  show ?case
  proof (cases op)
    case (OpConnect info')
    then have "t' = Connect info' t" using event(2) by (auto elim: tp_event)
    then show ?thesis using OpConnect event.IH event.prems by (auto simp: Connect_def Let_def split: option.splits)
  next
    case (OpDisconnect j ws)
    then have "t' = snd (Disconnect j ws t)" using event(2) by (auto elim: tp_event)
    then show ?thesis using OpDisconnect event.IH event.prems by (auto simp: Disconnect_def split: option.splits)
  next
    case (OpClose j)
    then have "t' = CloseConn j t" using event(2) by (auto elim: tp_event)
    then show ?thesis using OpClose event.IH event.prems by (auto simp: CloseConn_def split: option.splits)
  qed
qed simp

text \<open>
  C9: the connection of a peer is the one that connected last. After any interleaving, a peer is served
  by a socket exactly when that socket's connect is not followed by a newer connect of the peer, by
  a close of the peer or by the teardown of the same socket; the late teardown of an older socket
  changes nothing. No socket leaks: each one that connected serves its peer, was closed, or was torn
  down by its own handler.
\<close>

theorem connection_is_the_latest:
  assumes "tp_run ops t"
  shows "(gm_get (tpConns t) i = Some info \<longleftrightarrow> latest_conn ops info \<and> ciSessionID info = i) \<and>
     (OpConnect info \<in> set ops \<longrightarrow>
        gm_get (tpConns t) (ciSessionID info) = Some info \<or> ciWS info \<in> set (tpClosed t) \<or>
        OpDisconnect (ciSessionID info) (ciWS info) \<in> set ops)"
  using conns_latest [OF assms] sockets_accounted [OF assms] by blast

theorem connection_is_the_latest_witness:
  "gm_get (tpConns (snd (Disconnect ''p1'' 7 (Connect (sample_conn\<lparr>ciWS := 8\<rparr>) (Connect sample_conn NewWebSocketTransport))))) ''p1''
     = Some (sample_conn\<lparr>ciWS := 8\<rparr>)"
proof -
  let ?new = "sample_conn\<lparr>ciWS := 8\<rparr>"
  have "tp_run ((([] @ [OpConnect sample_conn]) @ [OpConnect ?new]) @ [OpDisconnect ''p1'' 7])
      (snd (Disconnect ''p1'' 7 (Connect ?new (Connect sample_conn NewWebSocketTransport))))"
    by (intro tp_run.event [OF _ tp_step.disconnect] tp_run.event [OF _ tp_step.connect] tp_run.start)
  moreover have "latest_conn ((([] @ [OpConnect sample_conn]) @ [OpConnect ?new]) @ [OpDisconnect ''p1'' 7]) ?new"
    unfolding latest_conn_snoc by (simp add: supersedes_def)
  ultimately show ?thesis using connection_is_the_latest [where i = "''p1''" and info = ?new] by (force simp: sample_conn_def)
qed

section \<open>Overlapping pings\<close>

text \<open>
  Two requests that ping the same peer at the same time disturb each other. The pong is handed to
  the later one only, so the earlier times out although the peer answers; and when the earlier
  times out first, its deferred delete removes the channel of the later, whose pong is then dropped:
  a healthy peer is reported dead to both.
\<close>

theorem overlapping_pings_lose_the_pong:
  assumes "ping_begin i t = (Inr c1, t1)" "ping_begin i t1 = (Inr c2, t2)"
  shows "(\<exists>t3. ResolvePong i data t2 = Some t3 \<and> ping_finish EndReceive i c1 t3 = None) \<and>
     (\<exists>t3. ping_finish EndTimeout i c1 t2 = Some (Inl (ErrPingTimeout i), t3) \<and> ResolvePong i data t3 = Some t3 \<and>
        ping_finish EndReceive i c2 t3 = None)"
proof -
  have c: "c1 = tpNext t" "c2 = Suc (tpNext t)" "gm_get (tpPongs t2) i = Some c2" "gm_get (tpChans t2) c2 = Some []"
      "gm_get (tpChans t2) c1 = Some []"
    using assms by (auto simp: ping_begin_def new_chan_def split: if_splits)
  have "\<exists>t3. ResolvePong i data t2 = Some t3 \<and> ping_finish EndReceive i c1 t3 = None"
    using c by (simp add: ResolvePong_def hand_over_def ping_finish_def take_frame_def)
  moreover have "\<exists>t3. ping_finish EndTimeout i c1 t2 = Some (Inl (ErrPingTimeout i), t3) \<and> ResolvePong i data t3 = Some t3 \<and>
      ping_finish EndReceive i c2 t3 = None"
    using c by (simp add: ResolvePong_def ping_finish_def ping_end_def take_frame_def)
  ultimately show ?thesis by blast
qed

theorem overlapping_pings_lose_the_pong_witness:
  "\<exists>t1 t2. ping_begin ''p1'' (Connect sample_conn NewWebSocketTransport) = (Inr 0, t1) \<and> ping_begin ''p1'' t1 = (Inr 1, t2) \<and>
     (\<exists>t3. ResolvePong ''p1'' [] t2 = Some t3 \<and> ping_finish EndReceive ''p1'' 0 t3 = None)"
proof -
  let ?t = "Connect sample_conn NewWebSocketTransport"
  have a: "ping_begin ''p1'' ?t = (Inr 0, snd (ping_begin ''p1'' ?t))"
      "ping_begin ''p1'' (snd (ping_begin ''p1'' ?t)) = (Inr 1, snd (ping_begin ''p1'' (snd (ping_begin ''p1'' ?t))))"
    by (simp_all add: Connect_def NewWebSocketTransport_def ping_begin_def new_chan_def Let_def gm_has_def sample_conn_def)
  from overlapping_pings_lose_the_pong [OF this, of "[]"] a show ?thesis by blast
qed

end
