(* ===== verification/Routing.thy ===== *)
theory Routing
  imports Transport_Facts
begin

text \<open>
  The message router, \<open>daemon-go/service/router.go\<close>: which frame goes on the wire for an ask, a
  notification or a broadcast, and what the receipt of an ask means. The eight hex digits of a
  minted delivery id are an argument; the log lines are left out. The broadcast writes to its sessions
  concurrently, so the order of its result lists is unspecified in the code; here it is the order of
  the sessions.
\<close>

definition CapRuntimeInbox :: string where
  "CapRuntimeInbox = ''runtime_inbox''"

definition CapThreadSteering :: string where
  "CapThreadSteering = ''thread_steering''"

definition HasCapability :: "jobject \<Rightarrow> string \<Rightarrow> bool" where
  "HasCapability metadata capability =
     (case gm_get metadata ''capabilities'' of Some (JArr vs) \<Rightarrow> JStr capability \<in> set vs | _ \<Rightarrow> False)"

datatype route_error =
    RouteTransport transport_error
  | RouteInjection string string jobject

definition with_attachments :: "jobject list \<Rightarrow> jobject \<Rightarrow> jobject" where
  "with_attachments attachments frame =
     (if attachments = [] then frame else gm_put ''attachments'' (JArr (map JObj attachments)) frame)"

section \<open>Notifications\<close>

definition notify_delivery_id :: "string \<Rightarrow> string \<Rightarrow> string" where
  "notify_delivery_id hex8 deliveryID = (if deliveryID = [] then ''notif-delivery-'' @ hex8 else deliveryID)"

definition notify_frame :: "string \<Rightarrow> string \<Rightarrow> string \<Rightarrow> string \<Rightarrow> jobject list \<Rightarrow> jobject" where
  "notify_frame deliveryID from toName text attachments =
     with_attachments attachments
       [(''type'', JStr ''notify''), (''delivery_id'', JStr deliveryID), (''from_peer'', JStr from), (''to_peer'', JStr toName),
        (''text'', JStr text)]"

definition SendNotification :: "bool \<Rightarrow> receipt \<Rightarrow> string \<Rightarrow> string \<Rightarrow> string \<Rightarrow> string \<Rightarrow> string \<Rightarrow> jobject list \<Rightarrow> string \<Rightarrow>
    transport \<Rightarrow> ((transport_error + jobject option) \<times> transport) option" where
  "SendNotification writes receipt hex8 from to toName text attachments deliveryID t =
     SendAndWaitDeliveryAck writes receipt to
       (notify_frame (notify_delivery_id hex8 deliveryID) from toName text attachments) t"

section \<open>Asks\<close>

text \<open>The line appended to an ask; the arrow is the three bytes of U+21B3.\<close>

definition ask_hint :: "string \<Rightarrow> bool \<Rightarrow> string" where
  "ask_hint cid hasQuestion =
     CHR 0xE2 # CHR 0x86 # CHR 0xB3 #
     (if hasQuestion
      then '' answer('' @ CHR 0x22 # cid @ CHR 0x22 # '', option_id=...) or answer('' @ CHR 0x22 # cid @ CHR 0x22 # '', text='' @ CHR 0x22 # ''...'' @ CHR 0x22 # '')''
      else '' ack('' @ CHR 0x22 # cid @ CHR 0x22 # '') or ack('' @ CHR 0x22 # cid @ CHR 0x22 # '', '' @ CHR 0x22 # ''reply'' @ CHR 0x22 # '')'')"

definition trim_right :: "string \<Rightarrow> string" where
  "trim_right s = rev (dropWhile (\<lambda>c. c \<in> {CHR '' '', CHR 0x09, CHR 0x0D, CHR 0x0A}) (rev s))"

definition hinted_text :: "string \<Rightarrow> bool \<Rightarrow> string \<Rightarrow> string" where
  "hinted_text cid hasQuestion text = trim_right text @ CHR 0x0A # ask_hint cid hasQuestion"

definition put_given :: "string \<Rightarrow> json option \<Rightarrow> jobject \<Rightarrow> jobject" where
  "put_given k v frame = (case v of None \<Rightarrow> frame | Some x \<Rightarrow> gm_put k x frame)"

definition ask_frame :: "string \<Rightarrow> string \<Rightarrow> string \<Rightarrow> string \<Rightarrow> string \<Rightarrow> string option \<Rightarrow> jobject option \<Rightarrow> jobject list \<Rightarrow> jobject" where
  "ask_frame hex8 from toName cid text replyTo question attachments =
     put_given ''question'' (map_option JObj question)
       (put_given ''reply_to'' (map_option JStr replyTo)
         (with_attachments attachments
           [(''type'', JStr ''ask''), (''delivery_id'', JStr (''ask-delivery-'' @ hex8)), (''correlation_id'', JStr cid),
            (''from_peer'', JStr from), (''to_peer'', JStr toName), (''text'', JStr (hinted_text cid (question \<noteq> None) text))]))"

definition receipt_status :: "jobject \<Rightarrow> string" where
  "receipt_status ack = (case gm_get ack ''status'' of Some (JStr s) \<Rightarrow> s | _ \<Rightarrow> [])"

definition receipt_detail :: "jobject \<Rightarrow> string" where
  "receipt_detail ack = (case gm_get ack ''detail'' of Some (JStr s) \<Rightarrow> if s = [] then receipt_status ack else s | _ \<Rightarrow> receipt_status ack)"

definition ask_outcome :: "transport_error + jobject option \<Rightarrow> route_error + jobject option" where
  "ask_outcome res = (case res of
       Inl err \<Rightarrow> Inl (RouteTransport err)
     | Inr None \<Rightarrow> Inr None
     | Inr (Some ack) \<Rightarrow>
         if receipt_status ack = ''failed'' \<or> receipt_status ack = ''rejected''
         then Inl (RouteInjection (receipt_status ack) (receipt_detail ack) ack) else Inr (Some ack))"

definition SendAsk :: "bool \<Rightarrow> receipt \<Rightarrow> string \<Rightarrow> string \<Rightarrow> string \<Rightarrow> string \<Rightarrow> string \<Rightarrow> string \<Rightarrow> string option \<Rightarrow>
    jobject option \<Rightarrow> jobject list \<Rightarrow> transport \<Rightarrow> ((route_error + jobject option) \<times> transport) option" where
  "SendAsk writes receipt hex8 from to toName cid text replyTo question attachments t =
     map_option (\<lambda>(res, t'). (ask_outcome res, t'))
       (SendAndWaitDeliveryAck writes receipt to (ask_frame hex8 from toName cid text replyTo question attachments) t)"

section \<open>Broadcasts\<close>

definition broadcast_frame :: "string \<Rightarrow> string \<Rightarrow> jobject" where
  "broadcast_frame from text = [(''type'', JStr ''broadcast''), (''from_peer'', JStr from), (''text'', JStr text)]"

definition BroadcastToSession :: "bool \<Rightarrow> string \<Rightarrow> string \<Rightarrow> string \<Rightarrow> transport \<Rightarrow> transport_error option \<times> transport" where
  "BroadcastToSession writes from text to t = Send writes to (broadcast_frame from text) t"

type_synonym broadcast_result = "string list \<times> (string \<times> transport_error) list \<times> transport"

definition broadcast_one :: "(string \<Rightarrow> bool) \<Rightarrow> string \<Rightarrow> string \<Rightarrow> string \<Rightarrow> broadcast_result \<Rightarrow> broadcast_result" where
  "broadcast_one writes from text i st =
     (let (sent, failed, t) = st
      in case Send (writes i) i (broadcast_frame from text) t of
           (Some err, t1) \<Rightarrow> (sent, failed @ [(i, err)], t1)
         | (None, t1) \<Rightarrow> (sent @ [i], failed, t1))"

definition RouterBroadcast :: "(string \<Rightarrow> bool) \<Rightarrow> string \<Rightarrow> string \<Rightarrow> string list \<Rightarrow> transport \<Rightarrow> broadcast_result" where
  "RouterBroadcast writes from text exclude t =
     fold (broadcast_one writes from text) (filter (\<lambda>i. i \<notin> set exclude) (GetAllSessions t)) ([], [], t)"

section \<open>What goes on the wire\<close>

text \<open>A call that is not blocked appends at most its own frame to the wire, for the socket of its peer.\<close>

lemma Send_cases:
  obtains (missing) "gm_get (tpConns t) i = None" "Send writes i frame t = (Some (ErrNotConnected i), t)"
  | (broken) info where "gm_get (tpConns t) i = Some info" "\<not> writes" "Send writes i frame t = (Some ErrTransportUnavailable, t)"
  | (sent) info where "gm_get (tpConns t) i = Some info" "writes" "Send writes i frame t = (None, t\<lparr>tpWire := tpWire t @ [(ciWS info, frame)]\<rparr>)"
  by (cases "gm_get (tpConns t) i"; cases writes) (auto simp: Send_def)

definition unreachable_error :: "transport_error \<Rightarrow> bool" where
  "unreachable_error err \<longleftrightarrow> (case err of ErrNotConnected i \<Rightarrow> True | ErrTransportUnavailable \<Rightarrow> True | _ \<Rightarrow> False)"

lemma extract_notify: "extractDeliveryID (notify_frame d from toName text atts) = Some d"
  by (simp add: extractDeliveryID_def notify_frame_def with_attachments_def gm_get_Cons)

lemma extract_ask: "extractDeliveryID (ask_frame h from toName cid text r q atts) = Some (''ask-delivery-'' @ h)"
  by (cases q; cases r) (simp_all add: extractDeliveryID_def ask_frame_def with_attachments_def put_given_def gm_get_Cons)

lemma Send_begin:
  "Send writes i frame (snd (ack_begin i d t)) =
     (case gm_get (tpConns t) i of
        None \<Rightarrow> (Some (ErrNotConnected i), snd (ack_begin i d t))
      | Some info \<Rightarrow> if writes then (None, (snd (ack_begin i d t))\<lparr>tpWire := tpWire t @ [(ciWS info, frame)]\<rparr>)
          else (Some ErrTransportUnavailable, snd (ack_begin i d t)))"
  by (simp add: Send_def ack_begin_def new_chan_def split: option.split)

text \<open>
  The whole call, on a frame that carries an id: it always returns, and what it returns says what
  happened on the wire.
\<close>

lemma SendAndWait_outcome:
  assumes "extractDeliveryID frame = Some d" "d \<noteq> []"
  shows "\<exists>res t'. SendAndWaitDeliveryAck writes rc i frame t = Some (res, t') \<and> tpConns t' = tpConns t \<and> tpACP t' = tpACP t \<and>
     (case gm_get (tpConns t) i of
        None \<Rightarrow> res = Inl (ErrNotConnected i) \<and> tpWire t' = tpWire t
      | Some info \<Rightarrow>
          if \<not> writes then res = Inl ErrTransportUnavailable \<and> tpWire t' = tpWire t
          else tpWire t' = tpWire t @ [(ciWS info, frame)] \<and>
            res = (case rc of Receipt data \<Rightarrow> Inr (Some data) | NoReceipt \<Rightarrow> Inr None | Cancelled \<Rightarrow> Inl ErrCancelled))"
proof -
  have f: "fst (ack_begin i d t) = tpNext t" "tpConns (snd (ack_begin i d t)) = tpConns t" "tpWire (snd (ack_begin i d t)) = tpWire t"
    "tpACP (snd (ack_begin i d t)) = tpACP t" "gm_get (tpAcks (snd (ack_begin i d t))) (i, d) = Some (tpNext t)"
    "gm_get (tpChans (snd (ack_begin i d t))) (tpNext t) = Some []"
    by (simp_all add: ack_begin_def new_chan_def)
  note unf = SendAndWaitDeliveryAck_def assms Let_def case_prod_beta f Send_begin ack_end_def
  show ?thesis
  proof (cases "gm_get (tpConns t) i")
    case None
    then show ?thesis by (simp add: unf)
  next
    case (Some info)
    show ?thesis
    proof (cases writes)
      case False
      then show ?thesis using Some by (simp add: unf)
    next
      case True
      then show ?thesis using Some
        by (cases rc) (simp_all add: unf ack_finish_def ResolveDeliveryAck_def hand_over_def take_frame_def)
    qed
  qed
qed

end
