(* ===== verification/Recall.thy ===== *)
theory Recall
  imports Go_Strings Proto Sql_Table "HOL-Library.Sublist"
begin

text \<open>
  What is put before a message to an orchestrator, \<open>daemon-go/service/orchestrator_recall.go\<close>: the
  lines of its notes that share words with the message. The notes are a parameter, as the names in
  the memory directory and the content of each readable file; strings are bytes, letters are those
  of ASCII. The loop over the token set adds its scores, so its order does not matter.
\<close>

section \<open>Words\<close>

record recall_settings =
  rcEnabled :: bool
  rcMaxFileChars :: int
  rcMaxHits :: int
  rcMaxChars :: int

definition is_alnum :: "char \<Rightarrow> bool" where
  "is_alnum c \<longleftrightarrow> is_digit c \<or> (let n = of_char c :: nat in (97 \<le> n \<and> n \<le> 122) \<or> (65 \<le> n \<and> n \<le> 90))"

definition is_word :: "char \<Rightarrow> bool" where
  "is_word c \<longleftrightarrow> is_alnum c \<or> c \<in> set ''_.@/-''"

text \<open>\<open>recallTokenRE.FindAllString\<close>: leftmost matches of an alphanumeric and at least two word characters.\<close>

function find_tokens :: "string \<Rightarrow> string list" where
  "find_tokens [] = []"
| "find_tokens (c # cs) =
     (if is_alnum c \<and> 2 \<le> length (takeWhile is_word cs) then (c # takeWhile is_word cs) # find_tokens (dropWhile is_word cs)
      else find_tokens cs)"
  by pat_completeness auto
termination by (relation "measure length") (auto simp: le_imp_less_Suc length_dropWhile_le)

definition stop_words :: "string list" where
  "stop_words = [''from'', ''with'', ''that'', ''this'', ''there'', ''reply'', ''ack'', ''ask'', ''message'', ''repowire'']"

definition recall_tokens :: "string \<Rightarrow> string list" where
  "recall_tokens query = remdups (filter (\<lambda>t. t \<noteq> [] \<and> t \<notin> set stop_words)
     (map (\<lambda>t. ToLower (TrimCutset (\<lambda>c. c \<in> set ''._-/@'') t)) (find_tokens query)))"

section \<open>Scores\<close>

definition contains :: "string \<Rightarrow> string \<Rightarrow> bool" where
  "contains s sub \<longleftrightarrow> list_ex (prefix sub) (suffixes s)"

text \<open>\<open>strings.Count\<close> of a non-empty substring: occurrences that do not overlap.\<close>

function count_sub :: "string \<Rightarrow> string \<Rightarrow> nat" where
  "count_sub sub [] = 0"
| "count_sub sub (c # cs) =
     (if sub \<noteq> [] \<and> prefix sub (c # cs) then Suc (count_sub sub (drop (length sub) (c # cs))) else count_sub sub cs)"
  by pat_completeness auto
termination by (relation "measure (length \<circ> snd)") (auto simp: neq_Nil_conv)

definition file_score :: "string list \<Rightarrow> string \<Rightarrow> string \<Rightarrow> nat" where
  "file_score tokens label content =
     (let lower = ToLower (label @ CHR 0x0A # content)
      in sum_list (map (\<lambda>t. min 4 (count_sub t lower) + (if contains (ToLower label) t then 2 else 0)) tokens))"

definition line_score :: "string list \<Rightarrow> string \<Rightarrow> nat" where
  "line_score tokens line = length (filter (contains (ToLower line)) tokens)"

definition better_line :: "string list \<Rightarrow> string \<Rightarrow> string \<times> nat \<Rightarrow> string \<times> nat" where
  "better_line tokens line st =
     (let (best, bestScore) = st; clean = TrimSpace line; sc = line_score tokens clean
      in if bestScore < sc \<or> (sc = bestScore \<and> 0 < sc \<and> (best = [] \<or> length clean < length best)) then (clean, sc) else st)"

definition best_line :: "string list \<Rightarrow> string \<Rightarrow> string" where
  "best_line tokens content = fst (fold (better_line tokens) (Split (CHR 0x0A) content) ([], 0))"

definition ellipsis :: string where
  "ellipsis = [CHR 0xE2, CHR 0x80, CHR 0xA6]"

definition snippet :: "string \<Rightarrow> string" where
  "snippet best = (if 220 < length best then take 219 best @ ellipsis else best)"

section \<open>The block\<close>

type_synonym recall_hit = "string \<times> string \<times> nat"

definition read_cut :: "recall_settings \<Rightarrow> string \<Rightarrow> string" where
  "read_cut s raw = (if 0 < rcMaxFileChars s \<and> rcMaxFileChars s < int (length raw) then take (nat (rcMaxFileChars s)) raw else raw)"

definition recall_hit_of :: "recall_settings \<Rightarrow> string list \<Rightarrow> (string \<Rightarrow> string option) \<Rightarrow> string \<Rightarrow> recall_hit option" where
  "recall_hit_of s tokens readFile label = (case readFile label of
       None \<Rightarrow> None
     | Some raw \<Rightarrow>
         (let content = read_cut s raw; score = file_score tokens label content; best = best_line tokens content
          in if score = 0 \<or> best = [] then None else Some (label, snippet best, score)))"

definition recall_sources :: "string list \<Rightarrow> string list" where
  "recall_sources memory =
     [''comms.md'', ''projects.md''] @ map (\<lambda>n. ''memory/'' @ n) (filter (\<lambda>n. n \<noteq> ''MEMORY.md'') (sort_key DBText memory))"

definition hit_order :: "recall_hit \<Rightarrow> int \<times> dbtext" where
  "hit_order h = (- int (snd (snd h)), DBText (fst h))"

definition cap_hits :: "recall_settings \<Rightarrow> recall_hit list \<Rightarrow> recall_hit list" where
  "cap_hits s hits = (if 0 < rcMaxHits s \<and> rcMaxHits s < int (length hits) then take (nat (rcMaxHits s)) hits else hits)"

definition hit_line :: "recall_hit \<Rightarrow> string" where
  "hit_line h = ''- '' @ fst h @ '': '' @ fst (snd h)"

fun JoinLines :: "string list \<Rightarrow> string" where
  "JoinLines [] = []"
| "JoinLines [l] = l"
| "JoinLines (l # ls) = l @ CHR 0x0A # JoinLines ls"

definition recall_block :: "recall_settings \<Rightarrow> recall_hit list \<Rightarrow> string" where
  "recall_block s hits =
     (let block = JoinLines ([''[repowire recall]''] @ map hit_line hits @ [''[/repowire recall]''])
      in if 0 < rcMaxChars s \<and> rcMaxChars s < int (length block) then take (nat (rcMaxChars s - 1)) block @ ellipsis else block)"

definition recall_query :: "string \<Rightarrow> string \<Rightarrow> string \<Rightarrow> peer \<Rightarrow> string" where
  "recall_query text fromName fromID target =
     JoinSpace [text, fromName, fromID, DisplayName target, PeerID target, Circle target]"

definition recall_hits :: "recall_settings \<Rightarrow> string list \<Rightarrow> (string \<Rightarrow> string option) \<Rightarrow> string list \<Rightarrow> recall_hit list" where
  "recall_hits s memory readFile tokens =
     cap_hits s (sort_key hit_order (List.map_filter (recall_hit_of s tokens readFile) (recall_sources memory)))"

definition addOrchestratorRecall :: "recall_settings \<Rightarrow> string list \<Rightarrow> (string \<Rightarrow> string option) \<Rightarrow> string \<Rightarrow> string \<Rightarrow> string \<Rightarrow>
    peer \<Rightarrow> string" where
  "addOrchestratorRecall s memory readFile text fromName fromID target =
     (if \<not> rcEnabled s \<or> Role target \<noteq> RoleOrchestrator then text
      else (let tokens = recall_tokens (recall_query text fromName fromID target)
            in if tokens = [] then text
               else (let hits = recall_hits s memory readFile tokens
                     in if hits = [] then text else recall_block s hits @ [CHR 0x0A, CHR 0x0A] @ text)))"

section \<open>The message stays\<close>

lemma recall_block_length:
  "0 < rcMaxChars s \<Longrightarrow> int (length (recall_block s hits)) \<le> rcMaxChars s + 2"
  by (simp add: recall_block_def Let_def ellipsis_def)

text \<open>
  The recall only ever adds text in front. A message leaves unchanged unless the recall is enabled and
  the recipient is an orchestrator; otherwise it is preceded by one block and an empty line, and with a
  limit set the block exceeds it by at most two bytes. It does exceed it whenever it is cut: the
  ellipsis is three bytes where the code makes room for one.
\<close>

theorem recall_prefixes_message:
  shows "\<exists>pre. addOrchestratorRecall s memory readFile text fromName fromID target = pre @ text \<and>
     (\<not> rcEnabled s \<or> Role target \<noteq> RoleOrchestrator \<longrightarrow> pre = []) \<and>
     (0 < rcMaxChars s \<longrightarrow> int (length pre) \<le> rcMaxChars s + 4) \<and>
     (\<forall>hits. 0 < rcMaxChars s \<and> rcMaxChars s < int (length (JoinLines ([''[repowire recall]''] @ map hit_line hits @ [''[/repowire recall]''])))
        \<longrightarrow> int (length (recall_block s hits)) = rcMaxChars s + 2)"
proof -
  have cut: "\<forall>hits. 0 < rcMaxChars s \<and> rcMaxChars s < int (length (JoinLines ([''[repowire recall]''] @ map hit_line hits @ [''[/repowire recall]''])))
        \<longrightarrow> int (length (recall_block s hits)) = rcMaxChars s + 2"
    by (auto simp: recall_block_def Let_def ellipsis_def min_def)
  show ?thesis
  proof (cases "addOrchestratorRecall s memory readFile text fromName fromID target = text")
    case True
    then show ?thesis using cut by (intro exI [of _ "[]"]) simp
  next
    case False
    then have on: "rcEnabled s \<and> Role target = RoleOrchestrator"
      by (rule contrapos_np) (simp add: addOrchestratorRecall_def)
    let ?hits = "recall_hits s memory readFile (recall_tokens (recall_query text fromName fromID target))"
    have "addOrchestratorRecall s memory readFile text fromName fromID target = (recall_block s ?hits @ [CHR 0x0A, CHR 0x0A]) @ text"
      using False on by (auto simp: addOrchestratorRecall_def Let_def split: if_splits)
    then show ?thesis using on cut recall_block_length [of s ?hits] by (intro exI conjI) auto
  qed
qed

definition sample_settings :: recall_settings where
  "sample_settings = \<lparr>rcEnabled = True, rcMaxFileChars = 0, rcMaxHits = 3, rcMaxChars = 40\<rparr>"

theorem recall_prefixes_message_witness:
  "int (length (recall_block sample_settings [(''comms.md'', ''deploys go through api'', 3)])) = 42"
proof -
  have long: "rcMaxChars sample_settings < int (length (JoinLines ([''[repowire recall]''] @ map hit_line [(''comms.md'', ''deploys go through api'', 3)] @ [''[/repowire recall]''])))"
    by (simp add: hit_line_def sample_settings_def)
  have "0 < rcMaxChars sample_settings" by (simp add: sample_settings_def)
  with long recall_prefixes_message [of sample_settings "[]" "\<lambda>l. None" "[]" "[]" "[]" undefined]
  have "int (length (recall_block sample_settings [(''comms.md'', ''deploys go through api'', 3)])) = rcMaxChars sample_settings + 2" by blast
  then show ?thesis by (simp add: sample_settings_def)
qed

end
