(* ===== verification/Binding_Store.thy ===== *)
theory Binding_Store
  imports Sql_Table
begin

text \<open>
  The durable bindings between workstreams and runtime sessions, \<open>daemon-go/state/session_bindings.go\<close>,
  on the table \<open>session_bindings\<close> keyed by \<open>repowire_session_id\<close>. JSON columns hold decoded objects, a
  nil value in a merged object is \<open>JNull\<close>. Minted ids and the clock are arguments. The Go method
  reads and writes in two statements; the store's callers run it one at a time for one runtime.
\<close>

record binding =
  sbSessionID :: string
  sbPeerID :: "string option"
  sbExecutorPeerID :: "string option"
  sbBackend :: string
  sbProjectPath :: string
  sbRuntimeSessionID :: "string option"
  sbSourceURI :: "string option"
  sbSourceCursor :: jobject
  sbProvenance :: jobject
  sbResumeCapability :: jobject
  sbStatus :: string
  sbMetadata :: jobject
  sbCreatedAt :: string
  sbLastSeenAt :: string

type_synonym binding_table = "(string, binding) gomap"

record observation =
  obPeerID :: "string option"
  obBackend :: string
  obProjectPath :: "string option"
  obRuntimeSessionID :: "string option"
  obSourceURI :: "string option"
  obSourceCursor :: jobject
  obProvenance :: jobject
  obResumeCapability :: jobject
  obStatus :: string
  obMetadata :: jobject
  obObservedAt :: string

definition sbMergeDicts :: "jobject \<Rightarrow> jobject \<Rightarrow> jobject" where
  "sbMergeDicts existing updates = fold (\<lambda>(k, v) out. if v = JNull then out else gm_put k v out) updates existing"

definition sbCoalesce :: "string option \<Rightarrow> string option \<Rightarrow> string option" where
  "sbCoalesce new old = (if new \<noteq> None \<and> new \<noteq> Some [] then new else old)"

definition sbCoalesceStr :: "string \<Rightarrow> string \<Rightarrow> string" where
  "sbCoalesceStr new old = (if new \<noteq> [] then new else old)"

definition given :: "string option \<Rightarrow> bool" where
  "given v \<longleftrightarrow> v \<noteq> None \<and> v \<noteq> Some []"

section \<open>Queries\<close>

text \<open>\<open>ORDER BY last_seen_at DESC\<close>, and the same with \<open>LIMIT 1\<close>.\<close>

definition newest_bindings :: "(binding \<Rightarrow> bool) \<Rightarrow> binding_table \<Rightarrow> binding list" where
  "newest_bindings P db = rev (sort_key (\<lambda>b. DBText (sbLastSeenAt b)) (rows_where P db))"

definition newest_binding :: "(binding \<Rightarrow> bool) \<Rightarrow> binding_table \<Rightarrow> binding option" where
  "newest_binding P db = (case newest_bindings P db of [] \<Rightarrow> None | b # bs \<Rightarrow> Some b)"

definition GetSessionBinding :: "string \<Rightarrow> binding_table \<Rightarrow> binding option" where
  "GetSessionBinding sid db = gm_get db sid"

definition ListBindingsByPeer :: "string \<Rightarrow> binding_table \<Rightarrow> binding list" where
  "ListBindingsByPeer peerID db = newest_bindings (\<lambda>b. sbPeerID b = Some peerID) db"

definition scoped :: "string option \<Rightarrow> string \<Rightarrow> bool" where
  "scoped want have \<longleftrightarrow> (case want of None \<Rightarrow> True | Some x \<Rightarrow> have = x)"

definition GetByRuntimeSession :: "string \<Rightarrow> string option \<Rightarrow> string option \<Rightarrow> binding_table \<Rightarrow> binding option" where
  "GetByRuntimeSession rsid backend path db =
     newest_binding (\<lambda>b. sbRuntimeSessionID b = Some rsid \<and> scoped backend (sbBackend b) \<and> scoped path (sbProjectPath b)) db"

definition GetBySourceURI :: "string \<Rightarrow> binding_table \<Rightarrow> binding option" where
  "GetBySourceURI uri db = newest_binding (\<lambda>b. sbSourceURI b = Some uri) db"

definition unmarked_of_peer :: "string \<Rightarrow> string \<Rightarrow> string \<Rightarrow> binding \<Rightarrow> bool" where
  "unmarked_of_peer peerID backend path b \<longleftrightarrow> sbPeerID b = Some peerID \<and> sbBackend b = backend \<and>
     sbProjectPath b = path \<and> sbRuntimeSessionID b = None \<and> sbSourceURI b = None"

section \<open>Observations\<close>

definition by_source :: "string option \<Rightarrow> binding_table \<Rightarrow> binding option" where
  "by_source uri db = (if given uri then GetBySourceURI (the uri) db else None)"

definition by_runtime :: "string option \<Rightarrow> string \<Rightarrow> string \<Rightarrow> binding_table \<Rightarrow> binding option" where
  "by_runtime rsid backend path db =
     (if given rsid then GetByRuntimeSession (the rsid) (Some backend) (if path = [] then None else Some path) db else None)"

definition by_peer :: "string option \<Rightarrow> string \<Rightarrow> string \<Rightarrow> binding_table \<Rightarrow> binding option" where
  "by_peer peerID backend path db =
     (if given peerID then newest_binding (unmarked_of_peer (the peerID) backend path) db else None)"

definition findExistingBinding :: "string option \<Rightarrow> string \<Rightarrow> string \<Rightarrow> string option \<Rightarrow> string option \<Rightarrow> binding_table \<Rightarrow> binding option" where
  "findExistingBinding peerID backend path rsid uri db = (case by_source uri db of
       Some b \<Rightarrow> Some b
     | None \<Rightarrow> (case by_runtime rsid backend path db of Some b \<Rightarrow> Some b | None \<Rightarrow> by_peer peerID backend path db))"

definition new_binding :: "string \<Rightarrow> string \<Rightarrow> string \<Rightarrow> string \<Rightarrow> observation \<Rightarrow> binding" where
  "new_binding sid path now status ob =
     \<lparr>sbSessionID = sid, sbPeerID = obPeerID ob, sbExecutorPeerID = obPeerID ob, sbBackend = obBackend ob,
      sbProjectPath = path, sbRuntimeSessionID = obRuntimeSessionID ob, sbSourceURI = obSourceURI ob,
      sbSourceCursor = obSourceCursor ob, sbProvenance = obProvenance ob, sbResumeCapability = obResumeCapability ob,
      sbStatus = status, sbMetadata = obMetadata ob, sbCreatedAt = now, sbLastSeenAt = now\<rparr>"

definition merged_binding :: "binding \<Rightarrow> string \<Rightarrow> string \<Rightarrow> string \<Rightarrow> observation \<Rightarrow> binding" where
  "merged_binding b path now status ob =
     \<lparr>sbSessionID = sbSessionID b, sbPeerID = sbCoalesce (obPeerID ob) (sbPeerID b),
      sbExecutorPeerID = sbCoalesce (obPeerID ob) (sbExecutorPeerID b), sbBackend = obBackend ob,
      sbProjectPath = sbCoalesceStr path (sbProjectPath b),
      sbRuntimeSessionID = sbCoalesce (obRuntimeSessionID ob) (sbRuntimeSessionID b),
      sbSourceURI = sbCoalesce (obSourceURI ob) (sbSourceURI b),
      sbSourceCursor = sbMergeDicts (sbSourceCursor b) (obSourceCursor ob),
      sbProvenance = sbMergeDicts (sbProvenance b) (obProvenance ob),
      sbResumeCapability = sbMergeDicts (sbResumeCapability b) (obResumeCapability ob),
      sbStatus = status, sbMetadata = sbMergeDicts (sbMetadata b) (obMetadata ob),
      sbCreatedAt = sbCreatedAt b, sbLastSeenAt = now\<rparr>"

definition observed_binding :: "gotime \<Rightarrow> string \<Rightarrow> observation \<Rightarrow> binding_table \<Rightarrow> binding" where
  "observed_binding wall sid ob db =
     (let path = (case obProjectPath ob of Some p \<Rightarrow> p | None \<Rightarrow> []);
          now = (if obObservedAt ob = [] then formatISO wall else obObservedAt ob);
          status = (if obStatus ob = [] then ''active'' else obStatus ob)
      in case findExistingBinding (obPeerID ob) (obBackend ob) path (obRuntimeSessionID ob) (obSourceURI ob) db of
           None \<Rightarrow> new_binding sid path now status ob
         | Some b \<Rightarrow> merged_binding b path now status ob)"

definition UpsertObservation :: "gotime \<Rightarrow> string \<Rightarrow> observation \<Rightarrow> binding_table \<Rightarrow> binding \<times> binding_table" where
  "UpsertObservation wall sid ob db =
     (let b = observed_binding wall sid ob db in (b, gm_put (sbSessionID b) b db))"

section \<open>One binding per transcript\<close>

abbreviation bindings_ok :: "binding_table \<Rightarrow> bool" where
  "bindings_ok db \<equiv> table_ok sbSessionID db"

definition sources_unique :: "binding_table \<Rightarrow> bool" where
  "sources_unique db \<longleftrightarrow> (\<forall>i j b c. gm_get db i = Some b \<longrightarrow> gm_get db j = Some c \<longrightarrow> given (sbSourceURI b) \<longrightarrow>
     sbSourceURI b = sbSourceURI c \<longrightarrow> i = j)"

lemma newest_binding_None: "newest_binding P db = None \<longleftrightarrow> rows_where P db = []"
proof -
  have "newest_bindings P db = [] \<longleftrightarrow> rows_where P db = []"
    unfolding newest_bindings_def by (metis rev_is_Nil_conv set_empty set_sort)
  then show ?thesis by (cases "newest_bindings P db") (simp_all add: newest_binding_def)
qed

lemma newest_binding_Some:
  assumes "newest_binding P db = Some b" "bindings_ok db"
  shows "P b \<and> gm_get db (sbSessionID b) = Some b"
proof -
  have "b \<in> set (newest_bindings P db)" using assms(1) by (auto simp: newest_binding_def split: list.splits)
  then have "b \<in> set (rows_where P db)" by (simp add: newest_bindings_def)
  then show ?thesis using rows_where_pk [OF assms(2)] by simp
qed

lemma newest_binding_none_matches: "newest_binding P db = None \<Longrightarrow> bindings_ok db \<Longrightarrow> gm_get db i = Some b \<Longrightarrow> \<not> P b"
proof -
  assume n: "newest_binding P db = None" and ok: "bindings_ok db" and b: "gm_get db i = Some b"
  have "b \<notin> set (rows_where P db)" using n by (simp add: newest_binding_None)
  then show "\<not> P b" using rows_where_pk [OF ok, of b P] table_ok_pk [OF ok b] b by simp
qed

lemma find_existing_row:
  "findExistingBinding p be path rs uri db = Some b \<Longrightarrow> bindings_ok db \<Longrightarrow> gm_get db (sbSessionID b) = Some b"
  by (auto simp: findExistingBinding_def by_source_def by_runtime_def by_peer_def GetBySourceURI_def GetByRuntimeSession_def
      split: option.splits if_splits dest: newest_binding_Some)

text \<open>A row that carries the observed transcript is the one that is found.\<close>

lemma find_existing_source:
  assumes "bindings_ok db" "sources_unique db" "gm_get db i = Some c" "sbSourceURI c = uri" "given uri"
  shows "findExistingBinding p be path rs uri db = Some c"
proof -
  obtain u where u: "uri = Some u" "u \<noteq> []" using assms(5) by (auto simp: given_def)
  have "GetBySourceURI u db \<noteq> None"
    using newest_binding_none_matches [of "\<lambda>b. sbSourceURI b = Some u" db i c] assms(1,3,4) u by (auto simp: GetBySourceURI_def)
  then obtain b where b: "GetBySourceURI u db = Some b" by auto
  then have "sbSourceURI b = Some u" "gm_get db (sbSessionID b) = Some b"
    using newest_binding_Some [OF _ assms(1)] by (auto simp: GetBySourceURI_def)
  then have "sbSessionID b = i" using assms(2-5) u unfolding sources_unique_def by metis
  then have "b = c" using \<open>gm_get db (sbSessionID b) = Some b\<close> assms(3) by simp
  with b u show ?thesis by (simp add: findExistingBinding_def by_source_def given_def)
qed

definition bind_run :: "(gotime \<times> string \<times> observation) list \<Rightarrow> binding_table" where
  "bind_run obs = fold (\<lambda>(wall, sid, ob) db. snd (UpsertObservation wall sid ob db)) obs []"

lemma upsert_unique:
  assumes "bindings_ok db" "sources_unique db"
  shows "bindings_ok (snd (UpsertObservation wall sid ob db)) \<and> sources_unique (snd (UpsertObservation wall sid ob db))"
proof -
  let ?b = "observed_binding wall sid ob db"
  let ?found = "findExistingBinding (obPeerID ob) (obBackend ob) (case obProjectPath ob of Some p \<Rightarrow> p | None \<Rightarrow> [])
      (obRuntimeSessionID ob) (obSourceURI ob) db"
  have db': "snd (UpsertObservation wall sid ob db) = gm_put (sbSessionID ?b) ?b db" by (simp add: UpsertObservation_def Let_def)
  have clash: "i = sbSessionID ?b" if "gm_get db i = Some c" "given (sbSourceURI ?b)" "sbSourceURI c = sbSourceURI ?b" for i c
  proof (cases "given (obSourceURI ob)")
    case True
    then have "sbSourceURI ?b = obSourceURI ob"
      by (auto simp: observed_binding_def new_binding_def merged_binding_def sbCoalesce_def given_def Let_def split: option.split)
    with that(3) have "?found = Some c" using find_existing_source [OF assms that(1) _ True] by simp
    then have "sbSessionID ?b = sbSessionID c" by (simp add: observed_binding_def merged_binding_def Let_def)
    then show ?thesis using table_ok_pk [OF assms(1) that(1)] by simp
  next
    case False
    show ?thesis
    proof (cases ?found)
      case None
      then have "sbSourceURI ?b = obSourceURI ob" by (simp add: observed_binding_def new_binding_def Let_def)
      with False that(2) show ?thesis by simp
    next
      case (Some b)
      then have e: "sbSourceURI ?b = sbSourceURI b" "sbSessionID ?b = sbSessionID b"
        using False by (auto simp: observed_binding_def merged_binding_def sbCoalesce_def given_def Let_def)
      show ?thesis using assms(2) that find_existing_row [OF Some assms(1)] unfolding e sources_unique_def by metis
    qed
  qed
  have "sources_unique (gm_put (sbSessionID ?b) ?b db)"
    using assms(2) clash unfolding sources_unique_def by (auto split: if_splits)
  then show ?thesis unfolding db' using assms(1) by auto
qed


definition sample_observation :: observation where
  "sample_observation = \<lparr>obPeerID = Some ''p1'', obBackend = ''codex'', obProjectPath = Some ''/w'', obRuntimeSessionID = None,
     obSourceURI = Some ''file:/t.jsonl'', obSourceCursor = [], obProvenance = [], obResumeCapability = [], obStatus = [],
     obMetadata = [], obObservedAt = ''2024-01-01T00:00:00.000000+00:00''\<rparr>"


end
