(* ===== verification/Op_Store.thy ===== *)
theory Op_Store
  imports Work_Store
begin

text \<open>
  The log of long-running operations, \<open>daemon-go/state/operations.go\<close>, on the table \<open>operations\<close>
  keyed by \<open>operation_id\<close>; JSON columns hold their decoded values. As in the work store, a method reads
  the row and assigns columns computed from what it read to whatever the row has become by then.
  An operation is created queued; each try appends an attempt, and completing or failing closes
  the last attempt with the operation.
\<close>

record operation =
  opID :: string
  opKind :: string
  opState :: string
  opTarget :: jobject
  opStrategy :: "string option"
  opAttempts :: "jobject list"
  opResult :: jobject
  opError :: jobject
  opProvenance :: jobject
  opCreatedAt :: string
  opUpdatedAt :: string
  opCompletedAt :: "string option"

type_synonym op_table = "(string, operation) gomap"

definition new_operation :: "string \<Rightarrow> string \<Rightarrow> string \<Rightarrow> jobject \<Rightarrow> jobject \<Rightarrow> operation" where
  "new_operation now operationID kind target provenance =
     \<lparr>opID = operationID, opKind = kind, opState = ''queued'', opTarget = target, opStrategy = None, opAttempts = [],
      opResult = [], opError = [], opProvenance = provenance, opCreatedAt = now, opUpdatedAt = now, opCompletedAt = None\<rparr>"

text \<open>None is the failed INSERT of an id that is in the table already.\<close>

definition CreateOperation :: "string \<Rightarrow> string \<Rightarrow> string \<Rightarrow> jobject \<Rightarrow> jobject \<Rightarrow> op_table \<Rightarrow> operation option \<times> op_table" where
  "CreateOperation now operationID kind target provenance db =
     (if gm_has db operationID then (None, db)
      else (let op = new_operation now operationID kind target provenance in (Some op, gm_put operationID op db)))"

definition GetOperation :: "string \<Rightarrow> op_table \<Rightarrow> operation option" where
  "GetOperation operationID db = gm_get db operationID"

definition op_matches :: "string \<Rightarrow> string \<Rightarrow> operation \<Rightarrow> bool" where
  "op_matches kind state op \<longleftrightarrow> (kind = [] \<or> opKind op = kind) \<and> (state = [] \<or> opState op = state)"

definition ListOperations :: "string \<Rightarrow> string \<Rightarrow> op_table \<Rightarrow> operation list" where
  "ListOperations kind state db =
     rev (sort_key (\<lambda>op. DBText (opUpdatedAt op)) (rows_where (op_matches kind state) db))"

text \<open>\<open>updateOperation\<close>: the columns it assigns, given what was read.\<close>

record op_assign =
  oaState :: string
  oaStrategy :: "string option"
  oaAttempts :: "jobject list"
  oaResult :: "jobject option"
  oaError :: "jobject option"
  oaCompletedAt :: "string option"

definition op_write :: "string \<Rightarrow> op_assign \<Rightarrow> operation \<Rightarrow> operation \<Rightarrow> operation" where
  "op_write now a op row =
     row\<lparr>opState := oaState a, opStrategy := oaStrategy a, opAttempts := oaAttempts a,
         opResult := given_or (oaResult a) (opResult op), opError := given_or (oaError a) (opError op),
         opUpdatedAt := now, opCompletedAt := oaCompletedAt a\<rparr>"

definition updateOperation :: "string \<Rightarrow> operation \<Rightarrow> op_assign \<Rightarrow> op_table \<Rightarrow> operation option \<times> op_table" where
  "updateOperation now op a db = (let db' = gm_adjust (opID op) (op_write now a op) db in (GetOperation (opID op) db', db'))"

definition new_op_attempt :: "string \<Rightarrow> string \<Rightarrow> string option \<Rightarrow> jobject \<Rightarrow> jobject" where
  "new_op_attempt now attemptID strategy detail =
     [(''attempt_id'', JStr attemptID), (''state'', JStr ''running''), (''strategy'', str_or_null strategy),
      (''detail'', JObj detail), (''started_at'', JStr now), (''completed_at'', JNull), (''error'', JObj [])]"

text \<open>The last attempt, closed with the operation.\<close>

definition close_attempt :: "string \<Rightarrow> string \<Rightarrow> string \<Rightarrow> jobject \<Rightarrow> jobject list \<Rightarrow> jobject list" where
  "close_attempt now state outcome payload attempts =
     (if attempts = [] then []
      else butlast attempts @ [gm_put outcome (JObj payload) (gm_put ''completed_at'' (JStr now)
             (gm_put ''state'' (JStr state) (last attempts)))])"

definition start_assign :: "string \<Rightarrow> string \<Rightarrow> string option \<Rightarrow> jobject \<Rightarrow> operation \<Rightarrow> op_assign" where
  "start_assign now attemptID strategy detail op =
     \<lparr>oaState = ''running'', oaStrategy = coalesce strategy (opStrategy op),
      oaAttempts = opAttempts op @ [new_op_attempt now attemptID strategy detail],
      oaResult = None, oaError = None, oaCompletedAt = None\<rparr>"

definition complete_assign :: "string \<Rightarrow> string option \<Rightarrow> jobject \<Rightarrow> operation \<Rightarrow> op_assign" where
  "complete_assign now strategy res op =
     \<lparr>oaState = ''completed'', oaStrategy = coalesce strategy (opStrategy op),
      oaAttempts = close_attempt now ''completed'' ''result'' res (opAttempts op),
      oaResult = Some res, oaError = None, oaCompletedAt = Some now\<rparr>"

definition fail_state :: "string \<Rightarrow> string" where
  "fail_state state = (if state = [] then ''failed'' else state)"

definition fail_assign :: "string \<Rightarrow> string \<Rightarrow> string option \<Rightarrow> jobject \<Rightarrow> operation \<Rightarrow> op_assign" where
  "fail_assign now state strategy opErr op =
     \<lparr>oaState = fail_state state, oaStrategy = coalesce strategy (opStrategy op),
      oaAttempts = close_attempt now (fail_state state) ''error'' opErr (opAttempts op),
      oaResult = None, oaError = Some opErr, oaCompletedAt = Some now\<rparr>"

definition op_method :: "string \<Rightarrow> string \<Rightarrow> (operation \<Rightarrow> op_assign) \<Rightarrow> op_table \<Rightarrow> operation option \<times> op_table" where
  "op_method now operationID plan db = (case GetOperation operationID db of
       None \<Rightarrow> (None, db)
     | Some op \<Rightarrow> updateOperation now op (plan op) db)"

definition StartAttempt :: "string \<Rightarrow> string \<Rightarrow> string \<Rightarrow> string option \<Rightarrow> jobject \<Rightarrow> op_table \<Rightarrow> operation option \<times> op_table" where
  "StartAttempt now attemptID operationID strategy detail db =
     op_method now operationID (start_assign now attemptID strategy detail) db"

definition CompleteOperation :: "string \<Rightarrow> string \<Rightarrow> string option \<Rightarrow> jobject \<Rightarrow> op_table \<Rightarrow> operation option \<times> op_table" where
  "CompleteOperation now operationID strategy res db = op_method now operationID (complete_assign now strategy res) db"

definition FailOperation :: "string \<Rightarrow> string \<Rightarrow> string \<Rightarrow> string option \<Rightarrow> jobject \<Rightarrow> op_table \<Rightarrow> operation option \<times> op_table" where
  "FailOperation now operationID state strategy opErr db = op_method now operationID (fail_assign now state strategy opErr) db"

section \<open>The operation and its last attempt agree\<close>

abbreviation ops_ok :: "op_table \<Rightarrow> bool" where
  "ops_ok db \<equiv> table_ok opID db"

definition op_consistent :: "operation \<Rightarrow> bool" where
  "op_consistent op \<longleftrightarrow>
     (opState op = ''queued'' \<longrightarrow> opAttempts op = [] \<and> opCompletedAt op = None) \<and>
     (opState op = ''running'' \<longrightarrow> opAttempts op \<noteq> [] \<and> opCompletedAt op = None) \<and>
     (opState op \<noteq> ''queued'' \<and> opState op \<noteq> ''running'' \<longrightarrow> opCompletedAt op \<noteq> None) \<and>
     (opAttempts op \<noteq> [] \<longrightarrow> gm_get (last (opAttempts op)) ''state'' = Some (JStr (opState op)))"

lemma op_write_id [simp]: "opID (op_write now a op row) = opID row"
  by (simp add: op_write_def)

lemma close_attempt_Nil [simp]: "close_attempt now st outcome payload as = [] \<longleftrightarrow> as = []"
  by (simp add: close_attempt_def)

lemma close_attempt_last: "as \<noteq> [] \<Longrightarrow> outcome \<noteq> ''state'' \<Longrightarrow>
    gm_get (last (close_attempt now st outcome payload as)) ''state'' = Some (JStr st)"
  by (simp add: close_attempt_def)

lemma op_method_get: "ops_ok db \<Longrightarrow> gm_get (snd (op_method now i plan db)) k =
    (if k = i then map_option (\<lambda>op. op_write now (plan op) op op) (gm_get db i) else gm_get db k)"
proof (cases "gm_get db i")
  case (Some op)
  then have "opID op = i" if "ops_ok db" using that by (rule table_ok_pk [rotated])
  with Some show "ops_ok db \<Longrightarrow> ?thesis"
    by (simp add: op_method_def updateOperation_def GetOperation_def Let_def)
qed (simp add: op_method_def GetOperation_def)

lemma op_method_ok: "ops_ok db \<Longrightarrow> ops_ok (snd (op_method now i plan db))"
  by (auto simp: op_method_def updateOperation_def Let_def intro: table_ok_adjust split: option.split)

text \<open>The calls on the log, with the arguments their callers give them.\<close>

datatype op_call =
    OCreate string string string jobject jobject
  | OStart string string string "string option" jobject
  | OComplete string string "string option" jobject
  | OFail string string string "string option" jobject

definition op_step :: "op_call \<Rightarrow> op_table \<Rightarrow> op_table" where
  "op_step call db = (case call of
       OCreate now i kind target provenance \<Rightarrow> snd (CreateOperation now i kind target provenance db)
     | OStart now a i strategy detail \<Rightarrow> snd (StartAttempt now a i strategy detail db)
     | OComplete now i strategy res \<Rightarrow> snd (CompleteOperation now i strategy res db)
     | OFail now i state strategy err \<Rightarrow> snd (FailOperation now i state strategy err db))"

definition op_run :: "op_call list \<Rightarrow> op_table" where
  "op_run calls = fold op_step calls []"

definition op_call_ok :: "op_call \<Rightarrow> bool" where
  "op_call_ok call = (case call of OFail now i state strategy err \<Rightarrow> state \<noteq> ''queued'' \<and> state \<noteq> ''running'' | _ \<Rightarrow> True)"

definition ops_consistent :: "op_table \<Rightarrow> bool" where
  "ops_consistent db \<longleftrightarrow> ops_ok db \<and> (\<forall>i op. gm_get db i = Some op \<longrightarrow> op_consistent op)"

lemma op_method_consistent:
  assumes "ops_consistent db" "\<And>op. op_consistent op \<Longrightarrow> op_consistent (op_write now (plan op) op op)"
  shows "ops_consistent (snd (op_method now i plan db))"
  using assms op_method_ok [of db now i plan] by (auto simp: ops_consistent_def op_method_get split: if_splits)

lemma op_step_consistent:
  assumes "ops_consistent db" "op_call_ok call"
  shows "ops_consistent (op_step call db)"
proof (cases call)
  case (OCreate now i kind target provenance)
  then show ?thesis using assms(1)
    by (auto simp: op_step_def CreateOperation_def ops_consistent_def op_consistent_def new_operation_def Let_def split: if_splits)
next
  case (OStart now a i strategy detail)
  then show ?thesis unfolding op_step_def
    by (simp add: StartAttempt_def)
      (rule op_method_consistent [OF assms(1)], simp add: op_consistent_def op_write_def start_assign_def new_op_attempt_def gm_get_Cons)
next
  case (OComplete now i strategy res)
  then show ?thesis unfolding op_step_def
    by (simp add: CompleteOperation_def)
      (rule op_method_consistent [OF assms(1)], simp add: op_consistent_def op_write_def complete_assign_def close_attempt_last)
next
  case (OFail now i state strategy err)
  then have "fail_state state \<noteq> ''queued''" "fail_state state \<noteq> ''running''" using assms(2) by (simp_all add: op_call_ok_def fail_state_def)
  then show ?thesis unfolding OFail op_step_def
    by (simp add: FailOperation_def)
      (rule op_method_consistent [OF assms(1)], simp add: op_consistent_def op_write_def fail_assign_def close_attempt_last)
qed

text \<open>
  C39: an operation and its last attempt always agree. After any sequence of calls in which nobody
  fails an operation into the states queued or running: a queued operation has no attempt, a running
  one has, an operation carries its completion time exactly when it is neither, and the last attempt is in
  the state of its operation.
\<close>

theorem operation_matches_last_attempt:
  assumes "\<forall>call\<in>set calls. op_call_ok call" "gm_get (op_run calls) i = Some op"
  shows "op_consistent op"
proof -
  have "ops_consistent db \<Longrightarrow> ops_consistent (fold op_step calls db)" for db
    using assms(1) by (induction calls arbitrary: db) (auto intro: op_step_consistent)
  moreover have "ops_consistent []" by (simp add: ops_consistent_def)
  ultimately have "ops_consistent (op_run calls)" unfolding op_run_def by blast
  with assms(2) show ?thesis by (auto simp: ops_consistent_def)
qed

theorem operation_matches_last_attempt_witness:
  "\<exists>op. gm_get (op_run [OCreate ''t'' ''op-1'' ''acp_ask'' [] [], OStart ''t'' ''a1'' ''op-1'' None [], OFail ''t'' ''op-1'' [] None []]) ''op-1'' = Some op \<and>
     opState op = ''failed'' \<and> op_consistent op"
proof -
  let ?calls = "[OCreate ''t'' ''op-1'' ''acp_ask'' [] [], OStart ''t'' ''a1'' ''op-1'' None [], OFail ''t'' ''op-1'' [] None []]"
  obtain op where op: "gm_get (op_run ?calls) ''op-1'' = Some op" "opState op = ''failed''"
    by (auto simp: op_run_def op_step_def CreateOperation_def StartAttempt_def FailOperation_def op_method_def updateOperation_def
        GetOperation_def new_operation_def op_write_def fail_assign_def start_assign_def fail_state_def Let_def gm_has_def)
  have "\<forall>call\<in>set ?calls. op_call_ok call" by (simp add: op_call_ok_def)
  from operation_matches_last_attempt [OF this op(1)] op show ?thesis by blast
qed

end
