(* ===== verification/Acp_Reconcile.thy ===== *)
theory Acp_Reconcile
  imports Op_Store Delivery_Queue Proto
begin

text \<open>
  Asks handed to a subprocess: \<open>daemon-go/service/acp_reconcile.go\<close>. While the prompt runs, the ask is
  an operation of kind \<open>acp_ask\<close> in the log; what a restart interrupted is closed at the next
  start, with one queued notice to the asker per ask. \<open>hasOps\<close> is false when no operation store is wired.
\<close>

definition acpAskOperationKind :: string where
  "acpAskOperationKind = ''acp_ask''"

datatype acp_error = ErrPersistACPAsk

definition acp_target :: "string \<Rightarrow> string \<Rightarrow> peer option \<Rightarrow> peer \<Rightarrow> jobject" where
  "acp_target cid requestedFrom from to =
     [(''correlation_id'', JStr cid),
      (''from_peer_id'', JStr (case from of Some p \<Rightarrow> PeerID p | None \<Rightarrow> requestedFrom)),
      (''from_peer_name'', JStr (case from of Some p \<Rightarrow> DisplayName p | None \<Rightarrow> requestedFrom)),
      (''to_peer_id'', JStr (PeerID to)), (''to_peer_name'', JStr (DisplayName to))]"

definition recordACPAsk :: "bool \<Rightarrow> string \<Rightarrow> string \<Rightarrow> string \<Rightarrow> string \<Rightarrow> string \<Rightarrow> peer option \<Rightarrow> peer \<Rightarrow> op_table \<Rightarrow>
    (acp_error + string) \<times> op_table" where
  "recordACPAsk hasOps now operationID attemptID cid requestedFrom from to db =
     (if \<not> hasOps \<or> cid = [] then (Inr [], db)
      else (case CreateOperation now operationID acpAskOperationKind (acp_target cid requestedFrom from to) [] db of
          (None, db1) \<Rightarrow> (Inl ErrPersistACPAsk, db1)
        | (Some op, db1) \<Rightarrow> (Inr (opID op), snd (StartAttempt now attemptID (opID op) (Some ''acp_prompt'') [] db1))))"

definition settleACPAsk :: "bool \<Rightarrow> string \<Rightarrow> string \<Rightarrow> string option \<Rightarrow> op_table \<Rightarrow> op_table" where
  "settleACPAsk hasOps now operationID errText db =
     (if \<not> hasOps \<or> operationID = [] then db
      else (case errText of
          Some err \<Rightarrow> snd (FailOperation now operationID [] None [(''reason'', JStr ''acp_error''), (''detail'', JStr err)] db)
        | None \<Rightarrow> snd (CompleteOperation now operationID None [(''outcome'', JStr ''acked'')] db)))"

section \<open>After a restart\<close>

definition stringPtr :: "string \<Rightarrow> string option" where
  "stringPtr s = (if s = [] then None else Some s)"

definition lost_text :: "string \<Rightarrow> string \<Rightarrow> string" where
  "lost_text cid toName = ''[ack #'' @ cid @ '' from @'' @ toName @ ''] ACP ask lost across daemon restart; please retry.''"

definition lost_notice :: "operation \<Rightarrow> queued_delivery" where
  "lost_notice op =
     (let t = opTarget op
      in \<lparr>DeliveryID = [], qdPeerID = str_at t ''from_peer_id'', qdRepowireSessionID = None, qdKind = DeliveryNotify,
          qdFromPeerID = stringPtr (str_at t ''to_peer_id''), qdFromPeerName = str_at t ''to_peer_name'',
          qdToPeerName = str_at t ''from_peer_name'', qdCorrelationID = None,
          qdText = lost_text (str_at t ''correlation_id'') (str_at t ''to_peer_name''), qdCreatedAt = [], qdExpiresAt = [],
          qdAttachments = [], qdMetadata = []\<rparr>)"

definition lost_error :: jobject where
  "lost_error = [(''reason'', JStr ''daemon_restart_lost_acp_task'')]"

text \<open>\<open>mint\<close> is the id drawn for the notice of an operation; the state is the count and the two tables.\<close>

type_synonym reconcile_state = "nat \<times> op_table \<times> delivery_table"

definition reconcile_one :: "gotime \<Rightarrow> (string \<Rightarrow> string) \<Rightarrow> rat \<Rightarrow> int \<Rightarrow> operation \<Rightarrow> reconcile_state \<Rightarrow> reconcile_state" where
  "reconcile_one now mint ttl maxp op st =
     (let (n, ops, q) = st
      in if str_at (opTarget op) ''from_peer_id'' = [] then st
         else (case EnqueueDelivery (mint (opID op)) now ttl maxp (lost_notice op) q of
             (Inr (Some d), q1) \<Rightarrow> (Suc n, snd (FailOperation (formatISO now) (opID op) [] None lost_error ops), q1)
           | (_, q1) \<Rightarrow> (n, ops, q1)))"

definition reconcile_status :: "gotime \<Rightarrow> (string \<Rightarrow> string) \<Rightarrow> rat \<Rightarrow> int \<Rightarrow> string \<Rightarrow> reconcile_state \<Rightarrow> reconcile_state" where
  "reconcile_status now mint ttl maxp status st =
     fold (reconcile_one now mint ttl maxp) (ListOperations acpAskOperationKind status (fst (snd st))) st"

definition ReconcileACPInflight :: "gotime \<Rightarrow> (string \<Rightarrow> string) \<Rightarrow> rat \<Rightarrow> int \<Rightarrow> op_table \<Rightarrow> delivery_table \<Rightarrow> reconcile_state" where
  "ReconcileACPInflight now mint ttl maxp ops q =
     fold (reconcile_status now mint ttl maxp) [''queued'', ''running''] (0, ops, q)"

section \<open>What the reconciliation does\<close>

definition has_asker :: "operation \<Rightarrow> bool" where
  "has_asker op \<longleftrightarrow> str_at (opTarget op) ''from_peer_id'' \<noteq> []"

definition lost_asks :: "op_table \<Rightarrow> operation list" where
  "lost_asks ops = filter has_asker (ListOperations acpAskOperationKind ''queued'' ops @ ListOperations acpAskOperationKind ''running'' ops)"

definition close_lost :: "gotime \<Rightarrow> operation \<Rightarrow> operation" where
  "close_lost now op = op_write (formatISO now) (fail_assign (formatISO now) [] None lost_error op) op op"

definition send_notice :: "gotime \<Rightarrow> (string \<Rightarrow> string) \<Rightarrow> rat \<Rightarrow> int \<Rightarrow> operation \<Rightarrow> delivery_table \<Rightarrow> delivery_table" where
  "send_notice now mint ttl maxp op q = snd (EnqueueDelivery (mint (opID op)) now ttl maxp (lost_notice op) q)"

lemma rows_where_adjust:
  "(\<And>v. gm_get t i = Some v \<Longrightarrow> \<not> P v \<and> \<not> P (f v)) \<Longrightarrow> rows_where P (gm_adjust i f t) = rows_where P t"
proof -
  have put: "map_of t i = Some v \<Longrightarrow> \<not> P v \<Longrightarrow> \<not> P w \<Longrightarrow> filter P (map snd (AList.update i w t)) = filter P (map snd t)" for v w
    by (induction t) (auto split: if_splits)
  assume "\<And>v. gm_get t i = Some v \<Longrightarrow> \<not> P v \<and> \<not> P (f v)"
  then show ?thesis using put
    by (auto simp: rows_where_def gm_adjust_def gm_get_def gm_put_def split: option.split)
qed

lemma close_lost_simps [simp]: "opID (close_lost now op) = opID op" "opState (close_lost now op) = ''failed''"
    "opKind (close_lost now op) = opKind op" "opTarget (close_lost now op) = opTarget op"
  by (simp_all add: close_lost_def op_write_def fail_assign_def fail_state_def)

lemma ListOperations_mem: "ops_ok ops \<Longrightarrow> op \<in> set (ListOperations kind state ops) \<longleftrightarrow> op_matches kind state op \<and> gm_get ops (opID op) = Some op"
  by (simp add: ListOperations_def rows_where_pk)

lemma ListOperations_distinct: "ops_ok ops \<Longrightarrow> distinct (map opID (ListOperations kind state ops))"
  by (simp add: ListOperations_def rev_map [symmetric] distinct_map_sort_key distinct_rows_where)

lemma fail_lost: "snd (FailOperation (formatISO now) i [] None lost_error ops) =
    (case gm_get ops i of None \<Rightarrow> ops | Some op \<Rightarrow> gm_adjust (opID op) (\<lambda>row. op_write (formatISO now) (fail_assign (formatISO now) [] None lost_error op) op row) ops)"
  by (simp add: FailOperation_def op_method_def GetOperation_def updateOperation_def Let_def split: option.split)

lemma fail_lost_get: "ops_ok ops \<Longrightarrow> gm_get (snd (FailOperation (formatISO now) i [] None lost_error ops)) k =
    (if k = i then map_option (close_lost now) (gm_get ops i) else gm_get ops k)"
  by (simp add: FailOperation_def op_method_get close_lost_def [abs_def])

lemma fail_lost_list:
  assumes "ops_ok ops" "gm_get ops i = Some op" "opState op \<noteq> status" "status \<noteq> ''failed''" "status \<noteq> []"
  shows "ListOperations kind status (snd (FailOperation (formatISO now) i [] None lost_error ops)) = ListOperations kind status ops"
proof -
  have i: "opID op = i" using assms(1,2) by (rule table_ok_pk)
  have "\<not> op_matches kind status v \<and> \<not> op_matches kind status (op_write (formatISO now) (fail_assign (formatISO now) [] None lost_error op) op v)"
    if "gm_get ops i = Some v" for v
    using assms(2-5) that by (simp add: op_matches_def op_write_def fail_assign_def fail_state_def)
  then have "rows_where (op_matches kind status) (gm_adjust i (op_write (formatISO now) (fail_assign (formatISO now) [] None lost_error op) op) ops) =
      rows_where (op_matches kind status) ops" by (rule rows_where_adjust)
  then show ?thesis unfolding ListOperations_def fail_lost using assms(2) i by simp
qed

text \<open>With room in the queue and a fresh id, the notice is stored.\<close>

lemma enqueue_stored: "0 < ttl \<Longrightarrow> 0 < maxp \<Longrightarrow> \<not> gm_has q i \<Longrightarrow> gm_ok q \<Longrightarrow>
    \<exists>d. EnqueueDelivery i now ttl maxp r q = (Inr (Some d), snd (EnqueueDelivery i now ttl maxp r q))"
  by (auto simp: EnqueueDelivery_def Let_def deleteExpired_def gm_has_def split: option.splits)

lemma enqueue_keys: "gm_ok q \<Longrightarrow> gm_ok (snd (EnqueueDelivery i now ttl maxp r q)) \<and>
    (gm_has (snd (EnqueueDelivery i now ttl maxp r q)) k \<longrightarrow> k = i \<or> gm_has q k)"
  by (auto simp: EnqueueDelivery_def Let_def deleteExpired_def enforceCap_def gm_has_def split: option.splits if_splits)

lemma reconcile_fold:
  assumes "0 < ttl" "0 < maxp" "inj mint"
  shows "ops_ok ops \<Longrightarrow> gm_ok q \<Longrightarrow> distinct (map opID L) \<Longrightarrow>
     (\<forall>op\<in>set L. has_asker op \<longrightarrow> \<not> gm_has q (mint (opID op))) \<Longrightarrow>
     fold (reconcile_one now mint ttl maxp) L (n, ops, q) =
       (n + length (filter has_asker L),
        fold (\<lambda>op ops. snd (FailOperation (formatISO now) (opID op) [] None lost_error ops)) (filter has_asker L) ops,
        fold (send_notice now mint ttl maxp) (filter has_asker L) q)"
proof (induction L arbitrary: n ops q)
  case (Cons op L)
  show ?case
  proof (cases "has_asker op")
    case False
    then have "reconcile_one now mint ttl maxp op (n, ops, q) = (n, ops, q)" by (simp add: reconcile_one_def has_asker_def)
    then show ?thesis using False Cons by simp
  next
    case True
    let ?q = "send_notice now mint ttl maxp op q"
    let ?ops = "snd (FailOperation (formatISO now) (opID op) [] None lost_error ops)"
    have "\<not> gm_has q (mint (opID op))" using Cons.prems(4) True by simp
    from enqueue_stored [OF assms(1,2) this Cons.prems(2), of now "lost_notice op"]
    obtain d where "EnqueueDelivery (mint (opID op)) now ttl maxp (lost_notice op) q = (Inr (Some d), ?q)"
      unfolding send_notice_def by blast
    then have step: "reconcile_one now mint ttl maxp op (n, ops, q) = (Suc n, ?ops, ?q)"
      using True by (simp add: reconcile_one_def has_asker_def)
    have q: "gm_ok ?q" using enqueue_keys [OF Cons.prems(2)] by (simp add: send_notice_def)
    have ops: "ops_ok ?ops" using op_method_ok [OF Cons.prems(1)] by (simp add: FailOperation_def)
    have "\<not> gm_has ?q (mint (opID op'))" if "op' \<in> set L" "has_asker op'" for op'
    proof -
      have "opID op' \<noteq> opID op" using Cons.prems(3) imageI [OF that(1), of opID] by auto
      then have "mint (opID op') \<noteq> mint (opID op)" using assms(3) by (metis inj_eq)
      moreover have "\<not> gm_has q (mint (opID op'))" using Cons.prems(4) that by simp
      ultimately show ?thesis using enqueue_keys [OF Cons.prems(2)] unfolding send_notice_def by blast
    qed
    then have fresh: "\<forall>op'\<in>set L. has_asker op' \<longrightarrow> \<not> gm_has ?q (mint (opID op'))" by blast
    have "distinct (map opID L)" using Cons.prems(3) by simp
    from Cons.IH [OF ops q this fresh] show ?thesis using True step by simp
  qed
qed simp

lemma reconcile_phase:
  assumes "0 < ttl" "0 < maxp" "ops_ok ops" "gm_ok q" "inj mint" "\<And>op. op \<in> set (ListOperations acpAskOperationKind status ops) \<Longrightarrow> has_asker op \<Longrightarrow> \<not> gm_has q (mint (opID op))"
  shows "reconcile_status now mint ttl maxp status (n, ops, q) =
     (let L = filter has_asker (ListOperations acpAskOperationKind status ops)
      in (n + length L, fold (\<lambda>op ops. snd (FailOperation (formatISO now) (opID op) [] None lost_error ops)) L ops,
          fold (send_notice now mint ttl maxp) L q))"
  unfolding reconcile_status_def Let_def fst_conv snd_conv
  by (rule reconcile_fold) (use assms ListOperations_distinct [OF assms(3)] in auto)

lemma fail_all_get:
  assumes "ops_ok ops" "distinct (map opID L)" "\<And>op. op \<in> set L \<Longrightarrow> gm_get ops (opID op) = Some op"
  shows "ops_ok (fold (\<lambda>op ops. snd (FailOperation (formatISO now) (opID op) [] None lost_error ops)) L ops) \<and>
     gm_get (fold (\<lambda>op ops. snd (FailOperation (formatISO now) (opID op) [] None lost_error ops)) L ops) i =
       (if i \<in> opID ` set L then map_option (close_lost now) (gm_get ops i) else gm_get ops i)"
  using assms
proof (induction L arbitrary: ops)
  case (Cons op L)
  let ?ops = "snd (FailOperation (formatISO now) (opID op) [] None lost_error ops)"
  have ok: "ops_ok ?ops" using op_method_ok [OF Cons.prems(1)] by (simp add: FailOperation_def)
  have "gm_get ?ops (opID op') = Some op'" if "op' \<in> set L" for op'
  proof -
    have "opID op' \<noteq> opID op" using imageI [OF that, of opID] Cons.prems(2) by auto
    then show ?thesis using Cons.prems(3) [of op'] that by (simp add: fail_lost_get [OF Cons.prems(1)])
  qed
  from Cons.IH [OF ok _ this] Cons.prems(2) show ?case
    by (auto simp: fail_lost_get [OF Cons.prems(1)])
qed simp

lemma fail_all_list:
  assumes "ops_ok ops" "distinct (map opID L)" "\<And>op. op \<in> set L \<Longrightarrow> gm_get ops (opID op) = Some op \<and> opState op \<noteq> status"
    and "status \<noteq> ''failed''" "status \<noteq> []"
  shows "ListOperations kind status (fold (\<lambda>op ops. snd (FailOperation (formatISO now) (opID op) [] None lost_error ops)) L ops) =
     ListOperations kind status ops"
  using assms(1-3)
proof (induction L arbitrary: ops)
  case (Cons op L)
  let ?ops = "snd (FailOperation (formatISO now) (opID op) [] None lost_error ops)"
  have ok: "ops_ok ?ops" using op_method_ok [OF Cons.prems(1)] by (simp add: FailOperation_def)
  have row: "gm_get ops (opID op) = Some op" "opState op \<noteq> status" using Cons.prems(3) by simp_all
  have "gm_get ?ops (opID op') = Some op' \<and> opState op' \<noteq> status" if "op' \<in> set L" for op'
  proof -
    have "opID op' \<noteq> opID op" using imageI [OF that, of opID] Cons.prems(2) by auto
    then show ?thesis using Cons.prems(3) [of op'] that by (simp add: fail_lost_get [OF Cons.prems(1)])
  qed
  from Cons.IH [OF ok _ this] Cons.prems(2) have "ListOperations kind status (fold (\<lambda>op ops. snd (FailOperation (formatISO now) (opID op) [] None lost_error ops)) L ?ops) =
      ListOperations kind status ?ops" by simp
  also have "\<dots> = ListOperations kind status ops" by (rule fail_lost_list [OF Cons.prems(1) row assms(4,5)])
  finally show ?case by simp
qed simp

lemma send_all_keys: "gm_ok q \<Longrightarrow> gm_ok (fold (send_notice now mint ttl maxp) L q) \<and>
    (gm_has (fold (send_notice now mint ttl maxp) L q) k \<longrightarrow> k \<in> (mint \<circ> opID) ` set L \<or> gm_has q k)"
proof (induction L arbitrary: q)
  case (Cons op L)
  have "gm_ok (send_notice now mint ttl maxp op q)" using enqueue_keys [OF Cons.prems] by (simp add: send_notice_def)
  from Cons.IH [OF this] show ?case using enqueue_keys [OF Cons.prems] by (fastforce simp: send_notice_def)
qed simp

lemma no_askers_no_change: "\<forall>op\<in>set L. \<not> has_asker op \<Longrightarrow> fold (reconcile_one now mint ttl maxp) L st = st"
  by (induction L) (simp_all add: reconcile_one_def has_asker_def)

lemma reconcile_nothing_lost: "lost_asks ops = [] \<Longrightarrow> ReconcileACPInflight now mint ttl maxp ops q = (0, ops, q)"
  by (simp add: ReconcileACPInflight_def reconcile_status_def no_askers_no_change lost_asks_def filter_empty_conv)

lemma acp_reconcile_run:
  assumes "ops_ok ops" "gm_ok q" "0 < ttl" "0 < maxp" "inj mint" "\<And>op. op \<in> set (lost_asks ops) \<Longrightarrow> \<not> gm_has q (mint (opID op))"
  shows "\<exists>ops'. ReconcileACPInflight now mint ttl maxp ops q =
       (length (lost_asks ops), ops', fold (send_notice now mint ttl maxp) (lost_asks ops) q) \<and> ops_ok ops' \<and>
     (\<forall>i. gm_get ops' i = (if i \<in> opID ` set (lost_asks ops) then map_option (close_lost now) (gm_get ops i) else gm_get ops i))"
proof -
  let ?fail = "\<lambda>L. fold (\<lambda>op ops. snd (FailOperation (formatISO now) (opID op) [] None lost_error ops)) L"
  let ?Q = "filter has_asker (ListOperations acpAskOperationKind ''queued'' ops)"
  let ?R = "filter has_asker (ListOperations acpAskOperationKind ''running'' ops)"
  have lost: "lost_asks ops = ?Q @ ?R" by (simp add: lost_asks_def)
  have fresh: "\<not> gm_has q (mint (opID op))" if "op \<in> set ?Q \<or> op \<in> set ?R" for op using assms(6) that by (simp add: lost)
  have rows: "gm_get ops (opID op) = Some op \<and> opState op = ''queued''" if "op \<in> set ?Q" for op
    using that by (simp add: ListOperations_mem [OF assms(1)] op_matches_def)
  have rows': "gm_get ops (opID op) = Some op \<and> opState op = ''running''" if "op \<in> set ?R" for op
    using that by (simp add: ListOperations_mem [OF assms(1)] op_matches_def)
  have dist: "distinct (map opID ?Q)" "distinct (map opID ?R)"
    using ListOperations_distinct [OF assms(1)] by (simp_all add: distinct_map_filter)
  have "opID ` set ?Q \<inter> opID ` set ?R = {}" using rows rows' by fastforce
  with dist have dist': "distinct (map opID (?Q @ ?R))" by simp
  let ?ops = "?fail ?Q ops"
  let ?q = "fold (send_notice now mint ttl maxp) ?Q q"
  have one: "reconcile_status now mint ttl maxp ''queued'' (0, ops, q) = (length ?Q, ?ops, ?q)"
    using reconcile_phase [OF assms(3,4,1,2,5), of "''queued''" now 0] fresh by (simp add: Let_def)
  have ok: "ops_ok ?ops" using fail_all_get [OF assms(1) dist(1)] rows by blast
  have list: "ListOperations acpAskOperationKind ''running'' ?ops = ListOperations acpAskOperationKind ''running'' ops"
    by (rule fail_all_list [OF assms(1) dist(1)]) (use rows in auto)
  have q: "gm_ok ?q" using send_all_keys [OF assms(2)] by blast
  have "\<not> gm_has ?q (mint (opID op))" if "op \<in> set ?R" for op
  proof -
    have "mint (opID op) \<notin> (mint \<circ> opID) ` set ?Q" using assms(5) that \<open>opID ` set ?Q \<inter> opID ` set ?R = {}\<close> by (auto simp: inj_def)
    then show ?thesis using send_all_keys [OF assms(2)] fresh that by blast
  qed
  then have two: "reconcile_status now mint ttl maxp ''running'' (length ?Q, ?ops, ?q) =
      (length ?Q + length ?R, ?fail ?R ?ops, fold (send_notice now mint ttl maxp) ?R ?q)"
    using reconcile_phase [OF assms(3,4) ok q assms(5), of "''running''" now "length ?Q"] by (simp add: Let_def list)
  have run: "ReconcileACPInflight now mint ttl maxp ops q =
      (length (lost_asks ops), ?fail (lost_asks ops) ops, fold (send_notice now mint ttl maxp) (lost_asks ops) q)"
    unfolding ReconcileACPInflight_def lost by (simp add: one two)
  have "gm_get ops (opID op) = Some op" if "op \<in> set (?Q @ ?R)" for op using that rows rows' by auto
  from fail_all_get [OF assms(1) dist' this, folded lost] run show ?thesis by blast
qed

text \<open>
  C37: after a restart every interrupted subprocess ask is settled once. If the queue is enabled and the
  minted ids are new, a run closes as failed exactly the operations of this kind that were queued or
  running for a known asker, leaves every other operation as it was, queues one notice per closed ask and
  returns their number; a further run, at any later time, finds nothing and changes nothing.
\<close>

theorem acp_reconcile_settles_once:
  assumes "ops_ok ops" "gm_ok q" "0 < ttl" "0 < maxp" "inj mint" "\<And>op. op \<in> set (lost_asks ops) \<Longrightarrow> \<not> gm_has q (mint (opID op))"
  shows "\<exists>ops' q'. ReconcileACPInflight now mint ttl maxp ops q = (length (lost_asks ops), ops', q') \<and>
     q' = fold (send_notice now mint ttl maxp) (lost_asks ops) q \<and>
     (\<forall>i. gm_get ops' i = (if i \<in> opID ` set (lost_asks ops) then map_option (close_lost now) (gm_get ops i) else gm_get ops i)) \<and>
     ReconcileACPInflight now' mint' ttl' maxp' ops' q' = (0, ops', q')"
proof -
  obtain ops' where r: "ReconcileACPInflight now mint ttl maxp ops q =
       (length (lost_asks ops), ops', fold (send_notice now mint ttl maxp) (lost_asks ops) q)" "ops_ok ops'"
    "\<And>i. gm_get ops' i = (if i \<in> opID ` set (lost_asks ops) then map_option (close_lost now) (gm_get ops i) else gm_get ops i)"
    using acp_reconcile_run [OF assms] by blast
  have "op \<notin> set (lost_asks ops')" for op
  proof
    assume "op \<in> set (lost_asks ops')"
    then have op: "has_asker op" "opKind op = acpAskOperationKind" "opState op = ''queued'' \<or> opState op = ''running''" "gm_get ops' (opID op) = Some op"
      by (auto simp: lost_asks_def ListOperations_mem [OF r(2)] op_matches_def acpAskOperationKind_def)
    then have "opID op \<notin> opID ` set (lost_asks ops)" using r(3) [of "opID op"] by (auto split: if_splits)
    then have "op \<in> set (lost_asks ops)" using op r(3) [of "opID op"]
      by (auto simp: lost_asks_def ListOperations_mem [OF assms(1)] op_matches_def)
    with \<open>opID op \<notin> _\<close> show False by blast
  qed
  then have "lost_asks ops' = []" using list.set_intros(1) by (metis list.exhaust)
  from reconcile_nothing_lost [OF this] r show ?thesis by blast
qed

definition sample_lost :: operation where
  "sample_lost = (new_operation ''2024-02-29T12:00:00.000000+00:00'' ''op-1'' acpAskOperationKind
     [(''correlation_id'', JStr ''c1''), (''from_peer_id'', JStr ''p1''), (''to_peer_name'', JStr ''coder'')] [])\<lparr>opState := ''running''\<rparr>"

lemma sample_lost_asks: "lost_asks [(''op-1'', sample_lost)] = [sample_lost]"
  by (simp add: lost_asks_def ListOperations_def rows_where_def op_matches_def sample_lost_def new_operation_def
      acpAskOperationKind_def has_asker_def str_at_def gm_get_Cons)

theorem acp_reconcile_settles_once_witness:
  "\<exists>ops' q'. ReconcileACPInflight 1709208001000000000 (\<lambda>i. i) 60 50 [(''op-1'', sample_lost)] [] = (1, ops', q') \<and>
     ReconcileACPInflight 1709208002000000000 (\<lambda>i. i) 60 50 ops' q' = (0, ops', q')"
proof -
  have "ops_ok [(''op-1'', sample_lost)]"
    by (auto simp: table_ok_def gm_ok_def gm_get_Cons sample_lost_def new_operation_def split: if_splits)
  from acp_reconcile_settles_once [OF this, of "[]" 60 50 "\<lambda>i. i" 1709208001000000000 1709208002000000000 "\<lambda>i. i" 60 50]
  show ?thesis by (auto simp: sample_lost_asks gm_has_def)
qed

end
