(* ===== verification/Delivery.thy ===== *)
theory Delivery
  imports Registry_Ops Ask_Safety Routing Recall Binding_Store Acp_Reconcile
begin

text \<open>
  Delivery between peers, \<open>daemon-go/service/delivery.go\<close>: the access check of the registry, the choice
  of transport, the ask tracker, the durable queue and the operations log composed into \<open>Notify\<close>,
  \<open>DeliverAsk\<close>, \<open>OpenScheduledAsk\<close>, \<open>Broadcast\<close> and the completion of a subprocess ask.

  The state is the record \<open>world\<close>, one field per component. What the outside decides is the record
  \<open>delivery_env\<close>: the environment of the registry, whether a socket takes a write and what receipt it
  sends, whether the broker accepts a prompt, the notes of the orchestrator, the minted ids and the
  instants at which a waiting call polls. A call runs to its end without steps of other goroutines in
  between. None means that it blocks for ever, as in the tracker and the transport.
\<close>

section \<open>State\<close>

record delivery_env =
  deReg :: env
  deTTL :: rat
  deMax :: int
  deHasQueue :: bool
  deHasOps :: bool
  deHasAsks :: bool
  deRecall :: recall_settings
  deMemory :: "string list"
  deNotes :: "string \<Rightarrow> string option"
  deWrites :: "string \<Rightarrow> bool"
  deReceipt :: "string \<Rightarrow> receipt"
  dePrompt :: "acp_spec \<Rightarrow> string \<Rightarrow> string option"
  dePolls :: "gotime list"
  deHex8 :: string
  deQueueID :: string
  deOpID :: string
  deAttemptID :: string

text \<open>A prompt the broker accepted, with what its completion will need.\<close>

datatype prompt_kind = NotifyPrompt | BroadcastPrompt | AskPrompt string string

record world =
  wReg :: registry
  wTrans :: transport
  wAsks :: tracker
  wQueue :: delivery_table
  wOps :: op_table
  wBindings :: binding_table
  wPrompts :: "(acp_spec \<times> string \<times> prompt_kind) list"
  wDeferred :: "(string \<times> string \<times> string) list"
  wClosed :: bool

datatype delivery_error =
    DAccess resolve_error
  | DRoute route_error
  | DPrompt string
  | DBusyNoQueue string
  | DQueue queue_error
  | DPersist acp_error
  | DAsk ask_error
  | DNoTracker

type_synonym 'a delivered = "((delivery_error + 'a) \<times> world) option"

record notify_result =
  nrStatus :: string
  nrDeliveryState :: string
  nrReason :: string
  nrFromPeerID :: "string option"
  nrFromPeerName :: string
  nrToPeerID :: string
  nrToPeerName :: string
  nrHookDelivery :: "jobject option"
  nrDeliveryID :: string
  nrTransport :: string
  nrRepowireSessionID :: "string option"
  nrFromRepowireSessionID :: "string option"
  nrToRepowireSessionID :: "string option"

definition res_Delivered :: "notify_result \<Rightarrow> bool" where
  "res_Delivered r \<longleftrightarrow> nrDeliveryState r = ''delivered''"

definition res_Queued :: "notify_result \<Rightarrow> bool" where
  "res_Queued r \<longleftrightarrow> nrDeliveryState r = ''queued''"

record notify_params =
  npFromPeer :: string
  npToPeer :: string
  npText :: string
  npBypassCircle :: bool
  npCircle :: "string option"
  npAttachments :: "jobject list"
  npDeliveryID :: string

record ask_params =
  apFromPeer :: string
  apToPeer :: string
  apText :: string
  apCorrelationID :: string
  apReplyTo :: "string option"
  apBypassCircle :: bool
  apCircle :: "string option"
  apAttachments :: "jobject list"
  apQuestion :: "jobject option"

section \<open>Helpers\<close>

definition seedSettleWait :: duration where
  "seedSettleWait = 25 * second"

text \<open>The registry probes liveness through the transport.\<close>

definition reg_env :: "delivery_env \<Rightarrow> world \<Rightarrow> env" where
  "reg_env d w = (deReg d)\<lparr>Transport := Some (\<lambda>i. IsConnected i (wTrans w))\<rparr>"

definition wsRecipientBusy :: "peer \<Rightarrow> bool" where
  "wsRecipientBusy p \<longleftrightarrow>
     \<not> (HasCapability (Metadata p) CapRuntimeInbox \<or> HasCapability (Metadata p) CapThreadSteering) \<and>
     (Status p = StatusBusy \<or> TurnState p = TurnWorking)"

definition sessionIDForPeer :: "delivery_env \<Rightarrow> string option \<Rightarrow> world \<Rightarrow> string option" where
  "sessionIDForPeer d peerID w =
     (if \<not> deHasOps d \<or> peerID = None \<or> peerID = Some [] then None
      else (case ListBindingsByPeer (the peerID) (wBindings w) of [] \<Rightarrow> None | b # bs \<Rightarrow> Some (sbSessionID b)))"

definition from_name :: "string \<Rightarrow> peer option \<Rightarrow> string" where
  "from_name requested from = (case from of Some p \<Rightarrow> DisplayName p | None \<Rightarrow> requested)"

definition id_string :: "peer option \<Rightarrow> string" where
  "id_string from = (case from of Some p \<Rightarrow> PeerID p | None \<Rightarrow> [])"

definition recalled :: "delivery_env \<Rightarrow> string \<Rightarrow> string \<Rightarrow> peer option \<Rightarrow> peer \<Rightarrow> string" where
  "recalled d text requested from target =
     addOrchestratorRecall (deRecall d) (deMemory d) (deNotes d) text (from_name requested from) (id_string from) target"

text \<open>The poll of the seed gate: one look at the peer per instant, until it settles, is gone or time is up.\<close>

fun awaitSeedSettled :: "env \<Rightarrow> gotime \<Rightarrow> gotime list \<Rightarrow> string \<Rightarrow> registry \<Rightarrow> registry" where
  "awaitSeedSettled e deadline [] i r = r"
| "awaitSeedSettled e deadline (now # polls) i r =
     (case GetPeer (e\<lparr>Now := now\<rparr>) i r of
        (r1, None) \<Rightarrow> r1
      | (r1, Some p) \<Rightarrow>
          if TurnState p \<noteq> TurnPendingFirstTurn \<or> deadline < now then r1 else awaitSeedSettled e deadline polls i r1)"

definition gateOnSeedSettled :: "delivery_env \<Rightarrow> peer \<Rightarrow> world \<Rightarrow> world" where
  "gateOnSeedSettled d target w =
     (if TurnState target \<noteq> TurnPendingFirstTurn \<or> ACPRoute (wTrans w) target \<noteq> None then w
      else w\<lparr>wReg := awaitSeedSettled (reg_env d w) (Now (deReg d) + seedSettleWait) (dePolls d) (PeerID target) (wReg w)\<rparr>)"

definition markTransportUnreachable :: "delivery_env \<Rightarrow> peer \<Rightarrow> world \<Rightarrow> world" where
  "markTransportUnreachable d target w =
     (if has_pane target \<or> gm_get (Metadata target) ''repowire_cli_fallback'' = Some (JBool True) then w
      else w\<lparr>wReg := MarkOffline (reg_env d w) (PeerID target) False (wReg w)\<rparr>)"

definition first_str :: "jobject \<Rightarrow> string \<Rightarrow> string \<Rightarrow> string" where
  "first_str data k k' = (if str_at data k \<noteq> [] then str_at data k else str_at data k')"

definition AddEvent :: "env \<Rightarrow> string \<Rightarrow> jobject \<Rightarrow> registry \<Rightarrow> string \<times> registry" where
  "AddEvent e eventType data r =
     (let (u, r1) = nextUuid e r
      in (u, appendEvent e \<lparr>evEventID = u, evType = eventType, evTimestamp = Now e, evPeerID = str_at data ''peer_id'',
           evPeerName = first_str data ''peer_name'' ''peer'', evSessionID = first_str data ''session_id'' ''repowire_session_id'',
           evPayload = data\<rparr> r1))"

section \<open>Notify\<close>

definition notify_result_of :: "delivery_env \<Rightarrow> notify_params \<Rightarrow> peer option \<Rightarrow> peer \<Rightarrow> world \<Rightarrow> string \<Rightarrow> string \<Rightarrow> string \<Rightarrow>
    jobject option \<Rightarrow> string \<Rightarrow> notify_result" where
  "notify_result_of d p from target w status state reason hook tr =
     (let toSession = sessionIDForPeer d (Some (PeerID target)) w
      in \<lparr>nrStatus = status, nrDeliveryState = state, nrReason = reason, nrFromPeerID = map_option PeerID from,
          nrFromPeerName = from_name (npFromPeer p) from, nrToPeerID = PeerID target, nrToPeerName = DisplayName target,
          nrHookDelivery = hook, nrDeliveryID = npDeliveryID p, nrTransport = tr, nrRepowireSessionID = toSession,
          nrFromRepowireSessionID = sessionIDForPeer d (map_option PeerID from) w, nrToRepowireSessionID = toSession\<rparr>)"

definition queued_row :: "delivery_env \<Rightarrow> notify_params \<Rightarrow> peer option \<Rightarrow> peer \<Rightarrow> world \<Rightarrow> queued_delivery" where
  "queued_row d p from target w =
     \<lparr>DeliveryID = [], qdPeerID = PeerID target, qdRepowireSessionID = sessionIDForPeer d (Some (PeerID target)) w,
      qdKind = DeliveryNotify, qdFromPeerID = map_option PeerID from, qdFromPeerName = from_name (npFromPeer p) from,
      qdToPeerName = DisplayName target, qdCorrelationID = None, qdText = npText p, qdCreatedAt = [], qdExpiresAt = [],
      qdAttachments = npAttachments p, qdMetadata = []\<rparr>"

definition queued_event :: "notify_params \<Rightarrow> peer option \<Rightarrow> peer \<Rightarrow> string \<Rightarrow> jobject" where
  "queued_event p from target queueID =
     [(''from'', JStr (from_name (npFromPeer p) from)), (''to'', JStr (DisplayName target)), (''text'', JStr (npText p)),
      (''from_peer_id'', str_or_null (map_option PeerID from)), (''to_peer_id'', JStr (PeerID target)),
      (''delivery_status'', JStr ''queued''), (''delivery_state'', JStr ''queued''), (''queue_delivery_id'', JStr queueID),
      (''attachments'', JArr (map JObj (npAttachments p)))]"

definition queueNotify :: "delivery_env \<Rightarrow> notify_params \<Rightarrow> peer option \<Rightarrow> peer \<Rightarrow> delivery_error \<Rightarrow> bool \<Rightarrow> world \<Rightarrow>
    (delivery_error + notify_result) \<times> world" where
  "queueNotify d p from target err busy w0 =
     (let w = (if busy then w0 else markTransportUnreachable d target w0)
      in if \<not> deHasQueue d then (Inl err, w)
         else (case EnqueueDelivery (deQueueID d) (Now (deReg d)) (deTTL d) (deMax d) (queued_row d p from target w) (wQueue w) of
             (Inl qerr, q) \<Rightarrow> (Inl (DQueue qerr), w\<lparr>wQueue := q\<rparr>)
           | (Inr None, q) \<Rightarrow> (Inl err, w\<lparr>wQueue := q\<rparr>)
           | (Inr (Some out), q) \<Rightarrow>
               (let w1 = w\<lparr>wQueue := q,
                      wReg := snd (AddEvent (reg_env d w) ''notification'' (queued_event p from target (DeliveryID out)) (wReg w))\<rparr>
                in (Inr (notify_result_of d p from target w1 ''queued'' ''queued''
                      (if busy then ''recipient_busy'' else ''queued_delivery'') None []), w1))))"

definition notify_socket :: "delivery_env \<Rightarrow> notify_params \<Rightarrow> peer option \<Rightarrow> peer \<Rightarrow> world \<Rightarrow> notify_result delivered" where
  "notify_socket d p from target w =
     (case SendNotification (deWrites d (PeerID target)) (deReceipt d (PeerID target)) (deHex8 d) (from_name (npFromPeer p) from)
        (PeerID target) (DisplayName target) (npText p) (npAttachments p) (npDeliveryID p) (wTrans w) of
       None \<Rightarrow> None
     | Some (Inl err, t) \<Rightarrow>
         (let w1 = w\<lparr>wTrans := t\<rparr>
          in if unreachable_error err
             then Some (queueNotify d p from target (DRoute (RouteTransport err)) False w1)
             else Some (Inl (DRoute (RouteTransport err)), w1))
     | Some (Inr hook, t) \<Rightarrow>
         Some (Inr (notify_result_of d p from target (w\<lparr>wTrans := t\<rparr>) ''sent'' ''delivered'' ''transport_delivered'' hook ''ws''),
           w\<lparr>wTrans := t\<rparr>))"

definition notify_target :: "delivery_env \<Rightarrow> notify_params \<Rightarrow> peer option \<Rightarrow> peer \<Rightarrow> world \<Rightarrow> notify_result delivered" where
  "notify_target d p0 from target w0 =
     (let w = gateOnSeedSettled d target w0;
          p = p0\<lparr>npText := recalled d (npText p0) (npFromPeer p0) from target\<rparr>
      in case ACPRoute (wTrans w) target of
           Some spec \<Rightarrow> (case dePrompt d spec (npText p) of
               Some err \<Rightarrow> Some (Inl (DPrompt err), w)
             | None \<Rightarrow> Some (Inr (notify_result_of d p from target w ''sent'' ''delivered'' ''broker_accepted'' None ''acp''),
                 w\<lparr>wPrompts := wPrompts w @ [(spec, npText p, NotifyPrompt)]\<rparr>))
         | None \<Rightarrow>
             if wsRecipientBusy target
             then Some (queueNotify d p from target (DBusyNoQueue (DisplayName target)) True w)
             else notify_socket d p from target w)"

definition Notify :: "delivery_env \<Rightarrow> notify_params \<Rightarrow> world \<Rightarrow> notify_result delivered" where
  "Notify d p w = (case CheckAccess (reg_env d w) (npFromPeer p) (npToPeer p) (npBypassCircle p) (npCircle p) (wReg w) of
       Inl err \<Rightarrow> Some (Inl (DAccess err), w)
     | Inr (from, target) \<Rightarrow> notify_target d p from target w)"

section \<open>DeliverAsk\<close>

record ask_result =
  arTransport :: string
  arHookDelivery :: "jobject option"

definition ask_socket :: "delivery_env \<Rightarrow> ask_params \<Rightarrow> peer option \<Rightarrow> peer \<Rightarrow> world \<Rightarrow> ask_result delivered" where
  "ask_socket d p from target w =
     (case SendAsk (deWrites d (PeerID target)) (deReceipt d (PeerID target)) (deHex8 d) (from_name (apFromPeer p) from)
        (PeerID target) (DisplayName target) (apCorrelationID p) (apText p) (apReplyTo p) (apQuestion p) (apAttachments p) (wTrans w) of
       None \<Rightarrow> None
     | Some (Inr hook, t) \<Rightarrow> Some (Inr \<lparr>arTransport = ''ws'', arHookDelivery = hook\<rparr>, w\<lparr>wTrans := t\<rparr>)
     | Some (Inl (RouteInjection st detail ack), t) \<Rightarrow> Some (Inl (DRoute (RouteInjection st detail ack)), w\<lparr>wTrans := t\<rparr>)
     | Some (Inl (RouteTransport err), t) \<Rightarrow>
         (let w1 = w\<lparr>wTrans := t\<rparr>
          in Some (Inl (DRoute (RouteTransport err)), if unreachable_error err then markTransportUnreachable d target w1 else w1)))"

definition ask_target :: "delivery_env \<Rightarrow> ask_params \<Rightarrow> peer option \<Rightarrow> peer \<Rightarrow> world \<Rightarrow> ask_result delivered" where
  "ask_target d p0 from target w0 =
     (let w = gateOnSeedSettled d target w0;
          p = p0\<lparr>apText := recalled d (apText p0) (apFromPeer p0) from target\<rparr>;
          now = formatISO (Now (deReg d))
      in case ACPRoute (wTrans w) target of
           Some spec \<Rightarrow>
             (case recordACPAsk (deHasOps d) now (deOpID d) (deAttemptID d) (apCorrelationID p) (apFromPeer p) from target (wOps w) of
                (Inl err, ops) \<Rightarrow> Some (Inl (DPersist err), w\<lparr>wOps := ops\<rparr>)
              | (Inr oid, ops) \<Rightarrow>
                  (case dePrompt d spec (apText p) of
                     Some err \<Rightarrow> Some (Inl (DPrompt err), w\<lparr>wOps := settleACPAsk (deHasOps d) now oid (Some err) ops\<rparr>)
                   | None \<Rightarrow> Some (Inr \<lparr>arTransport = ''acp'', arHookDelivery = None\<rparr>,
                       w\<lparr>wOps := ops, wPrompts := wPrompts w @ [(spec, apText p, AskPrompt (apCorrelationID p) oid)]\<rparr>)))
         | None \<Rightarrow>
             if wsRecipientBusy target then Some (Inr \<lparr>arTransport = ''deferred'', arHookDelivery = None\<rparr>, w)
             else ask_socket d p from target w)"

definition DeliverAsk :: "delivery_env \<Rightarrow> ask_params \<Rightarrow> world \<Rightarrow> ask_result delivered" where
  "DeliverAsk d p w = (case CheckAccess (reg_env d w) (apFromPeer p) (apToPeer p) (apBypassCircle p) (apCircle p) (wReg w) of
       Inl err \<Rightarrow> Some (Inl (DAccess err), w)
     | Inr (from, target) \<Rightarrow> ask_target d p from target w)"

section \<open>The completion of a subprocess ask\<close>

definition close_ask :: "string \<Rightarrow> string \<Rightarrow> world \<Rightarrow> world option" where
  "close_ask cid reason w = map_option (\<lambda>(a, t). w\<lparr>wAsks := t\<rparr>) (Close cid reason (wAsks w))"

definition capture :: "delivery_env \<Rightarrow> string \<Rightarrow> string option \<Rightarrow> world \<Rightarrow> world" where
  "capture d cid reply w = (case reply of
       None \<Rightarrow> w
     | Some r \<Rightarrow> w\<lparr>wAsks := CaptureReply (Now (deReg d)) cid r [] (wAsks w)\<rparr>)"

definition asker_identity_of :: "peer option \<Rightarrow> asker_identity option" where
  "asker_identity_of asker = (case asker of
       None \<Rightarrow> None
     | Some p \<Rightarrow> if Machine p \<noteq> [] \<and> Machine p \<noteq> ''unknown'' \<and> Path p \<noteq> []
         then Some \<lparr>aiDisplayName = DisplayName p, aiCircle = Circle p, aiBackend = Backend p, aiPath = Path p, aiMachine = Machine p\<rparr>
         else None)"

definition framed_reply :: "string \<Rightarrow> ask \<Rightarrow> string option \<Rightarrow> string option \<Rightarrow> string" where
  "framed_reply cid a reply errText =
     ''[ack #'' @ cid @ '' from @'' @ ToPeerName a @ ''] '' @
       (case errText of Some e \<Rightarrow> ''ACP error: '' @ e | None \<Rightarrow> (case reply of Some r \<Rightarrow> r | None \<Rightarrow> []))"

definition stash_reply :: "delivery_env \<Rightarrow> string \<Rightarrow> ask \<Rightarrow> string \<Rightarrow> world \<Rightarrow> world" where
  "stash_reply d cid a framed w =
     (let (r, asker) = GetPeer (reg_env d w) (FromPeerID a) (wReg w)
      in w\<lparr>wReg := r, wAsks := snd (SetPendingReply (Now (deReg d)) cid framed (asker_identity_of asker) False (wAsks w))\<rparr>)"

definition completeACPAsk :: "delivery_env \<Rightarrow> string \<Rightarrow> string option \<Rightarrow> string option \<Rightarrow> world \<Rightarrow> world option" where
  "completeACPAsk d cid reply errText w =
     (if \<not> deHasAsks d then Some w
      else (case Get cid (wAsks w) of
          None \<Rightarrow> Some w
        | Some a \<Rightarrow>
            if Closed a then Some w
            else (let framed = framed_reply cid a reply errText;
                      isError = (errText \<noteq> None)
                  in case Notify d \<lparr>npFromPeer = ToPeerID a, npToPeer = FromPeerID a, npText = framed, npBypassCircle = True,
                         npCircle = None, npAttachments = [], npDeliveryID = []\<rparr> w of
                       None \<Rightarrow> None
                     | Some (Inr res, w1) \<Rightarrow>
                         if res_Queued res \<and> \<not> isError then close_ask cid ''ack_with_msg'' (capture d cid reply w1)
                         else if \<not> res_Delivered res
                         then (if isError then close_ask cid ''send_failed'' w1 else Some (stash_reply d cid a framed w1))
                         else close_ask cid (if isError then ''send_failed'' else ''ack_with_msg'')
                                (if isError then w1 else capture d cid reply w1)
                     | Some (Inl err, w1) \<Rightarrow>
                         if isError then close_ask cid ''send_failed'' w1 else Some (stash_reply d cid a framed w1))))"

text \<open>What the broker's callback does with the result of a prompt.\<close>

definition acp_reply_text :: "string \<Rightarrow> string \<Rightarrow> string" where
  "acp_reply_text stopReason text = (if text = [] then ''[acp stop_reason='' @ stopReason @ '', no text]'' else text)"

definition acp_prompt_done :: "delivery_env \<Rightarrow> string \<Rightarrow> string \<Rightarrow> string + string \<times> string \<Rightarrow> world \<Rightarrow> world option" where
  "acp_prompt_done d cid oid res w =
     (let reply = (case res of Inr (stopReason, text) \<Rightarrow> Some (acp_reply_text stopReason text) | Inl e \<Rightarrow> None);
          errText = (case res of Inl e \<Rightarrow> Some e | Inr r \<Rightarrow> None)
      in map_option (\<lambda>w1. w1\<lparr>wOps := settleACPAsk (deHasOps d) (formatISO (Now (deReg d))) oid errText (wOps w1)\<rparr>)
           (completeACPAsk d cid reply errText w))"

section \<open>Scheduled asks\<close>

definition OpenScheduledAsk :: "delivery_env \<Rightarrow> string \<Rightarrow> string \<Rightarrow> string \<Rightarrow> string option \<Rightarrow> string \<Rightarrow> world \<Rightarrow> string delivered" where
  "OpenScheduledAsk d fromPeer toPeer text circle replyDelivery w =
     (if \<not> deHasAsks d then Some (Inl DNoTracker, w)
      else (case Register (Now (deReg d)) (deHex8 d)
               \<lparr>rpFromPeerID = fromPeer, rpFromPeerName = fromPeer, rpToPeerID = toPeer, rpToPeerName = toPeer, rpText = text,
                rpReplyTo = None, rpCorrelationID = [], rpFromRepowireSessionID = None, rpToRepowireSessionID = None,
                rpParentID = None, rpQuestion = None, rpReplyDelivery = replyDelivery\<rparr> (wAsks w) of
            (Inl err, t) \<Rightarrow> Some (Inl (DAsk err), w\<lparr>wAsks := t\<rparr>)
          | (Inr cid, t) \<Rightarrow>
              (case DeliverAsk d \<lparr>apFromPeer = fromPeer, apToPeer = toPeer, apText = text, apCorrelationID = cid, apReplyTo = None,
                     apBypassCircle = False, apCircle = circle, apAttachments = [], apQuestion = None\<rparr> (w\<lparr>wAsks := t\<rparr>) of
                 None \<Rightarrow> None
               | Some (Inl err, w1) \<Rightarrow> map_option (\<lambda>w2. (Inl err, w2)) (close_ask cid ''send_failed'' w1)
               | Some (Inr res, w1) \<Rightarrow> Some (Inr cid, w1))))"

end
