(* ===== verification/Broadcast.thy ===== *)
theory Broadcast
  imports Delivery
begin

text \<open>
  \<open>Broadcast\<close> of \<open>daemon-go/service/delivery.go\<close>: the set of excluded peers, the recipients with a
  subprocess, those whose seed is still in flight, and the fan-out over the sockets. The set is a
  list here. A recipient behind the seed gate is served by a goroutine; it is recorded in \<open>wDeferred\<close>
  and its later step is \<open>deferred_broadcast\<close>.
\<close>

definition exclude_named :: "string list \<Rightarrow> peer list \<Rightarrow> string list" where
  "exclude_named names peers = map PeerID (filter (\<lambda>p. DisplayName p \<in> set names \<or> PeerID p \<in> set names) peers)"

definition exclude_circle :: "peer option \<Rightarrow> bool \<Rightarrow> peer list \<Rightarrow> string list" where
  "exclude_circle from bypassCircle peers = (case from of
       None \<Rightarrow> []
     | Some f \<Rightarrow> if bypassCircle \<or> BypassesCircles (Role f) then []
         else map PeerID (filter (\<lambda>p. Circle p \<noteq> Circle f \<and> \<not> BypassesCircles (Role p)) peers))"

record fanout =
  foWorld :: world
  foExclude :: "string list"
  foSent :: "string list"
  foFailed :: "(string \<times> string) list"

definition broadcast_acp :: "delivery_env \<Rightarrow> string \<Rightarrow> peer \<Rightarrow> fanout \<Rightarrow> fanout" where
  "broadcast_acp d text p st =
     (if PeerID p \<in> set (foExclude st) \<or> Status p = StatusOffline then st
      else (case ACPRoute (wTrans (foWorld st)) p of
          None \<Rightarrow> st
        | Some spec \<Rightarrow>
            (let st1 = st\<lparr>foExclude := PeerID p # foExclude st\<rparr>
             in case dePrompt d spec text of
                  Some err \<Rightarrow> st1\<lparr>foFailed := foFailed st @ [(PeerID p, err)]\<rparr>
                | None \<Rightarrow> st1\<lparr>foSent := foSent st @ [DisplayName p],
                    foWorld := (foWorld st)\<lparr>wPrompts := wPrompts (foWorld st) @ [(spec, text, BroadcastPrompt)]\<rparr>\<rparr>)))"

definition deferBroadcastUntilSeedSettled :: "string \<Rightarrow> string \<Rightarrow> string \<Rightarrow> world \<Rightarrow> world" where
  "deferBroadcastUntilSeedSettled from text i w = (if wClosed w then w else w\<lparr>wDeferred := wDeferred w @ [(from, text, i)]\<rparr>)"

text \<open>\<open>foSent\<close> of this loop is \<open>deferredNames\<close>.\<close>

definition broadcast_defer :: "string \<Rightarrow> string \<Rightarrow> peer \<Rightarrow> fanout \<Rightarrow> fanout" where
  "broadcast_defer from text p st =
     (if PeerID p \<in> set (foExclude st) \<or> Status p = StatusOffline \<or> TurnState p \<noteq> TurnPendingFirstTurn then st
      else st\<lparr>foExclude := PeerID p # foExclude st, foSent := foSent st @ [DisplayName p],
             foWorld := deferBroadcastUntilSeedSettled from text (PeerID p) (foWorld st)\<rparr>)"

definition name_of :: "peer list \<Rightarrow> string \<Rightarrow> string option" where
  "name_of peers i = map_of (map (\<lambda>p. (PeerID p, DisplayName p)) peers) i"

definition broadcast_event :: "string \<Rightarrow> string \<Rightarrow> string list \<Rightarrow> peer option \<Rightarrow> jobject" where
  "broadcast_event fromPeer text exclude from =
     [(''from'', JStr fromPeer), (''text'', JStr text), (''exclude'', JArr (map JStr exclude)),
      (''from_peer_id'', str_or_null (map_option PeerID from))]"

definition broadcast_sender :: "delivery_env \<Rightarrow> string \<Rightarrow> world \<Rightarrow> peer option" where
  "broadcast_sender d fromPeer w =
     (case CheckAccess (reg_env d w) fromPeer fromPeer True None (wReg w) of Inl err \<Rightarrow> None | Inr (from, to) \<Rightarrow> from)"

text \<open>The excluded ids, the names reached and the subprocess failures after the two loops over the peers.\<close>

definition broadcast_plan :: "delivery_env \<Rightarrow> string \<Rightarrow> string \<Rightarrow> string list \<Rightarrow> bool \<Rightarrow> world \<Rightarrow> peer list \<times> fanout \<times> fanout" where
  "broadcast_plan d fromPeer text exclude bypassCircle w =
     (let from = broadcast_sender d fromPeer w;
          (r, peers) = GetAllPeers (reg_env d w) (wReg w);
          ex = exclude_named (fromPeer # exclude) peers @ exclude_circle from bypassCircle peers;
          r1 = snd (AddEvent (reg_env d w) ''broadcast'' (broadcast_event fromPeer text exclude from) r);
          acp = fold (broadcast_acp d text) peers \<lparr>foWorld = w\<lparr>wReg := r1\<rparr>, foExclude = ex, foSent = [], foFailed = []\<rparr>;
          seeding = fold (broadcast_defer fromPeer text) peers (acp\<lparr>foSent := []\<rparr>)
      in (peers, acp, seeding))"

definition Broadcast :: "delivery_env \<Rightarrow> string \<Rightarrow> string \<Rightarrow> string list \<Rightarrow> bool \<Rightarrow> world \<Rightarrow>
    (string list \<times> (string \<times> transport_error) list) \<times> world" where
  "Broadcast d fromPeer text exclude bypassCircle w =
     (let (peers, acp, seeding) = broadcast_plan d fromPeer text exclude bypassCircle w;
          w1 = foWorld seeding;
          (sentIDs, failures, t) = RouterBroadcast (deWrites d) fromPeer text (foExclude seeding) (wTrans w1)
      in ((foSent acp @ List.map_filter (name_of peers) sentIDs @ foSent seeding, failures), w1\<lparr>wTrans := t\<rparr>))"

definition deferred_broadcast :: "delivery_env \<Rightarrow> string \<Rightarrow> string \<Rightarrow> string \<Rightarrow> world \<Rightarrow> world" where
  "deferred_broadcast d from text i w =
     w\<lparr>wReg := awaitSeedSettled (reg_env d w) (Now (deReg d) + seedSettleWait) (dePolls d) i (wReg w),
       wTrans := snd (BroadcastToSession (deWrites d i) from text i (wTrans w))\<rparr>"

definition CloseDelivery :: "world \<Rightarrow> world" where
  "CloseDelivery w = w\<lparr>wClosed := True\<rparr>"

section \<open>Who a broadcast reaches\<close>

abbreviation prompt_ids :: "(acp_spec \<times> string \<times> prompt_kind) list \<Rightarrow> string list" where
  "prompt_ids ps \<equiv> map (asPeerID \<circ> fst) ps"

abbreviation deferred_ids :: "(string \<times> string \<times> string) list \<Rightarrow> string list" where
  "deferred_ids ds \<equiv> map (snd \<circ> snd) ds"

lemma ACPRoute_id: "ACPRoute t p = Some spec \<Longrightarrow> asPeerID spec = PeerID p"
  by (auto simp: ACPRoute_def split: if_splits option.splits json.splits)

text \<open>
  What the loop over the peers with a subprocess does: each is prompted or fails, none that was
  excluded before and none twice, and all are excluded from then on.
\<close>

definition acp_grown :: "string \<Rightarrow> fanout \<Rightarrow> fanout \<Rightarrow> (acp_spec \<times> string \<times> prompt_kind) list \<Rightarrow> (string \<times> string) list \<Rightarrow> bool" where
  "acp_grown text st st' new newf \<longleftrightarrow>
     foWorld st' = (foWorld st)\<lparr>wPrompts := wPrompts (foWorld st) @ new\<rparr> \<and> foFailed st' = foFailed st @ newf \<and>
     distinct (prompt_ids new @ map fst newf) \<and> set (prompt_ids new @ map fst newf) \<inter> set (foExclude st) = {} \<and>
     set (foExclude st') = set (foExclude st) \<union> set (prompt_ids new @ map fst newf) \<and>
     (\<forall>x\<in>set new. snd x = (text, BroadcastPrompt))"

lemma acp_grown_refl: "acp_grown text st st [] []"
  by (simp add: acp_grown_def)

lemma acp_grown_trans:
  assumes "acp_grown text a b n1 f1" "acp_grown text b c n2 f2"
  shows "acp_grown text a c (n1 @ n2) (f1 @ f2)"
proof -
  have "set (prompt_ids n2 @ map fst f2) \<inter> set (prompt_ids n1 @ map fst f1) = {}"
    using assms unfolding acp_grown_def by blast
  then have "distinct (prompt_ids (n1 @ n2) @ map fst (f1 @ f2))"
    using assms unfolding acp_grown_def by auto
  moreover have "set (prompt_ids (n1 @ n2) @ map fst (f1 @ f2)) \<inter> set (foExclude a) = {}"
    using assms unfolding acp_grown_def by auto
  moreover have "set (foExclude c) = set (foExclude a) \<union> set (prompt_ids (n1 @ n2) @ map fst (f1 @ f2))"
    using assms unfolding acp_grown_def by auto
  ultimately show ?thesis using assms unfolding acp_grown_def by auto
qed

lemma acp_one: "\<exists>new newf. acp_grown text st (broadcast_acp d text p st) new newf"
proof (cases "PeerID p \<in> set (foExclude st) \<or> Status p = StatusOffline \<or> ACPRoute (wTrans (foWorld st)) p = None")
  case True
  then have "broadcast_acp d text p st = st" by (auto simp: broadcast_acp_def)
  then show ?thesis using acp_grown_refl by metis
next
  case False
  then obtain spec where spec: "ACPRoute (wTrans (foWorld st)) p = Some spec" "PeerID p \<notin> set (foExclude st)" "Status p \<noteq> StatusOffline" by auto
  note i = ACPRoute_id [OF spec(1)]
  show ?thesis
  proof (cases "dePrompt d spec text")
    case None
    then have "acp_grown text st (broadcast_acp d text p st) [(spec, text, BroadcastPrompt)] []"
      using spec i by (simp add: broadcast_acp_def acp_grown_def)
    then show ?thesis by blast
  next
    case (Some err)
    then have "acp_grown text st (broadcast_acp d text p st) [] [(PeerID p, err)]"
      using spec i by (simp add: broadcast_acp_def acp_grown_def)
    then show ?thesis by blast
  qed
qed

lemma acp_loop: "\<exists>new newf. acp_grown text st (fold (broadcast_acp d text) ps st) new newf"
proof (induction ps arbitrary: st)
  case (Cons p ps)
  from acp_one [of "text" st d p] Cons.IH [of "broadcast_acp d text p st"] show ?case
    using acp_grown_trans by simp metis
qed (use acp_grown_refl in auto)

text \<open>The loop over the recipients behind the seed gate.\<close>

definition seed_grown :: "string \<Rightarrow> string \<Rightarrow> fanout \<Rightarrow> fanout \<Rightarrow> (string \<times> string \<times> string) list \<Rightarrow> bool" where
  "seed_grown from text st st' new \<longleftrightarrow>
     foWorld st' = (foWorld st)\<lparr>wDeferred := wDeferred (foWorld st) @ new\<rparr> \<and>
     distinct (deferred_ids new) \<and> set (deferred_ids new) \<inter> set (foExclude st) = {} \<and>
     set (foExclude st') = set (foExclude st) \<union> set (deferred_ids new) \<and> (\<forall>x\<in>set new. fst x = from \<and> fst (snd x) = text)"

lemma seed_one: "\<not> wClosed (foWorld st) \<Longrightarrow> \<exists>new. seed_grown from text st (broadcast_defer from text p st) new"
proof (cases "PeerID p \<in> set (foExclude st) \<or> Status p = StatusOffline \<or> TurnState p \<noteq> TurnPendingFirstTurn")
  case True
  then have "seed_grown from text st (broadcast_defer from text p st) []" by (simp add: broadcast_defer_def seed_grown_def)
  then show ?thesis by blast
next
  case False
  assume "\<not> wClosed (foWorld st)"
  with False have "seed_grown from text st (broadcast_defer from text p st) [(from, text, PeerID p)]"
    by (simp add: broadcast_defer_def seed_grown_def deferBroadcastUntilSeedSettled_def)
  then show ?thesis by blast
qed

lemma seed_grown_trans:
  assumes "seed_grown from text a b n1" "seed_grown from text b c n2"
  shows "seed_grown from text a c (n1 @ n2)"
proof -
  have "set (deferred_ids n2) \<inter> set (deferred_ids n1) = {}" using assms unfolding seed_grown_def by blast
  then show ?thesis using assms unfolding seed_grown_def by auto
qed

lemma seed_loop: "\<not> wClosed (foWorld st) \<Longrightarrow> \<exists>new. seed_grown from text st (fold (broadcast_defer from text) ps st) new"
proof (induction ps arbitrary: st)
  case (Cons p ps)
  obtain n1 where n1: "seed_grown from text st (broadcast_defer from text p st) n1" using seed_one [OF Cons.prems] by blast
  then have "\<not> wClosed (foWorld (broadcast_defer from text p st))" using Cons.prems by (simp add: seed_grown_def)
  from Cons.IH [OF this] n1 show ?case using seed_grown_trans by simp metis
qed (auto simp: seed_grown_def intro!: exI [of _ "[]"])

text \<open>The fan-out over the sockets.\<close>

lemma router_loop:
  assumes "set L \<subseteq> fst ` set (tpConns t)"
  shows "\<exists>failed'. fold (broadcast_one writes from text) L (sent, failed, t) =
     (sent @ filter writes L, failed',
      t\<lparr>tpWire := tpWire t @ map (\<lambda>i. (ciWS (the (gm_get (tpConns t) i)), broadcast_frame from text)) (filter writes L)\<rparr>)"
  using assms
proof (induction L arbitrary: sent failed t)
  case (Cons i L)
  obtain info where info: "gm_get (tpConns t) i = Some info"
    using Cons.prems gm_get_None_iff [of "tpConns t" i] by (cases "gm_get (tpConns t) i") auto
  show ?case
  proof (cases "writes i")
    case True
    let ?t = "t\<lparr>tpWire := tpWire t @ [(ciWS info, broadcast_frame from text)]\<rparr>"
    have "broadcast_one writes from text i (sent, failed, t) = (sent @ [i], failed, ?t)"
      using True info by (simp add: broadcast_one_def Send_def)
    moreover have "set L \<subseteq> fst ` set (tpConns ?t)" using Cons.prems by simp
    ultimately show ?thesis using True info Cons.IH [of ?t "sent @ [i]" failed] by simp
  next
    case False
    have "broadcast_one writes from text i (sent, failed, t) = (sent, failed @ [(i, ErrTransportUnavailable)], t)"
      using False info by (simp add: broadcast_one_def Send_def)
    then show ?thesis using False Cons.IH [of t sent "failed @ [(i, ErrTransportUnavailable)]"] Cons.prems by simp
  qed
qed simp



end
