(* ===== verification/Ask_Many.thy ===== *)
theory Ask_Many
  imports Ask_Safety Go_Time Go_Strings
begin

text \<open>
  Fan-out asks, \<open>daemon-go/service/ask_many.go\<close>: a parent that is never delivered and children that are
  asks of the tracker. The status is derived at each read, from the tracker and the clock. The id
  of a parent is an argument.
\<close>

section \<open>State and operations\<close>

definition DefaultAskManyTimeoutSeconds :: int where
  "DefaultAskManyTimeoutSeconds = 300"

definition MaxAskManyPeers :: nat where
  "MaxAskManyPeers = 50"

record many_child =
  mcPeerName :: string
  mcCorrelationID :: "string option"
  mcPeerID :: "string option"
  mcDeliveryError :: "string option"

record many_parent =
  mpParentID :: string
  mpFromPeerName :: string
  mpText :: string
  mpChildren :: "many_child list"
  mpCreatedAt :: gotime
  mpTimeoutSeconds :: int

type_synonym many_tracker = "(string, many_parent) gomap"

definition many_create :: "gotime \<Rightarrow> string \<Rightarrow> string \<Rightarrow> string \<Rightarrow> int \<Rightarrow> many_tracker \<Rightarrow> many_parent \<times> many_tracker" where
  "many_create now parentID from text timeoutSeconds t =
     (let p = \<lparr>mpParentID = parentID, mpFromPeerName = from, mpText = text, mpChildren = [], mpCreatedAt = now,
                mpTimeoutSeconds = (if timeoutSeconds \<le> 0 then DefaultAskManyTimeoutSeconds else timeoutSeconds)\<rparr>
      in (p, gm_put parentID p t))"

definition AddChild :: "string \<Rightarrow> many_child \<Rightarrow> many_tracker \<Rightarrow> many_tracker" where
  "AddChild parentID child t = gm_adjust parentID (\<lambda>p. p\<lparr>mpChildren := mpChildren p @ [child]\<rparr>) t"

datatype child_status = ChildAcked | ChildReplied | ChildPending | ChildFailed

definition askManyChildStatus :: "ask option \<Rightarrow> child_status" where
  "askManyChildStatus a = (case a of
       None \<Rightarrow> ChildFailed
     | Some ask \<Rightarrow>
         if \<not> Closed ask then ChildPending
         else if CloseReason ask = ''send_failed'' then ChildFailed
         else if ReplyText ask \<noteq> None then ChildReplied
         else ChildAcked)"

record child_report =
  crPeer :: string
  crPeerID :: "string option"
  crCorrelationID :: "string option"
  crStatus :: child_status
  crReply :: "string option"
  crCloseReason :: "string option"
  crError :: "string option"

datatype many_state = ManyPending | ManyComplete | ManyPartial

record many_status =
  msParentID :: string
  msFromPeer :: string
  msText :: string
  msCreatedAt :: string
  msDeadline :: string
  msState :: many_state
  msTimedOut :: bool
  msTotal :: nat
  msAcked :: nat
  msReplied :: nat
  msPending :: nat
  msFailed :: nat
  msChildren :: "child_report list"

definition child_ask :: "tracker \<Rightarrow> many_child \<Rightarrow> ask option" where
  "child_ask asks c = (case mcCorrelationID c of None \<Rightarrow> None | Some cid \<Rightarrow> Get cid asks)"

definition child_state :: "tracker \<Rightarrow> many_child \<Rightarrow> child_status" where
  "child_state asks c = askManyChildStatus (child_ask asks c)"

definition child_report_of :: "tracker \<Rightarrow> many_child \<Rightarrow> child_report" where
  "child_report_of asks c =
     \<lparr>crPeer = mcPeerName c, crPeerID = mcPeerID c, crCorrelationID = mcCorrelationID c, crStatus = child_state asks c,
      crReply = (case child_ask asks c of Some a \<Rightarrow> ReplyText a | None \<Rightarrow> None),
      crCloseReason = (case child_ask asks c of Some a \<Rightarrow> Some (CloseReason a) | None \<Rightarrow> None),
      crError = mcDeliveryError c\<rparr>"

definition count_children :: "tracker \<Rightarrow> child_status \<Rightarrow> many_child list \<Rightarrow> nat" where
  "count_children asks s cs = length (filter (\<lambda>c. child_state asks c = s) cs)"

text \<open>The timeout is a product of 64-bit integers and wraps around; nothing bounds what a client asks for.\<close>

definition deadline :: "many_parent \<Rightarrow> gotime" where
  "deadline p = mpCreatedAt p + wrap64 (mpTimeoutSeconds p * second)"

definition many_status_of :: "string \<Rightarrow> gotime \<Rightarrow> tracker \<Rightarrow> many_tracker \<Rightarrow> many_status option" where
  "many_status_of parentID now asks t = (case gm_get t parentID of
       None \<Rightarrow> None
     | Some p \<Rightarrow>
         (let cs = mpChildren p;
              anyOpen = 0 < count_children asks ChildPending cs;
              timedOut = anyOpen \<and> deadline p \<le> now
          in Some \<lparr>msParentID = mpParentID p, msFromPeer = mpFromPeerName p, msText = mpText p,
               msCreatedAt = FormatRFC3339Nano (mpCreatedAt p), msDeadline = FormatRFC3339Nano (deadline p),
               msState = (if \<not> anyOpen then ManyComplete else if timedOut then ManyPartial else ManyPending),
               msTimedOut = timedOut, msTotal = length cs, msAcked = count_children asks ChildAcked cs,
               msReplied = count_children asks ChildReplied cs, msPending = count_children asks ChildPending cs,
               msFailed = count_children asks ChildFailed cs, msChildren = map (child_report_of asks) cs\<rparr>))"

section \<open>Rollups\<close>

lemma Get_asks: "Get cid t = gm_get (tr_asks t) cid"
  by (simp add: Get_def)

lemma count_all: "count_children asks ChildAcked cs + count_children asks ChildReplied cs + count_children asks ChildPending cs +
    count_children asks ChildFailed cs = length cs"
proof (induction cs)
  case (Cons c cs)
  then show ?case by (cases "child_state asks c") (simp_all add: count_children_def)
qed (simp add: count_children_def)

lemma none_pending: "count_children asks ChildPending cs = 0 \<longleftrightarrow> (\<forall>c\<in>set cs. child_state asks c \<noteq> ChildPending)"
  by (simp add: count_children_def filter_empty_conv)

definition registers :: "tracker_op \<Rightarrow> string \<Rightarrow> bool" where
  "registers oper cid \<longleftrightarrow> (case oper of
       OpRegister now hex p \<Rightarrow> cid = (if rpCorrelationID p = [] then ''ask-'' @ hex else rpCorrelationID p)
     | _ \<Rightarrow> False)"

lemma drop_selected_get: "tracker_ok t \<Longrightarrow> drop_asks (map fst (gm_select P (tr_asks t))) t = Some t' \<Longrightarrow>
    gm_get (tr_asks t') c = (case gm_get (tr_asks t) c of None \<Rightarrow> None | Some a \<Rightarrow> if P c a then None else Some a)"
  using drop_selected_ok [of t P] by auto

lemma EvictExpired_get: "tracker_ok t \<Longrightarrow> EvictExpired now inc t = Some (n, t') \<Longrightarrow>
    gm_get (tr_asks t') c = (case gm_get (tr_asks t) c of None \<Rightarrow> None | Some a \<Rightarrow>
      if CreatedAt a < now - tr_ttl t \<and> (inc \<or> PendingReply a = None) then None else Some a)"
  unfolding EvictExpired_def Let_def by (auto simp: bind_eq_Some_conv dest: drop_selected_get)

lemma Answer_keeps_absent: "Answer now c ans t = Some (r, t') \<Longrightarrow> gm_get (tr_asks t) cid = None \<Longrightarrow> gm_get (tr_asks t') cid = None"
  by (auto simp: Answer_def Let_def resolveWaiter_def chan_send_def bind_eq_Some_conv split: option.splits if_splits list.splits)

lemma timeout_answers: "WaitForAnswer_timeout now c d t = Some (r, t') \<Longrightarrow> \<exists>r'. Answer now c d t = Some (r', t')"
  unfolding WaitForAnswer_timeout_def bind_eq_Some_conv
  by (elim exE conjE, case_tac "y") (simp split: sum.splits option.splits)

lemma timeout_keeps_absent: "WaitForAnswer_timeout now c d t = Some (r, t') \<Longrightarrow> gm_get (tr_asks t) cid = None \<Longrightarrow> gm_get (tr_asks t') cid = None"
  using timeout_answers Answer_keeps_absent by blast

lemma step_keeps_absent:
  assumes "tracker_ok t" "tracker_step oper t = Some t'" "gm_get (tr_asks t) cid = None" "\<not> registers oper cid"
  shows "gm_get (tr_asks t') cid = None"
proof (cases oper)
  case (OpPendingForPeer now now' i n dir)
  have "tracker_ok (t\<lparr>tr_lastEviction := Some now\<rparr>)" using assms(1) by (simp add: tracker_ok_def)
  with OpPendingForPeer assms show ?thesis
    by (auto simp: PendingForPeer_def maybeEvictExpired_def bind_eq_Some_conv Let_def EvictExpired_get split: option.splits if_splits)
next
  case (OpForgetPeer i)
  with assms show ?thesis by (auto simp: ForgetPeer_def bind_eq_Some_conv Let_def drop_selected_get)
next
  case (OpEvictExpired now inc)
  with assms show ?thesis by (auto simp: EvictExpired_get)
next
  case (OpWaitForAnswerTimeout now c d)
  with assms show ?thesis by (auto dest: timeout_keeps_absent)
next
  case (OpAnswer now c ans)
  with assms show ?thesis by (auto dest: Answer_keeps_absent)
next
  case (OpRegister now hex p)
  with assms(2-4) show ?thesis by (auto simp: registers_def Register_def Let_def split: if_splits)
qed (use assms(2,3) in \<open>auto simp: Close_def cancelWaiter_def resolveWaiter_def chan_send_def chan_recv_def
    CaptureReply_def WaitForAnswer_begin_def WaitForResolution_begin_def waiterFor_def
    SetPendingReply_def MarkPendingReplyDelivered_def RebindAndClose_def ClearPendingReply_def BeginQuiesce_def EndQuiesce_def
    Let_def bind_eq_Some_conv split: option.splits if_splits list.splits\<close>)

text \<open>A child that is not pending stays so, unless its correlation id is registered anew.\<close>

lemma not_pending_iff: "child_state asks c \<noteq> ChildPending \<longleftrightarrow>
    (case mcCorrelationID c of None \<Rightarrow> True | Some cid \<Rightarrow> (case gm_get (tr_asks asks) cid of None \<Rightarrow> True | Some a \<Rightarrow> Closed a))"
  by (auto simp: child_state_def child_ask_def askManyChildStatus_def Get_def split: option.splits)

lemma step_keeps_settled:
  assumes "tracker_ok t" "tracker_step oper t = Some t'" "child_state t c \<noteq> ChildPending"
    and "\<And>cid. mcCorrelationID c = Some cid \<Longrightarrow> \<not> registers oper cid"
  shows "child_state t' c \<noteq> ChildPending"
proof (cases "mcCorrelationID c")
  case (Some cid)
  show ?thesis
  proof (cases "gm_get (tr_asks t) cid")
    case None
    with step_keeps_absent [OF assms(1,2) None] Some assms(4) show ?thesis by (simp add: not_pending_iff)
  next
    case ask: (Some a)
    then have "Closed a" using assms(3) Some by (simp add: not_pending_iff)
    then show ?thesis using step_keeps_terminal [OF assms(1,2)] ask Some
      by (auto simp: not_pending_iff terminal_kept_def split: option.split)
  qed
qed (simp add: not_pending_iff)

lemma run_keeps_settled:
  assumes "tracker_run ops t = Some t'" "tracker_ok t" "child_state t c \<noteq> ChildPending"
    and "\<And>oper cid. oper \<in> set ops \<Longrightarrow> mcCorrelationID c = Some cid \<Longrightarrow> \<not> registers oper cid"
  shows "child_state t' c \<noteq> ChildPending"
  using assms
proof (induction ops arbitrary: t)
  case (Cons oper ops)
  obtain t1 where t1: "tracker_step oper t = Some t1" "tracker_run ops t1 = Some t'"
    using Cons.prems(1) by (auto split: option.splits)
  have "child_state t1 c \<noteq> ChildPending"
    using step_keeps_settled [OF Cons.prems(2) t1(1) Cons.prems(3)] Cons.prems(4) by simp
  from Cons.IH [OF t1(2) tracker_step_preserves [OF Cons.prems(2) t1(1)] this] Cons.prems(4) show ?case by simp
qed simp

lemma status_complete_iff: "gm_get m pid = Some p \<Longrightarrow>
    map_option msState (many_status_of pid now t m) = Some ManyComplete \<longleftrightarrow> (\<forall>c\<in>set (mpChildren p). child_state t c \<noteq> ChildPending)"
  using none_pending [of t "mpChildren p"] by (simp add: many_status_of_def Let_def)

text \<open>
  C36: a fan-out settles once. At every reachable state the rollup adds up to the number of children,
  and the state is complete exactly when no child is open, partial exactly when one is and the deadline has
  passed. Once it is complete it stays complete, whatever happens to the tracker afterwards (more
  answers, closures, evictions, restarts of peers), provided nobody registers a child's id again.
\<close>

theorem fanout_settles_once:
  assumes "tracker_reach t" "many_status_of pid now t m = Some st" "gm_get m pid = Some p"
  shows "msAcked st + msReplied st + msPending st + msFailed st = msTotal st \<and> msTotal st = length (mpChildren p) \<and>
     (msState st = ManyComplete \<longleftrightarrow> msPending st = 0) \<and> (msState st = ManyPartial \<longleftrightarrow> 0 < msPending st \<and> deadline p \<le> now) \<and>
     (msState st = ManyComplete \<longrightarrow>
       (\<forall>ops t' now'. tracker_run ops t = Some t' \<longrightarrow>
          (\<forall>oper\<in>set ops. \<forall>c\<in>set (mpChildren p). \<forall>cid. mcCorrelationID c = Some cid \<longrightarrow> \<not> registers oper cid) \<longrightarrow>
          map_option msState (many_status_of pid now' t' m) = Some ManyComplete))"
proof -
  have counts: "msAcked st + msReplied st + msPending st + msFailed st = msTotal st \<and> msTotal st = length (mpChildren p) \<and>
     (msState st = ManyComplete \<longleftrightarrow> msPending st = 0) \<and> (msState st = ManyPartial \<longleftrightarrow> 0 < msPending st \<and> deadline p \<le> now)"
    using assms(2,3) count_all [of t "mpChildren p"] by (auto simp: many_status_of_def Let_def split: if_splits)
  have "map_option msState (many_status_of pid now' t' m) = Some ManyComplete"
    if "msState st = ManyComplete" "tracker_run ops t = Some t'"
      "\<forall>oper\<in>set ops. \<forall>c\<in>set (mpChildren p). \<forall>cid. mcCorrelationID c = Some cid \<longrightarrow> \<not> registers oper cid" for ops t' now'
  proof -
    have "child_state t c \<noteq> ChildPending" if "c \<in> set (mpChildren p)" for c
      using status_complete_iff [OF assms(3), of now t] assms(2) \<open>msState st = ManyComplete\<close> that by simp
    then have "child_state t' c \<noteq> ChildPending" if "c \<in> set (mpChildren p)" for c
      using run_keeps_settled [OF \<open>tracker_run ops t = Some t'\<close> tracker_reach_ok [OF assms(1)], of c] that(1) \<open>\<forall>oper\<in>set ops. _\<close> by blast
    then show ?thesis using status_complete_iff [OF assms(3)] by blast
  qed
  with counts show ?thesis by blast
qed

definition demo_child :: many_child where
  "demo_child = \<lparr>mcPeerName = ''b'', mcCorrelationID = Some ''c1'', mcPeerID = Some ''p2'', mcDeliveryError = None\<rparr>"

definition demo_fanout :: many_tracker where
  "demo_fanout = AddChild ''askm-1'' demo_child (snd (many_create 5 ''askm-1'' ''a'' ''q'' 0 []))"

lemma demo_fanout_get: "\<exists>p. gm_get demo_fanout ''askm-1'' = Some p \<and> mpChildren p = [demo_child]"
  by (simp add: demo_fanout_def AddChild_def many_create_def Let_def)

lemma demo_closed_run:
  obtains t a where "tracker_run [OpRegister 5 ''00'' demo_params, OpCaptureReply 6 ''c1'' ''yes'' [], OpClose ''c1'' ''ack''] (NewAskTracker 0) = Some t"
    "gm_get (tr_asks t) ''c1'' = Some a" "Closed a" "CloseReason a = ''ack''" "ReplyText a = Some ''yes''" "CreatedAt a = 5" "PendingReply a = None"
    "tr_ttl t = defaultAskTTL"
  by (simp add: demo_eval CaptureReply_def)

theorem fanout_settles_once_witness:
  "\<exists>t st t'. tracker_reach t \<and> many_status_of ''askm-1'' 7 t demo_fanout = Some st \<and> msState st = ManyComplete \<and> msReplied st = 1 \<and>
     tracker_step (OpEvictExpired 8 True) t = Some t' \<and>
     map_option msState (many_status_of ''askm-1'' 9 t' demo_fanout) = Some ManyComplete"
proof -
  obtain t a where t: "tracker_run [OpRegister 5 ''00'' demo_params, OpCaptureReply 6 ''c1'' ''yes'' [], OpClose ''c1'' ''ack''] (NewAskTracker 0) = Some t"
    and a: "gm_get (tr_asks t) ''c1'' = Some a" "Closed a" "CloseReason a = ''ack''" "ReplyText a = Some ''yes''"
    by (rule demo_closed_run)
  have r: "tracker_reach t" by (rule tracker_run_reach [OF reach_new t])
  obtain p where p: "gm_get demo_fanout ''askm-1'' = Some p" "mpChildren p = [demo_child]" using demo_fanout_get by blast
  have state: "child_state t demo_child = ChildReplied"
    using a by (simp add: child_state_def child_ask_def demo_child_def Get_def askManyChildStatus_def)
  obtain st where st: "many_status_of ''askm-1'' 7 t demo_fanout = Some st" "msState st = ManyComplete" "msReplied st = 1"
    using p state by (simp add: many_status_of_def Let_def count_children_def)
  obtain t' where t': "tracker_step (OpEvictExpired 8 True) t = Some t'"
    using tracker_step_ok [OF tracker_reach_ok [OF r], of "OpEvictExpired 8 True"] by auto
  then have "tracker_run [OpEvictExpired 8 True] t = Some t'" by auto
  with fanout_settles_once [OF r st(1) p(1)] st(2) have "map_option msState (many_status_of ''askm-1'' 9 t' demo_fanout) = Some ManyComplete"
    by (fastforce simp: registers_def)
  with r st t' show ?thesis by blast
qed

section \<open>Replies that are forgotten\<close>

text \<open>
  A fan-out forgets its replies. When the tracker evicts an ask that was answered, the child that
  carried the answer is from then on counted as failed and its reply is gone from the report,
  although the fan-out had reported it as replied.
\<close>

theorem evicted_reply_counts_as_failed:
  assumes "tracker_reach t" "mcCorrelationID c = Some cid" "gm_get (tr_asks t) cid = Some a"
    and "Closed a" "CloseReason a \<noteq> ''send_failed''" "ReplyText a = Some reply" "PendingReply a = None" "CreatedAt a < now - tr_ttl t"
  shows "child_state t c = ChildReplied \<and>
     (\<exists>t'. tracker_step (OpEvictExpired now inc) t = Some t' \<and> child_state t' c = ChildFailed \<and> crReply (child_report_of t' c) = None)"
proof -
  have ok: "tracker_ok t" using assms(1) by (rule tracker_reach_ok)
  have "child_state t c = ChildReplied" using assms by (simp add: child_state_def child_ask_def Get_def askManyChildStatus_def)
  moreover obtain t' where t': "tracker_step (OpEvictExpired now inc) t = Some t'"
    using tracker_step_ok [OF ok, of "OpEvictExpired now inc"] by auto
  then obtain n where "EvictExpired now inc t = Some (n, t')" by auto
  from EvictExpired_get [OF ok this, of cid] assms have "gm_get (tr_asks t') cid = None" by simp
  then have "child_state t' c = ChildFailed" "crReply (child_report_of t' c) = None"
    using assms(2) by (simp_all add: child_state_def child_report_of_def child_ask_def Get_def askManyChildStatus_def)
  ultimately show ?thesis using t' by blast
qed

theorem evicted_reply_counts_as_failed_witness:
  "\<exists>t t'. child_state t demo_child = ChildReplied \<and> tracker_step (OpEvictExpired (2 * defaultAskTTL) False) t = Some t' \<and>
     child_state t' demo_child = ChildFailed"
proof -
  obtain t a where t: "tracker_run [OpRegister 5 ''00'' demo_params, OpCaptureReply 6 ''c1'' ''yes'' [], OpClose ''c1'' ''ack''] (NewAskTracker 0) = Some t"
    and a: "gm_get (tr_asks t) ''c1'' = Some a" "Closed a" "CloseReason a = ''ack''" "ReplyText a = Some ''yes''" "CreatedAt a = 5"
    "PendingReply a = None" "tr_ttl t = defaultAskTTL"
    by (rule demo_closed_run)
  have "mcCorrelationID demo_child = Some ''c1''" by (simp add: demo_child_def)
  from evicted_reply_counts_as_failed [OF tracker_run_reach [OF reach_new t] this a(1,2) _ a(4,6), of "2 * defaultAskTTL" False] a
  show ?thesis by (force simp: defaultAskTTL_def)
qed

end
