(* ===== verification/Delivery_Facts.thy ===== *)
theory Delivery_Facts
  imports Broadcast Registry_Access Ask_Many
begin

text \<open>
  What a caller of the delivery service can rely on: a notification ends in exactly one place or in an
  error, a reply of a subprocess is never lost, a scheduled ask that cannot be delivered leaves no
  open ask behind; and one that the service accepts but nobody will ever see.
\<close>

section \<open>The fields a step leaves alone\<close>

definition same_channels :: "world \<Rightarrow> world \<Rightarrow> bool" where
  "same_channels w w' \<longleftrightarrow> wTrans w' = wTrans w \<and> wQueue w' = wQueue w \<and> wPrompts w' = wPrompts w \<and> wAsks w' = wAsks w \<and>
     wOps w' = wOps w \<and> wBindings w' = wBindings w"

lemma same_channels_refl [simp]: "same_channels w w"
  by (simp add: same_channels_def)

lemma gate_same [simp]: "same_channels w (gateOnSeedSettled d target w)"
  by (simp add: gateOnSeedSettled_def same_channels_def)

lemma unreachable_same [simp]: "same_channels w (markTransportUnreachable d target w)"
  by (simp add: markTransportUnreachable_def same_channels_def)

lemma enqueue_refused: "EnqueueDelivery i now ttl maxp r q = (Inl err, q') \<Longrightarrow> q' = q"
  "EnqueueDelivery i now ttl maxp r q = (Inr None, q') \<Longrightarrow> q' = q"
  by (auto simp: EnqueueDelivery_def Let_def split: if_splits)

section \<open>Notifications\<close>

text \<open>What a notification of \<open>msg\<close> did, as its result tells it.\<close>

definition sent_on_socket :: "delivery_env \<Rightarrow> notify_params \<Rightarrow> peer option \<Rightarrow> peer \<Rightarrow> string \<Rightarrow> world \<Rightarrow> world \<Rightarrow> bool" where
  "sent_on_socket d p from target msg w w' \<longleftrightarrow> wQueue w' = wQueue w \<and> wPrompts w' = wPrompts w \<and>
     (case gm_get (tpConns (wTrans w)) (PeerID target) of
        None \<Rightarrow> False
      | Some info \<Rightarrow> tpWire (wTrans w') = tpWire (wTrans w) @ [(ciWS info,
          notify_frame (notify_delivery_id (deHex8 d) (npDeliveryID p)) (from_name (npFromPeer p) from) (DisplayName target) msg (npAttachments p))])"

definition sent_to_broker :: "peer \<Rightarrow> string \<Rightarrow> world \<Rightarrow> world \<Rightarrow> bool" where
  "sent_to_broker target msg w w' \<longleftrightarrow> wQueue w' = wQueue w \<and> wTrans w' = wTrans w \<and>
     (case ACPRoute (wTrans w) target of None \<Rightarrow> False | Some spec \<Rightarrow> wPrompts w' = wPrompts w @ [(spec, msg, NotifyPrompt)])"

definition put_in_queue :: "delivery_env \<Rightarrow> peer \<Rightarrow> string \<Rightarrow> world \<Rightarrow> world \<Rightarrow> bool" where
  "put_in_queue d target msg w w' \<longleftrightarrow> tpWire (wTrans w') = tpWire (wTrans w) \<and> wPrompts w' = wPrompts w \<and>
     (\<exists>row out. EnqueueDelivery (deQueueID d) (Now (deReg d)) (deTTL d) (deMax d) row (wQueue w) = (Inr (Some out), wQueue w') \<and>
        qdPeerID row = PeerID target \<and> qdText row = msg)"

definition notify_outcome :: "delivery_env \<Rightarrow> notify_params \<Rightarrow> peer option \<Rightarrow> peer \<Rightarrow> string \<Rightarrow> world \<Rightarrow>
    (delivery_error + notify_result) \<times> world \<Rightarrow> bool" where
  "notify_outcome d p from target msg w out = (case out of
       (Inl err, w') \<Rightarrow> wQueue w' = wQueue w \<and> wPrompts w' = wPrompts w \<and>
         (tpWire (wTrans w') = tpWire (wTrans w) \<or> err = DRoute (RouteTransport ErrCancelled) \<and> sent_on_socket d p from target msg w w')
     | (Inr res, w') \<Rightarrow> nrToPeerID res = PeerID target \<and>
         (res_Delivered res \<and> nrTransport res = ''ws'' \<and> sent_on_socket d p from target msg w w' \<or>
          res_Delivered res \<and> nrTransport res = ''acp'' \<and> sent_to_broker target msg w w' \<or>
          res_Queued res \<and> \<not> res_Delivered res \<and> put_in_queue d target msg w w'))"

lemma notify_result_fields [simp]:
  "nrToPeerID (notify_result_of d p from target w st state reason hook tr) = PeerID target"
  "nrDeliveryState (notify_result_of d p from target w st state reason hook tr) = state"
  "nrTransport (notify_result_of d p from target w st state reason hook tr) = tr"
  by (simp_all add: notify_result_of_def Let_def)

lemma queueNotify_outcome:
  assumes "tpWire (wTrans w) = tpWire (wTrans w0)" "wQueue w = wQueue w0" "wPrompts w = wPrompts w0" "err \<noteq> DRoute (RouteTransport ErrCancelled)"
  shows "notify_outcome d q from target (npText p) w0 (queueNotify d p from target err busy w)"
proof -
  let ?w = "if busy then w else markTransportUnreachable d target w"
  have s: "wTrans ?w = wTrans w" "wQueue ?w = wQueue w" "wPrompts ?w = wPrompts w"
    using unreachable_same [of w d target] by (simp_all add: same_channels_def)
  show ?thesis
  proof (cases "deHasQueue d")
    case False
    then show ?thesis using assms s by (simp add: queueNotify_def notify_outcome_def Let_def)
  next
    case True
    let ?row = "queued_row d p from target ?w"
    obtain e q' where e: "EnqueueDelivery (deQueueID d) (Now (deReg d)) (deTTL d) (deMax d) ?row (wQueue w) = (e, q')" by force
    have row: "qdPeerID ?row = PeerID target" "qdText ?row = npText p" by (simp_all add: queued_row_def)
    show ?thesis
    proof (cases e)
      case (Inl qerr)
      then show ?thesis using True assms s e enqueue_refused(1) by (fastforce simp: queueNotify_def notify_outcome_def Let_def)
    next
      case (Inr out)
      then show ?thesis using True assms s e row enqueue_refused(2)
        by (cases out) (fastforce simp: queueNotify_def notify_outcome_def Let_def res_Queued_def res_Delivered_def put_in_queue_def)+
    qed
  qed
qed

lemma notify_socket_outcome:
  assumes "same_channels w0 w"
  shows "\<exists>out. notify_socket d p from target w = Some out \<and> notify_outcome d p from target (npText p) w0 out"
proof -
  let ?frame = "notify_frame (notify_delivery_id (deHex8 d) (npDeliveryID p)) (from_name (npFromPeer p) from) (DisplayName target) (npText p) (npAttachments p)"
  have "notify_delivery_id (deHex8 d) (npDeliveryID p) \<noteq> []" by (simp add: notify_delivery_id_def)
  from SendAndWait_outcome [OF extract_notify this, of "deWrites d (PeerID target)" "deReceipt d (PeerID target)" "PeerID target"]
  obtain res t where call: "SendNotification (deWrites d (PeerID target)) (deReceipt d (PeerID target)) (deHex8 d) (from_name (npFromPeer p) from)
        (PeerID target) (DisplayName target) (npText p) (npAttachments p) (npDeliveryID p) (wTrans w) = Some (res, t)"
    and out: "case gm_get (tpConns (wTrans w)) (PeerID target) of
        None \<Rightarrow> res = Inl (ErrNotConnected (PeerID target)) \<and> tpWire t = tpWire (wTrans w)
      | Some info \<Rightarrow>
          if \<not> deWrites d (PeerID target) then res = Inl ErrTransportUnavailable \<and> tpWire t = tpWire (wTrans w)
          else tpWire t = tpWire (wTrans w) @ [(ciWS info, ?frame)] \<and>
            res = (case deReceipt d (PeerID target) of Receipt data \<Rightarrow> Inr (Some data) | NoReceipt \<Rightarrow> Inr None | Cancelled \<Rightarrow> Inl ErrCancelled)"
    unfolding SendNotification_def by blast
  have w: "wTrans w = wTrans w0" "wQueue w = wQueue w0" "wPrompts w = wPrompts w0" using assms by (simp_all add: same_channels_def)
  let ?w = "w\<lparr>wTrans := t\<rparr>"
  show ?thesis
  proof (cases res)
    case (Inl err)
    show ?thesis
    proof (cases "unreachable_error err")
      case True
      then have "tpWire t = tpWire (wTrans w)" "err \<noteq> ErrCancelled"
        using out Inl by (auto simp: unreachable_error_def split: option.splits if_splits receipt.splits)
      then have "notify_outcome d p from target (npText p) w0 (queueNotify d p from target (DRoute (RouteTransport err)) False ?w)"
        using w by (intro queueNotify_outcome) simp_all
      then show ?thesis using call Inl True by (simp add: notify_socket_def Let_def)
    next
      case False
      then have "err = ErrCancelled \<and> sent_on_socket d p from target (npText p) w0 ?w"
        using out Inl w by (auto simp: unreachable_error_def sent_on_socket_def split: option.splits if_splits receipt.splits)
      then show ?thesis using call Inl False w by (simp add: notify_socket_def Let_def notify_outcome_def)
    qed
  next
    case (Inr hook)
    then have "sent_on_socket d p from target (npText p) w0 ?w"
      using out w by (auto simp: sent_on_socket_def split: option.splits if_splits)
    then show ?thesis using call Inr by (simp add: notify_socket_def notify_outcome_def res_Delivered_def)
  qed
qed

lemma notify_target_outcome:
  "\<exists>out. notify_target d p from target w = Some out \<and>
     notify_outcome d p from target (recalled d (npText p) (npFromPeer p) from target) w out"
proof -
  let ?w = "gateOnSeedSettled d target w"
  let ?p = "p\<lparr>npText := recalled d (npText p) (npFromPeer p) from target\<rparr>"
  have w: "same_channels w ?w" by simp
  then have eqs: "wTrans ?w = wTrans w" "wQueue ?w = wQueue w" "wPrompts ?w = wPrompts w" by (simp_all add: same_channels_def)
  have shape: "notify_outcome d ?p from target msg w out \<longleftrightarrow> notify_outcome d p from target msg w out" for msg out
    by (simp add: notify_outcome_def sent_on_socket_def split: prod.split sum.split option.split)
  show ?thesis
  proof (cases "ACPRoute (wTrans w) target")
    case (Some spec)
    then show ?thesis using eqs
      by (cases "dePrompt d spec (npText ?p)")
        (simp_all add: notify_target_def notify_outcome_def Let_def res_Delivered_def sent_to_broker_def)
  next
    case None
    show ?thesis
    proof (cases "wsRecipientBusy target")
      case True
      have "notify_outcome d p from target (npText ?p) w (queueNotify d ?p from target (DBusyNoQueue (DisplayName target)) True ?w)"
        using eqs by (intro queueNotify_outcome) simp_all
      then show ?thesis using None True eqs by (simp add: notify_target_def Let_def)
    next
      case False
      then show ?thesis using None eqs notify_socket_outcome [OF w, of d ?p "from" target] shape
        by (simp add: notify_target_def Let_def)
    qed
  qed
qed


section \<open>Replies of a subprocess\<close>

lemma queueNotify_asks: "queueNotify d p from target err busy v = (r, v') \<Longrightarrow> wAsks v' = wAsks v"
proof -
  have "wAsks (snd (queueNotify d p from target err busy v)) = wAsks v"
    by (simp add: queueNotify_def markTransportUnreachable_def Let_def split: sum.split option.split prod.split)
  then show "queueNotify d p from target err busy v = (r, v') \<Longrightarrow> wAsks v' = wAsks v" by simp
qed

lemma notify_socket_asks: "notify_socket d p from target v = Some (r, v') \<Longrightarrow> wAsks v' = wAsks v"
  unfolding notify_socket_def Let_def
  by (auto split: option.splits prod.splits sum.splits if_splits dest!: queueNotify_asks)

lemma notify_target_asks: "notify_target d p from target w = Some (r, v') \<Longrightarrow> wAsks v' = wAsks w"
proof -
  have g: "wAsks (gateOnSeedSettled d target w) = wAsks w" by (simp add: gateOnSeedSettled_def)
  show "notify_target d p from target w = Some (r, v') \<Longrightarrow> wAsks v' = wAsks w"
    unfolding notify_target_def Let_def
    by (auto simp: g split: option.splits if_splits dest!: queueNotify_asks notify_socket_asks)
qed

lemma Notify_total: "\<exists>res w'. Notify d p w = Some (res, w') \<and> wAsks w' = wAsks w"
proof (cases "CheckAccess (reg_env d w) (npFromPeer p) (npToPeer p) (npBypassCircle p) (npCircle p) (wReg w)")
  case (Inl err)
  then show ?thesis by (simp add: Notify_def)
next
  case (Inr ft)
  obtain "from" target where ft: "ft = (from, target)" by (cases ft)
  obtain res w' where "notify_target d p from target w = Some (res, w')"
    using notify_target_outcome [of d p "from" target w] by (metis surj_pair)
  with notify_target_asks [OF this] Inr ft show ?thesis by (simp add: Notify_def)
qed

lemma close_ask_ok:
  assumes "tracker_ok (wAsks w)" "gm_get (tr_asks (wAsks w)) cid = Some a" "\<not> Closed a"
  shows "\<exists>w' a'. close_ask cid reason w = Some w' \<and> gm_get (tr_asks (wAsks w')) cid = Some a' \<and> Closed a' \<and>
     CloseReason a' = reason \<and> ReplyText a' = ReplyText a \<and> (\<forall>c. c \<noteq> cid \<longrightarrow> gm_get (tr_asks (wAsks w')) c = gm_get (tr_asks (wAsks w)) c)"
proof -
  obtain r t' where c: "Close cid reason (wAsks w) = Some (r, t')" using Close_ok [OF assms(1)] by blast
  have "tr_asks t' = gm_put cid (a\<lparr>Closed := True, CloseReason := reason\<rparr>) (tr_asks (wAsks w))"
    using c assms(2,3)
    by (auto simp: Close_def cancelWaiter_def resolveWaiter_def chan_send_def Let_def bind_eq_Some_conv
        split: option.splits list.splits if_splits)
  then show ?thesis using c by (simp add: close_ask_def)
qed

lemma capture_ok: "tracker_ok (wAsks w) \<Longrightarrow> tracker_ok (wAsks (capture d cid reply w))"
  using CaptureReply_ok by (auto simp: capture_def op_ok_def split: option.split)

lemma capture_get: "gm_get (tr_asks (wAsks w)) cid = Some a \<Longrightarrow>
    \<exists>a'. gm_get (tr_asks (wAsks (capture d cid (Some r) w))) cid = Some a' \<and> Closed a' = Closed a \<and>
      ReplyText a' = (case ReplyText a of None \<Rightarrow> Some r | Some x \<Rightarrow> Some x)"
  by (auto simp: capture_def CaptureReply_def Let_def split: option.split)

text \<open>
  C8: the answer of a subprocess is never lost. When a prompt for an open ask finishes with a reply, the
  completion returns, and afterwards either the ask is closed as answered with the reply recorded on it
  (or an earlier reply kept), or it is still open with the framed reply stashed for redelivery.
\<close>

theorem acp_reply_is_kept:
  assumes "tracker_reach (wAsks w)" "deHasAsks d" "Get cid (wAsks w) = Some a" "\<not> Closed a"
  shows "\<exists>w' a'. completeACPAsk d cid (Some reply) None w = Some w' \<and> gm_get (tr_asks (wAsks w')) cid = Some a' \<and>
     (Closed a' \<and> CloseReason a' = ''ack_with_msg'' \<and> ReplyText a' = (case ReplyText a of None \<Rightarrow> Some reply | Some x \<Rightarrow> Some x) \<or>
      \<not> Closed a' \<and> PendingReply a' = Some (framed_reply cid a (Some reply) None))"
proof -
  let ?p = "\<lparr>npFromPeer = ToPeerID a, npToPeer = FromPeerID a, npText = framed_reply cid a (Some reply) None, npBypassCircle = True,
      npCircle = None, npAttachments = [], npDeliveryID = []\<rparr>"
  obtain res w1 where n: "Notify d ?p w = Some (res, w1)" "wAsks w1 = wAsks w" using Notify_total [of d ?p w] by blast
  have ok: "tracker_ok (wAsks w1)" using tracker_reach_ok [OF assms(1)] n(2) by simp
  have a: "gm_get (tr_asks (wAsks w1)) cid = Some a" using assms(3) n(2) by (simp add: Get_def)
  have closed: "\<exists>w' a'. close_ask cid ''ack_with_msg'' (capture d cid (Some reply) w1) = Some w' \<and> gm_get (tr_asks (wAsks w')) cid = Some a' \<and>
      Closed a' \<and> CloseReason a' = ''ack_with_msg'' \<and> ReplyText a' = (case ReplyText a of None \<Rightarrow> Some reply | Some x \<Rightarrow> Some x)"
    using capture_get [OF a, of d reply] close_ask_ok [OF capture_ok [OF ok, of d cid "Some reply"]] assms(4) by fastforce
  have stashed: "\<exists>a'. gm_get (tr_asks (wAsks (stash_reply d cid a (framed_reply cid a (Some reply) None) w1))) cid = Some a' \<and> \<not> Closed a' \<and>
      PendingReply a' = Some (framed_reply cid a (Some reply) None)"
    using a assms(4) by (simp add: stash_reply_def SetPendingReply_def split: prod.split)
  have step: "completeACPAsk d cid (Some reply) None w = (case res of
      Inr r \<Rightarrow> if res_Queued r \<or> res_Delivered r then close_ask cid ''ack_with_msg'' (capture d cid (Some reply) w1)
        else Some (stash_reply d cid a (framed_reply cid a (Some reply) None) w1)
    | Inl err \<Rightarrow> Some (stash_reply d cid a (framed_reply cid a (Some reply) None) w1))"
    using assms(2-4) n(1) by (simp add: completeACPAsk_def Let_def split: sum.split)
  show ?thesis
  proof (cases "\<exists>r. res = Inr r \<and> (res_Queued r \<or> res_Delivered r)")
    case True
    then show ?thesis using closed by (auto simp: step)
  next
    case False
    then have "completeACPAsk d cid (Some reply) None w = Some (stash_reply d cid a (framed_reply cid a (Some reply) None) w1)"
      by (simp add: step split: sum.split)
    then show ?thesis using stashed by blast
  qed
qed

section \<open>Scheduled asks\<close>

lemma SendAsk_total: "\<exists>res t'. SendAsk writes rc hex from to toName cid msg r q atts t = Some (res, t')"
proof -
  have "''ask-delivery-'' @ hex \<noteq> []" by simp
  from SendAndWait_outcome [OF extract_ask this, of writes rc to "from" toName cid msg r q atts t] show ?thesis
    by (auto simp: SendAsk_def)
qed

lemma ask_socket_total: "\<exists>res w'. ask_socket d p from target w = Some (res, w') \<and> wAsks w' = wAsks w"
proof -
  obtain res t where "SendAsk (deWrites d (PeerID target)) (deReceipt d (PeerID target)) (deHex8 d) (from_name (apFromPeer p) from)
        (PeerID target) (DisplayName target) (apCorrelationID p) (apText p) (apReplyTo p) (apQuestion p) (apAttachments p) (wTrans w) = Some (res, t)"
    using SendAsk_total by blast
  then show ?thesis
    by (simp add: ask_socket_def Let_def markTransportUnreachable_def split: sum.split route_error.split)
qed

lemma ask_target_total: "\<exists>res w'. ask_target d p from target w = Some (res, w') \<and> wAsks w' = wAsks w"
proof -
  let ?p = "p\<lparr>apText := recalled d (apText p) (apFromPeer p) from target\<rparr>"
  have g: "wAsks (gateOnSeedSettled d target w) = wAsks w" by (simp add: gateOnSeedSettled_def)
  show ?thesis using g ask_socket_total [of d ?p "from" target "gateOnSeedSettled d target w"]
    by (simp add: ask_target_def Let_def split: option.split sum.split prod.split)
qed

lemma DeliverAsk_total: "\<exists>res w'. DeliverAsk d p w = Some (res, w') \<and> wAsks w' = wAsks w"
  using ask_target_total [of d p] by (simp add: DeliverAsk_def split: sum.split prod.split)

text \<open>
  A scheduled ask that fails leaves nothing open. \<open>OpenScheduledAsk\<close> always returns; if it returns an
  error, every ask that is open afterwards was there and open before, and if it returns an id, that id
  is in the tracker, new or already there.
\<close>

theorem scheduled_ask_rolled_back:
  assumes "tracker_reach (wAsks w)" "deHasAsks d"
  shows "\<exists>out w'. OpenScheduledAsk d fromPeer toPeer msg circle rd w = Some (out, w') \<and>
     (case out of
        Inl err \<Rightarrow> \<forall>c a. gm_get (tr_asks (wAsks w')) c = Some a \<longrightarrow> \<not> Closed a \<longrightarrow> gm_get (tr_asks (wAsks w)) c = Some a
      | Inr cid \<Rightarrow> gm_has (tr_asks (wAsks w')) cid)"
proof -
  let ?rp = "\<lparr>rpFromPeerID = fromPeer, rpFromPeerName = fromPeer, rpToPeerID = toPeer, rpToPeerName = toPeer, rpText = msg,
      rpReplyTo = None, rpCorrelationID = [], rpFromRepowireSessionID = None, rpToRepowireSessionID = None,
      rpParentID = None, rpQuestion = None, rpReplyDelivery = rd\<rparr>"
  obtain r t where reg: "Register (Now (deReg d)) (deHex8 d) ?rp (wAsks w) = (r, t)" by force
  have ok: "tracker_ok t"
    using Register_ok [OF tracker_reach_ok [OF assms(1)] reg] by (simp add: op_ok_def)
  show ?thesis
  proof (cases r)
    case (Inl err)
    then have "t = wAsks w" using reg by (auto simp: Register_def Let_def split: if_splits)
    then show ?thesis using assms(2) reg Inl by (simp add: OpenScheduledAsk_def)
  next
    case (Inr cid)
    have new: "\<exists>a. gm_get (tr_asks t) cid = Some a" "c \<noteq> cid \<Longrightarrow> gm_get (tr_asks t) c = gm_get (tr_asks (wAsks w)) c" for c
      using reg Inr by (auto simp: Register_def Let_def gm_has_def split: if_splits)
    obtain a where a: "gm_get (tr_asks t) cid = Some a" using new(1) by blast
    let ?ap = "\<lparr>apFromPeer = fromPeer, apToPeer = toPeer, apText = msg, apCorrelationID = cid, apReplyTo = None,
                     apBypassCircle = False, apCircle = circle, apAttachments = [], apQuestion = None\<rparr>"
    obtain res w1 where del: "DeliverAsk d ?ap (w\<lparr>wAsks := t\<rparr>) = Some (res, w1)" "wAsks w1 = t"
      using DeliverAsk_total [of d ?ap "w\<lparr>wAsks := t\<rparr>"] by auto
    show ?thesis
    proof (cases res)
      case res: (Inr x)
      then show ?thesis using assms(2) reg Inr del a by (simp add: OpenScheduledAsk_def gm_has_def)
    next
      case res: (Inl err)
      have "\<exists>w2. close_ask cid ''send_failed'' w1 = Some w2 \<and> (\<exists>b. gm_get (tr_asks (wAsks w2)) cid = Some b \<and> Closed b) \<and>
          (\<forall>c. c \<noteq> cid \<longrightarrow> gm_get (tr_asks (wAsks w2)) c = gm_get (tr_asks t) c)"
      proof (cases "Closed a")
        case True
        then show ?thesis using a del(2) by (simp add: close_ask_def Close_def)
      next
        case False
        then show ?thesis using close_ask_ok [of w1 cid a "''send_failed''"] a ok del(2) by fastforce
      qed
      then obtain w2 b where w2: "close_ask cid ''send_failed'' w1 = Some w2" "gm_get (tr_asks (wAsks w2)) cid = Some b" "Closed b"
        "\<And>c. c \<noteq> cid \<Longrightarrow> gm_get (tr_asks (wAsks w2)) c = gm_get (tr_asks t) c" by blast
      have "gm_get (tr_asks (wAsks w)) c = Some x" if "gm_get (tr_asks (wAsks w2)) c = Some x" "\<not> Closed x" for c x
        using that w2(2-4) new(2) by (cases "c = cid") auto
      then show ?thesis using assms(2) reg Inr del res w2(1) by (simp add: OpenScheduledAsk_def)
    qed
  qed
qed

section \<open>An ask nobody will see\<close>

lemma maybeEvict_get:
  assumes "tracker_ok t" "maybeEvictExpired now now' t = Some t'" "gm_get (tr_asks t') c = Some a"
  shows "gm_get (tr_asks t) c = Some a"
proof -
  have "tracker_ok (t\<lparr>tr_lastEviction := Some now\<rparr>)" using assms(1) by (simp add: tracker_ok_def)
  then show ?thesis using assms
    by (auto simp: maybeEvictExpired_def EvictExpired_get split: option.splits if_splits)
qed

lemma pending_rows:
  assumes "tracker_ok t" "PendingForPeer now now' i n dir t = Some (Inr asks, t')" "a \<in> set asks"
  shows "gm_get (tr_asks t) (CorrelationID a) = Some a \<and> direction_matches dir i a"
proof -
  have ok: "tracker_ok t'" using assms(1,2) tracker_step_preserves [of t "OpPendingForPeer now now' i n dir" t'] by simp
  have ev: "maybeEvictExpired now now' t = Some t'"
    using assms(2) by (auto simp: PendingForPeer_def bind_eq_Some_conv Let_def split: if_splits)
  have "a \<in> snd ` set (gm_select (\<lambda>cid a. direction_matches dir i a \<and> \<not> Closed a) (tr_asks t'))"
    using assms(2,3) ev by (auto simp: PendingForPeer_def Let_def split: if_splits dest!: in_set_takeD)
  then obtain k where k: "gm_get (tr_asks t') k = Some a" "direction_matches dir i a"
    using ok set_gm_select by (fastforce simp: tracker_ok_def asks_ok_def)
  then show ?thesis using maybeEvict_get [OF assms(1) ev k(1)] tracker_ok_ask [OF ok k(1)] by (simp add: ask_ok_def)
qed

lemma DeliverAsk_busy:
  assumes "CheckAccess (reg_env d w) (apFromPeer p) (apToPeer p) (apBypassCircle p) (apCircle p) (wReg w) = Inr (from, target)"
    and "wsRecipientBusy target" "TurnState target \<noteq> TurnPendingFirstTurn" "ACPRoute (wTrans w) target = None"
  shows "DeliverAsk d p w = Some (Inr \<lparr>arTransport = ''deferred'', arHookDelivery = None\<rparr>, w)"
  using assms by (simp add: DeliverAsk_def ask_target_def gateOnSeedSettled_def Let_def)

text \<open>
  A scheduled ask to a busy peer is accepted and never shown. The ask is registered under the
  recipient as the schedule names it; when that is a display name and the peer is busy, the
  service answers with the id as if delivered, although no frame, prompt or queue row exists, and
  the pending asks of the peer, which are looked up by its id, never contain it.
\<close>

theorem scheduled_ask_to_busy_peer_is_lost:
  assumes "deHasAsks d" "CheckAccess (reg_env d w) fromPeer toPeer False circle (wReg w) = Inr (from, target)"
    and "toPeer \<noteq> PeerID target" "wsRecipientBusy target" "TurnState target \<noteq> TurnPendingFirstTurn" "ACPRoute (wTrans w) target = None"
    and "tracker_reach (wAsks w)" "\<not> gm_has (tr_quiescing (wAsks w)) toPeer" "\<not> gm_has (tr_quiescing (wAsks w)) fromPeer"
    and "\<not> gm_has (tr_asks (wAsks w)) (''ask-'' @ deHex8 d)"
  shows "\<exists>w'. OpenScheduledAsk d fromPeer toPeer msg circle rd w = Some (Inr (''ask-'' @ deHex8 d), w') \<and>
     wTrans w' = wTrans w \<and> wPrompts w' = wPrompts w \<and> wQueue w' = wQueue w \<and>
     (\<exists>a. gm_get (tr_asks (wAsks w')) (''ask-'' @ deHex8 d) = Some a \<and> \<not> Closed a) \<and>
     (\<forall>now now' n asks t. PendingForPeer now now' (PeerID target) n ''inbound'' (wAsks w') = Some (Inr asks, t) \<longrightarrow>
        ''ask-'' @ deHex8 d \<notin> CorrelationID ` set asks)"
proof -
  let ?rp = "\<lparr>rpFromPeerID = fromPeer, rpFromPeerName = fromPeer, rpToPeerID = toPeer, rpToPeerName = toPeer, rpText = msg,
      rpReplyTo = None, rpCorrelationID = [], rpFromRepowireSessionID = None, rpToRepowireSessionID = None,
      rpParentID = None, rpQuestion = None, rpReplyDelivery = rd\<rparr>"
  let ?cid = "''ask-'' @ deHex8 d"
  let ?a = "new_ask (Now (deReg d)) ?cid ?rp"
  let ?t = "(wAsks w)\<lparr>tr_asks := gm_put ?cid ?a (tr_asks (wAsks w))\<rparr>"
  have reg: "Register (Now (deReg d)) (deHex8 d) ?rp (wAsks w) = (Inr ?cid, ?t)"
    using assms(8-10) by (simp add: Register_def Let_def)
  have ok: "tracker_ok ?t" using Register_ok [OF tracker_reach_ok [OF assms(7)] reg] by (simp add: op_ok_def)
  have "DeliverAsk d \<lparr>apFromPeer = fromPeer, apToPeer = toPeer, apText = msg, apCorrelationID = ?cid, apReplyTo = None,
      apBypassCircle = False, apCircle = circle, apAttachments = [], apQuestion = None\<rparr> (w\<lparr>wAsks := ?t\<rparr>) =
    Some (Inr \<lparr>arTransport = ''deferred'', arHookDelivery = None\<rparr>, w\<lparr>wAsks := ?t\<rparr>)"
    by (rule DeliverAsk_busy) (use assms(2,4-6) in \<open>simp_all add: reg_env_def\<close>)
  then have run: "OpenScheduledAsk d fromPeer toPeer msg circle rd w = Some (Inr ?cid, w\<lparr>wAsks := ?t\<rparr>)"
    using assms(1) reg by (simp add: OpenScheduledAsk_def)
  have hidden: "?cid \<notin> CorrelationID ` set asks" if "PendingForPeer now now' (PeerID target) n ''inbound'' ?t = Some (Inr asks, t)" for now now' n asks t
  proof
    assume "?cid \<in> CorrelationID ` set asks"
    then obtain x where x: "x \<in> set asks" "CorrelationID x = ?cid" by auto
    have "gm_get (tr_asks ?t) ?cid = Some x" "ToPeerID x = PeerID target"
      using pending_rows [OF ok that x(1)] x(2) by simp_all
    then have "x = ?a" by simp
    then have "ToPeerID x = toPeer" by (simp only: new_ask_def ask.simps register_params.simps)
    then show False using \<open>ToPeerID x = PeerID target\<close> assms(3) by simp
  qed
  have "\<not> Closed ?a" by (simp add: new_ask_def)
  then show ?thesis using run hidden by (intro exI [of _ "w\<lparr>wAsks := ?t\<rparr>"] conjI exI [of _ ?a]) simp_all
qed

section \<open>A small world\<close>

definition demo_delivery_env :: delivery_env where
  "demo_delivery_env = \<lparr>deReg = demo_env, deTTL = 60, deMax = 10, deHasQueue = True, deHasOps = True, deHasAsks = True,
     deRecall = \<lparr>rcEnabled = False, rcMaxFileChars = 0, rcMaxHits = 0, rcMaxChars = 0\<rparr>, deMemory = [], deNotes = (\<lambda>l. None),
     deWrites = (\<lambda>i. True), deReceipt = (\<lambda>i. NoReceipt), dePrompt = (\<lambda>s t. None), dePolls = [], deHex8 = ''00c0ffee'',
     deQueueID = ''qd-1'', deOpID = ''op-1'', deAttemptID = ''at-1''\<rparr>"

text \<open>A sender and a busy colleague in one circle, a stranger in another; the last two are connected.\<close>

definition demo_busy :: peer where
  "demo_busy = (demo_peer ''b'' ''web'' ''dev'')\<lparr>Status := StatusBusy\<rparr>"

definition demo_conn :: "string \<Rightarrow> nat \<Rightarrow> conn_info" where
  "demo_conn i ws = \<lparr>ciSessionID = i, ciWS = ws, ciPaneID = None, ciDisplayName = i, ciConnectedAt = 0\<rparr>"

definition demo_world :: world where
  "demo_world = \<lparr>wReg = (NewRegistry 0 [] [] [])\<lparr>rgPeers :=
       [(''a'', \<lparr>psPeer = demo_peer ''a'' ''api'' ''dev'', psState = StateOnline\<rparr>),
        (''b'', \<lparr>psPeer = demo_busy, psState = StateBusy\<rparr>),
        (''c'', \<lparr>psPeer = demo_peer ''c'' ''ops'' ''prod'', psState = StateOnline\<rparr>)]\<rparr>,
     wTrans = NewWebSocketTransport\<lparr>tpConns := [(''b'', demo_conn ''b'' 1), (''c'', demo_conn ''c'' 2)]\<rparr>,
     wAsks = NewAskTracker 0, wQueue = [], wOps = [], wBindings = [], wPrompts = [], wDeferred = [], wClosed = False\<rparr>"

lemma demo_access: "CheckAccess (reg_env demo_delivery_env demo_world) ''a'' ''web'' False None (wReg demo_world) =
    Inr (Some (demo_peer ''a'' ''api'' ''dev''), demo_busy)"
  by (simp add: CheckAccess_def resolve_sender_def resolvePeerLocked_def demo_world_def demo_busy_def gm_get_def peers_list_def
      demo_peer_def checkCircleAccess_def Let_def)

theorem scheduled_ask_to_busy_peer_is_lost_witness:
  "\<exists>w'. OpenScheduledAsk demo_delivery_env ''a'' ''web'' ''deploy'' None [] demo_world = Some (Inr ''ask-00c0ffee'', w') \<and>
     tpWire (wTrans w') = [] \<and> wQueue w' = [] \<and> (\<exists>a. gm_get (tr_asks (wAsks w')) ''ask-00c0ffee'' = Some a \<and> \<not> Closed a)"
proof -
  have reach: "tracker_reach (wAsks demo_world)" by (simp add: demo_world_def tracker_reach.reach_new)
  have f: "deHasAsks demo_delivery_env" "''web'' \<noteq> PeerID demo_busy" "wsRecipientBusy demo_busy" "TurnState demo_busy \<noteq> TurnPendingFirstTurn"
    "ACPRoute (wTrans demo_world) demo_busy = None" "\<not> gm_has (tr_quiescing (wAsks demo_world)) ''web''"
    "\<not> gm_has (tr_quiescing (wAsks demo_world)) ''a''" "\<not> gm_has (tr_asks (wAsks demo_world)) (''ask-'' @ deHex8 demo_delivery_env)"
    by (simp_all add: demo_delivery_env_def demo_busy_def demo_peer_def wsRecipientBusy_def HasCapability_def ACPRoute_def demo_world_def
        NewWebSocketTransport_def NewAskTracker_def gm_has_def)
  have "deHex8 demo_delivery_env = ''00c0ffee''" "tpWire (wTrans demo_world) = []" "wQueue demo_world = []"
    by (simp_all add: demo_delivery_env_def demo_world_def NewWebSocketTransport_def)
  with scheduled_ask_to_busy_peer_is_lost [OF f(1) demo_access f(2-5) reach f(6-8), of "''deploy''" "[]"] show ?thesis by auto
qed

theorem scheduled_ask_rolled_back_witness:
  "tracker_reach (wAsks demo_world) \<and> (\<exists>out w'. OpenScheduledAsk demo_delivery_env ''a'' ''nobody'' ''deploy'' None [] demo_world = Some (out, w'))"
proof -
  have "tracker_reach (wAsks demo_world)" by (simp add: demo_world_def tracker_reach.reach_new)
  moreover have "deHasAsks demo_delivery_env" by (simp add: demo_delivery_env_def)
  ultimately show ?thesis
    using scheduled_ask_rolled_back [of demo_world demo_delivery_env "''a''" "''nobody''" "''deploy''" None "[]"] by blast
qed


theorem acp_reply_is_kept_witness:
  "\<exists>t a w'. tracker_run [OpRegister 5 ''00'' demo_params] (NewAskTracker 0) = Some t \<and> Get ''c1'' t = Some a \<and>
     completeACPAsk demo_delivery_env ''c1'' (Some ''done'') None (demo_world\<lparr>wAsks := t\<rparr>) = Some w'"
proof -
  obtain t a where t: "tracker_run [OpRegister 5 ''00'' demo_params] (NewAskTracker 0) = Some t" "Get ''c1'' t = Some a" "\<not> Closed a"
    by (simp add: demo_eval)
  have "tracker_reach (wAsks (demo_world\<lparr>wAsks := t\<rparr>))" using tracker_run_reach [OF reach_new t(1)] by simp
  moreover have "deHasAsks demo_delivery_env" by (simp add: demo_delivery_env_def)
  ultimately show ?thesis using acp_reply_is_kept [of "demo_world\<lparr>wAsks := t\<rparr>" demo_delivery_env "''c1''" a "''done''"] t by fastforce
qed

end
