(* ===== verification/Shell_Command.thy ===== *)
theory Shell_Command
  imports Go_Strings Sql_Table
begin

text \<open>
  The command lines Repowire launches: quoting and splitting of \<open>daemon-go/service/spawn_service.go\<close> and
  the resume arguments of \<open>service/agent_backends.go\<close>. Strings are bytes; the code walks runes, which for
  valid UTF-8 is the same because every character that matters is ASCII. \<open>shell_words\<close> is what a
  shell makes of a line and serves as the specification.
\<close>

section \<open>Quoting\<close>

abbreviation squote :: char where "squote \<equiv> CHR 0x27"
abbreviation dquote :: char where "dquote \<equiv> CHR 0x22"
abbreviation backslash :: char where "backslash \<equiv> CHR 0x5C"

definition shell_safe :: "char \<Rightarrow> bool" where
  "shell_safe c \<longleftrightarrow> (let n = of_char c :: nat in
     (65 \<le> n \<and> n \<le> 90) \<or> (97 \<le> n \<and> n \<le> 122) \<or> (48 \<le> n \<and> n \<le> 57)) \<or> c \<in> set ''_-./:@%''"

definition quote_char :: "char \<Rightarrow> string" where
  "quote_char c = (if c = squote then [squote, backslash, squote, squote] else [c])"

definition shellQuote :: "string \<Rightarrow> string" where
  "shellQuote v = (if v \<noteq> [] \<and> list_all shell_safe v then v else squote # concat (map quote_char v) @ [squote])"

definition blank :: "char \<Rightarrow> bool" where
  "blank c \<longleftrightarrow> c = CHR '' '' \<or> c = CHR 0x09 \<or> c = CHR 0x0A"

text \<open>The loop of \<open>firstShellWord\<close>: the open quote, whether the last character was a backslash, and the word so far.\<close>

fun word_loop :: "char option \<Rightarrow> bool \<Rightarrow> string \<Rightarrow> string \<Rightarrow> (string \<times> string) option" where
  "word_loop q esc word [] = (if q \<noteq> None \<or> esc then None else Some (word, []))"
| "word_loop q esc word (c # cs) =
     (if esc then word_loop q False (word @ [c]) cs
      else if c = backslash \<and> q \<noteq> Some squote then word_loop q True word cs
      else (case q of
          Some d \<Rightarrow> if c = d then word_loop None False word cs else word_loop q False (word @ [c]) cs
        | None \<Rightarrow>
            if c = squote \<or> c = dquote then word_loop (Some c) False word cs
            else if blank c then Some (word, cs)
            else word_loop None False (word @ [c]) cs))"

definition firstShellWord :: "string \<Rightarrow> (string \<times> string) option" where
  "firstShellWord input = word_loop None False [] input"

lemma word_loop_Cons:
  assumes "word_loop q esc word (c # cs) = Some (w, rest)"
  shows "(\<exists>q' e' w'. word_loop q' e' w' cs = Some (w, rest)) \<or> rest = cs"
  using assms unfolding word_loop.simps(2) by (simp split: if_splits option.splits) blast+

lemma word_loop_shorter: "word_loop q esc word s = Some (w, rest) \<Longrightarrow> length rest \<le> length s"
proof (induction s arbitrary: q esc word)
  case (Cons c cs)
  from word_loop_Cons [OF Cons.prems] Cons.IH show ?case by fastforce
qed (simp split: if_splits)

lemma word_loop_progress: "word_loop q esc word s = Some (w, rest) \<Longrightarrow> s \<noteq> [] \<Longrightarrow> length rest < length s"
  using word_loop_Cons word_loop_shorter by (cases s) fastforce+

lemma firstShellWord_shorter: "firstShellWord s = Some (w, rest) \<Longrightarrow> s \<noteq> [] \<Longrightarrow> length rest < length s"
  unfolding firstShellWord_def by (rule word_loop_progress)

section \<open>Which program a line starts\<close>

text \<open>\<open>validateCommandHead\<close> skips \<open>env\<close> and assignments; None is an unmatched quote, an empty head no command.\<close>

lemma length_TrimSpace: "length (TrimSpace s) \<le> length s"
  unfolding TrimSpace_def TrimCutset_def by (metis length_dropWhile_le length_rev le_trans)

function head_loop :: "string \<Rightarrow> string option" where
  "head_loop s =
     (let rest = TrimSpace s
      in if rest = [] then Some []
         else (case firstShellWord rest of
             None \<Rightarrow> None
           | Some (word, after) \<Rightarrow> if word = ''env'' \<or> CHR ''='' \<in> set word then head_loop after else Some word))"
  by pat_completeness auto
termination
proof (relation "measure length", goal_cases)
  case (2 s rest a word after)
  then have "length after < length (TrimSpace s)" by (metis firstShellWord_shorter)
  then show ?case using length_TrimSpace [of s] by simp
qed simp

declare head_loop.simps [simp del]

text \<open>How a shell splits a line into words.\<close>

function shell_words :: "string \<Rightarrow> string list option" where
  "shell_words s =
     (let rest = dropWhile blank s
      in if rest = [] then Some []
         else (case firstShellWord rest of
             None \<Rightarrow> None
           | Some (word, after) \<Rightarrow> map_option ((#) word) (shell_words after)))"
  by pat_completeness auto
termination
proof (relation "measure length", goal_cases)
  case (2 s rest a word after)
  then have "length after < length (dropWhile blank s)" by (metis firstShellWord_shorter)
  then show ?case using length_dropWhile_le [of blank s] by simp
qed simp

declare shell_words.simps [simp del]

lemma shell_words_step:
  assumes "dropWhile blank s = c # cs" "firstShellWord (c # cs) = Some (word, after)"
  shows "shell_words s = map_option ((#) word) (shell_words after)"
  using shell_words.simps [of s] assms by simp

lemma shell_words_none: "dropWhile blank s = [] \<Longrightarrow> shell_words s = Some []"
  using shell_words.simps [of s] by (simp only: Let_def simp_thms if_True)

lemma shell_words_cases:
  assumes "shell_words s = Some ws" "dropWhile blank s \<noteq> []"
  obtains w after ws' where "firstShellWord (dropWhile blank s) = Some (w, after)" "shell_words after = Some ws'" "ws = w # ws'"
  using assms shell_words.simps [of s] that by (auto simp only: Let_def if_False split: option.splits)

section \<open>A quoted value is one word\<close>

lemma safe_not_special: "shell_safe c \<Longrightarrow> c \<noteq> squote \<and> c \<noteq> dquote \<and> c \<noteq> backslash \<and> \<not> blank c"
  by (auto simp: shell_safe_def blank_def)

lemma word_loop_safe: "list_all shell_safe v \<Longrightarrow> word_loop None False word (v @ rest) = word_loop None False (word @ v) rest"
  by (induction v arbitrary: word) (auto dest: safe_not_special)

lemma word_loop_quoted:
  "word_loop (Some squote) False word (concat (map quote_char v) @ squote # rest) = word_loop None False (word @ v) rest"
  by (induction v arbitrary: word) (auto simp: quote_char_def)

lemma word_loop_shellQuote: "word_loop None False word (shellQuote v @ rest) = word_loop None False (word @ v) rest"
  by (simp add: shellQuote_def word_loop_safe word_loop_quoted)

lemma shellQuote_start: "\<exists>c cs. shellQuote v = c # cs \<and> \<not> blank c"
  by (cases v) (auto simp: shellQuote_def blank_def dest: safe_not_special)

lemma shell_words_quoted: "shell_words (shellQuote v) = Some [v]"
proof -
  obtain c cs where c: "shellQuote v = c # cs" "\<not> blank c" using shellQuote_start by blast
  have "firstShellWord (c # cs) = Some (v, [])"
    using word_loop_shellQuote [of "[]" v "[]"] c(1) by (simp only: firstShellWord_def append_Nil append_Nil2) simp
  from shell_words_step [OF _ this, of "shellQuote v"] c show ?thesis by (simp add: shell_words_none)
qed

lemma word_loop_append:
  assumes "word_loop q esc word s = Some (w, after)" "blank b"
  shows "word_loop q esc word (s @ b # d) = Some (w, after @ b # d) \<or> (after = [] \<and> word_loop q esc word (s @ b # d) = Some (w, d))"
  using assms(1)
proof (induction q esc word s rule: word_loop.induct)
  case (1 q esc word)
  then show ?case using assms(2) by (auto split: if_splits simp: blank_def)
next
  case (2 q esc word c cs)
  then show ?case by (auto split: if_splits option.splits)
qed

lemma shell_words_blank: "blank b \<Longrightarrow> shell_words (b # d) = shell_words d"
  using shell_words.simps [of "b # d"] shell_words.simps [of d] by (simp only: dropWhile.simps if_True)

lemma shell_words_blanks: "\<forall>x\<in>set s. blank x \<Longrightarrow> shell_words (s @ d) = shell_words d"
  by (induction s) (simp_all add: shell_words_blank)

lemma shell_words_append: "shell_words c = Some ws \<Longrightarrow> blank b \<Longrightarrow> shell_words (c @ b # d) = map_option ((@) ws) (shell_words d)"
proof (induction "length c" arbitrary: c ws rule: less_induct)
  case less
  show ?case
  proof (cases "dropWhile blank c = []")
    case True
    then have "\<forall>x\<in>set c. blank x" by (simp add: dropWhile_eq_Nil_conv)
    then have "shell_words (c @ b # d) = shell_words d" using less.prems(2) by (simp only: shell_words_blanks shell_words_blank)
    moreover have "ws = []" using less.prems(1) shell_words_none [OF True] by simp
    ultimately show ?thesis by (cases "shell_words d") simp_all
  next
    case False
    let ?r = "dropWhile blank c"
    obtain w after ws' where first: "firstShellWord ?r = Some (w, after)" "shell_words after = Some ws'" "ws = w # ws'"
      using less.prems(1) False by (rule shell_words_cases)
    obtain x xs where r: "?r = x # xs" using False by (cases ?r) auto
    have drop: "dropWhile blank (c @ b # d) = x # (xs @ b # d)"
      using r by (induction c) (auto split: if_splits)
    have "length after < length c" using firstShellWord_shorter [OF first(1) False] length_dropWhile_le [of blank c] by simp
    note IH = less.hyps [OF this first(2) less.prems(2)]
    consider "firstShellWord (?r @ b # d) = Some (w, after @ b # d)" | "after = []" "firstShellWord (?r @ b # d) = Some (w, d)"
      using word_loop_append [OF first(1) [unfolded firstShellWord_def] less.prems(2)] by (auto simp only: firstShellWord_def)
    then show ?thesis
    proof cases
      case 1
      then have "shell_words (c @ b # d) = map_option ((#) w) (shell_words (after @ b # d))"
        using shell_words_step [OF drop] by (simp only: r append_Cons)
      with IH first(3) show ?thesis by (cases "shell_words d") simp_all
    next
      case 2
      then have "shell_words (c @ b # d) = map_option ((#) w) (shell_words d)"
        using shell_words_step [OF drop] by (simp only: r append_Cons)
      moreover have "ws' = []" using first(2) 2(1) by (simp add: shell_words_none)
      ultimately show ?thesis using first(3) by (cases "shell_words d") simp_all
    qed
  qed
qed

section \<open>Resuming a backend session\<close>

record resume_spec =
  rsSupported :: bool
  rsStrategy :: string
  rsFlag :: string
  rsSubcommand :: string

text \<open>A backend that is not in the table has the zero value.\<close>

definition backendResumeSpecs :: "string \<Rightarrow> resume_spec" where
  "backendResumeSpecs backend =
     (if backend = ''claude-code'' then \<lparr>rsSupported = True, rsStrategy = ''claude_resume'', rsFlag = ''--resume'', rsSubcommand = []\<rparr>
      else if backend = ''codex'' then \<lparr>rsSupported = True, rsStrategy = ''codex_resume'', rsFlag = [], rsSubcommand = ''resume''\<rparr>
      else if backend = ''opencode'' then \<lparr>rsSupported = True, rsStrategy = ''opencode_session'', rsFlag = ''--session'', rsSubcommand = []\<rparr>
      else if backend = ''pi'' then \<lparr>rsSupported = True, rsStrategy = ''pi_session'', rsFlag = ''--session'', rsSubcommand = []\<rparr>
      else if backend = ''mcp-http'' then \<lparr>rsSupported = False, rsStrategy = ''unsupported'', rsFlag = [], rsSubcommand = []\<rparr>
      else \<lparr>rsSupported = False, rsStrategy = [], rsFlag = [], rsSubcommand = []\<rparr>)"

definition ResumeCapabilityForRegistration :: "string \<Rightarrow> string \<Rightarrow> jobject" where
  "ResumeCapabilityForRegistration backend runtimeSessionID =
     (let spec = backendResumeSpecs backend
      in if runtimeSessionID = [] then []
         else if \<not> rsSupported spec
         then [(''supported'', JBool False), (''strategy'', JStr (rsStrategy spec)), (''reason'', JStr ''backend_resume_not_implemented'')]
         else [(''supported'', JBool True), (''strategy'', JStr (rsStrategy spec)), (''runtime_session_id_arg'', JStr runtimeSessionID)])"

definition canResumeBackend :: "string \<Rightarrow> string \<Rightarrow> bool" where
  "canResumeBackend backend runtimeSessionID \<longleftrightarrow> rsSupported (backendResumeSpecs backend) \<and> runtimeSessionID \<noteq> []"

datatype resume_error = ErrResumeUnsupported string | ErrSessionIDRequired

definition resume_word :: "resume_spec \<Rightarrow> string" where
  "resume_word spec = (if rsSubcommand spec \<noteq> [] then rsSubcommand spec else rsFlag spec)"

definition BuildResumeCommand :: "string \<Rightarrow> string \<Rightarrow> string \<Rightarrow> resume_error + string" where
  "BuildResumeCommand command backend runtimeSessionID =
     (let spec = backendResumeSpecs backend
      in if \<not> rsSupported spec then Inl (ErrResumeUnsupported backend)
         else if runtimeSessionID = [] then Inl ErrSessionIDRequired
         else Inr (TrimSpace command @ '' '' @ resume_word spec @ '' '' @ shellQuote runtimeSessionID))"

definition with_args :: "string \<Rightarrow> string list \<Rightarrow> string" where
  "with_args command args = fold (\<lambda>arg line. line @ '' '' @ shellQuote arg) args command"

definition assignment :: "string \<times> string \<Rightarrow> string" where
  "assignment kv = fst kv @ ''='' @ shellQuote (snd kv)"

definition commandWithEnv :: "string \<Rightarrow> (string, string) gomap \<Rightarrow> string" where
  "commandWithEnv command env =
     (let kept = filter (\<lambda>(k, v). k \<noteq> [] \<and> v \<noteq> []) (sort_key (DBText \<circ> fst) env)
      in if kept = [] then command else ''env '' @ JoinSpace (map assignment kept) @ '' '' @ command)"

section \<open>What the launched line means\<close>

lemma blank_space [simp]: "blank (CHR '' '')"
  by (simp add: blank_def)

lemma words_then: "shell_words c = Some ws \<Longrightarrow> shell_words d = Some vs \<Longrightarrow> shell_words (c @ '' '' @ d) = Some (ws @ vs)"
  using shell_words_append [of c ws "CHR '' ''" d] by simp

lemma words_quoted: "shell_words c = Some ws \<Longrightarrow> shell_words (c @ '' '' @ shellQuote v) = Some (ws @ [v])"
  by (rule words_then [OF _ shell_words_quoted])

lemma words_args: "shell_words c = Some ws \<Longrightarrow> shell_words (with_args c args) = Some (ws @ args)"
proof (induction args arbitrary: c ws)
  case (Cons a args)
  from Cons.IH [OF words_quoted [OF Cons.prems, of a]] show ?case by (simp add: with_args_def)
qed (simp add: with_args_def)

lemma words_single: "w \<noteq> [] \<Longrightarrow> list_all shell_safe w \<Longrightarrow> shell_words w = Some [w]"
  using shell_words_quoted [of w] by (simp add: shellQuote_def)

lemma resume_word_safe: "rsSupported (backendResumeSpecs b) \<Longrightarrow> resume_word (backendResumeSpecs b) \<noteq> [] \<and>
    list_all shell_safe (resume_word (backendResumeSpecs b))"
  by (simp add: backendResumeSpecs_def resume_word_def shell_safe_def Let_def split: if_splits)

lemma words_resume:
  assumes "BuildResumeCommand command backend i = Inr line" "shell_words (TrimSpace command) = Some ws"
  shows "shell_words line = Some (ws @ [resume_word (backendResumeSpecs backend), i])"
proof -
  let ?w = "resume_word (backendResumeSpecs backend)"
  have sup: "rsSupported (backendResumeSpecs backend)" and line: "line = (TrimSpace command @ '' '' @ ?w) @ '' '' @ shellQuote i"
    using assms(1) by (auto simp: BuildResumeCommand_def Let_def split: if_splits)
  have "shell_words (TrimSpace command @ '' '' @ ?w) = Some (ws @ [?w])"
    using words_then [OF assms(2)] words_single resume_word_safe [OF sup] by blast
  from words_quoted [OF this, of i] line show ?thesis by simp
qed

text \<open>An assignment is one word when its name needs no quoting.\<close>

definition plain_name :: "string \<Rightarrow> bool" where
  "plain_name k \<longleftrightarrow> list_all (\<lambda>c. shell_safe c \<or> c = CHR ''='') k"

lemma word_loop_plain: "plain_name v \<Longrightarrow> word_loop None False word (v @ rest) = word_loop None False (word @ v) rest"
proof (induction v arbitrary: word)
  case (Cons c v)
  then have "c \<noteq> squote \<and> c \<noteq> dquote \<and> c \<noteq> backslash \<and> \<not> blank c"
    using safe_not_special by (auto simp: plain_name_def blank_def)
  moreover have "plain_name v" using Cons.prems by (simp add: plain_name_def)
  ultimately show ?case using Cons.IH [of "word @ [c]"] by simp
qed simp

lemma words_assignment:
  assumes "list_all shell_safe k"
  shows "shell_words (assignment (k, v)) = Some [k @ ''='' @ v]"
proof -
  have p: "plain_name (k @ ''='')" using assms by (induction k) (simp_all add: plain_name_def)
  have w: "firstShellWord (assignment (k, v)) = Some (k @ ''='' @ v, [])"
    using word_loop_plain [OF p, of "[]" "shellQuote v"] word_loop_shellQuote [of "k @ ''=''" v "[]"]
    by (simp add: firstShellWord_def assignment_def)
  obtain c cs where c: "assignment (k, v) = c # cs" "\<not> blank c"
    using assms safe_not_special by (cases k) (auto simp: assignment_def blank_def)
  from shell_words_step [of "assignment (k, v)" c cs "k @ ''='' @ v" "[]"] w c show ?thesis by (simp add: shell_words_none)
qed

lemma words_assignments:
  "kvs \<noteq> [] \<Longrightarrow> \<forall>kv\<in>set kvs. list_all shell_safe (fst kv) \<Longrightarrow>
     shell_words (JoinSpace (map assignment kvs)) = Some (map (\<lambda>kv. fst kv @ ''='' @ snd kv) kvs)"
proof (induction kvs rule: induct_list012)
  case (2 kv)
  then show ?case using words_assignment [of "fst kv" "snd kv"] by simp
next
  case (3 a b kvs)
  have "shell_words (assignment a) = Some [fst a @ ''='' @ snd a]" using "3.prems" words_assignment [of "fst a" "snd a"] by simp
  moreover have "shell_words (JoinSpace (map assignment (b # kvs))) = Some (map (\<lambda>kv. fst kv @ ''='' @ snd kv) (b # kvs))"
    using "3.IH"(2) "3.prems" by simp
  ultimately show ?case using words_then by fastforce
qed simp

definition env_words :: "(string, string) gomap \<Rightarrow> string list" where
  "env_words env =
     (let kept = filter (\<lambda>(k, v). k \<noteq> [] \<and> v \<noteq> []) (sort_key (DBText \<circ> fst) env)
      in if kept = [] then [] else ''env'' # map (\<lambda>kv. fst kv @ ''='' @ snd kv) kept)"

lemma words_env:
  assumes "shell_words command = Some ws" "\<forall>kv\<in>set env. list_all shell_safe (fst kv)"
  shows "shell_words (commandWithEnv command env) = Some (env_words env @ ws)"
proof -
  let ?kept = "filter (\<lambda>(k, v). k \<noteq> [] \<and> v \<noteq> []) (sort_key (DBText \<circ> fst) env)"
  show ?thesis
  proof (cases "?kept = []")
    case False
    have "\<forall>kv\<in>set ?kept. list_all shell_safe (fst kv)" using assms(2) by auto
    from words_assignments [OF False this] assms(1)
    have "shell_words (JoinSpace (map assignment ?kept) @ '' '' @ command) = Some (map (\<lambda>kv. fst kv @ ''='' @ snd kv) ?kept @ ws)"
      by (rule words_then)
    moreover have "shell_words ''env'' = Some [''env'']" by (rule words_single) (simp_all add: shell_safe_def Let_def)
    ultimately have "shell_words (''env'' @ '' '' @ JoinSpace (map assignment ?kept) @ '' '' @ command) =
        Some ([''env''] @ map (\<lambda>kv. fst kv @ ''='' @ snd kv) ?kept @ ws)" by (rule words_then [rotated])
    with False show ?thesis by (simp add: commandWithEnv_def env_words_def Let_def)
  qed (simp add: commandWithEnv_def env_words_def assms(1))
qed

text \<open>A line that starts and ends with something else than space is not changed by \<open>TrimSpace\<close>.\<close>

lemma trim_id: "s \<noteq> [] \<Longrightarrow> TrimSpace s = s \<longleftrightarrow> \<not> is_space (hd s) \<and> \<not> is_space (last s)"
proof
  assume s: "s \<noteq> []" "TrimSpace s = s"
  have "length (dropWhile is_space (rev (dropWhile is_space s))) = length s"
    using arg_cong [OF s(2), of length] by (simp add: TrimSpace_def TrimCutset_def)
  moreover have "length (dropWhile is_space (rev (dropWhile is_space s))) \<le> length (dropWhile is_space s)"
    using length_dropWhile_le [of is_space "rev (dropWhile is_space s)"] by simp
  ultimately have "length (dropWhile is_space s) = length s" using length_dropWhile_le [of is_space s] by simp
  then have d: "dropWhile is_space s = s" by (metis append_eq_conv_conj takeWhile_dropWhile_id length_append add_cancel_left_left length_0_conv append_Nil)
  then have "dropWhile is_space (rev s) = rev s" using s(2) by (simp add: TrimSpace_def TrimCutset_def rev_swap)
  with d s(1) show "\<not> is_space (hd s) \<and> \<not> is_space (last s)"
    by (metis dropWhile_eq_self_iff hd_rev rev_is_Nil_conv)
next
  assume s: "s \<noteq> []" "\<not> is_space (hd s) \<and> \<not> is_space (last s)"
  then have "dropWhile is_space s = s" by (cases s) simp_all
  moreover have "dropWhile is_space (rev s) = rev s" using s by (simp add: dropWhile_eq_self_iff hd_rev)
  ultimately show "TrimSpace s = s" by (simp add: TrimSpace_def TrimCutset_def)
qed

lemma quote_last: "shellQuote v \<noteq> [] \<and> \<not> is_space (last (shellQuote v))"
proof (cases "v \<noteq> [] \<and> list_all shell_safe v")
  case True
  then have "shell_safe (last v)" by (simp add: list_all_iff)
  then have "\<not> is_space (last v)" by (auto simp: shell_safe_def is_space_def Let_def)
  with True show ?thesis by (simp add: shellQuote_def)
next
  case False
  then have "shellQuote v = (squote # concat (map quote_char v)) @ [squote]" by (auto simp: shellQuote_def)
  then show ?thesis by (simp add: is_space_def)
qed

lemma trim_with_args: "command \<noteq> [] \<Longrightarrow> TrimSpace command = command \<Longrightarrow> TrimSpace (with_args command args) = with_args command args"
proof (induction args arbitrary: command)
  case (Cons a args)
  have "\<not> is_space (hd command)" using Cons.prems by (simp add: trim_id)
  then have "TrimSpace (command @ '' '' @ shellQuote a) = command @ '' '' @ shellQuote a"
    using Cons.prems(1) quote_last [of a] by (subst trim_id) simp_all
  then show ?case using Cons.IH [of "command @ '' '' @ shellQuote a"] by (simp add: with_args_def)
qed (simp add: with_args_def)

text \<open>
  C15: what is launched is what was configured. However odd the bytes of the profile arguments, of
  the session id and of the environment values are, a shell splits the launched line into exactly
  the words of the configured command, each argument as one word, the backend's own resume word and
  the session id as one word, behind \<open>env\<close> and one word per assignment. Nothing a session id or a value
  contains becomes another word.
\<close>

theorem launch_line_is_exact:
  assumes "shell_words command = Some ws" "command \<noteq> []" "TrimSpace command = command"
    and "BuildResumeCommand (with_args command args) backend i = Inr line"
    and "\<forall>kv\<in>set env. list_all shell_safe (fst kv)"
  shows "shell_words (commandWithEnv line env) =
     Some (env_words env @ ws @ args @ [resume_word (backendResumeSpecs backend), i])"
proof -
  have "shell_words (TrimSpace (with_args command args)) = Some (ws @ args)"
    using words_args [OF assms(1)] trim_with_args [OF assms(2,3)] by simp
  from words_env [OF words_resume [OF assms(4) this] assms(5)] show ?thesis by simp
qed

theorem launch_line_is_exact_witness:
  "\<exists>line. BuildResumeCommand (with_args ''codex --yolo'' [''a b'']) ''codex'' ''x; rm *'' = Inr line \<and>
     shell_words (commandWithEnv line [(''PATH'', ''/bin:/my dir'')]) =
       Some [''env'', ''PATH=/bin:/my dir'', ''codex'', ''--yolo'', ''a b'', ''resume'', ''x; rm *'']"
proof -
  let ?c = "''codex --yolo''"
  have plain: "list_all shell_safe ''codex''" "list_all shell_safe ''--yolo''" "list_all shell_safe ''PATH''"
    by (simp_all add: shell_safe_def)
  have "shell_words (''codex'' @ '' '' @ ''--yolo'') = Some ([''codex''] @ [''--yolo''])"
    by (rule words_then) (rule words_single, simp, rule plain)+
  then have c: "shell_words ?c = Some [''codex'', ''--yolo'']" by simp
  have t: "TrimSpace ?c = ?c" by (subst trim_id) (simp_all add: is_space_def)
  obtain line where line: "BuildResumeCommand (with_args ?c [''a b'']) ''codex'' ''x; rm *'' = Inr line"
    by (simp add: BuildResumeCommand_def backendResumeSpecs_def Let_def)
  have env: "env_words [(''PATH'', ''/bin:/my dir'')] = [''env'', ''PATH=/bin:/my dir'']" by (simp add: env_words_def Let_def)
  have spec: "resume_word (backendResumeSpecs ''codex'') = ''resume''" by (simp add: backendResumeSpecs_def resume_word_def)
  from launch_line_is_exact [OF c _ t line, of "[(''PATH'', ''/bin:/my dir'')]"] plain(3) env spec line show ?thesis by simp
qed

end
