(* ===== verification/Pane_Ownership.thy ===== *)
theory Pane_Ownership
  imports Go_Strings
begin

text \<open>
  Proof that Repowire created a tmux pane, \<open>daemon-go/service/pane_ownership.go\<close>. The JSON file behind
  the records is the map \<open>owRecords\<close> as \<open>loadLocked\<close> returns it, so a write that fails is not modelled; the
  panes spawned by this daemon are \<open>owSpawned\<close>. tmux answers through \<open>probe\<close>, and what the file
  system makes of a path is the record \<open>host\<close>; its last four fields serve \<open>Spawn_Service\<close>. A record's \<open>created_at\<close> is in
  nanoseconds instead of a float of seconds; nothing reads it.
\<close>

section \<open>Paths and panes\<close>

record host =
  hsHome :: "string option"
  hsJoin :: "string \<Rightarrow> string \<Rightarrow> string"
  hsEvalSymlinks :: "string \<Rightarrow> string option"
  hsAbs :: "string \<Rightarrow> string option"
  hsExists :: "string \<Rightarrow> bool"
  hsExecutable :: "string \<Rightarrow> bool"
  hsEnvPath :: string
  hsHintKey :: "string \<Rightarrow> string"

definition expand_home :: "host \<Rightarrow> string \<Rightarrow> string" where
  "expand_home h path = (case path of
       c # rest \<Rightarrow> if c = CHR ''~'' then (case hsHome h of Some home \<Rightarrow> hsJoin h home rest | None \<Rightarrow> path) else path
     | [] \<Rightarrow> path)"

definition norm_path :: "host \<Rightarrow> string \<Rightarrow> string" where
  "norm_path h path =
     (if path = [] then []
      else (let p = expand_home h path
            in case hsEvalSymlinks h p of
                 Some resolved \<Rightarrow> resolved
               | None \<Rightarrow> (case hsAbs h p of Some q \<Rightarrow> q | None \<Rightarrow> p)))"

record evidence =
  tePaneID :: string
  teSessionName :: string
  teWindowID :: string
  teWindowPanes :: int
  teTmuxSession :: string
  teCurrentPath :: string
  tePanePID :: string

text \<open>What \<open>realProbeTmuxPane\<close> makes of the output of \<open>tmux display-message\<close>; None is a failing command.\<close>

definition trim_newlines :: "string \<Rightarrow> string" where
  "trim_newlines s = rev (dropWhile (\<lambda>c. c = CHR 0x0A) (rev s))"

definition realProbeTmuxPane :: "(string \<Rightarrow> string option) \<Rightarrow> string \<Rightarrow> evidence option" where
  "realProbeTmuxPane display paneID =
     (if paneID = [] then None
      else (case display paneID of
          None \<Rightarrow> None
        | Some out \<Rightarrow> (case Split (CHR 0x09) (trim_newlines out) of
              [session, window, name, path, pid, panes] \<Rightarrow>
                if session = [] \<or> window = [] \<or> name = [] \<or> pid = [] then None
                else (case Atoi panes of
                    None \<Rightarrow> None
                  | Some n \<Rightarrow> if n < 1 then None
                      else Some \<lparr>tePaneID = paneID, teSessionName = session, teWindowID = window, teWindowPanes = n,
                             teTmuxSession = session @ '':'' @ name, teCurrentPath = path, tePanePID = pid\<rparr>)
            | _ \<Rightarrow> None)))"

fun role_string :: "PeerRole \<Rightarrow> string" where
  "role_string RoleAgent = ''agent''"
| "role_string RoleService = ''service''"
| "role_string RoleOrchestrator = ''orchestrator''"
| "role_string RoleHuman = ''human''"

section \<open>Records\<close>

record ownership_record =
  orPaneID :: string
  orPath :: string
  orBackend :: string
  orCircle :: string
  orRole :: string
  orDisplayName :: string
  orTmuxSession :: string
  orMachine :: string
  orPeerID :: "string option"
  orCreatedAt :: gotime

record ownership =
  owRecords :: "(string, ownership_record) gomap"
  owMachine :: string
  owSpawned :: "string list"

definition loadLocked :: "(string, ownership_record) gomap \<Rightarrow> (string, ownership_record) gomap" where
  "loadLocked file = filter (\<lambda>(k, r). orPaneID r = k) file"

definition NewFileOwnership :: "string \<Rightarrow> (string, ownership_record) gomap \<Rightarrow> ownership" where
  "NewFileOwnership machine file = \<lparr>owRecords = loadLocked file, owMachine = machine, owSpawned = []\<rparr>"

definition MarkSpawned :: "string \<Rightarrow> ownership \<Rightarrow> ownership" where
  "MarkSpawned pane ow = (if pane = [] then ow else ow\<lparr>owSpawned := pane # owSpawned ow\<rparr>)"

definition IsSpawned :: "string \<Rightarrow> ownership \<Rightarrow> bool" where
  "IsSpawned pane ow \<longleftrightarrow> pane \<noteq> [] \<and> pane \<in> set (owSpawned ow)"

definition Record :: "host \<Rightarrow> gotime \<Rightarrow> ownership_record \<Rightarrow> ownership \<Rightarrow> ownership" where
  "Record h now r ow =
     (if orPaneID r = [] then ow
      else (let r1 = r\<lparr>orPath := norm_path h (orPath r),
                   orCreatedAt := (if orCreatedAt r = 0 then now else orCreatedAt r),
                   orMachine := (if orMachine r = [] then owMachine ow else orMachine r)\<rparr>
            in ow\<lparr>owRecords := gm_put (orPaneID r) r1 (owRecords ow)\<rparr>))"

definition Forget :: "string \<Rightarrow> ownership \<Rightarrow> ownership" where
  "Forget pane ow =
     (if pane = [] then ow
      else ow\<lparr>owSpawned := filter (\<lambda>p. p \<noteq> pane) (owSpawned ow), owRecords := gm_del pane (owRecords ow)\<rparr>)"

definition UpdatePlacement :: "string \<Rightarrow> string \<Rightarrow> string \<Rightarrow> ownership \<Rightarrow> ownership" where
  "UpdatePlacement pane tmuxSession circle ow =
     (if pane = [] \<or> tmuxSession = [] then ow
      else (case gm_get (owRecords ow) pane of
          None \<Rightarrow> ow
        | Some r \<Rightarrow>
            if orTmuxSession r = tmuxSession \<and> (circle = [] \<or> orCircle r = circle) then ow
            else ow\<lparr>owRecords := gm_put pane (r\<lparr>orTmuxSession := tmuxSession,
                   orCircle := (if circle = [] then orCircle r else circle)\<rparr>) (owRecords ow)\<rparr>))"

section \<open>Validation\<close>

record validation =
  vOK :: bool
  vRecord :: "ownership_record option"
  vEvidence :: "evidence option"
  vError :: string
  vHint :: string

definition proved :: "ownership_record option \<Rightarrow> evidence \<Rightarrow> validation" where
  "proved r ev = \<lparr>vOK = True, vRecord = r, vEvidence = Some ev, vError = [], vHint = []\<rparr>"

definition refused :: "ownership_record option \<Rightarrow> evidence option \<Rightarrow> string \<Rightarrow> string \<Rightarrow> validation" where
  "refused r ev err hint = \<lparr>vOK = False, vRecord = r, vEvidence = ev, vError = err, vHint = hint\<rparr>"

definition evidence_matches :: "host \<Rightarrow> ownership_record \<Rightarrow> evidence \<Rightarrow> bool" where
  "evidence_matches h r ev \<longleftrightarrow> teTmuxSession ev = orTmuxSession r \<and> norm_path h (teCurrentPath ev) = norm_path h (orPath r)"

definition recordMatchesIdentity :: "host \<Rightarrow> ownership_record \<Rightarrow> peer \<Rightarrow> bool" where
  "recordMatchesIdentity h r p \<longleftrightarrow> orBackend r = Backend p \<and> orCircle r = Circle p \<and> orRole r = role_string (Role p) \<and>
     norm_path h (orPath r) = norm_path h (Path p)"

definition foreign_machine :: "ownership \<Rightarrow> ownership_record \<Rightarrow> bool" where
  "foreign_machine ow r \<longleftrightarrow> orMachine r \<noteq> [] \<and> orMachine r \<noteq> owMachine ow"

definition foreign_peer :: "peer \<Rightarrow> ownership_record \<Rightarrow> bool" where
  "foreign_peer p r \<longleftrightarrow> (case orPeerID r of None \<Rightarrow> False | Some i \<Rightarrow> i \<noteq> PeerID p)"

definition tmuxSessionName :: "string \<Rightarrow> string" where
  "tmuxSessionName target = fst (Cut (CHR '':'') target)"

definition ValidateBootstrap :: "host \<Rightarrow> (string \<Rightarrow> evidence option) \<Rightarrow> string \<Rightarrow> ownership \<Rightarrow> validation \<times> ownership" where
  "ValidateBootstrap h probe pane ow =
     (if pane = [] then (refused None None ''missing_ownership'' ''Pane-backed registration requires a pane id.'', ow)
      else (case probe pane of
          None \<Rightarrow> (refused None None ''pane_not_live'' ''The pane is not visible in tmux.'', ow)
        | Some ev \<Rightarrow> (case gm_get (owRecords ow) pane of
              None \<Rightarrow> (proved None ev, ow)
            | Some r \<Rightarrow>
                if tmuxSessionName (orTmuxSession r) \<noteq> [] \<and> teSessionName ev \<noteq> [] \<and>
                   tmuxSessionName (orTmuxSession r) \<noteq> teSessionName ev
                then (proved None ev, Forget pane ow)
                else if foreign_machine ow r
                then (refused (Some r) (Some ev) ''ownership_machine_mismatch'' ''Ownership proof was written on a different host.'', ow)
                else if \<not> evidence_matches h r ev
                then (refused (Some r) (Some ev) ''pane_identity_mismatch'' ''Live tmux pane evidence does not match the ownership proof.'', ow)
                else (proved (Some r) ev, ow))))"

definition pane_of :: "peer \<Rightarrow> string" where
  "pane_of p = (case PaneID p of Some i \<Rightarrow> i | None \<Rightarrow> [])"

definition validateDirect :: "host \<Rightarrow> (string \<Rightarrow> evidence option) \<Rightarrow> peer \<Rightarrow> ownership \<Rightarrow> validation" where
  "validateDirect h probe p ow =
     (if pane_of p = [] then refused None None ''missing_ownership'' ''Peer has no pane id, so Repowire cannot prove a pane to kill.''
      else (case gm_get (owRecords ow) (pane_of p) of
          None \<Rightarrow> refused None None ''missing_ownership'' ''No durable Repowire spawn ownership proof exists for this pane.''
        | Some r \<Rightarrow>
            if foreign_machine ow r
            then refused (Some r) None ''ownership_machine_mismatch'' ''Ownership proof was written on a different host.''
            else if foreign_peer p r
            then refused (Some r) None ''ownership_peer_mismatch'' ''Ownership proof belongs to a different peer id.''
            else if \<not> recordMatchesIdentity h r p
            then refused (Some r) None ''ownership_identity_mismatch'' ''Ownership proof no longer matches the peer backend/path/circle/role.''
            else (case probe (pane_of p) of
                None \<Rightarrow> refused (Some r) None ''pane_not_live'' ''The recorded pane is not visible in tmux; refusing to use stale proof.''
              | Some ev \<Rightarrow>
                  if \<not> evidence_matches h r ev
                  then refused (Some r) (Some ev) ''pane_identity_mismatch'' ''Live tmux pane evidence does not match the ownership proof.''
                  else proved (Some r) ev)))"

text \<open>The records that name no other peer and fit the peer's identity, and what tmux says of each.\<close>

definition identity_records :: "host \<Rightarrow> peer \<Rightarrow> ownership \<Rightarrow> ownership_record list" where
  "identity_records h p ow =
     filter (\<lambda>r. \<not> foreign_machine ow r \<and> \<not> foreign_peer p r \<and> recordMatchesIdentity h r p) (map snd (owRecords ow))"

definition live_match :: "host \<Rightarrow> (string \<Rightarrow> evidence option) \<Rightarrow> ownership_record \<Rightarrow> validation option" where
  "live_match h probe r = (case probe (orPaneID r) of
       None \<Rightarrow> None
     | Some ev \<Rightarrow> if evidence_matches h r ev then Some (proved (Some r) ev) else None)"

definition findForPeer :: "host \<Rightarrow> (string \<Rightarrow> evidence option) \<Rightarrow> peer \<Rightarrow> ownership \<Rightarrow> validation" where
  "findForPeer h probe p ow =
     (let cands = identity_records h p ow;
          matches = List.map_filter (live_match h probe) cands;
          sawDead = list_ex (\<lambda>r. probe (orPaneID r) = None) cands;
          sawMismatch = list_ex (\<lambda>r. probe (orPaneID r) \<noteq> None \<and> live_match h probe r = None) cands
      in case matches of
           [v] \<Rightarrow> v
         | v # w # vs \<Rightarrow> refused None None ''ambiguous_ownership''
             ''Multiple durable Repowire spawn ownership proofs match this peer identity; refusing to guess which pane to kill.''
         | [] \<Rightarrow>
             if sawDead then refused None None ''pane_not_live'' ''The recorded pane is not visible in tmux; refusing to use stale proof.''
             else if sawMismatch then refused None None ''pane_identity_mismatch'' ''Live tmux pane evidence does not match the ownership proof.''
             else if cands \<noteq> [] then refused None None ''missing_ownership'' ''No live durable Repowire spawn ownership proof matches this peer.''
             else refused None None ''missing_ownership'' ''No durable Repowire spawn ownership proof exists for this peer identity.'')"

definition BackfillPeerID :: "peer \<Rightarrow> validation \<Rightarrow> ownership \<Rightarrow> ownership" where
  "BackfillPeerID p v ow =
     (case vRecord v of
        None \<Rightarrow> ow
      | Some vr \<Rightarrow>
          if PeerID p = [] \<or> \<not> vOK v \<or> orPeerID vr \<noteq> None then ow
          else (case gm_get (owRecords ow) (orPaneID vr) of
              None \<Rightarrow> ow
            | Some r \<Rightarrow>
                if orPeerID r \<noteq> None then ow
                else ow\<lparr>owRecords := gm_put (orPaneID vr) (r\<lparr>orPeerID := Some (PeerID p)\<rparr>) (owRecords ow)\<rparr>))"

definition ValidateForPeer :: "host \<Rightarrow> (string \<Rightarrow> evidence option) \<Rightarrow> peer \<Rightarrow> ownership \<Rightarrow> validation \<times> ownership" where
  "ValidateForPeer h probe p ow =
     (let direct = validateDirect h probe p ow
      in if pane_of p \<noteq> [] \<and> vOK direct then (direct, ow)
         else (let adopted = findForPeer h probe p ow;
                   ow1 = (if vOK adopted then BackfillPeerID p adopted ow else ow)
               in if vOK adopted \<or> pane_of p = [] \<or> vError adopted = ''ambiguous_ownership'' then (adopted, ow1)
                  else (direct, ow1)))"

definition PruneDead :: "(string \<Rightarrow> evidence option) \<Rightarrow> ownership \<Rightarrow> nat \<times> ownership" where
  "PruneDead probe ow =
     (let dead = map fst (filter (\<lambda>(k, r). probe (orPaneID r) = None) (owRecords ow))
      in (length dead, ow\<lparr>owRecords := gm_dels dead (owRecords ow)\<rparr>))"

section \<open>What a proof proves\<close>

definition own_ok :: "ownership \<Rightarrow> bool" where
  "own_ok ow \<longleftrightarrow> gm_ok (owRecords ow) \<and> (\<forall>k r. gm_get (owRecords ow) k = Some r \<longrightarrow> orPaneID r = k)"

lemma own_ok_new: "gm_ok file \<Longrightarrow> own_ok (NewFileOwnership machine file)"
  by (auto simp: own_ok_def NewFileOwnership_def loadLocked_def gm_ok_def gm_get_def distinct_map_filter dest!: map_of_SomeD)

lemma own_ok_steps:
  assumes "own_ok ow"
  shows "own_ok (MarkSpawned pane ow)" "own_ok (Record h now r ow)" "own_ok (Forget pane ow)"
    "own_ok (UpdatePlacement pane s c ow)" "own_ok (BackfillPeerID p v ow)" "own_ok (snd (PruneDead probe ow))"
  using assms unfolding own_ok_def
  by (auto simp: MarkSpawned_def Record_def Forget_def UpdatePlacement_def BackfillPeerID_def PruneDead_def Let_def
      split: option.splits)

lemma backfill_keeps [simp]: "owSpawned (BackfillPeerID p v ow) = owSpawned ow" "owMachine (BackfillPeerID p v ow) = owMachine ow"
  by (simp_all add: BackfillPeerID_def split: option.split)

lemma validate_keeps:
  assumes "ValidateForPeer h probe p ow = (v, ow')"
  shows "owSpawned ow' = owSpawned ow" "owMachine ow' = owMachine ow"
  using assms by (auto simp: ValidateForPeer_def Let_def split: if_splits)

text \<open>The claim a validation makes when it succeeds.\<close>

definition proof_holds :: "host \<Rightarrow> (string \<Rightarrow> evidence option) \<Rightarrow> peer \<Rightarrow> ownership \<Rightarrow> ownership_record \<Rightarrow> bool" where
  "proof_holds h probe p ow r \<longleftrightarrow> gm_get (owRecords ow) (orPaneID r) = Some r \<and> \<not> foreign_machine ow r \<and> \<not> foreign_peer p r \<and>
     recordMatchesIdentity h r p \<and> (\<exists>ev. probe (orPaneID r) = Some ev \<and> evidence_matches h r ev)"

lemma direct_proof:
  assumes "own_ok ow" "vOK (validateDirect h probe p ow)"
  shows "\<exists>r ev. validateDirect h probe p ow = proved (Some r) ev \<and> orPaneID r = pane_of p \<and> proof_holds h probe p ow r"
  using assms by (auto simp: validateDirect_def proof_holds_def own_ok_def refused_def split: if_splits option.splits)

lemma live_match_Some: "live_match h probe r = Some v \<longleftrightarrow> (\<exists>ev. probe (orPaneID r) = Some ev \<and> evidence_matches h r ev \<and> v = proved (Some r) ev)"
  by (auto simp: live_match_def split: option.splits)

lemma identity_record_holds:
  assumes "own_ok ow" "r \<in> set (identity_records h p ow)" "live_match h probe r \<noteq> None"
  shows "proof_holds h probe p ow r"
proof -
  obtain k where "(k, r) \<in> set (owRecords ow)" using assms(2) by (auto simp: identity_records_def)
  then have "gm_get (owRecords ow) k = Some r" using assms(1) by (simp add: own_ok_def gm_ok_def gm_get_def)
  then have "gm_get (owRecords ow) (orPaneID r) = Some r" using assms(1) by (auto simp: own_ok_def)
  then show ?thesis using assms(2,3) by (auto simp: proof_holds_def identity_records_def live_match_Some)
qed

lemma found_proof:
  assumes "own_ok ow" "vOK (findForPeer h probe p ow)"
  shows "\<exists>r ev. findForPeer h probe p ow = proved (Some r) ev \<and> proof_holds h probe p ow r \<and>
     (\<forall>r'. proof_holds h probe p ow r' \<longrightarrow> r' = r)"
proof -
  let ?ms = "List.map_filter (live_match h probe) (identity_records h p ow)"
  obtain v where v: "?ms = [v]" "findForPeer h probe p ow = v"
    using assms(2) by (auto simp: findForPeer_def Let_def refused_def split: list.splits if_splits)
  then have "v \<in> set ?ms" by simp
  then obtain r where r: "r \<in> set (identity_records h p ow)" "live_match h probe r = Some v"
    by (auto simp: List.map_filter_def)
  then obtain ev where ev: "v = proved (Some r) ev" by (auto simp: live_match_Some)
  have "r' = r" if "proof_holds h probe p ow r'" for r'
  proof -
    have "(orPaneID r', r') \<in> set (owRecords ow)" using that by (auto simp: proof_holds_def gm_get_def dest: map_of_SomeD)
    then have "r' \<in> set (identity_records h p ow)" using that by (force simp: identity_records_def proof_holds_def)
    moreover have "\<exists>w. live_match h probe r' = Some w \<and> vRecord w = Some r'"
      using that by (auto simp: proof_holds_def live_match_def proved_def)
    then obtain w where w: "live_match h probe r' = Some w" "vRecord w = Some r'" by blast
    ultimately have "w \<in> set ?ms" by (force simp: List.map_filter_def)
    then show ?thesis using v(1) ev w(2) by (simp add: proved_def)
  qed
  with v(2) ev identity_record_holds [OF assms(1) r(1)] r(2) show ?thesis by auto
qed

lemma validate_ok:
  assumes "own_ok ow" "ValidateForPeer h probe p ow = (v, ow')" "vOK v"
  shows "\<exists>r ev. v = proved (Some r) ev \<and> proof_holds h probe p ow r"
proof -
  consider "v = validateDirect h probe p ow" | "v = findForPeer h probe p ow"
    using assms(2) by (auto simp: ValidateForPeer_def Let_def split: if_splits)
  then show ?thesis using direct_proof [OF assms(1)] found_proof [OF assms(1)] assms(3) by cases blast+
qed

text \<open>
  C14: what authorises killing a pane. When \<open>ValidateForPeer\<close> accepts, it names a record that is in the
  file, written on this machine, claimed by no other peer, whose backend, circle, role and path are
  the peer's, and whose pane is live in tmux at the recorded window and path. It is the record of the
  peer's own pane, or else the only record of the file for which all this holds. Afterwards no record
  but that one has changed, and that one at most by being claimed for the peer.
\<close>

theorem ownership_proof_sound:
  assumes "own_ok ow" "ValidateForPeer h probe p ow = (v, ow')" "vOK v"
  shows "\<exists>r ev. v = proved (Some r) ev \<and> proof_holds h probe p ow r \<and>
     (orPaneID r = pane_of p \<or> (\<forall>r'. proof_holds h probe p ow r' \<longrightarrow> r' = r)) \<and>
     own_ok ow' \<and> owSpawned ow' = owSpawned ow \<and>
     (\<forall>k. gm_get (owRecords ow') k = gm_get (owRecords ow) k \<or>
        k = orPaneID r \<and> gm_get (owRecords ow') k = Some (r\<lparr>orPeerID := Some (PeerID p)\<rparr>))"
proof (cases "pane_of p \<noteq> [] \<and> vOK (validateDirect h probe p ow)")
  case True
  then have "v = validateDirect h probe p ow" "ow' = ow" using assms(2) by (auto simp: ValidateForPeer_def Let_def)
  with direct_proof [OF assms(1)] True assms(1) show ?thesis by blast
next
  case False
  then have v: "v = findForPeer h probe p ow" "ow' = BackfillPeerID p v ow"
    using assms(2,3) by (auto simp: ValidateForPeer_def Let_def split: if_splits)
  obtain r ev where r: "v = proved (Some r) ev" "proof_holds h probe p ow r" "\<forall>r'. proof_holds h probe p ow r' \<longrightarrow> r' = r"
    using found_proof [OF assms(1)] assms(3) v(1) by blast
  have "gm_get (owRecords ow) (orPaneID r) = Some r" using r(2) by (simp add: proof_holds_def)
  then have "\<forall>k. gm_get (owRecords ow') k = gm_get (owRecords ow) k \<or>
        k = orPaneID r \<and> gm_get (owRecords ow') k = Some (r\<lparr>orPeerID := Some (PeerID p)\<rparr>)" "owSpawned ow' = owSpawned ow"
    using v(2) r(1) by (auto simp: BackfillPeerID_def proved_def)
  with r own_ok_steps(5) [OF assms(1)] v(2) show ?thesis by blast
qed

section \<open>A concrete input\<close>

definition demo_host :: host where
  "demo_host = \<lparr>hsHome = Some ''/h'', hsJoin = (\<lambda>a b. a @ ''/'' @ b),
     hsEvalSymlinks = (\<lambda>p. if p = ''/l'' then Some ''/w/a'' else Some p), hsAbs = Some, hsExists = (\<lambda>p. True),
     hsExecutable = (\<lambda>p. p = ''/bin/codex''), hsEnvPath = ''/bin'', hsHintKey = id\<rparr>"

definition owner_peer :: "string \<Rightarrow> string option \<Rightarrow> peer" where
  "owner_peer i pane = \<lparr>PeerID = i, DisplayName = ''a'', Path = ''/w/a'', Machine = ''m'', TmuxSession = None, PaneID = pane,
     Backend = ''codex'', Model = None, Circle = ''s'', Role = RoleAgent, Status = StatusOnline, TurnState = TurnUnknown,
     LastSeen = None, Metadata = [], Description = [], AgentPID = None\<rparr>"

definition demo_record :: ownership_record where
  "demo_record = \<lparr>orPaneID = ''%1'', orPath = ''/w/a'', orBackend = ''codex'', orCircle = ''s'', orRole = ''agent'',
     orDisplayName = ''a'', orTmuxSession = ''s:a'', orMachine = ''m'', orPeerID = None, orCreatedAt = 1\<rparr>"

definition demo_probe :: "string \<Rightarrow> evidence option" where
  "demo_probe pane = (if pane = ''%1'' \<or> pane = ''%2'' then Some \<lparr>tePaneID = pane, teSessionName = ''s'', teWindowID = ''@1'', teWindowPanes = 1,
     teTmuxSession = (if pane = ''%1'' then ''s:a'' else ''s:b''), teCurrentPath = ''/w/a'', tePanePID = ''1''\<rparr> else None)"

definition demo_owned :: ownership where
  "demo_owned = \<lparr>owRecords = [(''%1'', demo_record)], owMachine = ''m'', owSpawned = []\<rparr>"

lemmas demo_ownership_defs = demo_host_def owner_peer_def demo_record_def demo_probe_def demo_owned_def

lemma demo_validate:
  "ValidateForPeer demo_host demo_probe (owner_peer ''p2'' (Some ''%2'')) demo_owned =
     (proved (Some demo_record) (the (demo_probe ''%1'')),
      demo_owned\<lparr>owRecords := [(''%1'', demo_record\<lparr>orPeerID := Some ''p2''\<rparr>)]\<rparr>)"
  by (simp add: ValidateForPeer_def validateDirect_def findForPeer_def identity_records_def live_match_def BackfillPeerID_def
      foreign_machine_def foreign_peer_def recordMatchesIdentity_def evidence_matches_def pane_of_def norm_path_def expand_home_def
      List.map_filter_def gm_get_def gm_put_def refused_def proved_def demo_ownership_defs)

lemma ownership_proof_sound_witness:
  "\<exists>ow'. ValidateForPeer demo_host demo_probe (owner_peer ''p2'' (Some ''%2'')) demo_owned = (proved (Some demo_record) (the (demo_probe ''%1'')), ow') \<and>
     own_ok ow' \<and> proof_holds demo_host demo_probe (owner_peer ''p2'' (Some ''%2'')) demo_owned demo_record"
proof -
  have ok: "own_ok demo_owned" by (simp add: own_ok_def gm_ok_def gm_get_def demo_owned_def demo_record_def)
  from ownership_proof_sound [OF ok demo_validate] demo_validate show ?thesis by (auto simp: proved_def)
qed

end
