(* ===== verification/Spawn_Service.thy ===== *)
theory Spawn_Service
  imports Shell_Command Pane_Ownership Go_Time
begin

text \<open>
  Starting an agent in a tmux pane, \<open>daemon-go/service/spawn_service.go\<close>, and the queue of spawn hints
  with its reader \<open>ConsumeSpawnHint\<close> of \<open>hooks/common.go\<close>. tmux is a function from the arguments of one
  command and its state to the outcome and the state after, so a claim holds for whatever tmux does.
  An error is a constructor with the values its text is made of; \<open>spawn_status\<close> is the HTTP status. The
  hint files are the map \<open>hint_store\<close> from the file key; a write that fails is not modelled. \<open>sha256\<close> is
  the parameter \<open>hsHintKey\<close>.
\<close>

section \<open>Data\<close>

record spawn_config =
  scPath :: string
  scCircle :: string
  scBoundary :: CircleBoundary
  scTargetPane :: string
  scBackend :: string
  scCommand :: string
  scMessage :: "string option"
  scRole :: "PeerRole option"
  scPeerID :: "string option"
  scEnv :: "(string, string) gomap"

record spawn_result =
  srDisplayName :: string
  srTmuxSession :: string
  srPaneID :: string
  srCircle :: string
  srMessage :: "string option"

datatype tmux_error =
    ErrSplitWindow "string option"
  | ErrResolveWindow string "string option"
  | ErrNewSession string
  | ErrNewWindow string
  | ErrResolvePane string "string option"
  | ErrRespawn string string

datatype spawn_error =
    SpawnDisabled
  | PathMissing string
  | PathNotAllowed string
  | ReloadFailed string
  | NoCommandFor string
  | NoProfile string string
  | UnmatchedQuotes
  | EmptyCommand
  | NotExecutable string
  | NoTmux
  | BadWindowCircle
  | TargetNotLive
  | TargetInvalid
  | TargetContradicts
  | LastPane
  | CircleRequired
  | TmuxFailed tmux_error

fun spawn_status :: "spawn_error \<Rightarrow> nat" where
  "spawn_status SpawnDisabled = 403"
| "spawn_status (PathMissing p) = 404"
| "spawn_status (PathNotAllowed p) = 403"
| "spawn_status (ReloadFailed e) = 500"
| "spawn_status (NoCommandFor b) = 422"
| "spawn_status (NoProfile b p) = 422"
| "spawn_status UnmatchedQuotes = 422"
| "spawn_status EmptyCommand = 422"
| "spawn_status (NotExecutable c) = 422"
| "spawn_status NoTmux = 503"
| "spawn_status BadWindowCircle = 422"
| "spawn_status TargetNotLive = 409"
| "spawn_status TargetInvalid = 409"
| "spawn_status TargetContradicts = 409"
| "spawn_status LastPane = 409"
| "spawn_status CircleRequired = 422"
| "spawn_status (TmuxFailed e) = 500"

text \<open>The \<open>TmuxController\<close> interface over a state \<open>'t\<close>.\<close>

record 't controller =
  tcSpawn :: "spawn_config \<Rightarrow> 't \<Rightarrow> (tmux_error + spawn_result) \<times> 't"
  tcKillPane :: "string \<Rightarrow> 't \<Rightarrow> bool \<times> 't"
  tcProbePane :: "'t \<Rightarrow> string \<Rightarrow> evidence option"

text \<open>\<open>ssLoaded\<close> is what the command loader returns at the request, None when there is none.\<close>

record spawn_service =
  ssBoundary :: CircleBoundary
  ssCommands :: "(string, string) gomap"
  ssLoaded :: "(string + (string, string) gomap) option"
  ssAllowedPaths :: "string list"
  ssProfiles :: "(string, (string, string list) gomap) gomap"
  ssEnv :: "(string, string) gomap"

section \<open>Validation\<close>

definition currentCommands :: "spawn_service \<Rightarrow> string + (string, string) gomap" where
  "currentCommands s = (case ssLoaded s of None \<Rightarrow> Inr (ssCommands s) | Some loaded \<Rightarrow> loaded)"

definition Enabled :: "spawn_service \<Rightarrow> bool" where
  "Enabled s \<longleftrightarrow> (case currentCommands s of Inl e \<Rightarrow> False | Inr commands \<Rightarrow> commands \<noteq> []) \<and> ssAllowedPaths s \<noteq> []"

definition Commands :: "spawn_service \<Rightarrow> (string, string) gomap" where
  "Commands s = (case currentCommands s of Inl e \<Rightarrow> ssCommands s | Inr commands \<Rightarrow> commands)"

definition has_prefix :: "string \<Rightarrow> string \<Rightarrow> bool" where
  "has_prefix s p \<longleftrightarrow> take (length p) s = p"

definition under_root :: "host \<Rightarrow> string \<Rightarrow> string \<Rightarrow> bool" where
  "under_root h resolved root \<longleftrightarrow> resolved = norm_path h root \<or> has_prefix resolved (norm_path h root @ ''/'')"

definition ValidatePath :: "host \<Rightarrow> spawn_service \<Rightarrow> string \<Rightarrow> spawn_error + string" where
  "ValidatePath h s path =
     (if \<not> Enabled s then Inl SpawnDisabled
      else if \<not> hsExists h (norm_path h path) then Inl (PathMissing path)
      else if list_ex (under_root h (norm_path h path)) (ssAllowedPaths s) then Inr (norm_path h path)
      else Inl (PathNotAllowed path))"

definition SplitList :: "string \<Rightarrow> string list" where
  "SplitList v = (if v = [] then [] else Split (CHR '':'') v)"

definition commandExists :: "host \<Rightarrow> string \<Rightarrow> string \<Rightarrow> bool" where
  "commandExists h command pathValue =
     (if CHR ''/'' \<in> set command then hsExecutable h command
      else list_ex (\<lambda>dir. hsExecutable h (hsJoin h (if dir = [] then ''.'' else dir) command)) (SplitList pathValue))"

definition zero_or :: "string option \<Rightarrow> string" where
  "zero_or v = (case v of Some s \<Rightarrow> s | None \<Rightarrow> [])"

definition validateCommandHead :: "host \<Rightarrow> spawn_service \<Rightarrow> string \<Rightarrow> spawn_error option" where
  "validateCommandHead h s command = (case head_loop command of
       None \<Rightarrow> Some UnmatchedQuotes
     | Some [] \<Rightarrow> Some EmptyCommand
     | Some (c # cs) \<Rightarrow>
         (let configured = zero_or (gm_get (ssEnv s) ''PATH'');
              pathValue = (if configured = [] then hsEnvPath h else configured)
          in if commandExists h (c # cs) pathValue then None else Some (NotExecutable (c # cs))))"

definition ResolveCommand :: "host \<Rightarrow> spawn_service \<Rightarrow> string \<Rightarrow> string option \<Rightarrow> spawn_error + string" where
  "ResolveCommand h s b profile = (case currentCommands s of
       Inl e \<Rightarrow> Inl (ReloadFailed e)
     | Inr commands \<Rightarrow>
         (let command = zero_or (gm_get commands b)
          in if command = [] then Inl (NoCommandFor b)
             else (case (if zero_or profile = [] then Some command
                         else (case gm_get (case gm_get (ssProfiles s) b of Some ps \<Rightarrow> ps | None \<Rightarrow> []) (zero_or profile) of
                                 None \<Rightarrow> None
                               | Some args \<Rightarrow> Some (with_args command args))) of
                 None \<Rightarrow> Inl (NoProfile b (zero_or profile))
               | Some line \<Rightarrow> (case validateCommandHead h s line of Some err \<Rightarrow> Inl err | None \<Rightarrow> Inr line))))"

section \<open>Placement\<close>

definition TrimWindowPrefix :: "string \<Rightarrow> string" where
  "TrimWindowPrefix s = (if has_prefix s ''window-'' then drop 7 s else s)"

definition window_target :: "spawn_config \<Rightarrow> spawn_error + string" where
  "window_target cfg =
     (if scTargetPane cfg \<noteq> [] then Inr (scTargetPane cfg)
      else (let i = TrimWindowPrefix (scCircle cfg)
            in if i = [] \<or> TrimCutset is_digit i \<noteq> [] then Inl BadWindowCircle else Inr (''@'' @ i)))"

definition prepareSpawn :: "'t controller option \<Rightarrow> 't \<Rightarrow> spawn_service \<Rightarrow> spawn_config \<Rightarrow> bool \<Rightarrow> spawn_error + spawn_config" where
  "prepareSpawn tc t s cfg0 replacement =
     (let cfg = cfg0\<lparr>scBoundary := ssBoundary s\<rparr>
      in if scBoundary cfg \<noteq> CircleBoundaryWindow then Inr cfg
         else (case tc of
             None \<Rightarrow> Inl NoTmux
           | Some c \<Rightarrow> (case window_target cfg of
               Inl err \<Rightarrow> Inl err
             | Inr target \<Rightarrow> (case tcProbePane c t target of
                 None \<Rightarrow> Inl TargetNotLive
               | Some ev \<Rightarrow>
                   (let circle = TmuxCircle CircleBoundaryWindow (teSessionName ev) (teWindowID ev)
                    in if circle = [] then Inl TargetInvalid
                       else if scCircle cfg \<noteq> [] \<and> circle \<noteq> scCircle cfg then Inl TargetContradicts
                       else if replacement \<and> teWindowPanes ev < 2 then Inl LastPane
                       else Inr (cfg\<lparr>scCircle := circle, scTargetPane := teWindowID ev\<rparr>))))))"

definition PrepareSpawn :: "'t controller option \<Rightarrow> 't \<Rightarrow> spawn_service \<Rightarrow> spawn_config \<Rightarrow> spawn_error + spawn_config" where
  "PrepareSpawn tc t s cfg = prepareSpawn tc t s cfg False"

definition PrepareReplacement :: "'t controller option \<Rightarrow> 't \<Rightarrow> spawn_service \<Rightarrow> spawn_config \<Rightarrow> spawn_error + spawn_config" where
  "PrepareReplacement tc t s cfg = prepareSpawn tc t s cfg True"

section \<open>Spawn\<close>

definition merge_env :: "(string, string) gomap \<Rightarrow> (string, string) gomap \<Rightarrow> (string, string) gomap" where
  "merge_env service own = fold (\<lambda>(k, v) env. if gm_has env k then env else gm_put k v env) service own"

definition spawn_checked :: "host \<Rightarrow> 't controller \<Rightarrow> 't \<Rightarrow> spawn_service \<Rightarrow> spawn_config \<Rightarrow> spawn_error + spawn_config" where
  "spawn_checked h tc t s cfg0 = (case PrepareSpawn (Some tc) t s cfg0 of
       Inl err \<Rightarrow> Inl err
     | Inr cfg \<Rightarrow> (case ValidatePath h s (scPath cfg) of
         Inl err \<Rightarrow> Inl err
       | Inr path \<Rightarrow> (case (if scCommand cfg = [] then ResolveCommand h s (scBackend cfg) None else Inr (scCommand cfg)) of
           Inl err \<Rightarrow> Inl err
         | Inr command \<Rightarrow>
             if scCircle cfg = [] then Inl CircleRequired
             else Inr (cfg\<lparr>scRole := Some (case scRole cfg of Some r \<Rightarrow> r | None \<Rightarrow> RoleAgent), scPath := path,
                           scCommand := command, scEnv := merge_env (ssEnv s) (scEnv cfg)\<rparr>))))"

definition spawn_record :: "spawn_config \<Rightarrow> spawn_result \<Rightarrow> ownership_record" where
  "spawn_record cfg r = \<lparr>orPaneID = srPaneID r, orPath = scPath cfg, orBackend = scBackend cfg, orCircle = scCircle cfg,
     orRole = (case scRole cfg of Some role \<Rightarrow> role_string role | None \<Rightarrow> []), orDisplayName = srDisplayName r,
     orTmuxSession = srTmuxSession r, orMachine = [], orPeerID = scPeerID cfg, orCreatedAt = 0\<rparr>"

definition Spawn :: "host \<Rightarrow> gotime \<Rightarrow> 't controller \<Rightarrow> spawn_service \<Rightarrow> spawn_config \<Rightarrow> ownership \<times> 't \<Rightarrow>
    (spawn_error + spawn_result) \<times> ownership \<times> 't" where
  "Spawn h now tc s cfg0 st =
     (let (ow, t) = st
      in case spawn_checked h tc t s cfg0 of
           Inl err \<Rightarrow> (Inl err, ow, t)
         | Inr cfg \<Rightarrow> (case tcSpawn tc cfg t of
             (Inl err, t') \<Rightarrow> (Inl (TmuxFailed err), ow, t')
           | (Inr r, t') \<Rightarrow>
               (Inr (r\<lparr>srCircle := scCircle cfg\<rparr>),
                (if srPaneID r = [] then ow else Record h now (spawn_record cfg r) (MarkSpawned (srPaneID r) ow)), t')))"

section \<open>Spawn hints\<close>

record hint =
  hiPath :: string
  hiBackend :: string
  hiCircle :: string
  hiTs :: gotime
  hiRole :: "string option"
  hiPeerID :: "string option"
  hiPendingFirstTurn :: bool

type_synonym hint_store = "(string, hint list) gomap"

definition hintPath :: "host \<Rightarrow> string \<Rightarrow> string \<Rightarrow> string" where
  "hintPath h path backend = hsHintKey h (norm_path h path @ ''::'' @ backend)"

definition readHintQueue :: "string \<Rightarrow> hint_store \<Rightarrow> hint list" where
  "readHintQueue target hs = (case gm_get hs target of Some q \<Rightarrow> q | None \<Rightarrow> [])"

definition writeHint :: "host \<Rightarrow> gotime \<Rightarrow> string \<Rightarrow> string \<Rightarrow> string \<Rightarrow> string option \<Rightarrow> string option \<Rightarrow> bool \<Rightarrow> hint_store \<Rightarrow> hint_store" where
  "writeHint h now path backend circle role peerID pending hs =
     (let payload = \<lparr>hiPath = norm_path h path, hiBackend = backend, hiCircle = circle, hiTs = now,
            hiRole = (if zero_or role = [] then None else role), hiPeerID = (if zero_or peerID = [] then None else peerID),
            hiPendingFirstTurn = pending\<rparr>;
          target = hintPath h path backend
      in gm_put target (readHintQueue target hs @ [payload]) hs)"

definition hintTTL :: duration where
  "hintTTL = 300 * second"

definition hint_fresh :: "gotime \<Rightarrow> hint \<Rightarrow> bool" where
  "hint_fresh now i \<longleftrightarrow> hiCircle i \<noteq> [] \<and> now - hiTs i div second * second \<le> hintTTL"

definition abs_path :: "host \<Rightarrow> string \<Rightarrow> string" where
  "abs_path h path = (case hsAbs h path of Some p \<Rightarrow> p | None \<Rightarrow> path)"

definition ConsumeSpawnHint :: "host \<Rightarrow> gotime \<Rightarrow> string \<Rightarrow> string \<Rightarrow> hint_store \<Rightarrow> hint option \<times> hint_store" where
  "ConsumeSpawnHint h now path backend hs =
     (let target = hsHintKey h (abs_path h path @ ''::'' @ backend)
      in case gm_get hs target of
           None \<Rightarrow> (None, hs)
         | Some queue \<Rightarrow> (case filter (hint_fresh now) queue of
               [] \<Rightarrow> (None, gm_del target hs)
             | [i] \<Rightarrow> (Some i, gm_del target hs)
             | i # j # rest \<Rightarrow> (Some i, gm_put target (j # rest) hs)))"

section \<open>The production controller\<close>

record cmd_result =
  cmErr :: "string option"
  cmStdout :: string
  cmCombined :: string

type_synonym 'm tmux = "string list \<Rightarrow> 'm \<Rightarrow> cmd_result \<times> 'm"

definition tmuxRun :: "'m tmux \<Rightarrow> string list \<Rightarrow> 'm \<Rightarrow> string option \<times> 'm" where
  "tmuxRun tm args m = (let (r, m') = tm args m in (cmErr r, m'))"

definition tmuxQuery :: "'m tmux \<Rightarrow> string list \<Rightarrow> 'm \<Rightarrow> (string + string) \<times> 'm" where
  "tmuxQuery tm args m =
     (let (r, m') = tm args m
      in (case cmErr r of Some e \<Rightarrow> Inl e | None \<Rightarrow> Inr (TrimSpace (cmStdout r)), m'))"

text \<open>The test \<open>err != nil || out == ""\<close>; the error of an empty answer is nil.\<close>

definition answered :: "string + string \<Rightarrow> string option + string" where
  "answered q = (case q of Inl e \<Rightarrow> Inl (Some e) | Inr out \<Rightarrow> if out = [] then Inl None else Inr out)"

definition probe_format :: string where
  "probe_format = ''#{session_name}'' @ [CHR 0x09] @ ''#{window_id}'' @ [CHR 0x09] @ ''#{window_name}'' @ [CHR 0x09] @
     ''#{pane_current_path}'' @ [CHR 0x09] @ ''#{pane_pid}'' @ [CHR 0x09] @ ''#{window_panes}''"

definition ProbePane :: "'m tmux \<Rightarrow> 'm \<Rightarrow> string \<Rightarrow> evidence option" where
  "ProbePane tm m = realProbeTmuxPane (\<lambda>pane.
     let r = fst (tm [''display-message'', ''-t'', pane, ''-p'', probe_format] m)
     in case cmErr r of Some e \<Rightarrow> None | None \<Rightarrow> Some (cmStdout r))"

definition KillPane :: "'m tmux \<Rightarrow> string \<Rightarrow> 'm \<Rightarrow> bool \<times> 'm" where
  "KillPane tm pane m =
     (if pane = [] then (False, m)
      else (let (e, m') = tmuxRun tm [''kill-pane'', ''-t'', pane] m in (e = None, m')))"

definition windowSplitArgs :: "string \<Rightarrow> string \<Rightarrow> string list" where
  "windowSplitArgs target path = [''split-window'', ''-P'', ''-F'', ''#{pane_id}'', ''-t'', target, ''-c'', path]"

definition ensureSession :: "'m tmux \<Rightarrow> string \<Rightarrow> string \<Rightarrow> string \<Rightarrow> 'm \<Rightarrow> (tmux_error + bool) \<times> 'm" where
  "ensureSession tm session dir windowName m = (case tmuxRun tm [''has-session'', ''-t'', session] m of
       (None, m1) \<Rightarrow> (Inr False, m1)
     | (Some _, m1) \<Rightarrow> (case tmuxRun tm [''new-session'', ''-d'', ''-s'', session, ''-c'', dir, ''-n'', windowName] m1 of
         (Some e, m2) \<Rightarrow> (Inl (ErrNewSession e), m2)
       | (None, m2) \<Rightarrow> (Inr True, m2)))"

definition candidate :: "string \<Rightarrow> nat \<Rightarrow> string" where
  "candidate base i = base @ ''-'' @ itoa i"

lemma candidate_inject [simp]: "candidate base i = candidate base j \<longleftrightarrow> i = j"
  by (simp add: candidate_def)

function next_free :: "string set \<Rightarrow> string \<Rightarrow> nat \<Rightarrow> string" where
  "next_free existing base i =
     (if finite existing \<and> candidate base i \<in> existing then next_free existing base (Suc i) else candidate base i)"
  by pat_completeness auto
termination
proof (relation "measure (\<lambda>(E, b, i). card {j. i \<le> j \<and> candidate b j \<in> E})", goal_cases)
  case (2 E b i)
  let ?after = "{j. Suc i \<le> j \<and> candidate b j \<in> E}" and ?from = "{j. i \<le> j \<and> candidate b j \<in> E}"
  have "inj_on (candidate b) ?from" by (simp add: inj_on_def)
  moreover have "candidate b ` ?from \<subseteq> E" by auto
  ultimately have "finite ?from" using 2 by (meson finite_imageD finite_subset)
  moreover have "i \<in> ?from" "i \<notin> ?after" using 2 by simp_all
  then have "?after \<subset> ?from" by (intro psubsetI) (auto simp: Suc_le_eq)
  ultimately have "card ?after < card ?from" by (rule psubset_card_mono)
  then show ?case by simp
qed simp

declare next_free.simps [simp del]

definition uniqueWindowName :: "'m tmux \<Rightarrow> string \<Rightarrow> string \<Rightarrow> 'm \<Rightarrow> string \<times> 'm" where
  "uniqueWindowName tm session base m =
     (case tmuxQuery tm [''list-windows'', ''-t'', session, ''-F'', ''#{window_name}''] m of
        (Inl e, m1) \<Rightarrow> (base, m1)
      | (Inr out, m1) \<Rightarrow>
          (let existing = set (filter (\<lambda>n. n \<noteq> []) (Split (CHR 0x0A) (TrimSpace out)))
           in (if base \<notin> existing then base else next_free existing base 2, m1)))"

definition after_slash :: "string \<Rightarrow> string" where
  "after_slash s = rev (takeWhile (\<lambda>c. c \<noteq> CHR ''/'') (rev s))"

text \<open>\<open>filepath.Base\<close>.\<close>

definition Base :: "string \<Rightarrow> string" where
  "Base path = (if path = [] then ''.''
     else (let s = rev (dropWhile (\<lambda>c. c = CHR ''/'') (rev path)) in if s = [] then ''/'' else after_slash s))"

text \<open>The fresh pane: the name shown for the spawn, the tmux target and the pane id.\<close>

definition window_pane :: "'m tmux \<Rightarrow> spawn_config \<Rightarrow> 'm \<Rightarrow> (tmux_error + string \<times> string \<times> string) \<times> 'm" where
  "window_pane tm cfg m =
     (let (q1, m1) = tmuxQuery tm (windowSplitArgs (scTargetPane cfg) (scPath cfg)) m
      in case answered q1 of
           Inl e \<Rightarrow> (Inl (ErrSplitWindow e), m1)
         | Inr pane \<Rightarrow>
             (let (q2, m2) = tmuxQuery tm [''display-message'', ''-t'', pane, ''-p'', ''#{session_name}:#{window_name}''] m1
              in case answered q2 of
                   Inl e \<Rightarrow> (Inl (ErrResolveWindow pane e), m2)
                 | Inr target \<Rightarrow> (Inr (Base (scPath cfg), target, pane), m2)))"

definition session_window :: "'m tmux \<Rightarrow> spawn_config \<Rightarrow> 'm \<Rightarrow> (tmux_error + string) \<times> 'm" where
  "session_window tm cfg m =
     (let name = Base (scPath cfg)
      in case ensureSession tm (scCircle cfg) (scPath cfg) name m of
           (Inl err, m1) \<Rightarrow> (Inl err, m1)
         | (Inr True, m1) \<Rightarrow> (Inr name, m1)
         | (Inr False, m1) \<Rightarrow>
             (let (windowName, m2) = uniqueWindowName tm (scCircle cfg) name m1
              in case tmuxRun tm [''new-window'', ''-t'', scCircle cfg, ''-n'', windowName, ''-c'', scPath cfg] m2 of
                   (Some e, m3) \<Rightarrow> (Inl (ErrNewWindow e), m3)
                 | (None, m3) \<Rightarrow> (Inr windowName, m3)))"

definition session_pane :: "'m tmux \<Rightarrow> spawn_config \<Rightarrow> 'm \<Rightarrow> (tmux_error + string \<times> string \<times> string) \<times> 'm" where
  "session_pane tm cfg m = (case session_window tm cfg m of
       (Inl err, m1) \<Rightarrow> (Inl err, m1)
     | (Inr windowName, m1) \<Rightarrow>
         (let target = scCircle cfg @ '':'' @ windowName;
              (q, m2) = tmuxQuery tm [''display-message'', ''-t'', target, ''-p'', ''#{pane_id}''] m1
          in case answered q of
               Inl e \<Rightarrow> (Inl (ErrResolvePane target e), m2)
             | Inr pane \<Rightarrow> (Inr (windowName, target, pane), m2)))"

definition tmuxStartCommand :: "'m tmux \<Rightarrow> string \<Rightarrow> string \<Rightarrow> 'm \<Rightarrow> tmux_error option \<times> 'm" where
  "tmuxStartCommand tm pane command m =
     (let (r, m') = tm [''respawn-pane'', ''-k'', ''-t'', pane, command] m
      in (case cmErr r of None \<Rightarrow> None | Some e \<Rightarrow> Some (ErrRespawn e (TrimSpace (cmCombined r))), m'))"

definition real_spawn :: "host \<Rightarrow> gotime \<Rightarrow> 'm tmux \<Rightarrow> spawn_config \<Rightarrow> hint_store \<times> 'm \<Rightarrow>
    (tmux_error + spawn_result) \<times> hint_store \<times> 'm" where
  "real_spawn h now tm cfg st =
     (let (hs, m) = st
      in case (if scBoundary cfg = CircleBoundaryWindow then window_pane tm cfg m else session_pane tm cfg m) of
           (Inl err, m1) \<Rightarrow> (Inl err, hs, m1)
         | (Inr (name, target, pane), m1) \<Rightarrow>
             (let hs1 = writeHint h now (scPath cfg) (scBackend cfg) (scCircle cfg) (map_option role_string (scRole cfg))
                          (scPeerID cfg) (scMessage cfg \<noteq> None) hs
              in case tmuxStartCommand tm pane (commandWithEnv (scCommand cfg) (scEnv cfg)) m1 of
                   (Some err, m2) \<Rightarrow> (Inl err, hs1, m2)
                 | (None, m2) \<Rightarrow> (Inr \<lparr>srDisplayName = name, srTmuxSession = target, srPaneID = pane, srCircle = [],
                                      srMessage = scMessage cfg\<rparr>, hs1, m2)))"

definition NewRealTmuxController :: "host \<Rightarrow> gotime \<Rightarrow> 'm tmux \<Rightarrow> (hint_store \<times> 'm) controller" where
  "NewRealTmuxController h now tm =
     \<lparr>tcSpawn = real_spawn h now tm,
      tcKillPane = (\<lambda>pane (hs, m). let (ok, m') = KillPane tm pane m in (ok, hs, m')),
      tcProbePane = (\<lambda>(hs, m). ProbePane tm m)\<rparr>"

section \<open>Window names\<close>

lemma next_free_fresh: "finite existing \<Longrightarrow> next_free existing base i \<notin> existing \<and> (\<exists>j\<ge>i. next_free existing base i = candidate base j)"
proof (induction existing base i rule: next_free.induct)
  case (1 existing base i)
  show ?case
  proof (cases "candidate base i \<in> existing")
    case True
    then have "next_free existing base i = next_free existing base (Suc i)" using 1 by (simp add: next_free.simps [of existing base i])
    with 1 True show ?thesis by (metis Suc_leD)
  qed (use 1 in \<open>auto simp: next_free.simps [of existing base i]\<close>)
qed

text \<open>A new window never takes the name of a window tmux listed.\<close>

lemma window_name_is_new:
  assumes "tmuxQuery tm [''list-windows'', ''-t'', session, ''-F'', ''#{window_name}''] m = (Inr out, m1)" "name \<noteq> []"
    "name \<in> set (Split (CHR 0x0A) (TrimSpace out))"
  shows "fst (uniqueWindowName tm session base m) \<noteq> name"
  using assms next_free_fresh [of "set (filter (\<lambda>n. n \<noteq> []) (Split (CHR 0x0A) (TrimSpace out)))" base 2]
  by (auto simp: uniqueWindowName_def Let_def)

section \<open>What a spawn proves\<close>

text \<open>The target window of a prepared spawn is the one tmux shows, and it is the circle asked for.\<close>

lemma prepared_window:
  assumes "prepareSpawn (Some tc) t s cfg0 replacement = Inr cfg" "ssBoundary s = CircleBoundaryWindow"
  shows "\<exists>target ev. window_target (cfg0\<lparr>scBoundary := ssBoundary s\<rparr>) = Inr target \<and> tcProbePane tc t target = Some ev \<and> scCircle cfg \<noteq> [] \<and>
     scCircle cfg = TmuxCircle CircleBoundaryWindow (teSessionName ev) (teWindowID ev) \<and> (scCircle cfg0 = [] \<or> scCircle cfg = scCircle cfg0) \<and>
     scTargetPane cfg = teWindowID ev \<and> (replacement \<longrightarrow> 2 \<le> teWindowPanes ev)"
proof -
  let ?c = "cfg0\<lparr>scBoundary := ssBoundary s\<rparr>"
  obtain target where target: "window_target ?c = Inr target"
    using assms by (cases "window_target ?c") (simp_all add: prepareSpawn_def Let_def)
  then obtain ev where "tcProbePane tc t target = Some ev"
    using assms by (cases "tcProbePane tc t target") (simp_all add: prepareSpawn_def Let_def)
  with target assms show ?thesis by (auto simp: prepareSpawn_def Let_def split: if_splits)
qed

lemma prepared_same:
  assumes "prepareSpawn tc t s cfg0 replacement = Inr cfg"
  shows "scPath cfg = scPath cfg0 \<and> scBackend cfg = scBackend cfg0 \<and> scPeerID cfg = scPeerID cfg0 \<and> scBoundary cfg = ssBoundary s \<and>
    scCommand cfg = scCommand cfg0 \<and> scRole cfg = scRole cfg0"
  using assms by (auto simp: prepareSpawn_def Let_def split: if_splits option.splits sum.splits)

definition command_ok :: "host \<Rightarrow> spawn_service \<Rightarrow> string \<Rightarrow> bool" where
  "command_ok h s command \<longleftrightarrow> (\<exists>w. head_loop command = Some w \<and> w \<noteq> [] \<and>
     commandExists h w (if zero_or (gm_get (ssEnv s) ''PATH'') = [] then hsEnvPath h else zero_or (gm_get (ssEnv s) ''PATH'')))"

lemma resolved_command:
  assumes "ResolveCommand h s b profile = Inr line"
  shows "command_ok h s line \<and> (\<exists>commands args. currentCommands s = Inr commands \<and> zero_or (gm_get commands b) \<noteq> [] \<and>
     line = with_args (zero_or (gm_get commands b)) args)"
proof -
  obtain commands where c: "currentCommands s = Inr commands" using assms by (auto simp: ResolveCommand_def split: sum.splits)
  have line: "validateCommandHead h s line = None" "zero_or (gm_get commands b) \<noteq> []" "\<exists>args. line = with_args (zero_or (gm_get commands b)) args"
    using assms c by (auto simp: ResolveCommand_def Let_def split: if_splits option.splits intro: exI [of _ "[]"] simp: with_args_def)
  then have "command_ok h s line"
    unfolding command_ok_def validateCommandHead_def by (auto simp: Let_def split: option.splits list.splits if_splits)
  with c line(2,3) show ?thesis by blast
qed

lemma checked_spawn:
  assumes "spawn_checked h tc t s cfg0 = Inr cfg"
  shows "Enabled s \<and> hsExists h (scPath cfg) \<and> scPath cfg = norm_path h (scPath cfg0) \<and> (\<exists>root\<in>set (ssAllowedPaths s). under_root h (scPath cfg) root) \<and>
    scCircle cfg \<noteq> [] \<and> scRole cfg \<noteq> None \<and> scBackend cfg = scBackend cfg0 \<and> scPeerID cfg = scPeerID cfg0 \<and>
    (scCommand cfg0 = [] \<longrightarrow> ResolveCommand h s (scBackend cfg0) None = Inr (scCommand cfg))"
proof -
  obtain c1 where c1: "PrepareSpawn (Some tc) t s cfg0 = Inr c1" using assms by (auto simp: spawn_checked_def split: sum.splits)
  note p = prepared_same [OF c1 [unfolded PrepareSpawn_def]]
  obtain path where path: "ValidatePath h s (scPath c1) = Inr path" using assms c1 by (auto simp: spawn_checked_def split: sum.splits)
  have v: "Enabled s" "path = norm_path h (scPath c1)" "hsExists h path" "\<exists>root\<in>set (ssAllowedPaths s). under_root h path root"
    using path by (auto simp: ValidatePath_def list_ex_iff split: if_splits)
  have "scPath cfg = path" "scCircle cfg \<noteq> []" "scRole cfg \<noteq> None" "scBackend cfg = scBackend c1" "scPeerID cfg = scPeerID c1"
    "scCommand c1 = [] \<longrightarrow> ResolveCommand h s (scBackend c1) None = Inr (scCommand cfg)"
    using assms c1 path by (auto simp: spawn_checked_def split: sum.splits if_splits)
  with p v show ?thesis by auto
qed

text \<open>
  C13: the gate in front of every pane. A spawn that succeeds had spawning enabled, an existing
  directory equal to or under an allowed root, a circle and, when no command was given, the
  configured command of the backend with an executable program at its head; under the window
  boundary the circle is that of a live window. The pane it returns is then marked and recorded with
  that path, backend, circle and peer id, so that the record is the proof a kill needs. A spawn that
  fails leaves the ownership as it was, and one refused by a check does not touch tmux.
\<close>

theorem spawn_is_gated_and_recorded:
  assumes "Spawn h now tc s cfg0 (ow, t) = (res, ow', t')"
  shows "case res of
       Inl err \<Rightarrow> ow' = ow \<and> ((\<exists>e. err = TmuxFailed e) \<or> t' = t)
     | Inr r \<Rightarrow>
         Enabled s \<and> hsExists h (norm_path h (scPath cfg0)) \<and> (\<exists>root\<in>set (ssAllowedPaths s). under_root h (norm_path h (scPath cfg0)) root) \<and>
         srCircle r \<noteq> [] \<and>
         (scCommand cfg0 = [] \<longrightarrow> (\<exists>line. ResolveCommand h s (scBackend cfg0) None = Inr line \<and> command_ok h s line)) \<and>
         (ssBoundary s = CircleBoundaryWindow \<longrightarrow>
            (\<exists>target ev. tcProbePane tc t target = Some ev \<and> srCircle r = TmuxCircle CircleBoundaryWindow (teSessionName ev) (teWindowID ev))) \<and>
         (if srPaneID r = [] then ow' = ow
          else IsSpawned (srPaneID r) ow' \<and>
            (\<exists>rec. gm_get (owRecords ow') (srPaneID r) = Some rec \<and> orPaneID rec = srPaneID r \<and> orBackend rec = scBackend cfg0 \<and>
               orCircle rec = srCircle r \<and> orPath rec = norm_path h (norm_path h (scPath cfg0)) \<and> orMachine rec = owMachine ow \<and>
               orPeerID rec = scPeerID cfg0))"
proof (cases "spawn_checked h tc t s cfg0")
  case (Inl err)
  then show ?thesis using assms by (auto simp: Spawn_def Let_def)
next
  case (Inr cfg)
  note c = checked_spawn [OF Inr]
  have w: "ssBoundary s = CircleBoundaryWindow \<longrightarrow> (\<exists>target ev. tcProbePane tc t target = Some ev \<and>
      scCircle cfg = TmuxCircle CircleBoundaryWindow (teSessionName ev) (teWindowID ev))"
    using Inr prepared_window [of tc t s cfg0 False] by (fastforce simp: spawn_checked_def PrepareSpawn_def split: sum.splits if_splits)
  show ?thesis
  proof (cases "tcSpawn tc cfg t")
    case (Pair out t1)
    show ?thesis
    proof (cases out)
      case (Inl e)
      then show ?thesis using assms Inr Pair by (auto simp: Spawn_def Let_def)
    next
      case out: (Inr r)
      then have "res = Inr (r\<lparr>srCircle := scCircle cfg\<rparr>)" and
        "ow' = (if srPaneID r = [] then ow else Record h now (spawn_record cfg r) (MarkSpawned (srPaneID r) ow))"
        using assms Inr Pair by (auto simp: Spawn_def Let_def)
      with c w resolved_command [of h s "scBackend cfg0" None] show ?thesis
        by (auto simp: Record_def MarkSpawned_def IsSpawned_def spawn_record_def Let_def)
    qed
  qed
qed

section \<open>The hint queue\<close>

text \<open>One hint per spawn of the same path and backend: the instant, circle, role, peer id and whether a message waits.\<close>

type_synonym intent = "gotime \<times> string \<times> string option \<times> string option \<times> bool"

definition leave_hint :: "host \<Rightarrow> string \<Rightarrow> string \<Rightarrow> intent \<Rightarrow> hint_store \<Rightarrow> hint_store" where
  "leave_hint h path backend i hs = (let (now, circle, role, peerID, pending) = i in writeHint h now path backend circle role peerID pending hs)"

definition hint_of :: "host \<Rightarrow> string \<Rightarrow> string \<Rightarrow> intent \<Rightarrow> hint" where
  "hint_of h path backend i = (let (now, circle, role, peerID, pending) = i in
     \<lparr>hiPath = norm_path h path, hiBackend = backend, hiCircle = circle, hiTs = now, hiRole = (if zero_or role = [] then None else role),
      hiPeerID = (if zero_or peerID = [] then None else peerID), hiPendingFirstTurn = pending\<rparr>)"

fun consume_many :: "host \<Rightarrow> gotime \<Rightarrow> string \<Rightarrow> string \<Rightarrow> nat \<Rightarrow> hint_store \<Rightarrow> hint option list \<times> hint_store" where
  "consume_many h now path backend 0 hs = ([], hs)"
| "consume_many h now path backend (Suc n) hs =
     (let (i, hs1) = ConsumeSpawnHint h now path backend hs; (is, hs2) = consume_many h now path backend n hs1 in (i # is, hs2))"

lemma leave_hint_queue:
  "readHintQueue key (leave_hint h path backend i hs) =
     readHintQueue key hs @ (if key = hintPath h path backend then [hint_of h path backend i] else [])"
  by (cases i) (auto simp: leave_hint_def hint_of_def writeHint_def readHintQueue_def Let_def)

lemma leave_hints_queue:
  "readHintQueue key (fold (leave_hint h path backend) is hs) =
     readHintQueue key hs @ (if key = hintPath h path backend then map (hint_of h path backend) is else [])"
  by (induction "is" arbitrary: hs) (simp_all add: leave_hint_queue)

lemma consume_step:
  assumes "target = hsHintKey h (abs_path h path @ ''::'' @ backend)" "ConsumeSpawnHint h now path backend hs = (i, hs')"
  shows "(case filter (hint_fresh now) (readHintQueue target hs) of [] \<Rightarrow> i = None | j # q \<Rightarrow> i = Some j) \<and>
     readHintQueue target hs' = tl (filter (hint_fresh now) (readHintQueue target hs)) \<and>
     (\<forall>k. k \<noteq> target \<longrightarrow> readHintQueue k hs' = readHintQueue k hs)"
  using assms by (auto simp: ConsumeSpawnHint_def readHintQueue_def Let_def split: option.splits list.splits)

lemma filter_tl_fresh: "filter P (tl (filter P q)) = tl (filter P q)"
  by (cases "filter P q") (auto simp: filter_id_conv dest: filter_eq_ConsD)

lemma consume_many_queue:
  assumes "target = hsHintKey h (abs_path h path @ ''::'' @ backend)"
    "filter (hint_fresh now) (readHintQueue target hs) = q" "n = length q"
  shows "fst (consume_many h now path backend (Suc n) hs) = map Some q @ [None] \<and>
     (\<forall>k. k \<noteq> target \<longrightarrow> readHintQueue k (snd (consume_many h now path backend (Suc n) hs)) = readHintQueue k hs)"
  using assms(2,3)
proof (induction q arbitrary: n hs)
  case Nil
  obtain i hs' where c: "ConsumeSpawnHint h now path backend hs = (i, hs')" by fastforce
  from consume_step [OF assms(1) c] Nil c show ?case by simp
next
  case (Cons j q)
  obtain i hs' where c: "ConsumeSpawnHint h now path backend hs = (i, hs')" by fastforce
  note s = consume_step [OF assms(1) c]
  have "filter (hint_fresh now) (readHintQueue target hs') = q"
    using s Cons.prems(1) filter_tl_fresh [of "hint_fresh now" "readHintQueue target hs"] by simp
  from Cons.IH [OF this refl] s c Cons.prems show ?case by (auto simp: Let_def split: prod.splits)
qed


text \<open>
  The writer resolves symbolic links and the reader does not: an agent that reports its directory
  through a link looks in another file and never sees its hint.
\<close>

lemma hint_behind_symlink_is_lost:
  assumes "hsHintKey h (abs_path h path @ ''::'' @ backend) \<noteq> hintPath h path backend"
    "readHintQueue (hsHintKey h (abs_path h path @ ''::'' @ backend)) hs = []"
  shows "fst (ConsumeSpawnHint h now path backend (leave_hint h path backend i hs)) = None"
  using consume_step [OF refl, of h now path backend "leave_hint h path backend i hs"] assms
  by (cases "ConsumeSpawnHint h now path backend (leave_hint h path backend i hs)") (simp add: leave_hint_queue)

text \<open>An allowed root \<open>/\<close> allows the root directory only: the prefix it is compared with is \<open>//\<close>.\<close>

lemma slash_root_allows_itself_only:
  "norm_path h root = ''/'' \<Longrightarrow> under_root h resolved root \<longleftrightarrow> resolved = ''/'' \<or> has_prefix resolved ''//''"
  by (simp add: under_root_def)

section \<open>Concrete inputs\<close>

definition demo_controller :: "nat controller" where
  "demo_controller = \<lparr>tcSpawn = (\<lambda>cfg t. (Inr \<lparr>srDisplayName = ''a'', srTmuxSession = scCircle cfg @ '':a'', srPaneID = ''%'' @ itoa t,
       srCircle = [], srMessage = None\<rparr>, Suc t)),
     tcKillPane = (\<lambda>pane t. (True, t)),
     tcProbePane = (\<lambda>t pane. Some \<lparr>tePaneID = pane, teSessionName = ''s'', teWindowID = ''@1'', teWindowPanes = 1,
       teTmuxSession = ''s:a'', teCurrentPath = ''/w/a'', tePanePID = ''1''\<rparr>)\<rparr>"

definition demo_service :: spawn_service where
  "demo_service = \<lparr>ssBoundary = CircleBoundarySession, ssCommands = [(''codex'', ''codex'')], ssLoaded = None,
     ssAllowedPaths = [''/w''], ssProfiles = [], ssEnv = []\<rparr>"

definition demo_config :: spawn_config where
  "demo_config = \<lparr>scPath = ''/l'', scCircle = ''s'', scBoundary = CircleBoundarySession, scTargetPane = [], scBackend = ''codex'',
     scCommand = [], scMessage = None, scRole = None, scPeerID = None, scEnv = []\<rparr>"

definition demo_ownership :: ownership where
  "demo_ownership = NewFileOwnership ''m'' []"

lemma demo_head: "head_loop ''codex'' = Some ''codex''"
  by (subst head_loop.simps) (simp add: TrimSpace_def TrimCutset_def is_space_def firstShellWord_def blank_def)

lemma demo_pane: "''%'' @ itoa 7 = ''%7''"
  by code_simp

lemma demo_spawn:
  "fst (Spawn demo_host 0 demo_controller demo_service demo_config (demo_ownership, 7)) =
     Inr \<lparr>srDisplayName = ''a'', srTmuxSession = ''s:a'', srPaneID = ''%7'', srCircle = ''s'', srMessage = None\<rparr>"
  by (simp add: Spawn_def spawn_checked_def PrepareSpawn_def prepareSpawn_def ValidatePath_def Enabled_def currentCommands_def
      ResolveCommand_def validateCommandHead_def demo_head commandExists_def SplitList_def zero_or_def gm_get_def under_root_def
      has_prefix_def norm_path_def expand_home_def demo_host_def demo_controller_def demo_service_def demo_config_def
      demo_pane [simplified] merge_env_def)

lemma spawn_is_gated_and_recorded_witness:
  "\<exists>r ow t'. Spawn demo_host 0 demo_controller demo_service demo_config (demo_ownership, 7) = (Inr r, ow, t') \<and>
     IsSpawned ''%7'' ow \<and> (\<exists>rec. gm_get (owRecords ow) ''%7'' = Some rec \<and> orPeerID rec = None)"
proof -
  obtain ow t' where s: "Spawn demo_host 0 demo_controller demo_service demo_config (demo_ownership, 7) =
      (Inr \<lparr>srDisplayName = ''a'', srTmuxSession = ''s:a'', srPaneID = ''%7'', srCircle = ''s'', srMessage = None\<rparr>, ow, t')"
    using demo_spawn by (metis prod.collapse)
  from spawn_is_gated_and_recorded [OF this] s show ?thesis by (auto simp: demo_config_def)
qed


end
