(* ===== verification/Resume_Safety.thy ===== *)
theory Resume_Safety
  imports Shell_Command Pane_Ownership Work_Store
begin

text \<open>
  Whether a backend session can be resumed, \<open>daemon-go/service/resume_safety.go\<close>: a plan exists only
  when the backend's own session file is found on this machine. The file system is the record
  \<open>session_files\<close>: which paths are files, their bytes, and the files \<open>filepath.WalkDir\<close> visits below
  a root, in its order; \<open>sfParse\<close> is \<open>json.Unmarshal\<close> into a map.
\<close>

record session_files =
  sfIsFile :: "string \<Rightarrow> bool"
  sfRead :: "string \<Rightarrow> string option"
  sfWalk :: "string \<Rightarrow> string list"
  sfParse :: "string \<Rightarrow> jobject option"

definition joins :: "host \<Rightarrow> string list \<Rightarrow> string" where
  "joins h elems = (case elems of [] \<Rightarrow> [] | e # es \<Rightarrow> foldl (hsJoin h) e es)"

definition homeDir :: "host \<Rightarrow> string" where
  "homeDir h = (case hsHome h of Some d \<Rightarrow> d | None \<Rightarrow> [])"

definition fileExists :: "session_files \<Rightarrow> string \<Rightarrow> bool" where
  "fileExists fs path \<longleftrightarrow> path \<noteq> [] \<and> sfIsFile fs path"

definition readJSONFile :: "session_files \<Rightarrow> string \<Rightarrow> jobject option" where
  "readJSONFile fs path = (case sfRead fs path of None \<Rightarrow> None | Some raw \<Rightarrow> sfParse fs raw)"

definition pathsMatch :: "host \<Rightarrow> string \<Rightarrow> string \<Rightarrow> bool" where
  "pathsMatch h a b \<longleftrightarrow> a \<noteq> [] \<and> b \<noteq> [] \<and> norm_path h a = norm_path h b"

definition encodeClaudeCWD :: "string \<Rightarrow> string" where
  "encodeClaudeCWD path = map (\<lambda>c. if c = CHR ''/'' then CHR ''-'' else c) path"

definition prefixed :: "string \<Rightarrow> string \<Rightarrow> bool" where
  "prefixed s p \<longleftrightarrow> take (length p) s = p"

definition suffixed :: "string \<Rightarrow> string \<Rightarrow> bool" where
  "suffixed s p \<longleftrightarrow> prefixed (rev s) (rev p)"

fun contains :: "string \<Rightarrow> string \<Rightarrow> bool" where
  "contains [] p = (p = [])"
| "contains (c # cs) p = (prefixed (c # cs) p \<or> contains cs p)"

text \<open>\<open>filepath.Base\<close> of a file the walk visited, which does not end in a slash.\<close>

definition file_name :: "string \<Rightarrow> string" where
  "file_name s = rev (takeWhile (\<lambda>c. c \<noteq> CHR ''/'') (rev s))"

definition claudeResumable :: "host \<Rightarrow> session_files \<Rightarrow> string \<Rightarrow> string \<Rightarrow> bool" where
  "claudeResumable h fs peerPath i \<longleftrightarrow> peerPath \<noteq> [] \<and>
     fileExists fs (joins h [homeDir h, ''.claude'', ''projects'', encodeClaudeCWD peerPath, i @ ''.jsonl''])"

definition codex_line_matches :: "host \<Rightarrow> session_files \<Rightarrow> string \<Rightarrow> string \<Rightarrow> bool" where
  "codex_line_matches h fs peerPath line \<longleftrightarrow>
     (let l = TrimSpace line
      in l \<noteq> [] \<and> (case sfParse fs l of None \<Rightarrow> False
           | Some entry \<Rightarrow> (str_at entry ''type'' = ''session_meta'' \<or> str_at entry ''type'' = ''turn_context'') \<and>
               pathsMatch h (str_at (obj_at entry ''payload'') ''cwd'') peerPath))"

definition codexFileMatchesPeer :: "host \<Rightarrow> session_files \<Rightarrow> string \<Rightarrow> string \<Rightarrow> bool" where
  "codexFileMatchesPeer h fs path peerPath = (case sfRead fs path of
       None \<Rightarrow> False
     | Some raw \<Rightarrow> list_ex (codex_line_matches h fs peerPath) (Split (CHR 0x0A) raw))"

definition codexResumable :: "host \<Rightarrow> session_files \<Rightarrow> string \<Rightarrow> string \<Rightarrow> bool" where
  "codexResumable h fs peerPath i \<longleftrightarrow> list_ex (\<lambda>path.
     prefixed (file_name path) ''rollout-'' \<and> suffixed path ''.jsonl'' \<and> contains (file_name path) i \<and>
     (peerPath = [] \<or> codexFileMatchesPeer h fs path peerPath)) (sfWalk fs (joins h [homeDir h, ''.codex'', ''sessions'']))"

definition opencodeResumable :: "host \<Rightarrow> session_files \<Rightarrow> string \<Rightarrow> string \<Rightarrow> bool" where
  "opencodeResumable h fs peerPath i \<longleftrightarrow> list_ex (\<lambda>path.
     prefixed (file_name path) ''ses_'' \<and> suffixed path ''.json'' \<and>
     (case readJSONFile fs path of None \<Rightarrow> False
      | Some data \<Rightarrow> gm_get data ''id'' = Some (JStr i) \<and> (peerPath = [] \<or> pathsMatch h (str_at data ''directory'') peerPath)))
     (sfWalk fs (joins h [homeDir h, ''.local'', ''share'', ''opencode'', ''storage'', ''session'']))"

definition piResumable :: "host \<Rightarrow> session_files \<Rightarrow> string \<Rightarrow> string \<Rightarrow> bool" where
  "piResumable h fs peerPath i = (case readJSONFile fs (joins h [homeDir h, ''.pi'', ''pi-acp'', ''session-map.json'']) of
       None \<Rightarrow> False
     | Some data \<Rightarrow>
         (let entry = obj_at (obj_at data ''sessions'') i
          in entry \<noteq> [] \<and> (peerPath = [] \<or> pathsMatch h (str_at entry ''cwd'') peerPath) \<and>
             fileExists fs (str_at entry ''sessionFile'')))"

definition runtimeSessionValidationStatus :: "host \<Rightarrow> session_files \<Rightarrow> string \<Rightarrow> string \<Rightarrow> string \<Rightarrow> string" where
  "runtimeSessionValidationStatus h fs peerPath backend i =
     (if i = [] then ''missing_id''
      else if \<not> canResumeBackend backend i then ''unsupported''
      else if backend = ''claude-code'' then (if claudeResumable h fs peerPath i then ''resumable'' else ''stale_missing_file'')
      else if backend = ''codex'' then (if codexResumable h fs peerPath i then ''resumable'' else ''stale_missing_file'')
      else if backend = ''opencode'' then (if opencodeResumable h fs peerPath i then ''resumable'' else ''stale_missing_file'')
      else if backend = ''pi'' then (if piResumable h fs peerPath i then ''resumable'' else ''stale_missing_file'')
      else ''unvalidated_backend'')"

definition ResolveLocalResume :: "host \<Rightarrow> session_files \<Rightarrow> string \<Rightarrow> string \<Rightarrow> string \<Rightarrow> string option \<Rightarrow> jobject \<Rightarrow> jobject option" where
  "ResolveLocalResume h fs backend path i repowireSessionID capability =
     (if i = [] \<or> gm_get capability ''supported'' = Some (JBool False) \<or> \<not> canResumeBackend backend i \<or>
         runtimeSessionValidationStatus h fs path backend i \<noteq> ''resumable'' then None
      else (let plan = [(''backend'', JStr backend), (''runtime_session_id'', JStr i), (''capability'', JObj capability)]
            in Some (case repowireSessionID of
                 Some s \<Rightarrow> if s = [] then plan else gm_put ''repowire_session_id'' (JStr s) plan
               | None \<Rightarrow> plan)))"

section \<open>What a plan promises\<close>

lemma plan_fields:
  assumes "ResolveLocalResume h fs backend path i rsid capability = Some plan"
  shows "i \<noteq> []" "str_at plan ''runtime_session_id'' = i" "str_at plan ''backend'' = backend"
    "canResumeBackend backend i" "runtimeSessionValidationStatus h fs path backend i = ''resumable''"
proof -
  show "i \<noteq> []" "canResumeBackend backend i" "runtimeSessionValidationStatus h fs path backend i = ''resumable''"
    using assms by (auto simp: ResolveLocalResume_def split: if_splits)
  have "plan = [(''backend'', JStr backend), (''runtime_session_id'', JStr i), (''capability'', JObj capability)] \<or>
    (\<exists>s. plan = gm_put ''repowire_session_id'' (JStr s) [(''backend'', JStr backend), (''runtime_session_id'', JStr i), (''capability'', JObj capability)])"
    using assms by (auto simp: ResolveLocalResume_def Let_def split: if_splits option.splits)
  then show "str_at plan ''runtime_session_id'' = i" "str_at plan ''backend'' = backend"
    by (auto simp: str_at_def gm_get_Cons)
qed

text \<open>A plan can always be turned into a command line, so a caller that holds one does not fail there.\<close>

lemma plan_builds_command:
  assumes "ResolveLocalResume h fs backend path i rsid capability = Some plan"
  shows "\<exists>line. BuildResumeCommand command backend i = Inr line"
  using plan_fields [OF assms] by (auto simp: BuildResumeCommand_def canResumeBackend_def Let_def)

end
