(* ===== verification/Peer_Control.thy ===== *)
theory Peer_Control
  imports Spawn_Service Resume_Safety Reconcile Binding_Store
begin

text \<open>
  The destructive controls of \<open>daemon-go/hub/routes_spawn.go\<close>: spawn, kill, restart and fork, without
  the decoding of the request and the encoding of the answer. A handler is a function from the request
  and the state \<open>control\<close> to the answer, an error that the route turns into a status, and the state
  after; None is a tracker call that blocks for ever. \<open>kcMeta\<close> are the metadata files the agent hooks
  keep per pane. The mode and hint texts of a proof are left out. The daemon's boundary is the service's, as \<open>WithSpawn\<close> sets it. The branch of
  \<open>spawnPeer\<close> for backends that do not register themselves is left out: \<open>pre_registration_unreachable\<close>.
\<close>

section \<open>State\<close>

record 't control_env =
  kvReg :: env
  kvProbes :: probes
  kvHost :: host
  kvFiles :: session_files
  kvSelf :: string
  kvTmux :: "'t controller"
  kvService :: spawn_service

record 't control =
  kcReg :: registry
  kcAsks :: tracker
  kcOwn :: ownership
  kcTmux :: 't
  kcMeta :: "(string, jobject) gomap"
  kcBindings :: binding_table

datatype control_error =
    PeerNotFound string
  | AmbiguousPeer string "peer list"
  | Refused spawn_error
  | KillFailed string
  | CrossHost string string
  | NoPath
  | NoCircle
  | CommandUnavailable spawn_error
  | ResumeUnavailable string
  | ResumeCommandFailed resume_error
  | PaneUnproved string string
  | InFlightAsks "string list"
  | RestartInProgress
  | WindowNeedsTarget
  | SessionNeedsCircle
  | BothSelectors
  | NoSelector
  | ProfileNeedsBackend
  | UnknownCommand string
  | UnsupportedBackend string
  | SameBackend string

definition agent_valid :: "string \<Rightarrow> bool" where
  "agent_valid b \<longleftrightarrow> b \<in> set [''claude-code'', ''opencode'', ''codex'', ''pi'', ''mcp-http'']"

definition supportedSpawnBackend :: "string \<Rightarrow> bool" where
  "supportedSpawnBackend b \<longleftrightarrow> agent_valid b \<and> b \<noteq> ''mcp-http''"

definition selfRegistersOnSpawn :: "string \<Rightarrow> bool" where
  "selfRegistersOnSpawn b \<longleftrightarrow> agent_valid b"

lemma pre_registration_unreachable: "supportedSpawnBackend b \<Longrightarrow> selfRegistersOnSpawn b"
  by (simp add: supportedSpawnBackend_def selfRegistersOnSpawn_def)

section \<open>Proof that a pane may be killed\<close>

record destructive_proof =
  dpOK :: bool
  dpPaneID :: string
  dpTmuxSession :: string
  dpErrCode :: string

definition resolveStrict :: "string \<Rightarrow> string option \<Rightarrow> registry \<Rightarrow> control_error + peer" where
  "resolveStrict identifier circle r = (case ResolvePeerStrict identifier circle r of
       [] \<Rightarrow> Inl (PeerNotFound identifier)
     | [p] \<Rightarrow> Inr p
     | ps \<Rightarrow> Inl (AmbiguousPeer identifier ps))"

definition same_host :: "string \<Rightarrow> peer \<Rightarrow> bool" where
  "same_host self p \<longleftrightarrow> Machine p = [] \<or> Machine p = ''unknown'' \<or> Machine p = self"

definition control_probe :: "'t control_env \<Rightarrow> 't control \<Rightarrow> string \<Rightarrow> evidence option" where
  "control_probe e st = tcProbePane (kvTmux e) (kcTmux st)"

definition validate_owner :: "'t control_env \<Rightarrow> peer \<Rightarrow> 't control \<Rightarrow> validation \<times> 't control" where
  "validate_owner e p st = (let (v, ow) = ValidateForPeer (kvHost e) (control_probe e st) p (kcOwn st) in (v, st\<lparr>kcOwn := ow\<rparr>))"

definition peerWithAdoptedOwnership :: "'t control_env \<Rightarrow> peer \<Rightarrow> 't control \<Rightarrow> peer \<times> 't control" where
  "peerWithAdoptedOwnership e p st =
     (let (v, st1) = validate_owner e p st
      in (case vRecord v of
            None \<Rightarrow> p
          | Some r \<Rightarrow>
              if \<not> vOK v \<or> PaneID p = Some (orPaneID r) then p
              else p\<lparr>PaneID := Some (orPaneID r), TmuxSession := Some (orTmuxSession r), Machine := orMachine r\<rparr>, st1))"

definition proof_ok :: "string \<Rightarrow> string \<Rightarrow> destructive_proof" where
  "proof_ok pane session = \<lparr>dpOK = True, dpPaneID = pane, dpTmuxSession = session, dpErrCode = []\<rparr>"

definition no_proof :: "string \<Rightarrow> string \<Rightarrow> string \<Rightarrow> destructive_proof" where
  "no_proof pane session err = \<lparr>dpOK = False, dpPaneID = pane, dpTmuxSession = session, dpErrCode = err\<rparr>"

text \<open>What the live pane says of itself once the ownership is merely missing.\<close>

definition pane_metadata_proof :: "'t control_env \<Rightarrow> peer \<Rightarrow> 't control \<Rightarrow> destructive_proof" where
  "pane_metadata_proof e p st =
     (if pane_of p = [] then no_proof [] [] ''missing_pane''
      else (case control_probe e st (pane_of p) of
          None \<Rightarrow> no_proof (pane_of p) [] ''pane_not_live''
        | Some ev \<Rightarrow>
            (let owner = (case gm_get (kcMeta st) (pane_of p) of Some m \<Rightarrow> str_at m ''peer_id'' | None \<Rightarrow> [])
             in if owner = [] then no_proof (pane_of p) (teTmuxSession ev) ''missing_pane_metadata''
                else if owner = PeerID p then proof_ok (pane_of p) (teTmuxSession ev)
                else no_proof (pane_of p) (teTmuxSession ev) ''pane_metadata_mismatch'')))"

definition destructivePaneProof :: "'t control_env \<Rightarrow> peer \<Rightarrow> 't control \<Rightarrow> destructive_proof \<times> 't control" where
  "destructivePaneProof e p st =
     (if IsSpawned (pane_of p) (kcOwn st) then (proof_ok (pane_of p) (zero_or (TmuxSession p)), st)
      else (let (v, st1) = validate_owner e p st
            in (case (vOK v, vRecord v) of
                  (True, Some r) \<Rightarrow> proof_ok (orPaneID r) (orTmuxSession r)
                | _ \<Rightarrow>
                    if vError v \<noteq> [] \<and> vError v \<noteq> ''missing_ownership''
                    then no_proof (case vRecord v of Some r \<Rightarrow> orPaneID r | None \<Rightarrow> pane_of p)
                           (case vEvidence v of Some ev \<Rightarrow> teTmuxSession ev
                            | None \<Rightarrow> (case vRecord v of Some r \<Rightarrow> orTmuxSession r | None \<Rightarrow> zero_or (TmuxSession p))) (vError v)
                    else pane_metadata_proof e p st1, st1)))"

section \<open>Killing a peer\<close>

definition repair_first :: "'t control_env \<Rightarrow> 't control \<Rightarrow> 't control option" where
  "repair_first e st = (case LazyRepair (kvReg e) (kvProbes e) (kcReg st, kcAsks st) of
       None \<Rightarrow> None
     | Some (r, t) \<Rightarrow> Some (st\<lparr>kcReg := r, kcAsks := t\<rparr>))"

definition unregister :: "'t control_env \<Rightarrow> string \<Rightarrow> 't control \<Rightarrow> 't control" where
  "unregister e i st = st\<lparr>kcReg := fst (UnregisterPeer (kvReg e) i None (kcReg st))\<rparr>"

text \<open>\<open>KillPane\<close>, and what is forgotten of a pane that was killed.\<close>

definition kill_pane :: "'t control_env \<Rightarrow> string \<Rightarrow> 't control \<Rightarrow> bool \<times> 't control" where
  "kill_pane e pane st = (let (ok, t) = tcKillPane (kvTmux e) pane (kcTmux st) in (ok, st\<lparr>kcTmux := t\<rparr>))"

definition forget_pane :: "string \<Rightarrow> 't control \<Rightarrow> 't control" where
  "forget_pane pane st = st\<lparr>kcOwn := Forget pane (kcOwn st), kcMeta := (if pane = [] then kcMeta st else gm_del pane (kcMeta st))\<rparr>"

definition kill_resolved :: "'t control_env \<Rightarrow> peer \<Rightarrow> 't control \<Rightarrow> (control_error + bool option) \<times> 't control" where
  "kill_resolved e resolved st =
     (let (p, st1) = peerWithAdoptedOwnership e resolved st;
          (pr, st2) = destructivePaneProof e p st1
      in if \<not> dpOK pr \<or> dpPaneID pr = [] then (Inr None, unregister e (PeerID p) st2)
         else (let (killed, st3) = kill_pane e (dpPaneID pr) st2
               in if \<not> killed then (Inl (KillFailed (dpPaneID pr)), st3)
                  else (Inr (Some True), unregister e (PeerID p) (forget_pane (dpPaneID pr) st3))))"

definition killPeer :: "'t control_env \<Rightarrow> string \<Rightarrow> string option \<Rightarrow> 't control \<Rightarrow>
    ((control_error + bool option) \<times> 't control) option" where
  "killPeer e identifier circle st = (case repair_first e st of
       None \<Rightarrow> None
     | Some st1 \<Rightarrow> Some (case resolveStrict identifier circle (kcReg st1) of
           Inl err \<Rightarrow> (Inl err, st1)
         | Inr p \<Rightarrow> kill_resolved e p st1))"

section \<open>Restart\<close>

record restart_request =
  rqCircle :: "string option"
  rqDryRun :: bool
  rqMessage :: "string option"

record restart_response =
  rrStatus :: string
  rrRestarted :: bool
  rrPeerID :: string
  rrDisplayName :: string
  rrBackend :: string
  rrPath :: string
  rrCircle :: string
  rrTmuxSession :: string
  rrResumeMode :: string
  rrCommand :: string

definition runtimeSessionIDFromMetadata :: "jobject \<Rightarrow> string" where
  "runtimeSessionIDFromMetadata m =
     (case filter (\<lambda>v. v \<noteq> []) (map (str_at m) [''hook_session_id'', ''runtime_session_id'', ''session_id'']) of
        [] \<Rightarrow> [] | v # vs \<Rightarrow> v)"

definition usable_binding :: "host \<Rightarrow> peer \<Rightarrow> string \<Rightarrow> binding \<Rightarrow> bool" where
  "usable_binding h p path b \<longleftrightarrow> zero_or (sbRuntimeSessionID b) \<noteq> [] \<and> sbBackend b = Backend p \<and>
     norm_path h (sbProjectPath b) = norm_path h path"

definition restartResumeTarget :: "'t control_env \<Rightarrow> peer \<Rightarrow> string \<Rightarrow> 't control \<Rightarrow> string \<times> string option \<times> jobject" where
  "restartResumeTarget e p path st = (case find (usable_binding (kvHost e) p path) (ListBindingsByPeer (PeerID p) (kcBindings st)) of
       Some b \<Rightarrow> (zero_or (sbRuntimeSessionID b), Some (sbSessionID b), sbResumeCapability b)
     | None \<Rightarrow> (runtimeSessionIDFromMetadata (Metadata p), None, []))"

definition restartResumeCommand :: "'t control_env \<Rightarrow> peer \<Rightarrow> string \<Rightarrow> 't control \<Rightarrow> control_error + string" where
  "restartResumeCommand e p path st = (case ResolveCommand (kvHost e) (kvService e) (Backend p) None of
       Inl err \<Rightarrow> Inl (CommandUnavailable err)
     | Inr base \<Rightarrow>
         (let (i, rsid, capability) = restartResumeTarget e p path st
          in if i = [] then Inl (ResumeUnavailable ''missing_id'')
             else (case ResolveLocalResume (kvHost e) (kvFiles e) (Backend p) path i rsid capability of
                 None \<Rightarrow> Inl (ResumeUnavailable ''resume_unavailable'')
               | Some plan \<Rightarrow> (case BuildResumeCommand base (Backend p) i of
                     Inl err \<Rightarrow> Inl (ResumeCommandFailed err)
                   | Inr line \<Rightarrow> Inr line))))"

text \<open>Everything a restart checks before it touches anything; what it will then do is the plan.\<close>

record restart_plan =
  rxPeer :: peer
  rxPath :: string
  rxCommand :: string
  rxProof :: destructive_proof
  rxConfig :: spawn_config

definition restart_config :: "peer \<Rightarrow> string \<Rightarrow> spawn_config" where
  "restart_config p path = \<lparr>scPath = path, scCircle = Circle p, scBoundary = CircleBoundaryOther [], scTargetPane = [],
     scBackend = Backend p, scCommand = [], scMessage = None, scRole = Some (Role p), scPeerID = Some (PeerID p), scEnv = []\<rparr>"

definition can_skip_kill :: "peer \<Rightarrow> destructive_proof \<Rightarrow> bool" where
  "can_skip_kill p pr \<longleftrightarrow> Status p = StatusOffline \<and> (dpErrCode pr = ''missing_pane'' \<or> dpErrCode pr = ''pane_not_live'')"

definition restart_place :: "'t control_env \<Rightarrow> peer \<Rightarrow> string \<Rightarrow> string \<Rightarrow> destructive_proof \<Rightarrow> 't control \<Rightarrow> control_error + restart_plan" where
  "restart_place e p path command pr st =
     (if \<not> dpOK pr \<and> \<not> can_skip_kill p pr then Inl (PaneUnproved (if dpErrCode pr = [] then ''pane_unverified'' else dpErrCode pr) (pane_of p))
      else (case (if dpOK pr then PrepareReplacement (Some (kvTmux e)) (kcTmux st) (kvService e) (restart_config p path\<lparr>scTargetPane := dpPaneID pr\<rparr>)
                  else PrepareSpawn (Some (kvTmux e)) (kcTmux st) (kvService e) (restart_config p path)) of
          Inl err \<Rightarrow> Inl (Refused err)
        | Inr cfg \<Rightarrow> Inr \<lparr>rxPeer = p, rxPath = path, rxCommand = command, rxProof = pr, rxConfig = cfg\<rparr>))"

definition restart_checks :: "'t control_env \<Rightarrow> peer \<Rightarrow> 't control \<Rightarrow> (control_error + restart_plan) \<times> 't control" where
  "restart_checks e resolved st =
     (let (p, st1) = peerWithAdoptedOwnership e resolved st
      in if \<not> same_host (kvSelf e) p then (Inl (CrossHost (Machine p) (kvSelf e)), st1)
         else if Path p = [] then (Inl NoPath, st1)
         else (case ValidatePath (kvHost e) (kvService e) (Path p) of
             Inl err \<Rightarrow> (Inl (Refused err), st1)
           | Inr path \<Rightarrow>
               if Circle p = [] then (Inl NoCircle, st1)
               else (case restartResumeCommand e p path st1 of
                   Inl err \<Rightarrow> (Inl err, st1)
                 | Inr command \<Rightarrow>
                     (let (pr, st2) = destructivePaneProof e p st1
                      in (restart_place e p path command pr st2, st2)))))"

definition restart_answer :: "restart_plan \<Rightarrow> string \<Rightarrow> bool \<Rightarrow> string \<Rightarrow> restart_response" where
  "restart_answer x status restarted session =
     \<lparr>rrStatus = status, rrRestarted = restarted, rrPeerID = PeerID (rxPeer x), rrDisplayName = DisplayName (rxPeer x),
      rrBackend = Backend (rxPeer x), rrPath = rxPath x, rrCircle = Circle (rxPeer x), rrTmuxSession = session,
      rrResumeMode = ''resumed'', rrCommand = rxCommand x\<rparr>"

text \<open>The kill, when there is a pane to kill: the pane's record goes and the peer is offline.\<close>

definition restart_kill :: "'t control_env \<Rightarrow> restart_plan \<Rightarrow> 't control \<Rightarrow> control_error option \<times> 't control" where
  "restart_kill e x st =
     (if \<not> dpOK (rxProof x) then (None, st)
      else (let pane = dpPaneID (rxProof x); (killed, st1) = kill_pane e pane st
            in if \<not> killed then (Some (KillFailed pane), st1)
               else (let st2 = forget_pane pane st1
                     in (None, st2\<lparr>kcReg := MarkOffline (kvReg e) (PeerID (rxPeer x)) False (kcReg st2)\<rparr>))))"

definition restart_execute :: "'t control_env \<Rightarrow> restart_plan \<Rightarrow> string option \<Rightarrow> 't control \<Rightarrow> (control_error + restart_response) \<times> 't control" where
  "restart_execute e x message st = (case restart_kill e x st of
       (Some err, st1) \<Rightarrow> (Inl err, st1)
     | (None, st1) \<Rightarrow>
         (let (res, ow, t) = Spawn (kvHost e) (Now (kvReg e)) (kvTmux e) (kvService e)
                               (rxConfig x\<lparr>scCommand := rxCommand x, scMessage := message\<rparr>) (kcOwn st1, kcTmux st1);
              st2 = st1\<lparr>kcOwn := ow, kcTmux := t\<rparr>
          in (case res of Inl err \<Rightarrow> Inl (Refused err) | Inr r \<Rightarrow> Inr (restart_answer x ''restarted'' True (srTmuxSession r)), st2)))"

definition quiesce_refusal :: "gotime \<Rightarrow> string \<Rightarrow> ask_error \<Rightarrow> tracker \<Rightarrow> (control_error \<times> tracker) option" where
  "quiesce_refusal now i err t =
     (if err = ErrQuiesceHasOpen
      then (case PendingForPeer now now i (-1) ''both'' t of
          None \<Rightarrow> None
        | Some (Inl _, t') \<Rightarrow> Some (InFlightAsks [], t')
        | Some (Inr open, t') \<Rightarrow> Some (InFlightAsks (map CorrelationID open), t'))
      else Some (RestartInProgress, t))"

definition restart_go :: "'t control_env \<Rightarrow> restart_plan \<Rightarrow> string option \<Rightarrow> 't control \<Rightarrow> ((control_error + restart_response) \<times> 't control) option" where
  "restart_go e x message st =
     (let i = PeerID (rxPeer x)
      in case BeginQuiesce i (kcAsks st) of
           (Some err, t) \<Rightarrow> (case quiesce_refusal (Now (kvReg e)) i err t of
               None \<Rightarrow> None
             | Some (refusal, t') \<Rightarrow> Some (Inl refusal, st\<lparr>kcAsks := t'\<rparr>))
         | (None, t) \<Rightarrow>
             (let (res, st1) = restart_execute e x message (st\<lparr>kcAsks := t\<rparr>)
              in Some (res, st1\<lparr>kcAsks := EndQuiesce i (kcAsks st1)\<rparr>)))"

definition handleRestartPeer :: "'t control_env \<Rightarrow> string \<Rightarrow> restart_request \<Rightarrow> 't control \<Rightarrow>
    ((control_error + restart_response) \<times> 't control) option" where
  "handleRestartPeer e name req st = (case repair_first e st of
       None \<Rightarrow> None
     | Some st1 \<Rightarrow> (case resolveStrict name (rqCircle req) (kcReg st1) of
         Inl err \<Rightarrow> Some (Inl err, st1)
       | Inr p \<Rightarrow> (case restart_checks e p st1 of
           (Inl err, st2) \<Rightarrow> Some (Inl err, st2)
         | (Inr x, st2) \<Rightarrow>
             if rqDryRun req
             then (let session = (if dpTmuxSession (rxProof x) \<noteq> [] then dpTmuxSession (rxProof x) else zero_or (TmuxSession (rxPeer x)))
                   in Some (Inr (restart_answer x ''restart_available'' False session), st2))
             else restart_go e x (rqMessage req) st2)))"

section \<open>Spawn and fork\<close>

record spawn_request =
  sqPath :: string
  sqBackend :: "string option"
  sqProfile :: "string option"
  sqCommand :: "string option"
  sqCircle :: string
  sqMessage :: "string option"
  sqRole :: "PeerRole option"
  sqSourcePane :: string

record spawn_response =
  soDisplayName :: string
  soTmuxSession :: string
  soRegistrationState :: string

definition resolveLegacyCommand :: "spawn_service \<Rightarrow> string \<Rightarrow> string option" where
  "resolveLegacyCommand s command = map_option fst (find (\<lambda>(backend, configured). command = configured \<or> command = backend) (Commands s))"

definition request_backend :: "spawn_service \<Rightarrow> spawn_request \<Rightarrow> control_error + string" where
  "request_backend s req = (case (sqBackend req, sqCommand req) of
       (Some _, Some _) \<Rightarrow> Inl BothSelectors
     | (None, None) \<Rightarrow> Inl NoSelector
     | (Some b, None) \<Rightarrow> if supportedSpawnBackend b then Inr b else Inl (UnsupportedBackend b)
     | (None, Some command) \<Rightarrow>
         if zero_or (sqProfile req) \<noteq> [] then Inl ProfileNeedsBackend
         else (case resolveLegacyCommand s command of
             None \<Rightarrow> Inl (UnknownCommand command)
           | Some b \<Rightarrow> if supportedSpawnBackend b then Inr b else Inl (UnsupportedBackend b)))"

definition request_config :: "spawn_request \<Rightarrow> string \<Rightarrow> string \<Rightarrow> spawn_config" where
  "request_config req backend command = \<lparr>scPath = sqPath req, scCircle = sqCircle req, scBoundary = CircleBoundaryOther [],
     scTargetPane = sqSourcePane req, scBackend = backend, scCommand = command, scMessage = sqMessage req,
     scRole = Some (case sqRole req of Some r \<Rightarrow> r | None \<Rightarrow> RoleAgent), scPeerID = None, scEnv = []\<rparr>"

definition spawnPeer :: "'t control_env \<Rightarrow> spawn_request \<Rightarrow> 't control \<Rightarrow> (control_error + spawn_response) \<times> 't control" where
  "spawnPeer e req st =
     (if ssBoundary (kvService e) = CircleBoundaryWindow \<and> sqSourcePane req = [] \<and> sqCircle req = [] then (Inl WindowNeedsTarget, st)
      else if ssBoundary (kvService e) \<noteq> CircleBoundaryWindow \<and> sqCircle req = [] then (Inl SessionNeedsCircle, st)
      else (case request_backend (kvService e) req of
          Inl err \<Rightarrow> (Inl err, st)
        | Inr backend \<Rightarrow> (case ResolveCommand (kvHost e) (kvService e) backend (sqProfile req) of
            Inl err \<Rightarrow> (Inl (Refused err), st)
          | Inr command \<Rightarrow>
              (let (res, ow, t) = Spawn (kvHost e) (Now (kvReg e)) (kvTmux e) (kvService e) (request_config req backend command)
                                    (kcOwn st, kcTmux st)
               in (case res of
                     Inl err \<Rightarrow> Inl (Refused err)
                   | Inr r \<Rightarrow> Inr \<lparr>soDisplayName = srDisplayName r, soTmuxSession = srTmuxSession r, soRegistrationState = ''pending_hook''\<rparr>,
                   st\<lparr>kcOwn := ow, kcTmux := t\<rparr>)))))"

definition fork_request :: "peer \<Rightarrow> string \<Rightarrow> spawn_request" where
  "fork_request p backend = \<lparr>sqPath = Path p, sqBackend = Some backend, sqProfile = None, sqCommand = None, sqCircle = Circle p,
     sqMessage = None, sqRole = Some RoleAgent, sqSourcePane = pane_of p\<rparr>"

definition handleForkBackend :: "'t control_env \<Rightarrow> string \<Rightarrow> string option \<Rightarrow> string \<Rightarrow> 't control \<Rightarrow>
    ((control_error + peer \<times> spawn_response) \<times> 't control) option" where
  "handleForkBackend e name circle backend st =
     (if \<not> supportedSpawnBackend backend then Some (Inl (UnsupportedBackend backend), st)
      else (case repair_first e st of
          None \<Rightarrow> None
        | Some st1 \<Rightarrow> Some (case resolveStrict name circle (kcReg st1) of
              Inl err \<Rightarrow> (Inl err, st1)
            | Inr p \<Rightarrow>
                if \<not> same_host (kvSelf e) p then (Inl (CrossHost (Machine p) (kvSelf e)), st1)
                else if Backend p = backend then (Inl (SameBackend backend), st1)
                else if Path p = [] then (Inl NoPath, st1)
                else if Circle p = [] then (Inl NoCircle, st1)
                else (case spawnPeer e (fork_request p backend) st1 of
                    (Inl err, st2) \<Rightarrow> (Inl err, st2)
                  | (Inr r, st2) \<Rightarrow> (Inr (p, r), st2)))))"

section \<open>Rehook\<close>

text \<open>The socket and the hook process answer through the arguments: whether the peer is connected,
  whether it answers a ping, and what starting its hook again gives.\<close>

record rehook_response =
  rkActed :: bool
  rkPeerID :: string
  rkPaneID :: "string option"
  rkWasConnected :: bool
  rkReason :: string

datatype rehook_error = RehookRefused control_error | MissingPane | PaneUnverified string | RehookFailed string

definition pane_verified :: "'t control_env \<Rightarrow> peer \<Rightarrow> 't control \<Rightarrow> bool \<times> 't control" where
  "pane_verified e p st =
     (if IsSpawned (pane_of p) (kcOwn st) then (True, st)
      else (let (v, st1) = validate_owner e p st
            in if vOK v then (True, st1)
               else (case control_probe e st1 (pane_of p) of
                   None \<Rightarrow> (False, st1)
                 | Some ev \<Rightarrow> (Path p \<noteq> [] \<and> norm_path (kvHost e) (teCurrentPath ev) = norm_path (kvHost e) (Path p), st1))))"

definition handleRehookPeer :: "'t control_env \<Rightarrow> string \<Rightarrow> string option \<Rightarrow> bool \<Rightarrow> (string \<Rightarrow> bool) \<Rightarrow> (string \<Rightarrow> bool) \<Rightarrow>
    (peer \<Rightarrow> string + bool) \<Rightarrow> 't control \<Rightarrow> ((rehook_error + rehook_response) \<times> 't control) option" where
  "handleRehookPeer e name circle apply_it isConnected pings respawn st = (case repair_first e st of
       None \<Rightarrow> None
     | Some st1 \<Rightarrow> Some (case resolveStrict name circle (kcReg st1) of
           Inl err \<Rightarrow> (Inl (RehookRefused err), st1)
         | Inr resolved \<Rightarrow>
             (let (p, st2) = peerWithAdoptedOwnership e resolved st1;
                  answer = (\<lambda>acted was reason. \<lparr>rkActed = acted, rkPeerID = PeerID p, rkPaneID = PaneID p, rkWasConnected = was, rkReason = reason\<rparr>);
                  was = isConnected (PeerID p)
              in if was \<and> pings (PeerID p) then (Inr (answer False True ''already_healthy''), st2)
                 else if \<not> same_host (kvSelf e) p then (Inl (RehookRefused (CrossHost (Machine p) (kvSelf e))), st2)
                 else if pane_of p = [] then (Inl MissingPane, st2)
                 else (let (ok, st3) = pane_verified e p st2
                       in if \<not> ok then (Inl (PaneUnverified (pane_of p)), st3)
                          else if \<not> apply_it then (Inr (answer False False ''dry_run''), st3)
                          else (case respawn p of
                              Inl err \<Rightarrow> (Inl (RehookFailed err), st3)
                            | Inr acted \<Rightarrow> (Inr (answer acted was ''ws_hook_respawned''), st3))))))"

section \<open>What authorises a kill\<close>

text \<open>The three proofs the routes accept for a pane, on the state in which they are evaluated.\<close>

definition kill_authorised :: "'t control_env \<Rightarrow> peer \<Rightarrow> 't control \<Rightarrow> string \<Rightarrow> bool" where
  "kill_authorised e p st pane \<longleftrightarrow>
     (pane = pane_of p \<and> IsSpawned pane (kcOwn st)) \<or>
     (\<exists>r. orPaneID r = pane \<and> proof_holds (kvHost e) (control_probe e st) p (kcOwn st) r) \<or>
     (pane = pane_of p \<and> control_probe e st pane \<noteq> None \<and>
      (\<exists>m. gm_get (kcMeta st) pane = Some m \<and> str_at m ''peer_id'' = PeerID p \<and> PeerID p \<noteq> []))"

lemma validate_owner_frame:
  assumes "validate_owner e p st = (v, st1)"
  shows "kcTmux st1 = kcTmux st" "kcMeta st1 = kcMeta st" "kcReg st1 = kcReg st" "kcAsks st1 = kcAsks st" "kcBindings st1 = kcBindings st"
    "control_probe e st1 = control_probe e st" "owSpawned (kcOwn st1) = owSpawned (kcOwn st)" "owMachine (kcOwn st1) = owMachine (kcOwn st)"
proof -
  obtain ow where ow: "ValidateForPeer (kvHost e) (control_probe e st) p (kcOwn st) = (v, ow)" "st1 = st\<lparr>kcOwn := ow\<rparr>"
    using assms by (auto simp: validate_owner_def split: prod.splits)
  then show "kcTmux st1 = kcTmux st" "kcMeta st1 = kcMeta st" "kcReg st1 = kcReg st" "kcAsks st1 = kcAsks st"
    "kcBindings st1 = kcBindings st" by simp_all
  show "control_probe e st1 = control_probe e st" unfolding control_probe_def ow(2) by simp
  show "owSpawned (kcOwn st1) = owSpawned (kcOwn st)" "owMachine (kcOwn st1) = owMachine (kcOwn st)"
    unfolding ow(2) using validate_keeps [OF ow(1)] by simp_all
qed

lemma own_ok_validate: "own_ok (kcOwn st) \<Longrightarrow> own_ok (kcOwn (snd (validate_owner e p st)))"
  by (auto simp: validate_owner_def ValidateForPeer_def Let_def own_ok_steps(5) split: prod.splits)

lemma valid_owner_record:
  assumes "own_ok (kcOwn st)" "validate_owner e p st = (v, st1)" "vOK v"
  shows "\<exists>r ev. v = proved (Some r) ev \<and> proof_holds (kvHost e) (control_probe e st) p (kcOwn st) r"
proof -
  obtain ow where v: "ValidateForPeer (kvHost e) (control_probe e st) p (kcOwn st) = (v, ow)"
    using assms(2) by (auto simp: validate_owner_def split: prod.splits)
  from validate_ok [OF assms(1) v assms(3)] show ?thesis .
qed

lemma destructive_proof_authorised:
  assumes "own_ok (kcOwn st)" "destructivePaneProof e p st = (pr, st1)" "dpOK pr"
  shows "kill_authorised e p st (dpPaneID pr)"
proof (cases "IsSpawned (pane_of p) (kcOwn st)")
  case True
  then show ?thesis using assms(2) by (auto simp: destructivePaneProof_def proof_ok_def kill_authorised_def)
next
  case False
  obtain v st2 where v: "validate_owner e p st = (v, st2)" by fastforce
  show ?thesis
  proof (cases "vOK v")
    case True
    from valid_owner_record [OF assms(1) v True] obtain r ev where "v = proved (Some r) ev"
      "proof_holds (kvHost e) (control_probe e st) p (kcOwn st) r" by blast
    with False v assms(2) show ?thesis by (auto simp: destructivePaneProof_def proof_ok_def proved_def kill_authorised_def)
  next
    case no: False
    then have "pr = pane_metadata_proof e p st2"
      using False v assms(2,3) by (auto simp: destructivePaneProof_def no_proof_def split: if_splits)
    moreover note validate_owner_frame [OF v]
    ultimately show ?thesis using assms(3)
      by (auto simp: pane_metadata_proof_def kill_authorised_def proof_ok_def no_proof_def Let_def split: if_splits option.splits)
  qed
qed

end
