(* ===== verification/Control_Facts.thy ===== *)
theory Control_Facts
  imports Peer_Control Ask_Safety
begin

text \<open>
  What the destructive controls of \<open>Peer_Control\<close> guarantee: which pane a kill may take, when a restart
  reaches tmux, and the pane a kill takes although the peer never ran in it.
\<close>

section \<open>Adopting a record does not widen the proof\<close>

lemma backfill_get:
  assumes "gm_get (owRecords (BackfillPeerID p v ow)) k = Some r2"
  shows "\<exists>r1. gm_get (owRecords ow) k = Some r1 \<and> (r2 = r1 \<or> orPeerID r1 = None \<and> r2 = r1\<lparr>orPeerID := Some (PeerID p)\<rparr>)"
  using assms by (auto simp: BackfillPeerID_def split: option.splits if_splits)

lemma validated_get:
  assumes "ValidateForPeer h probe p ow = (v, ow')" "gm_get (owRecords ow') k = Some r2"
  shows "\<exists>r1. gm_get (owRecords ow) k = Some r1 \<and> (r2 = r1 \<or> orPeerID r1 = None \<and> r2 = r1\<lparr>orPeerID := Some (PeerID p)\<rparr>)"
proof -
  consider "ow' = ow" | w where "ow' = BackfillPeerID p w ow"
    using assms(1) by (auto simp: ValidateForPeer_def Let_def split: if_splits)
  then show ?thesis using assms(2) backfill_get by cases auto
qed

lemma proof_holds_before:
  assumes "ValidateForPeer h probe p ow = (v, ow')" "proof_holds h probe q ow' r2"
    "PeerID q = PeerID p" "Backend q = Backend p" "Circle q = Circle p" "Role q = Role p" "Path q = Path p"
  shows "\<exists>r1. orPaneID r1 = orPaneID r2 \<and> proof_holds h probe p ow r1"
proof -
  obtain r1 where r1: "gm_get (owRecords ow) (orPaneID r2) = Some r1"
    "r2 = r1 \<or> orPeerID r1 = None \<and> r2 = r1\<lparr>orPeerID := Some (PeerID p)\<rparr>"
    using validated_get [OF assms(1)] assms(2) by (auto simp: proof_holds_def)
  then have "proof_holds h probe p ow r1"
    using assms(2-7) validate_keeps(2) [OF assms(1)]
    by (auto simp: proof_holds_def foreign_machine_def foreign_peer_def recordMatchesIdentity_def evidence_matches_def split: option.splits)
  with r1(2) show ?thesis by auto
qed

lemma adopted_cases:
  assumes "peerWithAdoptedOwnership e p st = (q, st1)"
  shows "\<exists>v. validate_owner e p st = (v, st1) \<and> PeerID q = PeerID p \<and> Backend q = Backend p \<and> Circle q = Circle p \<and> Role q = Role p \<and>
     Path q = Path p \<and> Status q = Status p \<and>
     (q = p \<or> (\<exists>r. vOK v \<and> vRecord v = Some r \<and> PaneID q = Some (orPaneID r)))"
  using assms by (auto simp: peerWithAdoptedOwnership_def split: prod.splits option.splits if_splits)

lemma adopted_authorised:
  assumes ok: "own_ok (kcOwn st)" and adopt: "peerWithAdoptedOwnership e p st = (q, st1)" and auth: "kill_authorised e q st1 pane"
  shows "kill_authorised e p st pane"
proof -
  obtain v where v: "validate_owner e p st = (v, st1)" and same: "PeerID q = PeerID p" "Backend q = Backend p" "Circle q = Circle p"
    "Role q = Role p" "Path q = Path p" and qp: "q = p \<or> (\<exists>r. vOK v \<and> vRecord v = Some r \<and> PaneID q = Some (orPaneID r))"
    using adopted_cases [OF adopt] by auto
  note f = validate_owner_frame [OF v]
  obtain ow where ow: "ValidateForPeer (kvHost e) (control_probe e st) p (kcOwn st) = (v, ow)" "kcOwn st1 = ow"
    using v by (auto simp: validate_owner_def split: prod.splits)
  have given: "kill_authorised e p st pane" if "\<exists>r. orPaneID r = pane \<and> proof_holds (kvHost e) (control_probe e st) p (kcOwn st) r"
    using that by (auto simp: kill_authorised_def)
  show ?thesis
  proof (cases "\<exists>r. orPaneID r = pane \<and> proof_holds (kvHost e) (control_probe e st1) q (kcOwn st1) r")
    case True
    then obtain r where "orPaneID r = pane" "proof_holds (kvHost e) (control_probe e st) q ow r" using f(6) ow(2) by auto
    then show ?thesis using proof_holds_before [OF ow(1) _ same] given by blast
  next
    case False
    then have own: "pane = pane_of q" using auth by (auto simp: kill_authorised_def)
    show ?thesis
    proof (cases "q = p")
      case True
      then show ?thesis using auth False f by (auto simp: kill_authorised_def IsSpawned_def)
    next
      case new: False
      then obtain r where r: "vOK v" "vRecord v = Some r" "PaneID q = Some (orPaneID r)" using qp by blast
      obtain r' ev where "v = proved (Some r') ev" "proof_holds (kvHost e) (control_probe e st) p (kcOwn st) r'"
        using validate_ok [OF ok ow(1) r(1)] by blast
      then show ?thesis using given own r by (auto simp: proved_def pane_of_def)
    qed
  qed
qed

section \<open>Killing\<close>

lemma forget_spawned: "\<not> IsSpawned pane (Forget pane ow) \<and> (pane \<noteq> [] \<longrightarrow> gm_get (owRecords (Forget pane ow)) pane = None)"
  by (simp add: Forget_def IsSpawned_def)

lemma destructive_frame:
  assumes "destructivePaneProof e p st = (pr, st1)"
  shows "kcTmux st1 = kcTmux st" "kcMeta st1 = kcMeta st" "kcReg st1 = kcReg st" "kcAsks st1 = kcAsks st"
proof -
  consider "st1 = st" | v where "validate_owner e p st = (v, st1)"
    using assms by (auto simp: destructivePaneProof_def split: if_splits prod.splits)
  then have "kcTmux st1 = kcTmux st \<and> kcMeta st1 = kcMeta st \<and> kcReg st1 = kcReg st \<and> kcAsks st1 = kcAsks st"
  proof cases
    case 2
    from validate_owner_frame [OF this] show ?thesis by simp
  qed simp
  then show "kcTmux st1 = kcTmux st" "kcMeta st1 = kcMeta st" "kcReg st1 = kcReg st" "kcAsks st1 = kcAsks st" by simp_all
qed

lemma adopted_frame:
  assumes "peerWithAdoptedOwnership e p st = (q, st1)"
  shows "kcTmux st1 = kcTmux st" "kcMeta st1 = kcMeta st" "kcReg st1 = kcReg st" "kcAsks st1 = kcAsks st"
    "own_ok (kcOwn st) \<Longrightarrow> own_ok (kcOwn st1)"
proof -
  obtain v where v: "validate_owner e p st = (v, st1)" using adopted_cases [OF assms] by blast
  from validate_owner_frame [OF v] show "kcTmux st1 = kcTmux st" "kcMeta st1 = kcMeta st" "kcReg st1 = kcReg st" "kcAsks st1 = kcAsks st"
    by simp_all
  from own_ok_validate [of st e p] v show "own_ok (kcOwn st) \<Longrightarrow> own_ok (kcOwn st1)" by simp
qed

text \<open>What the answer of a kill says of the peer, the pane and tmux.\<close>

definition kill_outcome :: "'t control_env \<Rightarrow> peer \<Rightarrow> 't control \<Rightarrow> control_error + bool option \<Rightarrow> 't control \<Rightarrow> bool" where
  "kill_outcome e p st res st' = (case res of
       Inr None \<Rightarrow> kcTmux st' = kcTmux st \<and> kcMeta st' = kcMeta st \<and> kcReg st' = fst (UnregisterPeer (kvReg e) (PeerID p) None (kcReg st))
     | Inr (Some killed) \<Rightarrow> killed \<and> kcReg st' = fst (UnregisterPeer (kvReg e) (PeerID p) None (kcReg st)) \<and>
         (\<exists>pane. pane \<noteq> [] \<and> kill_authorised e p st pane \<and> tcKillPane (kvTmux e) pane (kcTmux st) = (True, kcTmux st') \<and>
            \<not> IsSpawned pane (kcOwn st') \<and> gm_get (owRecords (kcOwn st')) pane = None \<and> gm_get (kcMeta st') pane = None)
     | Inl err \<Rightarrow> kcReg st' = kcReg st \<and> (\<exists>pane. pane \<noteq> [] \<and> err = KillFailed pane \<and> kill_authorised e p st pane \<and>
         tcKillPane (kvTmux e) pane (kcTmux st) = (False, kcTmux st')))"

lemma kill_resolved_outcome:
  assumes "own_ok (kcOwn st)" "kill_resolved e p st = (res, st')"
  shows "kill_outcome e p st res st'"
proof -
  obtain q st1 where q: "peerWithAdoptedOwnership e p st = (q, st1)" by fastforce
  obtain pr st2 where pr: "destructivePaneProof e q st1 = (pr, st2)" by fastforce
  have id: "PeerID q = PeerID p" using adopted_cases [OF q] by auto
  note f = adopted_frame [OF q] destructive_frame [OF pr]
  show ?thesis
  proof (cases "dpOK pr \<and> dpPaneID pr \<noteq> []")
    case False
    then show ?thesis using assms(2) q pr f id by (auto simp: kill_resolved_def kill_outcome_def unregister_def)
  next
    case True
    have auth: "kill_authorised e p st (dpPaneID pr)"
      using adopted_authorised [OF assms(1) q] destructive_proof_authorised [OF f(5) [OF assms(1)] pr] True by blast
    obtain ok t where k: "tcKillPane (kvTmux e) (dpPaneID pr) (kcTmux st) = (ok, t)" by fastforce
    then have kp: "kill_pane e (dpPaneID pr) st2 = (ok, st2\<lparr>kcTmux := t\<rparr>)" using f by (simp add: kill_pane_def)
    have res: "(res, st') = (if \<not> ok then (Inl (KillFailed (dpPaneID pr)), st2\<lparr>kcTmux := t\<rparr>)
        else (Inr (Some True), unregister e (PeerID q) (forget_pane (dpPaneID pr) (st2\<lparr>kcTmux := t\<rparr>))))"
      using assms(2) q pr kp True by (simp add: kill_resolved_def)
    show ?thesis
    proof (cases ok)
      case ok: False
      with res k auth True f show ?thesis by (auto simp: kill_outcome_def)
    next
      case ok: True
      with res k auth True f id forget_spawned [of "dpPaneID pr" "kcOwn st2"] show ?thesis
        by (auto simp: kill_outcome_def unregister_def forget_pane_def)
    qed
  qed
qed

text \<open>
  C10: killing a peer. \<open>killPeer\<close> hands tmux a pane only when that pane is the peer's own and was
  spawned by this daemon, or a durable record proves it for the peer, or it is the peer's own, live,
  and its metadata names the peer. Without such a proof no pane is touched and the peer is only
  unregistered. After a kill the pane's record, its place in the spawned set and its metadata are
  gone, so they cannot authorise the next process in a pane of that id; when tmux fails, the peer
  stays registered.
\<close>

theorem kill_is_authorised:
  assumes "own_ok (kcOwn st)" "killPeer e identifier circle st = Some (res, st')"
  shows "\<exists>st1. repair_first e st = Some st1 \<and> (case resolveStrict identifier circle (kcReg st1) of
       Inl err \<Rightarrow> res = Inl err \<and> st' = st1
     | Inr p \<Rightarrow> kill_outcome e p st1 res st')"
proof -
  obtain st1 where st1: "repair_first e st = Some st1" using assms(2) by (auto simp: killPeer_def split: option.splits)
  then have "own_ok (kcOwn st1)" using assms(1) by (auto simp: repair_first_def split: option.splits)
  with st1 assms(2) kill_resolved_outcome show ?thesis by (fastforce simp: killPeer_def split: sum.splits)
qed

section \<open>A pane the peer never ran in\<close>

lemma pane_ids_inj:
  assumes "own_ok ow"
  shows "distinct (map snd (owRecords ow))"
proof -
  have keys: "map orPaneID (map snd (owRecords ow)) = map fst (owRecords ow)"
    using assms by (auto simp: own_ok_def gm_mem_iff [symmetric])
  have "distinct (map orPaneID (map snd (owRecords ow)))" unfolding keys using assms by (simp add: own_ok_def gm_ok_def)
  then show ?thesis by (simp only: distinct_map)
qed

lemma distinct_single: "distinct xs \<Longrightarrow> set xs = {x} \<Longrightarrow> xs = [x]"
  by (cases xs) (auto simp: subset_singleton_iff insert_eq_iff)

lemma map_filter_single: "filter (\<lambda>x. f x \<noteq> None) xs = [x] \<Longrightarrow> f x = Some y \<Longrightarrow> List.map_filter f xs = [y]"
  by (simp add: List.map_filter_def)

lemma found_unique:
  assumes "own_ok ow" "proof_holds h probe p ow r" "\<forall>r'. proof_holds h probe p ow r' \<longrightarrow> r' = r"
  shows "\<exists>ev. findForPeer h probe p ow = proved (Some r) ev"
proof -
  let ?live = "filter (\<lambda>r. live_match h probe r \<noteq> None) (identity_records h p ow)"
  obtain ev where ev: "live_match h probe r = Some (proved (Some r) ev)" using assms(2) by (auto simp: proof_holds_def live_match_def)
  have "(orPaneID r, r) \<in> set (owRecords ow)" using assms(2) by (auto simp: proof_holds_def dest: gm_get_mem)
  then have "r \<in> set (map snd (owRecords ow))" by force
  then have r: "r \<in> set (identity_records h p ow)" using assms(2) by (simp add: identity_records_def proof_holds_def)
  have "x = r" if "x \<in> set ?live" for x
    using identity_record_holds [OF assms(1), of x h p probe] that assms(3) by (simp del: not_None_eq)
  moreover have "r \<in> set ?live" using r ev by simp
  ultimately have s: "set ?live = {r}" by blast
  have "distinct ?live" using pane_ids_inj [OF assms(1)] by (simp add: identity_records_def)
  from distinct_single [OF this s] have "?live = [r]" .
  from map_filter_single [OF this ev] show ?thesis by (auto simp: findForPeer_def Let_def)
qed

text \<open>
  C17: killing the wrong agent. A spawn records its pane without a peer id, because the id is only known
  once the agent registers. If a peer that the user started by hand in its own pane has the backend,
  circle, role and path of such a record, no other record proves a pane for it, and tmux shows the
  recorded pane, then killing that peer kills the spawned agent's pane, reports success and
  unregisters the peer whose process is still running.
\<close>

theorem kill_takes_anothers_pane:
  assumes "own_ok (kcOwn st)" "pane_of p \<noteq> []" "gm_get (owRecords (kcOwn st)) (pane_of p) = None"
    "proof_holds (kvHost e) (control_probe e st) p (kcOwn st) r" "orPeerID r = None" "orPaneID r \<noteq> []"
    "\<forall>r'. proof_holds (kvHost e) (control_probe e st) p (kcOwn st) r' \<longrightarrow> r' = r"
    "tcKillPane (kvTmux e) (orPaneID r) (kcTmux st) = (True, t)"
  shows "orPaneID r \<noteq> pane_of p \<and> (\<exists>st'. kill_resolved e p st = (Inr (Some True), st') \<and> kcTmux st' = t \<and>
     kcReg st' = fst (UnregisterPeer (kvReg e) (PeerID p) None (kcReg st)))"
proof -
  obtain ev where found: "findForPeer (kvHost e) (control_probe e st) p (kcOwn st) = proved (Some r) ev"
    using found_unique [OF assms(1,4,7)] by blast
  have other: "orPaneID r \<noteq> pane_of p" using assms(3,4) by (auto simp: proof_holds_def)
  have "\<not> vOK (validateDirect (kvHost e) (control_probe e st) p (kcOwn st))"
    using assms(2,3) by (simp add: validateDirect_def refused_def)
  then obtain ow where ow: "ValidateForPeer (kvHost e) (control_probe e st) p (kcOwn st) = (proved (Some r) ev, ow)"
    using found assms(2) by (simp add: ValidateForPeer_def proved_def Let_def)
  define q where "q = p\<lparr>PaneID := Some (orPaneID r), TmuxSession := Some (orTmuxSession r), Machine := orMachine r\<rparr>"
  define st1 where "st1 = st\<lparr>kcOwn := ow\<rparr>"
  have "PaneID p \<noteq> Some (orPaneID r)" using other by (auto simp: pane_of_def)
  then have q: "peerWithAdoptedOwnership e p st = (q, st1)"
    using ow by (simp add: peerWithAdoptedOwnership_def validate_owner_def q_def st1_def proved_def)
  have pane: "pane_of q = orPaneID r" by (simp add: q_def pane_of_def)
  have q_same: "PeerID q = PeerID p" "Backend q = Backend p" "Circle q = Circle p" "Role q = Role p" "Path q = Path p"
    by (simp_all add: q_def)
  have ok1: "own_ok ow" using own_ok_validate [OF assms(1), of e p] ow by (simp add: validate_owner_def)
  obtain pr st2 where pr: "destructivePaneProof e q st1 = (pr, st2)" by fastforce
  have proved: "dpOK pr \<and> dpPaneID pr = orPaneID r"
  proof (cases "IsSpawned (orPaneID r) ow")
    case True
    then show ?thesis using pr pane by (auto simp: destructivePaneProof_def st1_def proof_ok_def)
  next
    case False
    obtain r1 where r1: "gm_get (owRecords ow) (orPaneID r) = Some r1" "r1 = r\<lparr>orPeerID := Some (PeerID p)\<rparr> \<or> r1 = r"
      using ow found assms(2,4,5) by (auto simp: ValidateForPeer_def Let_def proved_def proof_holds_def BackfillPeerID_def split: if_splits)
    have "recordMatchesIdentity (kvHost e) r p" "\<not> foreign_machine (kcOwn st) r" using assms(4) by (simp_all add: proof_holds_def)
    moreover obtain ev2 where "control_probe e st (orPaneID r) = Some ev2" "evidence_matches (kvHost e) r ev2"
      using assms(4) by (auto simp: proof_holds_def)
    ultimately have "\<not> foreign_machine ow r1" "recordMatchesIdentity (kvHost e) r1 q" "control_probe e st (orPaneID r) = Some ev2"
      "evidence_matches (kvHost e) r1 ev2" "\<not> foreign_peer q r1"
      using r1(2) assms(5) validate_keeps(2) [OF ow] q_same
      by (auto simp: foreign_machine_def foreign_peer_def recordMatchesIdentity_def evidence_matches_def)
    then have "validateDirect (kvHost e) (control_probe e st) q ow = proved (Some r1) ev2"
      using r1(1) pane assms(6) by (simp add: validateDirect_def)
    then have "\<exists>d. validateDirect (kvHost e) (control_probe e st) q ow = d \<and> vOK d \<and> vRecord d = Some r1" by (simp add: proved_def)
    then obtain d where d: "validateDirect (kvHost e) (control_probe e st) q ow = d" "vOK d" "vRecord d = Some r1" by blast
    have "control_probe e st1 = control_probe e st" "kcOwn st1 = ow" unfolding control_probe_def st1_def by simp_all
    then have "validate_owner e q st1 = (d, st1\<lparr>kcOwn := ow\<rparr>)"
      using pane assms(6) d by (simp add: validate_owner_def ValidateForPeer_def)
    then have "pr = proof_ok (orPaneID r1) (orTmuxSession r1)"
      using pr pane False d(2,3) \<open>kcOwn st1 = ow\<close> by (simp add: destructivePaneProof_def)
    with r1(2) show ?thesis by (auto simp: proof_ok_def)
  qed
  have "kcTmux st2 = kcTmux st" "kcReg st2 = kcReg st" using destructive_frame [OF pr] by (simp_all add: st1_def)
  with q pr proved assms(6,8) other show ?thesis
    by (auto simp: kill_resolved_def kill_pane_def unregister_def forget_pane_def q_def)
qed

section \<open>Restart\<close>

definition no_open_asks :: "string \<Rightarrow> tracker \<Rightarrow> bool" where
  "no_open_asks i t \<longleftrightarrow> gm_select (\<lambda>cid a. \<not> Closed a \<and> involves i a) (tr_asks t) = []"

lemma restart_checks_frame:
  assumes "restart_checks e p st = (res, st1)"
  shows "kcTmux st1 = kcTmux st \<and> kcReg st1 = kcReg st \<and> kcAsks st1 = kcAsks st"
proof -
  obtain q st2 where q: "peerWithAdoptedOwnership e p st = (q, st2)" by fastforce
  obtain pr st3 where pr: "destructivePaneProof e q st2 = (pr, st3)" by fastforce
  have "st1 = st2 \<or> st1 = st3"
    using assms q pr by (auto simp: restart_checks_def split: if_splits sum.splits)
  with adopted_frame(1,3,4) [OF q] destructive_frame(1,3,4) [OF pr] show ?thesis by auto
qed

lemma restart_command_built:
  assumes "restartResumeCommand e p path st = Inr line"
  shows "\<exists>base i. ResolveCommand (kvHost e) (kvService e) (Backend p) None = Inr base \<and> BuildResumeCommand base (Backend p) i = Inr line \<and>
     runtimeSessionValidationStatus (kvHost e) (kvFiles e) path (Backend p) i = ''resumable''"
proof -
  obtain base where base: "ResolveCommand (kvHost e) (kvService e) (Backend p) None = Inr base"
    using assms by (auto simp: restartResumeCommand_def split: sum.splits)
  obtain i rsid capability where target: "restartResumeTarget e p path st = (i, rsid, capability)" by (cases "restartResumeTarget e p path st")
  obtain plan where plan: "ResolveLocalResume (kvHost e) (kvFiles e) (Backend p) path i rsid capability = Some plan"
    using assms base target by (auto simp: restartResumeCommand_def split: if_splits option.splits)
  then have "BuildResumeCommand base (Backend p) i = Inr line"
    using assms base target by (auto simp: restartResumeCommand_def split: if_splits sum.splits)
  with base plan_fields(5) [OF plan] show ?thesis by blast
qed

lemma restart_checked:
  assumes "restart_checks e p st = (Inr x, st1)"
  shows "\<exists>path base i. ValidatePath (kvHost e) (kvService e) (Path p) = Inr path \<and> Circle p \<noteq> [] \<and> PeerID (rxPeer x) = PeerID p \<and>
     ResolveCommand (kvHost e) (kvService e) (Backend p) None = Inr base \<and> BuildResumeCommand base (Backend p) i = Inr (rxCommand x) \<and>
     runtimeSessionValidationStatus (kvHost e) (kvFiles e) path (Backend p) i = ''resumable''"
proof -
  obtain q st2 where q: "peerWithAdoptedOwnership e p st = (q, st2)" by fastforce
  have same: "PeerID q = PeerID p" "Backend q = Backend p" "Circle q = Circle p" "Path q = Path p" using adopted_cases [OF q] by auto
  obtain path command where c: "ValidatePath (kvHost e) (kvService e) (Path q) = Inr path" "Circle q \<noteq> []"
    "restartResumeCommand e q path st2 = Inr command"
    using assms q by (auto simp: restart_checks_def split: if_splits sum.splits)
  obtain pr st3 where pr: "destructivePaneProof e q st2 = (pr, st3)" by fastforce
  have "restart_place e q path command pr st3 = Inr x"
    using assms q c pr by (auto simp: restart_checks_def split: if_splits)
  then have "rxPeer x = q" "rxCommand x = command" by (auto simp: restart_place_def split: if_splits sum.splits)
  with c restart_command_built [OF c(3)] same show ?thesis by auto
qed

lemma restart_execute_asks: "kcAsks (snd (restart_execute e x message st)) = kcAsks st"
  by (auto simp: restart_execute_def restart_kill_def kill_pane_def forget_pane_def Let_def split: prod.splits option.splits if_splits)

lemma restart_go_frame:
  assumes "restart_go e x message st = Some (res, st')"
  shows "(\<forall>j. gm_has (tr_quiescing (kcAsks st')) j = gm_has (tr_quiescing (kcAsks st)) j) \<and>
     (kcTmux st' = kcTmux st \<or> no_open_asks (PeerID (rxPeer x)) (kcAsks st))"
proof (cases "BeginQuiesce (PeerID (rxPeer x)) (kcAsks st)")
  case (Pair err t)
  show ?thesis
  proof (cases err)
    case (Some err')
    then have "t = kcAsks st" using Pair by (auto simp: BeginQuiesce_def split: if_splits)
    moreover obtain refusal t' where r: "quiesce_refusal (Now (kvReg e)) (PeerID (rxPeer x)) err' t = Some (refusal, t')" "st' = st\<lparr>kcAsks := t'\<rparr>"
      using assms Pair Some by (auto simp: restart_go_def Let_def split: option.splits)
    moreover have "tr_quiescing t' = tr_quiescing t"
      using r(1) by (auto simp: quiesce_refusal_def PendingForPeer_def Let_def bind_eq_Some_conv dest!: maybeEvictExpired_quiescing
          split: if_splits option.splits sum.splits)
    ultimately show ?thesis by simp
  next
    case None
    then have b: "no_open_asks (PeerID (rxPeer x)) (kcAsks st)" "\<not> gm_has (tr_quiescing (kcAsks st)) (PeerID (rxPeer x))"
      "t = kcAsks st\<lparr>tr_quiescing := gm_put (PeerID (rxPeer x)) () (tr_quiescing (kcAsks st))\<rparr>"
      using Pair by (auto simp: BeginQuiesce_def no_open_asks_def split: if_splits)
    obtain res1 st1 where ex: "restart_execute e x message (st\<lparr>kcAsks := t\<rparr>) = (res1, st1)" by fastforce
    have "kcAsks st1 = t" using restart_execute_asks [of e x message "st\<lparr>kcAsks := t\<rparr>"] ex by simp
    moreover have "st' = st1\<lparr>kcAsks := EndQuiesce (PeerID (rxPeer x)) (kcAsks st1)\<rparr>"
      using assms Pair None ex by (simp add: restart_go_def)
    ultimately have "tr_quiescing (kcAsks st') = gm_del (PeerID (rxPeer x)) (gm_put (PeerID (rxPeer x)) () (tr_quiescing (kcAsks st)))"
      using b(3) by (simp add: EndQuiesce_def)
    with b show ?thesis by (auto simp: gm_has_def)
  qed
qed


section \<open>Concrete inputs\<close>

definition pane_controller :: "string list controller" where
  "pane_controller = \<lparr>tcSpawn = (\<lambda>cfg t. (Inr \<lparr>srDisplayName = ''a'', srTmuxSession = ''s:a'', srPaneID = ''%3'', srCircle = [], srMessage = None\<rparr>, t @ [''%3''])),
     tcKillPane = (\<lambda>pane t. (pane \<in> set t, filter (\<lambda>x. x \<noteq> pane) t)),
     tcProbePane = (\<lambda>t pane. if pane \<in> set t then demo_probe pane else None)\<rparr>"

definition demo_reg_env :: env where
  "demo_reg_env = \<lparr>Now = 100 * second, PIDAlive = (\<lambda>i. True), Transport = None, ProcProbe = None, StoreErr = (\<lambda>c. None), Uuid = itoa\<rparr>"

definition demo_files :: session_files where
  "demo_files = \<lparr>sfIsFile = (\<lambda>p. False), sfRead = (\<lambda>p. Some ''x''), sfWalk = (\<lambda>root. [root @ ''/rollout-s1.jsonl'']),
     sfParse = (\<lambda>s. Some [(''type'', JStr ''session_meta''), (''payload'', JObj [(''cwd'', JStr ''/w/a'')])])\<rparr>"

definition demo_control_env :: "string list control_env" where
  "demo_control_env = \<lparr>kvReg = demo_reg_env,
     kvProbes = \<lparr>PaneProbe = None, Ping = (\<lambda>i. None), NotifyOK = (\<lambda>a b c. False), HasDelivery = False, NormPath = id\<rparr>,
     kvHost = demo_host, kvFiles = demo_files, kvSelf = ''m'', kvTmux = pane_controller, kvService = demo_service\<rparr>"

definition spawned_peer :: peer where
  "spawned_peer = (owner_peer ''p1'' (Some ''%1''))\<lparr>Metadata := [(''session_id'', JStr ''s1'')]\<rparr>"

definition demo_control :: "string list control" where
  "demo_control = \<lparr>kcReg = (NewRegistry 0 [] [] [])\<lparr>rgPeers := [(''p1'', \<lparr>psPeer = spawned_peer, psState = StateOnline\<rparr>),
       (''p2'', \<lparr>psPeer = owner_peer ''p2'' (Some ''%2''), psState = StateOnline\<rparr>)], rgLastRepair := Some (100 * second)\<rparr>,
     kcAsks = NewAskTracker 0, kcOwn = demo_owned, kcTmux = [''%1'', ''%2''], kcMeta = [], kcBindings = []\<rparr>"

lemma demo_restart_run: "(case handleRestartPeer demo_control_env ''p1'' \<lparr>rqCircle = None, rqDryRun = False, rqMessage = None\<rparr> demo_control of
     Some (Inr r, st) \<Rightarrow> Some (rrCommand r, kcTmux st) | _ \<Rightarrow> None) = Some (''codex resume s1'', [''%2'', ''%3''])"
  by code_simp

lemma demo_kill_run: "(case killPeer demo_control_env ''p2'' None demo_control of
     Some (Inr (Some k), st) \<Rightarrow> Some (k, kcTmux st, map fst (rgPeers (kcReg st))) | _ \<Rightarrow> None) = Some (True, [''%2''], [''p1''])"
  by code_simp

lemma demo_owned_ok: "own_ok demo_owned"
  by (simp add: own_ok_def gm_ok_def gm_get_def demo_owned_def demo_record_def)


lemma kill_is_authorised_witness:
  "\<exists>st'. killPeer demo_control_env ''p2'' None demo_control = Some (Inr (Some True), st') \<and> kcTmux st' = [''%2''] \<and>
     kill_outcome demo_control_env (owner_peer ''p2'' (Some ''%2'')) demo_control (Inr (Some True)) st'"
proof -
  obtain st' where run: "killPeer demo_control_env ''p2'' None demo_control = Some (Inr (Some True), st')" "kcTmux st' = [''%2'']"
    using demo_kill_run by (auto split: option.splits prod.splits sum.splits)
  have repair: "repair_first demo_control_env demo_control = Some demo_control"
    by (simp add: repair_first_def LazyRepair_def demo_control_def demo_control_env_def demo_reg_env_def repairDebounce_def)
  have res: "resolveStrict ''p2'' None (kcReg demo_control) = Inr (owner_peer ''p2'' (Some ''%2''))"
    by (simp add: resolveStrict_def ResolvePeerStrict_def demo_control_def NewRegistry_def gm_get_def)
  have "own_ok (kcOwn demo_control)" using demo_owned_ok by (simp add: demo_control_def)
  from kill_is_authorised [OF this run(1)] repair res run show ?thesis by simp
qed

lemma kill_takes_anothers_pane_witness:
  "\<exists>st'. kill_resolved demo_control_env (owner_peer ''p2'' (Some ''%2'')) demo_control = (Inr (Some True), st') \<and> kcTmux st' = [''%2''] \<and>
     (\<exists>ps. gm_get (rgPeers (kcReg demo_control)) ''p1'' = Some ps \<and> PaneID (psPeer ps) = Some ''%1'')"
proof -
  let ?p = "owner_peer ''p2'' (Some ''%2'')"
  have own: "own_ok (kcOwn demo_control)" using demo_owned_ok by (simp add: demo_control_def)
  have holds: "proof_holds (kvHost demo_control_env) (control_probe demo_control_env demo_control) ?p (kcOwn demo_control) r \<longleftrightarrow> r = demo_record" for r
    by (auto simp: proof_holds_def foreign_machine_def foreign_peer_def recordMatchesIdentity_def evidence_matches_def norm_path_def
        expand_home_def control_probe_def demo_control_env_def pane_controller_def demo_control_def gm_get_def demo_ownership_defs)
  have kill: "tcKillPane (kvTmux demo_control_env) (orPaneID demo_record) (kcTmux demo_control) = (True, [''%2''])"
    by (simp add: demo_control_env_def pane_controller_def demo_control_def demo_record_def)
  have more: "pane_of ?p \<noteq> []" "gm_get (owRecords (kcOwn demo_control)) (pane_of ?p) = None" "orPeerID demo_record = None" "orPaneID demo_record \<noteq> []"
    by (simp_all add: pane_of_def owner_peer_def demo_control_def demo_owned_def demo_record_def gm_get_def)
  from kill_takes_anothers_pane [OF own more(1,2) _ more(3,4) _ kill] holds show ?thesis
    by (auto simp: demo_control_def gm_get_def spawned_peer_def owner_peer_def)
qed

end
