(* ===== verification/Session_Control.thy ===== *)
theory Session_Control
  imports Spawn_Service Resume_Safety Peer_Control Delivery Calendar
begin

text \<open>
  How a durable job gets an agent, \<open>daemon-go/service/session_control.go\<close>. The state \<open>jobs\<close> is the
  \<open>world\<close> of \<open>Delivery\<close> with the calendar and work tables, the pane ownership and the state of tmux.
  The environment adds the spawn service, the file system, the ids the stores mint and, for the wait
  for a fresh agent, the instant of each poll with what happens to the registry before it; the polls
  end where the context is cancelled. The other steps of a call run at the instant of the environment.
  The error a store returns on an unexpected failure is not modelled, and the objects that
  describe a failed spawn carry its reason without the message text.
\<close>

section \<open>State and environment\<close>

record 't jobs =
  joWorld :: world
  joStore :: calendar_store
  joOwn :: ownership
  joTmux :: 't

record 't job_env =
  jvDel :: delivery_env
  jvHost :: host
  jvFiles :: "session_files option"
  jvTmux :: "'t controller"
  jvSpawn :: "spawn_service option"
  jvPolls :: "(gotime \<times> (registry \<Rightarrow> registry)) list"
  jvOpID :: string
  jvOpAttemptID :: string

abbreviation job_now :: "'t job_env \<Rightarrow> gotime" where
  "job_now e \<equiv> Now (deReg (jvDel e))"

abbreviation job_iso :: "'t job_env \<Rightarrow> string" where
  "job_iso e \<equiv> formatISO (job_now e)"

definition job_reg_env :: "'t job_env \<Rightarrow> 't jobs \<Rightarrow> env" where
  "job_reg_env e st = reg_env (jvDel e) (joWorld st)"

definition with_reg :: "registry \<Rightarrow> 't jobs \<Rightarrow> 't jobs" where
  "with_reg r st = st\<lparr>joWorld := (joWorld st)\<lparr>wReg := r\<rparr>\<rparr>"

definition with_ops :: "(op_table \<Rightarrow> op_table) \<Rightarrow> 't jobs \<Rightarrow> 't jobs" where
  "with_ops f st = st\<lparr>joWorld := (joWorld st)\<lparr>wOps := f (wOps (joWorld st))\<rparr>\<rparr>"

section \<open>Policy\<close>

record exec_policy =
  epProcessScope :: string
  epContinuity :: string

definition executionPolicy :: "tracked_work \<Rightarrow> exec_policy" where
  "executionPolicy w =
     (let execution = obj_at (twRequest w) ''execution'';
          target = obj_at execution ''target'';
          assigned = (if str_at target ''assigned_peer_id'' = [] then zero_or (twAssignedPeerID w) else str_at target ''assigned_peer_id'');
          s0 = str_at execution ''process_scope'';
          s1 = (if s0 = [] \<and> assigned = [] \<and> str_at target ''path'' \<noteq> [] \<and> str_at target ''backend'' \<noteq> [] then ''per_fire'' else s0);
          s2 = (if s1 = [] then ''persistent'' else s1);
          scope = (if s2 = ''per-fire'' then ''per_fire'' else s2);
          c0 = str_at execution ''continuity'';
          c1 = (if c0 = [] \<and> scope = ''per_fire'' then (if twSourceKind w = Some ''calendar'' then ''resume'' else ''fresh'') else c0)
      in \<lparr>epProcessScope = scope, epContinuity = (if c1 = [] then ''resume'' else c1)\<rparr>)"

section \<open>Finding a live peer\<close>

definition normalizePath :: "host \<Rightarrow> string \<Rightarrow> string" where
  "normalizePath h path =
     (if path = [] then []
      else (case hsAbs h path of
          None \<Rightarrow> path
        | Some a \<Rightarrow> (case hsEvalSymlinks h a of Some resolved \<Rightarrow> resolved | None \<Rightarrow> a)))"

definition zero_time :: gotime where
  "zero_time = - 62135596800 * second"

definition lastSeen :: "peer \<Rightarrow> gotime" where
  "lastSeen p = (case LastSeen p of Some t \<Rightarrow> t | None \<Rightarrow> zero_time)"

definition better_live :: "peer \<Rightarrow> peer \<Rightarrow> peer" where
  "better_live p best =
     (if (Status p = StatusOnline) \<noteq> (Status best = StatusOnline) then (if Status p = StatusOnline then p else best)
      else if lastSeen best < lastSeen p then p else best)"

definition preferLivePeer :: "peer list \<Rightarrow> peer option" where
  "preferLivePeer candidates = (case candidates of [] \<Rightarrow> None | p # ps \<Rightarrow> Some (fold better_live ps p))"

definition live_candidate :: "host \<Rightarrow> string \<Rightarrow> string \<Rightarrow> string \<Rightarrow> peer \<Rightarrow> bool" where
  "live_candidate h target backend circle p \<longleftrightarrow>
     (Status p = StatusOnline \<or> Status p = StatusBusy) \<and> Circle p = circle \<and> Backend p = backend \<and> normalizePath h (Path p) = target"

definition findLivePeer :: "env \<Rightarrow> host \<Rightarrow> string \<Rightarrow> string \<Rightarrow> string \<Rightarrow> registry \<Rightarrow> registry \<times> peer option" where
  "findLivePeer e h path backend circle r =
     (let (r', peers) = GetAllPeers e r
      in (r', preferLivePeer (filter (live_candidate h (normalizePath h path) backend circle) peers)))"

text \<open>The stable sort by having a pane and then by the most recent sign of life.\<close>

definition findRegisteredSpawnedPeer :: "env \<Rightarrow> host \<Rightarrow> string \<Rightarrow> string \<Rightarrow> string \<Rightarrow> registry \<Rightarrow> registry \<times> peer option" where
  "findRegisteredSpawnedPeer e h target backend circle r =
     (let (r', peers) = GetAllPeers e r;
          candidates = sort_key (\<lambda>p. if PaneID p = None then 1 else 0 :: nat)
            (sort_key (\<lambda>p. - lastSeen p) (filter (live_candidate h target backend circle) peers))
      in (r', case candidates of [] \<Rightarrow> None | p # ps \<Rightarrow> Some p))"

definition spawnRegistrationTimeout :: duration where
  "spawnRegistrationTimeout = 45 * second"

definition registered_check :: "env \<Rightarrow> host \<Rightarrow> string \<Rightarrow> string \<Rightarrow> string \<Rightarrow> string \<Rightarrow> string \<Rightarrow> registry \<Rightarrow> registry \<times> peer option" where
  "registered_check e h displayName circle target backend pane r =
     (if pane \<noteq> []
      then (let (r', p) = GetPeerByPane e pane r
            in (r', case p of Some q \<Rightarrow> if Status q = StatusOffline then None else Some q | None \<Rightarrow> None))
      else (case ResolvePeerStrict displayName (Some circle) r of
          [q] \<Rightarrow> if Status q \<noteq> StatusOffline then (r, Some q) else findRegisteredSpawnedPeer e h target backend circle r
        | _ \<Rightarrow> findRegisteredSpawnedPeer e h target backend circle r))"

fun await_loop :: "(gotime \<Rightarrow> registry \<Rightarrow> registry \<times> peer option) \<Rightarrow> gotime \<Rightarrow> (gotime \<times> (registry \<Rightarrow> registry)) list \<Rightarrow> registry \<Rightarrow>
    registry \<times> peer option" where
  "await_loop check deadline [] r = (r, None)"
| "await_loop check deadline ((now, others) # polls) r =
     (case check now (others r) of
        (r1, Some p) \<Rightarrow> (r1, Some p)
      | (r1, None) \<Rightarrow> if deadline < now then (r1, None) else await_loop check deadline polls r1)"

definition awaitSpawnedPeer :: "'t job_env \<Rightarrow> string \<Rightarrow> string \<Rightarrow> string \<Rightarrow> string \<Rightarrow> string \<Rightarrow> 't jobs \<Rightarrow> peer option \<times> 't jobs" where
  "awaitSpawnedPeer e displayName circle path backend pane st =
     (let (r, p) = await_loop (\<lambda>now. registered_check (job_reg_env e st\<lparr>Now := now\<rparr>) (jvHost e) displayName circle
                     (normalizePath (jvHost e) path) backend pane) (job_now e + spawnRegistrationTimeout) (jvPolls e) (wReg (joWorld st))
      in (p, with_reg r st))"

section \<open>Runtime bindings\<close>

definition first_given :: "string list \<Rightarrow> string" where
  "first_given vs = (case filter (\<lambda>v. v \<noteq> []) vs of [] \<Rightarrow> [] | v # _ \<Rightarrow> v)"

definition runtimeSessionIDForPeer :: "peer \<Rightarrow> string" where
  "runtimeSessionIDForPeer p = first_given (map (str_at (Metadata p)) [''runtime_session_id'', ''hook_session_id'', ''session_id''])"

definition sessionBindingForPeer :: "binding_table \<Rightarrow> peer \<Rightarrow> string \<Rightarrow> binding option" where
  "sessionBindingForPeer db p i =
     (let latest = (case ListBindingsByPeer (PeerID p) db of [] \<Rightarrow> None | b # bs \<Rightarrow> Some b)
      in if i = [] then latest
         else (case GetByRuntimeSession i (Some (Backend p)) (Some (Path p)) db of Some b \<Rightarrow> Some b | None \<Rightarrow> latest))"

definition tmux_block :: "peer \<Rightarrow> jobject" where
  "tmux_block p = [(''tmux_session'', str_or_null (TmuxSession p)), (''pane_id'', str_or_null (PaneID p))]"

definition put_if :: "bool \<Rightarrow> string \<Rightarrow> json \<Rightarrow> jobject \<Rightarrow> jobject" where
  "put_if b k v m = (if b then gm_put k v m else m)"

definition runtimeBindingForPeer :: "binding_table \<Rightarrow> peer \<Rightarrow> tracked_work \<Rightarrow> jobject" where
  "runtimeBindingForPeer db p w =
     (let i = runtimeSessionIDForPeer p;
          b1 = [(''peer_id'', JStr (PeerID p)), (''display_name'', JStr (DisplayName p)), (''backend'', JStr (Backend p)),
                (''path'', JStr (Path p)), (''circle'', JStr (Circle p)), (''status'', JStr (status_string (Status p))),
                (''tmux'', JObj (tmux_block p)), (''work_id'', JStr (WorkID w))];
          b2 = put_if (Metadata p \<noteq> []) ''metadata'' (JObj (Metadata p)) (put_if (i \<noteq> []) ''runtime_session_id'' (JStr i) b1)
      in case sessionBindingForPeer db p i of
           None \<Rightarrow> b2
         | Some sb \<Rightarrow>
             gm_put ''binding_status'' (JStr (sbStatus sb)) (gm_put ''resume_capability'' (JObj (sbResumeCapability sb))
               (gm_put ''source_cursor'' (JObj (sbSourceCursor sb)) (gm_put ''runtime_source_uri'' (str_or_null (sbSourceURI sb))
                 (put_if (zero_or (sbRuntimeSessionID sb) \<noteq> []) ''runtime_session_id'' (JStr (zero_or (sbRuntimeSessionID sb)))
                   (gm_put ''repowire_session_id'' (JStr (sbSessionID sb)) b2))))))"

definition from_calendar :: "tracked_work \<Rightarrow> bool" where
  "from_calendar w \<longleftrightarrow> twSourceKind w = Some ''calendar'' \<and> zero_or (twSourceID w) \<noteq> []"

definition recordRuntimeBinding :: "'t job_env \<Rightarrow> tracked_work \<Rightarrow> peer \<Rightarrow> string \<Rightarrow> string \<Rightarrow> string \<Rightarrow> string \<Rightarrow> 't jobs \<Rightarrow> jobject \<times> 't jobs" where
  "recordRuntimeBinding e w p source operationID processScope continuity st =
     (let b0 = runtimeBindingForPeer (wBindings (joWorld st)) p w;
          b1 = gm_put ''recorded_at'' (JStr (job_iso e)) (gm_put ''source'' (JStr source) b0);
          b2 = put_if (twSourceKind w \<noteq> None) ''source_kind'' (JStr (zero_or (twSourceKind w)))
                 (put_if (twSourceID w \<noteq> None) ''source_id'' (JStr (zero_or (twSourceID w))) b1);
          binding = put_if (continuity \<noteq> []) ''continuity'' (JStr continuity) (put_if (processScope \<noteq> []) ''process_scope'' (JStr processScope)
                 (put_if (operationID \<noteq> []) ''acquired_by_operation_id'' (JStr operationID) b2))
      in (binding,
          if from_calendar w
          then st\<lparr>joStore := (joStore st)\<lparr>csEntries := snd (UpdateCalendarRuntimeBinding (job_iso e) (zero_or (twSourceID w)) binding (csEntries (joStore st)))\<rparr>\<rparr>
          else st))"

text \<open>The plan to resume the session the calendar entry last ran in.\<close>

definition resumePlanFor :: "'t job_env \<Rightarrow> tracked_work \<Rightarrow> string \<Rightarrow> string \<Rightarrow> 't jobs \<Rightarrow> jobject option" where
  "resumePlanFor e w path backend st =
     (case jvFiles e of None \<Rightarrow> None
      | Some fs \<Rightarrow>
         if \<not> from_calendar w then None
         else (case GetCalendarEntry (zero_or (twSourceID w)) (csEntries (joStore st)) of
             None \<Rightarrow> None
           | Some entry \<Rightarrow>
               (let binding = obj_at (ceProvenance entry) ''runtime_binding'';
                    circle = zero_or (twCircle w); bc = str_at binding ''circle''; i = str_at binding ''runtime_session_id'';
                    rs = str_at binding ''repowire_session_id''
                in if str_at binding ''backend'' \<noteq> backend \<or>
                      normalizePath (jvHost e) (str_at binding ''path'') \<noteq> normalizePath (jvHost e) path \<or>
                      circle = [] \<or> (bc \<noteq> [] \<and> bc \<noteq> circle) \<or> i = [] then None
                   else ResolveLocalResume (jvHost e) fs backend path i (if rs = [] then None else Some rs) (obj_at binding ''resume_capability''))))"

section \<open>Operations\<close>

definition start_attempt :: "'t job_env \<Rightarrow> string \<Rightarrow> string \<Rightarrow> jobject \<Rightarrow> 't jobs \<Rightarrow> 't jobs" where
  "start_attempt e operationID strategy detail =
     with_ops (\<lambda>ops. snd (StartAttempt (job_iso e) (jvOpAttemptID e) operationID (stringPtr strategy) detail ops))"

definition complete_op :: "'t job_env \<Rightarrow> string \<Rightarrow> string \<Rightarrow> jobject \<Rightarrow> 't jobs \<Rightarrow> 't jobs" where
  "complete_op e operationID strategy res = with_ops (\<lambda>ops. snd (CompleteOperation (job_iso e) operationID (stringPtr strategy) res ops))"

definition failOp :: "'t job_env \<Rightarrow> string \<Rightarrow> string \<Rightarrow> jobject \<Rightarrow> 't jobs \<Rightarrow> 't jobs" where
  "failOp e operationID strategy err =
     with_ops (\<lambda>ops. snd (FailOperation (job_iso e) operationID ''unavailable'' (stringPtr strategy) err ops))"

section \<open>Acquiring an executor\<close>

record acquisition =
  aqPeer :: peer
  aqStrategy :: string
  aqOperationID :: string
  aqResumePlan :: "jobject option"
  aqRuntimeBinding :: jobject
  aqReleaseHandle :: "jobject option"

record unavailable =
  avReason :: string
  avOperationID :: string
  avStatus :: string
  avPhase :: string
  avErr :: "jobject option"
  avAssignedPeerID :: string

datatype acquire_error = OperationNotCreated string | Unavailable unavailable

definition not_available :: "string \<Rightarrow> string \<Rightarrow> unavailable" where
  "not_available reason operationID =
     \<lparr>avReason = reason, avOperationID = operationID, avStatus = [], avPhase = [], avErr = None, avAssignedPeerID = []\<rparr>"

definition reason_obj :: "string \<Rightarrow> jobject" where
  "reason_obj reason = [(''reason'', JStr reason)]"

text \<open>A refusal of the resolve phase, whose error carries no object, and one after the attempt was started.\<close>

definition refuse :: "'t job_env \<Rightarrow> string \<Rightarrow> string \<Rightarrow> 't jobs \<Rightarrow> (acquire_error + acquisition) \<times> 't jobs" where
  "refuse e operationID reason st =
     (Inl (Unavailable (not_available reason operationID)), failOp e operationID [] (reason_obj reason) st)"

definition refuse_started :: "'t job_env \<Rightarrow> string \<Rightarrow> string \<Rightarrow> bool \<Rightarrow> string \<Rightarrow> jobject \<Rightarrow> 't jobs \<Rightarrow> (acquire_error + acquisition) \<times> 't jobs" where
  "refuse_started e operationID strategy spawning reason detail st =
     (let err = (''reason'', JStr reason) # detail; u = not_available reason operationID
      in (Inl (Unavailable (u\<lparr>avErr := Some err, avStatus := (if spawning then ''failed'' else []), avPhase := (if spawning then ''spawn'' else [])\<rparr>)),
          failOp e operationID strategy err st))"

definition acquireAssignedPeer :: "'t job_env \<Rightarrow> tracked_work \<Rightarrow> string \<Rightarrow> string \<Rightarrow> 't jobs \<Rightarrow> (acquire_error + acquisition) \<times> 't jobs" where
  "acquireAssignedPeer e w operationID assigned st = (case ResolvePeerStrict assigned (twCircle w) (wReg (joWorld st)) of
       [] \<Rightarrow> refuse e operationID ''assigned_peer_not_found'' st
     | [p] \<Rightarrow>
         if Status p = StatusOffline
         then (Inl (Unavailable (not_available ''assigned_peer_offline'' operationID\<lparr>avAssignedPeerID := PeerID p\<rparr>)),
               failOp e operationID [] (reason_obj ''assigned_peer_offline'') st)
         else (let (binding, st1) = recordRuntimeBinding e w p ''assigned_peer'' [] [] [] st;
                   st2 = start_attempt e operationID ''assigned_peer'' [(''peer_id'', JStr (PeerID p)), (''release_handle'', JNull)] st1;
                   st3 = complete_op e operationID ''assigned_peer''
                           [(''peer_id'', JStr (PeerID p)), (''runtime_binding'', JObj binding), (''release_handle'', JNull)] st2
               in (Inr \<lparr>aqPeer = p, aqStrategy = ''assigned_peer'', aqOperationID = operationID, aqResumePlan = None,
                        aqRuntimeBinding = binding, aqReleaseHandle = None\<rparr>, st3))
     | _ \<Rightarrow> refuse e operationID ''ambiguous_assigned_peer'' st)"

definition acquire_reused :: "'t job_env \<Rightarrow> tracked_work \<Rightarrow> string \<Rightarrow> peer \<Rightarrow> 't jobs \<Rightarrow> (acquire_error + acquisition) \<times> 't jobs" where
  "acquire_reused e w operationID p st =
     (let (binding, st1) = recordRuntimeBinding e w p ''reused_peer'' [] [] [] st;
          st2 = start_attempt e operationID ''reused_peer'' [(''peer_id'', JStr (PeerID p))] st1;
          st3 = complete_op e operationID ''reused_peer'' [(''peer_id'', JStr (PeerID p)), (''runtime_binding'', JObj binding)] st2
      in (Inr \<lparr>aqPeer = p, aqStrategy = ''reused_peer'', aqOperationID = operationID, aqResumePlan = None,
               aqRuntimeBinding = binding, aqReleaseHandle = None\<rparr>, st3))"

definition releaseHandleForPeer :: "'t job_env \<Rightarrow> peer \<Rightarrow> string \<Rightarrow> string \<Rightarrow> string \<Rightarrow> jobject option" where
  "releaseHandleForPeer e p processScope operationID strategy =
     (if processScope \<noteq> ''per_fire'' \<or> (strategy \<noteq> ''spawned_peer'' \<and> strategy \<noteq> ''backend_resume'') \<or> zero_or (PaneID p) = [] then None
      else Some [(''kind'', JStr ''tmux_pane''), (''peer_id'', JStr (PeerID p)), (''display_name'', JStr (DisplayName p)),
        (''pane_id'', JStr (zero_or (PaneID p))), (''tmux_session'', str_or_null (TmuxSession p)), (''operation_id'', JStr operationID),
        (''strategy'', JStr strategy), (''created_at'', JStr (job_iso e))])"

definition obj_or_null :: "jobject option \<Rightarrow> json" where
  "obj_or_null v = (case v of Some m \<Rightarrow> JObj m | None \<Rightarrow> JNull)"

definition acquire_registered :: "'t job_env \<Rightarrow> tracked_work \<Rightarrow> exec_policy \<Rightarrow> string \<Rightarrow> string \<Rightarrow> jobject option \<Rightarrow> peer \<Rightarrow> 't jobs \<Rightarrow>
    (acquire_error + acquisition) \<times> 't jobs" where
  "acquire_registered e w policy operationID strategy plan p st =
     (let (binding, st1) = recordRuntimeBinding e w p strategy operationID (epProcessScope policy) (epContinuity policy) st;
          release = releaseHandleForPeer e p (epProcessScope policy) operationID strategy
      in if epProcessScope policy = ''per_fire'' \<and> release = None
         then refuse_started e operationID strategy False ''release_handle_unavailable'' [(''peer_id'', JStr (PeerID p))] st1
         else (Inr \<lparr>aqPeer = p, aqStrategy = strategy, aqOperationID = operationID, aqResumePlan = plan, aqRuntimeBinding = binding,
                    aqReleaseHandle = release\<rparr>,
               complete_op e operationID strategy [(''peer_id'', JStr (PeerID p)), (''tmux'', JObj (tmux_block p)),
                 (''runtime_binding'', JObj binding), (''release_handle'', obj_or_null release)] st1))"

text \<open>The line to launch: the backend's, turned into a resume line when there is a plan.\<close>

definition launch_line :: "'t job_env \<Rightarrow> spawn_service \<Rightarrow> string \<Rightarrow> string option \<Rightarrow> jobject option \<Rightarrow> string + string" where
  "launch_line e s backend profile plan = (case ResolveCommand (jvHost e) s backend profile of
       Inl err \<Rightarrow> Inl ''spawn_failed''
     | Inr command \<Rightarrow> (case plan of
         None \<Rightarrow> Inr command
       | Some pl \<Rightarrow> (case BuildResumeCommand command backend (str_at pl ''runtime_session_id'') of
             Inl err \<Rightarrow> Inl ''resume_command_unavailable''
           | Inr line \<Rightarrow> Inr line)))"

definition job_warmup :: string where
  "job_warmup = ''Repowire spawned this session for a durable job. Please register with the mesh; the job request will arrive as an ask.''"

definition job_spawn_config :: "string \<Rightarrow> string \<Rightarrow> string \<Rightarrow> string \<Rightarrow> spawn_config" where
  "job_spawn_config path circle backend command = \<lparr>scPath = path, scCircle = circle, scBoundary = CircleBoundaryOther [], scTargetPane = [],
     scBackend = backend, scCommand = command, scMessage = Some job_warmup, scRole = Some RoleAgent, scPeerID = None, scEnv = []\<rparr>"

definition acquire_spawned :: "'t job_env \<Rightarrow> tracked_work \<Rightarrow> jobject \<Rightarrow> exec_policy \<Rightarrow> string \<Rightarrow> string \<Rightarrow> string \<Rightarrow> string \<Rightarrow> jobject option \<Rightarrow>
    string \<Rightarrow> 't jobs \<Rightarrow> (acquire_error + acquisition) \<times> 't jobs" where
  "acquire_spawned e w target policy operationID path backend circle plan strategy st =
     (case jvSpawn e of
        None \<Rightarrow> refuse_started e operationID strategy True ''spawn_unavailable'' [] st
      | Some s \<Rightarrow> (case launch_line e s backend (stringPtr (str_at target ''profile'')) plan of
          Inl reason \<Rightarrow> refuse_started e operationID strategy True reason [] st
        | Inr command \<Rightarrow>
            (case Spawn (jvHost e) (job_now e) (jvTmux e) s (job_spawn_config path circle backend command) (joOwn st, joTmux st) of
               (Inl err, ow, t) \<Rightarrow> refuse_started e operationID strategy True ''spawn_failed'' [] (st\<lparr>joOwn := ow, joTmux := t\<rparr>)
             | (Inr out, ow, t) \<Rightarrow>
                 (case awaitSpawnedPeer e (srDisplayName out) circle path backend (srPaneID out) (st\<lparr>joOwn := ow, joTmux := t\<rparr>) of
                    (None, st1) \<Rightarrow> refuse_started e operationID strategy False ''spawned_peer_not_registered'' [] st1
                  | (Some p, st1) \<Rightarrow> acquire_registered e w policy operationID strategy plan p st1))))"

definition acquire_fresh :: "'t job_env \<Rightarrow> tracked_work \<Rightarrow> jobject \<Rightarrow> exec_policy \<Rightarrow> string \<Rightarrow> string \<Rightarrow> string \<Rightarrow> string \<Rightarrow> 't jobs \<Rightarrow>
    (acquire_error + acquisition) \<times> 't jobs" where
  "acquire_fresh e w target policy operationID path backend circle st =
     (let plan = (if epContinuity policy = ''resume'' then resumePlanFor e w path backend st else None);
          strategy = (if plan \<noteq> None then ''backend_resume'' else ''spawned_peer'')
      in acquire_spawned e w target policy operationID path backend circle plan strategy
           (start_attempt e operationID strategy [(''path'', JStr path), (''backend'', JStr backend), (''resume_plan'', obj_or_null plan)] st))"

definition acquire_by_target :: "'t job_env \<Rightarrow> tracked_work \<Rightarrow> jobject \<Rightarrow> exec_policy \<Rightarrow> string \<Rightarrow> 't jobs \<Rightarrow> (acquire_error + acquisition) \<times> 't jobs" where
  "acquire_by_target e w target policy operationID st =
     (let path = str_at target ''path''; backend = str_at target ''backend''; circle = zero_or (twCircle w)
      in if path = [] \<or> backend = [] then refuse e operationID ''missing_target'' st
         else if \<not> agent_valid backend then refuse e operationID ''invalid_backend'' st
         else if circle = [] then refuse e operationID ''missing_circle'' st
         else if epProcessScope policy = ''per_fire'' then acquire_fresh e w target policy operationID path backend circle st
         else (let (r, found) = findLivePeer (job_reg_env e st) (jvHost e) path backend circle (wReg (joWorld st))
               in case found of
                    Some p \<Rightarrow> acquire_reused e w operationID p (with_reg r st)
                  | None \<Rightarrow> acquire_fresh e w target policy operationID path backend circle (with_reg r st)))"

definition acquire_target :: "tracked_work \<Rightarrow> exec_policy \<Rightarrow> jobject \<Rightarrow> jobject" where
  "acquire_target w policy target =
     [(''work_id'', JStr (WorkID w)), (''repowire_session_id'', str_or_null (twRepowireSessionID w)),
      (''source_kind'', str_or_null (twSourceKind w)), (''source_id'', str_or_null (twSourceID w)), (''circle'', str_or_null (twCircle w)),
      (''process_scope'', JStr (epProcessScope policy)), (''continuity'', JStr (epContinuity policy)), (''target'', JObj target)]"

definition AcquireExecutorForWork :: "'t job_env \<Rightarrow> tracked_work \<Rightarrow> jobject \<Rightarrow> string \<Rightarrow> 't jobs \<Rightarrow> (acquire_error + acquisition) \<times> 't jobs" where
  "AcquireExecutorForWork e w target runnerOwnerID st =
     (let policy = executionPolicy w
      in case CreateOperation (job_iso e) (jvOpID e) ''session.acquire_executor'' (acquire_target w policy target)
                [(''requested_by'', JStr runnerOwnerID)] (wOps (joWorld st)) of
           (None, ops) \<Rightarrow> (Inl (OperationNotCreated (jvOpID e)), with_ops (\<lambda>_. ops) st)
         | (Some op, ops) \<Rightarrow>
             (let st1 = with_ops (\<lambda>_. ops) st;
                  assigned = (if str_at target ''assigned_peer_id'' = [] then zero_or (twAssignedPeerID w) else str_at target ''assigned_peer_id'')
              in if assigned \<noteq> [] then acquireAssignedPeer e w (opID op) assigned st1
                 else acquire_by_target e w target policy (opID op) st1))"

section \<open>Releasing it\<close>

definition find_attempt :: "string \<Rightarrow> json list \<Rightarrow> jobject" where
  "find_attempt i attempts = (case find (\<lambda>a. case a of JObj m \<Rightarrow> str_at m ''attempt_id'' = i | _ \<Rightarrow> False) attempts of
       Some (JObj m) \<Rightarrow> m | _ \<Rightarrow> [])"

definition release_answer :: "string \<Rightarrow> string \<Rightarrow> string \<Rightarrow> string \<Rightarrow> jobject" where
  "release_answer status reason operationID terminalReason =
     [(''status'', JStr status), (''reason'', JStr reason), (''operation_id'', JStr operationID), (''terminal_reason'', JStr terminalReason)]"

definition release_pane :: "'t job_env \<Rightarrow> string \<Rightarrow> jobject \<Rightarrow> string \<Rightarrow> 't jobs \<Rightarrow> jobject \<times> 't jobs" where
  "release_pane e operationID release terminalReason st =
     (let pane = str_at release ''pane_id''; i = str_at release ''peer_id'';
          (r, live) = (if i = [] then (wReg (joWorld st), None) else GetPeer (job_reg_env e st) i (wReg (joWorld st)));
          st1 = with_reg r st;
          moved = (case live of Some p \<Rightarrow> (case PaneID p of Some q \<Rightarrow> if q \<noteq> pane then Some q else None | None \<Rightarrow> None) | None \<Rightarrow> None)
      in if pane = []
         then (let err = [(''reason'', JStr ''missing_pane_id''), (''peer_id'', JStr i)]
               in (release_answer ''failed'' ''missing_pane_id'' operationID terminalReason @ [(''reap_error'', JObj err)],
                   failOp e operationID ''kill_pane'' err st))
         else (case moved of
             Some actual \<Rightarrow>
               (let err = [(''reason'', JStr ''release_handle_mismatch''), (''peer_id'', JStr i), (''expected_pane_id'', JStr pane),
                      (''actual_pane_id'', JStr actual)]
                in (release_answer ''failed'' ''release_handle_mismatch'' operationID terminalReason @ [(''reap_error'', JObj err)],
                    failOp e operationID ''kill_pane'' err st1))
           | None \<Rightarrow>
               (let st2 = (if i = [] then st1 else with_reg (fst (UnregisterPeer (job_reg_env e st1) i None (wReg (joWorld st1)))) st1);
                    answer = release_answer ''released'' ''pane_released'' operationID terminalReason @
                      [(''peer_id'', JStr i), (''pane_id'', JStr pane), (''released_at'', JStr (job_iso e))]
                in (answer, complete_op e operationID ''kill_pane'' answer st2))))"

definition ReleaseExecutorForWork :: "'t job_env \<Rightarrow> tracked_work \<Rightarrow> string \<Rightarrow> 't jobs \<Rightarrow> (string + jobject) \<times> 't jobs" where
  "ReleaseExecutorForWork e w terminalReason st =
     (let attemptID = runnerCurrentAttempt w;
          attempt = find_attempt attemptID (toAnySlice (gm_get (obj_at (twProvenance w) ''runner'') ''attempts''))
      in case gm_get (obj_at attempt ''acquisition'') ''release_handle'' of
           Some (JObj release) \<Rightarrow>
             if str_at release ''released_at'' \<noteq> []
             then (Inr (gm_put ''terminal_reason'' (JStr terminalReason) (gm_put ''status'' (JStr ''already_released'') release)), st)
             else (case CreateOperation (job_iso e) (jvOpID e) ''session.release_executor''
                     [(''work_id'', JStr (WorkID w)), (''attempt_id'', JStr attemptID), (''terminal_reason'', JStr terminalReason),
                      (''release_handle'', JObj release)]
                     [(''acquire_operation_id'', case gm_get release ''operation_id'' of Some v \<Rightarrow> v | None \<Rightarrow> JNull)] (wOps (joWorld st)) of
                 (None, ops) \<Rightarrow> (Inl (jvOpID e), with_ops (\<lambda>_. ops) st)
               | (Some op, ops) \<Rightarrow>
                   (let st1 = start_attempt e (opID op) ''kill_pane'' [(''release_handle'', JObj release)] (with_ops (\<lambda>_. ops) st);
                        (answer, st2) = release_pane e (opID op) release terminalReason st1
                    in (Inr answer, st2)))
         | _ \<Rightarrow> (Inr [(''status'', JStr ''skipped''), (''reason'', JStr ''no_release_handle''), (''terminal_reason'', JStr terminalReason)], st))"

end
