(* ===== verification/Session_Facts.thy ===== *)
theory Session_Facts
  imports Session_Control Delivery_Facts Work_Facts
begin

text \<open>
  What an acquisition promises: its operation is settled with the outcome the caller gets, and the
  executor is a live peer that fits the work.
\<close>

section \<open>Operations of one call\<close>

abbreviation job_ops :: "'t jobs \<Rightarrow> op_table" where
  "job_ops st \<equiv> wOps (joWorld st)"

lemma with_ops_simps [simp]:
  "job_ops (with_ops f st) = f (job_ops st)" "wReg (joWorld (with_ops f st)) = wReg (joWorld st)" "joStore (with_ops f st) = joStore st"
  "joOwn (with_ops f st) = joOwn st" "joTmux (with_ops f st) = joTmux st" "wBindings (joWorld (with_ops f st)) = wBindings (joWorld st)"
  by (simp_all add: with_ops_def)

lemma with_reg_simps [simp]:
  "job_ops (with_reg r st) = job_ops st" "wReg (joWorld (with_reg r st)) = r" "joStore (with_reg r st) = joStore st"
  "joOwn (with_reg r st) = joOwn st" "joTmux (with_reg r st) = joTmux st"
  by (simp_all add: with_reg_def)

lemma recorded_ops [simp]: "job_ops (snd (recordRuntimeBinding e w p source i scope continuity st)) = job_ops st"
  by (simp add: recordRuntimeBinding_def Let_def)

lemma recorded_reg [simp]: "wReg (joWorld (snd (recordRuntimeBinding e w p source i scope continuity st))) = wReg (joWorld st)"
  by (simp add: recordRuntimeBinding_def Let_def)

lemma awaited_ops [simp]: "job_ops (snd (awaitSpawnedPeer e name circle path backend pane st)) = job_ops st"
  by (simp add: awaitSpawnedPeer_def split: prod.split)

definition op_failed :: "string \<Rightarrow> string \<Rightarrow> 't jobs \<Rightarrow> bool" where
  "op_failed i reason st \<longleftrightarrow> (\<exists>op. gm_get (job_ops st) i = Some op \<and> opState op = ''unavailable'' \<and> str_at (opError op) ''reason'' = reason)"

definition op_completed :: "string \<Rightarrow> string \<Rightarrow> string \<Rightarrow> 't jobs \<Rightarrow> bool" where
  "op_completed i strategy peer st \<longleftrightarrow> (\<exists>op. gm_get (job_ops st) i = Some op \<and> opState op = ''completed'' \<and> opStrategy op = Some strategy \<and>
     str_at (opResult op) ''peer_id'' = peer)"

definition op_open :: "string \<Rightarrow> 't jobs \<Rightarrow> bool" where
  "op_open i st \<longleftrightarrow> (\<exists>op. gm_get (job_ops st) i = Some op \<and> opID op = i)"

lemma op_method_open:
  assumes "op_open i st" "\<And>op. opID (op_write now (plan op) op op) = opID op"
  shows "\<exists>op. gm_get (snd (op_method now i plan (job_ops st))) i = Some (op_write now (plan op) op op) \<and> opID op = i"
  using assms(1) by (auto simp: op_open_def op_method_def updateOperation_def GetOperation_def Let_def)

lemma start_open: "op_open i st \<Longrightarrow> op_open i (start_attempt e i strategy detail st)"
  using op_method_open [of i st "job_iso e" "start_assign (job_iso e) (jvOpAttemptID e) (stringPtr strategy) detail"]
  by (auto simp: op_open_def start_attempt_def StartAttempt_def op_write_def)

lemma fail_settles:
  assumes "op_open i st" "str_at err ''reason'' = reason"
  shows "op_failed i reason (failOp e i strategy err st)"
  using op_method_open [OF assms(1), of "job_iso e" "fail_assign (job_iso e) ''unavailable'' (stringPtr strategy) err"] assms(2)
  by (auto simp: op_failed_def failOp_def FailOperation_def op_write_def fail_assign_def fail_state_def given_or_def)

lemma complete_settles:
  assumes "op_open i st" "strategy \<noteq> []" "str_at res ''peer_id'' = peer"
  shows "op_completed i strategy peer (complete_op e i strategy res st)"
  using op_method_open [OF assms(1), of "job_iso e" "complete_assign (job_iso e) (stringPtr strategy) res"] assms(2,3)
  by (auto simp: op_completed_def complete_op_def CompleteOperation_def op_write_def complete_assign_def given_or_def stringPtr_def coalesce_def)

lemma op_open_frames [simp]:
  "op_open i (with_reg r st) = op_open i st" "op_open i (snd (recordRuntimeBinding e w p source j scope continuity st)) = op_open i st"
  "op_open i (st\<lparr>joOwn := ow, joTmux := t\<rparr>) = op_open i st"
  by (simp_all add: op_open_def)

section \<open>The peer that is found\<close>

lemma better_live_in: "fold better_live ps p \<in> insert p (set ps)"
proof (induction ps arbitrary: p)
  case (Cons q ps)
  have "better_live q p \<in> {p, q}" by (simp add: better_live_def)
  with Cons.IH [of "better_live q p"] show ?case by auto
qed simp

lemma preferLivePeer_in: "preferLivePeer ps = Some p \<Longrightarrow> p \<in> set ps"
  using better_live_in by (fastforce simp: preferLivePeer_def split: list.splits)

text \<open>No candidate beats the chosen one: online before busy, then the most recent.\<close>

definition beats :: "peer \<Rightarrow> peer \<Rightarrow> bool" where
  "beats q p \<longleftrightarrow> (Status q = StatusOnline \<and> Status p \<noteq> StatusOnline) \<or>
     ((Status q = StatusOnline \<longleftrightarrow> Status p = StatusOnline) \<and> lastSeen p < lastSeen q)"

lemma better_live_alt: "better_live q p = (if beats q p then q else p)"
  by (auto simp: better_live_def beats_def)

lemma beats_trans: "\<not> beats a b \<Longrightarrow> \<not> beats b c \<Longrightarrow> \<not> beats a c"
  by (auto simp: beats_def)

lemma fold_better: "\<forall>q \<in> insert p (set ps). \<not> beats q (fold better_live ps p)"
proof (induction ps arbitrary: p)
  case Nil
  then show ?case by (simp add: beats_def)
next
  case (Cons x ps)
  let ?b = "better_live x p"
  have "\<not> beats x ?b" "\<not> beats p ?b" by (auto simp: better_live_alt) (auto simp: beats_def)
  moreover have "\<not> beats ?b (fold better_live ps ?b)" "\<forall>q\<in>set ps. \<not> beats q (fold better_live ps ?b)" using Cons.IH [of ?b] by simp_all
  ultimately show ?case using beats_trans by (metis fold_simps(2) insert_iff list.simps(15))
qed

lemma findLivePeer_fits:
  assumes "findLivePeer e h path backend circle r = (r', Some p)"
  shows "live_candidate h (normalizePath h path) backend circle p \<and> p \<in> set (snd (GetAllPeers e r)) \<and>
     (\<forall>q \<in> set (snd (GetAllPeers e r)). live_candidate h (normalizePath h path) backend circle q \<longrightarrow> \<not> beats q p)"
proof -
  let ?cands = "filter (live_candidate h (normalizePath h path) backend circle) (snd (GetAllPeers e r))"
  have pref: "preferLivePeer ?cands = Some p" using assms by (auto simp: findLivePeer_def split: prod.splits)
  then obtain q qs where q: "?cands = q # qs" "p = fold better_live qs q" by (auto simp: preferLivePeer_def split: list.splits)
  have "\<forall>x \<in> set ?cands. \<not> beats x p" using fold_better [of q qs] q by simp
  with preferLivePeer_in [OF pref] show ?thesis by auto
qed

lemma findRegistered_live:
  assumes "findRegisteredSpawnedPeer e h target backend circle r = (r', Some p)"
  shows "live_candidate h target backend circle p"
proof -
  let ?cands = "filter (live_candidate h target backend circle) (snd (GetAllPeers e r))"
  obtain ps where "sort_key (\<lambda>p. if PaneID p = None then 1 else 0 :: nat) (sort_key (\<lambda>p. - lastSeen p) ?cands) = p # ps"
    using assms by (auto simp: findRegisteredSpawnedPeer_def Let_def split: prod.splits list.splits)
  then have "p \<in> set ?cands" by (metis list.set_intros(1) set_sort)
  then show ?thesis by simp
qed

lemma registered_live:
  assumes "registered_check e h displayName circle target backend pane r = (r', Some p)"
  shows "Status p \<noteq> StatusOffline"
proof (cases "pane = []")
  case False
  with assms show ?thesis by (auto simp: registered_check_def split: prod.splits option.splits if_splits)
next
  case True
  have fall: "Status p \<noteq> StatusOffline" if "findRegisteredSpawnedPeer e h target backend circle r = (r', Some p)"
    using findRegistered_live [OF that] by (auto simp: live_candidate_def)
  show ?thesis
  proof (cases "ResolvePeerStrict displayName (Some circle) r")
    case Nil
    with assms True fall show ?thesis by (simp add: registered_check_def)
  next
    case (Cons q qs)
    with assms True fall show ?thesis by (cases qs) (auto simp: registered_check_def split: if_splits)
  qed
qed

lemma await_live:
  assumes "\<And>now r r' p. check now r = (r', Some p) \<Longrightarrow> Status p \<noteq> StatusOffline" "await_loop check until polls r = (r', Some p)"
  shows "Status p \<noteq> StatusOffline"
  using assms(2)
proof (induction polls arbitrary: r)
  case (Cons poll polls)
  obtain now others where poll: "poll = (now, others)" by (cases poll)
  obtain r1 found where c: "check now (others r) = (r1, found)" by fastforce
  show ?case
  proof (cases found)
    case (Some q)
    with c assms(1) have "Status q \<noteq> StatusOffline" by blast
    with Cons.prems poll c Some show ?thesis by simp
  next
    case None
    with Cons.prems poll c have "await_loop check until polls r1 = (r', Some p)" by (auto split: if_splits)
    then show ?thesis by (rule Cons.IH)
  qed
qed simp

lemma awaited_live:
  assumes "awaitSpawnedPeer e name circle path backend pane st = (Some p, st')"
  shows "Status p \<noteq> StatusOffline"
proof -
  obtain r where "await_loop (\<lambda>now. registered_check (job_reg_env e st\<lparr>Now := now\<rparr>) (jvHost e) name circle
      (normalizePath (jvHost e) path) backend pane) (job_now e + spawnRegistrationTimeout) (jvPolls e) (wReg (joWorld st)) = (r, Some p)"
    using assms by (auto simp: awaitSpawnedPeer_def split: prod.splits)
  then show ?thesis by (rule await_live [rotated]) (rule registered_live)
qed

section \<open>Every outcome is on record\<close>

definition acquired_ok :: "'t job_env \<Rightarrow> exec_policy \<Rightarrow> string \<Rightarrow> acquire_error + acquisition \<Rightarrow> 't jobs \<Rightarrow> bool" where
  "acquired_ok e policy i res st' = (case res of
       Inl (OperationNotCreated j) \<Rightarrow> False
     | Inl (Unavailable u) \<Rightarrow> avOperationID u = i \<and> op_failed i (avReason u) st'
     | Inr a \<Rightarrow> aqOperationID a = i \<and> op_completed i (aqStrategy a) (PeerID (aqPeer a)) st' \<and> Status (aqPeer a) \<noteq> StatusOffline \<and>
         (epProcessScope policy = ''per_fire'' \<and> aqStrategy a \<noteq> ''assigned_peer'' \<longrightarrow>
            (\<exists>release. aqReleaseHandle a = Some release \<and> str_at release ''pane_id'' = zero_or (PaneID (aqPeer a)) \<and>
               str_at release ''peer_id'' = PeerID (aqPeer a) \<and> str_at release ''pane_id'' \<noteq> [])))"

lemma str_at_simps: "str_at ((k, JStr v) # m) k = v" "k' \<noteq> k \<Longrightarrow> str_at ((k', x) # m) k = str_at m k"
  by (simp_all add: str_at_def gm_get_Cons)

lemma refuse_ok: "op_open i st \<Longrightarrow> refuse e i reason st = (res, st') \<Longrightarrow> acquired_ok e policy i res st'"
  by (auto simp: refuse_def acquired_ok_def not_available_def reason_obj_def str_at_simps intro!: fail_settles)

lemma refuse_started_ok: "op_open i st \<Longrightarrow> refuse_started e i strategy sp reason detail st = (res, st') \<Longrightarrow> acquired_ok e policy i res st'"
  by (auto simp: refuse_started_def acquired_ok_def not_available_def Let_def str_at_simps intro!: fail_settles)

lemma assigned_ok:
  assumes "op_open i st" "acquireAssignedPeer e w i assigned st = (res, st')"
  shows "acquired_ok e policy i res st'"
proof (cases "ResolvePeerStrict assigned (twCircle w) (wReg (joWorld st))")
  case Nil
  with assms refuse_ok show ?thesis by (fastforce simp: acquireAssignedPeer_def)
next
  case (Cons p ps)
  show ?thesis
  proof (cases ps)
    case (Cons q qs)
    with assms \<open>ResolvePeerStrict _ _ _ = _\<close> refuse_ok show ?thesis by (fastforce simp: acquireAssignedPeer_def)
  next
    case Nil
    note one = \<open>ResolvePeerStrict _ _ _ = _\<close> [unfolded Nil]
    show ?thesis
    proof (cases "Status p = StatusOffline")
      case True
      with assms one show ?thesis
        by (auto simp: acquireAssignedPeer_def acquired_ok_def not_available_def reason_obj_def str_at_simps intro!: fail_settles)
    next
      case False
      obtain binding st1 where b: "recordRuntimeBinding e w p ''assigned_peer'' [] [] [] st = (binding, st1)" by fastforce
      have "op_open i st1" using op_open_frames(2) [of i e w p "''assigned_peer''" "[]" "[]" "[]" st] b assms(1) by simp
      from complete_settles [OF start_open [OF this]] False assms(2) one b show ?thesis
        by (auto simp: acquireAssignedPeer_def acquired_ok_def str_at_simps)
    qed
  qed
qed

lemma reused_ok:
  assumes "op_open i st" "acquire_reused e w i p st = (res, st')" "Status p \<noteq> StatusOffline" "epProcessScope policy \<noteq> ''per_fire''"
  shows "acquired_ok e policy i res st'"
proof -
  obtain binding st1 where b: "recordRuntimeBinding e w p ''reused_peer'' [] [] [] st = (binding, st1)" by fastforce
  have "op_open i st1" using op_open_frames(2) [of i e w p "''reused_peer''" "[]" "[]" "[]" st] b assms(1) by simp
  from complete_settles [OF start_open [OF this]] assms(2-4) b show ?thesis
    by (auto simp: acquire_reused_def acquired_ok_def str_at_simps)
qed

lemma registered_ok:
  assumes "op_open i st" "acquire_registered e w policy i strategy plan p st = (res, st')" "Status p \<noteq> StatusOffline"
    "strategy = ''spawned_peer'' \<or> strategy = ''backend_resume''"
  shows "acquired_ok e policy i res st'"
proof -
  obtain binding st1 where b: "recordRuntimeBinding e w p strategy i (epProcessScope policy) (epContinuity policy) st = (binding, st1)" by fastforce
  have open1: "op_open i st1" using op_open_frames(2) [of i e w p strategy i _ _ st] b assms(1) by (metis snd_conv)
  let ?release = "releaseHandleForPeer e p (epProcessScope policy) i strategy"
  have eq: "(res, st') = (if epProcessScope policy = ''per_fire'' \<and> ?release = None
         then refuse_started e i strategy False ''release_handle_unavailable'' [(''peer_id'', JStr (PeerID p))] st1
         else (Inr \<lparr>aqPeer = p, aqStrategy = strategy, aqOperationID = i, aqResumePlan = plan, aqRuntimeBinding = binding, aqReleaseHandle = ?release\<rparr>,
               complete_op e i strategy [(''peer_id'', JStr (PeerID p)), (''tmux'', JObj (tmux_block p)),
                 (''runtime_binding'', JObj binding), (''release_handle'', obj_or_null ?release)] st1))"
    unfolding assms(2) [symmetric] acquire_registered_def b by (simp only: Let_def prod.case)
  show ?thesis
  proof (cases "epProcessScope policy = ''per_fire'' \<and> releaseHandleForPeer e p (epProcessScope policy) i strategy = None")
    case True
    from trans [OF eq if_P [OF True]] have "refuse_started e i strategy False ''release_handle_unavailable'' [(''peer_id'', JStr (PeerID p))] st1 = (res, st')"
      by (rule sym)
    with open1 show ?thesis by (rule refuse_started_ok)
  next
    case False
    have handle: "\<exists>release. releaseHandleForPeer e p ''per_fire'' i strategy = Some release \<and> str_at release ''pane_id'' = zero_or (PaneID p) \<and>
        str_at release ''peer_id'' = PeerID p \<and> str_at release ''pane_id'' \<noteq> []" if "releaseHandleForPeer e p ''per_fire'' i strategy \<noteq> None"
      using that by (auto simp: releaseHandleForPeer_def str_at_simps split: if_splits)
    have "strategy \<noteq> []" using assms(4) by auto
    note settled = complete_settles [OF open1 this, of _ "PeerID p"]
    from trans [OF eq if_not_P [OF False]] have "res = Inr \<lparr>aqPeer = p, aqStrategy = strategy, aqOperationID = i, aqResumePlan = plan,
        aqRuntimeBinding = binding, aqReleaseHandle = ?release\<rparr>" "op_completed i strategy (PeerID p) st'"
      using settled by (auto simp: str_at_simps)
    with False handle assms(3) show ?thesis by (auto simp: acquired_ok_def)
  qed
qed

lemma spawned_ok:
  assumes "op_open i st" "acquire_spawned e w target policy i path backend circle plan strategy st = (res, st')"
    "strategy = ''spawned_peer'' \<or> strategy = ''backend_resume''"
  shows "acquired_ok e policy i res st'"
proof (cases "jvSpawn e")
  case None
  with assms(1,2) refuse_started_ok show ?thesis by (fastforce simp: acquire_spawned_def)
next
  case (Some s)
  show ?thesis
  proof (cases "launch_line e s backend (stringPtr (str_at target ''profile'')) plan")
    case (Inl reason)
    with assms(1,2) Some refuse_started_ok show ?thesis by (fastforce simp: acquire_spawned_def)
  next
    case (Inr command)
    obtain out ow t where sp: "Spawn (jvHost e) (job_now e) (jvTmux e) s (job_spawn_config path circle backend command) (joOwn st, joTmux st) = (out, ow, t)"
      by (metis prod_cases3)
    have open1: "op_open i (st\<lparr>joOwn := ow, joTmux := t\<rparr>)" using assms(1) by simp
    show ?thesis
    proof (cases out)
      case (Inl err)
      with assms(2) Some Inr sp have "refuse_started e i strategy True ''spawn_failed'' [] (st\<lparr>joOwn := ow, joTmux := t\<rparr>) = (res, st')"
        by (simp add: acquire_spawned_def)
      with open1 show ?thesis by (rule refuse_started_ok)
    next
      case out: (Inr r)
      obtain found st1 where aw: "awaitSpawnedPeer e (srDisplayName r) circle path backend (srPaneID r) (st\<lparr>joOwn := ow, joTmux := t\<rparr>) = (found, st1)"
        by fastforce
      have open2: "op_open i st1"
        using awaited_ops [of e "srDisplayName r" circle path backend "srPaneID r" "st\<lparr>joOwn := ow, joTmux := t\<rparr>"] aw open1
        by (simp add: op_open_def)
      show ?thesis
      proof (cases found)
        case None
        with assms(2) Some Inr sp out aw have "refuse_started e i strategy False ''spawned_peer_not_registered'' [] st1 = (res, st')"
          by (simp add: acquire_spawned_def)
        with open2 show ?thesis by (rule refuse_started_ok)
      next
        case p: (Some p)
        with assms(2) Some Inr sp out aw have "acquire_registered e w policy i strategy plan p st1 = (res, st')"
          by (simp add: acquire_spawned_def)
        from registered_ok [OF open2 this awaited_live [OF aw [unfolded p]] assms(3)] show ?thesis .
      qed
    qed
  qed
qed

lemma fresh_ok:
  assumes "op_open i st" "acquire_fresh e w target policy i path backend circle st = (res, st')"
  shows "acquired_ok e policy i res st'"
proof -
  obtain plan strategy where "strategy = ''spawned_peer'' \<or> strategy = ''backend_resume''"
    "acquire_spawned e w target policy i path backend circle plan strategy
       (start_attempt e i strategy [(''path'', JStr path), (''backend'', JStr backend), (''resume_plan'', obj_or_null plan)] st) = (res, st')"
    using assms(2) by (auto simp: acquire_fresh_def Let_def split: if_splits)
  with spawned_ok [OF start_open [OF assms(1)]] show ?thesis by blast
qed

lemma target_ok:
  assumes "op_open i st" "acquire_by_target e w target policy i st = (res, st')"
  shows "acquired_ok e policy i res st'"
proof -
  let ?path = "str_at target ''path''" and ?backend = "str_at target ''backend''" and ?circle = "zero_or (twCircle w)"
  obtain r found where f: "findLivePeer (job_reg_env e st) (jvHost e) ?path ?backend ?circle (wReg (joWorld st)) = (r, found)" by fastforce
  consider reason where "refuse e i reason st = (res, st')"
    | "acquire_fresh e w target policy i ?path ?backend ?circle st = (res, st')"
    | "acquire_fresh e w target policy i ?path ?backend ?circle (with_reg r st) = (res, st')"
    | p where "found = Some p" "acquire_reused e w i p (with_reg r st) = (res, st')" "epProcessScope policy \<noteq> ''per_fire''"
    using assms(2) f by (auto simp: acquire_by_target_def Let_def split: if_splits option.splits)
  then show ?thesis
  proof cases
    case 1
    with assms(1) refuse_ok show ?thesis by blast
  next
    case 2
    with assms(1) fresh_ok show ?thesis by blast
  next
    case 3
    with assms(1) fresh_ok [of i "with_reg r st"] show ?thesis by simp
  next
    case 4
    have "Status p \<noteq> StatusOffline" using findLivePeer_fits [OF f [unfolded 4(1)]] by (auto simp: live_candidate_def)
    with 4 assms(1) reused_ok [of i "with_reg r st"] show ?thesis by simp
  qed
qed


section \<open>A job that starts its own agent\<close>

text \<open>The agent registers with the pane it was started in before the second poll.\<close>

definition job_agent :: peer where
  "job_agent = (owner_peer ''p9'' (Some ''%7''))\<lparr>Circle := ''dev'', LastSeen := Some 0\<rparr>"

definition demo_job_env :: "nat job_env" where
  "demo_job_env = \<lparr>jvDel = demo_delivery_env, jvHost = demo_host, jvFiles = None, jvTmux = demo_controller, jvSpawn = Some demo_service,
     jvPolls = [(100 * second, id), (101 * second, \<lambda>r. r\<lparr>rgPeers := gm_put ''p9'' \<lparr>psPeer = job_agent, psState = StateOnline\<rparr> (rgPeers r)\<rparr>)],
     jvOpID = ''op-9'', jvOpAttemptID = ''oa-9''\<rparr>"

definition demo_jobs :: "nat jobs" where
  "demo_jobs = \<lparr>joWorld = demo_world, joStore = \<lparr>csEntries = [], csWork = []\<rparr>,
     joOwn = \<lparr>owRecords = [], owMachine = ''m'', owSpawned = []\<rparr>, joTmux = 7\<rparr>"

definition demo_target :: jobject where
  "demo_target = [(''path'', JStr ''/w/a''), (''backend'', JStr ''codex'')]"

definition demo_job :: tracked_work where
  "demo_job = prepareWork ''t0'' ''w1'' (sample_work\<lparr>wcCircle := Some ''dev'',
     wcRequest := [(''execution'', JObj [(''target'', JObj demo_target)])]\<rparr>)"

lemma demo_acquired: "(case AcquireExecutorForWork demo_job_env demo_job demo_target ''jobs'' demo_jobs of
     (Inr a, st') \<Rightarrow> aqStrategy a = ''spawned_peer'' \<and> PeerID (aqPeer a) = ''p9'' \<and> aqReleaseHandle a \<noteq> None | _ \<Rightarrow> False)"
  by code_simp


section \<open>Releasing the executor\<close>

text \<open>
  A release writes the operation and unregisters the peer. It kills no pane, and it leaves the row of
  the work alone, so the \<open>released_at\<close> that a second release looks for is never stored.
\<close>

lemma released_pane_frames:
  "release_pane e i release reason st = (answer, st') \<Longrightarrow> joStore st' = joStore st \<and> joTmux st' = joTmux st \<and> joOwn st' = joOwn st"
  by (auto simp: release_pane_def Let_def failOp_def complete_op_def split: prod.splits option.splits if_splits)

lemma start_frames [simp]:
  "joStore (start_attempt e i strategy detail st) = joStore st" "joTmux (start_attempt e i strategy detail st) = joTmux st"
  "joOwn (start_attempt e i strategy detail st) = joOwn st"
  by (simp_all add: start_attempt_def)

lemma release_kills_nothing:
  "joTmux (snd (ReleaseExecutorForWork e w reason st)) = joTmux st \<and> joOwn (snd (ReleaseExecutorForWork e w reason st)) = joOwn st \<and>
     joStore (snd (ReleaseExecutorForWork e w reason st)) = joStore st"
proof (cases "gm_get (obj_at (find_attempt (runnerCurrentAttempt w) (toAnySlice (gm_get (obj_at (twProvenance w) ''runner'') ''attempts''))) ''acquisition'')
    ''release_handle''")
  case None
  then show ?thesis by (simp add: ReleaseExecutorForWork_def Let_def)
next
  case (Some v)
  then show ?thesis
    by (cases v) (auto simp: ReleaseExecutorForWork_def Let_def dest: released_pane_frames split: prod.split option.split)
qed

end
