(* ===== verification/Spec2Isabelle.thy ===== *)
theory Spec2Isabelle
  imports Ask_Replies Cron_Facts Registry_Closed Iso_Parse Queue_History Work_Races Calendar_Run Scheduler_Runs
    Trace_Store Transport_Facts Delivery_Facts Control_Facts Session_Facts
begin

text \<open>
  Repowire is a daemon (\<open>daemon-go/\<close>) that lets coding agents address each other: it keeps a registry
  of peers, routes questions and answers between them, and keeps the durable tables behind both.
  This development models its core in Isabelle/HOL and proves the properties the rest of the daemon
  relies on.

  \<^bold>\<open>The parts and the code they follow.\<close>

  \<^item> \<open>Repo_Prelude\<close>: Go maps as association lists (\<open>gm_get\<close>, \<open>gm_put\<close>, \<open>gm_del\<close>, ...), decoded JSON
    values, and the interface \<open>keyed_store\<close> every table of the daemon satisfies.
  \<^item> \<open>Proto\<close>: the wire enums and records of \<open>proto/proto.go\<close>.
  \<^item> \<open>Lifecycle\<close>: the state machine of \<open>peer/fsm.go\<close> (\<open>Apply\<close>, \<open>ToStatus\<close>).
  \<^item> \<open>Ask_Tracker\<close>, \<open>Ask_Invariant\<close>, \<open>Ask_Safety\<close>, \<open>Ask_Replies\<close>: \<open>service/ask_tracker.go\<close>. The state is
    the record \<open>tracker\<close>; a Go channel of capacity 1 is a list of at most one answer, and an operation
    that would block for ever while it holds the mutex is None. A wait is two steps, the one that
    obtains the channel and the one that receives or times out.
  \<^item> \<open>Go_Strings\<close>, \<open>Cron\<close>, \<open>Cron_Facts\<close>: \<open>service/cron.go\<close> and what it uses of \<open>strings\<close> and \<open>strconv\<close>.
  \<^item> \<open>Go_Time\<close>, \<open>Event_Buffer\<close>: \<open>peer/events.go\<close>.
  \<^item> \<open>Registry_State\<close>, \<open>Registry_Naming\<close>, \<open>Registry_Allocate\<close>, \<open>Registry_Ops\<close>: \<open>peer/registry.go\<close>,
    \<open>registry_read.go\<close>, \<open>registry_access.go\<close>, \<open>registry_lifecycle_byname.go\<close> and \<open>claim_role.go\<close>. The
    state is the record \<open>registry\<close>, and the tables behind the \<open>Store\<close> interface are its \<open>rgDb\<close>
    fields; what the registry calls through an interface is the record \<open>env\<close>.
  \<^item> \<open>Reconcile\<close>: \<open>peer/reconcile.go\<close> and \<open>LazyRepair\<close>, each pass split where the code releases the
    lock.
  \<^item> \<open>Iso_Time\<close>, \<open>Iso_Order\<close>, \<open>Iso_Parse\<close>: the timestamp columns, \<open>formatISO\<close> of \<open>state/store.go\<close> and
    \<open>workParseISO\<close> of \<open>state/work.go\<close>. \<open>Sql_Table\<close>: rows under their primary key, text columns ordered
    by their bytes, and the statements the stores use.
  \<^item> \<open>Delivery_Queue\<close>, \<open>Queue_Facts\<close>, \<open>Queue_History\<close>: \<open>state/queued_deliveries.go\<close>.
  \<^item> \<open>Work_Store\<close>, \<open>Work_Facts\<close>, \<open>Work_Safety\<close>, \<open>Work_Races\<close>: \<open>state/work.go\<close> and the attempts and
    recovery of \<open>state/work_runner.go\<close>. A method is the statement that reads a row, a decision on that
    row and the statement that writes it; the step relation \<open>work_reach\<close> interleaves the statements
    of concurrent calls, \<open>work_run\<close> runs whole calls one after the other.
  \<^item> \<open>Next_Fire\<close>: the contract between the cron search and those who advance an entry. \<open>Calendar\<close>,
    \<open>Calendar_Facts\<close>, \<open>Calendar_Run\<close>: \<open>state/calendar.go\<close> and \<open>MaterializeDue\<close> of
    \<open>state/work_status.go\<close>; \<open>cal_reach\<close> interleaves materializers, clients and work calls.
  \<^item> \<open>Schedules\<close>, \<open>Scheduler\<close>, \<open>Scheduler_Facts\<close>, \<open>Scheduler_Runs\<close>: \<open>state/schedules.go\<close> and the loop of
    \<open>service/scheduler.go\<close>. The Go interface \<open>schedulerStore\<close> is the record \<open>scheduler_store\<close>, its
    contract the locale \<open>schedule_contract\<close>, which the table is shown to keep.

  \<^item> \<open>Cert_Store\<close>, \<open>Binding_Store\<close>, \<open>Op_Store\<close>, \<open>Trace_Store\<close>: \<open>state/runtime_certs.go\<close>,
    \<open>session_bindings.go\<close>, \<open>operations.go\<close> and \<open>delivery_traces.go\<close>.
  \<^item> \<open>Ws_Transport\<close>, \<open>Transport_Facts\<close>: \<open>service/transport.go\<close>. The state is the record \<open>transport\<close>; sockets are
    numbers, and the frames written and the sockets closed are recorded in order. \<open>Routing\<close>:
    \<open>service/router.go\<close>. \<open>Recall\<close>: \<open>service/orchestrator_recall.go\<close>. \<open>Acp_Reconcile\<close>:
    \<open>service/acp_reconcile.go\<close>. \<open>Ask_Many\<close>: \<open>service/ask_many.go\<close>.
  \<^item> \<open>Delivery\<close>, \<open>Broadcast\<close>, \<open>Delivery_Facts\<close>: \<open>service/delivery.go\<close>, where the components meet. The
    state is the record \<open>world\<close> with the registry, the transport, the ask tracker, the delivery queue,
    the operations and the bindings; what the network, the broker and the clock decide is the record
    \<open>delivery_env\<close>. A call runs without steps of other goroutines in between.
  \<^item> \<open>Shell_Command\<close>: the command lines of \<open>service/spawn_service.go\<close> and \<open>service/agent_backends.go\<close>.
    \<open>Pane_Ownership\<close>: \<open>service/pane_ownership.go\<close>. \<open>Spawn_Service\<close>: the rest of \<open>spawn_service.go\<close> and the
    reader of its hints in \<open>hooks/common.go\<close>; tmux is a function from a command and its state.
    \<open>Resume_Safety\<close>: \<open>service/resume_safety.go\<close>. \<open>Peer_Control\<close>, \<open>Control_Facts\<close>: the spawn, kill, restart,
    fork and rehook routes of \<open>hub/routes_spawn.go\<close>, on the record \<open>control\<close> with registry, tracker,
    ownership, tmux and pane metadata.
  \<^item> \<open>Session_Control\<close>, \<open>Session_Facts\<close>: \<open>service/session_control.go\<close>, which gets an agent for a durable
    job. The state is the record \<open>jobs\<close>: the \<open>world\<close> with calendar, work, ownership and tmux; the polls of
    a wait are a list of instants with what happens to the registry before each.

  \<^bold>\<open>What the lemmas show.\<close>

  \<^item> Invariants: \<open>Ask_Invariant\<close> for the tracker; \<open>Registry_Invariant\<close>, \<open>Registry_Preserve\<close>,
    \<open>Registry_Steps\<close> and \<open>Reconcile_Invariant\<close> for each operation of the registry; \<open>Registry_Machine\<close>
    puts the operations of registry and tracker into one step relation and proves the invariant of
    every reachable state.
  \<^item> Safety across operations: \<open>Ask_Safety\<close> (no blocking, terminal states, the quiesce barrier),
    \<open>Registry_Closed\<close> (a closed peer stays closed, also over a restart), \<open>Registry_Access\<close> (resolution,
    circles, roles, panes), \<open>Reconcile_Stash\<close> (no stash is lost without an event),
    \<open>Reconcile_Redelivery\<close>.
  \<^item> The durable tables: the order of the timestamp strings is the order of the instants
    (\<open>Iso_Order\<close>), they parse back (\<open>Iso_Parse\<close>), a queued delivery is handed out at most once and the
    oldest first (\<open>Queue_History\<close>), work rows stay well formed under every interleaving (\<open>Work_Facts\<close>),
    finished work stays finished and an old attempt cannot finish it (\<open>Work_Safety\<close>), and two races
    the code has (\<open>Work_Races\<close>). Each due slot of a recurring entry becomes one piece of work
    (\<open>Calendar_Facts\<close>), an undisturbed run meets its specification (\<open>Calendar_Run\<close>), a one-shot schedule is
    delivered at most once, and a sleep longer than an hour ends too soon (\<open>Scheduler_Runs\<close>).
  \<^item> Certificates prove the runtime they were minted for (\<open>Cert_Store\<close>), an operation agrees with its
    last attempt (\<open>Op_Store\<close>), a transcript has one binding (\<open>Binding_Store\<close>), stages come back in the
    order they were recorded (\<open>Trace_Store\<close>), and asks lost in a restart are closed and reported once
    (\<open>Acp_Reconcile\<close>).
  \<^item> Between components: frames reach whoever waits and a peer is served by its latest socket
    (\<open>Transport_Facts\<close>); a notification is delivered, queued or reported as an error, replies of a
    subprocess are kept, scheduled asks are rolled back when they fail (\<open>Delivery_Facts\<close>), and a
    broadcast stays in the sender's circle (\<open>Broadcast\<close>).
  \<^item> Agents in tmux: a launched line means its arguments (\<open>Shell_Command\<close>), an accepted record proves the
    pane (\<open>Pane_Ownership\<close>), a spawn is gated and recorded and hints are read in order (\<open>Spawn_Service\<close>), a
    pane is killed only with a proof, a restart reaches tmux only when the session can be resumed, and
    a proof may name another agent's pane (\<open>Control_Facts\<close>). An acquisition settles its operation with
    the outcome the caller gets, and a release kills nothing (\<open>Session_Facts\<close>).
  \<^item> Functional correctness: \<open>Cron_Facts\<close>, \<open>Registry_Naming\<close>, \<open>Event_Buffer\<close>, \<open>Ask_Replies\<close>,
    \<open>Reconcile_Facts\<close>.

  \<^bold>\<open>Conventions.\<close> Time is \<open>int\<close> nanoseconds; a function that reads the clock takes the instant as an
  argument. A Go map iterates in an unspecified order: the models iterate in the order of the
  association list, and a theorem about a loop holds for every such list. Counters of 64 bits are
  words or wrap explicitly.

  \<^bold>\<open>Bounds.\<close> The loop of a cron field runs with fuel 200: the values lie between 0 and 59, and
  \<open>cron_field_loop_terminates\<close> shows that this is enough for every step, also when the addition wraps.
  The search for the next firing ends by its measure, the minutes left before the deadline. The name
  loop of \<open>buildDisplayName\<close> ends because each taken suffix belongs to another peer, that of
  \<open>uniqueWindowName\<close> because each belongs to another window. The facts on
  timestamps hold from 1970 to the year 9999 (\<open>iso_range\<close>), where the year has four digits, and those
  on next firings until a year before (\<open>fire_range\<close>).

  \<^bold>\<open>Not modelled.\<close> The HTTP and websocket layer (\<open>hub/\<close>, apart from the routes above), the hooks, the command line, the relay and
  the bridges are process, file and network I/O around these operations. SQL is not interpreted: an
  operation of \<open>state/\<close> that is modelled is the effect of its statements on the rows.
\<close>

end
